(* ===== verification/Prelude.thy ===== *)
theory Prelude
  imports Complex_Main "HOL-Library.Multiset"
begin

text \<open>
  The prelude of the development: the effect type in which every service method of the
  platform is written, the combinators that mirror Go's error handling, the locale that
  lifts a preorder on states through them, and list lemmas shared by the components.

  A Go method with a receiver that talks to PostgreSQL and returns \<open>(T, error)\<close> becomes a
  function of type \<open>('w, 'e, 'a) eff\<close>: from the state of the world to either an error
  (\<open>Inl\<close>) or a result (\<open>Inr\<close>), together with the state left behind. Nothing is undone when
  a method fails half way: the state that reaches the caller is the one the statements
  executed so far have produced, as in the program.
\<close>

section \<open>Effects\<close>

type_synonym ('w, 'e, 'a) eff = "'w \<Rightarrow> ('e + 'a) \<times> 'w"

definition ret :: "'a \<Rightarrow> ('w, 'e, 'a) eff" where
  "ret a = (\<lambda>w. (Inr a, w))"

definition throw :: "'e \<Rightarrow> ('w, 'e, 'a) eff" where
  "throw e = (\<lambda>w. (Inl e, w))"

text \<open>\<open>x, err := m(); if err != nil { return err }; k(x)\<close>\<close>

definition bnd :: "('w, 'e, 'a) eff \<Rightarrow> ('a \<Rightarrow> ('w, 'e, 'b) eff) \<Rightarrow> ('w, 'e, 'b) eff" where
  "bnd m k = (\<lambda>w. case m w of (Inl e, w') \<Rightarrow> (Inl e, w') | (Inr a, w') \<Rightarrow> k a w')"

definition seq_eff :: "('w, 'e, 'a) eff \<Rightarrow> ('w, 'e, 'b) eff \<Rightarrow> ('w, 'e, 'b) eff" where
  "seq_eff m n = bnd m (\<lambda>_. n)"

text \<open>\<open>x, err := m()\<close> with the error inspected by the code that follows.\<close>

definition attempt :: "('w, 'e, 'a) eff \<Rightarrow> ('w, 'e, 'e + 'a) eff" where
  "attempt m = (\<lambda>w. case m w of (r, w') \<Rightarrow> (Inr r, w'))"

text \<open>\<open>_ = m()\<close>, and \<open>if err := m(); err != nil { log }\<close>.\<close>

definition ignore :: "('w, 'e, 'a) eff \<Rightarrow> ('w, 'e, unit) eff" where
  "ignore m = (\<lambda>w. case m w of (_, w') \<Rightarrow> (Inr (), w'))"

definition gets :: "('w \<Rightarrow> 'a) \<Rightarrow> ('w, 'e, 'a) eff" where
  "gets f = (\<lambda>w. (Inr (f w), w))"

definition modify :: "('w \<Rightarrow> 'w) \<Rightarrow> ('w, 'e, unit) eff" where
  "modify f = (\<lambda>w. (Inr (), f w))"

text \<open>\<open>for _, x := range xs { ... }\<close>: the first error returned from the body ends the loop.\<close>

primrec for_each :: "'a list \<Rightarrow> ('a \<Rightarrow> ('w, 'e, unit) eff) \<Rightarrow> ('w, 'e, unit) eff" where
  "for_each [] f = ret ()"
| "for_each (x # xs) f = seq_eff (f x) (for_each xs f)"

text \<open>The same loop when the body appends to a slice: each round contributes a list.\<close>

primrec collect :: "'a list \<Rightarrow> ('a \<Rightarrow> ('w, 'e, 'b list) eff) \<Rightarrow> ('w, 'e, 'b list) eff" where
  "collect [] f = ret []"
| "collect (x # xs) f = bnd (f x) (\<lambda>ys. bnd (collect xs f) (\<lambda>zs. ret (ys @ zs)))"

named_theorems eff_defs \<open>definitions of the effect combinators\<close>

lemmas eff_basics [eff_defs] =
  ret_def throw_def bnd_def seq_eff_def attempt_def ignore_def gets_def modify_def

lemma bnd_ret [simp]: "bnd (ret a) k = k a"
  by (simp add: eff_defs)

lemma bnd_throw [simp]: "bnd (throw e) k = throw e"
  by (simp add: eff_defs)

lemma bnd_assoc: "bnd (bnd m k) h = bnd m (\<lambda>a. bnd (k a) h)"
  by (rule ext) (simp add: eff_defs split: prod.splits sum.splits)

lemma seq_ret [simp]: "seq_eff (ret a) m = m"
  by (simp add: seq_eff_def)

lemma for_each_append: "for_each (xs @ ys) f = seq_eff (for_each xs f) (for_each ys f)"
  by (induction xs) (simp_all add: seq_eff_def bnd_assoc)

text \<open>Running an effect: what it returns and the state it leaves.\<close>

definition result :: "('w, 'e, 'a) eff \<Rightarrow> 'w \<Rightarrow> 'e + 'a" where
  "result m w = fst (m w)"

definition final :: "('w, 'e, 'a) eff \<Rightarrow> 'w \<Rightarrow> 'w" where
  "final m w = snd (m w)"

lemma run_eq: "m w = (result m w, final m w)"
  by (simp add: result_def final_def)

lemma final_simps [simp]:
  "final (ret a) w = w" "final (throw e) w = w" "final (gets f) w = w"
  "final (modify g) w = g w" "final (attempt m) w = final m w" "final (ignore m) w = final m w"
  by (simp_all add: final_def eff_defs split: prod.splits)

lemma result_simps [simp]:
  "result (ret a) w = Inr a" "result (throw e) w = Inl e" "result (gets f) w = Inr (f w)"
  "result (modify g) w = Inr ()" "result (attempt m) w = Inr (result m w)"
  "result (ignore m) w = Inr ()"
  by (simp_all add: result_def eff_defs split: prod.splits)

lemma result_bnd:
  "result (bnd m k) w = (case result m w of Inl e \<Rightarrow> Inl e | Inr a \<Rightarrow> result (k a) (final m w))"
  by (simp add: result_def final_def eff_defs split: prod.splits sum.splits)

lemma final_bnd:
  "final (bnd m k) w = (case result m w of Inl e \<Rightarrow> final m w | Inr a \<Rightarrow> final (k a) (final m w))"
  by (simp add: result_def final_def eff_defs split: prod.splits sum.splits)

lemma result_seq:
  "result (seq_eff m n) w = (case result m w of Inl e \<Rightarrow> Inl e | Inr a \<Rightarrow> result n (final m w))"
  by (simp add: seq_eff_def result_bnd)

lemma final_seq:
  "final (seq_eff m n) w = (case result m w of Inl e \<Rightarrow> final m w | Inr a \<Rightarrow> final n (final m w))"
  by (simp add: seq_eff_def final_bnd)

lemmas eff_run = result_bnd final_bnd result_seq final_seq

lemma result_if [simp]: "result (if b then m else n) w = (if b then result m w else result n w)"
  by simp

lemma final_if [simp]: "final (if b then m else n) w = (if b then final m w else final n w)"
  by simp

section \<open>Preorders carried through effects\<close>

text \<open>
  \<open>keeps R m\<close>: whatever state \<open>m\<close> starts in and however it ends, the state it leaves is
  related to the one it found. For a preorder \<open>R\<close> the property composes through every
  combinator, so a service method keeps \<open>R\<close> as soon as its statements do. Taking
  \<open>R w w' = (I w \<longrightarrow> I w')\<close> gives preservation of an invariant; other choices give
  monotonicity and frame properties.
\<close>

definition keeps :: "('w \<Rightarrow> 'w \<Rightarrow> bool) \<Rightarrow> ('w, 'e, 'a) eff \<Rightarrow> bool" where
  "keeps R m \<longleftrightarrow> (\<forall>w. R w (final m w))"

named_theorems eff_intro \<open>introduction rules for \<open>keeps\<close>\<close>

lemma keepsI: "(\<And>w. R w (final m w)) \<Longrightarrow> keeps R m"
  by (simp add: keeps_def)

lemma keepsD: "keeps R m \<Longrightarrow> R w (final m w)"
  by (simp add: keeps_def)

lemma keeps_if [eff_intro]:
  "(b \<Longrightarrow> keeps R m) \<Longrightarrow> (\<not> b \<Longrightarrow> keeps R n) \<Longrightarrow> keeps R (if b then m else n)"
  by simp

lemma keeps_case_option [eff_intro]:
  "(x = None \<Longrightarrow> keeps R m) \<Longrightarrow> (\<And>a. x = Some a \<Longrightarrow> keeps R (n a)) \<Longrightarrow>
   keeps R (case x of None \<Rightarrow> m | Some a \<Rightarrow> n a)"
  by (cases x) simp_all

lemma keeps_case_sum [eff_intro]:
  "(\<And>a. x = Inl a \<Longrightarrow> keeps R (m a)) \<Longrightarrow> (\<And>a. x = Inr a \<Longrightarrow> keeps R (n a)) \<Longrightarrow>
   keeps R (case x of Inl a \<Rightarrow> m a | Inr a \<Rightarrow> n a)"
  by (cases x) simp_all

lemma keeps_case_list [eff_intro]:
  "(x = [] \<Longrightarrow> keeps R m) \<Longrightarrow> (\<And>a as. x = a # as \<Longrightarrow> keeps R (n a as)) \<Longrightarrow>
   keeps R (case x of [] \<Rightarrow> m | a # as \<Rightarrow> n a as)"
  by (cases x) simp_all

lemma keeps_case_prod [eff_intro]:
  "(\<And>a b. x = (a, b) \<Longrightarrow> keeps R (m a b)) \<Longrightarrow> keeps R (case x of (a, b) \<Rightarrow> m a b)"
  by (cases x) simp

locale effect_preorder =
  fixes R :: "'w \<Rightarrow> 'w \<Rightarrow> bool"
  assumes R_refl: "R w w"
    and R_trans: "R u v \<Longrightarrow> R v w \<Longrightarrow> R u w"
begin

lemma keeps_ret [eff_intro]: "keeps R (ret a)"
  by (simp add: keeps_def R_refl)

lemma keeps_throw [eff_intro]: "keeps R (throw e)"
  by (simp add: keeps_def R_refl)

lemma keeps_gets [eff_intro]: "keeps R (gets f)"
  by (simp add: keeps_def R_refl)

lemma keeps_attempt [eff_intro]: "keeps R m \<Longrightarrow> keeps R (attempt m)"
  by (simp add: keeps_def)

lemma keeps_ignore [eff_intro]: "keeps R m \<Longrightarrow> keeps R (ignore m)"
  by (simp add: keeps_def)

lemma keeps_bnd [eff_intro]:
  assumes m: "keeps R m" and k: "\<And>a. keeps R (k a)"
  shows "keeps R (bnd m k)"
proof (rule keepsI)
  fix w
  show "R w (final (bnd m k) w)"
  proof (cases "result m w")
    case (Inl e)
    with m show ?thesis by (simp add: final_bnd keeps_def)
  next
    case (Inr a)
    have "R w (final m w)" and "R (final m w) (final (k a) (final m w))"
      using m k by (simp_all add: keeps_def)
    with Inr show ?thesis by (auto simp: final_bnd intro: R_trans)
  qed
qed

lemma keeps_seq [eff_intro]: "keeps R m \<Longrightarrow> keeps R n \<Longrightarrow> keeps R (seq_eff m n)"
  unfolding seq_eff_def by (rule keeps_bnd)

lemma keeps_for_each [eff_intro]:
  "(\<And>x. x \<in> set xs \<Longrightarrow> keeps R (f x)) \<Longrightarrow> keeps R (for_each xs f)"
  by (induction xs) (auto intro: keeps_ret keeps_seq)

lemma keeps_collect [eff_intro]:
  "(\<And>x. x \<in> set xs \<Longrightarrow> keeps R (f x)) \<Longrightarrow> keeps R (collect xs f)"
  by (induction xs) (auto intro!: keeps_ret keeps_bnd)

end

section \<open>Triples\<close>

text \<open>
  \<open>hoare P m Q E\<close>: from a state with \<open>P\<close>, a result \<open>a\<close> comes with \<open>Q a\<close> and an error with
  \<open>E\<close> of the state left behind. Used where a later statement depends on what an earlier
  one returned; an invariant \<open>I\<close> kept on every path is \<open>hoare I m (\<lambda>_. I) I\<close>.
\<close>

definition hoare ::
    "('w \<Rightarrow> bool) \<Rightarrow> ('w, 'e, 'a) eff \<Rightarrow> ('a \<Rightarrow> 'w \<Rightarrow> bool) \<Rightarrow> ('w \<Rightarrow> bool) \<Rightarrow> bool" where
  "hoare P m Q E \<longleftrightarrow>
     (\<forall>w. P w \<longrightarrow> (case result m w of Inl e \<Rightarrow> E (final m w) | Inr a \<Rightarrow> Q a (final m w)))"

lemma hoareI:
  "(\<And>w. P w \<Longrightarrow> case result m w of Inl e \<Rightarrow> E (final m w) | Inr a \<Rightarrow> Q a (final m w)) \<Longrightarrow>
   hoare P m Q E"
  by (simp add: hoare_def)

lemma hoareD:
  "hoare P m Q E \<Longrightarrow> P w \<Longrightarrow> case result m w of Inl e \<Rightarrow> E (final m w) | Inr a \<Rightarrow> Q a (final m w)"
  by (simp add: hoare_def)

lemma hoare_bnd:
  assumes "hoare P m Q E" and "\<And>a. hoare (Q a) (k a) S E"
  shows "hoare P (bnd m k) S E"
proof (rule hoareI)
  fix w assume P: "P w"
  show "case result (bnd m k) w of Inl e \<Rightarrow> E (final (bnd m k) w)
      | Inr a \<Rightarrow> S a (final (bnd m k) w)"
  proof (cases "result m w")
    case (Inl e)
    with hoareD [OF assms(1) P] show ?thesis by (simp add: eff_run)
  next
    case (Inr a)
    with hoareD [OF assms(1) P] have "Q a (final m w)" by simp
    from hoareD [OF assms(2) this] Inr show ?thesis
      by (cases "result (k a) (final m w)") (simp_all add: eff_run)
  qed
qed

lemma hoare_seq: "hoare P m (\<lambda>_. Q) E \<Longrightarrow> hoare Q n S E \<Longrightarrow> hoare P (seq_eff m n) S E"
  unfolding seq_eff_def by (rule hoare_bnd)

lemma hoare_ret: "(\<And>w. P w \<Longrightarrow> Q a w) \<Longrightarrow> hoare P (ret a) Q E"
  by (simp add: hoare_def)

lemma hoare_throw: "(\<And>w. P w \<Longrightarrow> E w) \<Longrightarrow> hoare P (throw e) Q E"
  by (simp add: hoare_def)

lemma hoare_ignore: "hoare P m (\<lambda>_. Q) Q \<Longrightarrow> hoare P (ignore m) (\<lambda>_. Q) E"
  by (auto simp: hoare_def split: sum.splits)

lemma hoare_attempt:
  "hoare P m (\<lambda>a. Q (Inr a)) (\<lambda>w. \<forall>e. Q (Inl e) w) \<Longrightarrow> hoare P (attempt m) Q E"
  unfolding hoare_def by (simp split: sum.splits) (metis sum.exhaust)

lemma hoare_pre: "hoare P m Q E \<Longrightarrow> (\<And>w. P' w \<Longrightarrow> P w) \<Longrightarrow> hoare P' m Q E"
  by (simp add: hoare_def)

lemma hoare_post:
  "hoare P m Q E \<Longrightarrow> (\<And>a w. Q a w \<Longrightarrow> Q' a w) \<Longrightarrow> (\<And>w. E w \<Longrightarrow> E' w) \<Longrightarrow> hoare P m Q' E'"
  by (fastforce simp: hoare_def split: sum.splits)

lemma hoare_conjI:
  "hoare P m Q E \<Longrightarrow> hoare P' m Q' E' \<Longrightarrow>
   hoare (\<lambda>w. P w \<and> P' w) m (\<lambda>a w. Q a w \<and> Q' a w) (\<lambda>w. E w \<and> E' w)"
  by (auto simp: hoare_def split: sum.splits)

lemma hoare_if:
  "(b \<Longrightarrow> hoare P m Q E) \<Longrightarrow> (\<not> b \<Longrightarrow> hoare P n Q E) \<Longrightarrow> hoare P (if b then m else n) Q E"
  by simp

lemma hoare_keepsI:
  assumes "hoare I m (\<lambda>_. I) I" and "\<And>w w'. R w w' \<longleftrightarrow> (I w \<longrightarrow> I w')"
  shows "keeps R m"
  using assms by (auto simp: keeps_def hoare_def split: sum.splits)

lemma hoare_frame:
  assumes "keeps S m" and "\<And>w w'. S w w' \<Longrightarrow> P w \<Longrightarrow> P w'"
  shows "hoare P m (\<lambda>_. P) P"
  using assms by (auto simp: keeps_def hoare_def split: sum.splits)

section \<open>Lists\<close>

lemma find_map_update:
  "find p (map f xs) = map_option f (find (p \<circ> f) xs)"
  by (induction xs) simp_all

lemma find_cong_set:
  "(\<And>x. x \<in> set xs \<Longrightarrow> p x = q x) \<Longrightarrow> find p xs = find q xs"
  by (induction xs) simp_all

lemma find_SomeD: "find p xs = Some x \<Longrightarrow> x \<in> set xs \<and> p x"
  by (induction xs) (auto split: if_splits)

lemma find_append:
  "find p (xs @ ys) = (case find p xs of None \<Rightarrow> find p ys | Some x \<Rightarrow> Some x)"
  by (induction xs) simp_all

lemma find_key_mem:
  "distinct (map key xs) \<Longrightarrow> x \<in> set xs \<Longrightarrow> find (\<lambda>y. key y = key x) xs = Some x"
  by (induction xs) (auto simp: image_iff)

lemma sort_key_Nil_iff [simp]: "sort_key f xs = [] \<longleftrightarrow> xs = []"
proof -
  have "length (sort_key f xs) = length xs" by simp
  then show ?thesis by (cases xs; cases "sort_key f xs") auto
qed

lemma map_sort_key: "map f (sort_key f xs) = sort (map f xs)"
  by (rule properties_for_sort [symmetric]) simp_all

section \<open>Grouping\<close>

text \<open>
  A Go map whose values are slices that grow by \<open>append\<close>: the association list
  \<open>add_to_group\<close> builds, with its keys in order of first occurrence.
\<close>

fun add_to_group :: "'k \<Rightarrow> 'v \<Rightarrow> ('k \<times> 'v list) list \<Rightarrow> ('k \<times> 'v list) list" where
  "add_to_group k v [] = [(k, [v])]"
| "add_to_group k v ((k', vs) # gs) =
     (if k' = k then (k', vs @ [v]) # gs else (k', vs) # add_to_group k v gs)"

definition group_all :: "('k \<times> 'v) list \<Rightarrow> ('k \<times> 'v list) list" where
  "group_all kvs = fold (\<lambda>(k, v) gs. add_to_group k v gs) kvs []"

lemma map_of_add_to_group:
  "map_of (add_to_group k v gs) j =
     (if j = k then Some ((case map_of gs k of None \<Rightarrow> [] | Some vs \<Rightarrow> vs) @ [v]) else map_of gs j)"
  by (induction k v gs rule: add_to_group.induct) auto

lemma keys_add_to_group:
  "map fst (add_to_group k v gs) = (if k \<in> fst ` set gs then map fst gs else map fst gs @ [k])"
  by (induction k v gs rule: add_to_group.induct) auto

lemma distinct_add_to_group:
  "distinct (map fst gs) \<Longrightarrow> distinct (map fst (add_to_group k v gs))"
  by (simp add: keys_add_to_group)

definition values_of :: "'k \<Rightarrow> ('k \<times> 'v) list \<Rightarrow> 'v list" where
  "values_of k kvs = map snd (filter (\<lambda>kv. fst kv = k) kvs)"

lemma group_all_snoc:
  "group_all (kvs @ [kv]) = add_to_group (fst kv) (snd kv) (group_all kvs)"
  by (simp add: group_all_def case_prod_beta)

lemma map_of_group_all:
  "map_of (group_all kvs) k = (if k \<in> fst ` set kvs then Some (values_of k kvs) else None)"
proof (induction kvs rule: rev_induct)
  case Nil
  then show ?case by (simp add: group_all_def)
next
  case (snoc kv kvs)
  have "values_of k kvs = []" if "k \<notin> fst ` set kvs"
    using that by (auto simp: values_of_def filter_empty_conv)
  with snoc show ?case
    by (auto simp: group_all_snoc map_of_add_to_group values_of_def)
qed

lemma keys_group_all: "distinct (map fst (group_all kvs)) \<and> fst ` set (group_all kvs) = fst ` set kvs"
proof (induction kvs rule: rev_induct)
  case Nil
  then show ?case by (simp add: group_all_def)
next
  case (snoc kv kvs)
  have "fst ` set (add_to_group (fst kv) (snd kv) (group_all kvs)) =
      insert (fst kv) (fst ` set (group_all kvs))"
    using arg_cong [OF keys_add_to_group, of set "fst kv" "snd kv" "group_all kvs"] by auto
  with snoc show ?case by (simp add: group_all_snoc distinct_add_to_group)
qed

lemma group_all_mem: "(k, vs) \<in> set (group_all kvs) \<longleftrightarrow> k \<in> fst ` set kvs \<and> vs = values_of k kvs"
proof -
  have "(k, vs) \<in> set (group_all kvs) \<longleftrightarrow> map_of (group_all kvs) k = Some vs"
    using keys_group_all [of kvs] by (metis map_of_eq_Some_iff)
  then show ?thesis by (auto simp: map_of_group_all split: if_splits)
qed

section \<open>Go strings\<close>

text \<open>
  \<open>strings.ToLower\<close>, \<open>strings.ToUpper\<close> and \<open>strings.EqualFold\<close> on ASCII, \<open>strings.TrimSpace\<close>,
  \<open>strings.TrimSuffix\<close>, \<open>strings.HasPrefix\<close>, \<open>strings.HasSuffix\<close>, \<open>strings.Contains\<close>, and \<open>strings.Split\<close> on a one-byte separator.
\<close>

definition to_lower_char :: "char \<Rightarrow> char" where
  "to_lower_char c =
     (if 65 \<le> (of_char c :: nat) \<and> (of_char c :: nat) \<le> 90 then char_of ((of_char c :: nat) + 32) else c)"

definition ToLower :: "string \<Rightarrow> string" where
  "ToLower s = map to_lower_char s"

definition TrimSuffix :: "string \<Rightarrow> string \<Rightarrow> string" where
  "TrimSuffix s suf =
     (if suf = drop (length s - length suf) s then take (length s - length suf) s else s)"

fun Split :: "char \<Rightarrow> string \<Rightarrow> string list" where
  "Split c [] = [[]]"
| "Split c (x # xs) =
     (if x = c then [] # Split c xs
      else case Split c xs of [] \<Rightarrow> [[x]] | p # ps \<Rightarrow> (x # p) # ps)"

definition to_upper_char :: "char \<Rightarrow> char" where
  "to_upper_char c =
     (if 97 \<le> (of_char c :: nat) \<and> (of_char c :: nat) \<le> 122 then char_of ((of_char c :: nat) - 32) else c)"

definition ToUpper :: "string \<Rightarrow> string" where
  "ToUpper s = map to_upper_char s"

definition EqualFold :: "string \<Rightarrow> string \<Rightarrow> bool" where
  "EqualFold s t \<longleftrightarrow> ToLower s = ToLower t"

definition is_space :: "char \<Rightarrow> bool" where
  "is_space c \<longleftrightarrow> (of_char c :: nat) = 32 \<or> 9 \<le> (of_char c :: nat) \<and> (of_char c :: nat) \<le> 13"

definition TrimSpace :: "string \<Rightarrow> string" where
  "TrimSpace s = rev (dropWhile is_space (rev (dropWhile is_space s)))"

definition is_digit :: "char \<Rightarrow> bool" where
  "is_digit c \<longleftrightarrow> 48 \<le> (of_char c :: nat) \<and> (of_char c :: nat) \<le> 57"

definition digits_value :: "string \<Rightarrow> int" where
  "digits_value s = fold (\<lambda>c n. 10 * n + (int (of_char c) - 48)) s 0"

definition HasPrefix :: "string \<Rightarrow> string \<Rightarrow> bool" where
  "HasPrefix s pre \<longleftrightarrow> take (length pre) s = pre"

definition HasSuffix :: "string \<Rightarrow> string \<Rightarrow> bool" where
  "HasSuffix s suf \<longleftrightarrow> length suf \<le> length s \<and> drop (length s - length suf) s = suf"

fun Contains :: "string \<Rightarrow> string \<Rightarrow> bool" where
  "Contains [] sub \<longleftrightarrow> sub = []"
| "Contains (c # cs) sub \<longleftrightarrow> take (length sub) (c # cs) = sub \<or> Contains cs sub"

lemma Contains_iff: "Contains s sub \<longleftrightarrow> (\<exists>pre post. s = pre @ sub @ post)"
proof (induction s)
  case (Cons c cs)
  have "take (length sub) (c # cs) = sub \<longleftrightarrow> (\<exists>post. c # cs = sub @ post)"
    by (metis append_eq_conv_conj append_take_drop_id)
  moreover have "(\<exists>pre post. c # cs = pre @ sub @ post) \<longleftrightarrow>
      (\<exists>post. c # cs = sub @ post) \<or> (\<exists>pre post. cs = pre @ sub @ post)"
    by (auto simp: Cons_eq_append_conv)
  ultimately show ?case using Cons by simp
qed simp

lemma HasSuffix_iff: "HasSuffix s suf \<longleftrightarrow> (\<exists>pre. s = pre @ suf)"
proof
  assume "HasSuffix s suf"
  then have "s = take (length s - length suf) s @ suf"
    unfolding HasSuffix_def by (metis append_take_drop_id)
  then show "\<exists>pre. s = pre @ suf" by blast
qed (auto simp: HasSuffix_def)

section \<open>Decimal numerals\<close>

text \<open>\<open>fmt.Sprintf("%d", n)\<close> and \<open>%v\<close> of a Boolean.\<close>

definition digit :: "nat \<Rightarrow> char" where
  "digit n = char_of (48 + n)"

fun show_nat :: "nat \<Rightarrow> string" where
  "show_nat n = (if n < 10 then [digit n] else show_nat (n div 10) @ [digit (n mod 10)])"

declare show_nat.simps [simp del]

definition show_int :: "int \<Rightarrow> string" where
  "show_int i = (if i < 0 then CHR ''-'' # show_nat (nat (- i)) else show_nat (nat i))"

definition show_bool :: "bool \<Rightarrow> string" where
  "show_bool b = (if b then ''true'' else ''false'')"

lemma of_char_digit: "n < 10 \<Longrightarrow> of_char (digit n) = 48 + n"
  by (simp add: digit_def of_char_of)

lemma digit_inj: "m < 10 \<Longrightarrow> n < 10 \<Longrightarrow> digit m = digit n \<Longrightarrow> m = n"
  by (metis add_left_imp_eq of_char_digit)

lemma show_nat_digits: "c \<in> set (show_nat n) \<Longrightarrow> \<exists>d < 10. c = digit d"
proof (induction n rule: show_nat.induct)
  case (1 n)
  show ?case
  proof (cases "n < 10")
    case True
    with 1(2) show ?thesis by (auto simp: show_nat.simps [of n])
  next
    case False
    with 1(2) have "c \<in> set (show_nat (n div 10)) \<or> c = digit (n mod 10)"
      by (auto simp: show_nat.simps [of n])
    with 1(1) [OF False] show ?thesis by (metis mod_less_divisor zero_less_numeral)
  qed
qed

lemma show_nat_no_dash: "CHR ''-'' \<notin> set (show_nat n)"
proof
  assume "CHR ''-'' \<in> set (show_nat n)"
  then obtain d where "d < 10" "CHR ''-'' = digit d" using show_nat_digits by blast
  then have "of_char (CHR ''-'') = 48 + d" using of_char_digit by metis
  then show False by simp
qed

lemma show_nat_neq_Nil [simp]: "show_nat n \<noteq> []" "[] \<noteq> show_nat n"
  by (simp_all add: show_nat.simps [of n])

lemma show_nat_inj: "show_nat m = show_nat n \<Longrightarrow> m = n"
proof (induction m arbitrary: n rule: show_nat.induct)
  case (1 m)
  note eq = 1(2)
  show ?case
  proof (cases "m < 10")
    case True
    with eq show ?thesis
      by (cases "n < 10") (auto simp: show_nat.simps [of m] show_nat.simps [of n] show_nat_neq_Nil
          dest: digit_inj)
  next
    case False
    with eq have n: "\<not> n < 10"
      by (auto simp: show_nat.simps [of m] show_nat.simps [of n] show_nat_neq_Nil)
    with False eq have "show_nat (m div 10) = show_nat (n div 10)" "digit (m mod 10) = digit (n mod 10)"
      by (simp_all add: show_nat.simps [of m] show_nat.simps [of n])
    then have "m div 10 = n div 10" "m mod 10 = n mod 10"
      using 1(1) [OF False] digit_inj [of "m mod 10" "n mod 10"] by simp_all
    then show ?thesis by (metis div_mult_mod_eq)
  qed
qed

lemma show_int_inj:
  assumes "show_int i = show_int j"
  shows "i = j"
proof -
  have dash: "CHR ''-'' # xs \<noteq> show_nat n" "show_nat n \<noteq> CHR ''-'' # xs" for n xs
    using show_nat_no_dash [of n] by (metis list.set_intros(1))+
  show ?thesis
    using assms dash by (auto simp: show_int_def split: if_splits dest!: show_nat_inj)
qed

end
