(* ===== verification/Protocol.thy ===== *)
theory Protocol
  imports Prelude "HOL-Library.Char_ord" "HOL-Library.List_Lexorder"
begin

text \<open>
  pkg/agentprotocol: the wire types shared by the control plane and the pull agent, the
  consistency check of a manifest and the directory checksum both sides compute. Strings
  are byte strings, compared bytewise as Go compares them (\<open>Char_ord\<close>, \<open>List_Lexorder\<close>).
  SHA-256 is a parameter: \<open>sha\<close> maps the bytes written to the hash to the hex digest.
\<close>

section \<open>Types\<close>

record manifest_file =
  mf_path :: string
  mf_checksum :: string
  mf_size :: int

record manifest =
  m_artifact_id :: string
  m_project_slug :: string
  m_template_version_id :: int
  m_checksum :: string
  m_signature :: string
  m_domains :: "string list"
  m_files :: "manifest_file list"
  m_domain_count :: int
  m_file_count :: int
  m_total_size_bytes :: int
  m_built_at :: int

record verify_config =
  v_enabled :: bool
  v_url :: string
  v_status_code :: int
  v_timeout_ms :: int

record task_envelope =
  e_task_id :: string
  e_type :: string
  e_release_id :: string
  e_artifact_url :: string
  e_manifest :: manifest
  e_domains :: "string list"
  e_deploy_path :: string
  e_nginx_path :: string
  e_allow_reload :: bool
  e_defer_reload :: bool
  e_verify :: verify_config
  e_target_release_id :: string

record phase_report =
  p_phase :: string
  p_status :: string
  p_duration_ms :: int
  p_detail :: string

record task_report =
  tr_task_id :: string
  tr_status :: string
  tr_phases :: "phase_report list"
  tr_duration_ms :: int
  tr_error :: string

record register_request =
  rq_hostname :: string
  rq_ip :: string
  rq_region :: string
  rq_datacenter :: string
  rq_host_group_id :: "int option"
  rq_agent_version :: string
  rq_cert_serial :: string

record register_response =
  rr_agent_id :: string
  rr_status :: string
  rr_heartbeat_secs :: int

record heartbeat_request =
  hq_agent_id :: string
  hq_status :: string
  hq_current_task_id :: string
  hq_agent_version :: string
  hq_load_avg_1 :: rat
  hq_disk_free_pct :: rat
  hq_last_error :: string

record heartbeat_response =
  hr_ack :: bool
  hr_status :: string
  hr_has_new_task :: bool

text \<open>The zero value of a struct, which \<open>encoding/json\<close> leaves in fields that are absent.\<close>

definition zero_manifest :: manifest where
  "zero_manifest = \<lparr>m_artifact_id = [], m_project_slug = [], m_template_version_id = 0,
     m_checksum = [], m_signature = [], m_domains = [], m_files = [], m_domain_count = 0,
     m_file_count = 0, m_total_size_bytes = 0, m_built_at = 0\<rparr>"

definition zero_verify :: verify_config where
  "zero_verify = \<lparr>v_enabled = False, v_url = [], v_status_code = 0, v_timeout_ms = 0\<rparr>"

section \<open>Manifest consistency\<close>

text \<open>\<open>sort.StringsAreSorted\<close>: no element is smaller than its predecessor.\<close>

fun strings_are_sorted :: "string list \<Rightarrow> bool" where
  "strings_are_sorted (x # y # ys) = (\<not> y < x \<and> strings_are_sorted (y # ys))"
| "strings_are_sorted _ = True"

text \<open>The loop over \<open>m.Files\<close>: every path is strictly greater than the one before.\<close>

fun files_sorted :: "manifest_file list \<Rightarrow> bool" where
  "files_sorted (f # g # fs) = (\<not> mf_path g \<le> mf_path f \<and> files_sorted (g # fs))"
| "files_sorted _ = True"

datatype manifest_error =
    ArtifactIDEmpty
  | ChecksumEmpty
  | DomainsEmpty
  | FilesEmpty
  | DomainCountMismatch
  | FileCountMismatch
  | DomainsNotSorted
  | FilesNotSorted

definition Validate :: "manifest \<Rightarrow> manifest_error option" where
  "Validate m =
     (if m_artifact_id m = [] then Some ArtifactIDEmpty
      else if m_checksum m = [] then Some ChecksumEmpty
      else if length (m_domains m) = 0 then Some DomainsEmpty
      else if length (m_files m) = 0 then Some FilesEmpty
      else if m_domain_count m \<noteq> int (length (m_domains m)) then Some DomainCountMismatch
      else if m_file_count m \<noteq> int (length (m_files m)) then Some FileCountMismatch
      else if \<not> strings_are_sorted (m_domains m) then Some DomainsNotSorted
      else if \<not> files_sorted (m_files m) then Some FilesNotSorted
      else None)"

lemma strings_are_sorted_iff: "strings_are_sorted xs \<longleftrightarrow> sorted xs"
proof (induction xs rule: strings_are_sorted.induct)
  case (1 x y ys)
  have "sorted (x # y # ys) \<longleftrightarrow> x \<le> y \<and> sorted (y # ys)"
    by auto
  with 1 show ?case by (auto simp: not_less)
qed simp_all

lemma files_sorted_iff: "files_sorted fs \<longleftrightarrow> sorted_wrt (<) (map mf_path fs)"
proof (induction fs rule: files_sorted.induct)
  case (1 f g fs)
  have "sorted_wrt (<) (map mf_path (f # g # fs)) \<longleftrightarrow>
      mf_path f < mf_path g \<and> sorted_wrt (<) (map mf_path (g # fs))"
    by (auto intro: less_trans)
  with 1 show ?case by (auto simp: not_le)
qed simp_all

lemma Validate_None_iff:
  "Validate m = None \<longleftrightarrow>
     m_artifact_id m \<noteq> [] \<and> m_checksum m \<noteq> [] \<and> m_domains m \<noteq> [] \<and> m_files m \<noteq> [] \<and>
     m_domain_count m = int (length (m_domains m)) \<and> m_file_count m = int (length (m_files m)) \<and>
     sorted (m_domains m) \<and> sorted_wrt (<) (map mf_path (m_files m))"
  by (auto simp: Validate_def strings_are_sorted_iff files_sorted_iff)

section \<open>Directory checksum\<close>

text \<open>
  A directory is the list of its regular files, path relative to the root (forward
  slashes) with content, in the order \<open>filepath.Walk\<close> visits them. \<open>hash_entry\<close> is the
  body of the walk callback with \<open>hashFile\<close>; \<open>dir_entries\<close> the slice after
  \<open>sort.Slice\<close>, \<open>checksum_input\<close> the bytes fed to the running hash.
\<close>

type_synonym directory = "(string \<times> string) list"

definition hash_entry :: "(string \<Rightarrow> string) \<Rightarrow> string \<times> string \<Rightarrow> manifest_file" where
  "hash_entry sha f = \<lparr>mf_path = fst f, mf_checksum = sha (snd f), mf_size = int (length (snd f))\<rparr>"

definition skipped_name :: "string \<Rightarrow> bool" where
  "skipped_name p \<longleftrightarrow> p = ''manifest.json'' \<or> p = ''CHECKSUMS''"

definition dir_entries :: "(string \<Rightarrow> string) \<Rightarrow> directory \<Rightarrow> manifest_file list" where
  "dir_entries sha dir =
     sort_key mf_path (map (hash_entry sha) (filter (\<lambda>f. \<not> skipped_name (fst f)) dir))"

definition newline :: string where
  "newline = [CHR 0x0A]"

definition checksum_input :: "manifest_file list \<Rightarrow> string" where
  "checksum_input fs = concat (map (\<lambda>f. mf_path f @ newline @ mf_checksum f @ newline) fs)"

definition ComputeDirectoryChecksum ::
    "(string \<Rightarrow> string) \<Rightarrow> directory \<Rightarrow> string \<times> manifest_file list" where
  "ComputeDirectoryChecksum sha dir =
     (let files = dir_entries sha dir in (sha (checksum_input files), files))"

text \<open>The lines of the \<open>CHECKSUMS\<close> file.\<close>

definition WriteChecksums :: "manifest \<Rightarrow> string" where
  "WriteChecksums m = concat (map (\<lambda>f. mf_checksum f @ ''  '' @ mf_path f @ newline) (m_files m))"

lemma inj_on_hash_entry_path:
  "distinct (map fst dir) \<Longrightarrow> inj_on mf_path (set (map (hash_entry sha) (filter P dir)))"
  by (fastforce simp: inj_on_def hash_entry_def distinct_map)

lemma dir_entries_perm:
  assumes "mset dir = mset dir'" and "distinct (map fst dir)"
  shows "dir_entries sha dir = dir_entries sha dir'"
  unfolding dir_entries_def
  using assms by (intro sort_key_eq_sort_key inj_on_hash_entry_path) simp_all

lemma dir_entries_files_sorted:
  assumes "distinct (map fst dir)"
  shows "files_sorted (dir_entries sha dir)"
proof -
  have "distinct (map mf_path (map (hash_entry sha) (filter P dir)))" for P
    using assms by (simp add: comp_def hash_entry_def distinct_map_filter)
  then have "distinct (map mf_path (dir_entries sha dir))"
    by (simp add: dir_entries_def distinct_map del: map_map)
  moreover have "sorted (map mf_path (dir_entries sha dir))"
    by (simp add: dir_entries_def)
  ultimately show ?thesis
    by (simp add: files_sorted_iff strict_sorted_iff)
qed

text \<open>
  The framing \<open>path \n digest \n\<close> is unambiguous as soon as no path and no digest contains
  a newline: the list of entries can be read back from the bytes that were hashed.
\<close>

lemma append_delim_inj:
  assumes "c \<notin> set xs" and "c \<notin> set ys" and "xs @ c # us = ys @ c # vs"
  shows "xs = ys \<and> us = vs"
  using assms
proof (induction xs arbitrary: ys)
  case Nil
  then show ?case by (cases ys) auto
next
  case (Cons x xs)
  then show ?case by (cases ys) auto
qed

definition line_free :: "manifest_file \<Rightarrow> bool" where
  "line_free f \<longleftrightarrow> CHR 0x0A \<notin> set (mf_path f) \<and> CHR 0x0A \<notin> set (mf_checksum f)"

lemma checksum_input_inj:
  assumes "list_all line_free fs" and "list_all line_free gs"
    and "checksum_input fs = checksum_input gs"
  shows "map (\<lambda>f. (mf_path f, mf_checksum f)) fs = map (\<lambda>f. (mf_path f, mf_checksum f)) gs"
  using assms
proof (induction fs arbitrary: gs)
  case Nil
  then show ?case by (cases gs) (auto simp: checksum_input_def newline_def)
next
  case (Cons f fs)
  then obtain g gs' where gs: "gs = g # gs'"
    by (cases gs) (auto simp: checksum_input_def newline_def)
  let ?nl = "CHR 0x0A"
  have eq: "mf_path f @ ?nl # (mf_checksum f @ ?nl # checksum_input fs) =
            mf_path g @ ?nl # (mf_checksum g @ ?nl # checksum_input gs')"
    using Cons.prems(3) gs by (simp add: checksum_input_def newline_def)
  have lf: "line_free f" "line_free g" "list_all line_free fs" "list_all line_free gs'"
    using Cons.prems(1,2) gs by simp_all
  have "mf_path f = mf_path g \<and>
      mf_checksum f @ ?nl # checksum_input fs = mf_checksum g @ ?nl # checksum_input gs'"
    using append_delim_inj [OF _ _ eq] lf(1,2) by (simp add: line_free_def)
  moreover from this have "mf_checksum f = mf_checksum g \<and> checksum_input fs = checksum_input gs'"
    using append_delim_inj [of ?nl "mf_checksum f" "mf_checksum g"] lf(1,2)
    unfolding line_free_def by blast
  ultimately show ?case
    using Cons.IH [of gs'] lf(3,4) gs by simp
qed

text \<open>
  The byte strings that are hashed for a directory. If the hash has no collision among
  those of two directories, equal checksums mean equal files.
\<close>

definition hashed_bytes :: "(string \<Rightarrow> string) \<Rightarrow> directory \<Rightarrow> string set" where
  "hashed_bytes sha dir = insert (checksum_input (dir_entries sha dir)) (snd ` set dir)"

lemma dir_entry_iff:
  "(p, d) \<in> set (map (\<lambda>f. (mf_path f, mf_checksum f)) (dir_entries sha dir)) \<longleftrightarrow>
   (\<exists>c. (p, c) \<in> set dir \<and> d = sha c \<and> \<not> skipped_name p)"
  by (force simp: dir_entries_def hash_entry_def)

lemma same_entries_same_file:
  assumes eq: "map (\<lambda>f. (mf_path f, mf_checksum f)) (dir_entries sha dir) =
      map (\<lambda>f. (mf_path f, mf_checksum f)) (dir_entries sha dir')"
    and inj: "inj_on sha (hashed_bytes sha dir \<union> hashed_bytes sha dir')"
    and p: "\<not> skipped_name p" and mem: "(p, c) \<in> set dir"
  shows "(p, c) \<in> set dir'"
proof -
  have "(p, sha c) \<in> set (map (\<lambda>f. (mf_path f, mf_checksum f)) (dir_entries sha dir'))"
    unfolding eq [symmetric] dir_entry_iff using p mem by blast
  then obtain c' where c': "(p, c') \<in> set dir'" "sha c = sha c'"
    unfolding dir_entry_iff by blast
  have "c \<in> hashed_bytes sha dir" "c' \<in> hashed_bytes sha dir'"
    using mem c'(1) by (force simp: hashed_bytes_def)+
  then have "c = c'"
    using inj_onD [OF inj c'(2)] by blast
  with c' show ?thesis by simp
qed

lemma checksum_determines_files:
  assumes dist: "distinct (map fst dir)" "distinct (map fst dir')"
    and free: "list_all line_free (dir_entries sha dir)" "list_all line_free (dir_entries sha dir')"
    and inj: "inj_on sha (hashed_bytes sha dir \<union> hashed_bytes sha dir')"
    and same: "fst (ComputeDirectoryChecksum sha dir) = fst (ComputeDirectoryChecksum sha dir')"
    and p: "\<not> skipped_name p"
  shows "map_of dir p = map_of dir' p"
proof -
  have "checksum_input (dir_entries sha dir) = checksum_input (dir_entries sha dir')"
    by (rule inj_onD [OF inj])
      (use same in \<open>simp_all add: ComputeDirectoryChecksum_def Let_def hashed_bytes_def\<close>)
  note eq = checksum_input_inj [OF free this]
  have "(p, c) \<in> set dir \<longleftrightarrow> (p, c) \<in> set dir'" for c
    using same_entries_same_file [OF eq inj p] same_entries_same_file [OF eq [symmetric] _ p, of c] inj
    by (auto simp: Un_commute)
  then have "map_of dir p = Some c \<longleftrightarrow> map_of dir' p = Some c" for c
    using dist by (simp add: map_of_eq_Some_iff)
  then show ?thesis by (metis option.exhaust)
qed

end
