(* ===== verification/Probe_Protocol.thy ===== *)
theory Probe_Protocol
  imports Protocol
begin

text \<open>
  pkg/probeprotocol: the messages between a probe node and the control plane. A measurement
  is what one node saw of one domain on the four layers; a layer that was not reached is
  \<open>None\<close> or an empty list. Timestamps are seconds, durations milliseconds.
\<close>

record dns_result =
  dr_resolver_ip :: string
  dr_answers :: "string list"
  dr_cname :: "string list"
  dr_error :: string
  dr_duration_ms :: int
  dr_truncated :: bool
  dr_is_bogon :: bool
  dr_is_injected :: bool

record tcp_result =
  tcp_ip :: string
  tcp_port :: int
  tcp_success :: bool
  tcp_error :: string
  tcp_duration_ms :: int

record tls_result =
  tls_ip :: string
  tls_sni :: string
  tls_success :: bool
  tls_error :: string
  tls_duration_ms :: int
  tls_cert_subject :: string
  tls_cert_issuer :: string
  tls_cert_expiry :: string

record http_result =
  ht_url :: string
  ht_status_code :: int
  ht_body_length :: int
  ht_title :: string
  ht_headers :: "(string \<times> string) list"
  ht_error :: string
  ht_duration_ms :: int

record measurement =
  me_assignment_id :: int
  me_domain_id :: int
  me_fqdn :: string
  me_node_id :: string
  me_node_role :: string
  me_dns :: "dns_result option"
  me_tcp :: "tcp_result list"
  me_tls :: "tls_result list"
  me_http :: "http_result option"
  me_measured_at :: int
  me_total_ms :: int

record node_register_request =
  nq_node_id :: string
  nq_region :: string
  nq_role :: string
  nq_probe_version :: string
  nq_ip_address :: string

record node_register_response =
  np_node_id :: string
  np_status :: string
  np_heartbeat_secs :: int
  np_check_interval :: int

record node_heartbeat_request =
  nb_node_id :: string
  nb_probe_version :: string
  nb_load_avg_1 :: rat
  nb_disk_free_pct :: rat
  nb_checks_today :: int
  nb_last_error :: string

record assignment =
  as_assignment_id :: int
  as_domain_id :: int
  as_fqdn :: string
  as_check_interval :: int

end
