(* ===== verification/Tables.thy ===== *)
theory Tables
  imports Prelude
begin

text \<open>
  Tables as row lists with the sequence behind their \<open>BIGSERIAL\<close> key, the statements on them,
  and what a keyed table promises.
\<close>

section \<open>Tables\<close>

record 'r tbl =
  rows :: "'r list"
  seq :: int

definition empty_tbl :: "'r tbl" where
  "empty_tbl = \<lparr>rows = [], seq = 0\<rparr>"

text \<open>
  \<open>SELECT ... WHERE p LIMIT 1\<close>, \<open>SELECT ... WHERE p\<close>, \<open>UPDATE ... SET f WHERE p\<close>, \<open>INSERT\<close>,
  \<open>DELETE ... WHERE p\<close>.
\<close>

definition tbl_find :: "('r \<Rightarrow> bool) \<Rightarrow> 'r tbl \<Rightarrow> 'r option" where
  "tbl_find p t = find p (rows t)"

definition tbl_select :: "('r \<Rightarrow> bool) \<Rightarrow> 'r tbl \<Rightarrow> 'r list" where
  "tbl_select p t = filter p (rows t)"

definition tbl_update :: "('r \<Rightarrow> bool) \<Rightarrow> ('r \<Rightarrow> 'r) \<Rightarrow> 'r tbl \<Rightarrow> 'r tbl" where
  "tbl_update p f t = t\<lparr>rows := map (\<lambda>r. if p r then f r else r) (rows t)\<rparr>"

definition tbl_insert :: "(int \<Rightarrow> 'r) \<Rightarrow> 'r tbl \<Rightarrow> 'r tbl" where
  "tbl_insert mk t = t\<lparr>rows := rows t @ [mk (seq t + 1)], seq := seq t + 1\<rparr>"

definition tbl_delete :: "('r \<Rightarrow> bool) \<Rightarrow> 'r tbl \<Rightarrow> 'r tbl" where
  "tbl_delete p t = t\<lparr>rows := filter (\<lambda>r. \<not> p r) (rows t)\<rparr>"

named_theorems tbl_defs \<open>definitions of the table operations\<close>

lemmas tbl_basics [tbl_defs] =
  tbl_find_def tbl_select_def tbl_update_def tbl_insert_def tbl_delete_def empty_tbl_def

text \<open>
  What a keyed table promises: keys are distinct and never beyond the sequence, so the key
  an \<open>INSERT\<close> hands out is new, a look-up by key after an \<open>INSERT\<close> or an \<open>UPDATE\<close> returns
  what was written, and every other key is untouched.
\<close>

definition wf_tbl :: "('r \<Rightarrow> int) \<Rightarrow> 'r tbl \<Rightarrow> bool" where
  "wf_tbl key t \<longleftrightarrow> distinct (map key (rows t)) \<and> (\<forall>r \<in> set (rows t). key r \<le> seq t)"

definition tbl_get :: "('r \<Rightarrow> int) \<Rightarrow> 'r tbl \<Rightarrow> int \<Rightarrow> 'r option" where
  "tbl_get key t i = tbl_find (\<lambda>r. key r = i) t"

lemma wf_empty: "wf_tbl key empty_tbl"
  by (simp add: wf_tbl_def tbl_defs)

lemma wf_insert:
  assumes "wf_tbl key t" and "key (mk (seq t + 1)) = seq t + 1"
  shows "wf_tbl key (tbl_insert mk t)"
  using assms by (force simp: wf_tbl_def tbl_defs)

lemma wf_update:
  assumes "wf_tbl key t" and "\<And>r. key (f r) = key r"
  shows "wf_tbl key (tbl_update p f t)"
proof -
  have "map key (map (\<lambda>r. if p r then f r else r) (rows t)) = map key (rows t)"
    using assms(2) by simp
  with assms show ?thesis by (auto simp: wf_tbl_def tbl_defs simp del: map_map)
qed

lemma tbl_get_insert:
  assumes "wf_tbl key t" and "key (mk (seq t + 1)) = seq t + 1"
  shows "tbl_get key (tbl_insert mk t) j = (if j = seq t + 1 then Some (mk j) else tbl_get key t j)"
proof -
  have "seq t + 1 \<notin> key ` set (rows t)"
    using assms(1) by (force simp: wf_tbl_def)
  then have new: "find (\<lambda>r. key r = seq t + 1) (rows t) = None"
    by (auto simp: find_None_iff image_iff)
  show ?thesis
    using new assms(2) by (auto simp: tbl_get_def tbl_defs find_append split: option.splits)
qed

lemma tbl_get_update:
  assumes "\<And>r. key (f r) = key r"
  shows "tbl_get key (tbl_update p f t) j = map_option (\<lambda>r. if p r then f r else r) (tbl_get key t j)"
proof -
  have "(\<lambda>r. key r = j) \<circ> (\<lambda>r. if p r then f r else r) = (\<lambda>r. key r = j)"
    using assms by (auto simp: fun_eq_iff)
  then show ?thesis by (simp add: tbl_get_def tbl_defs find_map_update)
qed

lemma tbl_get_SomeD: "tbl_get key t i = Some r \<Longrightarrow> r \<in> set (rows t) \<and> key r = i"
  unfolding tbl_get_def tbl_defs by (drule find_SomeD) simp

lemma tbl_get_update_key:
  assumes "\<And>r. key (f r) = key r"
  shows "tbl_get key (tbl_update (\<lambda>r. key r = i) f t) j =
    (if j = i then map_option f (tbl_get key t j) else tbl_get key t j)"
  using assms tbl_get_SomeD [of key t j] by (cases "tbl_get key t j") (auto simp: tbl_get_update)

lemma tbl_get_mem: "wf_tbl key t \<Longrightarrow> r \<in> set (rows t) \<Longrightarrow> tbl_get key t (key r) = Some r"
  by (simp add: wf_tbl_def tbl_get_def tbl_defs find_key_mem)

lemma tbl_insert_key [simp]: "seq (tbl_insert mk t) = seq t + 1"
  by (simp add: tbl_defs)

lemma wf_delete: "wf_tbl key t \<Longrightarrow> wf_tbl key (tbl_delete p t)"
  by (auto simp: wf_tbl_def tbl_defs distinct_map inj_on_def)

lemma tbl_delete_seq [simp]: "seq (tbl_delete p t) = seq t"
  by (simp add: tbl_defs)

lemma tbl_update_seq [simp]: "seq (tbl_update p f t) = seq t"
  by (simp add: tbl_defs)

lemma rows_update_iff:
  "y \<in> set (rows (tbl_update p f t)) \<longleftrightarrow> (\<exists>x \<in> set (rows t). y = (if p x then f x else x))"
  by (auto simp: tbl_update_def)

lemma rows_insert_iff: "y \<in> set (rows (tbl_insert mk t)) \<longleftrightarrow> y \<in> set (rows t) \<or> y = mk (seq t + 1)"
  by (auto simp: tbl_insert_def)

lemma map_rows_update: "(\<And>r. g (f r) = g r) \<Longrightarrow> map g (rows (tbl_update p f t)) = map g (rows t)"
  by (simp add: tbl_update_def)

lemma image_rows_update: "(\<And>r. g (f r) = g r) \<Longrightarrow> g ` set (rows (tbl_update p f t)) = g ` set (rows t)"
  using map_rows_update [of g f p t] by (metis list.set_map)

lemma find_None_live: "tbl_find p t = None \<longleftrightarrow> (\<forall>r \<in> set (rows t). \<not> p r)"
  by (auto simp: tbl_find_def find_None_iff)

lemma distinct_insert:
  "distinct (map g (rows t)) \<Longrightarrow> g (mk (seq t + 1)) \<notin> g ` set (rows t) \<Longrightarrow>
   distinct (map g (rows (tbl_insert mk t)))"
  by (simp add: tbl_insert_def)

lemma distinct_tbl_update:
  assumes "wf_tbl key t" and "distinct (map g (rows t))"
    and "\<And>r. p r \<Longrightarrow> key r = i" and "\<And>r. r \<in> set (rows t) \<Longrightarrow> p r \<Longrightarrow> g (f r) = g r \<or> g (f r) = n r"
    and "\<And>r s. r \<in> set (rows t) \<Longrightarrow> p r \<Longrightarrow> s \<in> set (rows t) \<Longrightarrow> key s \<noteq> i \<Longrightarrow> g s \<noteq> n r"
  shows "distinct (map g (rows (tbl_update p f t)))"
proof -
  have "x = y" if xy: "x \<in> set (rows t)" "y \<in> set (rows t)"
      "g (if p x then f x else x) = g (if p y then f y else y)" for x y
  proof (rule inj_onD [of g "set (rows t)"])
    show "inj_on g (set (rows t))" using assms(2) by (simp add: distinct_map)
    have key: "key u = key v \<Longrightarrow> u \<in> set (rows t) \<Longrightarrow> v \<in> set (rows t) \<Longrightarrow> u = v" for u v
      using assms(1) by (auto simp: wf_tbl_def distinct_map dest: inj_onD)
    show "g x = g y"
    proof (cases "p x \<longleftrightarrow> p y")
      case True
      then show ?thesis using xy assms(3) key by (cases "p x") (metis, simp)
    next
      case False
      then consider "p x" "\<not> p y" | "\<not> p x" "p y" by blast
      then show ?thesis
      proof cases
        case 1
        then have "key y \<noteq> i" using xy(1,2) assms(3) key by metis
        then show ?thesis using 1 xy assms(4) [of x] assms(5) [of x y] by auto
      next
        case 2
        then have "key x \<noteq> i" using xy(1,2) assms(3) key by metis
        then show ?thesis using 2 xy assms(4) [of y] assms(5) [of y x] by auto
      qed
    qed
  qed (use xy in simp_all)
  then have "inj_on (g \<circ> (\<lambda>r. if p r then f r else r)) (set (rows t))" by (auto intro: inj_onI)
  with assms(1) show ?thesis by (simp add: tbl_update_def distinct_map wf_tbl_def)
qed

end
