(* ===== verification/Dns_Safety.thy ===== *)
theory Dns_Safety
  imports Prelude
begin

text \<open>
  pkg/provider/dns/safety.go and the record type of provider.go: a plan of record changes and the
  check that stops plans that touch too much of a zone or its root name servers.
  The \<open>float64\<close> ratios and thresholds are rationals.
\<close>

section \<open>Records and plans\<close>

record zone_record =
  zr_id :: string
  zr_type :: string
  zr_name :: string
  zr_content :: string
  zr_ttl :: int
  zr_priority :: int
  zr_proxied :: bool
  zr_extra :: "(string \<times> string) list"

datatype change_action = ActionCreate | ActionUpdate | ActionDelete

record plan_change =
  pc_action :: change_action
  pc_before :: "zone_record option"
  pc_after :: "zone_record option"

record plan =
  pl_zone :: string
  pl_creates :: "plan_change list"
  pl_updates :: "plan_change list"
  pl_deletes :: "plan_change list"

definition TotalChanges :: "plan \<Rightarrow> nat" where
  "TotalChanges p = length (pl_creates p) + length (pl_updates p) + length (pl_deletes p)"

definition IsEmpty :: "plan \<Rightarrow> bool" where
  "IsEmpty p \<longleftrightarrow> TotalChanges p = 0"

text \<open>The closure \<open>isRootNS\<close> of \<open>HasRootNSChange\<close>.\<close>

definition isRootNS :: "string \<Rightarrow> plan_change \<Rightarrow> bool" where
  "isRootNS zone c =
     (case (case pc_after c of None \<Rightarrow> pc_before c | Some r \<Rightarrow> Some r) of
        None \<Rightarrow> False
      | Some r \<Rightarrow>
          if \<not> EqualFold (zr_type r) ''NS'' then False
          else let name = TrimSuffix (ToLower (zr_name r)) ''.'';
                   zoneName = TrimSuffix (ToLower zone) ''.''
            in name = ''@'' \<or> name = [] \<or> name = zoneName)"

definition HasRootNSChange :: "plan \<Rightarrow> string \<Rightarrow> bool" where
  "HasRootNSChange p zone =
     (if list_ex (isRootNS zone) (pl_creates p) then True
      else if list_ex (isRootNS zone) (pl_updates p) then True
      else list_ex (isRootNS zone) (pl_deletes p))"

section \<open>Configuration\<close>

record safety_config =
  sf_update_threshold_pct :: rat
  sf_delete_threshold_pct :: rat
  sf_min_existing_records :: int
  sf_protect_root_ns :: bool

definition DefaultSafetyConfig :: safety_config where
  "DefaultSafetyConfig = \<lparr>sf_update_threshold_pct = 3/10, sf_delete_threshold_pct = 3/10,
     sf_min_existing_records = 10, sf_protect_root_ns = True\<rparr>"

text \<open>\<open>None\<close> stands for an empty configuration, one that does not decode, or no safety section.\<close>

definition ParseSafetyConfig :: "safety_config option \<Rightarrow> safety_config" where
  "ParseSafetyConfig config = (case config of
       None \<Rightarrow> DefaultSafetyConfig
     | Some s \<Rightarrow>
         let cfg = DefaultSafetyConfig;
             cfg1 = (if sf_update_threshold_pct s > 0 \<and> sf_update_threshold_pct s \<le> 1
               then cfg\<lparr>sf_update_threshold_pct := sf_update_threshold_pct s\<rparr> else cfg);
             cfg2 = (if sf_delete_threshold_pct s > 0 \<and> sf_delete_threshold_pct s \<le> 1
               then cfg1\<lparr>sf_delete_threshold_pct := sf_delete_threshold_pct s\<rparr> else cfg1);
             cfg3 = (if sf_min_existing_records s > 0
               then cfg2\<lparr>sf_min_existing_records := sf_min_existing_records s\<rparr> else cfg2)
         in cfg3\<lparr>sf_protect_root_ns := sf_protect_root_ns s\<rparr>)"

section \<open>The check\<close>

text \<open>The reason is one of the three messages; the percentages in its text are left out.\<close>

datatype safety_reason = No_Reason | Root_NS_Requires_Force | Would_Update rat rat | Would_Delete rat rat

record safety_result =
  sr_passed :: bool
  sr_reason :: safety_reason
  sr_update_pct :: rat
  sr_delete_pct :: rat
  sr_update_threshold :: rat
  sr_delete_threshold :: rat
  sr_existing_count :: int
  sr_root_ns_changed :: bool
  sr_requires_force :: bool

definition CheckSafety :: "plan \<Rightarrow> zone_record list \<Rightarrow> safety_config \<Rightarrow> safety_result" where
  "CheckSafety p existing config =
     (let existingCount = length existing;
          rootNSChanged = HasRootNSChange p (pl_zone p);
          res = \<lparr>sr_passed = True, sr_reason = No_Reason,
            sr_update_pct = (if existingCount > 0 then of_nat (length (pl_updates p)) / of_nat existingCount else 0),
            sr_delete_pct = (if existingCount > 0 then of_nat (length (pl_deletes p)) / of_nat existingCount else 0),
            sr_update_threshold = sf_update_threshold_pct config,
            sr_delete_threshold = sf_delete_threshold_pct config,
            sr_existing_count = int existingCount, sr_root_ns_changed = rootNSChanged,
            sr_requires_force = False\<rparr>;
          failed = (\<lambda>why. res\<lparr>sr_passed := False, sr_requires_force := True, sr_reason := why\<rparr>)
      in if int existingCount < sf_min_existing_records config
         then if sf_protect_root_ns config \<and> rootNSChanged then failed Root_NS_Requires_Force else res
         else if sr_update_pct res > sf_update_threshold_pct config
         then failed (Would_Update (sr_update_pct res) (sf_update_threshold_pct config))
         else if sr_delete_pct res > sf_delete_threshold_pct config
         then failed (Would_Delete (sr_delete_pct res) (sf_delete_threshold_pct config))
         else if sf_protect_root_ns config \<and> rootNSChanged then failed Root_NS_Requires_Force
         else res)"

section \<open>What the check promises\<close>

definition plan_changes :: "plan \<Rightarrow> plan_change list" where
  "plan_changes p = pl_creates p @ pl_updates p @ pl_deletes p"

lemma HasRootNSChange_iff: "HasRootNSChange p zone \<longleftrightarrow> (\<exists>c \<in> set (plan_changes p). isRootNS zone c)"
  by (auto simp: HasRootNSChange_def plan_changes_def list_ex_iff)

lemma ratio_le:
  fixes t :: rat
  shows "0 < n \<Longrightarrow> of_nat k / of_nat n \<le> t \<longleftrightarrow> of_nat k \<le> t * of_nat n"
  by (simp add: divide_le_eq)

lemma CheckSafety_passed:
  "sr_passed (CheckSafety p existing c) \<longleftrightarrow>
     \<not> (sf_protect_root_ns c \<and> HasRootNSChange p (pl_zone p)) \<and>
     (int (length existing) < sf_min_existing_records c \<or>
      sr_update_pct (CheckSafety p existing c) \<le> sf_update_threshold_pct c \<and>
      sr_delete_pct (CheckSafety p existing c) \<le> sf_delete_threshold_pct c)"
  unfolding CheckSafety_def Let_def by (simp split del: if_split add: not_less) (simp add: not_less)

lemma CheckSafety_pct:
  "sr_update_pct (CheckSafety p existing c) =
     (if existing \<noteq> [] then of_nat (length (pl_updates p)) / of_nat (length existing) else 0)"
  "sr_delete_pct (CheckSafety p existing c) =
     (if existing \<noteq> [] then of_nat (length (pl_deletes p)) / of_nat (length existing) else 0)"
  by (simp_all add: CheckSafety_def Let_def)

lemma parsed_config:
  "0 < sf_update_threshold_pct (ParseSafetyConfig j) \<and> sf_update_threshold_pct (ParseSafetyConfig j) \<le> 1 \<and>
   0 < sf_delete_threshold_pct (ParseSafetyConfig j) \<and> sf_delete_threshold_pct (ParseSafetyConfig j) \<le> 1 \<and>
   0 < sf_min_existing_records (ParseSafetyConfig j)"
  by (cases j) (simp_all add: ParseSafetyConfig_def DefaultSafetyConfig_def Let_def)

lemma parsed_protection:
  "sf_protect_root_ns (ParseSafetyConfig j) \<longleftrightarrow> (case j of None \<Rightarrow> True | Some s \<Rightarrow> sf_protect_root_ns s)"
  by (cases j) (simp_all add: ParseSafetyConfig_def DefaultSafetyConfig_def Let_def)

text \<open>
  Under every configuration a provider can have, the check passes a plan exactly if the plan leaves the
  name servers of the zone root alone (unless the protection is switched off) and, in a zone
  that is not small, updates and deletes at most the configured share of the records; a plan
  that does not pass always asks for force.
\<close>

theorem CheckSafety_correct:
  fixes p existing j
  defines "c \<equiv> ParseSafetyConfig j" and "n \<equiv> of_nat (length existing) :: rat"
  shows "sr_passed (CheckSafety p existing c) =
    ((sf_protect_root_ns c \<longrightarrow> (\<forall>ch \<in> set (plan_changes p). \<not> isRootNS (pl_zone p) ch)) \<and>
     (sf_min_existing_records c \<le> int (length existing) \<longrightarrow>
       of_nat (length (pl_updates p)) \<le> sf_update_threshold_pct c * n \<and>
       of_nat (length (pl_deletes p)) \<le> sf_delete_threshold_pct c * n)) \<and>
    sr_requires_force (CheckSafety p existing c) = (\<not> sr_passed (CheckSafety p existing c))"
proof -
  have pos: "existing \<noteq> [] \<and> 0 < length existing" if "sf_min_existing_records c \<le> int (length existing)"
    using that parsed_config [of j] by (auto simp: c_def)
  have "sr_requires_force (CheckSafety p existing c) = (\<not> sr_passed (CheckSafety p existing c))"
    by (simp add: CheckSafety_def Let_def)
  then show ?thesis
    using pos ratio_le unfolding CheckSafety_passed HasRootNSChange_iff CheckSafety_pct n_def
    by (auto simp: not_less)
qed

end
