(* ===== verification/Asset_Rows.thy ===== *)
theory Asset_Rows
  imports Tables Dns_Safety
begin

text \<open>
  The rows of the tables behind the asset services: DNS providers and records, maintenance
  windows, status pages, tags, fee schedules and costs, certificates, registrars, imports
  and probes. They form one record \<open>assets\<close>, a field of the world, because no other component
  reads them.
\<close>

section \<open>DNS\<close>

text \<open>
  store/postgres/dns\_provider.go. The JSONB column \<open>config\<close> is stored as the methods decode it:
  the zone id (empty if it is missing or does not decode) and the safety section.
\<close>

record provider_config =
  pc_zone_id :: string
  pc_safety :: "safety_config option"

record dns_provider_row =
  pv_id :: int
  pv_name :: string
  pv_provider_type :: string
  pv_config :: provider_config
  pv_credentials :: string
  pv_notes :: "string option"
  pv_deleted_at :: "int option"

text \<open>store/postgres/domain\_dns\_record.go.\<close>

record dns_record_row =
  dr_id :: int
  dr_domain_id :: int
  dr_dns_provider_id :: "int option"
  dr_provider_record_id :: "string option"
  dr_record_type :: string
  dr_name :: string
  dr_content :: string
  dr_ttl :: int
  dr_priority :: "int option"
  dr_proxied :: bool
  dr_synced_at :: "int option"
  dr_updated_at :: int
  dr_deleted_at :: "int option"

section \<open>Maintenance and status pages\<close>

text \<open>
  store/postgres/maintenance.go. The recurrence is JSON that each strategy decodes into its own
  structure; the record holds the fields of all of them, with the zero value for a missing
  one. A column without bytes, the JSON \<open>null\<close> and JSON of another shape are told apart.
\<close>

record recurrence =
  rc_weekdays :: "int list"
  rc_day_of_month :: int
  rc_expression :: string
  rc_start_time :: string
  rc_duration_minutes :: int
  rc_timezone :: string

datatype recurrence_json = Empty_Json | Null_Json | Good_Json recurrence | Bad_Json

record maintenance_window_row =
  mw_id :: int
  mw_title :: string
  mw_description :: "string option"
  mw_strategy :: string
  mw_start_at :: "int option"
  mw_end_at :: "int option"
  mw_recurrence :: recurrence_json
  mw_active :: bool
  mw_created_by :: "int option"

record maintenance_target_row =
  mt_id :: int
  mt_maintenance_id :: int
  mt_target_type :: string
  mt_target_id :: int

text \<open>store/postgres/statuspage.go.\<close>

record status_page_row =
  sp_id :: int
  sp_slug :: string
  sp_title :: string
  sp_description :: "string option"
  sp_published :: bool
  sp_password_hash :: "string option"
  sp_custom_domain :: "string option"
  sp_theme :: string
  sp_logo_url :: "string option"
  sp_footer_text :: "string option"
  sp_custom_css :: "string option"
  sp_auto_refresh_seconds :: int
  sp_created_by :: "int option"

record page_group_row =
  pg_id :: int
  pg_status_page_id :: int
  pg_name :: string
  pg_sort_order :: int

record page_monitor_row =
  pm_id :: int
  pm_group_id :: int
  pm_domain_id :: int
  pm_display_name :: "string option"
  pm_sort_order :: int

record page_incident_row =
  pi_id :: int
  pi_status_page_id :: int
  pi_title :: string
  pi_content :: "string option"
  pi_severity :: string
  pi_pinned :: bool
  pi_active :: bool
  pi_created_by :: "int option"
  pi_created_at :: int

section \<open>Tags, costs, certificates, registrars\<close>

text \<open>store/postgres/tag.go, cost.go, ssl\_certificate.go and registrar.go.\<close>

record tag_row =
  tg_id :: int
  tg_name :: string
  tg_color :: "string option"

record fee_schedule_row =
  fs_id :: int
  fs_registrar_id :: int
  fs_tld :: string
  fs_registration_fee :: rat
  fs_renewal_fee :: rat
  fs_transfer_fee :: rat
  fs_privacy_fee :: rat
  fs_currency :: string

record domain_cost_row =
  dc_id :: int
  dc_domain_id :: int
  dc_cost_type :: string
  dc_amount :: rat
  dc_currency :: string
  dc_period_start :: "int option"
  dc_period_end :: "int option"
  dc_paid_at :: "int option"
  dc_notes :: "string option"
  dc_created_at :: int

record certificate_row =
  ce_id :: int
  ce_domain_id :: int
  ce_issuer :: "string option"
  ce_cert_type :: "string option"
  ce_serial_number :: "string option"
  ce_issued_at :: "int option"
  ce_expires_at :: int
  ce_auto_renew :: bool
  ce_status :: string
  ce_last_check_at :: "int option"
  ce_notes :: "string option"
  ce_deleted_at :: "int option"

record registrar_row =
  rg_id :: int
  rg_name :: string
  rg_url :: "string option"
  rg_api_type :: "string option"
  rg_capabilities :: string
  rg_notes :: "string option"
  rg_deleted_at :: "int option"

record registrar_account_row =
  ra_id :: int
  ra_registrar_id :: int
  ra_account_name :: string
  ra_owner_user_id :: "int option"
  ra_credentials :: string
  ra_is_default :: bool
  ra_notes :: "string option"
  ra_deleted_at :: "int option"

section \<open>Imports and probes\<close>

text \<open>
  store/postgres/import\_job.go. The error details are JSON text: an object for a job that could not be
  queued or whose file does not parse, otherwise the list of rejected rows with line, name and reason.
\<close>

record row_error =
  re_line :: int
  re_fqdn :: string
  re_reason :: string

datatype import_details = Queue_Error | Parse_Error | Row_Errors "row_error list"

record import_job_row =
  ij_id :: int
  ij_project_id :: int
  ij_registrar_account_id :: "int option"
  ij_source_type :: string
  ij_status :: string
  ij_total_count :: int
  ij_imported_count :: int
  ij_skipped_count :: int
  ij_failed_count :: int
  ij_error_details :: "import_details option"
  ij_raw_csv :: "string option"
  ij_created_by :: "int option"
  ij_started_at :: "int option"
  ij_completed_at :: "int option"
  ij_created_at :: int

text \<open>
  store/postgres/probe.go. The column \<open>probe_type\<close> of \<open>probe_results\<close>, which no Go type has, is
  read by the status page and filled by its default.
\<close>

record probe_policy_row =
  pp_id :: int
  pp_project_id :: "int option"
  pp_name :: string
  pp_tier :: int
  pp_interval_seconds :: int
  pp_timeout_seconds :: int
  pp_expected_status :: "int option"
  pp_expected_keyword :: "string option"
  pp_expected_meta_tag :: "string option"
  pp_enabled :: bool

record probe_task_row =
  pt_id :: int
  pt_policy_id :: int
  pt_domain_id :: int
  pt_scheduled_for :: int
  pt_status :: string
  pt_started_at :: "int option"
  pt_completed_at :: "int option"
  pt_error_message :: "string option"

record probe_result_row =
  pr_id :: int
  pr_domain_id :: int
  pr_policy_id :: "int option"
  pr_probe_task_id :: "int option"
  pr_tier :: int
  pr_status :: string
  pr_http_status :: "int option"
  pr_response_time_ms :: "int option"
  pr_error_message :: "string option"
  pr_probe_runner :: "string option"
  pr_checked_at :: int
  pr_probe_type :: string

text \<open>internal/probe/service.go, type \<open>RunPayload\<close>.\<close>

record run_payload =
  rp_probe_task_id :: int
  rp_policy_id :: int
  rp_domain_id :: int
  rp_fqdn :: string
  rp_expected_status :: "int option"
  rp_expected_keyword :: "string option"
  rp_expected_meta_tag :: "string option"
  rp_timeout_seconds :: int
  rp_health_path :: string

section \<open>Users, projects, templates\<close>

text \<open>store/postgres/user.go, project.go, template.go and dns\_template.go.\<close>

record user_row =
  us_id :: int
  us_username :: string
  us_password_hash :: string
  us_display_name :: "string option"
  us_status :: string
  us_deleted_at :: "int option"

record project_row =
  pj_id :: int
  pj_name :: string
  pj_slug :: string
  pj_description :: "string option"
  pj_is_prod :: bool
  pj_owner_id :: "int option"
  pj_deleted_at :: "int option"

record template_row =
  tp_id :: int
  tp_project_id :: int
  tp_name :: string
  tp_description :: "string option"
  tp_kind :: string
  tp_deleted_at :: "int option"

text \<open>The JSON columns \<open>records\<close> and \<open>variables\<close> are what the service writes into them.\<close>

record template_record =
  tr_name :: string
  tr_type :: string
  tr_content :: string
  tr_ttl :: int
  tr_priority :: int

record record_template_row =
  rt_id :: int
  rt_name :: string
  rt_description :: "string option"
  rt_records :: "template_record list"
  rt_variables :: "(string \<times> string) list"

section \<open>CDN\<close>

text \<open>store/postgres/cdn.go and cdn\_binding.go.\<close>

record cdn_provider_row =
  cp_id :: int
  cp_name :: string
  cp_provider_type :: string
  cp_description :: "string option"
  cp_deleted_at :: "int option"

record cdn_account_row =
  cn_id :: int
  cn_cdn_provider_id :: int
  cn_account_name :: string
  cn_credentials :: string
  cn_notes :: "string option"
  cn_enabled :: bool
  cn_created_by :: "int option"
  cn_deleted_at :: "int option"

record cdn_binding_row =
  cb_id :: int
  cb_domain_id :: int
  cb_cdn_account_id :: int
  cb_cname :: "string option"
  cb_business_type :: string
  cb_status :: string
  cb_created_at :: int
  cb_deleted_at :: "int option"

record cdn_config_row =
  cg_id :: int
  cg_binding_id :: int
  cg_config_type :: string
  cg_config :: string
  cg_synced_at :: "int option"

record cdn_task_row =
  cw_id :: int
  cw_binding_id :: int
  cw_task_type :: string
  cw_provider_task_id :: "string option"
  cw_status :: string
  cw_targets :: "string list"
  cw_created_by :: "int option"
  cw_created_at :: int
  cw_completed_at :: "int option"

section \<open>The tables\<close>

text \<open>\<open>redis_marks\<close>: the string keys of Redis with their value and the time they expire.\<close>

record assets =
  dns_providers :: "dns_provider_row tbl"
  domain_dns_records :: "dns_record_row tbl"
  redis_marks :: "(string \<times> int \<times> int) list"
  maintenance_windows :: "maintenance_window_row tbl"
  maintenance_targets :: "maintenance_target_row tbl"
  status_pages :: "status_page_row tbl"
  page_groups :: "page_group_row tbl"
  page_monitors :: "page_monitor_row tbl"
  page_incidents :: "page_incident_row tbl"
  tags :: "tag_row tbl"
  domain_tags :: "(int \<times> int) list"
  fee_schedules :: "fee_schedule_row tbl"
  domain_costs :: "domain_cost_row tbl"
  certificates :: "certificate_row tbl"
  registrars :: "registrar_row tbl"
  registrar_accounts :: "registrar_account_row tbl"
  import_jobs :: "import_job_row tbl"
  probe_policies :: "probe_policy_row tbl"
  probe_tasks :: "probe_task_row tbl"
  probe_results :: "probe_result_row tbl"
  users :: "user_row tbl"
  projects :: "project_row tbl"
  templates :: "template_row tbl"
  record_templates :: "record_template_row tbl"
  cdn_providers :: "cdn_provider_row tbl"
  cdn_accounts :: "cdn_account_row tbl"
  cdn_bindings :: "cdn_binding_row tbl"
  cdn_configs :: "cdn_config_row tbl"
  cdn_tasks :: "cdn_task_row tbl"

definition empty_assets :: assets where
  "empty_assets = \<lparr>dns_providers = empty_tbl, domain_dns_records = empty_tbl, redis_marks = [],
     maintenance_windows = empty_tbl, maintenance_targets = empty_tbl, status_pages = empty_tbl,
     page_groups = empty_tbl, page_monitors = empty_tbl, page_incidents = empty_tbl,
     tags = empty_tbl, domain_tags = [], fee_schedules = empty_tbl, domain_costs = empty_tbl,
     certificates = empty_tbl, registrars = empty_tbl, registrar_accounts = empty_tbl,
     import_jobs = empty_tbl, probe_policies = empty_tbl, probe_tasks = empty_tbl,
     probe_results = empty_tbl, users = empty_tbl, projects = empty_tbl, templates = empty_tbl,
     record_templates = empty_tbl, cdn_providers = empty_tbl, cdn_accounts = empty_tbl,
     cdn_bindings = empty_tbl, cdn_configs = empty_tbl, cdn_tasks = empty_tbl\<rparr>"

end
