(* ===== verification/Store.thy ===== *)
theory Store
  imports Probe_Protocol Asset_Rows
begin

text \<open>
  The data model of store/postgres: one record per table row, tables as row lists with the
  sequence behind their \<open>BIGSERIAL\<close> key, and the state of the world a service method runs
  in. Every statement sent to PostgreSQL, Redis or the object store can fail: the field
  \<open>faults\<close> is the schedule of those failures, one Boolean per external call, so that a
  theorem that does not restrict it holds under every failure pattern.

  Conventions. Go's \<open>*T\<close> is \<open>'a option\<close>. \<open>int64\<close> keys and counters are \<open>int\<close>: no operation
  modelled here multiplies or accumulates them beyond row counts. Timestamps are seconds,
  \<open>NOW()\<close> and \<open>time.Now()\<close> read the field \<open>now\<close>. A JSONB column whose content a method
  decodes is stored decoded, with \<open>None\<close> for bytes that do not decode. The random
  \<open>uuid\<close> columns, which no query reads, are left out. Foreign keys are not
  enforced; unique constraints and the status \<open>CHECK\<close> of agent tasks are.
\<close>

section \<open>Errors\<close>

text \<open>
  The sentinel errors of the packages and of the store, an unnamed \<open>fmt.Errorf\<close> as \<open>ErrMsg\<close>,
  and the failure of an external call as \<open>ErrDB\<close>. \<open>ErrSentinel\<close> is a sentinel named by its text, for
  the packages that only hand theirs through. Wrapping with \<open>%w\<close> keeps the sentinel that
  \<open>errors.Is\<close> looks for, so a wrapped error is the error itself here.
\<close>

datatype (plugins only: code size) go_err =
    ErrDB
  | ErrNoRows
  | ErrUnique string
  | ErrCheck string
  | ErrMsg string
  | ErrDomainNotFound
  | ErrInvalidLifecycleState
  | ErrLifecycleRaceCondition
  | ErrDuplicateFQDN
  | ErrTransferAlreadyPending
  | ErrNoActiveTransfer
  | ErrReleaseNotFound
  | ErrInvalidReleaseState
  | ErrReleaseRaceCondition
  | ErrDomainNotActive
  | ErrNoDomainsInScope
  | ErrTemplateNotPublished
  | ErrRollbackNotAllowed
  | ErrNoPreviousRelease
  | ErrAgentNotFound
  | ErrInvalidAgentState
  | ErrAgentRaceCondition
  | ErrArtifactNotFound
  | ErrArtifactImmutable
  | ErrSignatureInvalid
  | ErrTemplateVersionNotFound
  | ErrAlertNotFound
  | ErrNotificationRuleNotFound
  | ErrNotificationChannelNotFound
  | ErrProbeNodeNotFound
  | ErrCheckAssignmentNotFound
  | ErrDomainPermissionNotFound
  | ErrDNSProviderNotFound
  | ErrDNSProviderHasDependents
  | ErrDNSRecordNotFound
  | ErrNoProvider
  | ErrProviderInit
  | ErrProviderNotFound
  | ErrProviderCall string
  | ErrInvalidInput string
  | ErrMaintenanceWindowNotFound
  | ErrStatusPageNotFound
  | ErrTagNotFound
  | ErrDuplicateName
  | ErrEmptyName
  | ErrInvalidColor
  | ErrFeeScheduleNotFound
  | ErrInvalidCostType
  | ErrInvalidCurrency
  | ErrSSLCertNotFound
  | ErrCheckFailed
  | ErrRegistrarNotFound
  | ErrRegistrarAccountNotFound
  | ErrRegistrarHasDependents
  | ErrNoAPIType
  | ErrProbePolicyNotFound
  | ErrProbeTaskNotFound
  | ErrEmptyCSV
  | ErrTooManyRows
  | ErrInvalidHeader
  | ErrSentinel string

section \<open>Rows\<close>

text \<open>store/postgres/domain.go, type \<open>Domain\<close>, and the four blocking columns of gfw\_blocking.go.\<close>

record domain_row =
  d_id :: int
  d_project_id :: int
  d_fqdn :: string
  d_lifecycle_state :: string
  d_owner_user_id :: "int option"
  d_tld :: "string option"
  d_registrar_account_id :: "int option"
  d_dns_provider_id :: "int option"
  d_cdn_account_id :: "int option"
  d_origin_ips :: "string list"
  d_registration_date :: "int option"
  d_expiry_date :: "int option"
  d_auto_renew :: bool
  d_grace_end_date :: "int option"
  d_expiry_status :: "string option"
  d_transfer_lock :: bool
  d_hold :: bool
  d_transfer_status :: "string option"
  d_transfer_gaining_registrar :: "string option"
  d_transfer_requested_at :: "int option"
  d_transfer_completed_at :: "int option"
  d_last_transfer_at :: "int option"
  d_last_renewed_at :: "int option"
  d_nameservers :: string
  d_dnssec_enabled :: bool
  d_whois_privacy :: bool
  d_registrant_contact :: string
  d_admin_contact :: string
  d_tech_contact :: string
  d_annual_cost :: "rat option"
  d_currency :: "string option"
  d_purchase_price :: "rat option"
  d_fee_fixed :: bool
  d_purpose :: "string option"
  d_notes :: "string option"
  d_metadata :: string
  d_ns_delegation_status :: string
  d_ns_verified_at :: "int option"
  d_ns_last_checked_at :: "int option"
  d_ns_actual :: "string list"
  d_last_sync_at :: "int option"
  d_last_drift_at :: "int option"
  d_blocking_status :: "string option"
  d_blocking_type :: "string option"
  d_blocking_since :: "int option"
  d_blocking_confidence :: "rat option"
  d_created_at :: int
  d_updated_at :: int
  d_deleted_at :: "int option"

text \<open>
  One row shape for \<open>domain_lifecycle_history\<close>, \<open>release_state_history\<close> and
  \<open>agent_state_history\<close>: \<open>h_owner\<close> is \<open>domain_id\<close>, \<open>release_id\<close> or \<open>agent_id\<close>.
\<close>

record history_row =
  h_id :: int
  h_owner :: int
  h_from :: "string option"
  h_to :: string
  h_reason :: "string option"
  h_triggered_by :: string
  h_created_at :: int

text \<open>store/postgres/release.go.\<close>

record release_row =
  r_id :: int
  r_release_id :: string
  r_project_id :: int
  r_template_version_id :: int
  r_artifact_id :: "int option"
  r_release_type :: string
  r_trigger_source :: string
  r_status :: string
  r_total_domains :: "int option"
  r_total_shards :: "int option"
  r_success_count :: int
  r_failure_count :: int
  r_description :: "string option"
  r_created_at :: int
  r_created_by :: "int option"
  r_started_at :: "int option"
  r_ended_at :: "int option"

record scope_row =
  sc_id :: int
  sc_release_id :: int
  sc_domain_id :: int
  sc_host_group_id :: "int option"

record shard_row =
  sh_id :: int
  sh_release_id :: int
  sh_index :: int
  sh_is_canary :: bool
  sh_domain_count :: int
  sh_status :: string
  sh_started_at :: "int option"
  sh_ended_at :: "int option"
  sh_success_count :: int
  sh_failure_count :: int

text \<open>store/postgres/domain\_task.go, host\_group.go, rollback.go.\<close>

record domain_task_row =
  dt_id :: int
  dt_release_id :: int
  dt_shard_id :: "int option"
  dt_domain_id :: int
  dt_host_group_id :: "int option"
  dt_task_type :: string
  dt_status :: string
  dt_ended_at :: "int option"
  dt_last_error :: "string option"

record host_group_row =
  hg_id :: int
  hg_project_id :: int
  hg_name :: string
  hg_max_concurrency :: int
  hg_reload_batch_size :: int
  hg_reload_batch_wait_secs :: int
  hg_deleted_at :: "int option"

record rollback_row =
  rb_id :: int
  rb_release_id :: int
  rb_rollback_release_id :: "int option"
  rb_target_artifact_id :: int
  rb_scope :: string
  rb_reason :: string
  rb_completed_at :: "int option"
  rb_success :: "bool option"

text \<open>store/postgres/agent.go.\<close>

record agent_row =
  a_id :: int
  a_agent_id :: string
  a_hostname :: string
  a_ip :: "string option"
  a_region :: "string option"
  a_datacenter :: "string option"
  a_host_group_id :: "int option"
  a_agent_version :: "string option"
  a_cert_serial :: "string option"
  a_status :: string
  a_last_seen_at :: "int option"
  a_created_at :: int
  a_deleted_at :: "int option"

record heartbeat_row =
  hb_id :: int
  hb_agent_id :: int
  hb_status :: string
  hb_current_task_id :: "string option"
  hb_agent_version :: "string option"
  hb_load_avg_1 :: rat
  hb_disk_free_pct :: rat
  hb_last_error :: "string option"

record agent_task_row =
  t_id :: int
  t_task_id :: string
  t_domain_task_id :: int
  t_agent_id :: int
  t_artifact_id :: int
  t_artifact_url :: "string option"
  t_payload :: task_envelope
  t_status :: string
  t_claimed_at :: "int option"
  t_ended_at :: "int option"
  t_duration_ms :: "int option"
  t_last_error :: "string option"
  t_created_at :: int

record deployment_log_row =
  dl_id :: int
  dl_agent_task_id :: int
  dl_phase :: string
  dl_status :: string
  dl_duration_ms :: int
  dl_detail :: string

text \<open>store/postgres/template.go and artifact.go. Template variables map a name to its JSON text.\<close>

type_synonym variables = "(string \<times> string) list"

record template_version_row =
  tv_id :: int
  tv_template_id :: int
  tv_content_html :: "string option"
  tv_content_nginx :: "string option"
  tv_default_variables :: "variables option"
  tv_published_at :: "int option"
  tv_version_label :: string
  tv_checksum :: string
  tv_published_by :: "int option"
  tv_created_at :: int
  tv_created_by :: "int option"

record artifact_row =
  af_id :: int
  af_project_id :: int
  af_release_id :: "int option"
  af_template_version_id :: int
  af_artifact_id :: string
  af_storage_uri :: string
  af_manifest :: "manifest option"
  af_checksum :: string
  af_signature :: "string option"
  af_domain_count :: int
  af_file_count :: int
  af_total_size_bytes :: int
  af_built_at :: int
  af_built_by :: "int option"
  af_signed_at :: "int option"

text \<open>
  store/postgres/alert.go and notification.go. A JSON object is the list of its members; the
  detail of an alert is \<open>None\<close> for SQL \<open>NULL\<close>.
\<close>

datatype json = JString string | JNumber rat | JBool bool

type_synonym json_object = "(string \<times> json) list"

record alert_row =
  al_id :: int
  al_severity :: string
  al_source :: string
  al_target_kind :: string
  al_target_id :: "int option"
  al_title :: string
  al_detail :: "json_object option"
  al_dedup_key :: "string option"
  al_notified_at :: "int option"
  al_resolved_at :: "int option"
  al_acknowledged_at :: "int option"
  al_acknowledged_by :: "int option"
  al_created_at :: int

record rule_row =
  nr_id :: int
  nr_channel_id :: int
  nr_alert_type :: "string option"
  nr_min_severity :: string
  nr_target_type :: "string option"
  nr_target_id :: "int option"
  nr_enabled :: bool

record channel_row =
  nc_id :: int
  nc_name :: string
  nc_channel_type :: string
  nc_config :: string
  nc_is_default :: bool
  nc_enabled :: bool

record notification_row =
  nh_id :: int
  nh_channel_id :: int
  nh_alert_event_id :: "int option"
  nh_status :: string
  nh_message :: "string option"
  nh_error :: "string option"
  nh_sent_at :: int

text \<open>
  store/postgres/gfw\_node.go, gfw\_measurement.go and gfw\_verdict.go. A JSONB column of a
  measurement is \<open>NULL\<close>, a value of the wire type, or bytes that do not decode to it.
\<close>

record probe_node_row =
  pn_id :: int
  pn_node_id :: string
  pn_region :: string
  pn_role :: string
  pn_status :: string
  pn_last_seen_at :: "int option"
  pn_agent_version :: "string option"
  pn_ip_address :: "string option"
  pn_metadata :: json_object

record check_assignment_row =
  ca_id :: int
  ca_domain_id :: int
  ca_probe_node_ids :: "string list"
  ca_control_node_ids :: "string list"
  ca_check_interval :: int
  ca_enabled :: bool

datatype 'a jsonb = Null | Value 'a | Malformed

record measurement_row =
  mr_id :: int
  mr_domain_id :: int
  mr_node_id :: string
  mr_node_role :: string
  mr_region :: string
  mr_fqdn :: string
  mr_dns_result :: "dns_result jsonb"
  mr_tcp_results :: "tcp_result list jsonb"
  mr_tls_results :: "tls_result list jsonb"
  mr_http_result :: "http_result jsonb"
  mr_total_ms :: "int option"
  mr_measured_at :: int

record bogon_row =
  bg_id :: int
  bg_ip_address :: string
  bg_source :: string
  bg_note :: string

record verdict_detail =
  vd_probe_answers :: "string list"
  vd_control_answers :: "string list"
  vd_probe_is_bogon :: bool
  vd_probe_is_injected :: bool
  vd_cdn_owner :: string
  vd_probe_tcp_success :: bool
  vd_control_tcp_success :: bool
  vd_tcp_error :: string
  vd_probe_tls_success :: bool
  vd_control_tls_success :: bool
  vd_tls_error :: string
  vd_probe_http_status :: int
  vd_control_http_status :: int
  vd_probe_http_title :: string
  vd_control_http_title :: string
  vd_http_error :: string

record verdict_row =
  vr_id :: int
  vr_domain_id :: int
  vr_blocking :: string
  vr_accessible :: bool
  vr_dns_consistency :: "string option"
  vr_confidence :: rat
  vr_probe_node_id :: string
  vr_control_node_id :: string
  vr_detail :: verdict_detail
  vr_measured_at :: int
  vr_created_at :: int

text \<open>internal/gfw/confidence.go, type \<open>confidenceState\<close>, as stored in Redis.\<close>

record confidence_state =
  cs_count :: int
  cs_unique_nodes :: "string list"
  cs_last_blocking :: string

text \<open>store/postgres/domain\_permission.go.\<close>

record permission_row =
  dp_row_id :: int
  dp_domain_id :: int
  dp_user_id :: int
  dp_permission :: string
  dp_granted_by :: "int option"
  dp_granted_at :: int

section \<open>Tasks on the queue\<close>

text \<open>internal/tasks/payloads.go and the payload types of internal/release.\<close>

record alert_fire_payload =
  ap_severity :: string
  ap_source :: string
  ap_target_kind :: string
  ap_target_id :: "int option"
  ap_title :: string
  ap_detail :: "json_object option"
  ap_dedup_key :: string

datatype job =
    PlanJob int "int list" string
  | BuildJob int string int "int option" "int option" "int list"
  | DispatchJob int int
  | FinalizeJob int int int bool int
  | RollbackJob int int string int
  | AlertFireJob alert_fire_payload
  | NotifySendJob int int string
  | ImportJob int
  | DriftCheckJob int string int
  | DriftCheckAllJob
  | NSCheckJob int string int "string list"
  | ProbeRunJob int run_payload

record queued =
  q_job :: job
  q_max_retry :: int
  q_timeout :: int
  q_queue :: string
  q_process_in :: int

section \<open>The world\<close>

record world =
  now :: int
  faults :: "bool list"
  domains :: "domain_row tbl"
  domain_vars :: "(int \<times> variables option) list"
  domain_history :: "history_row tbl"
  releases :: "release_row tbl"
  release_history :: "history_row tbl"
  scopes :: "scope_row tbl"
  shards :: "shard_row tbl"
  domain_tasks :: "domain_task_row tbl"
  host_groups :: "host_group_row tbl"
  rollbacks :: "rollback_row tbl"
  agents :: "agent_row tbl"
  agent_history :: "history_row tbl"
  heartbeats :: "heartbeat_row tbl"
  agent_tasks :: "agent_task_row tbl"
  deployment_logs :: "deployment_log_row tbl"
  template_versions :: "template_version_row tbl"
  artifacts :: "artifact_row tbl"
  alert_events :: "alert_row tbl"
  notification_rules :: "rule_row tbl"
  notification_channels :: "channel_row tbl"
  notification_history :: "notification_row tbl"
  gfw_probe_nodes :: "probe_node_row tbl"
  gfw_check_assignments :: "check_assignment_row tbl"
  gfw_measurements :: "measurement_row tbl"
  gfw_bogon_ips :: "bogon_row tbl"
  gfw_verdicts :: "verdict_row tbl"
  gfw_confidence :: "(int \<times> (confidence_state \<times> int)) list"
  domain_permissions :: "permission_row tbl"
  user_roles :: "(int \<times> string) list"
  assets :: assets
  task_queue :: "queued list"

type_synonym 'a op = "(world, go_err, 'a) eff"

definition empty_world :: world where
  "empty_world = \<lparr>now = 0, faults = [], domains = empty_tbl, domain_vars = [],
     domain_history = empty_tbl, releases = empty_tbl, release_history = empty_tbl,
     scopes = empty_tbl, shards = empty_tbl, domain_tasks = empty_tbl, host_groups = empty_tbl,
     rollbacks = empty_tbl, agents = empty_tbl, agent_history = empty_tbl,
     heartbeats = empty_tbl, agent_tasks = empty_tbl, deployment_logs = empty_tbl,
     template_versions = empty_tbl, artifacts = empty_tbl, alert_events = empty_tbl,
     notification_rules = empty_tbl, notification_channels = empty_tbl,
     notification_history = empty_tbl, gfw_probe_nodes = empty_tbl,
     gfw_check_assignments = empty_tbl, gfw_measurements = empty_tbl, gfw_bogon_ips = empty_tbl,
     gfw_verdicts = empty_tbl, gfw_confidence = [], domain_permissions = empty_tbl,
     user_roles = [], assets = empty_assets, task_queue = []\<rparr>"

text \<open>An external call: it consumes one entry of the fault schedule and may fail without effect.\<close>

definition stmt :: "'a op \<Rightarrow> 'a op" where
  "stmt m = (\<lambda>w. case faults w of
       [] \<Rightarrow> m w
     | b # bs \<Rightarrow> if b then (Inl ErrDB, w\<lparr>faults := bs\<rparr>) else m (w\<lparr>faults := bs\<rparr>))"

definition query :: "(world \<Rightarrow> 'a) \<Rightarrow> 'a op" where
  "query f = stmt (gets f)"

definition exec :: "(world \<Rightarrow> world) \<Rightarrow> unit op" where
  "exec f = stmt (modify f)"

text \<open>A write that the database or the affected-row count rejects: nothing is written then.\<close>

definition exec_unless :: "(world \<Rightarrow> bool) \<Rightarrow> go_err \<Rightarrow> (world \<Rightarrow> world) \<Rightarrow> unit op" where
  "exec_unless p e f = stmt (\<lambda>w. if p w then (Inl e, w) else (Inr (), f w))"

text \<open>\<open>GetContext\<close>: a missing row is the given error.\<close>

definition query_one :: "go_err \<Rightarrow> (world \<Rightarrow> 'a option) \<Rightarrow> 'a op" where
  "query_one e f = bnd (query f) (\<lambda>x. case x of None \<Rightarrow> throw e | Some a \<Rightarrow> ret a)"

text \<open>
  \<open>BeginTx\<close>, the body, \<open>Commit\<close>; on any error the deferred \<open>Rollback\<close> restores the state the
  transaction started from.
\<close>

definition transaction :: "'a op \<Rightarrow> 'a op" where
  "transaction m = (\<lambda>w. case stmt (ret ()) w of
       (Inl e, w1) \<Rightarrow> (Inl e, w1)
     | (Inr _, w1) \<Rightarrow>
         (case m w1 of
            (Inl e, w2) \<Rightarrow> (Inl e, w1\<lparr>faults := faults w2\<rparr>)
          | (Inr a, w2) \<Rightarrow>
              (case stmt (ret ()) w2 of
                 (Inl e, w3) \<Rightarrow> (Inl e, w1\<lparr>faults := faults w3\<rparr>)
               | (Inr _, w3) \<Rightarrow> (Inr a, w3))))"

text \<open>\<open>asynq.Client.Enqueue\<close>.\<close>

definition enqueue :: "job \<Rightarrow> int \<Rightarrow> int \<Rightarrow> string \<Rightarrow> int \<Rightarrow> unit op" where
  "enqueue j retry timeout q delay =
     exec (\<lambda>w. w\<lparr>task_queue := task_queue w @
       [\<lparr>q_job = j, q_max_retry = retry, q_timeout = timeout, q_queue = q, q_process_in = delay\<rparr>]\<rparr>)"

section \<open>Rules for statements and transactions\<close>

lemma final_stmt:
  "final (stmt m) w = (case faults w of [] \<Rightarrow> final m w
     | b # bs \<Rightarrow> if b then w\<lparr>faults := bs\<rparr> else final m (w\<lparr>faults := bs\<rparr>))"
  by (simp add: stmt_def final_def split: list.splits)

lemma result_stmt:
  "result (stmt m) w = (case faults w of [] \<Rightarrow> result m w
     | b # bs \<Rightarrow> if b then Inl ErrDB else result m (w\<lparr>faults := bs\<rparr>))"
  by (simp add: stmt_def result_def split: list.splits)

lemma stmt_calm [simp]: "faults w = [] \<Longrightarrow> result (stmt m) w = result m w"
  "faults w = [] \<Longrightarrow> final (stmt m) w = final m w"
  by (simp_all add: result_stmt final_stmt)

lemma query_calm [simp]: "faults w = [] \<Longrightarrow> result (query f) w = Inr (f w)"
  "faults w = [] \<Longrightarrow> final (query f) w = w"
  by (simp_all add: query_def)

lemma exec_calm [simp]: "faults w = [] \<Longrightarrow> result (exec f) w = Inr ()"
  "faults w = [] \<Longrightarrow> final (exec f) w = f w"
  by (simp_all add: exec_def)

lemma exec_unless_calm [simp]:
  "faults w = [] \<Longrightarrow> result (exec_unless p e f) w = (if p w then Inl e else Inr ())"
  "faults w = [] \<Longrightarrow> final (exec_unless p e f) w = (if p w then w else f w)"
  by (simp_all add: exec_unless_def) (simp_all add: result_def final_def)

lemma query_one_calm [simp]:
  "faults w = [] \<Longrightarrow> result (query_one e f) w = (case f w of None \<Rightarrow> Inl e | Some a \<Rightarrow> Inr a)"
  "faults w = [] \<Longrightarrow> final (query_one e f) w = w"
  by (simp_all add: query_one_def eff_run split: option.splits)

lemma enqueue_calm [simp]:
  "faults w = [] \<Longrightarrow> result (enqueue j r t q d) w = Inr ()"
  "faults w = [] \<Longrightarrow> final (enqueue j r t q d) w =
     w\<lparr>task_queue := task_queue w @
       [\<lparr>q_job = j, q_max_retry = r, q_timeout = t, q_queue = q, q_process_in = d\<rparr>]\<rparr>"
  by (simp_all add: enqueue_def)

lemma world_faults_self: "w = w\<lparr>faults := faults w\<rparr>" for w :: world
  by simp

lemma world_faults_Nil [simp]: "faults w = [] \<Longrightarrow> w\<lparr>faults := []\<rparr> = w" for w :: world
  by (metis world_faults_self)

lemma final_stmt_ret: "\<exists>fs. final (stmt (ret ())) w = w\<lparr>faults := fs\<rparr>"
  by (cases "faults w") (auto simp: final_stmt intro: world_faults_self)

text \<open>The outcome of a transaction: committed with the body's effect, or nothing but faults used up.\<close>

lemma transaction_Inr:
  assumes "result (transaction m) w = Inr a"
  obtains w1 w2 fs where "w1 = w\<lparr>faults := fs\<rparr>" "result m w1 = Inr a" "final m w1 = w2"
    "\<exists>fs'. final (transaction m) w = w2\<lparr>faults := fs'\<rparr>"
proof -
  obtain fs where w1: "final (stmt (ret ())) w = w\<lparr>faults := fs\<rparr>"
    using final_stmt_ret by blast
  let ?w1 = "w\<lparr>faults := fs\<rparr>"
  have m: "result m ?w1 = Inr a"
    and "final (transaction m) w = final (stmt (ret ())) (final m ?w1)"
    using assms w1 unfolding transaction_def result_def final_def
    by (auto split: prod.splits sum.splits)
  then show thesis
    using that [of ?w1 fs "final m ?w1"] final_stmt_ret [of "final m ?w1"] by auto
qed

lemma transaction_Inl:
  assumes "result (transaction m) w = Inl e"
  shows "\<exists>fs. final (transaction m) w = w\<lparr>faults := fs\<rparr>"
proof -
  obtain fs where w1: "final (stmt (ret ())) w = w\<lparr>faults := fs\<rparr>"
    using final_stmt_ret by blast
  have "\<exists>fs'. final (transaction m) w = (final (stmt (ret ())) w)\<lparr>faults := fs'\<rparr>
      \<or> final (transaction m) w = final (stmt (ret ())) w"
    using assms unfolding transaction_def result_def final_def
    by (auto split: prod.splits sum.splits)
  with w1 show ?thesis by auto
qed

lemma transaction_calm:
  assumes "faults w = []" and "faults (final m w) = []"
  shows "result (transaction m) w = result m w"
    and "final (transaction m) w = (case result m w of Inl e \<Rightarrow> w | Inr a \<Rightarrow> final m w)"
  using assms
  by (auto simp: transaction_def stmt_def ret_def result_def final_def split: prod.splits sum.splits)

text \<open>What a successful statement did, for any fault schedule.\<close>

lemma stmt_InrE:
  assumes "result (stmt m) w = Inr a"
  obtains fs where "result m (w\<lparr>faults := fs\<rparr>) = Inr a"
    and "final (stmt m) w = final m (w\<lparr>faults := fs\<rparr>)"
proof (cases "faults w")
  case Nil
  then show thesis
    using that [of "[]"] assms by simp
next
  case (Cons b bs)
  then show thesis
    using that [of bs] assms by (auto simp: final_stmt result_stmt split: if_splits)
qed

lemma exec_InrE:
  assumes "result (exec f) w = Inr u"
  obtains fs where "final (exec f) w = f (w\<lparr>faults := fs\<rparr>)"
  using assms unfolding exec_def by (rule stmt_InrE) (simp add: that)

lemma exec_unless_InrE:
  assumes "result (exec_unless p e f) w = Inr u"
  obtains fs where "\<not> p (w\<lparr>faults := fs\<rparr>)" and "final (exec_unless p e f) w = f (w\<lparr>faults := fs\<rparr>)"
  using assms unfolding exec_unless_def
  by (rule stmt_InrE) (auto simp: result_def final_def split: if_splits intro: that)

lemma query_InrE:
  assumes "result (query f) w = Inr a"
  obtains fs where "f (w\<lparr>faults := fs\<rparr>) = a" and "final (query f) w = w\<lparr>faults := fs\<rparr>"
  using assms unfolding query_def by (rule stmt_InrE) (simp add: that)

lemma query_one_InrE:
  assumes "result (query_one e f) w = Inr a"
  obtains fs where "f (w\<lparr>faults := fs\<rparr>) = Some a" and "final (query_one e f) w = w\<lparr>faults := fs\<rparr>"
proof -
  obtain x where x: "result (query f) w = Inr x"
    using assms by (auto simp: query_one_def eff_run split: sum.splits)
  then obtain fs where fs: "f (w\<lparr>faults := fs\<rparr>) = x" "final (query f) w = w\<lparr>faults := fs\<rparr>"
    by (rule query_InrE)
  with x assms have "x = Some a" and "final (query_one e f) w = w\<lparr>faults := fs\<rparr>"
    by (auto simp: query_one_def eff_run split: option.splits)
  with fs that show thesis by auto
qed

lemma bnd_InrE:
  assumes "result (bnd m k) w = Inr b"
  obtains a where "result m w = Inr a" and "result (k a) (final m w) = Inr b"
    and "final (bnd m k) w = final (k a) (final m w)"
  using assms by (auto simp: eff_run split: sum.splits)

lemma seq_InrE:
  assumes "result (seq_eff m n) w = Inr b"
  obtains a where "result m w = Inr a" and "result n (final m w) = Inr b"
    and "final (seq_eff m n) w = final n (final m w)"
  using assms by (auto simp: eff_run split: sum.splits)

text \<open>Triples for statements and transactions: \<open>P\<close> must not look at the fault schedule.\<close>

lemma hoare_stmt:
  assumes "hoare P m Q E" and st: "\<And>w fs. P w \<Longrightarrow> P (w\<lparr>faults := fs\<rparr>)" and "\<And>w. P w \<Longrightarrow> E w"
  shows "hoare P (stmt m) Q E"
proof (rule hoareI)
  fix w assume P: "P w"
  show "case result (stmt m) w of Inl e \<Rightarrow> E (final (stmt m) w) | Inr a \<Rightarrow> Q a (final (stmt m) w)"
  proof (cases "faults w")
    case Nil
    then have "result (stmt m) w = result m w" and "final (stmt m) w = final m w"
      by simp_all
    with hoareD [OF assms(1) P] show ?thesis by (simp only:)
  next
    case (Cons b bs)
    show ?thesis
    proof (cases b)
      case True
      with Cons assms(3) st [OF P] show ?thesis by (simp add: result_stmt final_stmt)
    next
      case False
      with Cons have "result (stmt m) w = result m (w\<lparr>faults := bs\<rparr>)"
        and "final (stmt m) w = final m (w\<lparr>faults := bs\<rparr>)"
        by (simp_all add: result_stmt final_stmt)
      with hoareD [OF assms(1) st [OF P]] show ?thesis by (simp only:)
    qed
  qed
qed

lemma hoare_exec:
  assumes "\<And>w. P w \<Longrightarrow> Q (f w)" and "\<And>w fs. P w \<Longrightarrow> P (w\<lparr>faults := fs\<rparr>)" and "\<And>w. P w \<Longrightarrow> E w"
  shows "hoare P (exec f) (\<lambda>_. Q) E"
  unfolding exec_def using assms by (intro hoare_stmt) (simp_all add: hoare_def)

lemma hoare_transaction:
  assumes m: "hoare P m Q E0"
    and P: "\<And>w fs. P w \<Longrightarrow> P (w\<lparr>faults := fs\<rparr>)" and Q: "\<And>a w fs. Q a w \<Longrightarrow> Q a (w\<lparr>faults := fs\<rparr>)"
    and E: "\<And>w. P w \<Longrightarrow> E w"
  shows "hoare P (transaction m) Q E"
proof (rule hoareI)
  fix w assume w: "P w"
  show "case result (transaction m) w of Inl e \<Rightarrow> E (final (transaction m) w)
      | Inr a \<Rightarrow> Q a (final (transaction m) w)"
  proof (cases "result (transaction m) w")
    case (Inl e)
    with transaction_Inl [OF Inl] w P E show ?thesis by fastforce
  next
    case (Inr a)
    then obtain fs fs' where a: "result m (w\<lparr>faults := fs\<rparr>) = Inr a"
      and fin: "final (transaction m) w = (final m (w\<lparr>faults := fs\<rparr>))\<lparr>faults := fs'\<rparr>"
      by (rule transaction_Inr) blast
    have "Q a (final m (w\<lparr>faults := fs\<rparr>))"
      using hoareD [OF m P [OF w], of fs] a by simp
    with Inr fin Q show ?thesis by simp
  qed
qed

text \<open>A preorder on worlds that does not look at the fault schedule.\<close>

locale store_preorder = effect_preorder R for R :: "world \<Rightarrow> world \<Rightarrow> bool" +
  assumes R_faults: "R w (w\<lparr>faults := fs\<rparr>)"
begin

lemma keeps_stmt [eff_intro]:
  assumes "keeps R m"
  shows "keeps R (stmt m)"
proof (rule keepsI)
  fix w
  have "R w (final m (w\<lparr>faults := fs\<rparr>))" for fs
    using assms R_faults R_trans by (blast dest: keepsD)
  then show "R w (final (stmt m) w)"
    using assms R_faults by (auto simp: final_stmt keeps_def split: list.splits)
qed

lemma keeps_query [eff_intro]: "keeps R (query f)"
  unfolding query_def by (intro keeps_stmt keeps_gets)

lemma keeps_query_one [eff_intro]: "keeps R (query_one e f)"
  unfolding query_one_def by (intro eff_intro keeps_query keeps_bnd keeps_ret keeps_throw)

lemma keeps_exec: "(\<And>w. R w (f w)) \<Longrightarrow> keeps R (exec f)"
  unfolding exec_def by (rule keeps_stmt) (simp add: keeps_def)

lemma keeps_enqueue:
  "(\<And>w q. R w (w\<lparr>task_queue := q\<rparr>)) \<Longrightarrow> keeps R (enqueue j r t q d)"
  unfolding enqueue_def by (rule keeps_exec)

lemma keeps_exec_unless: "(\<And>w. \<not> p w \<Longrightarrow> R w (f w)) \<Longrightarrow> keeps R (exec_unless p e f)"
  unfolding exec_unless_def by (rule keeps_stmt) (simp add: keeps_def final_def R_refl)

lemma keeps_transaction [eff_intro]:
  assumes "keeps R m"
  shows "keeps R (transaction m)"
proof (rule keepsI)
  fix w
  show "R w (final (transaction m) w)"
  proof (cases "result (transaction m) w")
    case (Inl e)
    then show ?thesis using transaction_Inl R_faults by metis
  next
    case (Inr a)
    then obtain fs fs' where
      "final (transaction m) w = (final m (w\<lparr>faults := fs\<rparr>))\<lparr>faults := fs'\<rparr>"
      using transaction_Inr by metis
    moreover have "R (w\<lparr>faults := fs\<rparr>) (final m (w\<lparr>faults := fs\<rparr>))"
      using assms by (rule keepsD)
    ultimately show ?thesis using R_faults R_trans by metis
  qed
qed

end

text \<open>Without faults there are none later.\<close>

definition calm_step :: "world \<Rightarrow> world \<Rightarrow> bool" where
  "calm_step w w' \<longleftrightarrow> (faults w = [] \<longrightarrow> faults w' = [])"

interpretation calm: effect_preorder calm_step
  by unfold_locales (auto simp: calm_step_def)

lemma calm_stmt [eff_intro]: "keeps calm_step m \<Longrightarrow> keeps calm_step (stmt m)"
  by (auto simp: keeps_def calm_step_def)

lemma calm_query [eff_intro]: "keeps calm_step (query f)"
  unfolding query_def by (intro eff_intro)

lemma calm_query_one [eff_intro]: "keeps calm_step (query_one e f)"
  unfolding query_one_def by (intro eff_intro)

lemma calm_exec: "(\<And>w. faults (f w) = faults w) \<Longrightarrow> keeps calm_step (exec f)"
  unfolding exec_def by (rule calm_stmt) (simp add: keeps_def calm_step_def)

lemma calm_exec_unless: "(\<And>w. faults (f w) = faults w) \<Longrightarrow> keeps calm_step (exec_unless p e f)"
  unfolding exec_unless_def by (rule calm_stmt) (simp add: keeps_def calm_step_def final_def)

lemma calm_enqueue [eff_intro]: "keeps calm_step (enqueue j r t q d)"
  unfolding enqueue_def by (rule calm_exec) simp

lemma calm_transaction [eff_intro]:
  assumes "keeps calm_step m"
  shows "keeps calm_step (transaction m)"
proof (rule keepsI, unfold calm_step_def, rule impI)
  fix w :: world
  assume w: "faults w = []"
  with assms have "faults (final m w) = []"
    by (simp add: keeps_def calm_step_def)
  with w transaction_calm [OF w, of m] show "faults (final (transaction m) w) = []"
    by (simp split: sum.splits)
qed

end
