(* ===== verification/Machines.thy ===== *)
theory Machines
  imports Store
begin

text \<open>
  The three state machines of the platform (internal/lifecycle/statemachine.go,
  internal/release/statemachine.go, internal/agent/statemachine.go) and the contract their
  single write paths share. A transition table is the association list of the Go map
  literal. \<open>audit_trail\<close> says what the history tables are for: read in order, the rows of an
  entity lead from its initial state along edges of the graph to its current state. The
  locale \<open>audited_machine\<close> states what a write path promises and derives, once for the three
  components, that the audit trail is kept and that states only move along the graph.
\<close>

section \<open>Transition tables\<close>

type_synonym graph = "(string \<times> string list) list"

definition validLifecycleTransitions :: graph where
  "validLifecycleTransitions =
    [(''requested'', [''approved'', ''retired'']),
     (''approved'', [''provisioned'', ''retired'']),
     (''provisioned'', [''active'', ''disabled'', ''retired'']),
     (''active'', [''disabled'', ''retired'']),
     (''disabled'', [''active'', ''retired'']),
     (''retired'', [])]"

definition AllLifecycleStates :: "string list" where
  "AllLifecycleStates =
    [''requested'', ''approved'', ''provisioned'', ''active'', ''disabled'', ''retired'']"

definition validReleaseTransitions :: graph where
  "validReleaseTransitions =
    [(''pending'', [''planning'', ''cancelled'']),
     (''planning'', [''ready'', ''cancelled'', ''failed'']),
     (''ready'', [''executing'', ''cancelled'']),
     (''executing'', [''paused'', ''succeeded'', ''failed'']),
     (''paused'', [''executing'', ''rolling_back'', ''cancelled'']),
     (''succeeded'', []),
     (''failed'', [''rolling_back'', ''cancelled'']),
     (''rolling_back'', [''rolled_back'', ''failed'']),
     (''rolled_back'', []),
     (''cancelled'', [])]"

definition AllReleaseStates :: "string list" where
  "AllReleaseStates =
    [''pending'', ''planning'', ''ready'', ''executing'', ''paused'', ''succeeded'', ''failed'',
     ''rolling_back'', ''rolled_back'', ''cancelled'']"

definition TerminalReleaseStates :: "string list" where
  "TerminalReleaseStates = [''succeeded'', ''rolled_back'', ''cancelled'']"

definition validAgentTransitions :: graph where
  "validAgentTransitions =
    [(''registered'', [''online'']),
     (''online'', [''busy'', ''idle'', ''offline'', ''draining'', ''disabled'', ''upgrading'', ''error'']),
     (''busy'', [''online'', ''offline'', ''error'']),
     (''idle'', [''online'', ''busy'', ''offline'', ''draining'', ''disabled'', ''error'']),
     (''offline'', [''online'', ''error'']),
     (''draining'', [''disabled'', ''offline'', ''error'']),
     (''disabled'', [''online'']),
     (''upgrading'', [''online'', ''error'']),
     (''error'', [''online'', ''disabled''])]"

definition AllAgentStates :: "string list" where
  "AllAgentStates =
    [''registered'', ''online'', ''busy'', ''idle'', ''offline'', ''draining'', ''disabled'',
     ''upgrading'', ''error'']"

text \<open>The loop over the targets of a state, shared by the three \<open>Can...Transition\<close>.\<close>

definition has_edge :: "graph \<Rightarrow> string \<Rightarrow> string \<Rightarrow> bool" where
  "has_edge g from to =
     (case map_of g from of None \<Rightarrow> False | Some targets \<Rightarrow> list_ex (\<lambda>t. t = to) targets)"

definition CanLifecycleTransition :: "string \<Rightarrow> string \<Rightarrow> bool" where
  "CanLifecycleTransition = has_edge validLifecycleTransitions"

definition ValidTargets :: "string \<Rightarrow> string list" where
  "ValidTargets from = (case map_of validLifecycleTransitions from of None \<Rightarrow> [] | Some ts \<Rightarrow> ts)"

definition CanReleaseTransition :: "string \<Rightarrow> string \<Rightarrow> bool" where
  "CanReleaseTransition = has_edge validReleaseTransitions"

definition ValidReleaseTargets :: "string \<Rightarrow> string list" where
  "ValidReleaseTargets from =
     (case map_of validReleaseTransitions from of None \<Rightarrow> [] | Some ts \<Rightarrow> ts)"

definition IsTerminalReleaseState :: "string \<Rightarrow> bool" where
  "IsTerminalReleaseState s =
     (case map_of validReleaseTransitions s of None \<Rightarrow> False | Some ts \<Rightarrow> length ts = 0)"

definition CanAgentTransition :: "string \<Rightarrow> string \<Rightarrow> bool" where
  "CanAgentTransition = has_edge validAgentTransitions"

definition ValidAgentTargets :: "string \<Rightarrow> string list" where
  "ValidAgentTargets from =
     (case map_of validAgentTransitions from of None \<Rightarrow> [] | Some ts \<Rightarrow> ts)"

definition IsTerminalAgentState :: "string \<Rightarrow> bool" where
  "IsTerminalAgentState s =
     (case map_of validAgentTransitions s of None \<Rightarrow> False | Some ts \<Rightarrow> length ts = 0)"

named_theorems graph_defs \<open>the transition tables and their look-ups\<close>

lemmas graph_basics [graph_defs] =
  validLifecycleTransitions_def validReleaseTransitions_def validAgentTransitions_def has_edge_def
  CanLifecycleTransition_def CanReleaseTransition_def CanAgentTransition_def

lemma has_edge_iff: "has_edge g f t \<longleftrightarrow> (\<exists>ts. map_of g f = Some ts \<and> t \<in> set ts)"
  by (auto simp: has_edge_def list_ex_iff split: option.splits)

lemma CanLifecycleTransition_iff: "CanLifecycleTransition f t \<longleftrightarrow> t \<in> set (ValidTargets f)"
  by (cases "map_of validLifecycleTransitions f") (auto simp: CanLifecycleTransition_def ValidTargets_def has_edge_iff)

lemma CanReleaseTransition_iff: "CanReleaseTransition f t \<longleftrightarrow> t \<in> set (ValidReleaseTargets f)"
  by (cases "map_of validReleaseTransitions f") (auto simp: CanReleaseTransition_def ValidReleaseTargets_def has_edge_iff)

text \<open>A terminal state of a graph and the states that lie on a path from \<open>s\<close>.\<close>

definition edge_rel :: "graph \<Rightarrow> (string \<times> string) set" where
  "edge_rel g = {(s, t). has_edge g s t}"

text \<open>
  \<open>moves g a b\<close>: between the state maps \<open>a\<close> and \<open>b\<close> nothing disappears and every entity went
  along edges of the graph. An entity in a state without successors has not moved.
\<close>

definition moves :: "graph \<Rightarrow> (int \<Rightarrow> string option) \<Rightarrow> (int \<Rightarrow> string option) \<Rightarrow> bool" where
  "moves g a b \<longleftrightarrow> (\<forall>i s. a i = Some s \<longrightarrow> (\<exists>t. b i = Some t \<and> (s, t) \<in> (edge_rel g)\<^sup>*))"

lemma moves_refl: "moves g a a"
  by (auto simp: moves_def)

lemma moves_trans: "moves g a b \<Longrightarrow> moves g b c \<Longrightarrow> moves g a c"
  unfolding moves_def by (meson rtrancl_trans)

lemma moves_step: "has_edge g f t \<Longrightarrow> a i = Some f \<Longrightarrow> moves g a (a(i \<mapsto> t))"
  by (auto simp: moves_def edge_rel_def)

lemma moves_new: "a i = None \<Longrightarrow> moves g a (a(i \<mapsto> s))"
  by (auto simp: moves_def)

lemma no_successors_stays:
  assumes "(s, t) \<in> (edge_rel g)\<^sup>*" and "map_of g s = Some []"
  shows "t = s"
  using assms by (auto simp: edge_rel_def has_edge_def elim: converse_rtranclE)

lemma moves_terminal: "moves g a b \<Longrightarrow> map_of g s = Some [] \<Longrightarrow> a i = Some s \<Longrightarrow> b i = Some s"
  unfolding moves_def using no_successors_stays by fastforce

section \<open>Audit trails\<close>

text \<open>
  \<open>trail g s hs s'\<close>: the rows \<open>hs\<close> lead from \<open>s\<close> to \<open>s'\<close>. A row without \<open>from_state\<close>
  records the creation and stays in place; any other row is an edge of the graph.
\<close>

fun trail :: "graph \<Rightarrow> string \<Rightarrow> history_row list \<Rightarrow> string \<Rightarrow> bool" where
  "trail g s [] s' = (s = s')"
| "trail g s (h # hs) s' =
     (case h_from h of
        None \<Rightarrow> h_to h = s \<and> trail g s hs s'
      | Some f \<Rightarrow> f = s \<and> has_edge g f (h_to h) \<and> trail g (h_to h) hs s')"

definition audit_at ::
    "graph \<Rightarrow> string \<Rightarrow> string option \<Rightarrow> history_row list \<Rightarrow> bool" where
  "audit_at g start st hs = (case st of None \<Rightarrow> hs = [] | Some s \<Rightarrow> trail g start hs s)"

definition audit_trail ::
    "graph \<Rightarrow> string \<Rightarrow> (int \<Rightarrow> string option) \<Rightarrow> history_row list \<Rightarrow> bool" where
  "audit_trail g start st hist \<longleftrightarrow>
     (\<forall>i. audit_at g start (st i) (filter (\<lambda>h. h_owner h = i) hist))"

lemma trail_snoc:
  "trail g s (hs @ [h]) s' \<longleftrightarrow>
     (\<exists>m. trail g s hs m \<and>
       (case h_from h of None \<Rightarrow> h_to h = m \<and> s' = m
        | Some f \<Rightarrow> f = m \<and> has_edge g f (h_to h) \<and> s' = h_to h))"
  by (induction hs arbitrary: s) (auto split: option.splits)

lemma trail_reaches: "trail g s hs s' \<Longrightarrow> (s, s') \<in> (edge_rel g)\<^sup>*"
proof (induction hs arbitrary: s)
  case (Cons h hs)
  then show ?case
    by (auto simp: edge_rel_def split: option.splits intro: converse_rtrancl_into_rtrancl)
qed simp

lemma audit_trailD:
  "audit_trail g start st hist \<Longrightarrow> audit_at g start (st i) (filter (\<lambda>h. h_owner h = i) hist)"
  by (simp add: audit_trail_def)

lemma audit_trail_step:
  assumes "audit_trail g start st hist" and "st i = Some f" and "has_edge g f t"
    and "h_owner h = i" "h_from h = Some f" "h_to h = t"
  shows "audit_trail g start (st(i \<mapsto> t)) (hist @ [h])"
  unfolding audit_trail_def
proof
  fix j
  show "audit_at g start ((st(i \<mapsto> t)) j) (filter (\<lambda>h. h_owner h = j) (hist @ [h]))"
    using audit_trailD [OF assms(1), of j] assms(2-)
    by (cases "j = i") (auto simp: audit_at_def trail_snoc)
qed

lemma audit_trail_create:
  assumes "audit_trail g start st hist" and "st i = None"
  shows "audit_trail g start (st(i \<mapsto> start)) hist"
  unfolding audit_trail_def
proof
  fix j
  show "audit_at g start ((st(i \<mapsto> start)) j) (filter (\<lambda>h. h_owner h = j) hist)"
    using audit_trailD [OF assms(1), of j] assms(2)
    by (cases "j = i") (auto simp: audit_at_def)
qed

lemma audit_trail_created_row:
  assumes "audit_trail g start st hist" and "st i = Some start"
    and "h_owner h = i" "h_from h = None" "h_to h = start"
  shows "audit_trail g start st (hist @ [h])"
  unfolding audit_trail_def
proof
  fix j
  show "audit_at g start (st j) (filter (\<lambda>h. h_owner h = j) (hist @ [h]))"
    using audit_trailD [OF assms(1), of j] assms(2-)
    by (cases "j = i") (auto simp: audit_at_def trail_snoc)
qed

lemma audit_trail_reaches:
  "audit_trail g start st hist \<Longrightarrow> st i = Some s \<Longrightarrow> (start, s) \<in> (edge_rel g)\<^sup>*"
  by (drule audit_trailD [where i = i]) (auto simp: audit_at_def intro: trail_reaches)

section \<open>The contract of a write path\<close>

text \<open>
  The three \<open>TransitionTx\<close> have one shape: read the current state under the row lock,
  compare it with the expected one, update the row, append the history row.
\<close>

lemma write_path_ok:
  assumes ok: "result (bnd (query_one e0 q) (\<lambda>cur. if cur \<noteq> f then throw e1
      else seq_eff (exec upd) (exec ins))) w = Inr u"
  obtains fs1 fs2 fs3 where "q (w\<lparr>faults := fs1\<rparr>) = Some f"
    "final (bnd (query_one e0 q) (\<lambda>cur. if cur \<noteq> f then throw e1
      else seq_eff (exec upd) (exec ins))) w = ins ((upd (w\<lparr>faults := fs2\<rparr>))\<lparr>faults := fs3\<rparr>)"
proof -
  let ?k = "\<lambda>cur. if cur \<noteq> f then throw e1 else seq_eff (exec upd) (exec ins)"
  obtain c where c: "result (query_one e0 q) w = Inr c"
    and k: "result (?k c) (final (query_one e0 q) w) = Inr u"
    and fin: "final (bnd (query_one e0 q) ?k) w = final (?k c) (final (query_one e0 q) w)"
    using ok by (rule bnd_InrE)
  from c obtain fs1 where q: "q (w\<lparr>faults := fs1\<rparr>) = Some c"
    and w1: "final (query_one e0 q) w = w\<lparr>faults := fs1\<rparr>"
    by (rule query_one_InrE)
  have cf: "c = f" using k by (cases "c = f") simp_all
  with k w1 have "result (seq_eff (exec upd) (exec ins)) (w\<lparr>faults := fs1\<rparr>) = Inr u"
    by simp
  then obtain a where u1: "result (exec upd) (w\<lparr>faults := fs1\<rparr>) = Inr a"
    and u2: "result (exec ins) (final (exec upd) (w\<lparr>faults := fs1\<rparr>)) = Inr u"
    and fin2: "final (seq_eff (exec upd) (exec ins)) (w\<lparr>faults := fs1\<rparr>) =
      final (exec ins) (final (exec upd) (w\<lparr>faults := fs1\<rparr>))"
    by (rule seq_InrE)
  from u1 obtain fs2 where w2: "final (exec upd) (w\<lparr>faults := fs1\<rparr>) = upd (w\<lparr>faults := fs2\<rparr>)"
    by (rule exec_InrE) simp
  from u2 obtain fs3 where "final (exec ins) (final (exec upd) (w\<lparr>faults := fs1\<rparr>)) =
      ins ((upd (w\<lparr>faults := fs2\<rparr>))\<lparr>faults := fs3\<rparr>)"
    unfolding w2 by (rule exec_InrE)
  with fin fin2 w1 cf q show thesis by (intro that) simp_all
qed

text \<open>
  \<open>status\<close> reads the state column, \<open>hist\<close> the history table, \<open>inv\<close> is the well-formedness
  of the table, and \<open>trans\<close> is the service's transition method. A successful call moved
  exactly one entity from the expected state along an edge and appended exactly the row
  that says so; a failed one changed neither.
\<close>

locale audited_machine =
  fixes g :: graph and start :: string
    and status :: "world \<Rightarrow> int \<Rightarrow> string option"
    and hist :: "world \<Rightarrow> history_row list"
    and inv :: "world \<Rightarrow> bool"
    and trans :: "int \<Rightarrow> string \<Rightarrow> string \<Rightarrow> string \<Rightarrow> string \<Rightarrow> unit op"
  assumes trans_ok: "inv w \<Longrightarrow> result (trans i f t rs b) w = Inr () \<Longrightarrow>
      has_edge g f t \<and> status w i = Some f \<and>
      status (final (trans i f t rs b) w) = (status w)(i \<mapsto> t) \<and>
      (\<exists>h. hist (final (trans i f t rs b) w) = hist w @ [h] \<and>
           h_owner h = i \<and> h_from h = Some f \<and> h_to h = t)"
    and trans_err: "result (trans i f t rs b) w = Inl e \<Longrightarrow>
      status (final (trans i f t rs b) w) = status w \<and> hist (final (trans i f t rs b) w) = hist w"
    and trans_inv: "inv w \<Longrightarrow> inv (final (trans i f t rs b) w)"
begin

lemma trans_audit:
  assumes "inv w" and "audit_trail g start (status w) (hist w)"
  shows "audit_trail g start (status (final (trans i f t rs b) w))
           (hist (final (trans i f t rs b) w))"
proof (cases "result (trans i f t rs b) w")
  case (Inl e)
  with assms show ?thesis by (auto dest: trans_err)
next
  case (Inr u)
  with assms(1) have ok: "has_edge g f t" "status w i = Some f"
    "status (final (trans i f t rs b) w) = (status w)(i \<mapsto> t)"
    "\<exists>h. hist (final (trans i f t rs b) w) = hist w @ [h] \<and>
         h_owner h = i \<and> h_from h = Some f \<and> h_to h = t"
    using trans_ok [of w i f t rs b] by auto
  with assms(2) show ?thesis by (auto intro: audit_trail_step)
qed

lemma trans_moves_one:
  assumes "inv w"
  shows "status (final (trans i f t rs b) w) = status w \<or>
     has_edge g f t \<and> status w i = Some f \<and>
     status (final (trans i f t rs b) w) = (status w)(i \<mapsto> t)"
proof (cases "result (trans i f t rs b) w")
  case (Inl e)
  then show ?thesis by (auto dest: trans_err)
next
  case (Inr u)
  with trans_ok [OF assms, of i f t rs b] show ?thesis by simp
qed

lemma trans_moves:
  assumes "inv w"
  shows "moves g (status w) (status (final (trans i f t rs b) w))"
  using trans_moves_one [OF assms, of i f t rs b] by (auto intro: moves_refl moves_step)

lemma no_edge_no_change:
  assumes "inv w" and "\<not> has_edge g f t"
  shows "result (trans i f t rs b) w \<noteq> Inr ()"
  using assms trans_ok by blast

lemma stale_from_fails:
  assumes "inv w" and "status w i \<noteq> Some f"
  shows "result (trans i f t rs b) w \<noteq> Inr () \<and>
    status (final (trans i f t rs b) w) = status w"
proof (cases "result (trans i f t rs b) w")
  case (Inl e)
  then show ?thesis by (auto dest: trans_err)
next
  case (Inr u)
  with trans_ok [OF assms(1), of i f t rs b] assms(2) show ?thesis by simp
qed

end

section \<open>Write paths over a keyed table\<close>

definition new_history ::
    "int \<Rightarrow> string option \<Rightarrow> string \<Rightarrow> string \<Rightarrow> string \<Rightarrow> int \<Rightarrow> int \<Rightarrow> history_row" where
  "new_history owner from to reason by t i = \<lparr>h_id = i, h_owner = owner, h_from = from, h_to = to,
     h_reason = Some reason, h_triggered_by = by, h_created_at = t\<rparr>"

text \<open>
  What the three transition methods share beyond the contract: the table whose rows carry
  the state (\<open>tab\<close>, its key, its state column and how it is set, the rows a look-up sees),
  the history table, and the body of the method over them. The laws say that the two tables
  are independent parts of the world.
\<close>

locale table_machine =
  fixes g :: graph and start :: string
    and tab :: "world \<Rightarrow> 'r tbl" and tab_upd :: "('r tbl \<Rightarrow> 'r tbl) \<Rightarrow> world \<Rightarrow> world"
    and htab :: "world \<Rightarrow> history_row tbl"
    and htab_upd :: "(history_row tbl \<Rightarrow> history_row tbl) \<Rightarrow> world \<Rightarrow> world"
    and key :: "'r \<Rightarrow> int" and st :: "'r \<Rightarrow> string" and set_st :: "int \<Rightarrow> string \<Rightarrow> 'r \<Rightarrow> 'r"
    and vis :: "int \<Rightarrow> 'r \<Rightarrow> bool"
    and e_edge :: go_err and e_none :: go_err and e_race :: go_err
    and trans :: "int \<Rightarrow> string \<Rightarrow> string \<Rightarrow> string \<Rightarrow> string \<Rightarrow> unit op"
  assumes tab_tab: "tab (tab_upd F w) = F (tab w)" and htab_tab: "htab (tab_upd F w) = htab w"
    and tab_htab: "tab (htab_upd G w) = tab w" and htab_htab: "htab (htab_upd G w) = G (htab w)"
    and now_tab: "now (tab_upd F w) = now w"
    and faults_tab: "faults (tab_upd F w) = faults w"
    and faults_htab: "faults (htab_upd G w) = faults w"
    and tab_faults: "tab (w\<lparr>faults := fs\<rparr>) = tab w"
    and htab_faults: "htab (w\<lparr>faults := fs\<rparr>) = htab w"
    and st_set: "st (set_st n s r) = s" and key_set: "key (set_st n s r) = key r"
    and vis_key: "vis i r \<Longrightarrow> key r = i"
    and trans_body: "trans i f t rs b = (if \<not> has_edge g f t then throw e_edge
      else transaction (bnd (query_one e_none (\<lambda>w. map_option st (tbl_find (vis i) (tab w)))) (\<lambda>cur.
        if cur \<noteq> f then throw e_race
        else seq_eff
          (exec (\<lambda>w. tab_upd (\<lambda>_. tbl_update (\<lambda>r. key r = i) (set_st (now w) t) (tab w)) w))
          (exec (\<lambda>w. htab_upd
            (\<lambda>_. tbl_insert (new_history i (Some f) t rs b (now w)) (htab w)) w)))))"
begin

lemma trans_InrE:
  assumes "result (trans i f t rs b) w = Inr ()"
  obtains fs2 fs3 fs4 r where "has_edge g f t" and "tbl_find (vis i) (tab w) = Some r" and "st r = f"
    and "final (trans i f t rs b) w =
      (htab_upd (\<lambda>_. tbl_insert (new_history i (Some f) t rs b (now w)) (htab w))
        ((tab_upd (\<lambda>_. tbl_update (\<lambda>r. key r = i) (set_st (now w) t) (tab w))
           (w\<lparr>faults := fs2\<rparr>))\<lparr>faults := fs3\<rparr>))\<lparr>faults := fs4\<rparr>"
proof -
  let ?upd = "\<lambda>w. tab_upd (\<lambda>_. tbl_update (\<lambda>r. key r = i) (set_st (now w) t) (tab w)) w"
  let ?ins = "\<lambda>w. htab_upd (\<lambda>_. tbl_insert (new_history i (Some f) t rs b (now w)) (htab w)) w"
  let ?q = "\<lambda>w. map_option st (tbl_find (vis i) (tab w))"
  let ?body = "bnd (query_one e_none ?q) (\<lambda>cur. if cur \<noteq> f then throw e_race
      else seq_eff (exec ?upd) (exec ?ins))"
  have can: "has_edge g f t" and eq: "trans i f t rs b = transaction ?body"
    and tx: "result (transaction ?body) w = Inr ()"
    using assms unfolding trans_body by (auto split: if_splits)
  from tx obtain fs0 fs4 where body: "result ?body (w\<lparr>faults := fs0\<rparr>) = Inr ()"
    and fin: "final (transaction ?body) w = (final ?body (w\<lparr>faults := fs0\<rparr>))\<lparr>faults := fs4\<rparr>"
    by (rule transaction_Inr) blast
  from body obtain fs1 fs2 fs3 where q: "?q (w\<lparr>faults := fs0, faults := fs1\<rparr>) = Some f"
    and eff: "final ?body (w\<lparr>faults := fs0\<rparr>) =
      ?ins ((?upd (w\<lparr>faults := fs0, faults := fs2\<rparr>))\<lparr>faults := fs3\<rparr>)"
    by (rule write_path_ok)
  from q obtain r where "tbl_find (vis i) (tab w) = Some r" "st r = f"
    by (auto simp: tab_faults)
  with can fin eff eq show thesis
    by (intro that) (simp_all add: tab_faults htab_faults htab_tab now_tab)
qed

lemma trans_InlE:
  assumes "result (trans i f t rs b) w = Inl e"
  obtains fs where "final (trans i f t rs b) w = w\<lparr>faults := fs\<rparr>"
proof (cases "has_edge g f t")
  case True
  with assms transaction_Inl that show thesis unfolding trans_body by fastforce
next
  case False
  with that [of "faults w"] show thesis by (simp add: trans_body)
qed

lemma find_vis:
  assumes "wf_tbl key T" and "tbl_find (vis i) T = Some r"
  shows "tbl_get key T i = Some r"
proof -
  have "r \<in> set (rows T)" and "vis i r"
    using assms(2) unfolding tbl_defs by (auto dest: find_SomeD)
  with tbl_get_mem [OF assms(1)] vis_key show ?thesis by metis
qed

lemma trans_tab: "tab (final (trans i f t rs b) w) =
    (if result (trans i f t rs b) w = Inr ()
     then tbl_update (\<lambda>r. key r = i) (set_st (now w) t) (tab w) else tab w)"
proof (cases "result (trans i f t rs b) w")
  case (Inl e)
  then show ?thesis by (rule trans_InlE) (simp add: Inl tab_faults)
next
  case (Inr u)
  then have "result (trans i f t rs b) w = Inr ()" by simp
  then show ?thesis by (rule trans_InrE) (simp add: Inr tab_faults tab_htab tab_tab)
qed

lemma trans_htab: "htab (final (trans i f t rs b) w) =
    (if result (trans i f t rs b) w = Inr ()
     then tbl_insert (new_history i (Some f) t rs b (now w)) (htab w) else htab w)"
proof (cases "result (trans i f t rs b) w")
  case (Inl e)
  then show ?thesis by (rule trans_InlE) (simp add: Inl htab_faults)
next
  case (Inr u)
  then have "result (trans i f t rs b) w = Inr ()" by simp
  then show ?thesis by (rule trans_InrE) (simp add: Inr htab_faults htab_htab htab_tab)
qed

text \<open>Every other part of the world is untouched.\<close>

lemma trans_frame:
  assumes "\<And>F w. h (tab_upd F w) = h w" and "\<And>G w. h (htab_upd G w) = h w"
    and "\<And>w fs. h (w\<lparr>faults := fs\<rparr>) = h w"
  shows "h (final (trans i f t rs b) w) = h w"
proof (cases "result (trans i f t rs b) w")
  case (Inl e)
  then show ?thesis by (rule trans_InlE) (simp add: assms)
next
  case (Inr u)
  then have "result (trans i f t rs b) w = Inr ()" by simp
  then show ?thesis by (rule trans_InrE) (simp add: assms)
qed

text \<open>Without faults: every outcome and the state it leaves.\<close>

lemma trans_calm:
  assumes "faults w = []"
  shows "result (trans i f t rs b) w =
      (if \<not> has_edge g f t then Inl e_edge
       else case tbl_find (vis i) (tab w) of None \<Rightarrow> Inl e_none
        | Some r \<Rightarrow> if st r \<noteq> f then Inl e_race else Inr ())"
    and "final (trans i f t rs b) w =
      (if result (trans i f t rs b) w = Inr ()
       then htab_upd (\<lambda>_. tbl_insert (new_history i (Some f) t rs b (now w)) (htab w))
         (tab_upd (\<lambda>_. tbl_update (\<lambda>r. key r = i) (set_st (now w) t) (tab w)) w)
       else w)"
proof -
  show "result (trans i f t rs b) w =
      (if \<not> has_edge g f t then Inl e_edge
       else case tbl_find (vis i) (tab w) of None \<Rightarrow> Inl e_none
        | Some r \<Rightarrow> if st r \<noteq> f then Inl e_race else Inr ())"
    unfolding trans_body using assms
    by (auto simp: transaction_calm eff_run faults_tab faults_htab split: option.splits)
  then show "final (trans i f t rs b) w =
      (if result (trans i f t rs b) w = Inr ()
       then htab_upd (\<lambda>_. tbl_insert (new_history i (Some f) t rs b (now w)) (htab w))
         (tab_upd (\<lambda>_. tbl_update (\<lambda>r. key r = i) (set_st (now w) t) (tab w)) w)
       else w)"
    unfolding trans_body using assms
    by (auto simp: transaction_calm eff_run faults_tab faults_htab htab_tab now_tab split: option.splits)
qed

end

sublocale table_machine \<subseteq> audited_machine g start
  "\<lambda>w i. map_option st (tbl_get key (tab w) i)" "\<lambda>w. rows (htab w)" "\<lambda>w. wf_tbl key (tab w)" trans
proof unfold_locales
  fix w i f t rs b
  assume wf: "wf_tbl key (tab w)" and ok: "result (trans i f t rs b) w = Inr ()"
  from ok obtain r where "has_edge g f t" "tbl_find (vis i) (tab w) = Some r" "st r = f"
    by (rule trans_InrE)
  with find_vis [OF wf] ok
  show "has_edge g f t \<and> map_option st (tbl_get key (tab w) i) = Some f \<and>
      (\<lambda>j. map_option st (tbl_get key (tab (final (trans i f t rs b) w)) j)) =
        (\<lambda>j. map_option st (tbl_get key (tab w) j))(i \<mapsto> t) \<and>
      (\<exists>h. rows (htab (final (trans i f t rs b) w)) = rows (htab w) @ [h] \<and>
           h_owner h = i \<and> h_from h = Some f \<and> h_to h = t)"
    by (auto simp: trans_tab trans_htab tbl_get_update_key key_set st_set fun_eq_iff
        tbl_insert_def new_history_def)
next
  fix i f t rs b w e
  assume "result (trans i f t rs b) w = Inl e"
  then show "(\<lambda>j. map_option st (tbl_get key (tab (final (trans i f t rs b) w)) j)) =
        (\<lambda>j. map_option st (tbl_get key (tab w) j)) \<and>
      rows (htab (final (trans i f t rs b) w)) = rows (htab w)"
    by (simp add: trans_tab trans_htab)
next
  fix w i f t rs b
  assume "wf_tbl key (tab w)"
  then show "wf_tbl key (tab (final (trans i f t rs b) w))"
    by (simp add: trans_tab wf_update key_set)
qed

end
