(* ===== verification/Lifecycle.thy ===== *)
theory Lifecycle
  imports Machines
begin

text \<open>
  internal/lifecycle/service.go over store/postgres/lifecycle.go and the parts of
  store/postgres/domain.go it calls: the single write path of \<open>domains.lifecycle_state\<close>,
  registration, asset updates and the transfer sub-machine, with the invariant that ties
  the state column to the history table under every fault schedule.
\<close>

section \<open>Top-level domain extraction\<close>

definition ExtractTLD :: "string \<Rightarrow> string" where
  "ExtractTLD fqdn0 =
     (let fqdn = TrimSuffix (ToLower fqdn0) ''.'';
          parts = Split (CHR ''.'') fqdn;
          n = length parts
      in if n < 2 then ''.'' @ fqdn
         else let final_part = parts ! (n - 1); secondToLast = parts ! (n - 2)
           in if length final_part = 2 \<and> length secondToLast \<le> 4 \<and> n \<ge> 3
              then ''.'' @ secondToLast @ ''.'' @ final_part
              else ''.'' @ final_part)"

section \<open>store/postgres: domains\<close>

definition live_domain :: "int \<Rightarrow> domain_row \<Rightarrow> bool" where
  "live_domain i r \<longleftrightarrow> d_id r = i \<and> d_deleted_at r = None"

definition DomainStore_GetByID :: "int \<Rightarrow> domain_row op" where
  "DomainStore_GetByID i = query_one ErrDomainNotFound (\<lambda>w. tbl_find (live_domain i) (domains w))"

text \<open>
  \<open>INSERT INTO domains\<close>: the state is 'requested' whatever the argument says, columns not
  named take their defaults, and a second row with the same name violates the constraint
  (soft-deleted rows included).
\<close>

definition new_domain :: "domain_row \<Rightarrow> int \<Rightarrow> int \<Rightarrow> domain_row" where
  "new_domain d t i = d\<lparr>d_id := i, d_lifecycle_state := ''requested'', d_expiry_status := None,
     d_transfer_status := None, d_transfer_gaining_registrar := None,
     d_transfer_requested_at := None, d_transfer_completed_at := None, d_last_transfer_at := None,
     d_last_renewed_at := None, d_ns_delegation_status := ''unset'', d_ns_verified_at := None,
     d_ns_last_checked_at := None, d_ns_actual := [], d_last_sync_at := None, d_last_drift_at := None,
     d_created_at := t, d_updated_at := t, d_deleted_at := None\<rparr>"

definition DomainStore_Create :: "domain_row \<Rightarrow> domain_row op" where
  "DomainStore_Create d = stmt (\<lambda>w.
     if list_ex (\<lambda>r. d_fqdn r = d_fqdn d) (rows (domains w))
     then (Inl (ErrUnique ''uq_domains_fqdn''), w)
     else (Inr (new_domain d (now w) (seq (domains w) + 1)),
           w\<lparr>domains := tbl_insert (new_domain d (now w)) (domains w)\<rparr>))"

definition ListActiveByProject :: "int \<Rightarrow> domain_row list op" where
  "ListActiveByProject p = query (\<lambda>w. sort_key d_fqdn (tbl_select
     (\<lambda>r. d_project_id r = p \<and> d_lifecycle_state r = ''active'' \<and> d_deleted_at r = None) (domains w)))"

definition UpdateAssetFields :: "domain_row \<Rightarrow> unit op" where
  "UpdateAssetFields d = exec (\<lambda>w. w\<lparr>domains := tbl_update (live_domain (d_id d)) (\<lambda>r. r\<lparr>
     d_tld := d_tld d, d_registrar_account_id := d_registrar_account_id d,
     d_dns_provider_id := d_dns_provider_id d, d_cdn_account_id := d_cdn_account_id d,
     d_origin_ips := d_origin_ips d, d_registration_date := d_registration_date d,
     d_expiry_date := d_expiry_date d, d_auto_renew := d_auto_renew d,
     d_grace_end_date := d_grace_end_date d, d_transfer_lock := d_transfer_lock d,
     d_hold := d_hold d, d_nameservers := d_nameservers d, d_dnssec_enabled := d_dnssec_enabled d,
     d_whois_privacy := d_whois_privacy d, d_registrant_contact := d_registrant_contact d,
     d_admin_contact := d_admin_contact d, d_tech_contact := d_tech_contact d,
     d_annual_cost := d_annual_cost d, d_currency := d_currency d,
     d_purchase_price := d_purchase_price d, d_fee_fixed := d_fee_fixed d,
     d_purpose := d_purpose d, d_notes := d_notes d, d_metadata := d_metadata d,
     d_updated_at := now w\<rparr>) (domains w)\<rparr>)"

definition UpdateExpiryStatus :: "int \<Rightarrow> string option \<Rightarrow> unit op" where
  "UpdateExpiryStatus i st = exec (\<lambda>w. w\<lparr>domains := tbl_update (live_domain i)
     (\<lambda>r. r\<lparr>d_expiry_status := st, d_updated_at := now w\<rparr>) (domains w)\<rparr>)"

definition UpdateTransferStatus ::
    "int \<Rightarrow> string option \<Rightarrow> string option \<Rightarrow> int option \<Rightarrow> int option \<Rightarrow> unit op" where
  "UpdateTransferStatus i st gaining req compl = exec (\<lambda>w. w\<lparr>domains := tbl_update (live_domain i)
     (\<lambda>r. r\<lparr>d_transfer_status := st, d_transfer_gaining_registrar := gaining,
            d_transfer_requested_at := req, d_transfer_completed_at := compl,
            d_updated_at := now w\<rparr>) (domains w)\<rparr>)"

definition UpdateAnnualCost :: "int \<Rightarrow> rat \<Rightarrow> string \<Rightarrow> unit op" where
  "UpdateAnnualCost i cost cur = exec (\<lambda>w. w\<lparr>domains := tbl_update
     (\<lambda>r. live_domain i r \<and> \<not> d_fee_fixed r)
     (\<lambda>r. r\<lparr>d_annual_cost := Some cost, d_currency := Some cur, d_updated_at := now w\<rparr>)
     (domains w)\<rparr>)"

text \<open>\<open>BulkUpdateFields\<close>: only the fields that are given, on the rows that are listed.\<close>

definition set_given :: "'v option \<Rightarrow> ('v \<Rightarrow> 'r \<Rightarrow> 'r) \<Rightarrow> 'r \<Rightarrow> 'r" where
  "set_given x upd r = (case x of None \<Rightarrow> r | Some v \<Rightarrow> upd v r)"

definition BulkUpdateFields ::
    "int list \<Rightarrow> int option \<Rightarrow> int option \<Rightarrow> bool option \<Rightarrow> int op" where
  "BulkUpdateFields ids reg dns auto =
     (if length ids = 0 then ret 0
      else if reg = None \<and> dns = None \<and> auto = None then ret 0
      else stmt (\<lambda>w.
        let p = (\<lambda>r. d_id r \<in> set ids \<and> d_deleted_at r = None);
            upd = (\<lambda>r. set_given auto (\<lambda>v r. r\<lparr>d_auto_renew := v\<rparr>)
                       (set_given dns (\<lambda>v r. r\<lparr>d_dns_provider_id := Some v\<rparr>)
                       (set_given reg (\<lambda>v r. r\<lparr>d_registrar_account_id := Some v\<rparr>)
                       (r\<lparr>d_updated_at := now w\<rparr>))))
        in (Inr (int (length (tbl_select p (domains w)))),
            w\<lparr>domains := tbl_update p upd (domains w)\<rparr>)))"

section \<open>store/postgres: the lifecycle write path\<close>

definition updateLifecycleStateTx :: "int \<Rightarrow> string \<Rightarrow> unit op" where
  "updateLifecycleStateTx i newState = exec (\<lambda>w. w\<lparr>domains := tbl_update (\<lambda>r. d_id r = i)
     (\<lambda>r. r\<lparr>d_lifecycle_state := newState, d_updated_at := now w\<rparr>) (domains w)\<rparr>)"

definition insertLifecycleHistoryTx ::
    "int \<Rightarrow> string option \<Rightarrow> string \<Rightarrow> string \<Rightarrow> string \<Rightarrow> unit op" where
  "insertLifecycleHistoryTx i from to reason by = exec (\<lambda>w. w\<lparr>domain_history :=
     tbl_insert (new_history i from to reason by (now w)) (domain_history w)\<rparr>)"

definition LifecycleStore_TransitionTx ::
    "int \<Rightarrow> string \<Rightarrow> string \<Rightarrow> string \<Rightarrow> string \<Rightarrow> unit op" where
  "LifecycleStore_TransitionTx i expectedFrom to reason by =
     bnd (query_one ErrNoRows
            (\<lambda>w. map_option d_lifecycle_state (tbl_find (live_domain i) (domains w))))
       (\<lambda>currentState.
          if currentState \<noteq> expectedFrom then throw ErrLifecycleRaceCondition
          else seq_eff (updateLifecycleStateTx i to)
                 (insertLifecycleHistoryTx i (Some expectedFrom) to reason by))"

definition GetCurrentState :: "int \<Rightarrow> string op" where
  "GetCurrentState i = query_one ErrNoRows
     (\<lambda>w. map_option d_lifecycle_state (tbl_find (live_domain i) (domains w)))"

definition LifecycleStore_GetHistory :: "int \<Rightarrow> int \<Rightarrow> history_row list op" where
  "LifecycleStore_GetHistory i limit0 =
     (let limit = (if limit0 \<le> 0 then 50 else limit0) in
      query (\<lambda>w. take (nat limit) (rev (sort_key h_created_at
        (tbl_select (\<lambda>h. h_owner h = i) (domain_history w))))))"

section \<open>internal/lifecycle: the service\<close>

definition Transition :: "int \<Rightarrow> string \<Rightarrow> string \<Rightarrow> string \<Rightarrow> string \<Rightarrow> unit op" where
  "Transition i from to reason by =
     (if \<not> CanLifecycleTransition from to then throw ErrInvalidLifecycleState
      else transaction (LifecycleStore_TransitionTx i from to reason by))"

record register_input =
  ri_project_id :: int
  ri_fqdn :: string
  ri_owner_user_id :: "int option"
  ri_dns_provider_id :: "int option"
  ri_registrar_account_id :: "int option"
  ri_cdn_account_id :: "int option"
  ri_origin_ips :: "string list"
  ri_registration_date :: "int option"
  ri_expiry_date :: "int option"
  ri_auto_renew :: bool
  ri_annual_cost :: "rat option"
  ri_currency :: "string option"
  ri_purpose :: "string option"
  ri_notes :: "string option"
  ri_triggered_by :: string

text \<open>The \<open>postgres.Domain\<close> literal of \<open>Register\<close>, with the JSON defaults of \<open>DomainStore.Create\<close>.\<close>

definition domain_of_input :: "register_input \<Rightarrow> domain_row" where
  "domain_of_input inp = \<lparr>d_id = 0, d_project_id = ri_project_id inp, d_fqdn = ri_fqdn inp,
     d_lifecycle_state = [], d_owner_user_id = ri_owner_user_id inp,
     d_tld = Some (ExtractTLD (ri_fqdn inp)),
     d_registrar_account_id = ri_registrar_account_id inp,
     d_dns_provider_id = ri_dns_provider_id inp, d_cdn_account_id = ri_cdn_account_id inp,
     d_origin_ips = ri_origin_ips inp, d_registration_date = ri_registration_date inp,
     d_expiry_date = ri_expiry_date inp, d_auto_renew = ri_auto_renew inp,
     d_grace_end_date = None, d_expiry_status = None, d_transfer_lock = False, d_hold = False,
     d_transfer_status = None, d_transfer_gaining_registrar = None, d_transfer_requested_at = None,
     d_transfer_completed_at = None, d_last_transfer_at = None, d_last_renewed_at = None,
     d_nameservers = ''[]'', d_dnssec_enabled = False, d_whois_privacy = False,
     d_registrant_contact = ''{}'', d_admin_contact = ''{}'', d_tech_contact = ''{}'',
     d_annual_cost = ri_annual_cost inp, d_currency = ri_currency inp, d_purchase_price = None,
     d_fee_fixed = False, d_purpose = ri_purpose inp, d_notes = ri_notes inp, d_metadata = ''{}'',
     d_ns_delegation_status = [], d_ns_verified_at = None, d_ns_last_checked_at = None,
     d_ns_actual = [], d_last_sync_at = None, d_last_drift_at = None,
     d_blocking_status = None, d_blocking_type = None, d_blocking_since = None,
     d_blocking_confidence = None, d_created_at = 0, d_updated_at = 0, d_deleted_at = None\<rparr>"

definition Register :: "register_input \<Rightarrow> domain_row op" where
  "Register inp =
     bnd (attempt (DomainStore_Create (domain_of_input inp))) (\<lambda>r. case r of
       Inl e \<Rightarrow> throw (if e = ErrUnique ''uq_domains_fqdn'' then ErrDuplicateFQDN else e)
     | Inr created \<Rightarrow>
         seq_eff
           (ignore (transaction (insertLifecycleHistoryTx (d_id created) None ''requested''
              ''domain registered'' (ri_triggered_by inp))))
           (ret created))"

record update_asset_input =
  ui_id :: int
  ui_registrar_account_id :: "int option"
  ui_dns_provider_id :: "int option"
  ui_cdn_account_id :: "int option"
  ui_origin_ips :: "string list"
  ui_registration_date :: "int option"
  ui_expiry_date :: "int option"
  ui_auto_renew :: bool
  ui_grace_end_date :: "int option"
  ui_transfer_lock :: bool
  ui_hold :: bool
  ui_dnssec_enabled :: bool
  ui_whois_privacy :: bool
  ui_annual_cost :: "rat option"
  ui_currency :: "string option"
  ui_purchase_price :: "rat option"
  ui_fee_fixed :: bool
  ui_purpose :: "string option"
  ui_notes :: "string option"

definition apply_asset :: "update_asset_input \<Rightarrow> domain_row \<Rightarrow> domain_row" where
  "apply_asset inp d = d\<lparr>d_registrar_account_id := ui_registrar_account_id inp,
     d_dns_provider_id := ui_dns_provider_id inp, d_cdn_account_id := ui_cdn_account_id inp,
     d_origin_ips := ui_origin_ips inp, d_registration_date := ui_registration_date inp,
     d_expiry_date := ui_expiry_date inp, d_auto_renew := ui_auto_renew inp,
     d_grace_end_date := ui_grace_end_date inp, d_transfer_lock := ui_transfer_lock inp,
     d_hold := ui_hold inp, d_dnssec_enabled := ui_dnssec_enabled inp,
     d_whois_privacy := ui_whois_privacy inp, d_annual_cost := ui_annual_cost inp,
     d_currency := ui_currency inp, d_purchase_price := ui_purchase_price inp,
     d_fee_fixed := ui_fee_fixed inp, d_purpose := ui_purpose inp, d_notes := ui_notes inp\<rparr>"

definition UpdateAsset :: "update_asset_input \<Rightarrow> domain_row op" where
  "UpdateAsset inp =
     bnd (DomainStore_GetByID (ui_id inp)) (\<lambda>existing.
       seq_eff (UpdateAssetFields (apply_asset inp existing)) (DomainStore_GetByID (ui_id inp)))"

definition InitiateTransfer :: "int \<Rightarrow> string option \<Rightarrow> domain_row op" where
  "InitiateTransfer i gaining =
     bnd (DomainStore_GetByID i) (\<lambda>d.
       if d_transfer_status d = Some ''pending'' then throw ErrTransferAlreadyPending
       else bnd (gets now) (\<lambda>t.
         seq_eff (UpdateTransferStatus i (Some ''pending'') gaining (Some t) None)
           (DomainStore_GetByID i)))"

definition CompleteTransfer :: "int \<Rightarrow> domain_row op" where
  "CompleteTransfer i =
     bnd (DomainStore_GetByID i) (\<lambda>d.
       if d_transfer_status d \<noteq> Some ''pending'' then throw ErrNoActiveTransfer
       else bnd (gets now) (\<lambda>t.
         seq_eff (UpdateTransferStatus i (Some ''completed'') (d_transfer_gaining_registrar d)
                    (d_transfer_requested_at d) (Some t))
           (DomainStore_GetByID i)))"

definition CancelTransfer :: "int \<Rightarrow> domain_row op" where
  "CancelTransfer i =
     bnd (DomainStore_GetByID i) (\<lambda>d.
       if d_transfer_status d \<noteq> Some ''pending'' then throw ErrNoActiveTransfer
       else seq_eff (UpdateTransferStatus i (Some ''cancelled'') None None None)
              (DomainStore_GetByID i))"

definition Lifecycle_GetHistory :: "int \<Rightarrow> history_row list op" where
  "Lifecycle_GetHistory i = LifecycleStore_GetHistory i 100"

section \<open>The invariant\<close>

definition dom_status :: "world \<Rightarrow> int \<Rightarrow> string option" where
  "dom_status w = (\<lambda>i. map_option d_lifecycle_state (tbl_get d_id (domains w) i))"

definition dom_hist :: "world \<Rightarrow> history_row list" where
  "dom_hist w = rows (domain_history w)"

definition dom_wf :: "world \<Rightarrow> bool" where
  "dom_wf w \<longleftrightarrow> wf_tbl d_id (domains w) \<and> distinct (map d_fqdn (rows (domains w)))"

definition lifecycle_inv :: "world \<Rightarrow> bool" where
  "lifecycle_inv w \<longleftrightarrow>
     dom_wf w \<and> audit_trail validLifecycleTransitions ''requested'' (dom_status w) (dom_hist w)"

text \<open>Along every method the invariant is kept and domains only move along the graph.\<close>

definition lc_step :: "world \<Rightarrow> world \<Rightarrow> bool" where
  "lc_step w w' \<longleftrightarrow> (lifecycle_inv w \<longrightarrow>
     lifecycle_inv w' \<and> moves validLifecycleTransitions (dom_status w) (dom_status w'))"

lemmas lc_defs = lifecycle_inv_def dom_wf_def dom_status_def dom_hist_def

lemma lc_faults [simp]: "dom_status (w\<lparr>faults := fs\<rparr>) = dom_status w"
  "dom_hist (w\<lparr>faults := fs\<rparr>) = dom_hist w" "dom_wf (w\<lparr>faults := fs\<rparr>) = dom_wf w"
  "lifecycle_inv (w\<lparr>faults := fs\<rparr>) = lifecycle_inv w"
  by (simp_all add: lc_defs)

interpretation lc: store_preorder lc_step
  by unfold_locales (auto simp: lc_step_def moves_refl intro: moves_trans)

lemma dom_wf_update:
  "dom_wf w \<Longrightarrow> (\<And>r. d_id (f r) = d_id r) \<Longrightarrow> (\<And>r. d_fqdn (f r) = d_fqdn r) \<Longrightarrow>
   dom_wf (w\<lparr>domains := tbl_update p f (domains w)\<rparr>)"
  by (simp add: dom_wf_def wf_update) (simp add: tbl_update_def comp_def if_distrib cong: if_cong)

interpretation lcm: table_machine validLifecycleTransitions "''requested''" domains domains_update
  domain_history domain_history_update d_id d_lifecycle_state
  "\<lambda>n s r. r\<lparr>d_lifecycle_state := s, d_updated_at := n\<rparr>" live_domain
  ErrInvalidLifecycleState ErrNoRows ErrLifecycleRaceCondition Transition
  unfolding Transition_def [abs_def] CanLifecycleTransition_def LifecycleStore_TransitionTx_def
    updateLifecycleStateTx_def insertLifecycleHistoryTx_def
  by unfold_locales (simp_all add: live_domain_def)

lemma Transition_wf: "dom_wf w \<Longrightarrow> dom_wf (final (Transition i f t rs b) w)"
  using dom_wf_update [of w "\<lambda>r. r\<lparr>d_lifecycle_state := t, d_updated_at := now w\<rparr>" "\<lambda>r. d_id r = i"]
  by (simp add: dom_wf_def lcm.trans_tab)

lemma Transition_audit:
  "lifecycle_inv w \<Longrightarrow> lifecycle_inv (final (Transition i f t rs b) w)"
  using lcm.trans_audit [of w i f t rs b] Transition_wf [of w i f t rs b]
  by (simp add: lifecycle_inv_def dom_status_def [abs_def] dom_hist_def dom_wf_def)

section \<open>Every method keeps the invariant\<close>

lemma Transition_moves:
  "dom_wf w \<Longrightarrow> moves validLifecycleTransitions (dom_status w) (dom_status (final (Transition i f t rs b) w))"
  using lcm.trans_moves [of w i f t rs b] by (simp add: dom_wf_def dom_status_def [abs_def])

lemma lc_Transition [eff_intro]: "keeps lc_step (Transition i f t rs b)"
  by (rule keepsI) (use Transition_audit Transition_moves in \<open>simp add: lc_step_def lifecycle_inv_def\<close>)

text \<open>An update of \<open>domains\<close> that leaves key, name and state alone.\<close>

lemma lc_update_frame:
  assumes "\<And>r. d_id (f r) = d_id r" "\<And>r. d_fqdn (f r) = d_fqdn r"
    and st: "\<And>r. d_lifecycle_state (f r) = d_lifecycle_state r"
  shows "lc_step w (w\<lparr>domains := tbl_update p f (domains w)\<rparr>)"
proof -
  have s: "dom_status (w\<lparr>domains := tbl_update p f (domains w)\<rparr>) = dom_status w"
    using assms by (auto simp: dom_status_def tbl_get_update option.map_comp comp_def fun_eq_iff
        if_distrib cong: if_cong)
  show ?thesis
    unfolding lc_step_def lifecycle_inv_def s
    using dom_wf_update [OF _ assms(1,2)] by (simp add: dom_hist_def moves_refl)
qed

lemma lc_UpdateAssetFields [eff_intro]: "keeps lc_step (UpdateAssetFields d)"
  unfolding UpdateAssetFields_def by (intro lc.keeps_exec lc_update_frame) simp_all

lemma lc_UpdateExpiryStatus [eff_intro]: "keeps lc_step (UpdateExpiryStatus i st)"
  unfolding UpdateExpiryStatus_def by (intro lc.keeps_exec lc_update_frame) simp_all

lemma lc_UpdateTransferStatus [eff_intro]: "keeps lc_step (UpdateTransferStatus i st g rq cp)"
  unfolding UpdateTransferStatus_def by (intro lc.keeps_exec lc_update_frame) simp_all

lemma lc_UpdateAnnualCost [eff_intro]: "keeps lc_step (UpdateAnnualCost i c cur)"
  unfolding UpdateAnnualCost_def by (intro lc.keeps_exec lc_update_frame) simp_all

lemma lc_BulkUpdateFields [eff_intro]: "keeps lc_step (BulkUpdateFields ids reg dns auto)"
  unfolding BulkUpdateFields_def
  by (intro eff_intro keepsI)
    (auto simp: final_def Let_def set_given_def intro!: lc_update_frame split: option.split)

lemma lc_GetByID [eff_intro]: "keeps lc_step (DomainStore_GetByID i)"
  unfolding DomainStore_GetByID_def by (intro eff_intro)

lemma lc_UpdateAsset [eff_intro]: "keeps lc_step (UpdateAsset inp)"
  unfolding UpdateAsset_def by (intro eff_intro)

lemma lc_InitiateTransfer [eff_intro]: "keeps lc_step (InitiateTransfer i g)"
  unfolding InitiateTransfer_def by (intro eff_intro)

lemma lc_CompleteTransfer [eff_intro]: "keeps lc_step (CompleteTransfer i)"
  unfolding CompleteTransfer_def by (intro eff_intro)

lemma lc_CancelTransfer [eff_intro]: "keeps lc_step (CancelTransfer i)"
  unfolding CancelTransfer_def by (intro eff_intro)

text \<open>Registration: the new row starts its trail, the history row records the start.\<close>

lemma new_domain_simps [simp]: "d_id (new_domain d t i) = i"
  "d_fqdn (new_domain d t i) = d_fqdn d" "d_lifecycle_state (new_domain d t i) = ''requested''"
  by (simp_all add: new_domain_def)

lemma dom_status_insert:
  assumes "dom_wf w"
  shows "dom_status (w\<lparr>domains := tbl_insert (new_domain d t) (domains w)\<rparr>) =
    (dom_status w)(seq (domains w) + 1 \<mapsto> ''requested'')"
  using assms by (auto simp: dom_status_def dom_wf_def tbl_get_insert)

lemma dom_status_fresh: "dom_wf w \<Longrightarrow> dom_status w (seq (domains w) + 1) = None"
  using tbl_get_SomeD [of d_id "domains w" "seq (domains w) + 1"]
  by (cases "tbl_get d_id (domains w) (seq (domains w) + 1)")
    (auto simp: dom_status_def dom_wf_def wf_tbl_def)

text \<open>\<open>dsince st0\<close>: the invariant, and the domains have moved legally since the states \<open>st0\<close>.\<close>

definition dsince :: "(int \<Rightarrow> string option) \<Rightarrow> world \<Rightarrow> bool" where
  "dsince st0 w \<longleftrightarrow> lifecycle_inv w \<and> moves validLifecycleTransitions st0 (dom_status w)"

lemma dsince_faults [simp]: "dsince st0 (w\<lparr>faults := fs\<rparr>) = dsince st0 w"
  by (simp add: dsince_def)

lemma insert_domain_inv:
  assumes w: "dsince st0 w" and new: "\<not> list_ex (\<lambda>r. d_fqdn r = d_fqdn d) (rows (domains w))"
  shows "dsince st0 (w\<lparr>domains := tbl_insert (new_domain d t) (domains w)\<rparr>)"
proof -
  have inv: "lifecycle_inv w" and wf: "dom_wf w"
    using w by (simp_all add: dsince_def lifecycle_inv_def)
  have "wf_tbl d_id (tbl_insert (new_domain d t) (domains w))"
    using wf by (simp add: dom_wf_def wf_insert)
  then have "dom_wf (w\<lparr>domains := tbl_insert (new_domain d t) (domains w)\<rparr>)"
    using wf new by (auto simp: dom_wf_def list_ex_iff) (auto simp: tbl_insert_def)
  moreover have "audit_trail validLifecycleTransitions ''requested''
      ((dom_status w)(seq (domains w) + 1 \<mapsto> ''requested'')) (dom_hist w)"
    using inv dom_status_fresh [OF wf] by (intro audit_trail_create) (simp_all add: lifecycle_inv_def)
  moreover have "moves validLifecycleTransitions st0 ((dom_status w)(seq (domains w) + 1 \<mapsto> ''requested''))"
    using w dom_status_fresh [OF wf] moves_new moves_trans by (fastforce simp: dsince_def)
  ultimately show ?thesis
    by (simp add: dsince_def lifecycle_inv_def dom_status_insert [OF wf]) (simp add: dom_hist_def)
qed

lemma Create_inv:
  "hoare (dsince st0) (DomainStore_Create d)
     (\<lambda>c w. dsince st0 w \<and> dom_status w (d_id c) = Some ''requested'') (dsince st0)"
  unfolding DomainStore_Create_def
proof (rule hoare_stmt)
  show "hoare (dsince st0) (\<lambda>w. if list_ex (\<lambda>r. d_fqdn r = d_fqdn d) (rows (domains w))
      then (Inl (ErrUnique ''uq_domains_fqdn''), w)
      else (Inr (new_domain d (now w) (seq (domains w) + 1)),
            w\<lparr>domains := tbl_insert (new_domain d (now w)) (domains w)\<rparr>))
     (\<lambda>c w. dsince st0 w \<and> dom_status w (d_id c) = Some ''requested'') (dsince st0)"
    using insert_domain_inv
    by (auto simp: hoare_def result_def final_def dom_status_insert dsince_def lifecycle_inv_def)
qed auto

lemma insert_initial_inv:
  "hoare (\<lambda>w. dsince st0 w \<and> dom_status w i = Some ''requested'')
     (transaction (insertLifecycleHistoryTx i None ''requested'' rs b)) (\<lambda>_. dsince st0) (dsince st0)"
proof (rule hoare_transaction)
  show "hoare (\<lambda>w. dsince st0 w \<and> dom_status w i = Some ''requested'')
     (insertLifecycleHistoryTx i None ''requested'' rs b) (\<lambda>_. dsince st0) (dsince st0)"
    unfolding insertLifecycleHistoryTx_def
  proof (rule hoare_exec)
    fix w assume w: "dsince st0 w \<and> dom_status w i = Some ''requested''"
    have "audit_trail validLifecycleTransitions ''requested'' (dom_status w)
        (dom_hist w @ [new_history i None ''requested'' rs b (now w) (seq (domain_history w) + 1)])"
      using w by (intro audit_trail_created_row) (simp_all add: dsince_def lifecycle_inv_def new_history_def)
    then show "dsince st0 (w\<lparr>domain_history :=
        tbl_insert (new_history i None ''requested'' rs b (now w)) (domain_history w)\<rparr>)"
      using w by (simp add: dsince_def lc_defs tbl_insert_def)
  qed auto
qed auto

lemma lc_Register [eff_intro]: "keeps lc_step (Register inp)"
proof (rule keepsI)
  fix w
  have "hoare (dsince st0) (Register inp) (\<lambda>_. dsince st0) (dsince st0)" for st0
    unfolding Register_def
  proof (rule hoare_bnd [OF hoare_attempt])
    let ?Q = "\<lambda>r w. dsince st0 w \<and>
      (case r of Inl e \<Rightarrow> True | Inr c \<Rightarrow> dom_status w (d_id c) = Some ''requested'')"
    show "hoare (dsince st0) (DomainStore_Create (domain_of_input inp))
        (\<lambda>a. ?Q (Inr a)) (\<lambda>w. \<forall>e::go_err. ?Q (Inl e) w)"
      using Create_inv by (rule hoare_post) auto
    fix r :: "go_err + domain_row"
    show "hoare (?Q r) (case r of
        Inl e \<Rightarrow> throw (if e = ErrUnique ''uq_domains_fqdn'' then ErrDuplicateFQDN else e)
      | Inr created \<Rightarrow> seq_eff (ignore (transaction (insertLifecycleHistoryTx (d_id created) None
          ''requested'' ''domain registered'' (ri_triggered_by inp)))) (ret created))
        (\<lambda>_. dsince st0) (dsince st0)"
      by (cases r) (auto intro!: hoare_throw hoare_seq [OF hoare_ignore [OF insert_initial_inv]] hoare_ret)
  qed
  from hoareD [OF this, of "dom_status w" w] show "lc_step w (final (Register inp) w)"
    by (auto simp: lc_step_def dsince_def moves_refl split: sum.splits)
qed

section \<open>Preorders that do not look at domains\<close>

locale domain_blind = store_preorder R for R :: "world \<Rightarrow> world \<Rightarrow> bool" +
  assumes R_domains: "R w (w\<lparr>domains := x\<rparr>)" and R_domain_history: "R w (w\<lparr>domain_history := y\<rparr>)"
begin

lemma k_domain_writes [eff_intro]:
  "keeps R (updateLifecycleStateTx i s)" "keeps R (insertLifecycleHistoryTx i f t rs b)"
  "keeps R (UpdateAssetFields d)" "keeps R (UpdateExpiryStatus i st)"
  "keeps R (UpdateTransferStatus i st g rq cp)" "keeps R (UpdateAnnualCost i c cur)"
  unfolding updateLifecycleStateTx_def insertLifecycleHistoryTx_def UpdateAssetFields_def
    UpdateExpiryStatus_def UpdateTransferStatus_def UpdateAnnualCost_def
  by (intro keeps_exec R_domains R_domain_history)+

lemma k_domain_stmts [eff_intro]:
  "keeps R (DomainStore_Create d)" "keeps R (BulkUpdateFields ids reg dns auto)"
  unfolding DomainStore_Create_def BulkUpdateFields_def
  by (intro eff_intro keepsI; simp add: final_def Let_def R_domains R_refl)+

lemma k_domain_get [eff_intro]: "keeps R (DomainStore_GetByID i)"
  unfolding DomainStore_GetByID_def by (rule keeps_query_one)

lemma k_lifecycle [eff_intro]:
  "keeps R (Transition i f t rs b)" "keeps R (Register inp)" "keeps R (UpdateAsset ui)"
  "keeps R (InitiateTransfer i g)" "keeps R (CompleteTransfer i)" "keeps R (CancelTransfer i)"
  unfolding Transition_def LifecycleStore_TransitionTx_def Register_def UpdateAsset_def
    InitiateTransfer_def CompleteTransfer_def CancelTransfer_def
  by (intro eff_intro)+

end

section \<open>Transitions and transfers\<close>

text \<open>
  C10: A transition is atomic under every fault schedule: a successful call was along an edge,
  from the state the domain was in, and changed exactly the state of that domain and the
  history by one row recording it; a failed call changed neither table.
\<close>

theorem Transition_atomic:
  assumes "dom_wf w"
  shows "(result (Transition i from to reason by) w = Inr () \<and> CanLifecycleTransition from to \<and>
      dom_status w i = Some from \<and>
      dom_status (final (Transition i from to reason by) w) = (dom_status w)(i \<mapsto> to) \<and>
      (\<exists>h. dom_hist (final (Transition i from to reason by) w) = dom_hist w @ [h] \<and>
         h_owner h = i \<and> h_from h = Some from \<and> h_to h = to)) \<or>
    (result (Transition i from to reason by) w \<noteq> Inr () \<and>
      domains (final (Transition i from to reason by) w) = domains w \<and>
      domain_history (final (Transition i from to reason by) w) = domain_history w)"
proof (cases "result (Transition i from to reason by) w")
  case (Inl e)
  then have "domains (final (Transition i from to reason by) w) = domains w \<and>
      domain_history (final (Transition i from to reason by) w) = domain_history w"
    by (rule lcm.trans_InlE) simp
  with Inl show ?thesis by simp
next
  case (Inr u)
  then show ?thesis
    using lcm.trans_ok [of w i "from" to reason "by"] assms
    by (simp add: dom_wf_def CanLifecycleTransition_def dom_status_def [abs_def] dom_hist_def)
qed

theorem Transition_atomic_witness:
  "dom_wf empty_world \<and> result (Transition 1 ''active'' ''disabled'' [] []) empty_world \<noteq> Inr () \<and>
   domains (final (Transition 1 ''active'' ''disabled'' [] []) empty_world) = domains empty_world"
proof -
  have wf: "dom_wf empty_world" by (simp add: dom_wf_def empty_world_def wf_tbl_def empty_tbl_def)
  have "dom_status empty_world 1 = None"
    by (simp add: dom_status_def empty_world_def empty_tbl_def tbl_get_def tbl_find_def)
  with wf Transition_atomic [OF wf, of 1 "''active''" "''disabled''" "[]" "[]"] show ?thesis by auto
qed

text \<open>What a look-up by id sees after an update of that row.\<close>

lemma find_live_update:
  assumes "\<And>r. d_id (f r) = d_id r" "\<And>r. d_deleted_at (f r) = d_deleted_at r"
  shows "tbl_find (live_domain i) (tbl_update (live_domain i) f t) = map_option f (tbl_find (live_domain i) t)"
proof -
  have "find (live_domain i) (map (\<lambda>r. if live_domain i r then f r else r) xs) =
      map_option f (find (live_domain i) xs)" for xs
    using assms by (induction xs) (auto simp: live_domain_def)
  then show ?thesis by (simp add: tbl_find_def tbl_update_def)
qed

lemma UpdateTransferStatus_calm:
  assumes "faults w = []" and "tbl_find (live_domain i) (domains w) = Some d"
  shows "result (seq_eff (UpdateTransferStatus i st g rq cp) (DomainStore_GetByID i)) w =
      Inr (d\<lparr>d_transfer_status := st, d_transfer_gaining_registrar := g, d_transfer_requested_at := rq,
            d_transfer_completed_at := cp, d_updated_at := now w\<rparr>)"
    and "tbl_find (live_domain i) (domains (final (seq_eff (UpdateTransferStatus i st g rq cp)
        (DomainStore_GetByID i)) w)) =
      Some (d\<lparr>d_transfer_status := st, d_transfer_gaining_registrar := g, d_transfer_requested_at := rq,
            d_transfer_completed_at := cp, d_updated_at := now w\<rparr>)"
  using assms
  by (simp_all add: UpdateTransferStatus_def DomainStore_GetByID_def eff_run find_live_update)

text \<open>
  The transfer sub-machine, when the database answers, for a live domain: initiating is
  refused exactly while a transfer is pending and otherwise records the registrar and the
  time; completing and cancelling are refused exactly when none is pending; completing keeps
  the registrar and request time, cancelling clears them.
\<close>

theorem transfer_machine:
  assumes "faults w = []" and "tbl_find (live_domain i) (domains w) = Some d"
  shows "result (InitiateTransfer i g) w =
      (if d_transfer_status d = Some ''pending'' then Inl ErrTransferAlreadyPending
       else Inr (d\<lparr>d_transfer_status := Some ''pending'', d_transfer_gaining_registrar := g,
         d_transfer_requested_at := Some (now w), d_transfer_completed_at := None, d_updated_at := now w\<rparr>)) \<and>
    result (CompleteTransfer i) w =
      (if d_transfer_status d \<noteq> Some ''pending'' then Inl ErrNoActiveTransfer
       else Inr (d\<lparr>d_transfer_status := Some ''completed'', d_transfer_completed_at := Some (now w),
         d_updated_at := now w\<rparr>)) \<and>
    result (CancelTransfer i) w =
      (if d_transfer_status d \<noteq> Some ''pending'' then Inl ErrNoActiveTransfer
       else Inr (d\<lparr>d_transfer_status := Some ''cancelled'', d_transfer_gaining_registrar := None,
         d_transfer_requested_at := None, d_transfer_completed_at := None, d_updated_at := now w\<rparr>))"
proof -
  have get: "result (DomainStore_GetByID i) w = Inr d" "final (DomainStore_GetByID i) w = w"
    using assms by (simp_all add: DomainStore_GetByID_def)
  show ?thesis
    using UpdateTransferStatus_calm(1) [OF assms]
    by (simp add: InitiateTransfer_def CompleteTransfer_def CancelTransfer_def result_bnd [of "DomainStore_GetByID i"]
        get result_bnd [of "gets now"])
qed

definition one_domain :: "string option \<Rightarrow> world" where
  "one_domain ts = empty_world\<lparr>domains := \<lparr>rows = [(domain_of_input \<lparr>ri_project_id = 1, ri_fqdn = ''a.com'',
     ri_owner_user_id = None, ri_dns_provider_id = None, ri_registrar_account_id = None,
     ri_cdn_account_id = None, ri_origin_ips = [], ri_registration_date = None, ri_expiry_date = None,
     ri_auto_renew = False, ri_annual_cost = None, ri_currency = None, ri_purpose = None,
     ri_notes = None, ri_triggered_by = ''user:1''\<rparr>)\<lparr>d_id := 1, d_transfer_status := ts\<rparr>], seq = 1\<rparr>\<rparr>"

theorem transfer_machine_witness:
  "result (InitiateTransfer 1 None) (one_domain (Some ''pending'')) = Inl ErrTransferAlreadyPending \<and>
   result (CompleteTransfer 1) (one_domain None) = Inl ErrNoActiveTransfer"
proof -
  let ?d = "\<lambda>ts. hd (rows (domains (one_domain ts)))"
  have "faults (one_domain ts) = []" "tbl_find (live_domain 1) (domains (one_domain ts)) = Some (?d ts)"
    "d_transfer_status (?d ts) = ts" for ts
    by (simp_all add: one_domain_def empty_world_def tbl_find_def live_domain_def domain_of_input_def)
  with transfer_machine [of "one_domain ts" 1 "?d ts" for ts] show ?thesis by simp
qed

end
