(* ===== verification/Agent_Service.thy ===== *)
theory Agent_Service
  imports Lifecycle
begin

text \<open>
  internal/agent (service.go, health.go) over store/postgres/agent.go and the queries of
  store/postgres/host\_group.go: registration, heartbeats, the task queue an agent polls with
  its concurrency limit, completion reports, and the scan for stale agents.
  The eight characters taken from a fresh UUID are the argument \<open>uuid8\<close>.
\<close>

section \<open>store/postgres: agents\<close>

definition live_agent :: "int \<Rightarrow> agent_row \<Rightarrow> bool" where
  "live_agent i r \<longleftrightarrow> a_id r = i \<and> a_deleted_at r = None"

definition AgentStore_Create :: "agent_row \<Rightarrow> int op" where
  "AgentStore_Create a = stmt (\<lambda>w.
     if list_ex (\<lambda>r. a_agent_id r = a_agent_id a) (rows (agents w))
     then (Inl (ErrUnique ''uq_agents_agent_id''), w)
     else if a_status a \<notin> set AllAgentStates then (Inl (ErrCheck ''chk_agents_status''), w)
     else (Inr (seq (agents w) + 1), w\<lparr>agents := tbl_insert
             (\<lambda>i. a\<lparr>a_id := i, a_created_at := now w, a_deleted_at := None\<rparr>) (agents w)\<rparr>))"

definition AgentStore_GetByID :: "int \<Rightarrow> agent_row option op" where
  "AgentStore_GetByID i = query (\<lambda>w. tbl_find (live_agent i) (agents w))"

definition AgentStore_GetByAgentID :: "string \<Rightarrow> agent_row option op" where
  "AgentStore_GetByAgentID aid = query (\<lambda>w.
     tbl_find (\<lambda>r. a_agent_id r = aid \<and> a_deleted_at r = None) (agents w))"

definition page :: "int \<Rightarrow> int \<Rightarrow> (agent_row \<Rightarrow> bool) \<Rightarrow> world \<Rightarrow> agent_row list" where
  "page limit offset p w = take (nat limit) (drop (nat offset)
     (rev (sort_key a_created_at (tbl_select p (agents w)))))"

definition list_agents ::
    "(agent_row \<Rightarrow> bool) \<Rightarrow> int \<Rightarrow> int \<Rightarrow> (agent_row list \<times> int) op" where
  "list_agents p limit offset =
     bnd (query (\<lambda>w. int (length (tbl_select p (agents w))))) (\<lambda>total.
       bnd (query (page limit offset p)) (\<lambda>as. ret (as, total)))"

definition ListByStatus :: "string \<Rightarrow> int \<Rightarrow> int \<Rightarrow> (agent_row list \<times> int) op" where
  "ListByStatus status = list_agents (\<lambda>r. a_status r = status \<and> a_deleted_at r = None)"

definition ListByHostGroup :: "int \<Rightarrow> int \<Rightarrow> int \<Rightarrow> (agent_row list \<times> int) op" where
  "ListByHostGroup hg = list_agents (\<lambda>r. a_host_group_id r = Some hg \<and> a_deleted_at r = None)"

definition ListAll :: "int \<Rightarrow> int \<Rightarrow> (agent_row list \<times> int) op" where
  "ListAll = list_agents (\<lambda>r. a_deleted_at r = None)"

definition updateAgentStatusTx :: "int \<Rightarrow> string \<Rightarrow> unit op" where
  "updateAgentStatusTx i status = exec (\<lambda>w. w\<lparr>agents := tbl_update (\<lambda>r. a_id r = i)
     (\<lambda>r. r\<lparr>a_status := status\<rparr>) (agents w)\<rparr>)"

definition insertAgentStateHistoryTx ::
    "int \<Rightarrow> string \<Rightarrow> string \<Rightarrow> string \<Rightarrow> string \<Rightarrow> unit op" where
  "insertAgentStateHistoryTx i from to reason by = exec (\<lambda>w. w\<lparr>agent_history :=
     tbl_insert (new_history i (Some from) to reason by (now w)) (agent_history w)\<rparr>)"

definition AgentStore_TransitionTx ::
    "int \<Rightarrow> string \<Rightarrow> string \<Rightarrow> string \<Rightarrow> string \<Rightarrow> unit op" where
  "AgentStore_TransitionTx i expectedFrom to reason by =
     bnd (query_one (ErrMsg ''agent not found'')
            (\<lambda>w. map_option a_status (tbl_find (live_agent i) (agents w))))
       (\<lambda>currentState.
          if currentState \<noteq> expectedFrom then throw ErrAgentRaceCondition
          else seq_eff (updateAgentStatusTx i to)
                 (insertAgentStateHistoryTx i expectedFrom to reason by))"

definition UpdateLastSeen :: "int \<Rightarrow> int \<Rightarrow> unit op" where
  "UpdateLastSeen i ts = exec (\<lambda>w. w\<lparr>agents := tbl_update (\<lambda>r. a_id r = i)
     (\<lambda>r. r\<lparr>a_last_seen_at := Some ts\<rparr>) (agents w)\<rparr>)"

definition UpdateAgentVersion :: "int \<Rightarrow> string \<Rightarrow> unit op" where
  "UpdateAgentVersion i v = exec (\<lambda>w. w\<lparr>agents := tbl_update (\<lambda>r. a_id r = i)
     (\<lambda>r. r\<lparr>a_agent_version := Some v\<rparr>) (agents w)\<rparr>)"

definition InsertHeartbeat :: "heartbeat_row \<Rightarrow> unit op" where
  "InsertHeartbeat hb = exec (\<lambda>w. w\<lparr>heartbeats :=
     tbl_insert (\<lambda>i. hb\<lparr>hb_id := i\<rparr>) (heartbeats w)\<rparr>)"

section \<open>store/postgres: agent tasks\<close>

definition in_flight :: "agent_task_row \<Rightarrow> bool" where
  "in_flight t \<longleftrightarrow> t_status t = ''claimed'' \<or> t_status t = ''running''"

text \<open>\<open>JOIN agents a ON a.id = at.agent_id WHERE a.host_group_id = hg\<close>: soft-deleted agents count.\<close>

definition task_in_group :: "world \<Rightarrow> int \<Rightarrow> agent_task_row \<Rightarrow> bool" where
  "task_in_group w hg t \<longleftrightarrow>
     list_ex (\<lambda>a. a_id a = t_agent_id t \<and> a_host_group_id a = Some hg) (rows (agents w))"

definition CountInFlight :: "int \<Rightarrow> int op" where
  "CountInFlight hg = query (\<lambda>w.
     int (length (tbl_select (\<lambda>t. task_in_group w hg t \<and> in_flight t) (agent_tasks w))))"

text \<open>\<open>SELECT a.host_group_id, COALESCE(hg.max_concurrency, 0)\<close>; no agent row leaves the zero value.\<close>

definition concurrency_limit :: "int \<Rightarrow> world \<Rightarrow> int option \<times> int" where
  "concurrency_limit i w = (case tbl_find (\<lambda>r. a_id r = i) (agents w) of
       None \<Rightarrow> (None, 0)
     | Some a \<Rightarrow> (a_host_group_id a, case a_host_group_id a of None \<Rightarrow> 0
         | Some h \<Rightarrow> (case tbl_find (\<lambda>g. hg_id g = h) (host_groups w) of None \<Rightarrow> 0
             | Some g \<Rightarrow> hg_max_concurrency g)))"

definition oldest_pending :: "int \<Rightarrow> world \<Rightarrow> agent_task_row option" where
  "oldest_pending i w = (case sort_key t_created_at (tbl_select
       (\<lambda>t. t_agent_id t = i \<and> t_status t = ''pending'') (agent_tasks w)) of
       [] \<Rightarrow> None | t # _ \<Rightarrow> Some t)"

definition NextPendingTask :: "int \<Rightarrow> agent_task_row option op" where
  "NextPendingTask i =
     bnd (query (concurrency_limit i)) (\<lambda>(hg, maxc).
       bnd (case hg of
              Some h \<Rightarrow> if maxc > 0
                then bnd (CountInFlight h) (\<lambda>inFlight. ret (inFlight \<ge> maxc)) else ret False
            | None \<Rightarrow> ret False) (\<lambda>full.
         if full then ret None else query (oldest_pending i)))"

definition pending_task :: "string \<Rightarrow> agent_task_row \<Rightarrow> bool" where
  "pending_task tid t \<longleftrightarrow> t_task_id t = tid \<and> t_status t = ''pending''"

definition ClaimTask :: "string \<Rightarrow> unit op" where
  "ClaimTask tid = exec_unless
     (\<lambda>w. tbl_select (pending_task tid) (agent_tasks w) = []) (ErrMsg ''task not pending or not found'')
     (\<lambda>w. w\<lparr>agent_tasks := tbl_update (pending_task tid)
        (\<lambda>t. t\<lparr>t_status := ''claimed'', t_claimed_at := Some (now w)\<rparr>) (agent_tasks w)\<rparr>)"

definition AllTaskStatuses :: "string list" where
  "AllTaskStatuses = [''pending'', ''claimed'', ''running'', ''succeeded'', ''failed'', ''timeout'',
     ''cancelled'']"

definition CompleteTask :: "string \<Rightarrow> string \<Rightarrow> int \<Rightarrow> string \<Rightarrow> unit op" where
  "CompleteTask tid status durationMs lastError = exec_unless
     (\<lambda>w. status \<notin> set AllTaskStatuses \<and> tbl_select (\<lambda>t. t_task_id t = tid) (agent_tasks w) \<noteq> [])
     (ErrCheck ''chk_agent_tasks_status'')
     (\<lambda>w. w\<lparr>agent_tasks := tbl_update (\<lambda>t. t_task_id t = tid)
        (\<lambda>t. t\<lparr>t_status := status, t_ended_at := Some (now w), t_duration_ms := Some durationMs,
               t_last_error := (if lastError \<noteq> [] then Some lastError else None)\<rparr>)
        (agent_tasks w)\<rparr>)"

definition GetTaskByTaskID :: "string \<Rightarrow> agent_task_row option op" where
  "GetTaskByTaskID tid = query (\<lambda>w. tbl_find (\<lambda>t. t_task_id t = tid) (agent_tasks w))"

definition InsertDeploymentLog :: "int \<Rightarrow> string \<Rightarrow> string \<Rightarrow> int \<Rightarrow> string \<Rightarrow> unit op" where
  "InsertDeploymentLog atid phase status durationMs detail = exec (\<lambda>w. w\<lparr>deployment_logs :=
     tbl_insert (\<lambda>i. \<lparr>dl_id = i, dl_agent_task_id = atid, dl_phase = phase, dl_status = status,
       dl_duration_ms = durationMs, dl_detail = detail\<rparr>) (deployment_logs w)\<rparr>)"

definition CreateAgentTask :: "agent_task_row \<Rightarrow> unit op" where
  "CreateAgentTask t = exec_unless
     (\<lambda>w. list_ex (\<lambda>r. t_task_id r = t_task_id t) (rows (agent_tasks w)))
     (ErrUnique ''uq_agent_tasks_task_id'')
     (\<lambda>w. w\<lparr>agent_tasks := tbl_insert
        (\<lambda>i. t\<lparr>t_id := i, t_status := ''pending'', t_claimed_at := None, t_ended_at := None,
               t_duration_ms := None, t_last_error := None, t_created_at := now w\<rparr>)
        (agent_tasks w)\<rparr>)"

text \<open>\<open>JOIN domain_tasks dt ON dt.id = at.domain_task_id WHERE p dt\<close>.\<close>

definition joined_task :: "world \<Rightarrow> (domain_task_row \<Rightarrow> bool) \<Rightarrow> agent_task_row \<Rightarrow> bool" where
  "joined_task w p t \<longleftrightarrow>
     list_ex (\<lambda>d. dt_id d = t_domain_task_id t \<and> p d) (rows (domain_tasks w))"

definition ListAgentTasksByRelease :: "int \<Rightarrow> agent_task_row list op" where
  "ListAgentTasksByRelease rel = query (\<lambda>w. sort_key t_id
     (tbl_select (joined_task w (\<lambda>d. dt_release_id d = rel)) (agent_tasks w)))"

record agent_task_stats =
  st_total :: int
  st_succeeded :: int
  st_failed :: int
  st_pending :: int
  st_claimed :: int
  st_running :: int
  st_timeout :: int

definition count_status :: "string \<Rightarrow> agent_task_row list \<Rightarrow> int" where
  "count_status s ts = int (length (filter (\<lambda>t. t_status t = s) ts))"

definition stats_of :: "agent_task_row list \<Rightarrow> agent_task_stats" where
  "stats_of ts = \<lparr>st_total = int (length ts), st_succeeded = count_status ''succeeded'' ts,
     st_failed = count_status ''failed'' ts, st_pending = count_status ''pending'' ts,
     st_claimed = count_status ''claimed'' ts, st_running = count_status ''running'' ts,
     st_timeout = count_status ''timeout'' ts\<rparr>"

definition release_tasks :: "int \<Rightarrow> world \<Rightarrow> agent_task_row list" where
  "release_tasks rel w = tbl_select (joined_task w (\<lambda>d. dt_release_id d = rel)) (agent_tasks w)"

definition shard_tasks :: "int \<Rightarrow> world \<Rightarrow> agent_task_row list" where
  "shard_tasks sh w = tbl_select (joined_task w (\<lambda>d. dt_shard_id d = Some sh)) (agent_tasks w)"

definition GetAgentTaskStatsByRelease :: "int \<Rightarrow> agent_task_stats op" where
  "GetAgentTaskStatsByRelease rel = query (\<lambda>w. stats_of (release_tasks rel w))"

definition GetAgentTaskStatsByShard :: "int \<Rightarrow> agent_task_stats op" where
  "GetAgentTaskStatsByShard sh = query (\<lambda>w. stats_of (shard_tasks sh w))"

definition is_online :: "agent_row \<Rightarrow> bool" where
  "is_online r \<longleftrightarrow> (a_status r = ''online'' \<or> a_status r = ''idle'') \<and> a_deleted_at r = None"

definition ListOnlineByHostGroup :: "int \<Rightarrow> agent_row list op" where
  "ListOnlineByHostGroup hg = query (\<lambda>w. sort_key a_id
     (tbl_select (\<lambda>r. a_host_group_id r = Some hg \<and> is_online r) (agents w)))"

definition ListOnlineAgents :: "agent_row list op" where
  "ListOnlineAgents = query (\<lambda>w. sort_key a_id (tbl_select is_online (agents w)))"

definition is_stale :: "int \<Rightarrow> agent_row \<Rightarrow> bool" where
  "is_stale cutoff r \<longleftrightarrow> a_status r \<in> set [''online'', ''busy'', ''idle''] \<and> a_deleted_at r = None \<and>
     (case a_last_seen_at r of None \<Rightarrow> True | Some s \<Rightarrow> s < cutoff)"

definition ListStaleOnlineAgents :: "int \<Rightarrow> agent_row list op" where
  "ListStaleOnlineAgents threshold =
     query (\<lambda>w. tbl_select (is_stale (now w - threshold)) (agents w))"

definition ListStateHistory :: "int \<Rightarrow> int \<Rightarrow> history_row list op" where
  "ListStateHistory i limit = query (\<lambda>w. take (nat limit) (rev (sort_key h_created_at
     (tbl_select (\<lambda>h. h_owner h = i) (agent_history w)))))"

section \<open>store/postgres: host groups\<close>

definition HostGroupStore_GetByID :: "int \<Rightarrow> host_group_row option op" where
  "HostGroupStore_GetByID i = query (\<lambda>w.
     tbl_find (\<lambda>g. hg_id g = i \<and> hg_deleted_at g = None) (host_groups w))"

definition HostGroupStore_List :: "host_group_row list op" where
  "HostGroupStore_List = query (\<lambda>w. sort_key hg_id
     (tbl_select (\<lambda>g. hg_deleted_at g = None) (host_groups w)))"

definition HostGroupStore_ListByProject :: "int \<Rightarrow> host_group_row list op" where
  "HostGroupStore_ListByProject p = query (\<lambda>w. sort_key hg_id
     (tbl_select (\<lambda>g. hg_project_id g = p \<and> hg_deleted_at g = None) (host_groups w)))"

definition UpdateConcurrency :: "int \<Rightarrow> int \<Rightarrow> int \<Rightarrow> int \<Rightarrow> unit op" where
  "UpdateConcurrency i maxc batch wait =
     (let p = (\<lambda>g. hg_id g = i \<and> hg_deleted_at g = None) in exec_unless
       (\<lambda>w. tbl_select p (host_groups w) = []) (ErrMsg ''host group not found'')
       (\<lambda>w. w\<lparr>host_groups := tbl_update p (\<lambda>g. g\<lparr>hg_max_concurrency := maxc,
          hg_reload_batch_size := batch, hg_reload_batch_wait_secs := wait\<rparr>) (host_groups w)\<rparr>))"

section \<open>internal/agent: the service\<close>

definition TransitionAgent :: "int \<Rightarrow> string \<Rightarrow> string \<Rightarrow> string \<Rightarrow> string \<Rightarrow> unit op" where
  "TransitionAgent i from to reason by =
     (if \<not> CanAgentTransition from to then throw ErrInvalidAgentState
      else transaction (AgentStore_TransitionTx i from to reason by))"

definition non_empty :: "string \<Rightarrow> string option" where
  "non_empty s = (if s \<noteq> [] then Some s else None)"

definition Agent_Register :: "string \<Rightarrow> register_request \<Rightarrow> register_response op" where
  "Agent_Register uuid8 req =
     bnd (gets now) (\<lambda>t.
       let agentID = ''agent-'' @ uuid8;
           a = \<lparr>a_id = 0, a_agent_id = agentID, a_hostname = rq_hostname req,
                a_ip = non_empty (rq_ip req), a_region = non_empty (rq_region req),
                a_datacenter = non_empty (rq_datacenter req),
                a_host_group_id = rq_host_group_id req,
                a_agent_version = non_empty (rq_agent_version req),
                a_cert_serial = non_empty (rq_cert_serial req), a_status = ''registered'',
                a_last_seen_at = Some t, a_created_at = 0, a_deleted_at = None\<rparr>
       in bnd (AgentStore_Create a) (\<lambda>dbID.
            seq_eff (ignore (TransitionAgent dbID ''registered'' ''online''
                       ''initial registration'' ''system''))
              (ret \<lparr>rr_agent_id = agentID, rr_status = ''online'', rr_heartbeat_secs = 30\<rparr>)))"

definition Heartbeat :: "heartbeat_request \<Rightarrow> heartbeat_response op" where
  "Heartbeat req =
     bnd (AgentStore_GetByAgentID (hq_agent_id req)) (\<lambda>found. case found of
       None \<Rightarrow> throw ErrAgentNotFound
     | Some agent \<Rightarrow>
         bnd (gets now) (\<lambda>t.
         seq_eff (UpdateLastSeen (a_id agent) t)
        (seq_eff (if hq_agent_version req \<noteq> [] \<and> a_agent_version agent \<noteq> Some (hq_agent_version req)
                  then ignore (UpdateAgentVersion (a_id agent) (hq_agent_version req)) else ret ())
        (seq_eff (ignore (InsertHeartbeat \<lparr>hb_id = 0, hb_agent_id = a_id agent,
                    hb_status = hq_status req, hb_current_task_id = non_empty (hq_current_task_id req),
                    hb_agent_version = non_empty (hq_agent_version req),
                    hb_load_avg_1 = hq_load_avg_1 req, hb_disk_free_pct = hq_disk_free_pct req,
                    hb_last_error = non_empty (hq_last_error req)\<rparr>))
        (seq_eff (if a_status agent = ''offline''
                  then ignore (TransitionAgent (a_id agent) ''offline'' ''online''
                                 ''heartbeat resumed'' ''system'') else ret ())
        (bnd (attempt (NextPendingTask (a_id agent))) (\<lambda>pending.
           ret \<lparr>hr_ack = True, hr_status = a_status agent,
                hr_has_new_task = (case pending of Inl e \<Rightarrow> False | Inr t \<Rightarrow> t \<noteq> None)\<rparr>)))))))"

definition PullNextTask :: "string \<Rightarrow> task_envelope option op" where
  "PullNextTask agentID =
     bnd (AgentStore_GetByAgentID agentID) (\<lambda>found. case found of
       None \<Rightarrow> throw ErrAgentNotFound
     | Some agent \<Rightarrow>
         bnd (NextPendingTask (a_id agent)) (\<lambda>next. case next of
           None \<Rightarrow> ret None
         | Some task \<Rightarrow>
             let envelope = (t_payload task)\<lparr>e_task_id := t_task_id task\<rparr> in
             ret (Some (case t_artifact_url task of None \<Rightarrow> envelope
                        | Some u \<Rightarrow> envelope\<lparr>e_artifact_url := u\<rparr>))))"

definition ReportTask :: "task_report \<Rightarrow> unit op" where
  "ReportTask report =
     bnd (GetTaskByTaskID (tr_task_id report)) (\<lambda>found. case found of
       None \<Rightarrow> throw (ErrMsg ''task not found'')
     | Some task \<Rightarrow>
         seq_eff (CompleteTask (tr_task_id report) (tr_status report) (tr_duration_ms report)
                    (tr_error report))
           (for_each (tr_phases report) (\<lambda>phase. ignore (InsertDeploymentLog (t_id task)
              (p_phase phase) (p_status phase) (p_duration_ms phase) (p_detail phase)))))"

section \<open>internal/agent: the health checker\<close>

definition CheckStaleAgents :: "unit op" where
  "CheckStaleAgents =
     bnd (ListStaleOnlineAgents 90) (\<lambda>stale.
       if length stale = 0 then ret ()
       else for_each stale (\<lambda>a. ignore (TransitionAgent (a_id a) (a_status a) ''offline''
              ''heartbeat missed (>90s)'' ''health_checker'')))"

section \<open>The invariant\<close>

definition ag_status :: "world \<Rightarrow> int \<Rightarrow> string option" where
  "ag_status w = (\<lambda>i. map_option a_status (tbl_get a_id (agents w) i))"

definition ag_wf :: "world \<Rightarrow> bool" where
  "ag_wf w \<longleftrightarrow> wf_tbl a_id (agents w) \<and> distinct (map a_agent_id (rows (agents w)))"

definition agent_inv :: "world \<Rightarrow> bool" where
  "agent_inv w \<longleftrightarrow> ag_wf w \<and>
     audit_trail validAgentTransitions ''registered'' (ag_status w) (rows (agent_history w))"

definition ag_step :: "world \<Rightarrow> world \<Rightarrow> bool" where
  "ag_step w w' \<longleftrightarrow> (agent_inv w \<longrightarrow>
     agent_inv w' \<and> moves validAgentTransitions (ag_status w) (ag_status w'))"

lemmas ag_defs = agent_inv_def ag_wf_def ag_status_def

interpretation ag: store_preorder ag_step
  by unfold_locales (auto simp: ag_step_def ag_defs moves_refl intro: moves_trans)

interpretation agm: table_machine validAgentTransitions "''registered''" agents agents_update
  agent_history agent_history_update a_id a_status "\<lambda>n s r. r\<lparr>a_status := s\<rparr>" live_agent
  ErrInvalidAgentState "ErrMsg ''agent not found''" ErrAgentRaceCondition TransitionAgent
  unfolding TransitionAgent_def [abs_def] CanAgentTransition_def AgentStore_TransitionTx_def
    updateAgentStatusTx_def insertAgentStateHistoryTx_def
  by unfold_locales (simp_all add: live_agent_def)

text \<open>An \<open>UPDATE agents\<close> that leaves key and name alone; one that leaves the status alone too.\<close>

lemma ag_wf_update:
  "ag_wf w \<Longrightarrow> (\<And>r. a_id (f r) = a_id r) \<Longrightarrow> (\<And>r. a_agent_id (f r) = a_agent_id r) \<Longrightarrow>
   ag_wf (w\<lparr>agents := tbl_update p f (agents w)\<rparr>)"
  by (simp add: ag_wf_def wf_update) (simp add: tbl_update_def comp_def if_distrib cong: if_cong)

lemma ag_update_frame:
  assumes "\<And>r. a_id (f r) = a_id r" "\<And>r. a_agent_id (f r) = a_agent_id r"
    and "\<And>r. a_status (f r) = a_status r"
  shows "ag_step w (w\<lparr>agents := tbl_update p f (agents w)\<rparr>)"
proof -
  have "ag_status (w\<lparr>agents := tbl_update p f (agents w)\<rparr>) = ag_status w"
    using assms by (auto simp: ag_status_def tbl_get_update option.map_comp comp_def fun_eq_iff
        if_distrib cong: if_cong)
  then show ?thesis
    using ag_wf_update [OF _ assms(1,2)] by (simp add: ag_step_def agent_inv_def moves_refl)
qed

lemma ag_other:
  assumes "\<And>w. agents (f w) = agents w" and "\<And>w. agent_history (f w) = agent_history w"
  shows "ag_step w (f w)"
  using assms by (simp add: ag_step_def ag_defs moves_refl)

lemma ag_TransitionAgent [eff_intro]: "keeps ag_step (TransitionAgent i f t rs b)"
proof (rule keepsI)
  fix w
  have "ag_wf (final (TransitionAgent i f t rs b) w)" if "ag_wf w"
    using that ag_wf_update [of w "\<lambda>r. r\<lparr>a_status := t\<rparr>" "\<lambda>r. a_id r = i"]
    by (simp add: ag_wf_def agm.trans_tab)
  then show "ag_step w (final (TransitionAgent i f t rs b) w)"
    using agm.trans_audit [of w i f t rs b] agm.trans_moves [of w i f t rs b]
    by (simp add: ag_step_def agent_inv_def ag_status_def [abs_def]) (simp add: ag_wf_def)
qed

lemma ag_reads [eff_intro]:
  "keeps ag_step (AgentStore_GetByAgentID aid)" "keeps ag_step (NextPendingTask i)"
  "keeps ag_step (GetTaskByTaskID tid)" "keeps ag_step (ListStaleOnlineAgents th)"
  unfolding AgentStore_GetByAgentID_def NextPendingTask_def GetTaskByTaskID_def
    ListStaleOnlineAgents_def CountInFlight_def
  by (intro eff_intro)+

lemma ag_UpdateLastSeen [eff_intro]: "keeps ag_step (UpdateLastSeen i ts)"
  unfolding UpdateLastSeen_def by (intro ag.keeps_exec ag_update_frame) simp_all

lemma ag_UpdateAgentVersion [eff_intro]: "keeps ag_step (UpdateAgentVersion i v)"
  unfolding UpdateAgentVersion_def by (intro ag.keeps_exec ag_update_frame) simp_all

lemma ag_InsertHeartbeat [eff_intro]: "keeps ag_step (InsertHeartbeat hb)"
  unfolding InsertHeartbeat_def by (intro ag.keeps_exec ag_other) simp_all

lemma ag_InsertDeploymentLog [eff_intro]: "keeps ag_step (InsertDeploymentLog i p s d t)"
  unfolding InsertDeploymentLog_def by (intro ag.keeps_exec ag_other) simp_all

lemma ag_task_writes [eff_intro]:
  "keeps ag_step (ClaimTask tid)" "keeps ag_step (CompleteTask tid s d e)"
  "keeps ag_step (CreateAgentTask t)"
  unfolding ClaimTask_def CompleteTask_def CreateAgentTask_def
  by (intro ag.keeps_exec_unless ag_other; simp)+

lemma ag_Heartbeat [eff_intro]: "keeps ag_step (Heartbeat req)"
  unfolding Heartbeat_def by (intro eff_intro)

lemma ag_PullNextTask [eff_intro]: "keeps ag_step (PullNextTask aid)"
  unfolding PullNextTask_def Let_def by (intro eff_intro)

lemma ag_ReportTask [eff_intro]: "keeps ag_step (ReportTask r)"
  unfolding ReportTask_def by (intro eff_intro)

lemma ag_CheckStaleAgents [eff_intro]: "keeps ag_step CheckStaleAgents"
  unfolding CheckStaleAgents_def by (intro eff_intro)

lemma ag_AgentStore_Create:
  assumes "a_status a = ''registered''"
  shows "keeps ag_step (AgentStore_Create a)"
proof -
  let ?mk = "\<lambda>w i. a\<lparr>a_id := i, a_created_at := now w, a_deleted_at := None\<rparr>"
  have "ag_step w (w\<lparr>agents := tbl_insert (?mk w) (agents w)\<rparr>)"
    if inv: "agent_inv w" and new: "\<not> list_ex (\<lambda>r. a_agent_id r = a_agent_id a) (rows (agents w))" for w
  proof -
    let ?w = "w\<lparr>agents := tbl_insert (?mk w) (agents w)\<rparr>"
    have wf: "wf_tbl a_id (agents w)" using inv by (simp add: agent_inv_def ag_wf_def)
    have "wf_tbl a_id (tbl_insert (?mk w) (agents w))" using wf by (simp add: wf_insert)
    then have "ag_wf ?w"
      using inv new by (auto simp: agent_inv_def ag_wf_def list_ex_iff tbl_insert_def)
    moreover have fresh: "ag_status w (seq (agents w) + 1) = None"
      using wf tbl_get_SomeD [of a_id "agents w" "seq (agents w) + 1"]
      by (cases "tbl_get a_id (agents w) (seq (agents w) + 1)")
        (auto simp: ag_status_def wf_tbl_def)
    moreover have "audit_trail validAgentTransitions ''registered''
        ((ag_status w)(seq (agents w) + 1 \<mapsto> ''registered'')) (rows (agent_history w))"
      using inv fresh by (intro audit_trail_create) (simp_all add: agent_inv_def)
    moreover have "ag_status ?w = (ag_status w)(seq (agents w) + 1 \<mapsto> ''registered'')"
      using wf assms by (auto simp: ag_status_def tbl_get_insert)
    ultimately show ?thesis by (simp add: agent_inv_def ag_step_def moves_new)
  qed
  then show ?thesis
    unfolding AgentStore_Create_def
    by (intro ag.keeps_stmt keepsI) (auto simp: final_def ag_step_def moves_refl)
qed

lemma ag_Agent_Register [eff_intro]: "keeps ag_step (Agent_Register u req)"
  unfolding Agent_Register_def Let_def by (intro eff_intro ag_AgentStore_Create) simp

section \<open>The task queue of an agent\<close>

lemma tbl_update_none:
  assumes "\<And>r. p r \<Longrightarrow> \<not> q (f r)" and "\<And>r. \<not> p r \<Longrightarrow> \<not> q r"
  shows "\<forall>r \<in> set (rows (tbl_update p f t)). \<not> q r"
  using assms by (simp add: tbl_update_def) blast

definition group_load :: "int \<Rightarrow> world \<Rightarrow> int" where
  "group_load hg w = int (length (tbl_select (\<lambda>t. task_in_group w hg t \<and> in_flight t) (agent_tasks w)))"

lemma queue_reads_faults [simp]:
  "concurrency_limit i (w\<lparr>faults := fs\<rparr>) = concurrency_limit i w"
  "oldest_pending i (w\<lparr>faults := fs\<rparr>) = oldest_pending i w"
  "group_load hg (w\<lparr>faults := fs\<rparr>) = group_load hg w"
  by (simp_all add: concurrency_limit_def oldest_pending_def group_load_def task_in_group_def [abs_def]
      split: option.split)

lemma CountInFlight_eq: "CountInFlight hg = query (group_load hg)"
  by (simp add: CountInFlight_def group_load_def [abs_def])

definition at_capacity :: "int \<Rightarrow> world \<Rightarrow> bool" where
  "at_capacity i w \<longleftrightarrow> (case concurrency_limit i w of (Some hg, m) \<Rightarrow> m > 0 \<and> group_load hg w \<ge> m
     | (None, m) \<Rightarrow> False)"

lemma NextPendingTask_Inr:
  assumes "result (NextPendingTask i) w = Inr r"
  shows "r = (if at_capacity i w then None else oldest_pending i w)"
proof -
  let ?full = "\<lambda>hg maxc. case hg of
      Some h \<Rightarrow> if maxc > 0 then bnd (CountInFlight h) (\<lambda>inFlight. ret (inFlight \<ge> maxc)) else ret False
    | None \<Rightarrow> ret False"
  obtain hg m where lim: "concurrency_limit i w = (hg, m)" by fastforce
  from assms obtain a where a: "result (query (concurrency_limit i)) w = Inr a"
    and r1: "result ((\<lambda>(hg, maxc). bnd (?full hg maxc) (\<lambda>full.
         if full then ret None else query (oldest_pending i))) a)
       (final (query (concurrency_limit i)) w) = Inr r"
    unfolding NextPendingTask_def by (rule bnd_InrE)
  from a obtain fs1 where "a = (hg, m)" "final (query (concurrency_limit i)) w = w\<lparr>faults := fs1\<rparr>"
    using lim by (auto elim: query_InrE)
  with r1 have "result (bnd (?full hg m) (\<lambda>full. if full then ret None else query (oldest_pending i)))
      (w\<lparr>faults := fs1\<rparr>) = Inr r" by simp
  then obtain full where f: "result (?full hg m) (w\<lparr>faults := fs1\<rparr>) = Inr full"
    and r2: "result (if full then ret None else query (oldest_pending i))
      (final (?full hg m) (w\<lparr>faults := fs1\<rparr>)) = Inr r"
    by (rule bnd_InrE)
  have "full = at_capacity i w \<and> (\<exists>fs2. final (?full hg m) (w\<lparr>faults := fs1\<rparr>) = w\<lparr>faults := fs2\<rparr>)"
    using f unfolding at_capacity_def lim CountInFlight_eq
    by (cases hg) (auto split: if_splits elim!: bnd_InrE query_InrE intro: exI [of _ fs1])
  with r2 show ?thesis by (auto elim!: query_InrE)
qed

lemma oldest_pending_SomeD:
  assumes "oldest_pending i w = Some t"
  shows "t \<in> set (rows (agent_tasks w)) \<and> t_agent_id t = i \<and> t_status t = ''pending'' \<and>
    (\<forall>u \<in> set (rows (agent_tasks w)). t_agent_id u = i \<and> t_status u = ''pending'' \<longrightarrow>
       t_created_at t \<le> t_created_at u)"
proof -
  let ?ts = "tbl_select (\<lambda>t. t_agent_id t = i \<and> t_status t = ''pending'') (agent_tasks w)"
  obtain us where us: "sort_key t_created_at ?ts = t # us"
    using assms unfolding oldest_pending_def by (cases "sort_key t_created_at ?ts") simp_all
  have "set (t # us) = set ?ts"
    using set_sort [of t_created_at ?ts] unfolding us .
  then have mem: "u \<in> set ?ts \<longleftrightarrow> u \<in> set (t # us)" for u
    by (simp only:)
  have "sorted (map t_created_at (t # us))"
    using sorted_sort_key [of t_created_at ?ts] unfolding us .
  then have le: "t_created_at t \<le> t_created_at u" if "u \<in> set (t # us)" for u
    using that by auto
  have "t \<in> set ?ts" unfolding mem by simp
  moreover have "t_created_at t \<le> t_created_at u" if "u \<in> set ?ts" for u
    using that mem le by blast
  ultimately show ?thesis by (simp add: tbl_select_def)
qed

text \<open>
  Polling under the concurrency limit, whatever calls to the database fail: a task that is
  handed out is a pending task of the asking agent, no other pending task of that agent is
  older, and when the agent's host group sets a limit fewer tasks than the limit are in
  flight in the group.
\<close>

theorem NextPendingTask_correct:
  assumes "result (NextPendingTask i) w = Inr (Some t)"
  shows "t \<in> set (rows (agent_tasks w)) \<and> t_agent_id t = i \<and> t_status t = ''pending'' \<and>
    (\<forall>u \<in> set (rows (agent_tasks w)). t_agent_id u = i \<and> t_status u = ''pending'' \<longrightarrow>
       t_created_at t \<le> t_created_at u) \<and>
    (\<forall>hg m. concurrency_limit i w = (Some hg, m) \<and> m > 0 \<longrightarrow> group_load hg w < m)"
proof -
  have "\<not> at_capacity i w" and "oldest_pending i w = Some t"
    using NextPendingTask_Inr [OF assms] by (auto split: if_splits)
  then show ?thesis using oldest_pending_SomeD [of i w t] by (auto simp: at_capacity_def)
qed

text \<open>A small world: two agents of one host group with limit 1, one pending task each.\<close>

definition sample_agent :: "int \<Rightarrow> string \<Rightarrow> string \<Rightarrow> agent_row" where
  "sample_agent i aid status = \<lparr>a_id = i, a_agent_id = aid, a_hostname = ''h'', a_ip = None,
     a_region = None, a_datacenter = None, a_host_group_id = Some 7, a_agent_version = None,
     a_cert_serial = None, a_status = status, a_last_seen_at = Some 0, a_created_at = 0,
     a_deleted_at = None\<rparr>"

definition sample_envelope :: task_envelope where
  "sample_envelope = \<lparr>e_task_id = [], e_type = ''deploy_html'', e_release_id = ''r'',
     e_artifact_url = [], e_manifest = zero_manifest, e_domains = [''a.com''],
     e_deploy_path = ''/var/www'', e_nginx_path = ''/etc/nginx/conf.d'', e_allow_reload = True,
     e_defer_reload = False, e_verify = zero_verify, e_target_release_id = []\<rparr>"

definition sample_task :: "int \<Rightarrow> string \<Rightarrow> int \<Rightarrow> agent_task_row" where
  "sample_task i tid a = \<lparr>t_id = i, t_task_id = tid, t_domain_task_id = 1, t_agent_id = a,
     t_artifact_id = 1, t_artifact_url = None, t_payload = sample_envelope, t_status = ''pending'',
     t_claimed_at = None, t_ended_at = None, t_duration_ms = None, t_last_error = None,
     t_created_at = i\<rparr>"

definition limited_world :: world where
  "limited_world = empty_world\<lparr>
     host_groups := \<lparr>rows = [\<lparr>hg_id = 7, hg_project_id = 1, hg_name = ''g'', hg_max_concurrency = 1,
       hg_reload_batch_size = 0, hg_reload_batch_wait_secs = 0, hg_deleted_at = None\<rparr>], seq = 7\<rparr>,
     agents := \<lparr>rows = [sample_agent 1 ''a1'' ''online'', sample_agent 2 ''a2'' ''online''], seq = 2\<rparr>,
     agent_tasks := \<lparr>rows = [sample_task 1 ''t1'' 1, sample_task 2 ''t2'' 2], seq = 2\<rparr>\<rparr>"

lemmas sample_defs = limited_world_def sample_agent_def sample_task_def empty_world_def empty_tbl_def

theorem NextPendingTask_correct_witness:
  "t_status (sample_task 1 ''t1'' 1) = ''pending'' \<and> group_load 7 limited_world < 1"
proof -
  have "result (NextPendingTask 1) limited_world = Inr (Some (sample_task 1 ''t1'' 1))"
    by (simp add: NextPendingTask_def eff_run concurrency_limit_def oldest_pending_def sample_defs
        CountInFlight_def task_in_group_def in_flight_def tbl_find_def tbl_select_def)
  from NextPendingTask_correct [OF this] show ?thesis
    by (simp add: concurrency_limit_def sample_defs tbl_find_def)
qed



definition poll_then_claim :: "unit op" where
  "poll_then_claim =
     seq_eff (PullNextTask ''a1'') (seq_eff (PullNextTask ''a2'')
       (seq_eff (ClaimTask ''t1'') (ClaimTask ''t2'')))"

text \<open>
  The limit bounds what a poll hands out, not what runs: polling and claiming are separate
  requests, so two agents of a group with limit 1 that poll before either claims both
  receive a task, both claims succeed, and two tasks are in flight.
\<close>

theorem concurrency_limit_not_exclusive:
  "result poll_then_claim limited_world = Inr () \<and>
   concurrency_limit 1 limited_world = (Some 7, 1) \<and>
   group_load 7 (final poll_then_claim limited_world) = 2"
  by (simp add: poll_then_claim_def PullNextTask_def AgentStore_GetByAgentID_def ClaimTask_def
      NextPendingTask_def CountInFlight_def eff_run sample_defs concurrency_limit_def
      oldest_pending_def group_load_def task_in_group_def in_flight_def pending_task_def
      tbl_find_def tbl_select_def tbl_update_def)

section \<open>Stale agents and heartbeats\<close>

definition offline_row :: "agent_row \<Rightarrow> agent_row" where
  "offline_row r = r\<lparr>a_status := ''offline''\<rparr>"

lemma stale_can_go_offline: "is_stale c a \<Longrightarrow> has_edge validAgentTransitions (a_status a) ''offline''"
  by (auto simp: is_stale_def graph_defs)

lemma live_agent_find:
  "wf_tbl a_id t \<Longrightarrow> a \<in> set (rows t) \<Longrightarrow> a_deleted_at a = None \<Longrightarrow>
   tbl_find (live_agent (a_id a)) t = Some a"
proof -
  assume wf: "wf_tbl a_id t" and a: "a \<in> set (rows t)" "a_deleted_at a = None"
  then have "find (\<lambda>r. a_id r = a_id a) (rows t) = Some a"
    by (simp add: wf_tbl_def find_key_mem)
  moreover have "find (live_agent (a_id a)) (rows t) = find (\<lambda>r. a_id r = a_id a) (rows t)"
  proof (rule find_cong_set)
    fix r assume r: "r \<in> set (rows t)"
    show "live_agent (a_id a) r = (a_id r = a_id a)"
      using wf a r by (auto simp: live_agent_def wf_tbl_def distinct_map inj_on_def)
  qed
  ultimately show ?thesis by (simp add: tbl_find_def)
qed

lemma TransitionAgent_calm:
  assumes "faults w = []" and "wf_tbl a_id (agents w)" and "a \<in> set (rows (agents w))"
    and "a_deleted_at a = None" and "has_edge validAgentTransitions (a_status a) t"
  shows "result (TransitionAgent (a_id a) (a_status a) t rs b) w = Inr ()"
    and "agents (final (TransitionAgent (a_id a) (a_status a) t rs b) w) =
      tbl_update (\<lambda>r. a_id r = a_id a) (\<lambda>r. r\<lparr>a_status := t\<rparr>) (agents w)"
    and "faults (final (TransitionAgent (a_id a) (a_status a) t rs b) w) = []"
    and "now (final (TransitionAgent (a_id a) (a_status a) t rs b) w) = now w"
proof -
  show r: "result (TransitionAgent (a_id a) (a_status a) t rs b) w = Inr ()"
    using assms by (simp add: agm.trans_calm live_agent_find)
  show "agents (final (TransitionAgent (a_id a) (a_status a) t rs b) w) =
      tbl_update (\<lambda>r. a_id r = a_id a) (\<lambda>r. r\<lparr>a_status := t\<rparr>) (agents w)"
    and "faults (final (TransitionAgent (a_id a) (a_status a) t rs b) w) = []"
    and "now (final (TransitionAgent (a_id a) (a_status a) t rs b) w) = now w"
    using assms(1) r by (simp_all add: agm.trans_calm(2))
qed

definition mark_stale :: "agent_row \<Rightarrow> unit op" where
  "mark_stale a = ignore (TransitionAgent (a_id a) (a_status a) ''offline''
     ''heartbeat missed (>90s)'' ''health_checker'')"

lemma mark_all_stale:
  assumes "faults w = []" and "wf_tbl a_id (agents w)"
    and "\<forall>a \<in> set as. a \<in> set (rows (agents w)) \<and> is_stale c a" and "distinct (map a_id as)"
  shows "result (for_each as mark_stale) w = Inr () \<and>
    agents (final (for_each as mark_stale) w) =
      tbl_update (\<lambda>r. a_id r \<in> a_id ` set as) offline_row (agents w)"
  using assms
proof (induction as arbitrary: w)
  case Nil
  then show ?case by (simp add: tbl_update_def)
next
  case (Cons a as)
  let ?w = "final (mark_stale a) w"
  have a: "a \<in> set (rows (agents w))" "is_stale c a" using Cons.prems by auto
  then have live: "a_deleted_at a = None" by (simp add: is_stale_def)
  note step = TransitionAgent_calm [OF Cons.prems(1,2) a(1) live stale_can_go_offline [OF a(2)]]
  have ags: "agents ?w = tbl_update (\<lambda>r. a_id r = a_id a) offline_row (agents w)"
    and fs: "faults ?w = []"
    using step by (simp_all add: mark_stale_def offline_row_def [abs_def])
  have rest: "\<forall>x \<in> set as. x \<in> set (rows (agents ?w)) \<and> is_stale c x"
  proof
    fix x assume x: "x \<in> set as"
    then have "a_id x \<noteq> a_id a" using Cons.prems(4) by (auto simp: image_iff)
    with x Cons.prems(3) show "x \<in> set (rows (agents ?w)) \<and> is_stale c x"
      unfolding ags tbl_update_def by (auto intro: image_eqI [of _ _ x])
  qed
  have "wf_tbl a_id (agents ?w)"
    unfolding ags using Cons.prems(2) by (rule wf_update) (simp add: offline_row_def)
  with Cons.IH [OF fs _ rest] Cons.prems(4)
  have IH: "result (for_each as mark_stale) ?w = Inr ()"
    "agents (final (for_each as mark_stale) ?w) =
      tbl_update (\<lambda>r. a_id r \<in> a_id ` set as) offline_row (agents ?w)" by simp_all
  have "tbl_update (\<lambda>r. a_id r \<in> a_id ` set as) offline_row
      (tbl_update (\<lambda>r. a_id r = a_id a) offline_row (agents w)) =
      tbl_update (\<lambda>r. a_id r \<in> a_id ` set (a # as)) offline_row (agents w)"
    by (simp add: tbl_update_def offline_row_def)
  with IH ags show ?case by (simp add: eff_run) (simp add: mark_stale_def)
qed

lemma stale_rows_of:
  assumes wf: "wf_tbl a_id (agents w)" and c: "c = now w - 90"
  shows "tbl_update (\<lambda>r. a_id r \<in> a_id ` set (tbl_select (is_stale c) (agents w))) offline_row (agents w) =
    tbl_update (is_stale c) offline_row (agents w)"
proof -
  have "a_id r \<in> a_id ` set (filter (is_stale c) (rows (agents w))) \<longleftrightarrow> is_stale c r"
    if "r \<in> set (rows (agents w))" for r
    using that wf by (auto simp: wf_tbl_def distinct_map inj_on_def)
  then show ?thesis by (simp add: tbl_update_def tbl_select_def)
qed

text \<open>
  The health check, when the database answers, takes exactly the stale agents offline: an
  agent row that is online, busy or idle, not deleted, and silent for more than 90 seconds
  becomes offline, and every other agent row is unchanged.
\<close>

theorem CheckStaleAgents_effect:
  assumes "faults w = []" and "wf_tbl a_id (agents w)"
  shows "result CheckStaleAgents w = Inr () \<and>
    rows (agents (final CheckStaleAgents w)) =
      map (\<lambda>r. if is_stale (now w - 90) r then offline_row r else r) (rows (agents w))"
proof -
  let ?c = "now w - 90"
  let ?as = "tbl_select (is_stale ?c) (agents w)"
  have "result (for_each ?as mark_stale) w = Inr () \<and>
    agents (final (for_each ?as mark_stale) w) = tbl_update (is_stale ?c) offline_row (agents w)"
    using mark_all_stale [of w ?as ?c] assms stale_rows_of [OF assms(2) refl]
    by (simp add: wf_tbl_def) (simp add: tbl_select_def distinct_map_filter)
  moreover have "tbl_update (is_stale ?c) offline_row (agents w) = agents w" if "?as = []"
  proof -
    from that have "\<forall>r \<in> set (rows (agents w)). \<not> is_stale ?c r"
      by (simp add: tbl_select_def filter_empty_conv)
    then have "map (\<lambda>r. if is_stale ?c r then offline_row r else r) (rows (agents w)) = rows (agents w)"
      by (simp add: map_idI)
    then show ?thesis by (simp add: tbl_update_def)
  qed
  ultimately have "result CheckStaleAgents w = Inr () \<and>
      agents (final CheckStaleAgents w) = tbl_update (is_stale ?c) offline_row (agents w)"
    using assms(1) unfolding CheckStaleAgents_def ListStaleOnlineAgents_def mark_stale_def [abs_def, symmetric]
    by (cases "?as = []") (simp_all add: eff_run)
  then show ?thesis by (simp add: tbl_update_def)
qed

theorem CheckStaleAgents_effect_witness:
  "map a_status (rows (agents (final CheckStaleAgents (limited_world\<lparr>now := 1000, agents :=
     \<lparr>rows = [sample_agent 1 ''a1'' ''busy'', sample_agent 2 ''a2'' ''draining''], seq = 2\<rparr>\<rparr>)))) =
   [''offline'', ''draining'']"
proof -
  let ?w = "limited_world\<lparr>now := 1000, agents :=
     \<lparr>rows = [sample_agent 1 ''a1'' ''busy'', sample_agent 2 ''a2'' ''draining''], seq = 2\<rparr>\<rparr>"
  have "faults ?w = []" "wf_tbl a_id (agents ?w)" by (simp_all add: sample_defs wf_tbl_def)
  from CheckStaleAgents_effect [OF this] show ?thesis
    by (simp add: sample_defs is_stale_def offline_row_def)
qed

text \<open>
  A heartbeat, step by step on the row of its agent: \<open>sees r\<close> says that no call fails and the
  row under the key of \<open>r\<close> is \<open>r\<close>. The error side of the triples is \<open>False\<close>: the steps succeed.
\<close>

definition sees :: "agent_row \<Rightarrow> world \<Rightarrow> bool" where
  "sees r w \<longleftrightarrow> faults w = [] \<and> wf_tbl a_id (agents w) \<and> tbl_get a_id (agents w) (a_id r) = Some r"

lemma sees_update:
  assumes "sees r w" and "\<And>x. a_id (f x) = a_id x"
  shows "sees (f r) (w\<lparr>agents := tbl_update (\<lambda>x. a_id x = a_id r) f (agents w)\<rparr>)"
  using assms by (simp add: sees_def wf_update tbl_get_update_key)

lemma sees_UpdateLastSeen:
  "hoare (sees r) (UpdateLastSeen (a_id r) t) (\<lambda>_. sees (r\<lparr>a_last_seen_at := Some t\<rparr>)) (\<lambda>_. False)"
proof (rule hoareI)
  fix w assume w: "sees r w"
  then have "faults w = []" by (simp add: sees_def)
  with sees_update [OF w, of "\<lambda>x. x\<lparr>a_last_seen_at := Some t\<rparr>"]
  show "case result (UpdateLastSeen (a_id r) t) w of Inl e \<Rightarrow> False
      | Inr _ \<Rightarrow> sees (r\<lparr>a_last_seen_at := Some t\<rparr>) (final (UpdateLastSeen (a_id r) t) w)"
    by (simp add: UpdateLastSeen_def)
qed

lemma sees_version:
  assumes [simp]: "i = a_id r"
  shows "hoare (sees r) (if c then ignore (UpdateAgentVersion i v) else ret ())
     (\<lambda>_ w. \<exists>v. sees (r\<lparr>a_agent_version := v\<rparr>) w) (\<lambda>_. False)"
proof (rule hoareI)
  fix w assume w: "sees r w"
  then have "faults w = []" by (simp add: sees_def)
  moreover have "\<exists>v. sees (r\<lparr>a_agent_version := v\<rparr>) w"
    by (rule exI [of _ "a_agent_version r"]) (simp add: w)
  ultimately show "case result (if c then ignore (UpdateAgentVersion i v) else ret ()) w of Inl e \<Rightarrow> False
      | Inr _ \<Rightarrow> \<exists>v'. sees (r\<lparr>a_agent_version := v'\<rparr>)
          (final (if c then ignore (UpdateAgentVersion i v) else ret ()) w)"
    using sees_update [OF w, of "\<lambda>x. x\<lparr>a_agent_version := Some v\<rparr>"]
    by (cases c) (auto simp: UpdateAgentVersion_def)
qed

lemma sees_insert: "hoare (\<lambda>w. \<exists>v. sees (r\<lparr>a_agent_version := v\<rparr>) w) (ignore (InsertHeartbeat hb))
    (\<lambda>_ w. \<exists>v. sees (r\<lparr>a_agent_version := v\<rparr>) w) (\<lambda>_. False)"
  by (auto simp: hoare_def InsertHeartbeat_def sees_def)

lemma sees_revive:
  assumes "a_deleted_at r = None" and [simp]: "i = a_id r" "st = a_status r"
  shows "hoare (\<lambda>w. \<exists>v. sees (r\<lparr>a_agent_version := v\<rparr>) w)
     (if st = ''offline'' then ignore (TransitionAgent i ''offline'' ''online'' rs b) else ret ())
     (\<lambda>_ w. \<exists>v. sees (r\<lparr>a_agent_version := v,
        a_status := (if st = ''offline'' then ''online'' else st)\<rparr>) w) (\<lambda>_. False)"
proof (cases "a_status r = ''offline''")
  case False
  then show ?thesis by (auto simp: hoare_def sees_def)
next
  case True
  have "sees (r\<lparr>a_agent_version := v, a_status := ''online''\<rparr>)
      (final (TransitionAgent (a_id r) ''offline'' ''online'' rs b) w)"
    if w: "sees (r\<lparr>a_agent_version := v\<rparr>) w" for v w
  proof -
    let ?r = "r\<lparr>a_agent_version := v\<rparr>"
    have r: "faults w = []" "wf_tbl a_id (agents w)" "?r \<in> set (rows (agents w))"
      using w tbl_get_SomeD by (fastforce simp: sees_def)+
    have e: "has_edge validAgentTransitions (a_status ?r) ''online''"
      using True by (simp add: graph_defs)
    note step = TransitionAgent_calm [OF r _ e, of rs b]
    from sees_update [OF w, of "\<lambda>x. x\<lparr>a_status := ''online''\<rparr>"] step assms True show ?thesis
      by (simp add: sees_def)
  qed
  with True show ?thesis by (auto simp: hoare_def)
qed

lemma NextPendingTask_final_calm: "faults w = [] \<Longrightarrow> final (NextPendingTask i) w = w"
  by (simp add: NextPendingTask_def CountInFlight_def eff_run split: prod.splits option.splits)

lemma Heartbeat_tail:
  assumes "a_deleted_at a = None"
  shows "hoare (sees a) (seq_eff (UpdateLastSeen (a_id a) t)
        (seq_eff (if c then ignore (UpdateAgentVersion (a_id a) ver) else ret ())
        (seq_eff (ignore (InsertHeartbeat hb))
        (seq_eff (if a_status a = ''offline''
                  then ignore (TransitionAgent (a_id a) ''offline'' ''online'' rs b) else ret ())
        (bnd (attempt (NextPendingTask (a_id a))) (\<lambda>pending.
           ret \<lparr>hr_ack = True, hr_status = a_status a, hr_has_new_task = new pending\<rparr>))))))
     (\<lambda>resp w. hr_ack resp \<and> hr_status resp = a_status a \<and>
        (\<exists>v. sees (a\<lparr>a_last_seen_at := Some t, a_agent_version := v,
           a_status := (if a_status a = ''offline'' then ''online'' else a_status a)\<rparr>) w)) (\<lambda>_. False)"
proof -
  let ?r = "a\<lparr>a_last_seen_at := Some t\<rparr>"
  let ?Q = "\<lambda>w. \<exists>v. sees (?r\<lparr>a_agent_version := v,
      a_status := (if a_status a = ''offline'' then ''online'' else a_status a)\<rparr>) w"
  have last: "hoare ?Q (bnd (attempt (NextPendingTask (a_id a))) (\<lambda>pending.
      ret \<lparr>hr_ack = True, hr_status = a_status a, hr_has_new_task = new pending\<rparr>))
      (\<lambda>resp w. hr_ack resp \<and> hr_status resp = a_status a \<and> ?Q w) (\<lambda>_. False)"
    by (auto simp: hoare_def eff_run sees_def NextPendingTask_final_calm)
  show ?thesis
    using assms last
    by (intro hoare_seq [OF sees_UpdateLastSeen] hoare_seq [OF sees_version [where r = ?r]]
        hoare_seq [OF sees_insert [where r = ?r]] hoare_seq [OF sees_revive [where r = ?r]]) simp_all
qed

text \<open>
  A heartbeat of a known agent, when the database answers, is acknowledged with the status
  the agent had, stamps the agent as seen now, and brings it back online exactly when it was
  offline; no other column but the reported version changes.
\<close>

theorem Heartbeat_effect:
  assumes calm: "faults w = []" and wf: "ag_wf w"
    and a: "a \<in> set (rows (agents w))" "a_agent_id a = hq_agent_id req" "a_deleted_at a = None"
  shows "\<exists>resp v. result (Heartbeat req) w = Inr resp \<and> hr_ack resp \<and> hr_status resp = a_status a \<and>
    tbl_get a_id (agents (final (Heartbeat req) w)) (a_id a) =
      Some (a\<lparr>a_last_seen_at := Some (now w), a_agent_version := v,
        a_status := (if a_status a = ''offline'' then ''online'' else a_status a)\<rparr>)"
proof -
  have "find (\<lambda>r. a_agent_id r = hq_agent_id req \<and> a_deleted_at r = None) (rows (agents w)) =
      find (\<lambda>r. a_agent_id r = a_agent_id a) (rows (agents w))"
    using wf a by (intro find_cong_set) (auto simp: ag_wf_def distinct_map inj_on_def)
  also have "\<dots> = Some a" using wf a by (intro find_key_mem) (simp_all add: ag_wf_def)
  finally have get: "result (AgentStore_GetByAgentID (hq_agent_id req)) w = Inr (Some a)"
    "final (AgentStore_GetByAgentID (hq_agent_id req)) w = w"
    using calm by (simp_all add: AgentStore_GetByAgentID_def tbl_find_def)
  let ?P = "\<lambda>resp w'. hr_ack resp \<and> hr_status resp = a_status a \<and>
      (\<exists>v. sees (a\<lparr>a_last_seen_at := Some (now w), a_agent_version := v,
         a_status := (if a_status a = ''offline'' then ''online'' else a_status a)\<rparr>) w')"
  have "sees a w" using calm wf a(1) by (simp add: sees_def ag_wf_def tbl_get_mem)
  then have "case result (Heartbeat req) w of Inl e \<Rightarrow> False | Inr resp \<Rightarrow> ?P resp (final (Heartbeat req) w)"
    unfolding Heartbeat_def result_bnd [of "AgentStore_GetByAgentID _"] final_bnd [of "AgentStore_GetByAgentID _"]
      get sum.case option.case result_bnd [of "gets _"] final_bnd [of "gets _"] result_simps final_simps
    by (rule hoareD [OF Heartbeat_tail [OF a(3)]])
  then obtain resp v where "result (Heartbeat req) w = Inr resp" "hr_ack resp" "hr_status resp = a_status a"
    "sees (a\<lparr>a_last_seen_at := Some (now w), a_agent_version := v,
       a_status := (if a_status a = ''offline'' then ''online'' else a_status a)\<rparr>) (final (Heartbeat req) w)"
    by (cases "result (Heartbeat req) w") auto
  then show ?thesis by (auto simp: sees_def)
qed

definition sample_beat :: heartbeat_request where
  "sample_beat = \<lparr>hq_agent_id = ''a1'', hq_status = ''online'', hq_current_task_id = [],
     hq_agent_version = ''2.0'', hq_load_avg_1 = 0, hq_disk_free_pct = 50, hq_last_error = []\<rparr>"

definition offline_world :: world where
  "offline_world = limited_world\<lparr>now := 500,
     agents := \<lparr>rows = [sample_agent 1 ''a1'' ''offline'', sample_agent 2 ''a2'' ''registered''], seq = 2\<rparr>\<rparr>"

theorem Heartbeat_effect_witness:
  "ag_status (final (Heartbeat sample_beat) offline_world) 1 = Some ''online''"
proof -
  have "faults offline_world = []" "ag_wf offline_world"
    "sample_agent 1 ''a1'' ''offline'' \<in> set (rows (agents offline_world))"
    "a_agent_id (sample_agent 1 ''a1'' ''offline'') = hq_agent_id sample_beat"
    "a_deleted_at (sample_agent 1 ''a1'' ''offline'') = None"
    by (simp_all add: offline_world_def sample_defs sample_beat_def ag_wf_def wf_tbl_def)
  from Heartbeat_effect [OF this] show ?thesis
    by (auto simp: ag_status_def sample_agent_def)
qed

text \<open>Agent \<open>i\<close> remains registered.\<close>

definition stays_registered :: "int \<Rightarrow> world \<Rightarrow> world \<Rightarrow> bool" where
  "stays_registered i w w' \<longleftrightarrow> (ag_wf w \<and> ag_status w i = Some ''registered'' \<longrightarrow>
     ag_wf w' \<and> ag_status w' i = Some ''registered'')"

interpretation reg: store_preorder "stays_registered i" for i
  by unfold_locales (auto simp: stays_registered_def ag_wf_def ag_status_def)

lemma reg_resume: "keeps (stays_registered i) (TransitionAgent j ''offline'' ''online'' rs b)"
proof (rule keepsI)
  fix w
  have "ag_wf (final (TransitionAgent j ''offline'' ''online'' rs b) w)" if "ag_wf w"
    using that ag_wf_update [of w "\<lambda>r. r\<lparr>a_status := ''online''\<rparr>" "\<lambda>r. a_id r = j"]
    by (simp add: ag_wf_def agm.trans_tab)
  moreover have "ag_status (final (TransitionAgent j ''offline'' ''online'' rs b) w) = ag_status w \<or>
      ag_status w j = Some ''offline'' \<and>
      ag_status (final (TransitionAgent j ''offline'' ''online'' rs b) w) = (ag_status w)(j \<mapsto> ''online'')"
    if "ag_wf w"
    using agm.trans_moves_one [of w j "''offline''" "''online''" rs b] that
    unfolding ag_wf_def ag_status_def by blast
  ultimately show "stays_registered i w (final (TransitionAgent j ''offline'' ''online'' rs b) w)"
    by (auto simp: stays_registered_def)
qed

lemma reg_update:
  assumes "\<And>r. a_id (f r) = a_id r" "\<And>r. a_agent_id (f r) = a_agent_id r" "\<And>r. a_status (f r) = a_status r"
  shows "stays_registered i w (w\<lparr>agents := tbl_update p f (agents w)\<rparr>)"
proof -
  have "ag_status (w\<lparr>agents := tbl_update p f (agents w)\<rparr>) = ag_status w"
    using assms by (auto simp: ag_status_def tbl_get_update option.map_comp comp_def fun_eq_iff
        if_distrib cong: if_cong)
  then show ?thesis using ag_wf_update [OF _ assms(1,2)] by (simp add: stays_registered_def)
qed

lemma reg_writes:
  "keeps (stays_registered i) (UpdateLastSeen j ts)" "keeps (stays_registered i) (UpdateAgentVersion j v)"
  "keeps (stays_registered i) (InsertHeartbeat hb)"
  unfolding UpdateLastSeen_def UpdateAgentVersion_def InsertHeartbeat_def
  by (intro reg.keeps_exec reg_update; simp)+
    (rule reg.keeps_exec, simp add: stays_registered_def ag_wf_def ag_status_def)

text \<open>
  An agent left in the registered state by a failed promotion stays there: no heartbeat,
  of whatever agent and under every fault schedule, promotes it, although registration
  relies on the next heartbeat for that.
\<close>

theorem registered_agent_not_promoted:
  assumes "ag_wf w" and "ag_status w i = Some ''registered''"
  shows "ag_status (final (Heartbeat req) w) i = Some ''registered''"
proof -
  have "keeps (stays_registered i) (Heartbeat req)"
    unfolding Heartbeat_def AgentStore_GetByAgentID_def NextPendingTask_def CountInFlight_def
    by (intro eff_intro reg_writes reg_resume)
  then show ?thesis using assms by (auto simp: stays_registered_def dest: keepsD [where w = w])
qed

theorem registered_agent_not_promoted_witness:
  "ag_status (final (Heartbeat (sample_beat\<lparr>hq_agent_id := ''a2''\<rparr>)) offline_world) 2 = Some ''registered''"
  by (rule registered_agent_not_promoted)
    (simp_all add: ag_wf_def wf_tbl_def ag_status_def offline_world_def sample_defs tbl_get_def tbl_find_def)

section \<open>Preorders that do not look at agents\<close>

locale agent_blind = store_preorder R for R :: "world \<Rightarrow> world \<Rightarrow> bool" +
  assumes R_agents: "R w (w\<lparr>agents := x1\<rparr>)" and R_agent_history: "R w (w\<lparr>agent_history := x2\<rparr>)"
    and R_heartbeats: "R w (w\<lparr>heartbeats := x3\<rparr>)" and R_tasks: "R w (w\<lparr>agent_tasks := x4\<rparr>)"
    and R_deployment_logs: "R w (w\<lparr>deployment_logs := x5\<rparr>)"
    and R_host_groups: "R w (w\<lparr>host_groups := x6\<rparr>)"
begin

lemma k_agent_writes [eff_intro]:
  "keeps R (updateAgentStatusTx i s)" "keeps R (insertAgentStateHistoryTx i f t rs b)"
  "keeps R (UpdateLastSeen i ts)" "keeps R (UpdateAgentVersion i v)" "keeps R (InsertHeartbeat hb)"
  "keeps R (InsertDeploymentLog i p s d t)"
  unfolding updateAgentStatusTx_def insertAgentStateHistoryTx_def UpdateLastSeen_def
    UpdateAgentVersion_def InsertHeartbeat_def InsertDeploymentLog_def
  by (intro keeps_exec R_agents R_agent_history R_heartbeats R_deployment_logs)+

lemma k_agent_stmts [eff_intro]:
  "keeps R (ClaimTask tid)" "keeps R (CompleteTask tid s d e)" "keeps R (UpdateConcurrency i m bs ws)"
  unfolding ClaimTask_def CompleteTask_def UpdateConcurrency_def Let_def
  by (intro keeps_exec_unless R_tasks R_host_groups)+

lemma k_agent_create [eff_intro]: "keeps R (AgentStore_Create a)"
  unfolding AgentStore_Create_def
  by (intro keeps_stmt keepsI) (simp add: final_def R_agents R_refl)

lemma k_agent_reads [eff_intro]:
  "keeps R (AgentStore_GetByAgentID aid)" "keeps R (NextPendingTask i)"
  "keeps R (GetTaskByTaskID tid)" "keeps R (ListStaleOnlineAgents th)"
  unfolding AgentStore_GetByAgentID_def NextPendingTask_def GetTaskByTaskID_def
    ListStaleOnlineAgents_def CountInFlight_def
  by (intro eff_intro)+

lemma k_transition_agent [eff_intro]: "keeps R (TransitionAgent i f t rs b)"
  unfolding TransitionAgent_def AgentStore_TransitionTx_def by (intro eff_intro)

lemma k_agent_service [eff_intro]:
  "keeps R (Agent_Register u rq)" "keeps R (Heartbeat hq)" "keeps R (PullNextTask aid)"
  "keeps R (ReportTask tr)" "keeps R CheckStaleAgents"
  unfolding Agent_Register_def Heartbeat_def PullNextTask_def ReportTask_def CheckStaleAgents_def Let_def
  by (intro eff_intro)+

end

lemma ag_UpdateConcurrency [eff_intro]: "keeps ag_step (UpdateConcurrency i m bs ws)"
  unfolding UpdateConcurrency_def Let_def by (intro ag.keeps_exec_unless ag_other; simp)

interpretation lc_agents: domain_blind ag_step
  by unfold_locales (rule ag_other; simp)+

end
