(* ===== verification/Planner.thy ===== *)
theory Planner
  imports Store
begin

text \<open>
  internal/release/planner.go and internal/release/dispatcher.go: how the domains of a
  release are split into shards and how nginx reloads are batched per agent. Where the code
  ranges over a map of groups its result does not depend on the order.
\<close>

section \<open>Shards\<close>

record domain_plan_input =
  dp_id :: int
  dp_host_group_id :: "int option"

record planned_shard =
  ps_index :: int
  ps_domain_ids :: "int list"
  ps_host_group_id :: "int option"

definition in_group :: "domain_plan_input \<Rightarrow> int option" where
  "in_group d = (case dp_host_group_id d of None \<Rightarrow> None | Some h \<Rightarrow> if h > 0 then Some h else None)"

definition group_pairs :: "domain_plan_input list \<Rightarrow> (int \<times> int) list" where
  "group_pairs ds = List.map_filter (\<lambda>d. map_option (\<lambda>h. (h, dp_id d)) (in_group d)) ds"

definition planByHostGroup :: "domain_plan_input list \<Rightarrow> planned_shard list" where
  "planByHostGroup ds =
     (let groups = group_all (group_pairs ds);
          noGroup = map dp_id (filter (\<lambda>d. in_group d = None) ds);
          hgIDs = sort (map fst groups);
          grouped = map (\<lambda>(i, h). \<lparr>ps_index = int i,
              ps_domain_ids = (case map_of groups h of None \<Rightarrow> [] | Some ids \<Rightarrow> ids),
              ps_host_group_id = Some h\<rparr>) (enumerate 0 hgIDs);
          shards = (if length noGroup > 0
                    then grouped @ [\<lparr>ps_index = int (length grouped), ps_domain_ids = noGroup,
                                     ps_host_group_id = None\<rparr>]
                    else grouped)
      in if length shards = 0
         then [\<lparr>ps_index = 0, ps_domain_ids = [], ps_host_group_id = None\<rparr>]
         else shards)"

definition PlanShards :: "string \<Rightarrow> domain_plan_input list \<Rightarrow> planned_shard list" where
  "PlanShards strategy ds = planByHostGroup ds"

text \<open>
  The reference: the host groups that occur, in ascending order, and after them \<open>None\<close> if
  some domain has no group; shard \<open>i\<close> takes exactly the domains of the \<open>i\<close>-th of these keys,
  in input order.
\<close>

definition shard_keys :: "domain_plan_input list \<Rightarrow> int option list" where
  "shard_keys ds = map Some (sort (remdups (map fst (group_pairs ds)))) @
     (if list_ex (\<lambda>d. in_group d = None) ds then [None] else [])"

definition shard_for :: "domain_plan_input list \<Rightarrow> nat \<times> int option \<Rightarrow> planned_shard" where
  "shard_for ds ik = \<lparr>ps_index = int (fst ik),
     ps_domain_ids = map dp_id (filter (\<lambda>d. in_group d = snd ik) ds), ps_host_group_id = snd ik\<rparr>"

lemma values_of_group_pairs:
  "values_of h (group_pairs ds) = map dp_id (filter (\<lambda>d. in_group d = Some h) ds)"
  by (induction ds) (auto simp: values_of_def group_pairs_def map_filter_simps split: option.splits)

lemma keys_of_group_pairs: "h \<in> fst ` set (group_pairs ds) \<longleftrightarrow> (\<exists>d \<in> set ds. in_group d = Some h)"
  by (induction ds) (auto simp: group_pairs_def map_filter_simps split: option.splits)

lemma sort_keys_group_all:
  "sort (map fst (group_all kvs)) = sort (remdups (map fst kvs))" for kvs :: "(int \<times> 'v) list"
proof -
  have d: "distinct (map fst (group_all kvs))" and k: "fst ` set (group_all kvs) = fst ` set kvs"
    using keys_group_all [of kvs] by simp_all
  have "mset (map fst (group_all kvs)) = mset (remdups (map fst kvs))"
    using d k set_eq_iff_mset_eq_distinct [of "map fst (group_all kvs)" "remdups (map fst kvs)"]
    by simp
  then show ?thesis by (intro sort_key_eq_sort_key) simp_all
qed

lemma enumerate_Nil_iff [simp]: "enumerate n xs = [] \<longleftrightarrow> xs = []"
  by (cases xs) simp_all

lemma planByHostGroup_eq:
  assumes "ds \<noteq> []"
  shows "planByHostGroup ds = map (shard_for ds) (enumerate 0 (shard_keys ds))"
proof -
  let ?ks = "sort (remdups (map fst (group_pairs ds)))"
  have grouped: "map (\<lambda>(i, h). \<lparr>ps_index = int i, ps_domain_ids =
        (case map_of (group_all (group_pairs ds)) h of None \<Rightarrow> [] | Some ids \<Rightarrow> ids),
        ps_host_group_id = Some h\<rparr>) (enumerate 0 ?ks) =
      map (shard_for ds) (enumerate 0 (map Some ?ks))"
  proof (rule nth_equalityI)
    fix i assume i: "i < length (map (\<lambda>(i, h). \<lparr>ps_index = int i, ps_domain_ids =
        (case map_of (group_all (group_pairs ds)) h of None \<Rightarrow> [] | Some ids \<Rightarrow> ids),
        ps_host_group_id = Some h\<rparr>) (enumerate 0 ?ks))"
    then have "?ks ! i \<in> set ?ks" by (metis length_enumerate length_map nth_mem)
    then have "?ks ! i \<in> fst ` set (group_pairs ds)" by simp
    with i show "map (\<lambda>(i, h). \<lparr>ps_index = int i, ps_domain_ids =
        (case map_of (group_all (group_pairs ds)) h of None \<Rightarrow> [] | Some ids \<Rightarrow> ids),
        ps_host_group_id = Some h\<rparr>) (enumerate 0 ?ks) ! i =
        map (shard_for ds) (enumerate 0 (map Some ?ks)) ! i"
      by (simp add: nth_enumerate_eq map_of_group_all values_of_group_pairs shard_for_def)
  qed simp
  have none: "filter (\<lambda>d. in_group d = None) ds \<noteq> [] \<longleftrightarrow> list_ex (\<lambda>d. in_group d = None) ds"
    by (auto simp: list_ex_iff filter_empty_conv)
  have ne: "?ks \<noteq> [] \<or> list_ex (\<lambda>d. in_group d = None) ds"
  proof -
    obtain d where d: "d \<in> set ds" using assms by (cases ds) auto
    show ?thesis
    proof (cases "in_group d")
      case None
      with d show ?thesis by (auto simp: list_ex_iff)
    next
      case (Some h)
      with d keys_of_group_pairs [of h ds] have "h \<in> set ?ks" by auto
      then show ?thesis by (metis empty_iff empty_set)
    qed
  qed
  show ?thesis
    using ne none
    by (auto simp: planByHostGroup_def Let_def sort_keys_group_all grouped shard_keys_def
        enumerate_append_eq shard_for_def)
qed

text \<open>The shards are a partition of the input.\<close>

lemma mset_split_by_key:
  "distinct ks \<Longrightarrow> mset (concat (map (\<lambda>k. filter (\<lambda>d. f d = k) ds) ks)) =
    mset (filter (\<lambda>d. f d \<in> set ks) ds)"
proof (induction ks)
  case (Cons k ks)
  then have "k \<notin> set ks" by simp
  then have "mset (filter (\<lambda>d. f d = k) ds) + mset (filter (\<lambda>d. f d \<in> set ks) ds) =
      mset (filter (\<lambda>d. f d \<in> set (k # ks)) ds)"
    by (induction ds) auto
  with Cons show ?case by simp
qed simp

lemma shard_keys_distinct: "distinct (shard_keys ds)"
  by (auto simp: shard_keys_def distinct_map)

lemma shard_keys_cover: "d \<in> set ds \<Longrightarrow> in_group d \<in> set (shard_keys ds)"
  using keys_of_group_pairs [of _ ds]
  by (cases "in_group d") (auto simp: shard_keys_def list_ex_iff image_iff)

lemma shard_for_simps [simp]: "ps_index (shard_for ds ik) = int (fst ik)"
  "ps_domain_ids (shard_for ds ik) = map dp_id (filter (\<lambda>d. in_group d = snd ik) ds)"
  "ps_host_group_id (shard_for ds ik) = snd ik"
  by (simp_all add: shard_for_def)

lemma shards_partition:
  "mset (concat (map ps_domain_ids (map (shard_for ds) (enumerate n (shard_keys ds))))) =
    mset (map dp_id ds)"
proof -
  have "map ps_domain_ids (map (shard_for ds) (enumerate n ks)) =
      map (map dp_id) (map (\<lambda>k. filter (\<lambda>d. in_group d = k) ds) ks)" for ks
    by (induction ks arbitrary: n) simp_all
  then have "concat (map ps_domain_ids (map (shard_for ds) (enumerate n (shard_keys ds)))) =
      map dp_id (concat (map (\<lambda>k. filter (\<lambda>d. in_group d = k) ds) (shard_keys ds)))"
    by (simp only: map_concat)
  moreover have "filter (\<lambda>d. in_group d \<in> set (shard_keys ds)) ds = ds"
    by (simp add: shard_keys_cover)
  ultimately show ?thesis
    using mset_split_by_key [OF shard_keys_distinct, of in_group ds] by (simp del: map_map mset_concat mset_filter)
qed

lemma shard_indices: "map ps_index (map (shard_for ds) (enumerate n ks)) = map int [n..<n + length ks]"
  by (rule nth_equalityI) (simp_all add: nth_enumerate_eq)

lemma shard_groups: "map ps_host_group_id (map (shard_for ds) (enumerate n ks)) = ks"
  by (induction ks arbitrary: n) simp_all

lemma plan_empty: "planByHostGroup [] = [\<lparr>ps_index = 0, ps_domain_ids = [], ps_host_group_id = None\<rparr>]"
  by (simp add: planByHostGroup_def group_pairs_def group_all_def map_filter_simps)

text \<open>
  C8: The shard planner computes its reference: for a non-empty scope, shard i holds exactly
  the domains of the i-th host group (ascending, domains without a positive group last), in
  input order, whatever the strategy.
\<close>

theorem PlanShards_reference:
  assumes "ds \<noteq> []"
  shows "PlanShards strategy ds = map (shard_for ds) (enumerate 0 (shard_keys ds))"
  using assms by (simp add: PlanShards_def planByHostGroup_eq)

theorem PlanShards_reference_witness:
  "PlanShards ''by_region'' [\<lparr>dp_id = 1, dp_host_group_id = None\<rparr>,
      \<lparr>dp_id = 2, dp_host_group_id = Some 7\<rparr>, \<lparr>dp_id = 3, dp_host_group_id = Some 4\<rparr>,
      \<lparr>dp_id = 4, dp_host_group_id = Some 7\<rparr>] =
   [\<lparr>ps_index = 0, ps_domain_ids = [3], ps_host_group_id = Some 4\<rparr>,
    \<lparr>ps_index = 1, ps_domain_ids = [2, 4], ps_host_group_id = Some 7\<rparr>,
    \<lparr>ps_index = 2, ps_domain_ids = [1], ps_host_group_id = None\<rparr>]"
  by (subst PlanShards_reference) (simp_all add: shard_keys_def group_pairs_def map_filter_simps
      in_group_def shard_for_def)

text \<open>
  Planning loses and duplicates nothing: the shards partition the planned domains, they
  are numbered 0, 1, 2, ... without gaps, and no two shards serve the same host group.
\<close>

theorem PlanShards_partition:
  "mset (concat (map ps_domain_ids (PlanShards strategy ds))) = mset (map dp_id ds) \<and>
   map ps_index (PlanShards strategy ds) = map int [0..<length (PlanShards strategy ds)] \<and>
   distinct (map ps_host_group_id (PlanShards strategy ds))"
proof (cases "ds = []")
  case True
  then show ?thesis by (simp add: PlanShards_def plan_empty)
next
  case False
  then have "PlanShards strategy ds = map (shard_for ds) (enumerate 0 (shard_keys ds))"
    by (simp add: PlanShards_def planByHostGroup_eq)
  then show ?thesis
    using shards_partition [of ds 0] shard_indices [of ds 0 "shard_keys ds"]
      shard_groups [of ds 0 "shard_keys ds"] shard_keys_distinct [of ds]
    by (simp del: map_map mset_concat mset_map)
qed

section \<open>Reload batching\<close>

record dispatch_item =
  di_domain_task_id :: int
  di_agent_db_id :: int
  di_agent_id :: string
  di_host_group_id :: "int option"
  di_artifact_id :: int
  di_artifact_url :: string
  di_envelope :: task_envelope

definition set_defer :: "bool \<Rightarrow> dispatch_item \<Rightarrow> dispatch_item" where
  "set_defer b it = it\<lparr>di_envelope := (di_envelope it)\<lparr>e_defer_reload := b\<rparr>\<rparr>"

text \<open>\<open>hostGroups\<close> maps a host group id to its row.\<close>

definition batch_size_of ::
    "(int \<times> host_group_row) list \<Rightarrow> int option \<Rightarrow> int" where
  "batch_size_of hostGroups hgID = (case hgID of None \<Rightarrow> 0
     | Some h \<Rightarrow> (case map_of hostGroups h of None \<Rightarrow> 0
         | Some hg \<Rightarrow> if hg_reload_batch_size hg > 0 then hg_reload_batch_size hg else 0))"

text \<open>The inner loop: position \<open>pos\<close> of the indices of one agent decides item \<open>idx\<close>.\<close>

definition do_reload :: "int \<Rightarrow> nat \<Rightarrow> nat \<Rightarrow> bool" where
  "do_reload batchSize n pos \<longleftrightarrow>
     pos = n - 1 \<or> (batchSize > 0 \<and> (int pos + 1) mod batchSize = 0)"

definition batch_agent ::
    "(int \<times> host_group_row) list \<Rightarrow> nat list \<Rightarrow> dispatch_item list \<Rightarrow> dispatch_item list" where
  "batch_agent hostGroups indices items =
     (if length indices \<le> 1 then items
      else let batchSize = batch_size_of hostGroups (di_host_group_id (items ! (indices ! 0)))
        in fold (\<lambda>(pos, idx) its.
             its[idx := set_defer (\<not> do_reload batchSize (length indices) pos) (its ! idx)])
           (enumerate 0 indices) items)"

definition applyReloadBatching ::
    "dispatch_item list \<Rightarrow> (int \<times> host_group_row) list \<Rightarrow> dispatch_item list" where
  "applyReloadBatching items hostGroups =
     fold (\<lambda>(agentID, indices) its. batch_agent hostGroups indices its)
       (group_all (map (\<lambda>(i, it). (di_agent_db_id it, i)) (enumerate 0 items))) items"

text \<open>
  The reference for batching: the number of tasks of the agent in the batch, the rank of a
  task among them, and the host group of the agent's first task.
\<close>

definition of_agent :: "dispatch_item list \<Rightarrow> int \<Rightarrow> nat \<Rightarrow> bool" where
  "of_agent items a i \<longleftrightarrow> di_agent_db_id (items ! i) = a"

definition agent_indices :: "dispatch_item list \<Rightarrow> int \<Rightarrow> nat list" where
  "agent_indices items a = filter (of_agent items a) [0..<length items]"

definition reload_rank :: "dispatch_item list \<Rightarrow> nat \<Rightarrow> nat" where
  "reload_rank items k = length (filter (of_agent items (di_agent_db_id (items ! k))) [0..<k])"

definition batched_item ::
    "(int \<times> host_group_row) list \<Rightarrow> dispatch_item list \<Rightarrow> nat \<Rightarrow> dispatch_item" where
  "batched_item hostGroups items k =
     (let is = agent_indices items (di_agent_db_id (items ! k)) in
      if length is \<le> 1 then items ! k
      else set_defer (\<not> do_reload
             (batch_size_of hostGroups (di_host_group_id (items ! hd is)))
             (length is) (reload_rank items k)) (items ! k))"

lemma fold_update_nth:
  assumes "distinct is" and "\<forall>i \<in> set is. i < length xs" and "k < length xs"
  shows "fold (\<lambda>(pos, idx) ys. ys[idx := f pos (ys ! idx)]) (enumerate m is) xs ! k =
    (if k \<in> set is then f (m + length (takeWhile (\<lambda>i. i \<noteq> k) is)) (xs ! k) else xs ! k)"
  using assms
proof (induction "is" arbitrary: m xs)
  case (Cons i "is")
  then show ?case
    using Cons.IH [of "xs[i := f m (xs ! i)]" "Suc m"] by (auto simp: nth_list_update)
qed simp

lemma fold_update_length:
  "length (fold (\<lambda>(pos, idx) ys. ys[idx := f pos idx ys]) ps xs) = length xs"
  by (induction ps arbitrary: xs) auto

lemma batch_agent_length [simp]: "length (batch_agent hgs is items) = length items"
  by (simp add: batch_agent_def Let_def fold_update_length)

lemma batch_agent_nth:
  assumes "distinct is" and "\<forall>i \<in> set is. i < length items" and "k < length items"
  shows "batch_agent hgs is items ! k =
    (if k \<in> set is \<and> length is > 1
     then set_defer (\<not> do_reload (batch_size_of hgs (di_host_group_id (items ! hd is)))
            (length is) (length (takeWhile (\<lambda>i. i \<noteq> k) is))) (items ! k)
     else items ! k)"
proof (cases "length is \<le> 1")
  case True
  then show ?thesis by (auto simp: batch_agent_def)
next
  case False
  then have "is ! 0 = hd is" by (cases "is") simp_all
  with False assms fold_update_nth [OF assms, of "\<lambda>pos. set_defer (\<not> do_reload
      (batch_size_of hgs (di_host_group_id (items ! hd is))) (length is) pos)" 0]
  show ?thesis by (simp add: batch_agent_def Let_def)
qed

lemma set_defer_keeps [simp]: "di_host_group_id (set_defer b it) = di_host_group_id it"
  "di_agent_db_id (set_defer b it) = di_agent_db_id it"
  by (simp_all add: set_defer_def)

lemma fold_batch_nth:
  assumes "distinct (concat (map snd gs))" and "\<forall>i \<in> set (concat (map snd gs)). i < length items"
    and "k < length items"
    and "\<forall>j < length items. di_host_group_id (items ! j) = H j"
  shows "fold (\<lambda>(a, is) its. batch_agent hgs is its) gs items ! k =
    (case find (\<lambda>g. k \<in> set (snd g)) gs of None \<Rightarrow> items ! k
     | Some (a, is) \<Rightarrow> if length is > 1
         then set_defer (\<not> do_reload (batch_size_of hgs (H (hd is))) (length is)
                (length (takeWhile (\<lambda>i. i \<noteq> k) is))) (items ! k)
         else items ! k)"
  using assms
proof (induction gs arbitrary: items)
  case (Cons g gs)
  obtain a "is" where g: "g = (a, is)" by (cases g)
  let ?items = "batch_agent hgs is items"
  have d: "distinct is" "\<forall>i \<in> set is. i < length items"
    using Cons.prems(1,2) g by auto
  have H: "\<forall>j < length ?items. di_host_group_id (?items ! j) = H j"
    using Cons.prems(4) d by (simp add: batch_agent_nth)
  have hd: "is \<noteq> [] \<Longrightarrow> di_host_group_id (items ! hd is) = H (hd is)"
    using d Cons.prems(4) by simp
  have none: "k \<in> set is \<Longrightarrow> find (\<lambda>g. k \<in> set (snd g)) gs = None"
    using Cons.prems(1) g by (fastforce simp: find_None_iff)
  have IH: "fold (\<lambda>(a, is) its. batch_agent hgs is its) gs ?items ! k =
    (case find (\<lambda>g. k \<in> set (snd g)) gs of None \<Rightarrow> ?items ! k
     | Some (a, is) \<Rightarrow> if length is > 1
         then set_defer (\<not> do_reload (batch_size_of hgs (H (hd is))) (length is)
                (length (takeWhile (\<lambda>i. i \<noteq> k) is))) (?items ! k)
         else ?items ! k)"
    using Cons.prems H by (intro Cons.IH) auto
  show ?case
  proof (cases "k \<in> set is")
    case True
    then have "di_host_group_id (items ! hd is) = H (hd is)"
      using hd by (cases "is") auto
    with True IH none d Cons.prems(3) show ?thesis
      by (auto simp: g batch_agent_nth)
  next
    case False
    with d Cons.prems(3) have "?items ! k = items ! k" by (simp add: batch_agent_nth)
    with IH False show ?thesis by (auto simp: g split: option.split)
  qed
qed simp

definition index_pairs :: "dispatch_item list \<Rightarrow> (int \<times> nat) list" where
  "index_pairs items = map (\<lambda>(i, it). (di_agent_db_id it, i)) (enumerate 0 items)"

lemma index_pairs_eq: "index_pairs items = map (\<lambda>i. (di_agent_db_id (items ! i), i)) [0..<length items]"
  by (rule nth_equalityI) (simp_all add: index_pairs_def nth_enumerate_eq)

lemma values_of_index_pairs: "values_of a (index_pairs items) = agent_indices items a"
  unfolding index_pairs_eq values_of_def agent_indices_def filter_map map_map comp_def of_agent_def
  by simp

lemma keys_index_pairs: "fst ` set (index_pairs items) = di_agent_db_id ` set items"
  by (force simp: index_pairs_eq in_set_conv_nth)

lemma groups_mem:
  "(a, is) \<in> set (group_all (index_pairs items)) \<longleftrightarrow>
     a \<in> di_agent_db_id ` set items \<and> is = agent_indices items a"
  by (simp add: group_all_mem values_of_index_pairs keys_index_pairs)

lemma agent_indices_mem: "k \<in> set (agent_indices items a) \<longleftrightarrow>
    k < length items \<and> di_agent_db_id (items ! k) = a"
  by (auto simp: agent_indices_def of_agent_def)

lemma groups_snd: "map snd (group_all (index_pairs items)) =
    map (agent_indices items) (map fst (group_all (index_pairs items)))"
proof -
  have "snd g = agent_indices items (fst g)" if "g \<in> set (group_all (index_pairs items))" for g
    using that groups_mem [of "fst g" "snd g" items] by simp
  then show ?thesis by simp
qed

lemma groups_distinct: "distinct (concat (map snd (group_all (index_pairs items))))"
proof (rule distinct_concat)
  let ?ks = "map fst (group_all (index_pairs items))"
  have ks: "distinct ?ks" "set ?ks = di_agent_db_id ` set items"
    using keys_group_all [of "index_pairs items"] by (simp_all add: keys_index_pairs)
  have "inj_on (agent_indices items) (set ?ks)"
  proof (rule inj_onI)
    fix a b assume a: "a \<in> set ?ks" and eq: "agent_indices items a = agent_indices items b"
    from a ks(2) obtain k where "k < length items" "di_agent_db_id (items ! k) = a"
      by (auto simp: in_set_conv_nth)
    then have "k \<in> set (agent_indices items a)" by (simp add: agent_indices_mem)
    with eq show "a = b" by (metis agent_indices_mem)
  qed
  with ks(1) show "distinct (map snd (group_all (index_pairs items)))"
    unfolding groups_snd by (subst distinct_map) blast
next
  fix ys assume "ys \<in> set (map snd (group_all (index_pairs items)))"
  then obtain a where "ys = agent_indices items a" unfolding groups_snd by auto
  then show "distinct ys" by (simp add: agent_indices_def)
next
  fix ys zs
  assume "ys \<in> set (map snd (group_all (index_pairs items)))"
    and "zs \<in> set (map snd (group_all (index_pairs items)))" and "ys \<noteq> zs"
  then show "set ys \<inter> set zs = {}" unfolding groups_snd by (auto simp: agent_indices_mem)
qed

lemma takeWhile_filter_upt:
  assumes "P k" and "k < n"
  shows "takeWhile (\<lambda>i. i \<noteq> k) (filter P [0..<n]) = filter P [0..<k]"
proof -
  have "[0..<n] = [0..<k] @ k # [Suc k..<n]"
    using assms(2) upt_add_eq_append [of 0 k "n - k"] by (simp add: upt_conv_Cons)
  then have "filter P [0..<n] = filter P [0..<k] @ k # filter P [Suc k..<n]"
    using assms(1) by simp
  moreover have "takeWhile (\<lambda>i. i \<noteq> k) (filter P [0..<k] @ ys) =
      filter P [0..<k] @ takeWhile (\<lambda>i. i \<noteq> k) ys" for ys
    by (rule takeWhile_append2) auto
  ultimately show ?thesis by simp
qed

lemma find_group:
  assumes "k < length items"
  shows "find (\<lambda>g. k \<in> set (snd g)) (group_all (index_pairs items)) =
    Some (di_agent_db_id (items ! k), agent_indices items (di_agent_db_id (items ! k)))"
proof -
  let ?a = "di_agent_db_id (items ! k)"
  have "(?a, agent_indices items ?a) \<in> set (group_all (index_pairs items))"
    using assms by (simp add: groups_mem)
  moreover have "k \<in> set (agent_indices items ?a)" using assms by (simp add: agent_indices_mem)
  ultimately obtain g where g: "find (\<lambda>g. k \<in> set (snd g)) (group_all (index_pairs items)) = Some g"
    by (metis (no_types, lifting) find_None_iff not_Some_eq snd_conv)
  then have "g \<in> set (group_all (index_pairs items))" "k \<in> set (snd g)"
    by (auto dest: find_SomeD)
  then have "g = (?a, agent_indices items ?a)"
    using groups_mem [of "fst g" "snd g" items] agent_indices_mem [of k items "fst g"]
    by (metis prod.collapse)
  with g show ?thesis by simp
qed

lemma batching_length [simp]: "length (applyReloadBatching items hgs) = length items"
proof -
  have "length (fold (\<lambda>(a, is) its. batch_agent hgs is its) gs its) = length its" for gs :: "(int \<times> nat list) list" and its
    by (induction gs arbitrary: its) auto
  then show ?thesis by (simp add: applyReloadBatching_def)
qed

lemma applyReloadBatching_eq:
  "applyReloadBatching items hgs = map (batched_item hgs items) [0..<length items]"
proof (rule nth_equalityI)
  fix k assume "k < length (applyReloadBatching items hgs)"
  then have k: "k < length items" by simp
  let ?is = "agent_indices items (di_agent_db_id (items ! k))"
  have "fold (\<lambda>(a, is) its. batch_agent hgs is its) (group_all (index_pairs items)) items ! k =
    (if length ?is > 1 then set_defer (\<not> do_reload
        (batch_size_of hgs (di_host_group_id (items ! hd ?is))) (length ?is)
        (length (takeWhile (\<lambda>i. i \<noteq> k) ?is))) (items ! k) else items ! k)"
    using k groups_distinct [of items]
    by (subst fold_batch_nth [where H = "\<lambda>j. di_host_group_id (items ! j)"])
      (auto simp: find_group groups_mem agent_indices_mem)
  moreover have "length (takeWhile (\<lambda>i. i \<noteq> k) ?is) = reload_rank items k"
    using k by (simp add: agent_indices_def reload_rank_def takeWhile_filter_upt of_agent_def)
  ultimately show "applyReloadBatching items hgs ! k =
      map (batched_item hgs items) [0..<length items] ! k"
    using k by (auto simp: applyReloadBatching_def index_pairs_def [symmetric] batched_item_def Let_def)
qed simp

text \<open>How often one agent reloads: once per full batch and once for a remainder.\<close>

lemma multiples_below:
  assumes "b > 0"
  shows "int (length (filter (\<lambda>p. (int p + 1) mod b = 0) [0..<m])) = int m div b"
proof (induction m)
  case (Suc m)
  let ?q = "int m div b" and ?r = "int m mod b"
  have r: "0 \<le> ?r" "?r < b" and m: "int m = b * ?q + ?r"
    using assms by simp_all
  have "(int m + 1) div b = ?q + (if (int m + 1) mod b = 0 then 1 else 0)"
  proof (cases "?r + 1 = b")
    case True
    then have e: "int m + 1 = b * (?q + 1) + 0" unfolding distrib_left using m by linarith
    show ?thesis
      using int_div_pos_eq [OF e] int_mod_pos_eq [OF e] assms by simp
  next
    case False
    with m have e: "int m + 1 = b * ?q + (?r + 1)" by simp
    show ?thesis
      using int_div_pos_eq [OF e] int_mod_pos_eq [OF e] r False by simp
  qed
  with Suc show ?case by (simp add: add.commute)
qed simp

lemma ranks_of_filter:
  "map (\<lambda>k. length (filter P [0..<k])) (filter P [0..<n]) = [0..<length (filter P [0..<n])]"
  by (induction n) simp_all

lemma ranks_of_agent: "map (reload_rank items) (agent_indices items a) = [0..<length (agent_indices items a)]"
proof -
  have "map (reload_rank items) (agent_indices items a) =
      map (\<lambda>k. length (filter (of_agent items a) [0..<k])) (agent_indices items a)"
    by (auto simp: reload_rank_def agent_indices_def of_agent_def)
  then show ?thesis by (simp add: agent_indices_def ranks_of_filter)
qed

lemma reload_positions:
  assumes "n > 0"
  shows "int (length (filter (do_reload b n) [0..<n])) =
    (if b > 0 then (int n - 1) div b + 1 else 1)"
proof -
  obtain m where n: "n = Suc m" using assms by (cases n) auto
  have "filter (do_reload b n) [0..<m] = filter (\<lambda>p. b > 0 \<and> (int p + 1) mod b = 0) [0..<m]"
    by (rule filter_cong) (auto simp: do_reload_def n)
  with n multiples_below [of b m] show ?thesis by (auto simp: do_reload_def)
qed

text \<open>
  C9: Reload batching: every task of an agent that has several in the shard defers its nginx
  reload exactly when it is neither the agent's last one nor at a multiple of the batch size
  of the host group of the agent's first task; a task that is alone on its agent keeps its
  envelope, and nothing else of any item changes.
\<close>

theorem applyReloadBatching_reference:
  "applyReloadBatching items hostGroups = map (batched_item hostGroups items) [0..<length items]"
  by (rule applyReloadBatching_eq)

definition agent_batch_size :: "(int \<times> host_group_row) list \<Rightarrow> dispatch_item list \<Rightarrow> int \<Rightarrow> int" where
  "agent_batch_size hgs items a =
     batch_size_of hgs (di_host_group_id (items ! hd (agent_indices items a)))"

lemma reloads_iff:
  assumes "k \<in> set (agent_indices items a)" and "\<not> e_defer_reload (di_envelope (items ! k))"
  shows "\<not> e_defer_reload (di_envelope (batched_item hgs items k)) \<longleftrightarrow>
    do_reload (agent_batch_size hgs items a) (length (agent_indices items a)) (reload_rank items k)"
proof -
  have a: "di_agent_db_id (items ! k) = a" using assms(1) by (simp add: agent_indices_mem)
  show ?thesis
  proof (cases "length (agent_indices items a) \<le> 1")
    case True
    then have one: "agent_indices items a = [k]"
      using assms(1) by (cases "agent_indices items a") auto
    have "map (reload_rank items) (agent_indices items a) = [0]"
      using ranks_of_agent [of items a] one by simp
    with one assms(2) a show ?thesis by (simp add: batched_item_def do_reload_def)
  next
    case False
    with a show ?thesis
      by (simp add: batched_item_def Let_def set_defer_def agent_batch_size_def)
  qed
qed

text \<open>
  How often a host reloads: of n tasks dispatched to one agent, one reloads nginx when the
  agent's host group sets no batch size, and one per started batch of b tasks otherwise, the
  last task always among them.
\<close>

theorem reload_count:
  assumes fresh: "\<forall>it \<in> set items. \<not> e_defer_reload (di_envelope it)"
    and "a \<in> di_agent_db_id ` set items"
  shows "int (length (filter (\<lambda>it. di_agent_db_id it = a \<and> \<not> e_defer_reload (di_envelope it))
      (applyReloadBatching items hostGroups))) =
    (let n = int (length (filter (\<lambda>it. di_agent_db_id it = a) items));
         b = agent_batch_size hostGroups items a
     in if b > 0 then (n - 1) div b + 1 else 1)"
proof -
  let ?is = "agent_indices items a" and ?b = "agent_batch_size hostGroups items a"
  let ?go = "\<lambda>it. di_agent_db_id it = a \<and> \<not> e_defer_reload (di_envelope it)"
  have n: "length (filter (\<lambda>it. di_agent_db_id it = a) items) = length ?is"
    by (simp add: agent_indices_def of_agent_def length_filter_conv_card)
      (rule arg_cong [where f = card], auto)
  have "?is \<noteq> []"
    using assms(2) agent_indices_mem [of _ items a] by (force simp: in_set_conv_nth)
  have "filter (\<lambda>k. ?go (batched_item hostGroups items k)) [0..<length items] =
      filter (\<lambda>k. \<not> e_defer_reload (di_envelope (batched_item hostGroups items k))) ?is"
    unfolding agent_indices_def filter_filter
    by (rule filter_cong) (auto simp: batched_item_def Let_def of_agent_def)
  also have "\<dots> = filter (\<lambda>k. do_reload ?b (length ?is) (reload_rank items k)) ?is"
    using fresh by (intro filter_cong refl reloads_iff) (auto simp: agent_indices_mem)
  finally have "length (filter ?go (applyReloadBatching items hostGroups)) =
      length (filter (do_reload ?b (length ?is)) (map (reload_rank items) ?is))"
    by (simp add: applyReloadBatching_eq filter_map comp_def)
  with \<open>?is \<noteq> []\<close> reload_positions [of "length ?is" ?b] show ?thesis
    unfolding n by (simp add: ranks_of_agent Let_def)
qed

definition sample_item :: "int \<Rightarrow> int \<Rightarrow> dispatch_item" where
  "sample_item i a = \<lparr>di_domain_task_id = i, di_agent_db_id = a, di_agent_id = ''agent'',
     di_host_group_id = Some 7, di_artifact_id = 1, di_artifact_url = ''u'',
     di_envelope = \<lparr>e_task_id = [], e_type = ''deploy_html'', e_release_id = ''r'',
       e_artifact_url = ''u'', e_manifest = zero_manifest, e_domains = [''a.com''],
       e_deploy_path = ''/var/www'', e_nginx_path = ''/etc/nginx/conf.d'', e_allow_reload = True,
       e_defer_reload = False, e_verify = zero_verify, e_target_release_id = []\<rparr>\<rparr>"

definition sample_group :: host_group_row where
  "sample_group = \<lparr>hg_id = 7, hg_project_id = 1, hg_name = ''g'', hg_max_concurrency = 0,
     hg_reload_batch_size = 2, hg_reload_batch_wait_secs = 0, hg_deleted_at = None\<rparr>"

theorem reload_count_witness:
  "int (length (filter (\<lambda>it. di_agent_db_id it = 9 \<and> \<not> e_defer_reload (di_envelope it))
     (applyReloadBatching (sample_item 0 8 # map (\<lambda>i. sample_item i 9) [1, 2, 3, 4, 5])
        [(7, sample_group)]))) = 3"
  by (subst reload_count) (simp_all add: sample_item_def sample_group_def agent_batch_size_def
      agent_indices_def of_agent_def batch_size_of_def upt_rec numeral_eq_Suc)

end
