(* ===== verification/Release_Store.thy ===== *)
theory Release_Store
  imports Agent_Service Lifecycle Planner
begin

text \<open>
  store/postgres: release.go, rollback.go, domain\_task.go and the look-ups of artifact.go and
  template.go the release service calls, and the single write path of \<open>releases.status\<close>
  with its invariant.
\<close>

section \<open>Releases\<close>

definition valid_release_type :: "string \<Rightarrow> bool" where
  "valid_release_type t \<longleftrightarrow> t = ''html'' \<or> t = ''nginx'' \<or> t = ''full''"

text \<open>The columns \<open>INSERT INTO releases\<close> names come from the argument, the others are defaults.\<close>

definition new_release :: "release_row \<Rightarrow> int \<Rightarrow> int \<Rightarrow> release_row" where
  "new_release r t i = r\<lparr>r_id := i, r_artifact_id := None, r_status := ''pending'',
     r_total_domains := None, r_total_shards := None, r_success_count := 0, r_failure_count := 0,
     r_created_at := t, r_started_at := None, r_ended_at := None\<rparr>"

definition ReleaseStore_Create :: "release_row \<Rightarrow> release_row op" where
  "ReleaseStore_Create r = stmt (\<lambda>w.
     if list_ex (\<lambda>x. r_release_id x = r_release_id r) (rows (releases w))
     then (Inl (ErrUnique ''uq_releases_release_id''), w)
     else if \<not> valid_release_type (r_release_type r) then (Inl (ErrCheck ''chk_releases_type''), w)
     else (Inr (new_release r (now w) (seq (releases w) + 1)),
           w\<lparr>releases := tbl_insert (new_release r (now w)) (releases w)\<rparr>))"

definition is_release :: "int \<Rightarrow> release_row \<Rightarrow> bool" where
  "is_release i r \<longleftrightarrow> r_id r = i"

definition ReleaseStore_GetByID :: "int \<Rightarrow> release_row op" where
  "ReleaseStore_GetByID i = query_one ErrReleaseNotFound (\<lambda>w. tbl_find (is_release i) (releases w))"

definition GetByReleaseID :: "string \<Rightarrow> release_row op" where
  "GetByReleaseID rid =
     query_one ErrReleaseNotFound (\<lambda>w. tbl_find (\<lambda>r. r_release_id r = rid) (releases w))"

definition clamp_limit :: "int \<Rightarrow> int" where
  "clamp_limit limit = (let l = (if limit \<le> 0 then 20 else limit) in if l > 100 then 100 else l)"

definition ReleaseStore_ListByProject :: "int \<Rightarrow> int \<Rightarrow> int \<Rightarrow> release_row list op" where
  "ReleaseStore_ListByProject p cursor limit = query (\<lambda>w. take (nat (clamp_limit limit))
     (sort_key r_id (tbl_select (\<lambda>r. r_project_id r = p \<and> r_id r > cursor) (releases w))))"

definition ReleaseStore_CountByProject :: "int \<Rightarrow> int op" where
  "ReleaseStore_CountByProject p =
     query (\<lambda>w. int (length (tbl_select (\<lambda>r. r_project_id r = p) (releases w))))"

definition update_release :: "int \<Rightarrow> (int \<Rightarrow> release_row \<Rightarrow> release_row) \<Rightarrow> unit op" where
  "update_release i f =
     exec (\<lambda>w. w\<lparr>releases := tbl_update (\<lambda>r. r_id r = i) (f (now w)) (releases w)\<rparr>)"

definition SetArtifactID :: "int \<Rightarrow> int \<Rightarrow> unit op" where
  "SetArtifactID i a = update_release i (\<lambda>_ r. r\<lparr>r_artifact_id := Some a\<rparr>)"

definition SetTotals :: "int \<Rightarrow> int \<Rightarrow> int \<Rightarrow> unit op" where
  "SetTotals i td ts =
     update_release i (\<lambda>_ r. r\<lparr>r_total_domains := Some td, r_total_shards := Some ts\<rparr>)"

definition SetStartedAt :: "int \<Rightarrow> unit op" where
  "SetStartedAt i = update_release i (\<lambda>n r. r\<lparr>r_started_at := Some n\<rparr>)"

definition SetEndedAt :: "int \<Rightarrow> unit op" where
  "SetEndedAt i = update_release i (\<lambda>n r. r\<lparr>r_ended_at := Some n\<rparr>)"

definition IncrementSuccess :: "int \<Rightarrow> unit op" where
  "IncrementSuccess i = update_release i (\<lambda>_ r. r\<lparr>r_success_count := r_success_count r + 1\<rparr>)"

definition IncrementFailure :: "int \<Rightarrow> unit op" where
  "IncrementFailure i = update_release i (\<lambda>_ r. r\<lparr>r_failure_count := r_failure_count r + 1\<rparr>)"

definition IncrementSuccessBy :: "int \<Rightarrow> int \<Rightarrow> unit op" where
  "IncrementSuccessBy i n = (if n = 0 then ret ()
     else update_release i (\<lambda>_ r. r\<lparr>r_success_count := r_success_count r + n\<rparr>))"

definition IncrementFailureBy :: "int \<Rightarrow> int \<Rightarrow> unit op" where
  "IncrementFailureBy i n = (if n = 0 then ret ()
     else update_release i (\<lambda>_ r. r\<lparr>r_failure_count := r_failure_count r + n\<rparr>))"

section \<open>The release write path\<close>

definition updateReleaseStatusTx :: "int \<Rightarrow> string \<Rightarrow> unit op" where
  "updateReleaseStatusTx i s = exec (\<lambda>w. w\<lparr>releases := tbl_update (\<lambda>r. r_id r = i)
     (\<lambda>r. r\<lparr>r_status := s\<rparr>) (releases w)\<rparr>)"

definition insertReleaseStateHistoryTx ::
    "int \<Rightarrow> string \<Rightarrow> string \<Rightarrow> string \<Rightarrow> string \<Rightarrow> unit op" where
  "insertReleaseStateHistoryTx i from to reason by = exec (\<lambda>w. w\<lparr>release_history :=
     tbl_insert (new_history i (Some from) to reason by (now w)) (release_history w)\<rparr>)"

definition ReleaseStore_TransitionTx ::
    "int \<Rightarrow> string \<Rightarrow> string \<Rightarrow> string \<Rightarrow> string \<Rightarrow> unit op" where
  "ReleaseStore_TransitionTx i expectedFrom to reason by =
     bnd (query_one ErrReleaseNotFound
            (\<lambda>w. map_option r_status (tbl_find (is_release i) (releases w))))
       (\<lambda>currentStatus.
          if currentStatus \<noteq> expectedFrom then throw ErrReleaseRaceCondition
          else seq_eff (updateReleaseStatusTx i to)
                 (insertReleaseStateHistoryTx i expectedFrom to reason by))"

definition ReleaseStore_GetHistory :: "int \<Rightarrow> int \<Rightarrow> history_row list op" where
  "ReleaseStore_GetHistory i limit0 =
     (let limit = (if limit0 \<le> 0 then 50 else limit0) in
      query (\<lambda>w. take (nat limit) (rev (sort_key h_created_at
        (tbl_select (\<lambda>h. h_owner h = i) (release_history w))))))"

text \<open>\<open>ORDER BY id DESC LIMIT 1\<close>: the last element of the rows sorted by key.\<close>

definition last_option :: "'a list \<Rightarrow> 'a option" where
  "last_option xs = (if xs = [] then None else Some (last xs))"

definition rollback_candidate :: "int \<Rightarrow> int \<Rightarrow> release_row \<Rightarrow> bool" where
  "rollback_candidate p before r \<longleftrightarrow> r_project_id r = p \<and> r_status r = ''succeeded'' \<and>
     r_artifact_id r \<noteq> None \<and> r_id r < before"

definition GetLastSucceeded :: "int \<Rightarrow> int \<Rightarrow> release_row op" where
  "GetLastSucceeded p before = query_one ErrReleaseNotFound
     (\<lambda>w. last_option (sort_key r_id (tbl_select (rollback_candidate p before) (releases w))))"

section \<open>Scopes and shards\<close>

text \<open>The unique constraint on scopes ignores rows whose host group is \<open>NULL\<close>.\<close>

definition CreateScope :: "int \<Rightarrow> int \<Rightarrow> int option \<Rightarrow> unit op" where
  "CreateScope rel d hg = exec_unless
     (\<lambda>w. hg \<noteq> None \<and> list_ex (\<lambda>s. sc_release_id s = rel \<and> sc_domain_id s = d \<and>
        sc_host_group_id s = hg) (rows (scopes w)))
     (ErrUnique ''uq_release_scopes'')
     (\<lambda>w. w\<lparr>scopes := tbl_insert (\<lambda>i. \<lparr>sc_id = i, sc_release_id = rel, sc_domain_id = d,
        sc_host_group_id = hg\<rparr>) (scopes w)\<rparr>)"

definition ListScopes :: "int \<Rightarrow> scope_row list op" where
  "ListScopes rel = query (\<lambda>w. tbl_select (\<lambda>s. sc_release_id s = rel) (scopes w))"

definition new_shard :: "int \<Rightarrow> int \<Rightarrow> bool \<Rightarrow> int \<Rightarrow> int \<Rightarrow> shard_row" where
  "new_shard rel idx canary n i = \<lparr>sh_id = i, sh_release_id = rel, sh_index = idx,
     sh_is_canary = canary, sh_domain_count = n, sh_status = ''pending'', sh_started_at = None,
     sh_ended_at = None, sh_success_count = 0, sh_failure_count = 0\<rparr>"

definition CreateShard :: "int \<Rightarrow> int \<Rightarrow> bool \<Rightarrow> int \<Rightarrow> shard_row op" where
  "CreateShard rel idx canary n = stmt (\<lambda>w.
     if list_ex (\<lambda>s. sh_release_id s = rel \<and> sh_index s = idx) (rows (shards w))
     then (Inl (ErrUnique ''uq_release_shards''), w)
     else (Inr (new_shard rel idx canary n (seq (shards w) + 1)),
           w\<lparr>shards := tbl_insert (new_shard rel idx canary n) (shards w)\<rparr>))"

definition ListShards :: "int \<Rightarrow> shard_row list op" where
  "ListShards rel =
     query (\<lambda>w. sort_key sh_index (tbl_select (\<lambda>s. sh_release_id s = rel) (shards w)))"

definition GetShardByID :: "int \<Rightarrow> shard_row op" where
  "GetShardByID i = query_one ErrNoRows (\<lambda>w. tbl_find (\<lambda>s. sh_id s = i) (shards w))"

definition set_shard_status :: "string \<Rightarrow> int \<Rightarrow> shard_row \<Rightarrow> shard_row" where
  "set_shard_status status n s = s\<lparr>sh_status := status,
     sh_started_at := (if (status = ''dispatching'' \<or> status = ''running'') \<and> sh_started_at s = None
                       then Some n else sh_started_at s),
     sh_ended_at := (if status = ''succeeded'' \<or> status = ''failed'' \<or> status = ''cancelled''
                     then Some n else sh_ended_at s)\<rparr>"

definition UpdateShardStatus :: "int \<Rightarrow> string \<Rightarrow> unit op" where
  "UpdateShardStatus i status = exec (\<lambda>w. w\<lparr>shards := tbl_update (\<lambda>s. sh_id s = i)
     (set_shard_status status (now w)) (shards w)\<rparr>)"

definition UpdateShardCounts :: "int \<Rightarrow> int \<Rightarrow> int \<Rightarrow> unit op" where
  "UpdateShardCounts i ok bad = exec (\<lambda>w. w\<lparr>shards := tbl_update (\<lambda>s. sh_id s = i)
     (\<lambda>s. s\<lparr>sh_success_count := ok, sh_failure_count := bad\<rparr>) (shards w)\<rparr>)"

definition next_pending_shard :: "int \<Rightarrow> int \<Rightarrow> world \<Rightarrow> shard_row option" where
  "next_pending_shard rel after w = (case sort_key sh_index (tbl_select
       (\<lambda>s. sh_release_id s = rel \<and> sh_index s > after \<and> sh_status s = ''pending'') (shards w)) of
       [] \<Rightarrow> None | s # _ \<Rightarrow> Some s)"

definition GetNextPendingShard :: "int \<Rightarrow> int \<Rightarrow> shard_row option op" where
  "GetNextPendingShard rel after = query (next_pending_shard rel after)"

section \<open>Domain tasks\<close>

text \<open>One multi-row \<open>INSERT\<close>: all rows or none.\<close>

definition CreateBatch :: "domain_task_row list \<Rightarrow> unit op" where
  "CreateBatch ts = (if length ts = 0 then ret ()
     else exec (\<lambda>w. w\<lparr>domain_tasks := fold (\<lambda>t. tbl_insert (\<lambda>i. t\<lparr>dt_id := i, dt_status := ''pending'',
            dt_ended_at := None, dt_last_error := None\<rparr>)) ts (domain_tasks w)\<rparr>))"

definition DomainTask_ListByRelease :: "int \<Rightarrow> domain_task_row list op" where
  "DomainTask_ListByRelease rel =
     query (\<lambda>w. sort_key dt_id (tbl_select (\<lambda>t. dt_release_id t = rel) (domain_tasks w)))"

definition ListByShard :: "int \<Rightarrow> domain_task_row list op" where
  "ListByShard sh =
     query (\<lambda>w. sort_key dt_id (tbl_select (\<lambda>t. dt_shard_id t = Some sh) (domain_tasks w)))"

definition DomainTask_UpdateStatus :: "int \<Rightarrow> string \<Rightarrow> string option \<Rightarrow> unit op" where
  "DomainTask_UpdateStatus i status err = exec (\<lambda>w. w\<lparr>domain_tasks :=
     tbl_update (\<lambda>t. dt_id t = i) (\<lambda>t. t\<lparr>dt_status := status, dt_last_error := err,
       dt_ended_at := (if status = ''succeeded'' \<or> status = ''failed'' \<or> status = ''cancelled''
                       then Some (now w) else dt_ended_at t)\<rparr>) (domain_tasks w)\<rparr>)"

definition DomainTask_GetByID :: "int \<Rightarrow> domain_task_row option op" where
  "DomainTask_GetByID i = query (\<lambda>w. tbl_find (\<lambda>t. dt_id t = i) (domain_tasks w))"

section \<open>Rollback records, artifacts, template versions\<close>

definition RollbackStore_Create :: "int \<Rightarrow> int \<Rightarrow> int \<Rightarrow> string \<Rightarrow> string \<Rightarrow> int op" where
  "RollbackStore_Create rel prev art scope reason = stmt (\<lambda>w.
     (Inr (seq (rollbacks w) + 1), w\<lparr>rollbacks := tbl_insert (\<lambda>i. \<lparr>rb_id = i, rb_release_id = rel,
        rb_rollback_release_id = Some prev, rb_target_artifact_id = art, rb_scope = scope,
        rb_reason = reason, rb_completed_at = None, rb_success = None\<rparr>) (rollbacks w)\<rparr>))"

definition RollbackStore_Complete :: "int \<Rightarrow> bool \<Rightarrow> unit op" where
  "RollbackStore_Complete i ok = exec (\<lambda>w. w\<lparr>rollbacks := tbl_update (\<lambda>r. rb_id r = i)
     (\<lambda>r. r\<lparr>rb_completed_at := Some (now w), rb_success := Some ok\<rparr>) (rollbacks w)\<rparr>)"

definition RollbackStore_GetByRelease :: "int \<Rightarrow> rollback_row list op" where
  "RollbackStore_GetByRelease rel =
     query (\<lambda>w. rev (tbl_select (\<lambda>r. rb_release_id r = rel) (rollbacks w)))"

definition ArtifactStore_GetByID :: "int \<Rightarrow> artifact_row op" where
  "ArtifactStore_GetByID i = query_one ErrArtifactNotFound (\<lambda>w. tbl_find (\<lambda>a. af_id a = i) (artifacts w))"

definition GetVersion :: "int \<Rightarrow> template_version_row op" where
  "GetVersion i =
     query_one ErrTemplateVersionNotFound (\<lambda>w. tbl_find (\<lambda>v. tv_id v = i) (template_versions w))"

end
