(* ===== verification/Release_Service.thy ===== *)
theory Release_Service
  imports Release_Store
begin

text \<open>
  internal/release: service.go and rollback.go, the life of a release from creation over
  planning, sequential dispatch of shards and finalization to rollback. The arguments \<open>sha\<close>
  (SHA-256 as hex digest) and \<open>presign\<close> (the URL the object store signs for a key and a
  lifetime in seconds) stand for code outside the repository.
\<close>

section \<open>State transition\<close>

definition TransitionRelease :: "int \<Rightarrow> string \<Rightarrow> string \<Rightarrow> string \<Rightarrow> string \<Rightarrow> unit op" where
  "TransitionRelease i from to reason by =
     (if \<not> CanReleaseTransition from to then throw ErrInvalidReleaseState
      else transaction (ReleaseStore_TransitionTx i from to reason by))"

section \<open>Create\<close>

record create_input =
  ci_project_id :: int
  ci_project_slug :: string
  ci_template_version_id :: int
  ci_release_type :: string
  ci_trigger_source :: string
  ci_shard_strategy :: string
  ci_description :: "string option"
  ci_domain_ids :: "int list"
  ci_created_by :: "int option"

definition or_default :: "string \<Rightarrow> string \<Rightarrow> string" where
  "or_default s d = (if s = [] then d else s)"

definition triggeredByStr :: "int option \<Rightarrow> string" where
  "triggeredByStr u = (case u of Some i \<Rightarrow> ''user:'' @ show_int i | None \<Rightarrow> ''system'')"

text \<open>\<open>UnixNano\<close> of a clock that counts seconds.\<close>

definition generateReleaseID :: "(string \<Rightarrow> string) \<Rightarrow> string \<Rightarrow> int \<Rightarrow> int \<Rightarrow> string" where
  "generateReleaseID sha slug ver t =
     take 16 (sha (slug @ '':'' @ show_int ver @ '':'' @ show_int (t * 1000000000)))"

definition resolve_scope :: "create_input \<Rightarrow> int list op" where
  "resolve_scope inp =
     (if length (ci_domain_ids inp) > 0
      then collect (ci_domain_ids inp) (\<lambda>did.
             bnd (DomainStore_GetByID did) (\<lambda>d.
               if d_lifecycle_state d \<noteq> ''active'' then throw ErrDomainNotActive else ret [did]))
      else bnd (ListActiveByProject (ci_project_id inp)) (\<lambda>ds. ret (map d_id ds)))"

definition insertInitialReleaseHistory :: "int \<Rightarrow> string \<Rightarrow> unit op" where
  "insertInitialReleaseHistory i by = exec (\<lambda>w. w\<lparr>release_history :=
     tbl_insert (new_history i None ''pending'' ''release created'' by (now w)) (release_history w)\<rparr>)"

definition release_of_input :: "(string \<Rightarrow> string) \<Rightarrow> create_input \<Rightarrow> int \<Rightarrow> release_row" where
  "release_of_input sha inp t = \<lparr>r_id = 0,
     r_release_id = generateReleaseID sha (ci_project_slug inp) (ci_template_version_id inp) t,
     r_project_id = ci_project_id inp, r_template_version_id = ci_template_version_id inp,
     r_artifact_id = None, r_release_type = or_default (ci_release_type inp) ''html'',
     r_trigger_source = or_default (ci_trigger_source inp) ''ui'', r_status = [],
     r_total_domains = None, r_total_shards = None, r_success_count = 0, r_failure_count = 0,
     r_description = ci_description inp, r_created_at = 0, r_created_by = ci_created_by inp,
     r_started_at = None, r_ended_at = None\<rparr>"

definition Create :: "(string \<Rightarrow> string) \<Rightarrow> create_input \<Rightarrow> release_row op" where
  "Create sha inp =
     bnd (GetVersion (ci_template_version_id inp)) (\<lambda>ver.
       if tv_published_at ver = None then throw ErrTemplateNotPublished
       else bnd (resolve_scope inp) (\<lambda>domainIDs.
         if length domainIDs = 0 then throw ErrNoDomainsInScope
         else bnd (gets now) (\<lambda>t.
           bnd (ReleaseStore_Create (release_of_input sha inp t)) (\<lambda>rel.
             seq_eff (for_each domainIDs (\<lambda>did. ignore (CreateScope (r_id rel) did None)))
            (seq_eff (ignore (transaction (insertInitialReleaseHistory (r_id rel)
                        (triggeredByStr (ci_created_by inp)))))
            (seq_eff (ignore (enqueue (PlanJob (r_id rel) domainIDs
                        (or_default (ci_shard_strategy inp) ''by_host_group'')) 3 120 ''release'' 0))
            (ret rel)))))))"

section \<open>Plan\<close>

text \<open>\<open>err\<close> of \<open>m\<close> fails the release before it is returned; the transition's own error is dropped.\<close>

definition fail_plan :: "int \<Rightarrow> string \<Rightarrow> 'a op \<Rightarrow> 'a op" where
  "fail_plan rel reason m = bnd (attempt m) (\<lambda>r. case r of
       Inl e \<Rightarrow> seq_eff (ignore (TransitionRelease rel ''planning'' ''failed'' reason ''system'')) (throw e)
     | Inr a \<Rightarrow> ret a)"

definition plan_input :: "scope_row \<Rightarrow> domain_plan_input list op" where
  "plan_input scope = bnd (attempt (DomainStore_GetByID (sc_domain_id scope))) (\<lambda>r. case r of
       Inl e \<Rightarrow> ret []
     | Inr d \<Rightarrow> if d_lifecycle_state d \<noteq> ''active'' then ret []
         else ret [\<lparr>dp_id = d_id d, dp_host_group_id = sc_host_group_id scope\<rparr>])"

text \<open>\<open>domainInfoMap\<close>: a later entry for the same id replaces an earlier one.\<close>

definition info_group :: "domain_plan_input list \<Rightarrow> int \<Rightarrow> int option" where
  "info_group ds did = (case map_of (rev (map (\<lambda>d. (dp_id d, dp_host_group_id d)) ds)) did of
       None \<Rightarrow> None | Some hg \<Rightarrow> hg)"

definition plan_task :: "int \<Rightarrow> int \<Rightarrow> domain_plan_input list \<Rightarrow> int \<Rightarrow> domain_task_row" where
  "plan_task rel shard ds did = \<lparr>dt_id = 0, dt_release_id = rel, dt_shard_id = Some shard,
     dt_domain_id = did, dt_host_group_id = info_group ds did, dt_task_type = ''deploy_html'',
     dt_status = [], dt_ended_at = None, dt_last_error = None\<rparr>"

definition create_planned_shard ::
    "int \<Rightarrow> domain_plan_input list \<Rightarrow> planned_shard \<Rightarrow> int list op" where
  "create_planned_shard rel ds ps =
     bnd (fail_plan rel ''create shard failed''
            (CreateShard rel (ps_index ps) False (int (length (ps_domain_ids ps))))) (\<lambda>shard.
       seq_eff (fail_plan rel ''create domain tasks failed''
                  (CreateBatch (map (plan_task rel (sh_id shard) ds) (ps_domain_ids ps))))
         (ret (ps_domain_ids ps)))"

definition Plan :: "int \<Rightarrow> string \<Rightarrow> unit op" where
  "Plan i strategy0 =
     bnd (ReleaseStore_GetByID i) (\<lambda>rel.
     seq_eff (TransitionRelease i ''pending'' ''planning'' ''plan started'' ''system'')
    (bnd (ListScopes i) (\<lambda>scs.
       if length scs = 0
       then seq_eff (ignore (TransitionRelease i ''planning'' ''failed'' ''no domains in scope'' ''system''))
              (throw ErrNoDomainsInScope)
       else bnd (collect scs plan_input) (\<lambda>validDomains.
         if length validDomains = 0
         then seq_eff (ignore (TransitionRelease i ''planning'' ''failed''
                ''no active domains remain'' ''system'')) (throw ErrNoDomainsInScope)
         else let strategy = or_default strategy0 ''by_host_group'';
                  plannedShards = PlanShards strategy validDomains
           in bnd (collect plannedShards (create_planned_shard i validDomains)) (\<lambda>allDomainIDs.
              seq_eff (ignore (SetTotals i (int (length allDomainIDs)) (int (length plannedShards))))
                (fail_plan i ''enqueue build failed'' (enqueue (BuildJob (r_project_id rel)
                   (take 8 (r_release_id rel)) (r_template_version_id rel) (Some i)
                   (r_created_by rel) allDomainIDs) 2 300 ''artifact'' 0)))))))"

section \<open>MarkReady\<close>

definition MarkReady :: "int \<Rightarrow> int \<Rightarrow> unit op" where
  "MarkReady i art =
     seq_eff (SetArtifactID i art)
    (seq_eff (TransitionRelease i ''planning'' ''ready'' ''artifact built'' ''system'')
    (bnd (ListShards i) (\<lambda>shs. case shs of
       [] \<Rightarrow> ret ()
     | firstShard # _ \<Rightarrow> ignore (enqueue (DispatchJob i (sh_id firstShard)) 3 120 ''release'' 0))))"

section \<open>Dispatch\<close>

definition deploy_envelope :: "string \<Rightarrow> string \<Rightarrow> manifest \<Rightarrow> string \<Rightarrow> task_envelope" where
  "deploy_envelope relID url m fqdn = \<lparr>e_task_id = [], e_type = ''deploy_html'',
     e_release_id = relID, e_artifact_url = url, e_manifest = m, e_domains = [fqdn],
     e_deploy_path = ''/var/www'', e_nginx_path = ''/etc/nginx/conf.d'', e_allow_reload = True,
     e_defer_reload = False,
     e_verify = \<lparr>v_enabled = True, v_url = ''http://localhost'', v_status_code = 200,
                 v_timeout_ms = 5000\<rparr>,
     e_target_release_id = []\<rparr>"

definition positive_group :: "int option \<Rightarrow> int option" where
  "positive_group hg = (case hg of None \<Rightarrow> None | Some h \<Rightarrow> if h > 0 then Some h else None)"

text \<open>Agent selection: an online agent of the task's host group, else any online one, by position.\<close>

definition select_agent :: "agent_row list \<Rightarrow> nat \<Rightarrow> int option \<Rightarrow> agent_row option op" where
  "select_agent onlineAgents i hg =
     (let fallback = (if length onlineAgents > 0
            then Some (onlineAgents ! (i mod length onlineAgents)) else None) in
      case positive_group hg of
        None \<Rightarrow> ret fallback
      | Some h \<Rightarrow> bnd (attempt (ListOnlineByHostGroup h)) (\<lambda>r. case r of
            Inl e \<Rightarrow> ret fallback
          | Inr hgAgents \<Rightarrow> ret (if length hgAgents > 0
              then Some (hgAgents ! (i mod length hgAgents)) else fallback)))"

definition dispatch_task ::
    "release_row \<Rightarrow> int \<Rightarrow> string \<Rightarrow> manifest \<Rightarrow> agent_row list \<Rightarrow> nat \<times> domain_task_row \<Rightarrow>
     dispatch_item list op" where
  "dispatch_task rel art url m onlineAgents idt = (case idt of (i, dt) \<Rightarrow>
     bnd (attempt (DomainStore_GetByID (dt_domain_id dt))) (\<lambda>r. case r of
       Inl e \<Rightarrow> ret []
     | Inr domain \<Rightarrow>
         bnd (select_agent onlineAgents i (dt_host_group_id dt)) (\<lambda>target. case target of
           None \<Rightarrow> seq_eff (ignore (DomainTask_UpdateStatus (dt_id dt) ''failed''
                     (Some ''no agent available''))) (ret [])
         | Some a \<Rightarrow> ret [\<lparr>di_domain_task_id = dt_id dt, di_agent_db_id = a_id a,
             di_agent_id = a_agent_id a, di_host_group_id = dt_host_group_id dt,
             di_artifact_id = art, di_artifact_url = url,
             di_envelope = deploy_envelope (r_release_id rel) url m (d_fqdn domain)\<rparr>])))"

fun fetch_groups ::
    "int option list \<Rightarrow> (int \<times> host_group_row) list \<Rightarrow> (int \<times> host_group_row) list op" where
  "fetch_groups [] gs = ret gs"
| "fetch_groups (hg # hgs) gs = (case positive_group hg of
      None \<Rightarrow> fetch_groups hgs gs
    | Some h \<Rightarrow> if map_of gs h \<noteq> None then fetch_groups hgs gs
        else bnd (attempt (HostGroupStore_GetByID h)) (\<lambda>r. case r of
          Inr (Some g) \<Rightarrow> fetch_groups hgs ((h, g) # gs)
        | _ \<Rightarrow> fetch_groups hgs gs))"

definition task_id_of :: "string \<Rightarrow> int \<Rightarrow> int \<Rightarrow> string" where
  "task_id_of relID dt a = relID @ ''-'' @ show_int dt @ ''-'' @ show_int a"

definition persist_task :: "string \<Rightarrow> dispatch_item \<Rightarrow> unit op" where
  "persist_task relID it =
     bnd (attempt (CreateAgentTask \<lparr>t_id = 0,
            t_task_id = task_id_of relID (di_domain_task_id it) (di_agent_db_id it),
            t_domain_task_id = di_domain_task_id it, t_agent_id = di_agent_db_id it,
            t_artifact_id = di_artifact_id it, t_artifact_url = Some (di_artifact_url it),
            t_payload = di_envelope it, t_status = [], t_claimed_at = None, t_ended_at = None,
            t_duration_ms = None, t_last_error = None, t_created_at = 0\<rparr>)) (\<lambda>r. case r of
       Inl e \<Rightarrow> ret ()
     | Inr _ \<Rightarrow> ignore (DomainTask_UpdateStatus (di_domain_task_id it) ''dispatched'' None))"

definition artifact_prefix :: "manifest \<Rightarrow> artifact_row \<Rightarrow> string" where
  "artifact_prefix m art = ''artifacts/'' @ m_project_slug m @ ''/'' @ af_checksum art"

definition start_dispatch :: "int \<Rightarrow> string \<Rightarrow> unit op" where
  "start_dispatch i status =
     (if status = ''ready''
      then seq_eff (TransitionRelease i ''ready'' ''executing'' ''dispatch started'' ''system'')
             (ignore (SetStartedAt i))
      else ret ())"

definition dispatch_items ::
    "release_row \<Rightarrow> int \<Rightarrow> string \<Rightarrow> manifest \<Rightarrow> int \<Rightarrow> unit op" where
  "dispatch_items rel artID url m shardID =
     bnd (ListByShard shardID) (\<lambda>dts.
     bnd ListOnlineAgents (\<lambda>onlineAgents.
     bnd (collect (enumerate 0 dts) (dispatch_task rel artID url m onlineAgents)) (\<lambda>items.
     bnd (fetch_groups (map di_host_group_id items) []) (\<lambda>hostGroups.
     for_each (applyReloadBatching items hostGroups) (persist_task (r_release_id rel))))))"

definition DispatchShard :: "(string \<Rightarrow> int \<Rightarrow> string) \<Rightarrow> int \<Rightarrow> int \<Rightarrow> unit op" where
  "DispatchShard presign i shardID =
     bnd (ReleaseStore_GetByID i) (\<lambda>rel.
     seq_eff (start_dispatch i (r_status rel))
    (seq_eff (ignore (UpdateShardStatus shardID ''dispatching''))
    (case r_artifact_id rel of
       None \<Rightarrow> throw (ErrMsg ''release has no artifact_id'')
     | Some artID \<Rightarrow>
         bnd (ArtifactStore_GetByID artID) (\<lambda>art. case af_manifest art of
           None \<Rightarrow> throw (ErrMsg ''unmarshal manifest'')
         | Some m \<Rightarrow>
             bnd (attempt (stmt (ret (presign (artifact_prefix m art @ ''/manifest.json'') 7200)))) (\<lambda>signed.
             seq_eff (dispatch_items rel artID
                        (case signed of Inl e \<Rightarrow> af_storage_uri art | Inr u \<Rightarrow> u) m shardID)
            (seq_eff (ignore (UpdateShardStatus shardID ''running''))
                (ignore (enqueue (FinalizeJob i shardID 0 False 0) 0 60 ''release'' 10))))))))"

section \<open>Finalize\<close>

definition maxFinalizeRetries :: int where
  "maxFinalizeRetries = 360"

definition in_progress :: "agent_task_stats \<Rightarrow> int" where
  "in_progress s = st_pending s + st_claimed s + st_running s"

definition has_failed :: "agent_task_stats \<Rightarrow> int \<Rightarrow> bool" where
  "has_failed s retryNum \<longleftrightarrow> st_failed s > 0 \<or> st_timeout s > 0 \<or>
     (in_progress s > 0 \<and> retryNum \<ge> maxFinalizeRetries)"

definition fail_reason :: "agent_task_stats \<Rightarrow> int \<Rightarrow> string" where
  "fail_reason s retryNum = ''failed='' @ show_int (st_failed s) @ '' timeout='' @
     show_int (st_timeout s) @ '' timed_out='' @ show_bool (retryNum \<ge> maxFinalizeRetries)"

text \<open>\<open>allShards, _ := s.releases.ListShards(...)\<close>: an error leaves the nil slice.\<close>

definition all_shards :: "int \<Rightarrow> shard_row list op" where
  "all_shards i = bnd (attempt (ListShards i)) (\<lambda>r. ret (case r of Inl e \<Rightarrow> [] | Inr shs \<Rightarrow> shs))"

definition count_release :: "int \<Rightarrow> agent_task_stats \<Rightarrow> unit op" where
  "count_release i s =
     seq_eff (ignore (IncrementSuccessBy i (st_succeeded s)))
       (ignore (IncrementFailureBy i (st_failed s + st_timeout s)))"

definition mark_shards :: "shard_row list \<Rightarrow> string \<Rightarrow> unit op" where
  "mark_shards shs status = for_each shs (\<lambda>sh. ignore (UpdateShardStatus (sh_id sh) status))"

definition count_shards :: "shard_row list \<Rightarrow> agent_task_stats \<Rightarrow> unit op" where
  "count_shards shs s = for_each shs (\<lambda>sh.
     ignore (UpdateShardCounts (sh_id sh) (st_succeeded s) (st_failed s + st_timeout s)))"

definition complete_record :: "int \<Rightarrow> bool \<Rightarrow> unit op" where
  "complete_record rec ok = (if rec > 0 then ignore (RollbackStore_Complete rec ok) else ret ())"

definition finalize_rollback :: "int \<Rightarrow> agent_task_stats \<Rightarrow> int \<Rightarrow> int \<Rightarrow> unit op" where
  "finalize_rollback i s retryNum rec =
     seq_eff (count_release i s)
    (bnd (all_shards i) (\<lambda>shs.
     seq_eff (count_shards shs s)
    (seq_eff (if has_failed s retryNum
              then seq_eff (TransitionRelease i ''rolling_back'' ''failed'' (fail_reason s retryNum) ''system'')
                  (seq_eff (mark_shards shs ''failed'') (complete_record rec False))
              else seq_eff (TransitionRelease i ''rolling_back'' ''rolled_back''
                     ''all rollback tasks completed'' ''system'')
                  (seq_eff (mark_shards shs ''succeeded'') (complete_record rec True)))
       (ignore (SetEndedAt i)))))"

definition shard_reason :: "int \<Rightarrow> agent_task_stats \<Rightarrow> int \<Rightarrow> string" where
  "shard_reason sh s retryNum = ''shard '' @ show_int sh @ '': '' @ fail_reason s retryNum"

text \<open>After a successful shard: dispatch the next pending one or finish the release.\<close>

definition advance_release :: "int \<Rightarrow> int \<Rightarrow> unit op" where
  "advance_release i shardID =
     bnd (attempt (GetShardByID shardID)) (\<lambda>cur.
     bnd (attempt (GetNextPendingShard i (case cur of Inl e \<Rightarrow> 0 | Inr sh \<Rightarrow> sh_index sh))) (\<lambda>nxt.
       case nxt of
         Inr (Some n) \<Rightarrow> ignore (enqueue (DispatchJob i (sh_id n)) 3 120 ''release'' 0)
       | _ \<Rightarrow> seq_eff (TransitionRelease i ''executing'' ''succeeded'' ''all shards completed'' ''system'')
                (ignore (SetEndedAt i))))"

definition finalize_shard :: "int \<Rightarrow> int \<Rightarrow> agent_task_stats \<Rightarrow> int \<Rightarrow> unit op" where
  "finalize_shard i shardID s retryNum =
     seq_eff (ignore (UpdateShardCounts shardID (st_succeeded s) (st_failed s + st_timeout s)))
    (seq_eff (count_release i s)
    (if has_failed s retryNum
     then seq_eff (ignore (UpdateShardStatus shardID ''failed''))
         (seq_eff (TransitionRelease i ''executing'' ''failed'' (shard_reason shardID s retryNum) ''system'')
            (ignore (SetEndedAt i)))
     else seq_eff (ignore (UpdateShardStatus shardID ''succeeded''))
            (advance_release i shardID)))"

definition finalize_legacy :: "int \<Rightarrow> agent_task_stats \<Rightarrow> int \<Rightarrow> unit op" where
  "finalize_legacy i s retryNum =
     seq_eff (count_release i s)
    (bnd (all_shards i) (\<lambda>shs.
     seq_eff (count_shards shs s)
    (seq_eff (if has_failed s retryNum
              then seq_eff (TransitionRelease i ''executing'' ''failed'' (fail_reason s retryNum) ''system'')
                     (mark_shards shs ''failed'')
              else seq_eff (TransitionRelease i ''executing'' ''succeeded'' ''all tasks completed'' ''system'')
                     (mark_shards shs ''succeeded''))
       (ignore (SetEndedAt i)))))"

definition Finalize :: "int \<Rightarrow> int \<Rightarrow> int \<Rightarrow> bool \<Rightarrow> int \<Rightarrow> unit op" where
  "Finalize i shardID retryNum isRollback rec =
     bnd (ReleaseStore_GetByID i) (\<lambda>rel.
       if r_status rel \<noteq> (if isRollback then ''rolling_back'' else ''executing'') then ret ()
       else bnd (if \<not> isRollback \<and> shardID > 0 then GetAgentTaskStatsByShard shardID
                 else GetAgentTaskStatsByRelease i) (\<lambda>s.
         if in_progress s > 0 \<and> retryNum < maxFinalizeRetries
         then ignore (enqueue (FinalizeJob i shardID (retryNum + 1) isRollback rec) 0 60
                (if isRollback then ''critical'' else ''release'') 10)
         else if isRollback then finalize_rollback i s retryNum rec
         else if shardID > 0 then finalize_shard i shardID s retryNum
         else finalize_legacy i s retryNum))"

section \<open>Pause, resume, cancel, reads\<close>

definition Pause :: "int \<Rightarrow> string \<Rightarrow> string \<Rightarrow> unit op" where
  "Pause i reason by = TransitionRelease i ''executing'' ''paused'' reason by"

definition Resume :: "int \<Rightarrow> string \<Rightarrow> unit op" where
  "Resume i by = TransitionRelease i ''paused'' ''executing'' ''resumed'' by"

definition Cancel :: "int \<Rightarrow> string \<Rightarrow> string \<Rightarrow> unit op" where
  "Cancel i reason by =
     bnd (ReleaseStore_GetByID i) (\<lambda>rel.
       if \<not> CanReleaseTransition (r_status rel) ''cancelled'' then throw ErrInvalidReleaseState
       else seq_eff (TransitionRelease i (r_status rel) ''cancelled'' reason by)
              (ignore (SetEndedAt i)))"

definition Release_List :: "int \<Rightarrow> int \<Rightarrow> int \<Rightarrow> (release_row list \<times> int \<times> int) op" where
  "Release_List p cursor limit =
     bnd (ReleaseStore_ListByProject p cursor limit) (\<lambda>items.
     bnd (ReleaseStore_CountByProject p) (\<lambda>n.
       ret (items, n, if length items > 0 then r_id (last items) else 0)))"

definition Release_GetHistory :: "int \<Rightarrow> history_row list op" where
  "Release_GetHistory i = ReleaseStore_GetHistory i 100"

section \<open>Rollback\<close>

definition Rollback :: "int \<Rightarrow> string \<Rightarrow> string \<Rightarrow> unit op" where
  "Rollback i reason by =
     bnd (ReleaseStore_GetByID i) (\<lambda>rel.
       if \<not> CanReleaseTransition (r_status rel) ''rolling_back'' then throw ErrRollbackNotAllowed
       else bnd (attempt (GetLastSucceeded (r_project_id rel) i)) (\<lambda>found. case found of
         Inl e \<Rightarrow> throw (if e = ErrReleaseNotFound then ErrNoPreviousRelease else e)
       | Inr prev \<Rightarrow> (case r_artifact_id prev of
           None \<Rightarrow> throw ErrNoPreviousRelease
         | Some art \<Rightarrow>
             bnd (attempt (RollbackStore_Create i (r_id prev) art ''release'' reason)) (\<lambda>rec.
             seq_eff (TransitionRelease i (r_status rel) ''rolling_back''
                        (''rollback initiated: '' @ reason) by)
               (ignore (enqueue (RollbackJob i art by (case rec of Inl e \<Rightarrow> 0 | Inr r \<Rightarrow> r))
                  2 300 ''critical'' 0))))))"

definition rollback_agents :: "int \<Rightarrow> string \<Rightarrow> int \<Rightarrow> agent_task_row list \<Rightarrow> int list op" where
  "rollback_agents i by rec existing =
     (let agentIDs = rev (remdups (rev (map t_agent_id existing))) in
      if length agentIDs = 0
      then bnd (attempt ListOnlineAgents) (\<lambda>r. case r of
             Inr (a # as) \<Rightarrow> ret (map a_id (a # as))
           | _ \<Rightarrow> seq_eff (ignore (TransitionRelease i ''rolling_back'' ''failed''
                     ''no agents available for rollback'' by))
                  (seq_eff (complete_record rec False)
                     (throw (ErrMsg ''no agents available for rollback''))))
      else ret agentIDs)"

definition rollback_envelope :: "string \<Rightarrow> task_envelope" where
  "rollback_envelope relID = \<lparr>e_task_id = [], e_type = ''rollback'', e_release_id = relID,
     e_artifact_url = [], e_manifest = zero_manifest, e_domains = [], e_deploy_path = [],
     e_nginx_path = [], e_allow_reload = False, e_defer_reload = False, e_verify = zero_verify,
     e_target_release_id = relID\<rparr>"

definition rollback_task_id :: "string \<Rightarrow> int \<Rightarrow> string" where
  "rollback_task_id relID a = ''rollback-'' @ relID @ ''-agent'' @ show_int a"

definition rollback_task :: "string \<Rightarrow> int \<Rightarrow> int \<Rightarrow> int \<Rightarrow> agent_task_row" where
  "rollback_task relID dt art a = \<lparr>t_id = 0, t_task_id = rollback_task_id relID a,
     t_domain_task_id = dt, t_agent_id = a, t_artifact_id = art, t_artifact_url = None,
     t_payload = rollback_envelope relID, t_status = [], t_claimed_at = None, t_ended_at = None,
     t_duration_ms = None, t_last_error = None, t_created_at = 0\<rparr>"

definition ExecuteRollback :: "int \<Rightarrow> int \<Rightarrow> string \<Rightarrow> int \<Rightarrow> unit op" where
  "ExecuteRollback i art by rec =
     bnd (ReleaseStore_GetByID i) (\<lambda>rel.
       if r_status rel \<noteq> ''rolling_back'' then ret ()
       else bnd (ListAgentTasksByRelease i) (\<lambda>existing.
         bnd (rollback_agents i by rec existing) (\<lambda>agentIDs.
         bnd (attempt (DomainTask_ListByRelease i)) (\<lambda>dts. case dts of
           Inr (dt # _) \<Rightarrow>
             seq_eff (for_each agentIDs (\<lambda>a.
                        ignore (CreateAgentTask (rollback_task (r_release_id rel) (dt_id dt) art a))))
            (seq_eff (ignore (SetStartedAt i))
               (ignore (enqueue (FinalizeJob i 0 0 True rec) 0 60 ''critical'' 10)))
         | _ \<Rightarrow> throw (ErrMsg ''no domain tasks for release'')))))"

section \<open>The queue handlers\<close>

text \<open>
  internal/release/handler.go: each handler decodes its payload and calls the service. The
  build job belongs to the artifact component.
\<close>

definition process_release_job :: "(string \<Rightarrow> int \<Rightarrow> string) \<Rightarrow> job \<Rightarrow> unit op" where
  "process_release_job presign j = (case j of
       PlanJob rel ids strategy \<Rightarrow> Plan rel strategy
     | DispatchJob rel sh \<Rightarrow> DispatchShard presign rel sh
     | FinalizeJob rel sh n rb rec \<Rightarrow> Finalize rel sh n rb rec
     | RollbackJob rel art by rec \<Rightarrow> ExecuteRollback rel art by rec
     | _ \<Rightarrow> ret ())"

section \<open>What every method of the service keeps\<close>

text \<open>
  The statements the service is built from, as the interface of a preorder on worlds: it
  must tolerate writes to the tables the service owns, updates of a release row that leave
  its key, name, template version and status alone, and the transition method. Everything the service does
  then keeps the preorder; only \<open>Create\<close> is treated per preorder, because its history row is
  justified by the row it has just inserted.
\<close>

locale release_preorder = store_preorder R for R :: "world \<Rightarrow> world \<Rightarrow> bool" +
  assumes R_scopes: "R w (w\<lparr>scopes := x1\<rparr>)" and R_shards: "R w (w\<lparr>shards := x2\<rparr>)"
    and R_domain_tasks: "R w (w\<lparr>domain_tasks := x3\<rparr>)" and R_rollbacks: "R w (w\<lparr>rollbacks := x4\<rparr>)"
    and R_agent_tasks: "R w (w\<lparr>agent_tasks := x5\<rparr>)" and R_task_queue: "R w (w\<lparr>task_queue := x6\<rparr>)"
    and k_transition: "keeps R (TransitionRelease i f t rs b)"
    and k_update: "(\<And>n r. r_id (upd n r) = r_id r) \<Longrightarrow> (\<And>n r. r_release_id (upd n r) = r_release_id r) \<Longrightarrow>
      (\<And>n r. r_template_version_id (upd n r) = r_template_version_id r) \<Longrightarrow>
      (\<And>n r. r_status (upd n r) = r_status r) \<Longrightarrow> keeps R (update_release i upd)"
begin

lemmas k_tables = R_scopes R_shards R_domain_tasks R_rollbacks R_agent_tasks R_task_queue

lemma k_trans [eff_intro]: "keeps R (TransitionRelease i f t rs b)"
  by (rule k_transition)

lemma k_enqueue [eff_intro]: "keeps R (enqueue j r t q d)"
  by (rule keeps_enqueue) (rule R_task_queue)

lemma k_release_updates [eff_intro]:
  "keeps R (SetArtifactID i a)" "keeps R (SetTotals i td ts)" "keeps R (SetStartedAt i)"
  "keeps R (SetEndedAt i)" "keeps R (IncrementSuccessBy i n)" "keeps R (IncrementFailureBy i n)"
  unfolding SetArtifactID_def SetTotals_def SetStartedAt_def SetEndedAt_def
    IncrementSuccessBy_def IncrementFailureBy_def
  by (intro eff_intro k_update; simp)+

lemma k_CreateScope [eff_intro]: "keeps R (CreateScope rel d hg)"
  unfolding CreateScope_def by (rule keeps_exec_unless) (rule R_scopes)

lemma k_CreateShard [eff_intro]: "keeps R (CreateShard rel idx c n)"
  unfolding CreateShard_def
  by (intro keeps_stmt keepsI) (simp add: final_def R_shards R_refl)

lemma k_shard_updates [eff_intro]: "keeps R (UpdateShardStatus i s)" "keeps R (UpdateShardCounts i x y)"
  unfolding UpdateShardStatus_def UpdateShardCounts_def by (intro keeps_exec R_shards)+

lemma k_domain_tasks [eff_intro]: "keeps R (CreateBatch ts)" "keeps R (DomainTask_UpdateStatus i s e)"
  unfolding CreateBatch_def DomainTask_UpdateStatus_def
  by (intro eff_intro keeps_exec R_domain_tasks)+

lemma k_rollback_records [eff_intro]:
  "keeps R (RollbackStore_Create i p a sc rs)" "keeps R (RollbackStore_Complete rec ok)"
  unfolding RollbackStore_Create_def RollbackStore_Complete_def
  by (intro keeps_stmt keepsI keeps_exec R_rollbacks; simp add: final_def R_rollbacks)+

lemma k_CreateAgentTask [eff_intro]: "keeps R (CreateAgentTask t)"
  unfolding CreateAgentTask_def by (rule keeps_exec_unless) (rule R_agent_tasks)

lemma k_reads [eff_intro]:
  "keeps R (ReleaseStore_GetByID i)" "keeps R (GetVersion v)" "keeps R (ListScopes i)"
  "keeps R (ListShards i)" "keeps R (GetShardByID i)" "keeps R (GetNextPendingShard i n)"
  "keeps R (ListByShard i)" "keeps R (DomainTask_ListByRelease i)" "keeps R (ArtifactStore_GetByID i)"
  "keeps R (GetLastSucceeded p i)" "keeps R (DomainStore_GetByID i)" "keeps R (ListActiveByProject p)"
  "keeps R ListOnlineAgents" "keeps R (ListOnlineByHostGroup h)" "keeps R (HostGroupStore_GetByID h)"
  "keeps R (GetAgentTaskStatsByShard i)" "keeps R (GetAgentTaskStatsByRelease i)"
  "keeps R (ListAgentTasksByRelease i)"
  unfolding ReleaseStore_GetByID_def GetVersion_def ListScopes_def ListShards_def GetShardByID_def
    GetNextPendingShard_def ListByShard_def DomainTask_ListByRelease_def ArtifactStore_GetByID_def
    GetLastSucceeded_def DomainStore_GetByID_def ListActiveByProject_def ListOnlineAgents_def
    ListOnlineByHostGroup_def HostGroupStore_GetByID_def GetAgentTaskStatsByShard_def
    GetAgentTaskStatsByRelease_def ListAgentTasksByRelease_def
  by (rule keeps_query keeps_query_one)+

lemma k_resolve_scope [eff_intro]: "keeps R (resolve_scope inp)"
  unfolding resolve_scope_def by (intro eff_intro)

lemma k_fail_plan [eff_intro]: "keeps R m \<Longrightarrow> keeps R (fail_plan i rs m)"
  unfolding fail_plan_def by (intro eff_intro)

lemma k_Plan [eff_intro]: "keeps R (Plan i st)"
  unfolding Plan_def plan_input_def create_planned_shard_def Let_def by (intro eff_intro)

lemma k_MarkReady [eff_intro]: "keeps R (MarkReady i a)"
  unfolding MarkReady_def by (intro eff_intro)

lemma k_select_agent [eff_intro]: "keeps R (select_agent as i hg)"
  unfolding select_agent_def Let_def by (intro eff_intro)

lemma k_fetch_groups [eff_intro]: "keeps R (fetch_groups hgs gs)"
  by (induction hgs gs rule: fetch_groups.induct)
    (auto intro!: eff_intro split: option.split)

lemma k_DispatchShard [eff_intro]: "keeps R (DispatchShard presign i sh)"
  unfolding DispatchShard_def start_dispatch_def dispatch_items_def dispatch_task_def persist_task_def
  by (intro eff_intro)

lemma k_Finalize [eff_intro]: "keeps R (Finalize i sh n rb rec)"
  unfolding Finalize_def finalize_rollback_def finalize_shard_def finalize_legacy_def
    advance_release_def count_release_def all_shards_def mark_shards_def count_shards_def
    complete_record_def
  by (intro eff_intro)

lemma k_Cancel [eff_intro]: "keeps R (Cancel i rs b)"
  unfolding Cancel_def by (intro eff_intro)

lemma k_Pause [eff_intro]: "keeps R (Pause i rs b)" and k_Resume [eff_intro]: "keeps R (Resume i b)"
  unfolding Pause_def Resume_def by (rule k_transition)+

lemma k_Rollback [eff_intro]: "keeps R (Rollback i rs b)"
  unfolding Rollback_def by (intro eff_intro)

lemma k_ExecuteRollback [eff_intro]: "keeps R (ExecuteRollback i a b rec)"
  unfolding ExecuteRollback_def rollback_agents_def complete_record_def Let_def by (intro eff_intro)

lemma k_process_release_job [eff_intro]: "keeps R (process_release_job presign j)"
  unfolding process_release_job_def
  by (cases j) (simp_all add: k_Plan k_DispatchShard k_Finalize k_ExecuteRollback keeps_ret)

end

section \<open>The invariant of releases\<close>

definition rel_status :: "world \<Rightarrow> int \<Rightarrow> string option" where
  "rel_status w = (\<lambda>i. map_option r_status (tbl_get r_id (releases w) i))"

definition rel_wf :: "world \<Rightarrow> bool" where
  "rel_wf w \<longleftrightarrow> wf_tbl r_id (releases w) \<and> distinct (map r_release_id (rows (releases w)))"

definition release_inv :: "world \<Rightarrow> bool" where
  "release_inv w \<longleftrightarrow> rel_wf w \<and>
     audit_trail validReleaseTransitions ''pending'' (rel_status w) (rows (release_history w))"

text \<open>Along every method the invariant is kept and releases only move along the graph.\<close>

definition rel_step :: "world \<Rightarrow> world \<Rightarrow> bool" where
  "rel_step w w' \<longleftrightarrow> (release_inv w \<longrightarrow>
     release_inv w' \<and> moves validReleaseTransitions (rel_status w) (rel_status w'))"

lemmas rel_defs = release_inv_def rel_wf_def rel_status_def

interpretation relm: table_machine validReleaseTransitions "''pending''" releases releases_update
  release_history release_history_update r_id r_status "\<lambda>n s r. r\<lparr>r_status := s\<rparr>" is_release
  ErrInvalidReleaseState ErrReleaseNotFound ErrReleaseRaceCondition TransitionRelease
  unfolding TransitionRelease_def [abs_def] CanReleaseTransition_def ReleaseStore_TransitionTx_def
    updateReleaseStatusTx_def insertReleaseStateHistoryTx_def
  by unfold_locales (simp_all add: is_release_def)

lemma rel_wf_update:
  "rel_wf w \<Longrightarrow> (\<And>r. r_id (f r) = r_id r) \<Longrightarrow> (\<And>r. r_release_id (f r) = r_release_id r) \<Longrightarrow>
   rel_wf (w\<lparr>releases := tbl_update p f (releases w)\<rparr>)"
  by (simp add: rel_wf_def wf_update) (simp add: tbl_update_def comp_def if_distrib cong: if_cong)

lemma rel_status_update:
  assumes "\<And>r. r_id (f r) = r_id r" "\<And>r. r_status (f r) = r_status r"
  shows "rel_status (w\<lparr>releases := tbl_update p f (releases w)\<rparr>) = rel_status w"
  using assms by (auto simp: rel_status_def tbl_get_update option.map_comp comp_def fun_eq_iff
      if_distrib cong: if_cong)

lemma rel_TransitionRelease: "keeps rel_step (TransitionRelease i f t rs b)"
proof (rule keepsI)
  fix w
  have "rel_wf (final (TransitionRelease i f t rs b) w)" if "rel_wf w"
    using that rel_wf_update [of w "\<lambda>r. r\<lparr>r_status := t\<rparr>" "\<lambda>r. r_id r = i"]
    by (simp add: rel_wf_def relm.trans_tab)
  then show "rel_step w (final (TransitionRelease i f t rs b) w)"
    using relm.trans_audit [of w i f t rs b] relm.trans_moves [of w i f t rs b]
    by (simp add: rel_step_def release_inv_def rel_status_def [abs_def]) (simp add: rel_wf_def)
qed

lemma rel_other:
  assumes "\<And>w. releases (f w) = releases w" and "\<And>w. release_history (f w) = release_history w"
  shows "rel_step w (f w)"
  using assms by (simp add: rel_step_def rel_defs moves_refl)

interpretation rels: store_preorder rel_step
  by unfold_locales (auto simp: rel_step_def moves_refl rel_defs intro: moves_trans)

lemma rel_update:
  assumes "\<And>r. r_id (f r) = r_id r" "\<And>r. r_release_id (f r) = r_release_id r"
    "\<And>r. r_status (f r) = r_status r"
  shows "rel_step w (w\<lparr>releases := tbl_update p f (releases w)\<rparr>)"
  using assms rel_wf_update [of w f p]
  by (simp add: rel_step_def release_inv_def rel_status_update moves_refl)

interpretation rel: release_preorder rel_step
proof unfold_locales
  fix i and upd :: "int \<Rightarrow> release_row \<Rightarrow> release_row"
  assume upd: "\<And>n r. r_id (upd n r) = r_id r" "\<And>n r. r_release_id (upd n r) = r_release_id r"
    "\<And>n r. r_status (upd n r) = r_status r"
  then show "keeps rel_step (update_release i upd)"
    unfolding update_release_def by (intro rels.keeps_exec rel_update) simp_all
qed (rule rel_TransitionRelease | rule rel_other; simp)+

text \<open>Creation: the row starts its trail in the pending state, then the history row records it.\<close>

definition same_releases :: "world \<Rightarrow> world \<Rightarrow> bool" where
  "same_releases w w' \<longleftrightarrow> releases w' = releases w \<and> release_history w' = release_history w"

interpretation same_rel: store_preorder same_releases
  by unfold_locales (auto simp: same_releases_def)

lemma same_CreateScope: "keeps same_releases (CreateScope rel d hg)"
  unfolding CreateScope_def by (rule same_rel.keeps_exec_unless) (simp add: same_releases_def)

lemma same_enqueue: "keeps same_releases (enqueue j r t q d)"
  unfolding enqueue_def by (rule same_rel.keeps_exec) (simp add: same_releases_def)

definition since :: "(int \<Rightarrow> string option) \<Rightarrow> world \<Rightarrow> bool" where
  "since st0 w \<longleftrightarrow> release_inv w \<and> moves validReleaseTransitions st0 (rel_status w)"

lemma since_faults [simp]: "since st0 (w\<lparr>faults := fs\<rparr>) = since st0 w"
  "rel_status (w\<lparr>faults := fs\<rparr>) = rel_status w"
  by (simp_all add: since_def rel_defs)

lemma since_same: "same_releases w w' \<Longrightarrow> since st0 w \<Longrightarrow> since st0 w'"
  and status_same: "same_releases w w' \<Longrightarrow> rel_status w' = rel_status w"
  by (simp_all add: same_releases_def since_def rel_defs)

lemma new_release_simps [simp]: "r_id (new_release r t i) = i" "r_status (new_release r t i) = ''pending''"
  "r_release_id (new_release r t i) = r_release_id r"
  by (simp_all add: new_release_def)

lemma insert_release_since:
  assumes w: "since st0 w" and new: "\<not> list_ex (\<lambda>x. r_release_id x = r_release_id r) (rows (releases w))"
  shows "since st0 (w\<lparr>releases := tbl_insert (new_release r t) (releases w)\<rparr>) \<and>
    rel_status (w\<lparr>releases := tbl_insert (new_release r t) (releases w)\<rparr>) (seq (releases w) + 1) = Some ''pending''"
proof -
  let ?w = "w\<lparr>releases := tbl_insert (new_release r t) (releases w)\<rparr>"
  let ?i = "seq (releases w) + 1"
  have inv: "release_inv w" and wf: "wf_tbl r_id (releases w)"
    using w by (simp_all add: since_def release_inv_def rel_wf_def)
  have st: "rel_status ?w = (rel_status w)(?i \<mapsto> ''pending'')"
    using wf by (auto simp: rel_status_def tbl_get_insert)
  have fresh: "rel_status w ?i = None"
    using wf tbl_get_SomeD [of r_id "releases w" ?i]
    by (cases "tbl_get r_id (releases w) ?i") (auto simp: rel_status_def wf_tbl_def)
  have "rel_wf ?w"
    using inv new wf_insert [OF wf, of "new_release r t"]
    by (auto simp: release_inv_def rel_wf_def list_ex_iff tbl_insert_def)
  moreover have "audit_trail validReleaseTransitions ''pending''
      ((rel_status w)(?i \<mapsto> ''pending'')) (rows (release_history w))"
    using inv fresh by (intro audit_trail_create) (simp_all add: release_inv_def)
  moreover have "moves validReleaseTransitions st0 (rel_status ?w)"
    unfolding st using w fresh moves_new moves_trans by (fastforce simp: since_def)
  ultimately show ?thesis by (simp add: since_def release_inv_def st)
qed

lemma Create_since:
  "hoare (since st0) (ReleaseStore_Create r)
     (\<lambda>c w. since st0 w \<and> rel_status w (r_id c) = Some ''pending'') (since st0)"
  unfolding ReleaseStore_Create_def
proof (rule hoare_stmt)
  show "hoare (since st0) (\<lambda>w. if list_ex (\<lambda>x. r_release_id x = r_release_id r) (rows (releases w))
      then (Inl (ErrUnique ''uq_releases_release_id''), w)
      else if \<not> valid_release_type (r_release_type r) then (Inl (ErrCheck ''chk_releases_type''), w)
      else (Inr (new_release r (now w) (seq (releases w) + 1)),
            w\<lparr>releases := tbl_insert (new_release r (now w)) (releases w)\<rparr>))
     (\<lambda>c w. since st0 w \<and> rel_status w (r_id c) = Some ''pending'') (since st0)"
    using insert_release_since by (auto simp: hoare_def result_def final_def)
qed auto

lemma insert_initial_since:
  "hoare (\<lambda>w. since st0 w \<and> rel_status w i = Some ''pending'')
     (transaction (insertInitialReleaseHistory i b)) (\<lambda>_. since st0) (since st0)"
proof (rule hoare_transaction)
  show "hoare (\<lambda>w. since st0 w \<and> rel_status w i = Some ''pending'')
     (insertInitialReleaseHistory i b) (\<lambda>_. since st0) (since st0)"
    unfolding insertInitialReleaseHistory_def
  proof (rule hoare_exec)
    fix w assume w: "since st0 w \<and> rel_status w i = Some ''pending''"
    have "audit_trail validReleaseTransitions ''pending'' (rel_status w) (rows (release_history w) @
        [new_history i None ''pending'' ''release created'' b (now w) (seq (release_history w) + 1)])"
      using w by (intro audit_trail_created_row) (simp_all add: since_def release_inv_def new_history_def)
    then show "since st0 (w\<lparr>release_history :=
        tbl_insert (new_history i None ''pending'' ''release created'' b (now w)) (release_history w)\<rparr>)"
      using w by (simp add: since_def rel_defs tbl_insert_def)
  qed auto
qed auto

lemma Create_tail_since:
  "hoare (\<lambda>w. since st0 w \<and> rel_status w (r_id rel) = Some ''pending'')
     (seq_eff (for_each ds (\<lambda>did. ignore (CreateScope (r_id rel) did None)))
     (seq_eff (ignore (transaction (insertInitialReleaseHistory (r_id rel) b)))
     (seq_eff (ignore (enqueue j r t q d)) (ret rel)))) (\<lambda>_. since st0) (since st0)"
proof (intro hoare_seq)
  let ?P = "\<lambda>w. since st0 w \<and> rel_status w (r_id rel) = Some ''pending''"
  have "hoare ?P (for_each ds (\<lambda>did. ignore (CreateScope (r_id rel) did None))) (\<lambda>_. ?P) ?P"
    by (rule hoare_frame [where S = same_releases])
      (auto intro: same_rel.keeps_for_each same_rel.keeps_ignore same_CreateScope
        simp: since_same status_same)
  then show "hoare ?P (for_each ds (\<lambda>did. ignore (CreateScope (r_id rel) did None))) (\<lambda>_. ?P) (since st0)"
    by (rule hoare_post) auto
  show "hoare ?P (ignore (transaction (insertInitialReleaseHistory (r_id rel) b))) (\<lambda>_. since st0) (since st0)"
    by (rule hoare_ignore) (rule insert_initial_since)
  show "hoare (since st0) (ignore (enqueue j r t q d)) (\<lambda>_. since st0) (since st0)"
    by (rule hoare_frame [where S = same_releases])
      (auto intro: same_rel.keeps_ignore same_enqueue simp: since_same)
  show "hoare (since st0) (ret rel) (\<lambda>_. since st0) (since st0)"
    by (rule hoare_ret)
qed

lemma since_of_keeps: "keeps rel_step m \<Longrightarrow> hoare (since st0) m (\<lambda>_. since st0) (since st0)"
  by (rule hoare_frame [where S = rel_step]) (auto simp: rel_step_def since_def intro: moves_trans)

lemma rel_Create [eff_intro]: "keeps rel_step (Create sha inp)"
proof (rule keepsI)
  fix w
  have "hoare (since st0) (Create sha inp) (\<lambda>_. since st0) (since st0)" for st0
    unfolding Create_def
    by (rule hoare_bnd [OF since_of_keeps], intro eff_intro, rule hoare_if, rule hoare_throw, assumption,
        rule hoare_bnd [OF since_of_keeps], intro eff_intro, rule hoare_if, rule hoare_throw, assumption,
        rule hoare_bnd [OF since_of_keeps], intro eff_intro, rule hoare_bnd [OF Create_since],
        rule Create_tail_since)
  from hoareD [OF this, of "rel_status w" w] show "rel_step w (final (Create sha inp) w)"
    by (auto simp: rel_step_def since_def moves_refl split: sum.splits)
qed

end
