(* ===== verification/Finalization.thy ===== *)
theory Finalization
  imports Release_Service
begin

text \<open>
  How a release ends (internal/release/service.go, Finalize, Pause, Resume, Cancel): the verdict
  of the finaliser as a function of the tasks it finds, that polling for completion is
  bounded, and what the code does not guarantee. The statements are about databases that
  answer; the invariants under faults are those of the release service.
\<close>

section \<open>Triples over the states of releases\<close>

text \<open>\<open>at_st st w\<close>: the database answers, the table is well-formed, the releases are in states \<open>st\<close>.\<close>

definition at_st :: "(int \<Rightarrow> string option) \<Rightarrow> world \<Rightarrow> bool" where
  "at_st st w \<longleftrightarrow> faults w = [] \<and> rel_wf w \<and> rel_status w = st"

abbreviation goes :: "(int \<Rightarrow> string option) \<Rightarrow> 'a op \<Rightarrow> (int \<Rightarrow> string option) \<Rightarrow> bool" where
  "goes st m st' \<equiv> hoare (at_st st) m (\<lambda>_. at_st st') (\<lambda>_. False)"

lemma goesD: "goes st m st' \<Longrightarrow> at_st st w \<Longrightarrow> (\<exists>a. result m w = Inr a) \<and> at_st st' (final m w)"
  by (auto dest!: hoareD split: sum.splits)

lemma goes_bnd: "goes st m st' \<Longrightarrow> (\<And>a. goes st' (k a) st'') \<Longrightarrow> goes st (bnd m k) st''"
  by (rule hoare_bnd)

lemma goes_seq: "goes st m st' \<Longrightarrow> goes st' n st'' \<Longrightarrow> goes st (seq_eff m n) st''"
  by (rule hoare_seq)

text \<open>Special cases that fix the middle state: before, or after, the states change.\<close>

lemma goes_then: "goes st m st \<Longrightarrow> goes st n st' \<Longrightarrow> goes st (seq_eff m n) st'"
  by (rule goes_seq)

lemma goes_bnd_then: "goes st m st \<Longrightarrow> (\<And>a. goes st (k a) st') \<Longrightarrow> goes st (bnd m k) st'"
  by (rule goes_bnd)

lemma goes_done: "goes st m st' \<Longrightarrow> goes st' n st' \<Longrightarrow> goes st (seq_eff m n) st'"
  by (rule goes_seq)

lemma goes_ret: "goes st (ret a) st"
  by (rule hoare_ret)

lemma goes_exec:
  assumes "\<And>w. at_st st w \<Longrightarrow> at_st st (f w)"
  shows "goes st (exec f) st"
  using assms by (auto simp: hoare_def at_st_def)

lemma goes_query: "goes st (query f) st"
  by (auto simp: hoare_def at_st_def)

lemma goes_attempt: "goes st m st' \<Longrightarrow> goes st (attempt m) st'"
  by (rule hoare_attempt) (erule hoare_post; simp)

lemma goes_ignore: "goes st m st' \<Longrightarrow> goes st (ignore m) st'"
  by (rule hoare_ignore) (erule hoare_post; simp)

lemma goes_attempt_quiet:
  assumes "\<And>w. at_st st w \<Longrightarrow> at_st st (final m w)"
  shows "goes st (attempt m) st"
  using assms by (auto simp: hoare_def)

lemma goes_for_each: "(\<And>x. x \<in> set xs \<Longrightarrow> goes st (f x) st) \<Longrightarrow> goes st (for_each xs f) st"
  by (induction xs) (auto intro: goes_ret goes_seq)

lemma goes_if: "(b \<Longrightarrow> goes st m st') \<Longrightarrow> (\<not> b \<Longrightarrow> goes st n st') \<Longrightarrow> goes st (if b then m else n) st'"
  by (rule hoare_if)

text \<open>Writes beside the status column, and the transition itself.\<close>

lemma at_st_other:
  "\<lbrakk>at_st st w; releases w' = releases w; faults w' = faults w\<rbrakk> \<Longrightarrow> at_st st w'"
  by (simp add: at_st_def rel_wf_def rel_status_def)

lemma goes_update_release:
  assumes "\<And>n r. r_id (upd n r) = r_id r" "\<And>n r. r_release_id (upd n r) = r_release_id r"
    "\<And>n r. r_status (upd n r) = r_status r"
  shows "goes st (update_release i upd) st"
  unfolding update_release_def
  by (rule goes_exec) (use assms in \<open>simp add: at_st_def rel_wf_update rel_status_update\<close>)

lemma goes_quiet:
  "goes st (UpdateShardStatus sh s) st" "goes st (UpdateShardCounts sh x y) st"
  "goes st (RollbackStore_Complete rec ok) st" "goes st (enqueue j r t q d) st"
  "goes st (SetEndedAt i) st" "goes st (SetStartedAt i) st" "goes st (IncrementSuccessBy i n) st"
  "goes st (IncrementFailureBy i n) st"
  unfolding UpdateShardStatus_def UpdateShardCounts_def RollbackStore_Complete_def enqueue_def
    SetEndedAt_def SetStartedAt_def IncrementSuccessBy_def IncrementFailureBy_def
  by (auto intro!: goes_exec goes_if goes_ret goes_update_release elim: at_st_other)

lemma goes_transition:
  assumes "has_edge validReleaseTransitions f t" and "st i = Some f"
  shows "goes st (TransitionRelease i f t rs b) (st(i \<mapsto> t))"
proof (rule hoareI)
  fix w assume w: "at_st st w"
  then have wf: "rel_wf w" and calm: "faults w = []" and st: "rel_status w = st"
    by (simp_all add: at_st_def)
  obtain r where "tbl_find (is_release i) (releases w) = Some r" "r_status r = f"
    using st assms(2) by (auto simp: rel_status_def tbl_get_def is_release_def [abs_def])
  then have ok: "result (TransitionRelease i f t rs b) w = Inr ()"
    using relm.trans_calm(1) [OF calm] assms(1) by simp
  have "final (TransitionRelease i f t rs b) w =
      w\<lparr>releases := tbl_update (\<lambda>r. r_id r = i) (\<lambda>r. r\<lparr>r_status := t\<rparr>) (releases w),
        release_history := tbl_insert (new_history i (Some f) t rs b (now w)) (release_history w)\<rparr>"
    using relm.trans_calm(2) [OF calm, of i f t rs b] ok by simp
  then have "faults (final (TransitionRelease i f t rs b) w) = []"
    "rel_wf (final (TransitionRelease i f t rs b) w)"
    using calm wf rel_wf_update [of w "\<lambda>r. r\<lparr>r_status := t\<rparr>" "\<lambda>r. r_id r = i"] by (simp_all add: rel_wf_def)
  moreover have "rel_status (final (TransitionRelease i f t rs b) w) = st(i \<mapsto> t)"
    using relm.trans_ok [of w i f t rs b] wf ok st by (simp add: rel_wf_def rel_status_def [abs_def])
  ultimately show "case result (TransitionRelease i f t rs b) w of Inl e \<Rightarrow> False
      | Inr _ \<Rightarrow> at_st (st(i \<mapsto> t)) (final (TransitionRelease i f t rs b) w)"
    using ok by (simp add: at_st_def)
qed

lemma goes_loops:
  "goes st (count_release i s) st" "goes st (mark_shards shs x) st" "goes st (count_shards shs s) st"
  "goes st (complete_record rec ok) st" "goes st (all_shards i) st"
  unfolding count_release_def mark_shards_def count_shards_def complete_record_def all_shards_def
    ListShards_def
  by (intro goes_then goes_ignore goes_quiet goes_for_each goes_if goes_ret goes_bnd_then goes_attempt goes_query)+

lemma has_edges:
  "has_edge validReleaseTransitions ''rolling_back'' ''failed''"
  "has_edge validReleaseTransitions ''rolling_back'' ''rolled_back''"
  "has_edge validReleaseTransitions ''executing'' ''failed''"
  "has_edge validReleaseTransitions ''executing'' ''succeeded''"
  "has_edge validReleaseTransitions ''executing'' ''paused''"
  "has_edge validReleaseTransitions ''paused'' ''executing''"
  by (simp_all add: graph_defs)

lemma goes_finalize_rollback:
  assumes "st i = Some ''rolling_back''"
  shows "goes st (finalize_rollback i s n rec)
    (st(i \<mapsto> if has_failed s n then ''failed'' else ''rolled_back''))"
  unfolding finalize_rollback_def
proof (rule goes_then [OF goes_loops(1) goes_bnd_then [OF goes_loops(5)
      goes_then [OF goes_loops(3) goes_done [OF _ goes_ignore]]]])
  show "goes st (if has_failed s n
      then seq_eff (TransitionRelease i ''rolling_back'' ''failed'' (fail_reason s n) ''system'')
        (seq_eff (mark_shards shs ''failed'') (complete_record rec False))
      else seq_eff (TransitionRelease i ''rolling_back'' ''rolled_back'' ''all rollback tasks completed'' ''system'')
        (seq_eff (mark_shards shs ''succeeded'') (complete_record rec True)))
     (st(i \<mapsto> if has_failed s n then ''failed'' else ''rolled_back''))" for shs
    using assms by (auto intro!: goes_done goes_then [OF goes_loops(2)] goes_loops goes_transition has_edges)
qed (rule goes_quiet)

lemma goes_finalize_legacy:
  assumes "st i = Some ''executing''"
  shows "goes st (finalize_legacy i s n) (st(i \<mapsto> if has_failed s n then ''failed'' else ''succeeded''))"
  unfolding finalize_legacy_def
proof (rule goes_then [OF goes_loops(1) goes_bnd_then [OF goes_loops(5)
      goes_then [OF goes_loops(3) goes_done [OF _ goes_ignore]]]])
  show "goes st (if has_failed s n
      then seq_eff (TransitionRelease i ''executing'' ''failed'' (fail_reason s n) ''system'')
        (mark_shards shs ''failed'')
      else seq_eff (TransitionRelease i ''executing'' ''succeeded'' ''all tasks completed'' ''system'')
        (mark_shards shs ''succeeded''))
     (st(i \<mapsto> if has_failed s n then ''failed'' else ''succeeded''))" for shs
    using assms by (auto intro!: goes_done goes_then [OF goes_loops(2)] goes_loops goes_transition has_edges)
qed (rule goes_quiet)

section \<open>The next shard\<close>

lemma select_update_other:
  assumes "\<forall>r \<in> set (rows t). p r \<longrightarrow> \<not> q r \<and> \<not> q (f r)"
  shows "tbl_select q (tbl_update p f t) = tbl_select q t"
proof -
  have "filter q (map (\<lambda>r. if p r then f r else r) xs) = filter q xs"
    if "\<forall>r \<in> set xs. p r \<longrightarrow> \<not> q r \<and> \<not> q (f r)" for xs
    using that by (induction xs) auto
  with assms show ?thesis by (simp add: tbl_select_def tbl_update_def)
qed

definition shard_index :: "int \<Rightarrow> world \<Rightarrow> int" where
  "shard_index sh w = (case tbl_get sh_id (shards w) sh of None \<Rightarrow> 0 | Some r \<Rightarrow> sh_index r)"

text \<open>The shard the finaliser dispatches after \<open>sh\<close>.\<close>

definition next_shard :: "int \<Rightarrow> int \<Rightarrow> world \<Rightarrow> shard_row option" where
  "next_shard i sh w = next_pending_shard i (shard_index sh w) w"

lemma shard_rewrite:
  assumes "\<And>s. sh_id (g s) = sh_id s" "\<And>s. sh_index (g s) = sh_index s"
    and "wf_tbl sh_id (shards w)" and "shards w' = tbl_update (\<lambda>s. sh_id s = sh) g (shards w)"
  shows "next_shard i sh w' = next_shard i sh w" "wf_tbl sh_id (shards w')"
proof -
  have idx: "shard_index sh w' = shard_index sh w"
    using assms(1,2,4) by (simp add: shard_index_def tbl_get_update_key split: option.split)
  have "sh_index r = shard_index sh w" if "r \<in> set (rows (shards w))" "sh_id r = sh" for r
    using tbl_get_mem [OF assms(3) that(1)] that(2) by (simp add: shard_index_def)
  then have "tbl_select (\<lambda>s. sh_release_id s = i \<and> sh_index s > shard_index sh w \<and> sh_status s = ''pending'')
      (tbl_update (\<lambda>s. sh_id s = sh) g (shards w)) =
    tbl_select (\<lambda>s. sh_release_id s = i \<and> sh_index s > shard_index sh w \<and> sh_status s = ''pending'') (shards w)"
    using assms(2) by (intro select_update_other) auto
  then show "next_shard i sh w' = next_shard i sh w"
    by (simp add: next_shard_def next_pending_shard_def idx assms(4))
  show "wf_tbl sh_id (shards w')" using assms(1,3,4) by (simp add: wf_update)
qed

definition shard_ready ::
    "int \<Rightarrow> int \<Rightarrow> (int \<Rightarrow> string option) \<Rightarrow> shard_row option \<Rightarrow> world \<Rightarrow> bool" where
  "shard_ready i sh st nx w \<longleftrightarrow> at_st st w \<and> wf_tbl sh_id (shards w) \<and> next_shard i sh w = nx"

lemma shard_ready_same:
  "\<lbrakk>shard_ready i sh st nx w; shards w' = shards w; at_st st w'\<rbrakk> \<Longrightarrow> shard_ready i sh st nx w'"
  by (simp add: shard_ready_def next_shard_def shard_index_def next_pending_shard_def)

lemma shard_ready_rewrite:
  assumes "shard_ready i sh st nx w" and "\<And>s. sh_id (g s) = sh_id s" "\<And>s. sh_index (g s) = sh_index s"
  shows "shard_ready i sh st nx (w\<lparr>shards := tbl_update (\<lambda>s. sh_id s = sh) g (shards w)\<rparr>)"
  using assms shard_rewrite [where g = g and w = w and sh = sh and
      w' = "w\<lparr>shards := tbl_update (\<lambda>s. sh_id s = sh) g (shards w)\<rparr>"]
  by (auto simp: shard_ready_def elim: at_st_other)

lemma shard_ready_ops:
  assumes "shard_ready i sh st nx w"
  shows "shard_ready i sh st nx (final (UpdateShardCounts sh x y) w)"
    and "shard_ready i sh st nx (final (UpdateShardStatus sh status) w)"
    and "shard_ready i sh st nx (final (count_release i s) w)"
proof -
  have calm: "faults w = []" using assms by (simp add: shard_ready_def at_st_def)
  show "shard_ready i sh st nx (final (UpdateShardCounts sh x y) w)"
    using calm shard_ready_rewrite [OF assms] by (simp add: UpdateShardCounts_def)
  show "shard_ready i sh st nx (final (UpdateShardStatus sh status) w)"
    using calm shard_ready_rewrite [OF assms] by (simp add: UpdateShardStatus_def set_shard_status_def)
  have "at_st st (final (count_release i s) w)"
    using goesD [OF goes_loops(1)] assms by (auto simp: shard_ready_def)
  moreover have "shards (final (count_release i s) w) = shards w"
    using calm by (simp add: count_release_def IncrementSuccessBy_def IncrementFailureBy_def
        update_release_def eff_run)
  ultimately show "shard_ready i sh st nx (final (count_release i s) w)"
    using shard_ready_same [OF assms] by blast
qed

definition dispatches :: "int \<Rightarrow> shard_row \<Rightarrow> world \<Rightarrow> bool" where
  "dispatches i n w \<longleftrightarrow> DispatchJob i (sh_id n) \<in> q_job ` set (task_queue w)"

lemma advance_release_calm:
  assumes "shard_ready i sh st nx w" and "st i = Some ''executing''"
  shows "result (advance_release i sh) w = Inr () \<and>
    at_st (st(i \<mapsto> if nx = None then ''succeeded'' else ''executing'')) (final (advance_release i sh) w) \<and>
    (\<forall>n. nx = Some n \<longrightarrow> dispatches i n (final (advance_release i sh) w))"
proof -
  have w: "at_st st w" "faults w = []" and nx: "next_shard i sh w = nx"
    using assms(1) by (simp_all add: shard_ready_def at_st_def)
  let ?k = "case nx of Some n \<Rightarrow> ignore (enqueue (DispatchJob i (sh_id n)) 3 120 ''release'' 0)
     | None \<Rightarrow> seq_eff (TransitionRelease i ''executing'' ''succeeded'' ''all shards completed'' ''system'')
                (ignore (SetEndedAt i))"
  have run: "result (advance_release i sh) w = result ?k w" "final (advance_release i sh) w = final ?k w"
    using w(2) nx by (auto simp: advance_release_def GetShardByID_def GetNextPendingShard_def eff_run
        next_shard_def shard_index_def tbl_get_def split: option.splits)
  show ?thesis
  proof (cases nx)
    case None
    have "goes st ?k (st(i \<mapsto> ''succeeded''))"
      using None assms(2) by (auto intro!: goes_done goes_transition has_edges goes_ignore goes_quiet)
    from goesD [OF this w(1)] None run show ?thesis by auto
  next
    case (Some n)
    have "goes st ?k st" using Some by (auto intro!: goes_ignore goes_quiet)
    moreover have "st(i \<mapsto> ''executing'') = st" using assms(2) by (simp add: fun_upd_idem_iff)
    ultimately show ?thesis
      using goesD [of st ?k st w] Some run w by (auto simp: dispatches_def)
  qed
qed

section \<open>The verdict\<close>

text \<open>What the states of the agent tasks alone say about a deployment.\<close>

definition unfinished :: "agent_task_row \<Rightarrow> bool" where
  "unfinished t \<longleftrightarrow> t_status t \<in> {''pending'', ''claimed'', ''running''}"

definition went_wrong :: "agent_task_row \<Rightarrow> bool" where
  "went_wrong t \<longleftrightarrow> t_status t \<in> {''failed'', ''timeout''}"

lemma count_status_pos: "count_status s ts > 0 \<longleftrightarrow> (\<exists>t \<in> set ts. t_status t = s)"
  "count_status s ts \<ge> 0"
  by (auto simp: count_status_def filter_empty_conv)

lemma stats_verdict:
  "in_progress (stats_of ts) > 0 \<longleftrightarrow> list_ex unfinished ts"
  "has_failed (stats_of ts) n \<longleftrightarrow> list_ex went_wrong ts \<or> list_ex unfinished ts \<and> n \<ge> 360"
proof -
  have sum: "x + y + z > 0 \<longleftrightarrow> x > 0 \<or> y > 0 \<or> z > 0" if "x \<ge> 0" "y \<ge> 0" "z \<ge> 0" for x y z :: int
    using that by linarith
  show one: "in_progress (stats_of ts) > 0 \<longleftrightarrow> list_ex unfinished ts"
    by (simp add: in_progress_def stats_of_def sum count_status_pos unfinished_def list_ex_iff) blast
  show "has_failed (stats_of ts) n \<longleftrightarrow> list_ex went_wrong ts \<or> list_ex unfinished ts \<and> n \<ge> 360"
    unfolding has_failed_def one maxFinalizeRetries_def
    by (simp add: stats_of_def count_status_pos went_wrong_def list_ex_iff) blast
qed

definition shard_verdict :: "int \<Rightarrow> int \<Rightarrow> int \<Rightarrow> world \<Rightarrow> string" where
  "shard_verdict i sh n w = (let ts = shard_tasks sh w in
     if list_ex unfinished ts \<and> n < 360 then ''executing''
     else if list_ex unfinished ts \<or> list_ex went_wrong ts then ''failed''
     else if next_shard i sh w = None then ''succeeded'' else ''executing'')"

lemma shard_verdict_stats:
  "shard_verdict i sh n w = (let s = stats_of (shard_tasks sh w) in
     if in_progress s > 0 \<and> n < maxFinalizeRetries then ''executing''
     else if has_failed s n then ''failed''
     else if next_shard i sh w = None then ''succeeded'' else ''executing'')"
  by (auto simp: shard_verdict_def stats_verdict maxFinalizeRetries_def Let_def)

definition follow_up :: "int \<Rightarrow> int \<Rightarrow> int \<Rightarrow> int \<Rightarrow> world \<Rightarrow> world \<Rightarrow> bool" where
  "follow_up i sh n rec w w' \<longleftrightarrow>
     n < 360 \<and> FinalizeJob i sh (n + 1) False rec \<in> q_job ` set (task_queue w') \<or>
     (\<exists>m. next_shard i sh w = Some m \<and> dispatches i m w')"

lemma finalize_shard_calm:
  assumes "shard_ready i sh st nx w" and "st i = Some ''executing''"
  shows "result (finalize_shard i sh s n) w = Inr () \<and>
    at_st (st(i \<mapsto> if has_failed s n then ''failed'' else if nx = None then ''succeeded'' else ''executing''))
      (final (finalize_shard i sh s n) w) \<and>
    (\<not> has_failed s n \<longrightarrow> (\<forall>m. nx = Some m \<longrightarrow> dispatches i m (final (finalize_shard i sh s n) w)))"
proof -
  let ?w1 = "final (UpdateShardCounts sh (st_succeeded s) (st_failed s + st_timeout s)) w"
  let ?w2 = "final (count_release i s) ?w1"
  have w2: "shard_ready i sh st nx ?w2" by (intro shard_ready_ops assms(1))
  have "result (count_release i s) ?w1 = Inr ()"
    by (simp add: count_release_def eff_run)
  then have run: "result (finalize_shard i sh s n) w = result (if has_failed s n
       then seq_eff (ignore (UpdateShardStatus sh ''failed''))
         (seq_eff (TransitionRelease i ''executing'' ''failed'' (shard_reason sh s n) ''system'')
            (ignore (SetEndedAt i)))
       else seq_eff (ignore (UpdateShardStatus sh ''succeeded'')) (advance_release i sh)) ?w2"
    "final (finalize_shard i sh s n) w = final (if has_failed s n
       then seq_eff (ignore (UpdateShardStatus sh ''failed''))
         (seq_eff (TransitionRelease i ''executing'' ''failed'' (shard_reason sh s n) ''system'')
            (ignore (SetEndedAt i)))
       else seq_eff (ignore (UpdateShardStatus sh ''succeeded'')) (advance_release i sh)) ?w2"
    by (simp_all add: finalize_shard_def eff_run)
  show ?thesis
  proof (cases "has_failed s n")
    case True
    have "goes st (seq_eff (ignore (UpdateShardStatus sh ''failed''))
         (seq_eff (TransitionRelease i ''executing'' ''failed'' (shard_reason sh s n) ''system'')
            (ignore (SetEndedAt i)))) (st(i \<mapsto> ''failed''))"
      by (rule goes_then [OF goes_ignore [OF goes_quiet(1)] goes_done [OF goes_transition
            [where st = st and i = i, OF has_edges(3) assms(2)] goes_ignore [OF goes_quiet(5)]]])
    from goesD [OF this, of ?w2] w2 True run show ?thesis by (auto simp: shard_ready_def)
  next
    case False
    then show ?thesis
      using advance_release_calm [OF shard_ready_ops(2) [OF w2, of "''succeeded''"] assms(2)] run
      by (simp add: eff_run)
  qed
qed

lemma Finalize_shard_run:
  assumes "faults w = []" and "rel_status w i = Some ''executing''" and "sh > 0"
  shows "result (Finalize i sh n False rec) w = result
      (let s = stats_of (shard_tasks sh w) in
       if in_progress s > 0 \<and> n < maxFinalizeRetries
       then ignore (enqueue (FinalizeJob i sh (n + 1) False rec) 0 60 ''release'' 10)
       else finalize_shard i sh s n) w"
    and "final (Finalize i sh n False rec) w = final
      (let s = stats_of (shard_tasks sh w) in
       if in_progress s > 0 \<and> n < maxFinalizeRetries
       then ignore (enqueue (FinalizeJob i sh (n + 1) False rec) 0 60 ''release'' 10)
       else finalize_shard i sh s n) w"
proof -
  obtain r where "tbl_find (is_release i) (releases w) = Some r" "r_status r = ''executing''"
    using assms(2) by (auto simp: rel_status_def tbl_get_def is_release_def [abs_def])
  then show "result (Finalize i sh n False rec) w = result
      (let s = stats_of (shard_tasks sh w) in
       if in_progress s > 0 \<and> n < maxFinalizeRetries
       then ignore (enqueue (FinalizeJob i sh (n + 1) False rec) 0 60 ''release'' 10)
       else finalize_shard i sh s n) w"
    and "final (Finalize i sh n False rec) w = final
      (let s = stats_of (shard_tasks sh w) in
       if in_progress s > 0 \<and> n < maxFinalizeRetries
       then ignore (enqueue (FinalizeJob i sh (n + 1) False rec) 0 60 ''release'' 10)
       else finalize_shard i sh s n) w"
    using assms(1,3)
    by (simp_all add: Finalize_def ReleaseStore_GetByID_def GetAgentTaskStatsByShard_def eff_run Let_def)
qed

text \<open>
  C5: The verdict of the finaliser on a shard, when the database answers: while tasks are in
  progress and fewer than 360 polls were made the release keeps executing; then it fails if
  any task failed, timed out or is still unfinished, and otherwise the next pending shard is
  dispatched or, when there is none, the release succeeds. No other release changes.
\<close>

theorem Finalize_shard_verdict:
  assumes "faults w = []" and "rel_wf w" and "wf_tbl sh_id (shards w)"
    and "rel_status w i = Some ''executing''" and "sh > 0"
  shows "result (Finalize i sh n False rec) w = Inr () \<and>
    rel_status (final (Finalize i sh n False rec) w) = (rel_status w)(i \<mapsto> shard_verdict i sh n w)"
proof -
  let ?s = "stats_of (shard_tasks sh w)"
  have ready: "shard_ready i sh (rel_status w) (next_shard i sh w) w"
    using assms by (simp add: shard_ready_def at_st_def)
  have same: "(rel_status w)(i \<mapsto> ''executing'') = rel_status w"
    using assms(4) by (simp add: fun_upd_idem_iff)
  show ?thesis
  proof (cases "in_progress ?s > 0 \<and> n < maxFinalizeRetries")
    case True
    show ?thesis
      unfolding Finalize_shard_run [OF assms(1,4,5)] shard_verdict_stats Let_def if_P [OF True]
      using assms(1) same by (simp add: rel_status_def)
  next
    case False
    show ?thesis
      unfolding Finalize_shard_run [OF assms(1,4,5)] shard_verdict_stats Let_def if_not_P [OF False]
      using finalize_shard_calm [OF ready assms(4), of ?s n] by (simp add: at_st_def)
  qed
qed

text \<open>
  C6: Polling is bounded and loses nothing: after a finalise job (database answering) the
  release has either left the executing state or a follow-up job for it is queued, and the
  poll counter of a requeued finalise job grows but never exceeds 360.
\<close>

theorem Finalize_never_stalls:
  assumes "faults w = []" and "rel_wf w" and "wf_tbl sh_id (shards w)"
    and "rel_status w i = Some ''executing''" and "sh > 0"
  shows "rel_status (final (Finalize i sh n False rec) w) i = Some ''executing'' \<longrightarrow>
    follow_up i sh n rec w (final (Finalize i sh n False rec) w)"
proof -
  let ?s = "stats_of (shard_tasks sh w)"
  have ready: "shard_ready i sh (rel_status w) (next_shard i sh w) w"
    using assms by (simp add: shard_ready_def at_st_def)
  show ?thesis
  proof (cases "in_progress ?s > 0 \<and> n < maxFinalizeRetries")
    case True
    then show ?thesis
      unfolding Finalize_shard_run [OF assms(1,4,5)] Let_def if_P [OF True]
      using assms(1) by (simp add: follow_up_def maxFinalizeRetries_def)
  next
    case False
    show ?thesis
      unfolding Finalize_shard_run [OF assms(1,4,5)] Let_def if_not_P [OF False]
      using finalize_shard_calm [OF ready assms(4), of ?s n]
      by (auto simp: follow_up_def at_st_def split: if_splits)
  qed
qed

section \<open>Rollback\<close>

lemma Finalize_rollback_run:
  assumes "faults w = []" and "rel_status w i = Some ''rolling_back''"
  shows "result (Finalize i sh n True rec) w = result
      (let s = stats_of (release_tasks i w) in
       if in_progress s > 0 \<and> n < maxFinalizeRetries
       then ignore (enqueue (FinalizeJob i sh (n + 1) True rec) 0 60 ''critical'' 10)
       else finalize_rollback i s n rec) w"
    and "final (Finalize i sh n True rec) w = final
      (let s = stats_of (release_tasks i w) in
       if in_progress s > 0 \<and> n < maxFinalizeRetries
       then ignore (enqueue (FinalizeJob i sh (n + 1) True rec) 0 60 ''critical'' 10)
       else finalize_rollback i s n rec) w"
proof -
  obtain r where "tbl_find (is_release i) (releases w) = Some r" "r_status r = ''rolling_back''"
    using assms(2) by (auto simp: rel_status_def tbl_get_def is_release_def [abs_def])
  then show "result (Finalize i sh n True rec) w = result
      (let s = stats_of (release_tasks i w) in
       if in_progress s > 0 \<and> n < maxFinalizeRetries
       then ignore (enqueue (FinalizeJob i sh (n + 1) True rec) 0 60 ''critical'' 10)
       else finalize_rollback i s n rec) w"
    and "final (Finalize i sh n True rec) w = final
      (let s = stats_of (release_tasks i w) in
       if in_progress s > 0 \<and> n < maxFinalizeRetries
       then ignore (enqueue (FinalizeJob i sh (n + 1) True rec) 0 60 ''critical'' 10)
       else finalize_rollback i s n rec) w"
    using assms(1)
    by (simp_all add: Finalize_def ReleaseStore_GetByID_def GetAgentTaskStatsByRelease_def eff_run Let_def)
qed

definition rollback_verdict :: "int \<Rightarrow> int \<Rightarrow> world \<Rightarrow> string" where
  "rollback_verdict i n w = (let ts = release_tasks i w in
     if list_ex unfinished ts \<and> n < 360 then ''rolling_back''
     else if list_ex unfinished ts \<or> list_ex went_wrong ts then ''failed'' else ''rolled_back'')"

lemma rollback_verdict_stats:
  "rollback_verdict i n w = (let s = stats_of (release_tasks i w) in
     if in_progress s > 0 \<and> n < maxFinalizeRetries then ''rolling_back''
     else if has_failed s n then ''failed'' else ''rolled_back'')"
  by (auto simp: rollback_verdict_def stats_verdict maxFinalizeRetries_def Let_def)

lemma rollback_run_status:
  assumes "faults w = []" and "rel_wf w" and "rel_status w i = Some ''rolling_back''"
  shows "result (Finalize i sh n True rec) w = Inr () \<and>
    rel_status (final (Finalize i sh n True rec) w) = (rel_status w)(i \<mapsto> rollback_verdict i n w)"
proof -
  let ?s = "stats_of (release_tasks i w)"
  have w: "at_st (rel_status w) w" using assms by (simp add: at_st_def)
  have same: "(rel_status w)(i \<mapsto> ''rolling_back'') = rel_status w"
    using assms(3) by (simp add: fun_upd_idem_iff)
  show ?thesis
  proof (cases "in_progress ?s > 0 \<and> n < maxFinalizeRetries")
    case True
    show ?thesis
      unfolding Finalize_rollback_run [OF assms(1,3)] rollback_verdict_stats Let_def if_P [OF True]
      using assms(1) same by (simp add: rel_status_def)
  next
    case False
    show ?thesis
      unfolding Finalize_rollback_run [OF assms(1,3)] rollback_verdict_stats Let_def if_not_P [OF False]
      using goesD [OF goes_finalize_rollback [where st = "rel_status w" and i = i, OF assms(3), of ?s n rec] w] by (auto simp: at_st_def)
  qed
qed

text \<open>
  The verdict of the finaliser on a rollback, when the database answers: it waits while
  tasks of the release are in progress (at most 360 polls), then the release ends as rolled
  back if no task of the release failed or timed out, and as failed otherwise.
\<close>

theorem Finalize_rollback_verdict:
  assumes "faults w = []" and "rel_wf w" and "rel_status w i = Some ''rolling_back''"
  shows "result (Finalize i sh n True rec) w = Inr () \<and>
    rel_status (final (Finalize i sh n True rec) w) = (rel_status w)(i \<mapsto> rollback_verdict i n w)"
  using assms by (rule rollback_run_status)

text \<open>
  The rollback of a failed deployment cannot succeed: the statistics cover all tasks of the
  release, so one failed task of the original deployment makes the finaliser mark the
  rollback as failed, even when every rollback task has succeeded.
\<close>

theorem rollback_of_failed_deployment_fails:
  assumes "faults w = []" and "rel_wf w" and "rel_status w i = Some ''rolling_back''"
    and "t \<in> set (release_tasks i w)" and "t_status t = ''failed''"
    and "\<forall>u \<in> set (release_tasks i w). t_status u \<notin> {''pending'', ''claimed'', ''running''}"
  shows "rel_status (final (Finalize i sh n True rec) w) i = Some ''failed''"
proof -
  have "\<not> list_ex unfinished (release_tasks i w)" and "list_ex went_wrong (release_tasks i w)"
    using assms(4-6) by (auto simp: unfinished_def went_wrong_def list_ex_iff)
  then show ?thesis
    using rollback_run_status [OF assms(1-3), of sh n rec] by (simp add: rollback_verdict_def)
qed

section \<open>Pause and resume\<close>

text \<open>
  C18: A finalise job that meets a paused release is lost: it ends without effect and without
  requeueing itself, and resuming the release afterwards puts it back to executing but
  queues nothing, so no job is left to finish it.
\<close>

theorem paused_release_loses_its_job:
  assumes "faults w = []" and "rel_wf w" and "rel_status w i = Some ''paused''"
  shows "final (Finalize i sh n False rec) w = w \<and>
    rel_status (final (Resume i b) (final (Finalize i sh n False rec) w)) i = Some ''executing'' \<and>
    task_queue (final (Resume i b) (final (Finalize i sh n False rec) w)) = task_queue w"
proof -
  obtain r where "tbl_find (is_release i) (releases w) = Some r" "r_status r = ''paused''"
    using assms(3) by (auto simp: rel_status_def tbl_get_def is_release_def [abs_def])
  then have fin: "final (Finalize i sh n False rec) w = w"
    using assms(1) by (simp add: Finalize_def ReleaseStore_GetByID_def eff_run)
  have "at_st (rel_status w) w" using assms by (simp add: at_st_def)
  then have "rel_status (final (Resume i b) w) i = Some ''executing''"
    using goesD [OF goes_transition [where st = "rel_status w" and i = i, OF has_edges(6) assms(3)]] by (auto simp: Resume_def at_st_def)
  moreover have "task_queue (final (Resume i b) w) = task_queue w"
    unfolding Resume_def by (rule relm.trans_frame) simp_all
  ultimately show ?thesis by (simp add: fin)
qed

section \<open>A failed look-up of the next shard\<close>

text \<open>
  A database error in the look-up of the next shard is taken for its absence: when exactly
  that query fails, the release is marked as succeeded although a shard is still pending.
\<close>

theorem lost_shard_release_succeeds:
  assumes "faults w = [False, True]" and "rel_wf w" and "rel_status w i = Some ''executing''"
    and "next_shard i sh w \<noteq> None"
  shows "rel_status (final (advance_release i sh) w) i = Some ''succeeded'' \<and>
    next_shard i sh (final (advance_release i sh) w) \<noteq> None"
proof -
  let ?w = "w\<lparr>faults := []\<rparr>"
  let ?k = "seq_eff (TransitionRelease i ''executing'' ''succeeded'' ''all shards completed'' ''system'')
                (ignore (SetEndedAt i))"
  have fin: "final (advance_release i sh) w = final ?k ?w"
    using assms(1) by (auto simp: advance_release_def GetShardByID_def GetNextPendingShard_def
        query_one_def query_def stmt_def bnd_def attempt_def gets_def final_def ret_def throw_def
        split: option.splits)
  have "at_st (rel_status w) ?w" using assms by (simp add: at_st_def rel_wf_def rel_status_def)
  then have "rel_status (final ?k ?w) i = Some ''succeeded''"
    using goesD [OF goes_done [OF goes_transition [where st = "rel_status w" and i = i, OF has_edges(4) assms(3)] goes_ignore [OF goes_quiet(5)]]]
    by (auto simp: at_st_def)
  moreover have "shards (final ?k ?w) = shards w"
    using relm.trans_frame [where h = shards and w = ?w and i = i and f = "''executing''" and t = "''succeeded''"]
    by (simp add: eff_run SetEndedAt_def update_release_def exec_def final_stmt split: sum.split list.split)
  ultimately show ?thesis
    using assms(4) by (simp add: fin next_shard_def shard_index_def next_pending_shard_def)
qed

section \<open>A release in two shards\<close>

text \<open>
  Release 1 in state \<open>s\<close> with two shards, the second one pending, and one agent task of the
  first shard in state \<open>t\<close>.
\<close>

definition two_shards :: "string \<Rightarrow> string \<Rightarrow> world" where
  "two_shards s t = empty_world\<lparr>
     releases := \<lparr>rows = [\<lparr>r_id = 1, r_release_id = ''r'', r_project_id = 1, r_template_version_id = 1,
       r_artifact_id = Some 1, r_release_type = ''html'', r_trigger_source = ''ui'', r_status = s,
       r_total_domains = Some 2, r_total_shards = Some 2, r_success_count = 0, r_failure_count = 0,
       r_description = None, r_created_at = 0, r_created_by = None, r_started_at = None,
       r_ended_at = None\<rparr>], seq = 1\<rparr>,
     shards := \<lparr>rows = [(new_shard 1 0 False 1 1)\<lparr>sh_status := ''running''\<rparr>, new_shard 1 1 False 1 2], seq = 2\<rparr>,
     domain_tasks := \<lparr>rows = [\<lparr>dt_id = 1, dt_release_id = 1, dt_shard_id = Some 1, dt_domain_id = 1,
       dt_host_group_id = None, dt_task_type = ''deploy_html'', dt_status = ''dispatched'',
       dt_ended_at = None, dt_last_error = None\<rparr>], seq = 1\<rparr>,
     agent_tasks := \<lparr>rows = [(sample_task 1 ''t1'' 1)\<lparr>t_status := t\<rparr>], seq = 1\<rparr>\<rparr>"

lemma two_shards_facts:
  "faults (two_shards s t) = []" "rel_wf (two_shards s t)" "wf_tbl sh_id (shards (two_shards s t))"
  "rel_status (two_shards s t) 1 = Some s"
  "next_shard 1 1 (two_shards s t) = Some (new_shard 1 1 False 1 2)"
  "shard_tasks 1 (two_shards s t) = [(sample_task 1 ''t1'' 1)\<lparr>t_status := t\<rparr>]"
  "release_tasks 1 (two_shards s t) = [(sample_task 1 ''t1'' 1)\<lparr>t_status := t\<rparr>]"
  "task_queue (two_shards s t) = []"
  by (simp_all add: two_shards_def empty_world_def rel_wf_def wf_tbl_def rel_status_def tbl_get_def
      tbl_find_def next_shard_def shard_index_def next_pending_shard_def new_shard_def tbl_select_def
      shard_tasks_def release_tasks_def joined_task_def sample_task_def)

lemma stats_one: "stats_of [(sample_task 1 ''t1'' 1)\<lparr>t_status := t\<rparr>] =
  \<lparr>st_total = 1, st_succeeded = (if t = ''succeeded'' then 1 else 0), st_failed = (if t = ''failed'' then 1 else 0),
   st_pending = (if t = ''pending'' then 1 else 0), st_claimed = (if t = ''claimed'' then 1 else 0),
   st_running = (if t = ''running'' then 1 else 0), st_timeout = (if t = ''timeout'' then 1 else 0)\<rparr>"
  by (simp add: stats_of_def count_status_def)

theorem Finalize_shard_verdict_witness:
  "rel_status (final (Finalize 1 1 5 False 0) (two_shards ''executing'' ''failed'')) 1 = Some ''failed'' \<and>
   rel_status (final (Finalize 1 1 5 False 0) (two_shards ''executing'' ''succeeded'')) 1 = Some ''executing''"
  using Finalize_shard_verdict [OF two_shards_facts(1-3), where i = 1 and sh = 1 and n = 5 and rec = 0]
  by (simp add: two_shards_facts shard_verdict_def unfinished_def went_wrong_def)

theorem Finalize_never_stalls_witness:
  "follow_up 1 1 5 0 (two_shards ''executing'' ''running'')
     (final (Finalize 1 1 5 False 0) (two_shards ''executing'' ''running''))"
proof -
  let ?w = "two_shards ''executing'' ''running''"
  have "final (Finalize 1 1 5 False 0) ?w = final (ignore (enqueue (FinalizeJob 1 1 6 False 0) 0 60 ''release'' 10)) ?w"
    using Finalize_shard_run(2) [OF two_shards_facts(1,4), where sh = 1 and n = 5 and rec = 0]
    by (simp add: two_shards_facts stats_one in_progress_def maxFinalizeRetries_def)
  then have "rel_status (final (Finalize 1 1 5 False 0) ?w) 1 = Some ''executing''"
    using two_shards_facts(1,4) [of "''executing''" "''running''"] by (simp add: rel_status_def)
  with Finalize_never_stalls [OF two_shards_facts(1-4), where sh = 1 and n = 5 and rec = 0] show ?thesis
    by simp
qed

theorem Finalize_rollback_verdict_witness:
  "rel_status (final (Finalize 1 0 0 True 1) (two_shards ''rolling_back'' ''succeeded'')) 1 = Some ''rolled_back''"
  using Finalize_rollback_verdict [OF two_shards_facts(1,2,4), where sh = 0 and n = 0 and rec = 1]
  by (simp add: two_shards_facts rollback_verdict_def unfinished_def went_wrong_def)

theorem rollback_of_failed_deployment_fails_witness:
  "rel_status (final (Finalize 1 0 0 True 1) (two_shards ''rolling_back'' ''failed'')) 1 = Some ''failed''"
  using rollback_of_failed_deployment_fails [OF two_shards_facts(1,2,4), where sh = 0 and n = 0 and rec = 1]
  by (simp add: two_shards_facts)

theorem paused_release_loses_its_job_witness:
  "task_queue (final (Resume 1 ''user:1'') (final (Finalize 1 1 3 False 0) (two_shards ''paused'' ''succeeded''))) = []"
  using paused_release_loses_its_job [OF two_shards_facts(1,2,4) [where t = "''succeeded''"],
      where sh = 1 and n = 3 and rec = 0 and b = "''user:1''"]
  unfolding two_shards_facts by blast

theorem lost_shard_release_succeeds_witness:
  "rel_status (final (advance_release 1 1) ((two_shards ''executing'' ''succeeded'')\<lparr>faults := [False, True]\<rparr>)) 1
     = Some ''succeeded''"
  using lost_shard_release_succeeds [of "(two_shards ''executing'' ''succeeded'')\<lparr>faults := [False, True]\<rparr>" 1 1]
    two_shards_facts [of "''executing''" "''succeeded''"]
  by (simp add: rel_wf_def next_shard_def shard_index_def next_pending_shard_def)

end
