(* ===== verification/Artifact.thy ===== *)
theory Artifact
  imports Release_Service
begin

text \<open>
  internal/artifact (builder.go, signer.go, handler.go) and the writes of
  store/postgres/artifact.go. Arguments for code outside the repository: \<open>sha\<close> and \<open>mac\<close>
  (SHA-256 and HMAC-SHA-256 under the signing secret, as hex digests), \<open>render\<close> (the template
  engine: template text and data to output, \<open>None\<close> when parsing or execution fails), \<open>upload\<close>
  (the URI the object store returns for a prefix). Host names contain no path separator, so
  \<open>filepath.Join\<close> is concatenation; operations on the temporary directory are one external
  call that may fail.
\<close>

section \<open>Signing\<close>

definition Sign :: "(string \<Rightarrow> string) \<Rightarrow> string \<Rightarrow> go_err + string" where
  "Sign mac checksum =
     (if checksum = [] then Inl (ErrMsg ''signer: checksum is empty'') else Inr (mac checksum))"

definition Verify :: "(string \<Rightarrow> string) \<Rightarrow> string \<Rightarrow> string \<Rightarrow> go_err option" where
  "Verify mac checksum signature = (case Sign mac checksum of
       Inl e \<Rightarrow> Some e
     | Inr expected \<Rightarrow> if expected \<noteq> signature then Some ErrSignatureInvalid else None)"

section \<open>Template data\<close>

text \<open>A \<open>map[string]any\<close> with its values as JSON text; \<open>put\<close> is assignment to a key.\<close>

fun put :: "string \<Rightarrow> 'v \<Rightarrow> (string \<times> 'v) list \<Rightarrow> (string \<times> 'v) list" where
  "put k v [] = [(k, v)]"
| "put k v ((k', v') # kvs) = (if k' = k then (k, v) # kvs else (k', v') # put k v kvs)"

definition put_all :: "(string \<times> 'v) list \<Rightarrow> (string \<times> 'v) list \<Rightarrow> (string \<times> 'v) list" where
  "put_all kvs m = fold (\<lambda>(k, v) m. put k v m) kvs m"

record render_input =
  in_fqdn :: string
  in_variables :: variables

definition json_string :: "string \<Rightarrow> string" where
  "json_string s = CHR 0x22 # s @ [CHR 0x22]"

definition buildTemplateData :: "render_input \<Rightarrow> variables" where
  "buildTemplateData d = put_all (in_variables d)
     [(''FQDN'', json_string (in_fqdn d)), (''Domain'', json_string (in_fqdn d))]"

type_synonym renderer = "string \<Rightarrow> (string \<Rightarrow> string option) \<Rightarrow> string option"

definition renderFile ::
    "renderer \<Rightarrow> string \<Rightarrow> string \<Rightarrow> render_input \<Rightarrow> directory \<Rightarrow> directory option" where
  "renderFile render path tmpl d dir = (case render tmpl (map_of (buildTemplateData d)) of
       None \<Rightarrow> None
     | Some out \<Rightarrow> Some (put path out dir))"

definition html_path :: "string \<Rightarrow> string" where
  "html_path fqdn = ''html/'' @ fqdn @ ''/index.html''"

definition nginx_path :: "string \<Rightarrow> string" where
  "nginx_path fqdn = ''nginx/'' @ fqdn @ ''.conf''"

definition render_opt ::
    "renderer \<Rightarrow> string \<Rightarrow> string option \<Rightarrow> render_input \<Rightarrow> directory \<Rightarrow> directory option" where
  "render_opt render path tmpl d dir = (case tmpl of None \<Rightarrow> Some dir
     | Some t \<Rightarrow> renderFile render path t d dir)"

text \<open>The loop over the sorted domains, from an empty directory.\<close>

fun render_domains ::
    "renderer \<Rightarrow> template_version_row \<Rightarrow> render_input list \<Rightarrow> directory \<Rightarrow> directory option" where
  "render_domains render ver [] dir = Some dir"
| "render_domains render ver (d # ds) dir =
     (case render_opt render (html_path (in_fqdn d)) (tv_content_html ver) d dir of
        None \<Rightarrow> None
      | Some dir1 \<Rightarrow>
          (case render_opt render (nginx_path (in_fqdn d)) (tv_content_nginx ver) d dir1 of
             None \<Rightarrow> None
           | Some dir2 \<Rightarrow> render_domains render ver ds dir2))"

section \<open>store/postgres: artifacts\<close>

definition ArtifactStore_Create :: "artifact_row \<Rightarrow> artifact_row op" where
  "ArtifactStore_Create a = stmt (\<lambda>w.
     if list_ex (\<lambda>r. af_artifact_id r = af_artifact_id a) (rows (artifacts w))
     then (Inl (ErrUnique ''uq_artifacts_artifact_id''), w)
     else (Inr (a\<lparr>af_id := seq (artifacts w) + 1\<rparr>),
           w\<lparr>artifacts := tbl_insert (\<lambda>i. a\<lparr>af_id := i\<rparr>) (artifacts w)\<rparr>))"

definition GetByArtifactID :: "string \<Rightarrow> artifact_row op" where
  "GetByArtifactID aid =
     query_one ErrArtifactNotFound (\<lambda>w. tbl_find (\<lambda>a. af_artifact_id a = aid) (artifacts w))"

definition ArtifactStore_ListByRelease :: "int \<Rightarrow> artifact_row list op" where
  "ArtifactStore_ListByRelease rel = query (\<lambda>w. rev (sort_key af_built_at
     (tbl_select (\<lambda>a. af_release_id a = Some rel) (artifacts w))))"

definition ArtifactStore_ListByProject :: "int \<Rightarrow> int \<Rightarrow> int \<Rightarrow> artifact_row list op" where
  "ArtifactStore_ListByProject p cursor limit = query (\<lambda>w. take (nat (clamp_limit limit))
     (sort_key af_id (tbl_select (\<lambda>a. af_project_id a = p \<and> af_id a > cursor) (artifacts w))))"

definition checkNotSigned :: "int \<Rightarrow> unit op" where
  "checkNotSigned i = bnd (query_one ErrArtifactNotFound
      (\<lambda>w. map_option af_signed_at (tbl_find (\<lambda>a. af_id a = i) (artifacts w)))) (\<lambda>signedAt.
     if signedAt \<noteq> None then throw ErrArtifactImmutable else ret ())"

definition SetReleaseID :: "int \<Rightarrow> int \<Rightarrow> unit op" where
  "SetReleaseID i rel = seq_eff (checkNotSigned i)
     (exec (\<lambda>w. w\<lparr>artifacts := tbl_update (\<lambda>a. af_id a = i \<and> af_signed_at a = None)
        (\<lambda>a. a\<lparr>af_release_id := Some rel\<rparr>) (artifacts w)\<rparr>))"

definition MarkSigned :: "int \<Rightarrow> string \<Rightarrow> artifact_row op" where
  "MarkSigned i signature =
     bnd (stmt (\<lambda>w.
       let p = (\<lambda>a. af_id a = i \<and> af_signed_at a = None);
           t = tbl_update p (\<lambda>a. a\<lparr>af_signature := Some signature, af_signed_at := Some (now w)\<rparr>)
                 (artifacts w)
       in (Inr (if tbl_find p (artifacts w) = None then None else tbl_find (\<lambda>a. af_id a = i) t),
           w\<lparr>artifacts := t\<rparr>))) (\<lambda>out. case out of
       Some a \<Rightarrow> ret a
     | None \<Rightarrow> bnd (attempt (ArtifactStore_GetByID i)) (\<lambda>r. case r of
         Inl e \<Rightarrow> throw ErrArtifactNotFound
       | Inr a \<Rightarrow> if af_signed_at a \<noteq> None then throw ErrArtifactImmutable
           else throw ErrArtifactNotFound))"

section \<open>Build\<close>

record build_request =
  bq_project_id :: int
  bq_project_slug :: string
  bq_template_version_id :: int
  bq_release_id :: "int option"
  bq_built_by :: "int option"
  bq_domains :: "render_input list"

definition total_size :: "manifest_file list \<Rightarrow> int" where
  "total_size fs = sum_list (map mf_size fs)"

definition build_manifest ::
    "(string \<Rightarrow> string) \<Rightarrow> build_request \<Rightarrow> render_input list \<Rightarrow> directory \<Rightarrow> string \<Rightarrow> int \<Rightarrow> manifest" where
  "build_manifest sha req ds dir signature t =
     (let (checksum, files) = ComputeDirectoryChecksum sha dir in
      \<lparr>m_artifact_id = checksum, m_project_slug = bq_project_slug req,
       m_template_version_id = bq_template_version_id req, m_checksum = checksum,
       m_signature = signature, m_domains = map in_fqdn ds, m_files = files,
       m_domain_count = int (length ds), m_file_count = int (length files),
       m_total_size_bytes = total_size files, m_built_at = t\<rparr>)"

definition artifact_of ::
    "build_request \<Rightarrow> manifest \<Rightarrow> string \<Rightarrow> int \<Rightarrow> artifact_row" where
  "artifact_of req m uri t = \<lparr>af_id = 0, af_project_id = bq_project_id req,
     af_release_id = bq_release_id req, af_template_version_id = bq_template_version_id req,
     af_artifact_id = m_checksum m, af_storage_uri = uri, af_manifest = Some m,
     af_checksum = m_checksum m, af_signature = Some (m_signature m),
     af_domain_count = m_domain_count m, af_file_count = m_file_count m,
     af_total_size_bytes = m_total_size_bytes m, af_built_at = t, af_built_by = bq_built_by req,
     af_signed_at = Some t\<rparr>"

text \<open>Steps 5 to 11: checksum, signature, manifest, upload, database row.\<close>

definition publish_build ::
    "(string \<Rightarrow> string) \<Rightarrow> (string \<Rightarrow> string) \<Rightarrow> (string \<Rightarrow> string) \<Rightarrow> build_request \<Rightarrow>
     render_input list \<Rightarrow> directory \<Rightarrow> (artifact_row \<times> manifest) op" where
  "publish_build sha mac upload req ds dir =
     (case Sign mac (fst (ComputeDirectoryChecksum sha dir)) of
        Inl e \<Rightarrow> throw e
      | Inr signature \<Rightarrow>
          bnd (gets now) (\<lambda>t.
            let m = build_manifest sha req ds dir signature t in
            case Validate m of
              Some e \<Rightarrow> throw (ErrMsg ''manifest validation'')
            | None \<Rightarrow>
                bnd (stmt (ret (upload (''artifacts/'' @ bq_project_slug req @ ''/'' @ m_checksum m)))) (\<lambda>uri.
                bnd (ArtifactStore_Create (artifact_of req m uri t)) (\<lambda>created.
                ret (created, m)))))"

definition Build ::
    "(string \<Rightarrow> string) \<Rightarrow> (string \<Rightarrow> string) \<Rightarrow> renderer \<Rightarrow> (string \<Rightarrow> string) \<Rightarrow> build_request \<Rightarrow>
     (artifact_row \<times> manifest) op" where
  "Build sha mac render upload req =
     bnd (GetVersion (bq_template_version_id req)) (\<lambda>ver.
       if tv_published_at ver = None then throw ErrTemplateNotPublished
       else if length (bq_domains req) = 0 then throw ErrNoDomainsInScope
       else let ds = sort_key in_fqdn (bq_domains req) in
         seq_eff (stmt (ret ()))
           (case render_domains render ver ds [] of
              None \<Rightarrow> throw (ErrMsg ''render'')
            | Some dir \<Rightarrow> publish_build sha mac upload req ds dir))"

section \<open>The build handler\<close>

definition GetVariables :: "int \<Rightarrow> variables op" where
  "GetVariables i = bnd (query (\<lambda>w. map_of (domain_vars w) i)) (\<lambda>r. case r of
       None \<Rightarrow> ret []
     | Some None \<Rightarrow> throw (ErrMsg ''unmarshal domain variables'')
     | Some (Some vs) \<Rightarrow> ret vs)"

definition render_input_of :: "variables \<Rightarrow> int \<Rightarrow> render_input list op" where
  "render_input_of defaults i =
     bnd (DomainStore_GetByID i) (\<lambda>d.
     bnd (attempt (GetVariables i)) (\<lambda>r.
       let merged = put_all defaults [] in
       ret [\<lparr>in_fqdn = d_fqdn d,
             in_variables = (case r of Inl e \<Rightarrow> merged | Inr vs \<Rightarrow> put_all vs merged)\<rparr>]))"

definition HandleBuild ::
    "(string \<Rightarrow> string) \<Rightarrow> (string \<Rightarrow> string) \<Rightarrow> renderer \<Rightarrow> (string \<Rightarrow> string) \<Rightarrow>
     int \<Rightarrow> string \<Rightarrow> int \<Rightarrow> int option \<Rightarrow> int option \<Rightarrow> int list \<Rightarrow> unit op" where
  "HandleBuild sha mac render upload p slug ver_id rel by ids =
     bnd (GetVersion ver_id) (\<lambda>ver. case tv_default_variables ver of
       None \<Rightarrow> throw (ErrMsg ''unmarshal default variables'')
     | Some defaults \<Rightarrow>
         bnd (collect ids (render_input_of defaults)) (\<lambda>ds.
         bnd (Build sha mac render upload \<lparr>bq_project_id = p, bq_project_slug = slug,
                bq_template_version_id = ver_id, bq_release_id = rel, bq_built_by = by,
                bq_domains = ds\<rparr>) (\<lambda>(art, m).
         case rel of None \<Rightarrow> ret () | Some r \<Rightarrow> MarkReady r (af_id art))))"

section \<open>Directories and variables\<close>

lemma map_of_put: "map_of (put k v m) = (map_of m)(k \<mapsto> v)"
  by (induction k v m rule: put.induct) auto

lemma map_of_put_all: "map_of (put_all kvs m) = map_of m ++ map_of (rev kvs)"
  by (induction kvs arbitrary: m) (auto simp: put_all_def map_of_put map_add_upd_left map_add_assoc)

definition paths :: "('k \<times> 'v) list \<Rightarrow> 'k set" where
  "paths dir = fst ` set dir"

lemma paths_Nil [simp]: "paths [] = {}"
  by (simp add: paths_def)

lemma paths_put: "paths (put k v m) = insert k (paths m)"
  unfolding paths_def by (induction k v m rule: put.induct) auto

lemma distinct_put: "distinct (map fst m) \<Longrightarrow> distinct (map fst (put k v m))"
proof (induction k v m rule: put.induct)
  case (2 k v k' v' kvs)
  then show ?case
    using paths_put [of k v kvs] by (auto simp: paths_def)
qed simp

lemma render_opt_dir:
  assumes "render_opt render path tmpl d dir = Some dir'" and "distinct (map fst dir)"
  shows "distinct (map fst dir')" and "paths dir \<subseteq> paths dir'"
    and "paths dir' \<subseteq> insert path (paths dir)" and "tmpl \<noteq> None \<Longrightarrow> path \<in> paths dir'"
  using assms
  by (auto simp: render_opt_def renderFile_def distinct_put paths_put split: option.splits)

lemma render_domains_dir:
  assumes "render_domains render ver ds dir = Some dir'" and "distinct (map fst dir)"
  shows "distinct (map fst dir') \<and> paths dir \<subseteq> paths dir' \<and>
    paths dir' \<subseteq> paths dir \<union> (html_path \<circ> in_fqdn) ` set ds \<union> (nginx_path \<circ> in_fqdn) ` set ds \<and>
    (tv_content_html ver \<noteq> None \<longrightarrow> (html_path \<circ> in_fqdn) ` set ds \<subseteq> paths dir')"
  using assms
proof (induction render ver ds dir rule: render_domains.induct)
  case (2 render ver d ds dir)
  then obtain dir1 dir2 where
    r1: "render_opt render (html_path (in_fqdn d)) (tv_content_html ver) d dir = Some dir1" and
    r2: "render_opt render (nginx_path (in_fqdn d)) (tv_content_nginx ver) d dir1 = Some dir2" and
    r3: "render_domains render ver ds dir2 = Some dir'"
    by (auto split: option.splits)
  note d1 = render_opt_dir [OF r1 2(3)]
  note d2 = render_opt_dir [OF r2 d1(1)]
  note d3 = 2(1) [OF r1 r2 r3 d2(1)]
  have e: "(h \<circ> in_fqdn) ` set (d # ds) = insert (h (in_fqdn d)) ((h \<circ> in_fqdn) ` set ds)"
    for h :: "string \<Rightarrow> string" by simp
  show ?case
    unfolding e
  proof (intro conjI impI)
    show "distinct (map fst dir')" using d3 by blast
    show "paths dir \<subseteq> paths dir'" using d1(2) d2(2) d3 by blast
    show "paths dir' \<subseteq> paths dir \<union> insert (html_path (in_fqdn d)) ((html_path \<circ> in_fqdn) ` set ds) \<union>
        insert (nginx_path (in_fqdn d)) ((nginx_path \<circ> in_fqdn) ` set ds)"
    proof -
      have two: "paths dir2 \<subseteq> paths dir \<union> {html_path (in_fqdn d), nginx_path (in_fqdn d)}"
        using d1(3) d2(3) by blast
      have "paths dir' \<subseteq> paths dir2 \<union> (html_path \<circ> in_fqdn) ` set ds \<union> (nginx_path \<circ> in_fqdn) ` set ds"
        using d3 by (elim conjE)
      from order_trans [OF this Un_mono [OF Un_mono [OF two subset_refl] subset_refl]]
      show ?thesis by (rule order_trans) (simp add: subset_iff)
    qed
    assume "tv_content_html ver \<noteq> None"
    then show "insert (html_path (in_fqdn d)) ((html_path \<circ> in_fqdn) ` set ds) \<subseteq> paths dir'"
      using d1(4) d2(2) d3 by blast
  qed
qed simp

lemma paths_not_skipped: "\<not> skipped_name (html_path f)" "\<not> skipped_name (nginx_path f)"
  by (simp_all add: skipped_name_def html_path_def nginx_path_def)

lemma render_domains_total:
  assumes "\<forall>t m. render t m \<noteq> None"
  shows "\<exists>dir'. render_domains render ver ds dir = Some dir'"
proof (induction ds arbitrary: dir)
  case (Cons d ds)
  have ok: "\<exists>dir'. render_opt render p t d dir = Some dir'" for p t dir
    using assms by (cases t) (auto simp: render_opt_def renderFile_def dest: spec [of _ "the t"] split: option.split)
  obtain dir1 where r1: "render_opt render (html_path (in_fqdn d)) (tv_content_html ver) d dir = Some dir1"
    using ok by blast
  obtain dir2 where "render_opt render (nginx_path (in_fqdn d)) (tv_content_nginx ver) d dir1 = Some dir2"
    using ok by blast
  with r1 Cons.IH show ?case by simp
qed simp

section \<open>Properties of builds\<close>

text \<open>
  C11: Builds do not depend on the order of the requested domains: two requests that list the
  same domains (no host name twice) in any order have the same effect, the same checksum,
  the same manifest and the same database row.
\<close>

theorem Build_order_independent:
  assumes "mset (bq_domains req) = mset (bq_domains req')"
    and "distinct (map in_fqdn (bq_domains req))"
    and "bq_domains_update (\<lambda>_. []) req = bq_domains_update (\<lambda>_. []) req'"
  shows "Build sha mac render upload req = Build sha mac render upload req'"
proof -
  have s: "sort_key in_fqdn (bq_domains req) = sort_key in_fqdn (bq_domains req')"
    using assms(1,2) by (intro sort_key_eq_sort_key) (simp_all add: distinct_map)
  have "length (bq_domains req) = length (bq_domains req')"
    using assms(1) by (metis size_mset)
  moreover have "bq_project_id req = bq_project_id req'" "bq_project_slug req = bq_project_slug req'"
    "bq_template_version_id req = bq_template_version_id req'" "bq_release_id req = bq_release_id req'"
    "bq_built_by req = bq_built_by req'"
    using assms(3) by (cases req; cases req'; simp)+
  moreover from this have "build_manifest sha req = build_manifest sha req'" "artifact_of req = artifact_of req'"
    by (simp_all add: fun_eq_iff build_manifest_def artifact_of_def)
  ultimately show ?thesis unfolding Build_def publish_build_def s by (simp only:)
qed

definition sample_request :: build_request where
  "sample_request = \<lparr>bq_project_id = 1, bq_project_slug = ''p'', bq_template_version_id = 1,
     bq_release_id = Some 1, bq_built_by = None,
     bq_domains = [\<lparr>in_fqdn = ''b.com'', in_variables = []\<rparr>, \<lparr>in_fqdn = ''a.com'', in_variables = []\<rparr>]\<rparr>"

theorem Build_order_independent_witness:
  "Build (\<lambda>x. x) (\<lambda>x. x) (\<lambda>t m. Some t) (\<lambda>p. p) sample_request =
   Build (\<lambda>x. x) (\<lambda>x. x) (\<lambda>t m. Some t) (\<lambda>p. p)
     (sample_request\<lparr>bq_domains := rev (bq_domains sample_request)\<rparr>)"
  by (rule Build_order_independent) (simp_all add: sample_request_def)

lemma build_manifest_simps [simp]:
  "m_artifact_id (build_manifest sha req ds dir sg t) = fst (ComputeDirectoryChecksum sha dir)"
  "m_checksum (build_manifest sha req ds dir sg t) = fst (ComputeDirectoryChecksum sha dir)"
  "m_signature (build_manifest sha req ds dir sg t) = sg"
  "m_domains (build_manifest sha req ds dir sg t) = map in_fqdn ds"
  "m_files (build_manifest sha req ds dir sg t) = dir_entries sha dir"
  "m_domain_count (build_manifest sha req ds dir sg t) = int (length ds)"
  "m_file_count (build_manifest sha req ds dir sg t) = int (length (dir_entries sha dir))"
  by (simp_all add: build_manifest_def ComputeDirectoryChecksum_def Let_def)

lemma ArtifactStore_Create_Inr:
  assumes "result (ArtifactStore_Create a) w = Inr b"
  shows "\<exists>i. b = a\<lparr>af_id := i\<rparr>"
  using assms unfolding ArtifactStore_Create_def
  by (elim stmt_InrE) (auto simp: result_def split: if_splits)

lemma publish_build_InrE:
  assumes "result (publish_build sha mac upload req ds dir) w = Inr (art, m)"
  obtains t uri i where "fst (ComputeDirectoryChecksum sha dir) \<noteq> []" and "Validate m = None"
    and "m = build_manifest sha req ds dir (mac (fst (ComputeDirectoryChecksum sha dir))) t"
    and "art = (artifact_of req m uri t)\<lparr>af_id := i\<rparr>"
proof -
  let ?c = "fst (ComputeDirectoryChecksum sha dir)"
  let ?m = "\<lambda>t. build_manifest sha req ds dir (mac ?c) t"
  have c: "?c \<noteq> []" using assms by (auto simp: publish_build_def Sign_def)
  then have "result (case Validate (?m (now w)) of
       Some e \<Rightarrow> throw (ErrMsg ''manifest validation'')
     | None \<Rightarrow> bnd (stmt (ret (upload (''artifacts/'' @ bq_project_slug req @ ''/'' @ m_checksum (?m (now w)))))) (\<lambda>uri.
         bnd (ArtifactStore_Create (artifact_of req (?m (now w)) uri (now w))) (\<lambda>created.
           ret (created, ?m (now w))))) w = Inr (art, m)"
    using assms by (simp add: publish_build_def Sign_def result_bnd [of "gets now"] Let_def)
  then obtain uri w1 where v: "Validate (?m (now w)) = None" and "m = ?m (now w)"
    and "result (ArtifactStore_Create (artifact_of req (?m (now w)) uri (now w))) w1 = Inr art"
    by (auto elim!: bnd_InrE split: option.splits)
  with c ArtifactStore_Create_Inr that show thesis by blast
qed

lemma Build_InrE:
  assumes "result (Build sha mac render upload req) w = Inr r"
  obtains ver dir w1 where "tv_published_at ver \<noteq> None"
    and "render_domains render ver (sort_key in_fqdn (bq_domains req)) [] = Some dir"
    and "result (publish_build sha mac upload req (sort_key in_fqdn (bq_domains req)) dir) w1 = Inr r"
  using assms that unfolding Build_def Let_def
  by (auto elim!: bnd_InrE seq_InrE split: if_splits option.splits) blast

text \<open>
  What a successful build hands out, under every fault schedule: the manifest is valid, it
  is the one stored with the artifact, the artifact is addressed by its checksum, is signed,
  its signature verifies, and the manifest lists the requested host names in order.
\<close>

theorem Build_result_consistent:
  assumes "result (Build sha mac render upload req) w = Inr (art, m)"
  shows "Validate m = None \<and> af_manifest art = Some m \<and> af_artifact_id art = m_checksum m \<and>
    af_checksum art = m_checksum m \<and> af_signed_at art \<noteq> None \<and>
    Verify mac (m_checksum m) (m_signature m) = None \<and>
    m_domains m = sort (map in_fqdn (bq_domains req))"
  using assms
  by (elim Build_InrE publish_build_InrE) (simp add: artifact_of_def Verify_def Sign_def map_sort_key)

text \<open>A build with every external call answering.\<close>

lemma dir_entries_Nil: "dir_entries sha dir = [] \<longleftrightarrow> (\<forall>p \<in> paths dir. skipped_name p)"
proof -
  have "dir_entries sha dir = [] \<longleftrightarrow> filter (\<lambda>f. \<not> skipped_name (fst f)) dir = []"
    unfolding dir_entries_def by simp
  then show ?thesis by (auto simp: filter_empty_conv paths_def)
qed

lemma built_manifest_valid:
  assumes "render_domains render ver (sort_key in_fqdn ds) [] = Some dir" and "ds \<noteq> []"
    and "tv_content_html ver \<noteq> None" and "\<forall>x. sha x \<noteq> []"
  shows "Validate (build_manifest sha req (sort_key in_fqdn ds) dir sg t) = None"
proof -
  have dir: "distinct (map fst dir)" "(html_path \<circ> in_fqdn) ` set ds \<subseteq> paths dir"
    using render_domains_dir [OF assms(1)] assms(3) by simp_all
  obtain d where "d \<in> set ds" using assms(2) by (cases ds) auto
  with dir(2) have "html_path (in_fqdn d) \<in> paths dir" by auto
  then have ne: "dir_entries sha dir \<noteq> []"
    using paths_not_skipped(1) by (auto simp: dir_entries_Nil)
  have "sort_key in_fqdn ds \<noteq> []" using assms(2) by simp
  moreover have "sorted_wrt (<) (map mf_path (dir_entries sha dir))"
    using dir_entries_files_sorted [OF dir(1)] by (simp add: files_sorted_iff)
  ultimately show ?thesis
    using ne assms(4) by (simp add: Validate_None_iff) (simp add: ComputeDirectoryChecksum_def Let_def)
qed

definition artifact_exists :: "string \<Rightarrow> world \<Rightarrow> bool" where
  "artifact_exists c w \<longleftrightarrow> list_ex (\<lambda>r. af_artifact_id r = c) (rows (artifacts w))"

definition artifact_uri :: "(string \<Rightarrow> string) \<Rightarrow> build_request \<Rightarrow> string \<Rightarrow> string" where
  "artifact_uri upload req c = upload (''artifacts/'' @ bq_project_slug req @ ''/'' @ c)"

lemma ArtifactStore_Create_calm:
  assumes "faults w = []"
  shows "result (ArtifactStore_Create a) w = (if artifact_exists (af_artifact_id a) w
      then Inl (ErrUnique ''uq_artifacts_artifact_id'') else Inr (a\<lparr>af_id := seq (artifacts w) + 1\<rparr>))"
    and "final (ArtifactStore_Create a) w = (if artifact_exists (af_artifact_id a) w then w
      else w\<lparr>artifacts := tbl_insert (\<lambda>i. a\<lparr>af_id := i\<rparr>) (artifacts w)\<rparr>)"
  using assms unfolding ArtifactStore_Create_def artifact_exists_def
  by (simp_all add: result_def final_def stmt_def)

lemma publish_build_calm:
  assumes "faults w = []" and c: "fst (ComputeDirectoryChecksum sha dir) = c" "c \<noteq> []"
    and m: "m = build_manifest sha req ds dir (mac c) (now w)" and v: "Validate m = None"
  shows "result (publish_build sha mac upload req ds dir) w =
      (if artifact_exists c w then Inl (ErrUnique ''uq_artifacts_artifact_id'')
       else Inr ((artifact_of req m (artifact_uri upload req c) (now w))\<lparr>af_id := seq (artifacts w) + 1\<rparr>, m))"
    and "final (publish_build sha mac upload req ds dir) w =
      (if artifact_exists c w then w
       else w\<lparr>artifacts := tbl_insert
         (\<lambda>i. (artifact_of req m (artifact_uri upload req c) (now w))\<lparr>af_id := i\<rparr>) (artifacts w)\<rparr>)"
proof -
  have id: "af_artifact_id (artifact_of req m uri t) = c" for uri t
    using m c by (simp add: artifact_of_def)
  have mc: "m_checksum m = c" using m c by simp
  show "result (publish_build sha mac upload req ds dir) w =
      (if artifact_exists c w then Inl (ErrUnique ''uq_artifacts_artifact_id'')
       else Inr ((artifact_of req m (artifact_uri upload req c) (now w))\<lparr>af_id := seq (artifacts w) + 1\<rparr>, m))"
    and "final (publish_build sha mac upload req ds dir) w =
      (if artifact_exists c w then w
       else w\<lparr>artifacts := tbl_insert
         (\<lambda>i. (artifact_of req m (artifact_uri upload req c) (now w))\<lparr>af_id := i\<rparr>) (artifacts w)\<rparr>)"
    using assms(1) v c(2) unfolding publish_build_def c(1) Sign_def artifact_uri_def
    by (simp_all add: eff_run Let_def m [symmetric] mc id ArtifactStore_Create_calm)
qed

lemma Build_calm:
  assumes "faults w = []"
    and "tbl_find (\<lambda>v. tv_id v = bq_template_version_id req) (template_versions w) = Some ver"
    and "tv_published_at ver \<noteq> None" and "bq_domains req \<noteq> []"
    and "render_domains render ver (sort_key in_fqdn (bq_domains req)) [] = Some dir"
  shows "result (Build sha mac render upload req) w =
      result (publish_build sha mac upload req (sort_key in_fqdn (bq_domains req)) dir) w"
    and "final (Build sha mac render upload req) w =
      final (publish_build sha mac upload req (sort_key in_fqdn (bq_domains req)) dir) w"
  using assms by (auto simp: Build_def GetVersion_def eff_run Let_def)

lemma build_runs:
  assumes calm: "faults w = []"
    and ver: "tbl_find (\<lambda>v. tv_id v = bq_template_version_id req) (template_versions w) = Some ver"
      "tv_published_at ver \<noteq> None" "tv_content_html ver \<noteq> None"
    and ds: "bq_domains req \<noteq> []" and total: "\<forall>t m. render t m \<noteq> None" and sha: "\<forall>x. sha x \<noteq> []"
  obtains dir m where
    "render_domains render ver (sort_key in_fqdn (bq_domains req)) [] = Some dir"
    "m = build_manifest sha req (sort_key in_fqdn (bq_domains req)) dir
       (mac (fst (ComputeDirectoryChecksum sha dir))) (now w)"
    "result (Build sha mac render upload req) w =
      (if artifact_exists (m_checksum m) w then Inl (ErrUnique ''uq_artifacts_artifact_id'')
       else Inr ((artifact_of req m (artifact_uri upload req (m_checksum m)) (now w))
              \<lparr>af_id := seq (artifacts w) + 1\<rparr>, m))"
    "final (Build sha mac render upload req) w =
      (if artifact_exists (m_checksum m) w then w
       else w\<lparr>artifacts := tbl_insert
         (\<lambda>i. (artifact_of req m (artifact_uri upload req (m_checksum m)) (now w))\<lparr>af_id := i\<rparr>) (artifacts w)\<rparr>)"
proof -
  obtain dir where dir: "render_domains render ver (sort_key in_fqdn (bq_domains req)) [] = Some dir"
    using render_domains_total [OF total] by blast
  let ?c = "fst (ComputeDirectoryChecksum sha dir)"
  let ?m = "build_manifest sha req (sort_key in_fqdn (bq_domains req)) dir (mac ?c) (now w)"
  have c: "?c \<noteq> []" using sha by (simp add: ComputeDirectoryChecksum_def Let_def)
  have v: "Validate ?m = None" using built_manifest_valid [OF dir ds ver(3) sha] .
  note pub = publish_build_calm [where c = ?c and m = ?m and upload = upload and mac = mac and sha = sha
      and dir = dir and req = req and ds = "sort_key in_fqdn (bq_domains req)", OF calm refl c refl v]
  show thesis
    using that [OF dir refl] Build_calm [OF calm ver(1,2) ds dir, of sha mac upload] pub by simp
qed

text \<open>
  A build that can succeed does: for a published template with HTML content, a non-empty
  list of domains, a renderer that does not fail and a hash that is never empty, when every
  external call answers the build returns an artifact, adds exactly that row, and repeating
  the same build afterwards is rejected by the unique constraint on the content address.
\<close>

theorem Build_succeeds_once:
  assumes calm: "faults w = []"
    and ver: "tbl_find (\<lambda>v. tv_id v = bq_template_version_id req) (template_versions w) = Some ver"
      "tv_published_at ver \<noteq> None" "tv_content_html ver \<noteq> None"
    and ds: "bq_domains req \<noteq> []" and total: "\<forall>t m. render t m \<noteq> None" and sha: "\<forall>x. sha x \<noteq> []"
    and fresh: "rows (artifacts w) = []"
  shows "\<exists>art m. result (Build sha mac render upload req) w = Inr (art, m) \<and>
    final (Build sha mac render upload req) w =
      w\<lparr>artifacts := \<lparr>rows = [art], seq = seq (artifacts w) + 1\<rparr>\<rparr> \<and>
    result (Build sha mac render upload req) (final (Build sha mac render upload req) w) =
      Inl (ErrUnique ''uq_artifacts_artifact_id'')"
proof -
  obtain dir m where dir: "render_domains render ver (sort_key in_fqdn (bq_domains req)) [] = Some dir"
    and m: "m = build_manifest sha req (sort_key in_fqdn (bq_domains req)) dir
       (mac (fst (ComputeDirectoryChecksum sha dir))) (now w)"
    and r: "result (Build sha mac render upload req) w =
      (if artifact_exists (m_checksum m) w then Inl (ErrUnique ''uq_artifacts_artifact_id'')
       else Inr ((artifact_of req m (artifact_uri upload req (m_checksum m)) (now w))
              \<lparr>af_id := seq (artifacts w) + 1\<rparr>, m))"
    and f: "final (Build sha mac render upload req) w =
      (if artifact_exists (m_checksum m) w then w
       else w\<lparr>artifacts := tbl_insert
         (\<lambda>i. (artifact_of req m (artifact_uri upload req (m_checksum m)) (now w))\<lparr>af_id := i\<rparr>) (artifacts w)\<rparr>)"
    using build_runs [OF calm ver ds total sha] by metis
  let ?art = "(artifact_of req m (artifact_uri upload req (m_checksum m)) (now w))\<lparr>af_id := seq (artifacts w) + 1\<rparr>"
  let ?w = "w\<lparr>artifacts := \<lparr>rows = [?art], seq = seq (artifacts w) + 1\<rparr>\<rparr>"
  have "\<not> artifact_exists (m_checksum m) w" using fresh by (simp add: artifact_exists_def)
  then have r': "result (Build sha mac render upload req) w = Inr (?art, m)"
    and f': "final (Build sha mac render upload req) w = ?w"
    using fresh r f by (simp_all add: tbl_insert_def)
  have calm': "faults ?w = []"
    and ver': "tbl_find (\<lambda>v. tv_id v = bq_template_version_id req) (template_versions ?w) = Some ver"
    using calm ver(1) by simp_all
  have ex: "artifact_exists (m_checksum m) ?w" by (simp add: artifact_exists_def artifact_of_def)
  have "result (Build sha mac render upload req) ?w = Inl (ErrUnique ''uq_artifacts_artifact_id'')"
  proof (rule build_runs [OF calm' ver' ver(2,3) ds total sha, where mac = mac and upload = upload])
    fix dir' m'
    assume "render_domains render ver (sort_key in_fqdn (bq_domains req)) [] = Some dir'"
      and "m' = build_manifest sha req (sort_key in_fqdn (bq_domains req)) dir'
        (mac (fst (ComputeDirectoryChecksum sha dir'))) (now ?w)"
      and "result (Build sha mac render upload req) ?w =
        (if artifact_exists (m_checksum m') ?w then Inl (ErrUnique ''uq_artifacts_artifact_id'')
         else Inr ((artifact_of req m' (artifact_uri upload req (m_checksum m')) (now ?w))
                \<lparr>af_id := seq (artifacts ?w) + 1\<rparr>, m'))"
    with dir m ex show ?thesis by simp
  qed
  with r' f' show ?thesis by auto
qed

definition sample_version :: template_version_row where
  "sample_version = \<lparr>tv_id = 1, tv_template_id = 1, tv_content_html = Some ''<h1>'',
     tv_content_nginx = None, tv_default_variables = Some [], tv_published_at = Some 0,
     tv_version_label = ''v0'', tv_checksum = ''c'', tv_published_by = Some 1, tv_created_at = 0,
     tv_created_by = Some 1\<rparr>"

definition template_world :: world where
  "template_world = empty_world\<lparr>template_versions := \<lparr>rows = [sample_version], seq = 1\<rparr>\<rparr>"

theorem Build_succeeds_once_witness:
  "\<exists>art m. result (Build (\<lambda>x. ''h'' @ x) (\<lambda>x. x) (\<lambda>t m. Some t) (\<lambda>p. p) sample_request) template_world =
     Inr (art, m)"
proof -
  have "faults template_world = []" "rows (artifacts template_world) = []"
    "tbl_find (\<lambda>v. tv_id v = bq_template_version_id sample_request) (template_versions template_world) =
      Some sample_version" "tv_published_at sample_version \<noteq> None" "tv_content_html sample_version \<noteq> None"
    "bq_domains sample_request \<noteq> []"
    by (simp_all add: template_world_def empty_world_def empty_tbl_def sample_request_def
        sample_version_def tbl_find_def)
  from Build_succeeds_once [OF this(1,3,4,5,6) _ _ this(2), of "\<lambda>t m. Some t" "\<lambda>x. ''h'' @ x" "\<lambda>x. x" "\<lambda>p. p"]
  show ?thesis by auto
qed

lemma template_world_runs:
  obtains art m where "result (Build (\<lambda>x. ''h'' @ x) (\<lambda>x. x) (\<lambda>t m. Some t) (\<lambda>p. p) sample_request)
    template_world = Inr (art, m)"
proof (rule build_runs [where w = template_world and ver = sample_version and req = sample_request
      and render = "\<lambda>t m. Some t" and sha = "\<lambda>x. ''h'' @ x" and mac = "\<lambda>x. x" and upload = "\<lambda>p. p"])
qed (auto simp: template_world_def empty_world_def empty_tbl_def sample_request_def
    sample_version_def tbl_find_def artifact_exists_def intro: that)

theorem Build_result_consistent_witness:
  "\<exists>art m. result (Build (\<lambda>x. ''h'' @ x) (\<lambda>x. x) (\<lambda>t m. Some t) (\<lambda>p. p) sample_request) template_world =
     Inr (art, m) \<and> Validate m = None \<and> m_domains m = [''a.com'', ''b.com'']"
proof -
  obtain art m where r: "result (Build (\<lambda>x. ''h'' @ x) (\<lambda>x. x) (\<lambda>t m. Some t) (\<lambda>p. p) sample_request)
    template_world = Inr (art, m)" by (rule template_world_runs)
  from Build_result_consistent [OF r] r show ?thesis
    by (auto simp: sample_request_def)
qed

section \<open>Immutability\<close>

text \<open>Signed artifact rows survive unchanged.\<close>

definition art_step :: "world \<Rightarrow> world \<Rightarrow> bool" where
  "art_step w w' \<longleftrightarrow>
     (\<forall>a \<in> set (rows (artifacts w)). af_signed_at a \<noteq> None \<longrightarrow> a \<in> set (rows (artifacts w')))"

interpretation arts: store_preorder art_step
  by unfold_locales (auto simp: art_step_def)

lemma art_other: "(\<And>w. artifacts (f w) = artifacts w) \<Longrightarrow> art_step w (f w)"
  by (simp add: art_step_def)

lemma art_update_unsigned:
  fixes p :: "artifact_row \<Rightarrow> bool"
  assumes "\<And>a. p a \<Longrightarrow> af_signed_at a = None"
  shows "art_step w (w\<lparr>artifacts := tbl_update p f (artifacts w)\<rparr>)"
  unfolding art_step_def
proof (intro ballI impI)
  fix a assume a: "a \<in> set (rows (artifacts w))" "af_signed_at a \<noteq> None"
  then have "\<not> p a" using assms [of a] by auto
  with a(1) show "a \<in> set (rows (artifacts (w\<lparr>artifacts := tbl_update p f (artifacts w)\<rparr>)))"
    by (auto simp: tbl_update_def intro: image_eqI [of _ _ a])
qed

lemma art_SetReleaseID [eff_intro]: "keeps art_step (SetReleaseID i rel)"
  unfolding SetReleaseID_def checkNotSigned_def
  by (intro eff_intro arts.keeps_exec art_update_unsigned) simp

lemma art_MarkSigned [eff_intro]: "keeps art_step (MarkSigned i sg)"
  unfolding MarkSigned_def Let_def ArtifactStore_GetByID_def
  by (intro eff_intro keepsI) (auto simp: final_def intro!: art_update_unsigned)

lemma art_ArtifactStore_Create [eff_intro]: "keeps art_step (ArtifactStore_Create a)"
  unfolding ArtifactStore_Create_def
  by (intro eff_intro keepsI) (auto simp: final_def art_step_def tbl_insert_def)

lemma art_Build [eff_intro]: "keeps art_step (Build sha mac render upload req)"
  unfolding Build_def publish_build_def Let_def GetVersion_def by (intro eff_intro)

text \<open>A transition of a release leaves every table but its own two alone.\<close>

interpretation art_rel: release_preorder art_step
proof unfold_locales
  fix i f t rs b
  have "artifacts (final (TransitionRelease i f t rs b) w) = artifacts w" for w
    by (rule relm.trans_frame) simp_all
  then show "keeps art_step (TransitionRelease i f t rs b)" by (simp add: keeps_def art_step_def)
next
  fix i and upd :: "int \<Rightarrow> release_row \<Rightarrow> release_row"
  show "keeps art_step (update_release i upd)"
    unfolding update_release_def by (intro arts.keeps_exec art_other) simp
qed (rule art_other; simp)+

lemma k_build_inputs: "keeps art_step (render_input_of defaults i)"
  unfolding render_input_of_def GetVariables_def Let_def by (intro eff_intro)

lemma art_HandleBuild [eff_intro]:
  "keeps art_step (HandleBuild sha mac render upload p slug v rel by ids)"
  unfolding HandleBuild_def by (intro eff_intro k_build_inputs)

end
