(* ===== verification/Alerting.thy ===== *)
theory Alerting
  imports Store
begin

text \<open>
  internal/alert over store/postgres/alert.go and notification.go: the alert engine that
  deduplicates, stores and fans out alerts, and the dispatcher that sends a notification to
  a channel and records the attempt. Sending is a parameter: \<open>send\<close> maps the channel type,
  its configuration and the message to the error the sender returns, if any.
\<close>

section \<open>The alert store\<close>

text \<open>The \<open>CHECK\<close> constraints and column widths of \<open>alert_events\<close>.\<close>

definition alert_admissible :: "alert_row \<Rightarrow> bool" where
  "alert_admissible ev \<longleftrightarrow>
     al_severity ev \<in> {''P1'', ''P2'', ''P3'', ''INFO''} \<and>
     al_source ev \<in> {''probe'', ''drift'', ''expiry'', ''agent'', ''manual'', ''system'', ''gfw''} \<and>
     length (al_target_kind ev) \<le> 32 \<and> length (al_title ev) \<le> 200 \<and>
     (case al_dedup_key ev of None \<Rightarrow> True | Some k \<Rightarrow> length k \<le> 200)"

definition stored_alert :: "alert_row \<Rightarrow> int \<Rightarrow> int \<Rightarrow> alert_row" where
  "stored_alert ev t i = ev\<lparr>al_id := i, al_notified_at := None, al_resolved_at := None,
     al_acknowledged_at := None, al_acknowledged_by := None, al_created_at := t\<rparr>"

definition AlertStore_Insert :: "alert_row \<Rightarrow> alert_row op" where
  "AlertStore_Insert ev = stmt (\<lambda>w.
     if \<not> alert_admissible ev then (Inl (ErrCheck ''alert_events''), w)
     else (Inr (stored_alert ev (now w) (seq (alert_events w) + 1)),
           w\<lparr>alert_events := tbl_insert (stored_alert ev (now w)) (alert_events w)\<rparr>))"

definition active_dedup :: "string \<Rightarrow> int \<Rightarrow> int \<Rightarrow> alert_row \<Rightarrow> bool" where
  "active_dedup k window t a \<longleftrightarrow>
     al_dedup_key a = Some k \<and> al_resolved_at a = None \<and> al_created_at a > t - window"

definition ExistsActiveDedupKey :: "string \<Rightarrow> int \<Rightarrow> bool op" where
  "ExistsActiveDedupKey k window =
     query (\<lambda>w. length (tbl_select (active_dedup k window (now w)) (alert_events w)) > 0)"

definition MarkNotified :: "int \<Rightarrow> unit op" where
  "MarkNotified i = exec (\<lambda>w. w\<lparr>alert_events := tbl_update (\<lambda>a. al_id a = i)
     (\<lambda>a. a\<lparr>al_notified_at := Some (now w)\<rparr>) (alert_events w)\<rparr>)"

definition AlertStore_Resolve :: "int \<Rightarrow> unit op" where
  "AlertStore_Resolve i = exec_unless
     (\<lambda>w. tbl_select (\<lambda>a. al_id a = i \<and> al_resolved_at a = None) (alert_events w) = []) ErrAlertNotFound
     (\<lambda>w. w\<lparr>alert_events := tbl_update (\<lambda>a. al_id a = i \<and> al_resolved_at a = None)
        (\<lambda>a. a\<lparr>al_resolved_at := Some (now w)\<rparr>) (alert_events w)\<rparr>)"

definition ResolveByDedupKey :: "string \<Rightarrow> unit op" where
  "ResolveByDedupKey k = exec (\<lambda>w. w\<lparr>alert_events :=
     tbl_update (\<lambda>a. al_dedup_key a = Some k \<and> al_resolved_at a = None)
       (\<lambda>a. a\<lparr>al_resolved_at := Some (now w)\<rparr>) (alert_events w)\<rparr>)"

definition Acknowledge :: "int \<Rightarrow> int \<Rightarrow> unit op" where
  "Acknowledge i user = exec_unless
     (\<lambda>w. tbl_select (\<lambda>a. al_id a = i \<and> al_acknowledged_at a = None) (alert_events w) = []) ErrAlertNotFound
     (\<lambda>w. w\<lparr>alert_events := tbl_update (\<lambda>a. al_id a = i \<and> al_acknowledged_at a = None)
        (\<lambda>a. a\<lparr>al_acknowledged_at := Some (now w), al_acknowledged_by := Some user\<rparr>) (alert_events w)\<rparr>)"

definition AlertStore_GetByID :: "int \<Rightarrow> alert_row op" where
  "AlertStore_GetByID i = query_one ErrAlertNotFound (\<lambda>w. tbl_find (\<lambda>a. al_id a = i) (alert_events w))"

text \<open>The Go map starts with the four severities at zero.\<close>

definition CountUnresolved :: "(string \<Rightarrow> int) op" where
  "CountUnresolved = query (\<lambda>w sev.
     int (length (tbl_select (\<lambda>a. al_resolved_at a = None \<and> al_severity a = sev) (alert_events w))))"

section \<open>Notification rules and channels\<close>

definition severityRank :: "(string \<times> int) list" where
  "severityRank = [(''P1'', 4), (''P2'', 3), (''P3'', 2), (''INFO'', 1)]"

text \<open>The \<open>WHERE\<close> clause, with SQL's three-valued equality on a \<open>NULL\<close> target, then the Go filter.\<close>

definition rule_selected :: "string \<Rightarrow> string \<Rightarrow> int option \<Rightarrow> rule_row \<Rightarrow> bool" where
  "rule_selected alertType targetType targetID r \<longleftrightarrow>
     nr_enabled r \<and> (nr_alert_type r = None \<or> nr_alert_type r = Some alertType) \<and>
     (nr_target_type r = None \<or> nr_target_type r = Some targetType \<and>
        (nr_target_id r = None \<or> targetID \<noteq> None \<and> nr_target_id r = targetID))"

definition severe_enough :: "string \<Rightarrow> rule_row \<Rightarrow> bool" where
  "severe_enough severity r = (case map_of severityRank (nr_min_severity r) of None \<Rightarrow> False
     | Some minRank \<Rightarrow>
         (case map_of severityRank severity of None \<Rightarrow> 0 | Some evRank \<Rightarrow> evRank) \<ge> minRank)"

definition ListMatchingRules :: "string \<Rightarrow> string \<Rightarrow> string \<Rightarrow> int option \<Rightarrow> rule_row list op" where
  "ListMatchingRules severity alertType targetType targetID =
     bnd (query (\<lambda>w. tbl_select (rule_selected alertType targetType targetID) (notification_rules w)))
       (\<lambda>out. ret (filter (severe_enough severity) out))"

definition rule_admissible :: "rule_row \<Rightarrow> bool" where
  "rule_admissible r \<longleftrightarrow> nr_min_severity r \<in> {''P1'', ''P2'', ''P3'', ''INFO''}"

definition CreateRule :: "rule_row \<Rightarrow> rule_row op" where
  "CreateRule r = stmt (\<lambda>w.
     if \<not> rule_admissible r then (Inl (ErrCheck ''notification_rules''), w)
     else (Inr (r\<lparr>nr_id := seq (notification_rules w) + 1\<rparr>),
           w\<lparr>notification_rules := tbl_insert (\<lambda>i. r\<lparr>nr_id := i\<rparr>) (notification_rules w)\<rparr>))"

definition UpdateRule :: "rule_row \<Rightarrow> unit op" where
  "UpdateRule r = stmt (\<lambda>w.
     if tbl_find (\<lambda>x. nr_id x = nr_id r) (notification_rules w) = None
     then (Inl ErrNotificationRuleNotFound, w)
     else if \<not> rule_admissible r then (Inl (ErrCheck ''notification_rules''), w)
     else (Inr (), w\<lparr>notification_rules := tbl_update (\<lambda>x. nr_id x = nr_id r) (\<lambda>x. r) (notification_rules w)\<rparr>))"

definition DeleteRule :: "int \<Rightarrow> unit op" where
  "DeleteRule i = exec_unless
     (\<lambda>w. tbl_find (\<lambda>r. nr_id r = i) (notification_rules w) = None) ErrNotificationRuleNotFound
     (\<lambda>w. w\<lparr>notification_rules := tbl_delete (\<lambda>r. nr_id r = i) (notification_rules w)\<rparr>)"

definition channel_admissible :: "channel_row \<Rightarrow> bool" where
  "channel_admissible c \<longleftrightarrow> nc_channel_type c \<in> {''telegram'', ''slack'', ''webhook'', ''email''} \<and>
     length (nc_name c) \<le> 128 \<and> nc_config c \<notin> {[], ''null''}"

definition CreateChannel :: "channel_row \<Rightarrow> channel_row op" where
  "CreateChannel c = stmt (\<lambda>w.
     if \<not> channel_admissible c then (Inl (ErrCheck ''notification_channels''), w)
     else (Inr (c\<lparr>nc_id := seq (notification_channels w) + 1\<rparr>),
           w\<lparr>notification_channels := tbl_insert (\<lambda>i. c\<lparr>nc_id := i\<rparr>) (notification_channels w)\<rparr>))"

definition UpdateChannel :: "channel_row \<Rightarrow> unit op" where
  "UpdateChannel c = stmt (\<lambda>w.
     if tbl_find (\<lambda>x. nc_id x = nc_id c) (notification_channels w) = None
     then (Inl ErrNotificationChannelNotFound, w)
     else if \<not> channel_admissible c then (Inl (ErrCheck ''notification_channels''), w)
     else (Inr (), w\<lparr>notification_channels :=
       tbl_update (\<lambda>x. nc_id x = nc_id c) (\<lambda>x. c) (notification_channels w)\<rparr>))"

text \<open>
  The foreign key of \<open>notification_rules\<close> cascades; the one of \<open>notification_history\<close> does not,
  so the statement fails as soon as a notification was recorded for the channel.
\<close>

definition DeleteChannel :: "int \<Rightarrow> unit op" where
  "DeleteChannel i = stmt (\<lambda>w.
     if tbl_find (\<lambda>c. nc_id c = i) (notification_channels w) = None
     then (Inl ErrNotificationChannelNotFound, w)
     else if tbl_find (\<lambda>h. nh_channel_id h = i) (notification_history w) \<noteq> None
     then (Inl (ErrCheck ''notification_history_channel_id_fkey''), w)
     else (Inr (), w\<lparr>notification_channels := tbl_delete (\<lambda>c. nc_id c = i) (notification_channels w),
             notification_rules := tbl_delete (\<lambda>r. nr_channel_id r = i) (notification_rules w)\<rparr>))"

definition GetChannel :: "int \<Rightarrow> channel_row op" where
  "GetChannel i = query_one ErrNotificationChannelNotFound
     (\<lambda>w. tbl_find (\<lambda>c. nc_id c = i) (notification_channels w))"

definition InsertHistory :: "notification_row \<Rightarrow> unit op" where
  "InsertHistory h = exec (\<lambda>w. w\<lparr>notification_history :=
     tbl_insert (\<lambda>i. h\<lparr>nh_id := i, nh_sent_at := now w\<rparr>) (notification_history w)\<rparr>)"

section \<open>The engine\<close>

definition dedupWindow :: int where
  "dedupWindow = 3600"

definition severityToLevel :: "string \<Rightarrow> string" where
  "severityToLevel s =
     (if s = ''P1'' then ''critical'' else if s = ''P2'' then ''error''
      else if s = ''P3'' then ''warning'' else ''info'')"

definition enqueueNotify :: "int \<Rightarrow> int \<Rightarrow> string \<Rightarrow> unit op" where
  "enqueueNotify channelID alertEventID severity =
     enqueue (NotifySendJob channelID alertEventID (severityToLevel severity)) 3 30 ''default'' 0"

text \<open>The loop over the matching rules: \<open>seen\<close> is the Go set, the result counts the enqueued jobs.\<close>

fun fan_out :: "alert_row \<Rightarrow> int list \<Rightarrow> rule_row list \<Rightarrow> nat op" where
  "fan_out ev seen [] = ret 0"
| "fan_out ev seen (r # rs) =
     (if nr_channel_id r \<in> set seen then fan_out ev seen rs
      else bnd (attempt (enqueueNotify (nr_channel_id r) (al_id ev) (al_severity ev))) (\<lambda>res.
           bnd (fan_out ev (nr_channel_id r # seen) rs) (\<lambda>n.
             ret (case res of Inl e \<Rightarrow> n | Inr u \<Rightarrow> Suc n))))"

definition notify_matching :: "alert_row \<Rightarrow> unit op" where
  "notify_matching ev =
     bnd (attempt (ListMatchingRules (al_severity ev) (al_source ev) (al_target_kind ev) (al_target_id ev)))
       (\<lambda>res. case res of
         Inl e \<Rightarrow> ret ()
       | Inr rules \<Rightarrow> if length rules = 0 then ret ()
           else bnd (fan_out ev [] rules) (\<lambda>enqueued.
             if enqueued > 0 then ignore (MarkNotified (al_id ev)) else ret ()))"

definition Fire :: "alert_row \<Rightarrow> unit op" where
  "Fire ev =
     bnd (case al_dedup_key ev of None \<Rightarrow> ret False
          | Some k \<Rightarrow> if k \<noteq> [] then ExistsActiveDedupKey k dedupWindow else ret False) (\<lambda>exists.
       if exists then ret ()
       else bnd (AlertStore_Insert ev) notify_matching)"

definition Resolve :: "string \<Rightarrow> unit op" where
  "Resolve dedupKey = ResolveByDedupKey dedupKey"

definition EnqueueFire :: "alert_fire_payload \<Rightarrow> unit op" where
  "EnqueueFire p = enqueue (AlertFireJob p) 3 30 ''default'' 0"

text \<open>\<open>HandleAlertFire.ProcessTask\<close>.\<close>

definition alert_of_payload :: "alert_fire_payload \<Rightarrow> alert_row" where
  "alert_of_payload p = \<lparr>al_id = 0, al_severity = ap_severity p, al_source = ap_source p,
     al_target_kind = ap_target_kind p, al_target_id = ap_target_id p, al_title = ap_title p,
     al_detail = ap_detail p,
     al_dedup_key = (if ap_dedup_key p \<noteq> [] then Some (ap_dedup_key p) else None),
     al_notified_at = None, al_resolved_at = None, al_acknowledged_at = None,
     al_acknowledged_by = None, al_created_at = 0\<rparr>"

definition HandleAlertFire :: "alert_fire_payload \<Rightarrow> unit op" where
  "HandleAlertFire p = Fire (alert_of_payload p)"

section \<open>The dispatcher\<close>

text \<open>pkg/notify, type \<open>Message\<close>.\<close>

record message =
  ms_subject :: string
  ms_body :: string
  ms_severity :: string

type_synonym sender = "string \<Rightarrow> string \<Rightarrow> message \<Rightarrow> string option"

definition sender_types :: "string list" where
  "sender_types = [''telegram'', ''slack'', ''webhook'', ''email'']"

definition newline :: string where
  "newline = [char_of (10 :: nat)]"

definition buildMessage :: "alert_row \<Rightarrow> message" where
  "buildMessage ev =
     (let body = (case al_detail ev of None \<Rightarrow> al_title ev
        | Some obj \<Rightarrow> (case map_of obj ''description'' of
            Some (JString d) \<Rightarrow> if d \<noteq> [] then al_title ev @ newline @ newline @ d else al_title ev
          | _ \<Rightarrow> al_title ev))
      in \<lparr>ms_subject = ''['' @ al_severity ev @ ''] '' @ al_title ev, ms_body = body,
          ms_severity = al_severity ev\<rparr>)"

definition recordHistory :: "int \<Rightarrow> int option \<Rightarrow> string \<Rightarrow> string \<Rightarrow> string \<Rightarrow> unit op" where
  "recordHistory channelID evID status msg err = ignore (InsertHistory
     \<lparr>nh_id = 0, nh_channel_id = channelID, nh_alert_event_id = evID, nh_status = status,
      nh_message = (if msg \<noteq> [] then Some msg else None),
      nh_error = (if err \<noteq> [] then Some err else None), nh_sent_at = 0\<rparr>)"

text \<open>The history id is already normalised: an event id of 0 is \<open>None\<close>.\<close>

definition sendToChannel :: "sender \<Rightarrow> channel_row \<Rightarrow> int option \<Rightarrow> message \<Rightarrow> unit op" where
  "sendToChannel send ch evID msg =
     (if nc_channel_type ch \<notin> set sender_types then ret ()
      else case send (nc_channel_type ch) (nc_config ch) msg of
          Some err \<Rightarrow> recordHistory (nc_id ch) evID ''failed'' (ms_subject msg) err
        | None \<Rightarrow> recordHistory (nc_id ch) evID ''sent'' (ms_subject msg) [])"

fun dispatch_rules :: "sender \<Rightarrow> alert_row \<Rightarrow> int list \<Rightarrow> rule_row list \<Rightarrow> unit op" where
  "dispatch_rules send ev seen [] = ret ()"
| "dispatch_rules send ev seen (r # rs) =
     (if nr_channel_id r \<in> set seen then dispatch_rules send ev seen rs
      else bnd (attempt (GetChannel (nr_channel_id r))) (\<lambda>res.
           seq_eff (case res of
               Inl e \<Rightarrow> ret ()
             | Inr ch \<Rightarrow> if \<not> nc_enabled ch then ret ()
                 else sendToChannel send ch (if al_id ev \<noteq> 0 then Some (al_id ev) else None) (buildMessage ev))
             (dispatch_rules send ev (nr_channel_id r # seen) rs)))"

definition DispatchEvent :: "sender \<Rightarrow> alert_row \<Rightarrow> unit op" where
  "DispatchEvent send ev =
     bnd (attempt (ListMatchingRules (al_severity ev) (al_source ev) (al_target_kind ev) (al_target_id ev)))
       (\<lambda>res. case res of
         Inl e \<Rightarrow> ret ()
       | Inr rules \<Rightarrow> if length rules = 0 then ret () else dispatch_rules send ev [] rules)"

definition DispatchByChannelID :: "sender \<Rightarrow> int \<Rightarrow> int option \<Rightarrow> message \<Rightarrow> unit op" where
  "DispatchByChannelID send channelID evID msg =
     bnd (attempt (GetChannel channelID)) (\<lambda>res. case res of
       Inl e \<Rightarrow> ret ()
     | Inr ch \<Rightarrow> if \<not> nc_enabled ch
         then recordHistory channelID evID ''suppressed'' (ms_subject msg) ''channel disabled''
         else sendToChannel send ch evID msg)"

text \<open>\<open>HandleNotifySend.ProcessTask\<close>.\<close>

definition fallback_message :: "string \<Rightarrow> message" where
  "fallback_message severity = \<lparr>ms_subject = ''Alert notification'', ms_body = [], ms_severity = severity\<rparr>"

definition HandleNotifySend :: "sender \<Rightarrow> int \<Rightarrow> int \<Rightarrow> string \<Rightarrow> unit op" where
  "HandleNotifySend send channelID evID severity =
     bnd (if evID \<noteq> 0
          then bnd (attempt (AlertStore_GetByID evID)) (\<lambda>res. ret (case res of
                 Inl e \<Rightarrow> fallback_message severity | Inr ev \<Rightarrow> buildMessage ev))
          else ret (fallback_message severity)) (\<lambda>msg.
       DispatchByChannelID send channelID (if evID \<noteq> 0 then Some evID else None) msg)"

section \<open>What the engine and the dispatcher write\<close>

text \<open>
  The interface of a preorder on worlds that tolerates writes to the tables of this component
  and to the queue: every operation keeps it.
\<close>

locale alert_blind = store_preorder R for R :: "world \<Rightarrow> world \<Rightarrow> bool" +
  assumes A_events: "R w (w\<lparr>alert_events := x1\<rparr>)" and A_rules: "R w (w\<lparr>notification_rules := x2\<rparr>)"
    and A_channels: "R w (w\<lparr>notification_channels := x3\<rparr>)"
    and A_history: "R w (w\<lparr>notification_history := x4\<rparr>)"
    and A_queue: "R w (w\<lparr>task_queue := x5\<rparr>)"
begin

lemma k_insert [eff_intro]: "keeps R (AlertStore_Insert ev)"
  unfolding AlertStore_Insert_def by (intro keeps_stmt keepsI) (simp add: final_def A_events R_refl)

lemma k_alert_writes [eff_intro]:
  "keeps R (MarkNotified i)" "keeps R (AlertStore_Resolve i)" "keeps R (ResolveByDedupKey k)"
  "keeps R (Acknowledge i u)" "keeps R (InsertHistory h)"
  unfolding MarkNotified_def AlertStore_Resolve_def ResolveByDedupKey_def Acknowledge_def InsertHistory_def
  by (intro keeps_exec keeps_exec_unless A_events A_history)+

lemma k_rule_writes [eff_intro]:
  "keeps R (CreateRule r)" "keeps R (UpdateRule r)" "keeps R (DeleteRule i)"
  unfolding CreateRule_def UpdateRule_def DeleteRule_def
  by (intro keeps_exec_unless keeps_stmt keepsI A_rules; simp add: final_def A_rules R_refl)+

lemma k_channel_writes [eff_intro]:
  "keeps R (CreateChannel c)" "keeps R (UpdateChannel c)" "keeps R (DeleteChannel i)"
proof -
  have "R w (w\<lparr>notification_channels := x, notification_rules := y\<rparr>)" for w x y
    using A_channels [of w x] A_rules [of "w\<lparr>notification_channels := x\<rparr>" y] by (rule R_trans)
  then show "keeps R (DeleteChannel i)"
    unfolding DeleteChannel_def by (intro keeps_stmt keepsI) (simp add: final_def R_refl)
  show "keeps R (CreateChannel c)" "keeps R (UpdateChannel c)"
    unfolding CreateChannel_def UpdateChannel_def
    by (intro keeps_stmt keepsI; simp add: final_def A_channels R_refl)+
qed

lemma k_enqueueNotify [eff_intro]: "keeps R (enqueueNotify c i s)"
  unfolding enqueueNotify_def by (intro keeps_enqueue A_queue)

lemma k_fan_out [eff_intro]: "keeps R (fan_out ev seen rs)"
  by (induction ev seen rs rule: fan_out.induct) (auto intro!: eff_intro)

lemma k_ListMatchingRules [eff_intro]: "keeps R (ListMatchingRules s a t i)"
  unfolding ListMatchingRules_def by (intro eff_intro)

lemma k_notify_matching [eff_intro]: "keeps R (notify_matching ev)"
  unfolding notify_matching_def by (intro eff_intro)

lemma k_Fire [eff_intro]: "keeps R (Fire ev)"
  unfolding Fire_def ExistsActiveDedupKey_def by (intro eff_intro)

lemma k_Resolve [eff_intro]: "keeps R (Resolve k)"
  unfolding Resolve_def by (intro eff_intro)

lemma k_HandleAlertFire [eff_intro]: "keeps R (HandleAlertFire p)"
  unfolding HandleAlertFire_def by (intro eff_intro)

lemma k_sendToChannel [eff_intro]: "keeps R (sendToChannel send ch i m)"
  unfolding sendToChannel_def recordHistory_def by (intro eff_intro)

lemma k_HandleNotifySend [eff_intro]: "keeps R (HandleNotifySend send c i s)"
  unfolding HandleNotifySend_def DispatchByChannelID_def recordHistory_def GetChannel_def AlertStore_GetByID_def
  by (intro eff_intro)

end

section \<open>Deduplication\<close>

text \<open>
  The contract of the dedup key between an alert and a later one with the same key: when the
  later one was stored, the earlier one was resolved or at least one hour old.
\<close>

definition dedup_ok :: "alert_row \<Rightarrow> alert_row \<Rightarrow> bool" where
  "dedup_ok a b \<longleftrightarrow> (\<forall>k. al_dedup_key a = Some k \<and> al_dedup_key b = Some k \<and> k \<noteq> [] \<longrightarrow>
     al_created_at b \<ge> al_created_at a + 3600 \<or>
     (\<exists>t. al_resolved_at a = Some t \<and> t \<le> al_created_at b))"

definition alert_inv :: "world \<Rightarrow> bool" where
  "alert_inv w \<longleftrightarrow> sorted_wrt dedup_ok (rows (alert_events w)) \<and>
     (\<forall>a \<in> set (rows (alert_events w)). al_created_at a \<le> now w \<and>
        (\<forall>t. al_resolved_at a = Some t \<longrightarrow> t \<le> now w))"

definition al_step :: "world \<Rightarrow> world \<Rightarrow> bool" where
  "al_step w w' \<longleftrightarrow> (alert_inv w \<longrightarrow> alert_inv w')"

interpretation alm: store_preorder al_step
  by unfold_locales (auto simp: al_step_def alert_inv_def)

lemma al_other:
  assumes "\<And>w. alert_events (f w) = alert_events w" and "\<And>w. now (f w) = now w"
  shows "al_step w (f w)"
  using assms by (simp add: al_step_def alert_inv_def)

lemma alert_inv_faults [simp]: "alert_inv (w\<lparr>faults := fs\<rparr>) = alert_inv w"
  by (simp add: alert_inv_def)

text \<open>Updates of an alert that leave its key and age alone and do not undo its resolution.\<close>

lemma alert_inv_update:
  assumes inv: "alert_inv w"
    and same: "\<And>a. al_dedup_key (f a) = al_dedup_key a" "\<And>a. al_created_at (f a) = al_created_at a"
    and resolved: "\<And>a. p a \<Longrightarrow> al_resolved_at (f a) = al_resolved_at a \<or>
      al_resolved_at a = None \<and> al_resolved_at (f a) = Some (now w)"
  shows "alert_inv (w\<lparr>alert_events := tbl_update p f (alert_events w)\<rparr>)"
proof -
  let ?g = "\<lambda>a. if p a then f a else a"
  have ok: "dedup_ok (?g a) (?g b)" if "dedup_ok a b" for a b
    using that same resolved [of a] unfolding dedup_ok_def by auto
  have "sorted_wrt (\<lambda>a b. dedup_ok (?g a) (?g b)) (rows (alert_events w))"
    by (rule sorted_wrt_mono_rel [OF _ inv [unfolded alert_inv_def, THEN conjunct1]]) (rule ok)
  moreover have "al_created_at (?g a) \<le> now w \<and> (\<forall>t. al_resolved_at (?g a) = Some t \<longrightarrow> t \<le> now w)"
    if "a \<in> set (rows (alert_events w))" for a
    using that inv same resolved [of a] unfolding alert_inv_def by auto
  ultimately show ?thesis
    by (simp add: alert_inv_def tbl_defs sorted_wrt_map del: if_image_distrib)
qed

lemma al_writes [eff_intro]:
  "keeps al_step (MarkNotified i)" "keeps al_step (AlertStore_Resolve i)"
  "keeps al_step (ResolveByDedupKey k)" "keeps al_step (Acknowledge i u)"
  unfolding MarkNotified_def AlertStore_Resolve_def ResolveByDedupKey_def Acknowledge_def
  by (intro alm.keeps_exec alm.keeps_exec_unless; auto simp: al_step_def intro!: alert_inv_update)+

lemma alert_inv_insert:
  assumes inv: "alert_inv w"
    and none: "\<And>k a. al_dedup_key ev = Some k \<Longrightarrow> k \<noteq> [] \<Longrightarrow> a \<in> set (rows (alert_events w)) \<Longrightarrow>
      \<not> active_dedup k 3600 (now w) a"
  shows "alert_inv (w\<lparr>alert_events := tbl_insert (stored_alert ev (now w)) (alert_events w)\<rparr>)"
proof -
  have "dedup_ok a (stored_alert ev (now w) i)" if a: "a \<in> set (rows (alert_events w))" for a i
    using none [OF _ _ a] inv a
    unfolding dedup_ok_def active_dedup_def alert_inv_def stored_alert_def by force
  with inv show ?thesis
    by (auto simp: alert_inv_def tbl_defs sorted_wrt_append stored_alert_def)
qed

text \<open>Everything after the insert leaves the contract alone.\<close>

lemma al_queue: "al_step w (w\<lparr>task_queue := q\<rparr>)"
  by (rule al_other) simp_all

lemma al_fan_out [eff_intro]: "keeps al_step (fan_out ev seen rs)"
  by (induction ev seen rs rule: fan_out.induct)
    (auto simp: enqueueNotify_def intro!: eff_intro alm.keeps_enqueue al_queue)

lemma al_notify_matching [eff_intro]: "keeps al_step (notify_matching ev)"
  unfolding notify_matching_def ListMatchingRules_def by (intro eff_intro)

definition quiet_key :: "alert_row \<Rightarrow> world \<Rightarrow> bool" where
  "quiet_key ev w \<longleftrightarrow> (\<forall>k. al_dedup_key ev = Some k \<longrightarrow> k \<noteq> [] \<longrightarrow>
     (\<forall>a \<in> set (rows (alert_events w)). \<not> active_dedup k 3600 (now w) a))"

lemma quiet_key_faults [simp]: "quiet_key ev (w\<lparr>faults := fs\<rparr>) = quiet_key ev w"
  by (simp add: quiet_key_def)

lemma hoare_dedup_check:
  "hoare alert_inv
     (case al_dedup_key ev of None \<Rightarrow> ret False
      | Some k \<Rightarrow> if k \<noteq> [] then ExistsActiveDedupKey k dedupWindow else ret False)
     (\<lambda>exists w. alert_inv w \<and> (\<not> exists \<longrightarrow> quiet_key ev w)) alert_inv"
proof (cases "al_dedup_key ev")
  case (Some k)
  have "hoare alert_inv (ExistsActiveDedupKey k dedupWindow)
     (\<lambda>exists w. alert_inv w \<and> (\<not> exists \<longrightarrow> quiet_key ev w)) alert_inv" if "k \<noteq> []"
    unfolding ExistsActiveDedupKey_def query_def dedupWindow_def
    using Some that by (intro hoare_stmt) (auto simp: hoare_def quiet_key_def tbl_defs filter_empty_conv)
  with Some show ?thesis by (auto simp: quiet_key_def intro!: hoare_ret)
qed (auto simp: quiet_key_def intro!: hoare_ret)

lemma hoare_insert_alert:
  "hoare (\<lambda>w. alert_inv w \<and> quiet_key ev w) (AlertStore_Insert ev) (\<lambda>_. alert_inv) alert_inv"
proof -
  have "alert_inv (w\<lparr>alert_events := tbl_insert (stored_alert ev (now w)) (alert_events w)\<rparr>)"
    if "alert_inv w" "quiet_key ev w" for w
    using that by (intro alert_inv_insert) (auto simp: quiet_key_def)
  then show ?thesis
    unfolding AlertStore_Insert_def
    by (intro hoare_stmt) (auto simp: hoare_def result_def final_def)
qed

lemma al_Fire [eff_intro]: "keeps al_step (Fire ev)"
proof -
  have step: "hoare alert_inv (notify_matching e) (\<lambda>_. alert_inv) alert_inv" for e
    by (rule hoare_frame [OF al_notify_matching]) (simp add: al_step_def)
  have "hoare alert_inv (Fire ev) (\<lambda>_. alert_inv) alert_inv"
    unfolding Fire_def
    by (intro hoare_bnd [OF hoare_dedup_check] hoare_if hoare_ret
        hoare_pre [OF hoare_bnd [OF hoare_insert_alert step]]) auto
  then show ?thesis
    by (rule hoare_keepsI) (simp add: al_step_def)
qed

lemma al_channels [eff_intro]:
  "keeps al_step (CreateRule r)" "keeps al_step (UpdateRule r)" "keeps al_step (DeleteRule i)"
  "keeps al_step (CreateChannel c)" "keeps al_step (UpdateChannel c)" "keeps al_step (DeleteChannel i)"
  unfolding CreateRule_def UpdateRule_def DeleteRule_def CreateChannel_def UpdateChannel_def DeleteChannel_def
  by (intro alm.keeps_stmt alm.keeps_exec_unless keepsI; simp add: final_def al_step_def alert_inv_def)+

lemma al_HandleNotifySend [eff_intro]: "keeps al_step (HandleNotifySend send c i s)"
  unfolding HandleNotifySend_def AlertStore_GetByID_def DispatchByChannelID_def GetChannel_def sendToChannel_def
    recordHistory_def InsertHistory_def
  by (intro eff_intro alm.keeps_exec al_other) simp_all

section \<open>Fan-out\<close>

text \<open>The channels of a list of rules in order of first occurrence, without those already seen.\<close>

fun fresh_channels :: "int list \<Rightarrow> rule_row list \<Rightarrow> int list" where
  "fresh_channels seen [] = []"
| "fresh_channels seen (r # rs) =
     (if nr_channel_id r \<in> set seen then fresh_channels seen rs
      else nr_channel_id r # fresh_channels (nr_channel_id r # seen) rs)"

lemma set_fresh_channels: "set (fresh_channels seen rs) = nr_channel_id ` set rs - set seen"
  by (induction seen rs rule: fresh_channels.induct) auto

lemma distinct_fresh_channels: "distinct (fresh_channels seen rs)"
  by (induction seen rs rule: fresh_channels.induct) (auto simp: set_fresh_channels)

definition notify_job :: "alert_row \<Rightarrow> int \<Rightarrow> queued" where
  "notify_job ev c = \<lparr>q_job = NotifySendJob c (al_id ev) (severityToLevel (al_severity ev)),
     q_max_retry = 3, q_timeout = 30, q_queue = ''default'', q_process_in = 0\<rparr>"

lemma fan_out_calm:
  assumes "faults w = []"
  shows "result (fan_out ev seen rs) w = Inr (length (fresh_channels seen rs))"
    and "final (fan_out ev seen rs) w =
      w\<lparr>task_queue := task_queue w @ map (notify_job ev) (fresh_channels seen rs)\<rparr>"
  using assms
  by (induction ev seen rs arbitrary: w rule: fan_out.induct)
    (simp_all add: enqueueNotify_def eff_run notify_job_def)

definition matching :: "alert_row \<Rightarrow> world \<Rightarrow> rule_row list" where
  "matching ev w = filter (severe_enough (al_severity ev))
     (tbl_select (rule_selected (al_source ev) (al_target_kind ev) (al_target_id ev)) (notification_rules w))"

lemma ListMatchingRules_calm:
  assumes "faults w = []"
  shows "result (ListMatchingRules (al_severity ev) (al_source ev) (al_target_kind ev) (al_target_id ev)) w
      = Inr (matching ev w)"
    and "final (ListMatchingRules s a tk ti) w = w"
  using assms by (simp_all add: ListMatchingRules_def matching_def eff_run)

lemma notify_matching_calm:
  assumes "faults w = []"
  shows "result (notify_matching ev) w = Inr ()"
    and "task_queue (final (notify_matching ev) w) =
      task_queue w @ map (notify_job ev) (fresh_channels [] (matching ev w))"
    and "map al_id (rows (alert_events (final (notify_matching ev) w))) = map al_id (rows (alert_events w))"
  using assms
  by (auto simp: notify_matching_def eff_run ListMatchingRules_calm fan_out_calm MarkNotified_def tbl_defs
      split: sum.splits)

lemma Fire_run:
  assumes "faults w = []" and "alert_admissible ev" and "quiet_key ev w"
  shows "result (Fire ev) w = result (notify_matching (stored_alert ev (now w) (seq (alert_events w) + 1)))
      (w\<lparr>alert_events := tbl_insert (stored_alert ev (now w)) (alert_events w)\<rparr>)"
    and "final (Fire ev) w = final (notify_matching (stored_alert ev (now w) (seq (alert_events w) + 1)))
      (w\<lparr>alert_events := tbl_insert (stored_alert ev (now w)) (alert_events w)\<rparr>)"
proof -
  have "result (case al_dedup_key ev of None \<Rightarrow> ret False
      | Some k \<Rightarrow> if k \<noteq> [] then ExistsActiveDedupKey k dedupWindow else ret False) w = Inr False"
    and "final (case al_dedup_key ev of None \<Rightarrow> ret False
      | Some k \<Rightarrow> if k \<noteq> [] then ExistsActiveDedupKey k dedupWindow else ret False) w = w"
    using assms(1,3) by (auto simp: ExistsActiveDedupKey_def quiet_key_def dedupWindow_def tbl_defs
        filter_empty_conv split: option.split)
  moreover have "result (AlertStore_Insert ev) w = Inr (stored_alert ev (now w) (seq (alert_events w) + 1))"
    and "final (AlertStore_Insert ev) w =
      w\<lparr>alert_events := tbl_insert (stored_alert ev (now w)) (alert_events w)\<rparr>"
    using assms(1,2) by (simp_all add: AlertStore_Insert_def) (simp_all add: result_def final_def)
  ultimately show "result (Fire ev) w = result (notify_matching (stored_alert ev (now w) (seq (alert_events w) + 1)))
      (w\<lparr>alert_events := tbl_insert (stored_alert ev (now w)) (alert_events w)\<rparr>)"
    and "final (Fire ev) w = final (notify_matching (stored_alert ev (now w) (seq (alert_events w) + 1)))
      (w\<lparr>alert_events := tbl_insert (stored_alert ev (now w)) (alert_events w)\<rparr>)"
    by (simp_all add: Fire_def eff_run)
qed

text \<open>Notifying touches at most the time of notification of an alert.\<close>

lemma notify_matching_alerts:
  assumes "faults w = []" and "a \<in> set (rows (alert_events w))"
  shows "\<exists>b \<in> set (rows (alert_events (final (notify_matching ev) w))). \<exists>t. b = a\<lparr>al_notified_at := t\<rparr>"
proof -
  have "\<exists>t. a = a\<lparr>al_notified_at := t\<rparr>"
    by (rule exI [of _ "al_notified_at a"]) simp
  with assms show ?thesis
    by (auto simp: notify_matching_def eff_run ListMatchingRules_calm fan_out_calm MarkNotified_def tbl_defs
        image_iff Bex_def split: sum.splits)
qed

lemma Fire_stores:
  assumes "faults w = []" and "alert_admissible ev" and "quiet_key ev w"
  shows "result (Fire ev) w = Inr ()"
    and "\<exists>a \<in> set (rows (alert_events (final (Fire ev) w))). al_id a = seq (alert_events w) + 1 \<and>
       al_severity a = al_severity ev \<and> al_target_id a = al_target_id ev \<and> al_resolved_at a = None"
proof -
  let ?i = "seq (alert_events w) + 1"
  let ?w = "w\<lparr>alert_events := tbl_insert (stored_alert ev (now w)) (alert_events w)\<rparr>"
  have calm: "faults ?w = []" using assms(1) by simp
  then show "result (Fire ev) w = Inr ()"
    by (simp add: Fire_run [OF assms] notify_matching_calm)
  have "stored_alert ev (now w) ?i \<in> set (rows (alert_events ?w))" by (simp add: tbl_defs)
  from notify_matching_alerts [OF calm this, of "stored_alert ev (now w) ?i"] obtain b t where
    "b \<in> set (rows (alert_events (final (Fire ev) w)))" "b = (stored_alert ev (now w) ?i)\<lparr>al_notified_at := t\<rparr>"
    unfolding Fire_run(2) [OF assms] by blast
  then show "\<exists>a \<in> set (rows (alert_events (final (Fire ev) w))). al_id a = ?i \<and>
       al_severity a = al_severity ev \<and> al_target_id a = al_target_id ev \<and> al_resolved_at a = None"
    by (intro bexI [of _ b]) (simp_all add: stored_alert_def)
qed

text \<open>
  A fired alert reaches every channel it should, once: when the database and the queue answer, no
  active alert of the last hour carries its dedup key and the row is admissible, firing stores
  it under a new key and queues exactly one notification for every channel some enabled rule
  of sufficient severity assigns to it.
\<close>

theorem Fire_notifies_each_channel_once:
  assumes "faults w = []" and "alert_admissible ev" and "quiet_key ev w"
  shows "result (Fire ev) w = Inr () \<and>
    map al_id (rows (alert_events (final (Fire ev) w))) =
      map al_id (rows (alert_events w)) @ [seq (alert_events w) + 1] \<and>
    (\<exists>qs. task_queue (final (Fire ev) w) = task_queue w @ qs \<and> distinct (map q_job qs) \<and>
       q_job ` set qs = (\<lambda>c. NotifySendJob c (seq (alert_events w) + 1) (severityToLevel (al_severity ev))) `
         nr_channel_id ` {r \<in> set (rows (notification_rules w)). rule_selected (al_source ev) (al_target_kind ev)
           (al_target_id ev) r \<and> severe_enough (al_severity ev) r})"
proof -
  let ?ev = "stored_alert ev (now w) (seq (alert_events w) + 1)"
  let ?w = "w\<lparr>alert_events := tbl_insert (stored_alert ev (now w)) (alert_events w)\<rparr>"
  have "result (Fire ev) w = result (notify_matching ?ev) ?w"
    and "final (Fire ev) w = final (notify_matching ?ev) ?w"
    using Fire_run [OF assms] by simp_all
  moreover have calm: "faults ?w = []" using assms(1) by simp
  moreover have "set (matching ?ev ?w) = {r \<in> set (rows (notification_rules w)). rule_selected (al_source ev)
      (al_target_kind ev) (al_target_id ev) r \<and> severe_enough (al_severity ev) r}"
    by (auto simp: matching_def tbl_defs stored_alert_def)
  moreover have "distinct (map q_job (map (notify_job ?ev) (fresh_channels [] (matching ?ev ?w))))"
    by (simp add: distinct_map distinct_fresh_channels inj_on_def notify_job_def)
  ultimately show ?thesis
    using notify_matching_calm [OF calm, of ?ev]
    by (auto simp: set_fresh_channels tbl_defs notify_job_def stored_alert_def image_image)
qed

end
