(* ===== verification/Gfw_Analyzer.thy ===== *)
theory Gfw_Analyzer
  imports Store "HOL-Library.Word"
begin

text \<open>
  internal/gfw/analyzer.go, cdn\_asn.go and the pure part of confidence.go: the decision tree
  that compares what a probe node inside the firewall saw with what a control node outside
  saw, the table of CDN address ranges that explains harmless differences, and the score of a
  run of observations. Percentages and ratios are exact rationals; the comparisons agree with
  the program's \<open>float64\<close> as long as body lengths stay below \<open>2\<^sup>5\<^sup>0\<close>.
\<close>

section \<open>Addresses and networks\<close>

text \<open>
  \<open>net.ParseIP\<close> and \<open>net.ParseCIDR\<close> on dotted-quad text: four decimal fields without leading
  zeros, each at most 255, and a prefix length of at most 32. The table holds only IPv4
  networks, which contain no address in another notation.
\<close>

definition is_digit_char :: "char \<Rightarrow> bool" where
  "is_digit_char c \<longleftrightarrow> 48 \<le> (of_char c :: int) \<and> (of_char c :: int) \<le> 57"

definition parse_decimal :: "string \<Rightarrow> int option" where
  "parse_decimal s =
     (if s = [] \<or> length s > 3 \<or> \<not> list_all is_digit_char s \<or> (length s > 1 \<and> hd s = CHR ''0'') then None
      else Some (foldl (\<lambda>n c. 10 * n + (of_char c - 48)) 0 s))"

definition ParseIP :: "string \<Rightarrow> 32 word option" where
  "ParseIP s = (case map parse_decimal (Split (CHR ''.'') s) of
       [Some a, Some b, Some c, Some d] \<Rightarrow>
         if a \<le> 255 \<and> b \<le> 255 \<and> c \<le> 255 \<and> d \<le> 255
         then Some (word_of_int (((a * 256 + b) * 256 + c) * 256 + d)) else None
     | _ \<Rightarrow> None)"

type_synonym ip_net = "32 word \<times> nat"

definition net_mask :: "nat \<Rightarrow> 32 word" where
  "net_mask n = push_bit (32 - n) (- 1)"

definition ParseCIDR :: "string \<Rightarrow> ip_net option" where
  "ParseCIDR s = (case Split (CHR ''/'') s of
       [a, p] \<Rightarrow> (case (ParseIP a, parse_decimal p) of
           (Some ip, Some n) \<Rightarrow> if n \<le> 32 then Some (and ip (net_mask (nat n)), nat n) else None
         | _ \<Rightarrow> None)
     | _ \<Rightarrow> None)"

definition net_contains :: "ip_net \<Rightarrow> 32 word \<Rightarrow> bool" where
  "net_contains e ip \<longleftrightarrow> and ip (net_mask (snd e)) = fst e"

section \<open>The CDN table\<close>

type_synonym asn_database = "(ip_net \<times> string) list"

definition NewStaticASNDatabase :: "(string \<times> string) list \<Rightarrow> asn_database" where
  "NewStaticASNDatabase cidrs =
     List.map_filter (\<lambda>(c, name). map_option (\<lambda>net. (net, name)) (ParseCIDR c)) cidrs"

definition ASN_Lookup :: "asn_database \<Rightarrow> string \<Rightarrow> string" where
  "ASN_Lookup db ip = (case ParseIP ip of None \<Rightarrow> []
     | Some parsed \<Rightarrow> (case find (\<lambda>e. net_contains (fst e) parsed) db of
         None \<Rightarrow> [] | Some e \<Rightarrow> snd e))"

definition DefaultCDNCIDRs :: "(string \<times> string) list" where
  "DefaultCDNCIDRs =
    [(''103.21.244.0/22'', ''cloudflare''), (''103.22.200.0/22'', ''cloudflare''),
     (''103.31.4.0/22'', ''cloudflare''), (''104.16.0.0/13'', ''cloudflare''),
     (''104.24.0.0/14'', ''cloudflare''), (''108.162.192.0/18'', ''cloudflare''),
     (''131.0.72.0/22'', ''cloudflare''), (''141.101.64.0/18'', ''cloudflare''),
     (''162.158.0.0/15'', ''cloudflare''), (''172.64.0.0/13'', ''cloudflare''),
     (''173.245.48.0/20'', ''cloudflare''), (''188.114.96.0/20'', ''cloudflare''),
     (''190.93.240.0/20'', ''cloudflare''), (''197.234.240.0/22'', ''cloudflare''),
     (''198.41.128.0/17'', ''cloudflare''), (''23.235.32.0/20'', ''fastly''),
     (''43.249.72.0/22'', ''fastly''), (''103.244.50.0/24'', ''fastly''),
     (''103.245.222.0/23'', ''fastly''), (''103.245.224.0/24'', ''fastly''),
     (''104.156.80.0/20'', ''fastly''), (''151.101.0.0/16'', ''fastly''),
     (''157.52.64.0/18'', ''fastly''), (''167.82.0.0/17'', ''fastly''),
     (''172.111.64.0/18'', ''fastly''), (''185.31.16.0/22'', ''fastly''),
     (''199.27.72.0/21'', ''fastly''), (''199.232.0.0/16'', ''fastly''),
     (''23.32.0.0/11'', ''akamai''), (''23.192.0.0/11'', ''akamai''),
     (''2.16.0.0/13'', ''akamai''), (''92.122.0.0/15'', ''akamai''),
     (''184.24.0.0/13'', ''akamai''), (''13.32.0.0/15'', ''cloudfront''),
     (''13.35.0.0/16'', ''cloudfront''), (''52.84.0.0/15'', ''cloudfront''),
     (''54.182.0.0/16'', ''cloudfront''), (''54.192.0.0/16'', ''cloudfront''),
     (''54.230.0.0/16'', ''cloudfront''), (''54.239.128.0/18'', ''cloudfront''),
     (''99.86.0.0/16'', ''cloudfront''), (''205.251.192.0/19'', ''cloudfront''),
     (''34.64.0.0/10'', ''google''), (''34.128.0.0/10'', ''google''),
     (''35.184.0.0/13'', ''google''), (''35.192.0.0/14'', ''google'')]"

definition DefaultASNDatabase :: asn_database where
  "DefaultASNDatabase = NewStaticASNDatabase DefaultCDNCIDRs"

section \<open>Verdicts\<close>

record verdict =
  vt_domain_id :: int
  vt_fqdn :: string
  vt_blocking :: string
  vt_accessible :: bool
  vt_dns_consistency :: string
  vt_confidence :: rat
  vt_probe_node_id :: string
  vt_control_node_id :: string
  vt_detail :: verdict_detail
  vt_measured_at :: int

definition no_detail :: verdict_detail where
  "no_detail = \<lparr>vd_probe_answers = [], vd_control_answers = [], vd_probe_is_bogon = False,
     vd_probe_is_injected = False, vd_cdn_owner = [], vd_probe_tcp_success = False,
     vd_control_tcp_success = False, vd_tcp_error = [], vd_probe_tls_success = False,
     vd_control_tls_success = False, vd_tls_error = [], vd_probe_http_status = 0,
     vd_control_http_status = 0, vd_probe_http_title = [], vd_control_http_title = [],
     vd_http_error = []\<rparr>"

section \<open>The DNS layer\<close>

fun ipSetOverlap :: "string list \<Rightarrow> string list \<Rightarrow> bool" where
  "ipSetOverlap [] b \<longleftrightarrow> False"
| "ipSetOverlap (ip # a) b \<longleftrightarrow> ip \<in> set b \<or> ipSetOverlap a b"

text \<open>\<open>asn\<close> is the \<open>Lookup\<close> of the configured database, \<open>None\<close> for a nil interface.\<close>

definition cdnMatchAll :: "(string \<Rightarrow> string) option \<Rightarrow> string list \<Rightarrow> string list \<Rightarrow> string" where
  "cdnMatchAll asn probeIPs controlIPs = (case asn of None \<Rightarrow> []
     | Some lookup \<Rightarrow>
         if length probeIPs = 0 \<or> length controlIPs = 0 then []
         else let cdn = lookup (controlIPs ! 0) in
           if cdn = [] then []
           else if list_ex (\<lambda>ip. lookup ip \<noteq> cdn) (probeIPs @ controlIPs) then [] else cdn)"

record dns_check_detail =
  dc_probe_answers :: "string list"
  dc_control_answers :: "string list"
  dc_probe_is_bogon :: bool
  dc_probe_is_injected :: bool
  dc_cdn_owner :: string

definition control_dns :: "measurement option \<Rightarrow> dns_result option" where
  "control_dns control = (case control of None \<Rightarrow> None | Some c \<Rightarrow> me_dns c)"

definition checkDNS ::
    "(string \<Rightarrow> string) option \<Rightarrow> measurement \<Rightarrow> measurement option \<Rightarrow> string \<times> dns_check_detail" where
  "checkDNS asn probe control = (case me_dns probe of
       None \<Rightarrow> ([], \<lparr>dc_probe_answers = [], dc_control_answers = [], dc_probe_is_bogon = False,
                  dc_probe_is_injected = False, dc_cdn_owner = []\<rparr>)
     | Some d \<Rightarrow>
         let detail = \<lparr>dc_probe_answers = dr_answers d,
               dc_control_answers = (case control_dns control of None \<Rightarrow> [] | Some c \<Rightarrow> dr_answers c),
               dc_probe_is_bogon = dr_is_bogon d, dc_probe_is_injected = dr_is_injected d,
               dc_cdn_owner = []\<rparr>
         in if dr_is_bogon d \<or> dr_is_injected d then (''inconsistent'', detail)
            else if dr_error d \<noteq> [] \<and> (case control_dns control of None \<Rightarrow> True | Some c \<Rightarrow> dr_error c = [])
            then (''inconsistent'', detail)
            else (case control_dns control of
                None \<Rightarrow> (''consistent'', detail)
              | Some c \<Rightarrow>
                  if length (dr_answers c) > 0 \<and> \<not> ipSetOverlap (dr_answers d) (dr_answers c)
                  then let cdnOwner = cdnMatchAll asn (dr_answers d) (dr_answers c) in
                    if cdnOwner \<noteq> [] then (''consistent'', detail\<lparr>dc_cdn_owner := cdnOwner\<rparr>)
                    else (''inconsistent'', detail)
                  else (''consistent'', detail)))"

section \<open>The TCP and TLS layers\<close>

text \<open>The loop over the attempts: whether all failed, and the first non-empty error of a failed one.\<close>

fun scan_tcp :: "tcp_result list \<Rightarrow> bool \<times> string \<Rightarrow> bool \<times> string" where
  "scan_tcp [] acc = acc"
| "scan_tcp (r # rs) (allFail, errStr) =
     scan_tcp rs (if tcp_success r then (False, errStr)
       else if errStr = [] then (allFail, tcp_error r) else (allFail, errStr))"

definition checkTCP :: "measurement \<Rightarrow> measurement option \<Rightarrow> bool \<times> bool \<times> string" where
  "checkTCP probe control =
     (if length (me_tcp probe) = 0 then (False, False, [])
      else let (allFail, errStr) = scan_tcp (me_tcp probe) (True, []);
               anyOK = (case control of None \<Rightarrow> False | Some c \<Rightarrow> list_ex tcp_success (me_tcp c))
        in (allFail, anyOK, errStr))"

fun scan_tls :: "tls_result list \<Rightarrow> bool \<times> string \<Rightarrow> bool \<times> string" where
  "scan_tls [] acc = acc"
| "scan_tls (r # rs) (allFail, errStr) =
     scan_tls rs (if tls_success r then (False, errStr)
       else if errStr = [] then (allFail, tls_error r) else (allFail, errStr))"

definition containsAnyStr :: "string \<Rightarrow> string list \<Rightarrow> bool" where
  "containsAnyStr s subs = list_ex (Contains s) subs"

definition isTLSSNIError :: "string \<Rightarrow> bool" where
  "isTLSSNIError errStr = containsAnyStr (ToLower errStr)
     [''connection_reset'', ''tls_handshake_failure'', ''alert'', ''handshake'']"

definition checkTLS :: "measurement \<Rightarrow> measurement option \<Rightarrow> bool \<times> bool \<times> string" where
  "checkTLS probe control =
     (if length (me_tls probe) = 0 then (False, False, [])
      else let (allFail, errStr) = scan_tls (me_tls probe) (True, []);
               probeFail = (if allFail \<and> \<not> isTLSSNIError errStr then False else allFail);
               anyOK = (case control of None \<Rightarrow> False | Some c \<Rightarrow> list_ex tls_success (me_tls c))
        in (probeFail, anyOK, errStr))"

section \<open>The HTTP layer\<close>

definition isHTTPBlockStatus :: "int \<Rightarrow> bool" where
  "isHTTPBlockStatus code \<longleftrightarrow> code = 0 \<or> code = 451"

definition isHTTPDiff :: "http_result \<Rightarrow> http_result \<Rightarrow> bool" where
  "isHTTPDiff probe control =
     (if ht_status_code probe \<noteq> ht_status_code control \<and> ht_status_code control \<ge> 200 \<and>
         ht_status_code probe \<ge> 200 then True
      else if ht_title probe \<noteq> ht_title control \<and> ht_title control \<noteq> [] \<and> ht_title probe \<noteq> [] then True
      else if ht_body_length control > 0 \<and> ht_body_length probe > 0
      then let ratio = rat_of_int (ht_body_length probe) / rat_of_int (ht_body_length control)
        in ratio < 3 / 10 \<or> ratio > 3
      else False)"

record http_check_detail =
  hc_probe_status :: int
  hc_control_status :: int
  hc_probe_title :: string
  hc_control_title :: string
  hc_error :: string

definition checkHTTP :: "measurement \<Rightarrow> measurement option \<Rightarrow> bool \<times> string \<times> http_check_detail" where
  "checkHTTP probe control = (case me_http probe of
       None \<Rightarrow> (True, [], \<lparr>hc_probe_status = 0, hc_control_status = 0, hc_probe_title = [],
                  hc_control_title = [], hc_error = []\<rparr>)
     | Some h \<Rightarrow>
         let ctl = (case control of None \<Rightarrow> None | Some c \<Rightarrow> me_http c);
             detail = \<lparr>hc_probe_status = ht_status_code h,
               hc_control_status = (case ctl of None \<Rightarrow> 0 | Some c \<Rightarrow> ht_status_code c),
               hc_probe_title = ht_title h,
               hc_control_title = (case ctl of None \<Rightarrow> [] | Some c \<Rightarrow> ht_title c),
               hc_error = ht_error h\<rparr>
         in if ht_error h \<noteq> [] then (False, ''http-failure'', detail)
            else if isHTTPBlockStatus (ht_status_code h) then (False, ''http-failure'', detail)
            else (case ctl of
                None \<Rightarrow> (True, [], detail)
              | Some c \<Rightarrow> if ht_error c = [] \<and> isHTTPDiff h c then (False, ''http-diff'', detail)
                  else (True, [], detail)))"

section \<open>The decision tree\<close>

definition coalesce :: "string \<Rightarrow> string \<Rightarrow> string" where
  "coalesce a b = (if a \<noteq> [] then a else b)"

definition Classify ::
    "(string \<Rightarrow> string) option \<Rightarrow> measurement \<Rightarrow> measurement option \<Rightarrow> rat \<Rightarrow> verdict" where
  "Classify asn probe control confidence =
     (let v0 = \<lparr>vt_domain_id = me_domain_id probe, vt_fqdn = me_fqdn probe, vt_blocking = [],
                vt_accessible = False, vt_dns_consistency = [], vt_confidence = confidence,
                vt_probe_node_id = me_node_id probe,
                vt_control_node_id = (case control of None \<Rightarrow> [] | Some c \<Rightarrow> me_node_id c),
                vt_detail = no_detail, vt_measured_at = me_measured_at probe\<rparr>;
          (dnsConsistency, dd) = checkDNS asn probe control;
          v1 = v0\<lparr>vt_dns_consistency := dnsConsistency,
                 vt_detail := (vt_detail v0)\<lparr>vd_probe_answers := dc_probe_answers dd,
                   vd_control_answers := dc_control_answers dd,
                   vd_probe_is_bogon := dc_probe_is_bogon dd,
                   vd_probe_is_injected := dc_probe_is_injected dd,
                   vd_cdn_owner := dc_cdn_owner dd\<rparr>\<rparr>
      in if dnsConsistency = ''inconsistent'' then v1\<lparr>vt_blocking := ''dns'', vt_accessible := False\<rparr>
         else let (probeAllTCPFail, controlAnyTCPOK, tcpErr) = checkTCP probe control;
                  v2 = v1\<lparr>vt_detail := (vt_detail v1)\<lparr>vd_probe_tcp_success := \<not> probeAllTCPFail,
                    vd_control_tcp_success := controlAnyTCPOK, vd_tcp_error := tcpErr\<rparr>\<rparr>
         in if probeAllTCPFail \<and> controlAnyTCPOK
            then v2\<lparr>vt_blocking := ''tcp_ip'', vt_accessible := False\<rparr>
            else let (probeTLSFail, controlTLSOK, tlsErr) = checkTLS probe control;
                     v3 = v2\<lparr>vt_detail := (vt_detail v2)\<lparr>vd_probe_tls_success := \<not> probeTLSFail,
                       vd_control_tls_success := controlTLSOK, vd_tls_error := tlsErr\<rparr>\<rparr>
            in if probeTLSFail \<and> controlTLSOK
               then v3\<lparr>vt_blocking := ''tls_sni'', vt_accessible := False\<rparr>
               else let (probeHTTPOK, httpBlocking, hc) = checkHTTP probe control;
                        v4 = v3\<lparr>vt_detail := (vt_detail v3)\<lparr>vd_probe_http_status := hc_probe_status hc,
                          vd_control_http_status := hc_control_status hc,
                          vd_probe_http_title := hc_probe_title hc,
                          vd_control_http_title := hc_control_title hc, vd_http_error := hc_error hc\<rparr>\<rparr>
               in if \<not> probeHTTPOK then v4\<lparr>vt_blocking := httpBlocking, vt_accessible := False\<rparr>
                  else v4\<lparr>vt_blocking := [], vt_accessible := True,
                         vt_dns_consistency := coalesce (vt_dns_consistency v4) ''consistent''\<rparr>)"

section \<open>What the verdict says about the measurements\<close>

text \<open>
  The evidence for each kind of interference, stated on the measurements: no loops, no order of
  evaluation. Answers that differ are harmless when one CDN owns all of them.
\<close>

definition one_cdn :: "(string \<Rightarrow> string) option \<Rightarrow> string list \<Rightarrow> string list \<Rightarrow> bool" where
  "one_cdn asn ps cs \<longleftrightarrow> ps \<noteq> [] \<and> cs \<noteq> [] \<and>
     (\<exists>lookup cdn. asn = Some lookup \<and> cdn \<noteq> [] \<and> (\<forall>ip \<in> set ps \<union> set cs. lookup ip = cdn))"

definition dns_tampered :: "(string \<Rightarrow> string) option \<Rightarrow> measurement \<Rightarrow> measurement option \<Rightarrow> bool" where
  "dns_tampered asn probe control \<longleftrightarrow> (\<exists>d. me_dns probe = Some d \<and>
     (dr_is_bogon d \<or> dr_is_injected d \<or>
      dr_error d \<noteq> [] \<and> (\<forall>c. control_dns control = Some c \<longrightarrow> dr_error c = []) \<or>
      (\<exists>c. control_dns control = Some c \<and> dr_answers c \<noteq> [] \<and>
         set (dr_answers d) \<inter> set (dr_answers c) = {} \<and> \<not> one_cdn asn (dr_answers d) (dr_answers c))))"

definition tcp_cut :: "measurement \<Rightarrow> measurement option \<Rightarrow> bool" where
  "tcp_cut probe control \<longleftrightarrow> me_tcp probe \<noteq> [] \<and> (\<forall>r \<in> set (me_tcp probe). \<not> tcp_success r) \<and>
     (\<exists>c. control = Some c \<and> (\<exists>r \<in> set (me_tcp c). tcp_success r))"

definition first_error :: "string list \<Rightarrow> string" where
  "first_error es = (case find (\<lambda>e. e \<noteq> []) es of None \<Rightarrow> [] | Some e \<Rightarrow> e)"

definition sni_cut :: "measurement \<Rightarrow> measurement option \<Rightarrow> bool" where
  "sni_cut probe control \<longleftrightarrow> me_tls probe \<noteq> [] \<and> (\<forall>r \<in> set (me_tls probe). \<not> tls_success r) \<and>
     isTLSSNIError (first_error (map tls_error (me_tls probe))) \<and>
     (\<exists>c. control = Some c \<and> (\<exists>r \<in> set (me_tls c). tls_success r))"

definition http_failed :: "measurement \<Rightarrow> bool" where
  "http_failed probe \<longleftrightarrow>
     (\<exists>h. me_http probe = Some h \<and> (ht_error h \<noteq> [] \<or> ht_status_code h \<in> {0, 451}))"

definition http_differs :: "measurement \<Rightarrow> measurement option \<Rightarrow> bool" where
  "http_differs probe control \<longleftrightarrow> (\<exists>h c ch. me_http probe = Some h \<and> control = Some c \<and>
     me_http c = Some ch \<and> ht_error ch = [] \<and>
     (ht_status_code h \<noteq> ht_status_code ch \<and> ht_status_code ch \<ge> 200 \<and> ht_status_code h \<ge> 200 \<or>
      ht_title h \<noteq> ht_title ch \<and> ht_title ch \<noteq> [] \<and> ht_title h \<noteq> [] \<or>
      ht_body_length h > 0 \<and> ht_body_length ch > 0 \<and>
        (10 * ht_body_length h < 3 * ht_body_length ch \<or> ht_body_length h > 3 * ht_body_length ch)))"

definition expected_blocking :: "(string \<Rightarrow> string) option \<Rightarrow> measurement \<Rightarrow> measurement option \<Rightarrow> string" where
  "expected_blocking asn probe control =
     (if dns_tampered asn probe control then ''dns''
      else if tcp_cut probe control then ''tcp_ip''
      else if sni_cut probe control then ''tls_sni''
      else if http_failed probe then ''http-failure''
      else if http_differs probe control then ''http-diff'' else [])"

lemma ipSetOverlap_iff: "ipSetOverlap a b \<longleftrightarrow> set a \<inter> set b \<noteq> {}"
  by (induction a) auto

lemma cdnMatchAll_iff: "cdnMatchAll asn ps cs \<noteq> [] \<longleftrightarrow> one_cdn asn ps cs"
proof (cases asn)
  case (Some lookup)
  then show ?thesis
    by (cases cs) (auto simp: cdnMatchAll_def one_cdn_def Let_def list_ex_iff)
qed (simp add: cdnMatchAll_def one_cdn_def)

lemma checkDNS_inconsistent: "fst (checkDNS asn probe control) = ''inconsistent'' \<longleftrightarrow> dns_tampered asn probe control"
proof (cases "me_dns probe")
  case (Some d)
  then show ?thesis
    by (cases "control_dns control")
      (auto simp: checkDNS_def dns_tampered_def Let_def ipSetOverlap_iff cdnMatchAll_iff)
qed (simp add: checkDNS_def dns_tampered_def)

lemma scan_tcp_all: "fst (scan_tcp rs (b, e)) \<longleftrightarrow> b \<and> (\<forall>r \<in> set rs. \<not> tcp_success r)"
  by (induction rs arbitrary: b e) simp_all

lemma checkTCP_cut:
  "(case checkTCP probe control of (pf, ok, e) \<Rightarrow> pf \<and> ok) \<longleftrightarrow> tcp_cut probe control"
  using scan_tcp_all [of "me_tcp probe" True "[]"]
  by (auto simp: checkTCP_def tcp_cut_def list_ex_iff split: prod.splits option.splits)

lemma scan_tls_all:
  "fst (scan_tls rs (b, e)) \<longleftrightarrow> b \<and> (\<forall>r \<in> set rs. \<not> tls_success r)"
  "\<forall>r \<in> set rs. \<not> tls_success r \<Longrightarrow>
     snd (scan_tls rs (b, e)) = (if e \<noteq> [] then e else first_error (map tls_error rs))"
  by (induction rs arbitrary: b e) (auto simp: first_error_def)

lemma checkTLS_cut:
  "(case checkTLS probe control of (pf, ok, e) \<Rightarrow> pf \<and> ok) \<longleftrightarrow> sni_cut probe control"
  using scan_tls_all [of "me_tls probe" True "[]"]
  by (auto simp: checkTLS_def sni_cut_def list_ex_iff split: prod.splits option.splits)

lemma ratio_outside:
  assumes "c > 0"
  shows "rat_of_int p / rat_of_int c < 3 / 10 \<longleftrightarrow> 10 * p < 3 * c"
    and "rat_of_int p / rat_of_int c > 3 \<longleftrightarrow> p > 3 * c"
proof -
  have c: "rat_of_int c > 0" using assms by simp
  have "rat_of_int p / rat_of_int c < 3 / 10 \<longleftrightarrow> rat_of_int (10 * p) < rat_of_int (3 * c)"
    using c by (simp add: divide_simps mult.commute)
  then show "rat_of_int p / rat_of_int c < 3 / 10 \<longleftrightarrow> 10 * p < 3 * c"
    by (simp only: of_int_less_iff)
  have "rat_of_int p / rat_of_int c > 3 \<longleftrightarrow> rat_of_int p > rat_of_int (3 * c)"
    using c by (simp add: divide_simps)
  then show "rat_of_int p / rat_of_int c > 3 \<longleftrightarrow> p > 3 * c"
    by (simp only: of_int_less_iff)
qed

lemma isHTTPDiff_iff:
  "isHTTPDiff h ch \<longleftrightarrow>
     ht_status_code h \<noteq> ht_status_code ch \<and> ht_status_code ch \<ge> 200 \<and> ht_status_code h \<ge> 200 \<or>
     ht_title h \<noteq> ht_title ch \<and> ht_title ch \<noteq> [] \<and> ht_title h \<noteq> [] \<or>
     ht_body_length h > 0 \<and> ht_body_length ch > 0 \<and>
       (10 * ht_body_length h < 3 * ht_body_length ch \<or> ht_body_length h > 3 * ht_body_length ch)"
proof (cases "ht_body_length ch > 0")
  case True
  show ?thesis
    unfolding isHTTPDiff_def Let_def ratio_outside [OF True] by auto
qed (simp add: isHTTPDiff_def)

lemma checkHTTP_cases:
  "(case checkHTTP probe control of (ok, b, d) \<Rightarrow> (ok, b)) =
     (if http_failed probe then (False, ''http-failure'')
      else if http_differs probe control then (False, ''http-diff'') else (True, []))"
proof (cases "me_http probe")
  case (Some h)
  show ?thesis
  proof (cases "case control of None \<Rightarrow> None | Some c \<Rightarrow> me_http c")
    case None
    with Some show ?thesis
      by (auto simp: checkHTTP_def http_failed_def http_differs_def isHTTPBlockStatus_def Let_def
          split: option.splits)
  next
    case ctl: (Some c)
    then obtain m where "control = Some m" "me_http m = Some c" by (auto split: option.splits)
    with Some ctl show ?thesis
      by (auto simp: checkHTTP_def http_failed_def http_differs_def isHTTPBlockStatus_def Let_def isHTTPDiff_iff)
  qed
qed (simp add: checkHTTP_def http_failed_def http_differs_def)

lemma Classify_tree:
  "vt_blocking (Classify asn probe ctl conf) = expected_blocking asn probe ctl"
  "vt_accessible (Classify asn probe ctl conf) \<longleftrightarrow> expected_blocking asn probe ctl = []"
proof -
  obtain dc dd where dns: "checkDNS asn probe ctl = (dc, dd)" by (cases "checkDNS asn probe ctl")
  obtain tf tok te where tcp: "checkTCP probe ctl = (tf, tok, te)" by (cases "checkTCP probe ctl")
  obtain sf sok se where tls: "checkTLS probe ctl = (sf, sok, se)" by (cases "checkTLS probe ctl")
  obtain hok hb hd where http: "checkHTTP probe ctl = (hok, hb, hd)" by (cases "checkHTTP probe ctl")
  have layers: "dc = ''inconsistent'' \<longleftrightarrow> dns_tampered asn probe ctl" "tf \<and> tok \<longleftrightarrow> tcp_cut probe ctl"
    "sf \<and> sok \<longleftrightarrow> sni_cut probe ctl"
    and final: "(hok, hb) = (if http_failed probe then (False, ''http-failure'')
      else if http_differs probe ctl then (False, ''http-diff'') else (True, []))"
    using checkDNS_inconsistent [of asn probe ctl] checkTCP_cut [of probe ctl] checkTLS_cut [of probe ctl]
      checkHTTP_cases [of probe ctl] by (simp_all add: dns tcp tls http)
  show "vt_blocking (Classify asn probe ctl conf) = expected_blocking asn probe ctl"
    "vt_accessible (Classify asn probe ctl conf) \<longleftrightarrow> expected_blocking asn probe ctl = []"
    unfolding Classify_def expected_blocking_def Let_def dns tcp tls http prod.case layers
    using final by (cases "http_failed probe"; cases "http_differs probe ctl"; simp)+
qed

lemma no_control_blocking: "expected_blocking asn probe None \<in> {[], ''dns'', ''http-failure''}"
  by (simp add: expected_blocking_def tcp_cut_def sni_cut_def http_differs_def)


text \<open>The fields a verdict copies, and the values the consistency column admits.\<close>

lemma checkDNS_values: "fst (checkDNS asn probe control) \<in> {[], ''consistent'', ''inconsistent''}"
  by (simp add: checkDNS_def Let_def split: option.split)

lemma Classify_fields:
  "vt_domain_id (Classify asn probe control conf) = me_domain_id probe"
  "vt_fqdn (Classify asn probe control conf) = me_fqdn probe"
  "vt_confidence (Classify asn probe control conf) = conf"
  "vt_probe_node_id (Classify asn probe control conf) = me_node_id probe"
  "vt_control_node_id (Classify asn probe control conf) = (case control of None \<Rightarrow> [] | Some c \<Rightarrow> me_node_id c)"
  "vt_measured_at (Classify asn probe control conf) = me_measured_at probe"
  "vt_dns_consistency (Classify asn probe control conf) \<in> {[], ''consistent'', ''inconsistent''}"
proof -
  obtain dc dd where dns: "checkDNS asn probe control = (dc, dd)" by (cases "checkDNS asn probe control")
  obtain tf tok te where tcp: "checkTCP probe control = (tf, tok, te)" by (cases "checkTCP probe control")
  obtain sf sok se where tls: "checkTLS probe control = (sf, sok, se)" by (cases "checkTLS probe control")
  obtain hok hb hd where http: "checkHTTP probe control = (hok, hb, hd)" by (cases "checkHTTP probe control")
  note run = Classify_def Let_def dns tcp tls http prod.case
  show "vt_domain_id (Classify asn probe control conf) = me_domain_id probe"
    "vt_fqdn (Classify asn probe control conf) = me_fqdn probe"
    "vt_confidence (Classify asn probe control conf) = conf"
    "vt_probe_node_id (Classify asn probe control conf) = me_node_id probe"
    "vt_control_node_id (Classify asn probe control conf) = (case control of None \<Rightarrow> [] | Some c \<Rightarrow> me_node_id c)"
    "vt_measured_at (Classify asn probe control conf) = me_measured_at probe"
    unfolding run by simp_all
  show "vt_dns_consistency (Classify asn probe control conf) \<in> {[], ''consistent'', ''inconsistent''}"
    using checkDNS_values [of asn probe control] unfolding run by (auto simp: coalesce_def)
qed

end
