(* ===== verification/Gfw_Confidence.thy ===== *)
theory Gfw_Confidence
  imports Store "HOL-Library.AList"
begin

text \<open>
  internal/gfw/confidence.go: the score that says how sure the platform is that a domain is
  blocked. Both trackers, the one in Redis with its two-hour expiry and the one in memory,
  are instances of one interface; its client lemmas describe the score as a function of the
  observations made.
\<close>

section \<open>Score and state\<close>

fun unique_loop :: "string list \<Rightarrow> string list \<Rightarrow> string list" where
  "unique_loop seen [] = []"
| "unique_loop seen (s # ss) =
     (if s \<in> set seen then unique_loop seen ss else s # unique_loop (s # seen) ss)"

definition uniqueStrings :: "string list \<Rightarrow> string list" where
  "uniqueStrings ss = unique_loop [] ss"

definition scoreFromState :: "confidence_state \<Rightarrow> rat" where
  "scoreFromState s =
     (let nodes = length (uniqueStrings (cs_unique_nodes s)) in
      if cs_count s \<ge> 3 \<and> nodes \<ge> 2 then 9 / 10
      else if nodes \<ge> 2 then 7 / 10
      else if cs_count s \<ge> 2 then 1 / 2
      else if cs_count s \<ge> 1 then 3 / 10
      else 0)"

definition no_observation :: confidence_state where
  "no_observation = \<lparr>cs_count = 0, cs_unique_nodes = [], cs_last_blocking = []\<rparr>"

text \<open>The body shared by the two \<open>Record\<close> methods.\<close>

definition observe :: "string \<Rightarrow> string \<Rightarrow> confidence_state \<Rightarrow> confidence_state" where
  "observe nodeID blocking s =
     (if blocking = [] then no_observation
      else let n = (if blocking \<noteq> cs_last_blocking s \<and> cs_last_blocking s \<noteq> [] then 0 else cs_count s)
        in \<lparr>cs_count = n + 1, cs_unique_nodes = uniqueStrings (cs_unique_nodes s @ [nodeID]),
            cs_last_blocking = blocking\<rparr>)"

section \<open>The Redis tracker\<close>

definition confidenceTTL :: int where
  "confidenceTTL = 7200"

text \<open>A key whose time to live has passed is gone.\<close>

definition redis_state :: "world \<Rightarrow> int \<Rightarrow> confidence_state" where
  "redis_state w d = (case map_of (gfw_confidence w) d of None \<Rightarrow> no_observation
     | Some (s, expires) \<Rightarrow> if now w < expires then s else no_observation)"

definition Redis_load :: "int \<Rightarrow> confidence_state op" where
  "Redis_load d = query (\<lambda>w. redis_state w d)"

definition Redis_save :: "int \<Rightarrow> confidence_state \<Rightarrow> unit op" where
  "Redis_save d s = exec (\<lambda>w. w\<lparr>gfw_confidence := AList.update d (s, now w + confidenceTTL) (gfw_confidence w)\<rparr>)"

definition Redis_Record :: "int \<Rightarrow> string \<Rightarrow> string \<Rightarrow> rat op" where
  "Redis_Record d nodeID blocking =
     bnd (Redis_load d) (\<lambda>s. let s' = observe nodeID blocking s in
       seq_eff (Redis_save d s') (ret (scoreFromState s')))"

definition Redis_Score :: "int \<Rightarrow> rat op" where
  "Redis_Score d = bnd (Redis_load d) (\<lambda>s. ret (scoreFromState s))"

definition Redis_Reset :: "int \<Rightarrow> unit op" where
  "Redis_Reset d = exec (\<lambda>w. w\<lparr>gfw_confidence := AList.delete d (gfw_confidence w)\<rparr>)"

section \<open>The in-memory tracker\<close>

text \<open>A missing key of the Go map reads as the zero state.\<close>

type_synonym memory = "(int \<times> confidence_state) list"

definition memory_state :: "memory \<Rightarrow> int \<Rightarrow> confidence_state" where
  "memory_state m d = (case map_of m d of None \<Rightarrow> no_observation | Some s \<Rightarrow> s)"

definition Memory_Record :: "int \<Rightarrow> string \<Rightarrow> string \<Rightarrow> (memory, go_err, rat) eff" where
  "Memory_Record d nodeID blocking =
     bnd (gets (\<lambda>m. memory_state m d)) (\<lambda>s. let s' = observe nodeID blocking s in
       seq_eff (modify (\<lambda>m. AList.update d s' m)) (ret (scoreFromState s')))"

definition Memory_Score :: "int \<Rightarrow> (memory, go_err, rat) eff" where
  "Memory_Score d = gets (\<lambda>m. scoreFromState (memory_state m d))"

definition Memory_Reset :: "int \<Rightarrow> (memory, go_err, unit) eff" where
  "Memory_Reset d = modify (\<lambda>m. AList.delete d m)"

section \<open>The interface\<close>

text \<open>
  The contract of \<open>ConfidenceTracker\<close>: from a good state (the store answers) every call
  succeeds, a record applies the observation to its domain and returns the new score, a reset
  forgets the domain, and nothing else changes.
\<close>

locale confidence_tracker =
  fixes good :: "'w \<Rightarrow> bool" and st :: "'w \<Rightarrow> int \<Rightarrow> confidence_state"
    and Rec :: "int \<Rightarrow> string \<Rightarrow> string \<Rightarrow> ('w, 'e, rat) eff"
    and Scr :: "int \<Rightarrow> ('w, 'e, rat) eff" and Rst :: "int \<Rightarrow> ('w, 'e, unit) eff"
  assumes Rec_result: "good w \<Longrightarrow> result (Rec d n b) w = Inr (scoreFromState (observe n b (st w d)))"
    and Rec_state: "good w \<Longrightarrow> st (final (Rec d n b) w) = (st w)(d := observe n b (st w d))"
    and Rec_good: "good w \<Longrightarrow> good (final (Rec d n b) w)"
    and Scr_result: "good w \<Longrightarrow> result (Scr d) w = Inr (scoreFromState (st w d))"
    and Scr_pure: "good w \<Longrightarrow> final (Scr d) w = w"
    and Rst_state: "good w \<Longrightarrow> st (final (Rst d) w) = (st w)(d := no_observation)"
begin

lemma record_after_reset:
  assumes "good w" and "good (final (Rst d) w)"
  shows "result (Rec d n b) (final (Rst d) w) = Inr (scoreFromState (observe n b no_observation))"
  using assms by (simp add: Rec_result Rst_state)

lemma records_state:
  assumes "good w"
  shows "good (final (for_each obs (\<lambda>(n, b). ignore (Rec d n b))) w) \<and>
    st (final (for_each obs (\<lambda>(n, b). ignore (Rec d n b))) w) =
      (st w)(d := fold (\<lambda>(n, b). observe n b) obs (st w d))"
  using assms
proof (induction obs arbitrary: w)
  case (Cons ob obs)
  obtain n b where ob: "ob = (n, b)" by (cases ob)
  from Cons.prems Cons.IH [OF Rec_good [OF Cons.prems, of d n b]] show ?case
    by (auto simp: ob eff_run Rec_state)
qed simp

end

lemma redis_state_cong:
  "gfw_confidence w' = gfw_confidence w \<Longrightarrow> now w' = now w \<Longrightarrow> redis_state w' = redis_state w"
  by (rule ext) (simp add: redis_state_def split: option.split)

lemma redis_state_update:
  "redis_state (w\<lparr>gfw_confidence := AList.update d (s, now w + confidenceTTL) (gfw_confidence w)\<rparr>)
     = (redis_state w)(d := s)"
  by (rule ext) (simp add: redis_state_def update_conv confidenceTTL_def split: option.split)

lemma redis_state_delete:
  "redis_state (w\<lparr>gfw_confidence := AList.delete d (gfw_confidence w)\<rparr>) = (redis_state w)(d := no_observation)"
  by (rule ext) (simp add: redis_state_def delete_conv split: option.split)

interpretation redis: confidence_tracker "\<lambda>w. faults w = []" redis_state Redis_Record Redis_Score Redis_Reset
  by unfold_locales
    (simp_all add: Redis_Record_def Redis_Score_def Redis_Reset_def Redis_load_def Redis_save_def
      eff_run Let_def redis_state_update redis_state_delete)

lemma memory_state_update: "memory_state (AList.update d s m) = (memory_state m)(d := s)"
  "memory_state (AList.delete d m) = (memory_state m)(d := no_observation)"
  by (rule ext, simp add: memory_state_def update_conv delete_conv)+

interpretation memory: confidence_tracker "\<lambda>_. True" memory_state Memory_Record Memory_Score Memory_Reset
  by unfold_locales
    (simp_all add: Memory_Record_def Memory_Score_def Memory_Reset_def eff_run Let_def memory_state_update)

section \<open>The score as a function of the observations\<close>

text \<open>
  Observations in order, newest last. The current run is what followed the last time the
  domain was reachable; the streak is its end with the latest kind of blocking.
\<close>

type_synonym observation = "string \<times> string"

definition current_run :: "observation list \<Rightarrow> observation list" where
  "current_run obs = takeWhile (\<lambda>(n, b). b \<noteq> []) (rev obs)"

definition streak :: "observation list \<Rightarrow> observation list" where
  "streak obs = takeWhile (\<lambda>(n, b). b = snd (hd (current_run obs))) (current_run obs)"

definition expected_score :: "observation list \<Rightarrow> rat" where
  "expected_score obs =
     (let nodes = card (fst ` set (current_run obs)); count = length (streak obs) in
      if current_run obs = [] then 0
      else if nodes \<ge> 2 then (if count \<ge> 3 then 9 / 10 else 7 / 10)
      else if count \<ge> 2 then 1 / 2 else 3 / 10)"

lemma set_unique_loop: "set (unique_loop seen ss) = set ss - set seen"
  by (induction seen ss rule: unique_loop.induct) auto

lemma distinct_unique_loop: "distinct (unique_loop seen ss)"
  by (induction seen ss rule: unique_loop.induct) (auto simp: set_unique_loop)

lemma length_uniqueStrings: "length (uniqueStrings ss) = card (set ss)"
  using distinct_card [OF distinct_unique_loop [of "[]" ss]] by (simp add: uniqueStrings_def set_unique_loop)

lemma set_uniqueStrings [simp]: "set (uniqueStrings ss) = set ss"
  by (simp add: uniqueStrings_def set_unique_loop)

definition tracks :: "observation list \<Rightarrow> confidence_state \<Rightarrow> bool" where
  "tracks obs s \<longleftrightarrow> cs_count s = int (length (streak obs)) \<and>
     set (cs_unique_nodes s) = fst ` set (current_run obs) \<and>
     cs_last_blocking s = (if current_run obs = [] then [] else snd (hd (current_run obs)))"

lemma current_run_snoc:
  "current_run (obs @ [(n, b)]) = (if b = [] then [] else (n, b) # current_run obs)"
  by (simp add: current_run_def)

lemma run_kind: "(n, b) \<in> set (current_run obs) \<Longrightarrow> b \<noteq> []"
  by (auto simp: current_run_def dest: set_takeWhileD)

lemma streak_snoc:
  "streak (obs @ [(n, b)]) = (if b = [] then []
     else (n, b) # (if current_run obs \<noteq> [] \<and> snd (hd (current_run obs)) = b then streak obs else []))"
  by (cases "current_run obs") (auto simp: streak_def current_run_snoc)

lemma tracks_observe:
  assumes "tracks obs s"
  shows "tracks (obs @ [(n, b)]) (observe n b s)"
proof (cases "b = []")
  case True
  then show ?thesis
    by (simp add: tracks_def observe_def current_run_snoc streak_snoc no_observation_def)
next
  case False
  show ?thesis
  proof (cases "current_run obs")
    case Nil
    with False assms show ?thesis
      by (simp add: tracks_def observe_def current_run_snoc streak_snoc streak_def Let_def)
  next
    case (Cons ob obs')
    then have "snd ob \<noteq> []" using run_kind [of "fst ob" "snd ob" obs] by simp
    with False assms Cons show ?thesis
      by (auto simp: tracks_def observe_def current_run_snoc streak_snoc Let_def)
  qed
qed

lemma tracks_history: "tracks obs (fold (\<lambda>(n, b). observe n b) obs no_observation)"
proof (induction obs rule: rev_induct)
  case Nil
  then show ?case by (simp add: tracks_def current_run_def streak_def no_observation_def)
next
  case (snoc ob obs)
  then show ?case using tracks_observe [OF snoc] by (cases ob) simp
qed

lemma tracks_score: "tracks obs s \<Longrightarrow> scoreFromState s = expected_score obs"
proof -
  assume t: "tracks obs s"
  have "length (streak obs) > 0" if "current_run obs \<noteq> []"
    using that by (cases "current_run obs") (auto simp: streak_def)
  moreover have "streak obs = []" if "current_run obs = []"
    using that by (simp add: streak_def)
  ultimately show ?thesis
    using t by (cases "streak obs")
      (auto simp: tracks_def scoreFromState_def expected_score_def length_uniqueStrings Let_def)
qed

section \<open>Observations over time\<close>

text \<open>An observation recorded at a given time, and what the Redis entry is right after it.\<close>

definition observe_at :: "int \<Rightarrow> int \<times> observation \<Rightarrow> unit op" where
  "observe_at d ob = (case ob of (t, n, b) \<Rightarrow>
     seq_eff (modify (\<lambda>w. w\<lparr>now := t\<rparr>)) (ignore (Redis_Record d n b)))"

definition in_time :: "int \<times> observation \<Rightarrow> int \<times> observation \<Rightarrow> bool" where
  "in_time ob ob' \<longleftrightarrow> fst ob \<le> fst ob' \<and> fst ob' < fst ob + 7200"

definition entry_ok :: "int \<Rightarrow> (int \<times> observation) list \<Rightarrow> world \<Rightarrow> bool" where
  "entry_ok d obs w \<longleftrightarrow> faults w = [] \<and> now w = fst (last obs) \<and>
     (\<exists>s. map_of (gfw_confidence w) d = Some (s, now w + 7200) \<and> tracks (map snd obs) s)"

lemma final_observe_at:
  assumes "faults w = []"
  shows "final (observe_at d (t, n, b)) w = w\<lparr>now := t, gfw_confidence := AList.update d
    (observe n b (redis_state (w\<lparr>now := t\<rparr>) d), t + 7200) (gfw_confidence w)\<rparr>"
  using assms by (simp add: observe_at_def Redis_Record_def Redis_load_def Redis_save_def eff_run Let_def
      confidenceTTL_def)

lemma entry_ok_first:
  assumes "faults w = []" and "\<And>t. redis_state (w\<lparr>now := t\<rparr>) d = no_observation"
  shows "entry_ok d [ob] (final (observe_at d ob) w)"
proof -
  obtain t n b where ob: "ob = (t, n, b)" by (cases ob)
  have "tracks [(n, b)] (observe n b no_observation)"
    using tracks_history [of "[(n, b)]"] by simp
  with assms show ?thesis by (simp add: entry_ok_def ob final_observe_at update_conv)
qed

lemma entry_ok_next:
  assumes "entry_ok d obs w" and "in_time (last obs) ob"
  shows "entry_ok d (obs @ [ob]) (final (observe_at d ob) w)"
proof -
  obtain t n b where ob: "ob = (t, n, b)" by (cases ob)
  obtain s where s: "map_of (gfw_confidence w) d = Some (s, fst (last obs) + 7200)" "tracks (map snd obs) s"
    and w: "faults w = []" using assms(1) by (auto simp: entry_ok_def)
  have "redis_state (w\<lparr>now := t\<rparr>) d = s"
    using s assms(2) by (simp add: redis_state_def in_time_def ob)
  with s w tracks_observe [OF s(2), of n b] show ?thesis
    by (simp add: entry_ok_def ob final_observe_at update_conv)
qed

lemma entry_ok_history:
  assumes "faults w = []" and "\<And>t. redis_state (w\<lparr>now := t\<rparr>) d = no_observation"
    and "obs \<noteq> []" and "successively in_time obs"
  shows "result (for_each obs (observe_at d)) w = Inr () \<and> entry_ok d obs (final (for_each obs (observe_at d)) w)"
  using assms(3,4)
proof (induction obs rule: rev_induct)
  case (snoc ob obs)
  have "result (observe_at d ob) w' = Inr ()" for w'
    by (cases ob) (simp add: observe_at_def eff_run)
  then show ?case
    using snoc entry_ok_first [OF assms(1,2), of ob] entry_ok_next [of d obs _ ob]
    by (cases "obs = []") (auto simp: for_each_append eff_run successively_append_iff)
qed simp

text \<open>
  C21: The confidence score is a function of the observed history: when observations of a domain
  reach the Redis tracker less than two hours apart, the score it then reports is the one
  computed from the whole list: 0 if the last observation found the domain reachable, 0.9
  with at least two nodes and a streak of three of the latest kind since then, 0.7 with two
  nodes, 0.5 for a streak of two from one node, 0.3 for a single sighting.
\<close>

theorem Redis_Score_of_history:
  assumes "faults w = []" and "map_of (gfw_confidence w) d = None"
    and "obs \<noteq> []" and "successively in_time obs"
  shows "result (Redis_Score d) (final (for_each obs (observe_at d)) w) = Inr (expected_score (map snd obs))"
proof -
  let ?w = "final (for_each obs (observe_at d)) w"
  have "redis_state (w\<lparr>now := t\<rparr>) d = no_observation" for t
    using assms(2) by (simp add: redis_state_def)
  from entry_ok_history [OF assms(1) this assms(3,4)]
  obtain s where "faults ?w = []" "map_of (gfw_confidence ?w) d = Some (s, now ?w + 7200)"
    "tracks (map snd obs) s" by (auto simp: entry_ok_def)
  then show ?thesis
    using redis.Scr_result [of ?w d] by (simp add: redis_state_def tracks_score)
qed

theorem Redis_Score_of_history_witness:
  "result (Redis_Score 7) (final (for_each [(10, ''bj'', ''dns''), (100, ''sh'', ''dns''), (200, ''bj'', ''dns'')]
     (observe_at 7)) empty_world) = Inr (9 / 10)"
proof -
  have "expected_score [(''bj'', ''dns''), (''sh'', ''dns''), (''bj'', ''dns'')] = 9 / 10"
    by (simp add: expected_score_def current_run_def streak_def card_insert_if)
  then show ?thesis
    using Redis_Score_of_history [of empty_world 7 "[(10, ''bj'', ''dns''), (100, ''sh'', ''dns''), (200, ''bj'', ''dns'')]"]
    by (simp add: empty_world_def in_time_def)
qed

end
