(* ===== verification/Gfw_Service.thy ===== *)
theory Gfw_Service
  imports Lifecycle Alerting Gfw_Analyzer Gfw_Confidence
begin

text \<open>
  internal/gfw over store/postgres/gfw\_node.go, gfw\_measurement.go, gfw\_verdict.go and
  gfw\_blocking.go: probe nodes and their assignments, the measurements they submit, the
  verdict pipeline and the alerts and domain columns that follow a verdict.
\<close>

section \<open>Probe nodes\<close>

text \<open>\<open>nullJSON\<close> turns missing metadata into SQL \<open>NULL\<close>, which the column does not admit.\<close>

definition node_admissible :: "probe_node_row \<Rightarrow> json_object option \<Rightarrow> bool" where
  "node_admissible n metadata \<longleftrightarrow> metadata \<noteq> None \<and> pn_role n \<in> {''probe'', ''control''} \<and>
     length (pn_node_id n) \<le> 64 \<and> length (pn_region n) \<le> 64 \<and>
     (case pn_agent_version n of None \<Rightarrow> True | Some v \<Rightarrow> length v \<le> 32) \<and>
     (case pn_ip_address n of None \<Rightarrow> True | Some ip \<Rightarrow> length ip \<le> 45)"

definition NodeStore_Register :: "probe_node_row \<Rightarrow> json_object option \<Rightarrow> unit op" where
  "NodeStore_Register n metadata = stmt (\<lambda>w.
     if \<not> node_admissible n metadata then (Inl (ErrCheck ''gfw_probe_nodes''), w)
     else let upd = (\<lambda>r. r\<lparr>pn_region := pn_region n, pn_role := pn_role n, pn_status := ''online'',
                pn_last_seen_at := Some (now w), pn_agent_version := pn_agent_version n,
                pn_ip_address := pn_ip_address n,
                pn_metadata := (case metadata of None \<Rightarrow> [] | Some m \<Rightarrow> m)\<rparr>)
       in (Inr (), w\<lparr>gfw_probe_nodes :=
         (if tbl_find (\<lambda>r. pn_node_id r = pn_node_id n) (gfw_probe_nodes w) = None
          then tbl_insert (\<lambda>i. upd (n\<lparr>pn_id := i\<rparr>)) (gfw_probe_nodes w)
          else tbl_update (\<lambda>r. pn_node_id r = pn_node_id n) upd (gfw_probe_nodes w))\<rparr>))"

definition NodeStore_Heartbeat :: "string \<Rightarrow> string \<Rightarrow> json_object \<Rightarrow> unit op" where
  "NodeStore_Heartbeat nodeID version metadata = stmt (\<lambda>w.
     if tbl_find (\<lambda>r. pn_node_id r = nodeID) (gfw_probe_nodes w) = None then (Inl ErrProbeNodeNotFound, w)
     else if length version > 32 then (Inl (ErrCheck ''gfw_probe_nodes''), w)
     else (Inr (), w\<lparr>gfw_probe_nodes := tbl_update (\<lambda>r. pn_node_id r = nodeID)
        (\<lambda>r. r\<lparr>pn_status := ''online'', pn_last_seen_at := Some (now w),
           pn_agent_version := Some version, pn_metadata := metadata\<rparr>) (gfw_probe_nodes w)\<rparr>))"

definition node_stale :: "int \<Rightarrow> int \<Rightarrow> probe_node_row \<Rightarrow> bool" where
  "node_stale threshold t r \<longleftrightarrow> pn_status r = ''online'' \<and>
     (case pn_last_seen_at r of None \<Rightarrow> False | Some seen \<Rightarrow> seen < t - threshold)"

definition MarkOfflineStale :: "int \<Rightarrow> int op" where
  "MarkOfflineStale threshold = stmt (\<lambda>w.
     (Inr (int (length (tbl_select (node_stale threshold (now w)) (gfw_probe_nodes w)))),
      w\<lparr>gfw_probe_nodes := tbl_update (node_stale threshold (now w))
        (\<lambda>r. r\<lparr>pn_status := ''offline''\<rparr>) (gfw_probe_nodes w)\<rparr>))"

definition GetByNodeID :: "string \<Rightarrow> probe_node_row op" where
  "GetByNodeID nodeID = query_one ErrProbeNodeNotFound
     (\<lambda>w. tbl_find (\<lambda>r. pn_node_id r = nodeID) (gfw_probe_nodes w))"

section \<open>Assignments\<close>

definition UpsertAssignment :: "check_assignment_row \<Rightarrow> unit op" where
  "UpsertAssignment a = exec (\<lambda>w. w\<lparr>gfw_check_assignments :=
     (if tbl_find (\<lambda>r. ca_domain_id r = ca_domain_id a) (gfw_check_assignments w) = None
      then tbl_insert (\<lambda>i. a\<lparr>ca_id := i\<rparr>) (gfw_check_assignments w)
      else tbl_update (\<lambda>r. ca_domain_id r = ca_domain_id a)
        (\<lambda>r. r\<lparr>ca_probe_node_ids := ca_probe_node_ids a, ca_control_node_ids := ca_control_node_ids a,
           ca_check_interval := ca_check_interval a, ca_enabled := ca_enabled a\<rparr>) (gfw_check_assignments w))\<rparr>)"

definition ListAssignmentsForNode :: "string \<Rightarrow> check_assignment_row list op" where
  "ListAssignmentsForNode nodeID = query (\<lambda>w. sort_key ca_domain_id (tbl_select
     (\<lambda>a. ca_enabled a \<and> (nodeID \<in> set (ca_probe_node_ids a) \<or> nodeID \<in> set (ca_control_node_ids a)))
     (gfw_check_assignments w)))"

definition DeleteAssignment :: "int \<Rightarrow> unit op" where
  "DeleteAssignment d = exec_unless
     (\<lambda>w. tbl_find (\<lambda>a. ca_domain_id a = d) (gfw_check_assignments w) = None) ErrCheckAssignmentNotFound
     (\<lambda>w. w\<lparr>gfw_check_assignments := tbl_delete (\<lambda>a. ca_domain_id a = d) (gfw_check_assignments w)\<rparr>)"

section \<open>The node service\<close>

definition offlineThreshold :: int where
  "offlineThreshold = 90"

definition Node_Register :: "node_register_request \<Rightarrow> node_register_response op" where
  "Node_Register req =
     (if nq_node_id req = [] then throw (ErrMsg ''register: node_id is required'')
      else if nq_role req \<noteq> ''probe'' \<and> nq_role req \<noteq> ''control''
      then throw (ErrMsg ''register: invalid role'')
      else let node = \<lparr>pn_id = 0, pn_node_id = nq_node_id req, pn_region = nq_region req,
                 pn_role = nq_role req, pn_status = [], pn_last_seen_at = None,
                 pn_agent_version = (if nq_probe_version req \<noteq> [] then Some (nq_probe_version req) else None),
                 pn_ip_address = (if nq_ip_address req \<noteq> [] then Some (nq_ip_address req) else None),
                 pn_metadata = []\<rparr>
        in seq_eff (NodeStore_Register node None)
             (ret \<lparr>np_node_id = nq_node_id req, np_status = ''online'', np_heartbeat_secs = 30,
                   np_check_interval = 180\<rparr>))"

text \<open>The response carries no information beyond the acknowledgement.\<close>

definition Node_Heartbeat :: "node_heartbeat_request \<Rightarrow> unit op" where
  "Node_Heartbeat req =
     (let meta = [(''load_avg_1'', JNumber (nb_load_avg_1 req)),
                  (''disk_free_pct'', JNumber (nb_disk_free_pct req)),
                  (''checks_today'', JNumber (rat_of_int (nb_checks_today req)))]
      in bnd (attempt (NodeStore_Heartbeat (nb_node_id req) (nb_probe_version req) meta)) (\<lambda>r. case r of
           Inl e \<Rightarrow> if e = ErrProbeNodeNotFound then throw (ErrMsg ''heartbeat: node not registered'')
             else throw e
         | Inr _ \<Rightarrow> ret ()))"

definition assignment_of :: "check_assignment_row \<Rightarrow> assignment list op" where
  "assignment_of row = bnd (attempt (DomainStore_GetByID (ca_domain_id row))) (\<lambda>r. ret (case r of
     Inl e \<Rightarrow> []
   | Inr d \<Rightarrow> [\<lparr>as_assignment_id = ca_id row, as_domain_id = ca_domain_id row, as_fqdn = d_fqdn d,
                 as_check_interval = ca_check_interval row\<rparr>]))"

definition GetAssignments :: "string \<Rightarrow> assignment list op" where
  "GetAssignments nodeID =
     bnd (GetByNodeID nodeID) (\<lambda>node.
     bnd (ListAssignmentsForNode nodeID) (\<lambda>rs. collect rs assignment_of))"

definition MarkStaleOffline :: "unit op" where
  "MarkStaleOffline = bnd (MarkOfflineStale offlineThreshold) (\<lambda>n. ret ())"

section \<open>Measurements\<close>

text \<open>The zero \<open>time.Time\<close>, in seconds of the Unix epoch.\<close>

definition zero_time :: int where
  "zero_time = - 62135596800"

text \<open>\<open>marshalOrNull\<close>: a nil pointer and a nil or empty slice become \<open>NULL\<close>.\<close>

definition marshal_ptr :: "'a option \<Rightarrow> 'a jsonb" where
  "marshal_ptr v = (case v of None \<Rightarrow> Null | Some x \<Rightarrow> Value x)"

definition marshal_slice :: "'a list \<Rightarrow> 'a list jsonb" where
  "marshal_slice xs = (if xs = [] then Null else Value xs)"

definition measurement_of :: "string \<Rightarrow> int \<Rightarrow> measurement \<Rightarrow> int \<Rightarrow> measurement_row" where
  "measurement_of region t m i = \<lparr>mr_id = i, mr_domain_id = me_domain_id m, mr_node_id = me_node_id m,
     mr_node_role = me_node_role m, mr_region = region, mr_fqdn = me_fqdn m,
     mr_dns_result = marshal_ptr (me_dns m), mr_tcp_results = marshal_slice (me_tcp m),
     mr_tls_results = marshal_slice (me_tls m), mr_http_result = marshal_ptr (me_http m),
     mr_total_ms = (if me_total_ms m > 0 then Some (me_total_ms m) else None),
     mr_measured_at = (if me_measured_at m = zero_time then t else me_measured_at m)\<rparr>"

definition measurement_admissible :: "measurement \<Rightarrow> bool" where
  "measurement_admissible m \<longleftrightarrow> length (me_node_id m) \<le> 64 \<and> length (me_node_role m) \<le> 16 \<and>
     length (me_fqdn m) \<le> 512"

definition InsertMeasurements :: "measurement list \<Rightarrow> string \<Rightarrow> unit op" where
  "InsertMeasurements ms region =
     (if length ms = 0 then ret ()
      else transaction (for_each ms (\<lambda>m. exec_unless (\<lambda>w. \<not> measurement_admissible m)
        (ErrCheck ''gfw_measurements'') (\<lambda>w. w\<lparr>gfw_measurements :=
          tbl_insert (measurement_of region (now w) m) (gfw_measurements w)\<rparr>))))"

definition StoreMeasurements :: "string \<Rightarrow> measurement list \<Rightarrow> unit op" where
  "StoreMeasurements nodeID ms =
     (if length ms = 0 then ret ()
      else bnd (GetByNodeID nodeID) (\<lambda>node. InsertMeasurements ms (pn_region node)))"

text \<open>
  The row with the greatest key; SQL leaves the choice between equal keys open, the model takes
  the first row inserted.
\<close>

fun latest_by :: "('r \<Rightarrow> int) \<Rightarrow> 'r list \<Rightarrow> 'r option" where
  "latest_by key [] = None"
| "latest_by key (r # rs) = (case latest_by key rs of
     None \<Rightarrow> Some r
   | Some s \<Rightarrow> Some (if key s > key r then s else r))"

definition latest_measurement :: "string \<Rightarrow> int \<Rightarrow> world \<Rightarrow> measurement_row option" where
  "latest_measurement role d w = latest_by mr_measured_at
     (tbl_select (\<lambda>m. mr_domain_id m = d \<and> mr_node_role m = role) (gfw_measurements w))"

definition LatestMeasurementPair :: "int \<Rightarrow> (measurement_row option \<times> measurement_row option) op" where
  "LatestMeasurementPair d = query (\<lambda>w. (latest_measurement ''probe'' d w, latest_measurement ''control'' d w))"

definition rowToMeasurement :: "measurement_row \<Rightarrow> go_err + measurement" where
  "rowToMeasurement row =
     (if mr_dns_result row = Malformed then Inl (ErrMsg ''decode dns_result'')
      else if mr_tcp_results row = Malformed then Inl (ErrMsg ''decode tcp_results'')
      else if mr_tls_results row = Malformed then Inl (ErrMsg ''decode tls_results'')
      else if mr_http_result row = Malformed then Inl (ErrMsg ''decode http_result'')
      else Inr \<lparr>me_assignment_id = 0, me_domain_id = mr_domain_id row, me_fqdn = mr_fqdn row,
        me_node_id = mr_node_id row, me_node_role = mr_node_role row,
        me_dns = (case mr_dns_result row of Value d \<Rightarrow> Some d | _ \<Rightarrow> None),
        me_tcp = (case mr_tcp_results row of Value rs \<Rightarrow> rs | _ \<Rightarrow> []),
        me_tls = (case mr_tls_results row of Value rs \<Rightarrow> rs | _ \<Rightarrow> []),
        me_http = (case mr_http_result row of Value h \<Rightarrow> Some h | _ \<Rightarrow> None),
        me_measured_at = mr_measured_at row,
        me_total_ms = (case mr_total_ms row of None \<Rightarrow> 0 | Some t \<Rightarrow> t)\<rparr>)"

section \<open>Bogon addresses\<close>

text \<open>cmd/probe/checker/bogon.go: the list of addresses and its default.\<close>

definition DefaultBogonIPs :: "string list" where
  "DefaultBogonIPs = [''1.2.3.4'', ''37.235.1.174'', ''8.7.198.45'', ''46.82.174.68'', ''78.16.49.15'',
     ''93.46.8.89'', ''93.46.8.90'', ''243.185.187.39'', ''243.185.187.30'', ''0.0.0.0'', ''127.0.0.1'']"

definition NewBogonList :: "string list \<Rightarrow> string set" where
  "NewBogonList ips = set (filter (\<lambda>ip. ip \<noteq> []) ips)"

definition AnyBogon :: "string set \<Rightarrow> string list \<Rightarrow> bool" where
  "AnyBogon b ips = list_ex (\<lambda>ip. ip \<in> b) ips"

definition IsLikelyInjected :: "int \<Rightarrow> bool" where
  "IsLikelyInjected durationMS \<longleftrightarrow> durationMS \<ge> 0 \<and> durationMS < 5"

definition ListBogonIPs :: "string list op" where
  "ListBogonIPs = query (\<lambda>w. map bg_ip_address (sort_key bg_id (rows (gfw_bogon_ips w))))"

definition BuildBogonList :: "string set op" where
  "BuildBogonList = bnd (attempt ListBogonIPs) (\<lambda>r. ret (case r of
     Inl e \<Rightarrow> NewBogonList DefaultBogonIPs
   | Inr ips \<Rightarrow> if length ips = 0 then NewBogonList DefaultBogonIPs else NewBogonList ips))"

definition InsertBogonIP :: "string \<Rightarrow> string \<Rightarrow> unit op" where
  "InsertBogonIP ip note = exec (\<lambda>w. if tbl_find (\<lambda>b. bg_ip_address b = ip) (gfw_bogon_ips w) \<noteq> None then w
     else w\<lparr>gfw_bogon_ips := tbl_insert (\<lambda>i. \<lparr>bg_id = i, bg_ip_address = ip, bg_source = ''operator'',
            bg_note = note\<rparr>) (gfw_bogon_ips w)\<rparr>)"

definition AddBogonIP :: "string \<Rightarrow> string \<Rightarrow> unit op" where
  "AddBogonIP ip note =
     (if ip = [] then throw (ErrMsg ''ip_address is required'') else InsertBogonIP ip note)"

definition DeleteBogonIP :: "string \<Rightarrow> unit op" where
  "DeleteBogonIP ip = exec_unless
     (\<lambda>w. tbl_find (\<lambda>b. bg_ip_address b = ip \<and> bg_source b = ''operator'') (gfw_bogon_ips w) = None)
     (ErrMsg ''bogon ip not found or is seeded'')
     (\<lambda>w. w\<lparr>gfw_bogon_ips := tbl_delete (\<lambda>b. bg_ip_address b = ip \<and> bg_source b = ''operator'') (gfw_bogon_ips w)\<rparr>)"

section \<open>Verdicts\<close>

definition verdict_admissible :: "verdict_row \<Rightarrow> bool" where
  "verdict_admissible v \<longleftrightarrow>
     vr_blocking v \<in> {[], ''dns'', ''tcp_ip'', ''tls_sni'', ''http-failure'', ''http-diff'', ''indeterminate''} \<and>
     vr_dns_consistency v \<in> {None, Some ''consistent'', Some ''inconsistent''} \<and>
     0 \<le> vr_confidence v \<and> vr_confidence v \<le> 1 \<and>
     length (vr_probe_node_id v) \<le> 64 \<and> length (vr_control_node_id v) \<le> 64"

definition InsertVerdict :: "verdict_row \<Rightarrow> unit op" where
  "InsertVerdict v = exec_unless (\<lambda>w. \<not> verdict_admissible v) (ErrCheck ''gfw_verdicts'')
     (\<lambda>w. w\<lparr>gfw_verdicts := tbl_insert (\<lambda>i. v\<lparr>vr_id := i, vr_created_at := now w\<rparr>) (gfw_verdicts w)\<rparr>)"

definition LatestVerdict :: "int \<Rightarrow> verdict_row option op" where
  "LatestVerdict d = query (\<lambda>w. latest_by vr_measured_at (tbl_select (\<lambda>v. vr_domain_id v = d) (gfw_verdicts w)))"

text \<open>\<open>DISTINCT ON (domain_id) ... ORDER BY domain_id, measured_at DESC\<close> after the \<open>WHERE\<close>.\<close>

definition ActivelyBlockedDomains :: "verdict_row list op" where
  "ActivelyBlockedDomains = query (\<lambda>w.
     let vs = tbl_select (\<lambda>v. vr_blocking v \<noteq> [] \<and> vr_blocking v \<noteq> ''indeterminate'') (gfw_verdicts w)
     in List.map_filter (\<lambda>d. latest_by vr_measured_at (filter (\<lambda>v. vr_domain_id v = d) vs))
          (sort (remdups (map vr_domain_id vs))))"

definition persistVerdict :: "verdict \<Rightarrow> unit op" where
  "persistVerdict v = InsertVerdict \<lparr>vr_id = 0, vr_domain_id = vt_domain_id v, vr_blocking = vt_blocking v,
     vr_accessible = vt_accessible v,
     vr_dns_consistency = (if vt_dns_consistency v \<noteq> [] then Some (vt_dns_consistency v) else None),
     vr_confidence = vt_confidence v, vr_probe_node_id = vt_probe_node_id v,
     vr_control_node_id = vt_control_node_id v, vr_detail = vt_detail v,
     vr_measured_at = vt_measured_at v, vr_created_at = 0\<rparr>"

section \<open>Blocking state and alerts\<close>

definition UpdateDomainBlockingStatus ::
    "int \<Rightarrow> string \<Rightarrow> string \<Rightarrow> int option \<Rightarrow> rat \<Rightarrow> unit op" where
  "UpdateDomainBlockingStatus d status blockingType since confidence = exec (\<lambda>w.
     w\<lparr>domains := tbl_update (\<lambda>r. d_id r = d) (\<lambda>r. r\<lparr>
       d_blocking_status := (if status = [] then None else Some status),
       d_blocking_type := (if blockingType = [] then None else Some blockingType),
       d_blocking_since := since,
       d_blocking_confidence := (if status = [] then None else Some confidence),
       d_updated_at := now w\<rparr>) (domains w)\<rparr>)"

definition classifyBlocking :: "rat \<Rightarrow> string \<Rightarrow> string \<times> string" where
  "classifyBlocking confidence blockingType =
     (if blockingType = [] then ([], [])
      else if confidence \<ge> 9 / 10 then (''blocked'', ''P1'')
      else if confidence \<ge> 7 / 10 then (''possibly_blocked'', ''P2'')
      else if confidence \<ge> 3 / 10 then ([], ''P3'')
      else ([], []))"

definition buildTitle :: "string \<Rightarrow> string \<Rightarrow> rat \<Rightarrow> string" where
  "buildTitle fqdn blockingType confidence =
     (let what = (if blockingType = ''dns'' then ''DNS blocking''
            else if blockingType = ''tcp_ip'' then ''TCP/IP blocking''
            else if blockingType = ''tls_sni'' then ''TLS SNI blocking''
            else if blockingType = ''http-failure'' then ''HTTP failure''
            else if blockingType = ''http-diff'' then ''HTTP content difference'' else ''blocking'')
      in ''GFW: '' @ what @ '' detected on '' @ fqdn @ '' ('' @ show_int \<lfloor>confidence * 100\<rfloor> @ ''% confidence)'')"

definition dedup_key_of :: "int \<Rightarrow> string" where
  "dedup_key_of d = ''gfw:blocked:'' @ show_int d"

definition blocking_alert :: "verdict \<Rightarrow> string \<Rightarrow> alert_row" where
  "blocking_alert v severity = \<lparr>al_id = 0, al_severity = severity, al_source = ''gfw'',
     al_target_kind = ''domain'', al_target_id = Some (vt_domain_id v),
     al_title = buildTitle (vt_fqdn v) (vt_blocking v) (vt_confidence v),
     al_detail = Some ([(''fqdn'', JString (vt_fqdn v))] @
       (if vt_blocking v \<noteq> [] then [(''blocking_type'', JString (vt_blocking v))] else []) @
       [(''confidence'', JNumber (vt_confidence v))] @
       (if vt_probe_node_id v \<noteq> [] then [(''probe_node_id'', JString (vt_probe_node_id v))] else []) @
       (if vt_control_node_id v \<noteq> [] then [(''control_node_id'', JString (vt_control_node_id v))] else [])),
     al_dedup_key = Some (dedup_key_of (vt_domain_id v)), al_notified_at = None, al_resolved_at = None,
     al_acknowledged_at = None, al_acknowledged_by = None, al_created_at = 0\<rparr>"

definition EvaluateAndAlert :: "verdict \<Rightarrow> unit op" where
  "EvaluateAndAlert v =
     (let (status, severity) = classifyBlocking (vt_confidence v) (vt_blocking v);
          since = (if status \<noteq> [] then Some (vt_measured_at v) else None)
      in seq_eff (ignore (UpdateDomainBlockingStatus (vt_domain_id v) status (vt_blocking v) since (vt_confidence v)))
        (if vt_accessible v \<or> status = [] then ignore (Resolve (dedup_key_of (vt_domain_id v)))
         else Fire (blocking_alert v severity)))"

section \<open>The pipeline\<close>

text \<open>\<open>alerting\<close> is false when the service was built without a \<open>BlockingAlertService\<close>.\<close>

definition AnalyzeAndStore :: "(string \<Rightarrow> string) option \<Rightarrow> bool \<Rightarrow> int \<Rightarrow> verdict option op" where
  "AnalyzeAndStore asn alerting d =
     bnd (LatestMeasurementPair d) (\<lambda>(probeRow, controlRow). case probeRow of
       None \<Rightarrow> ret None
     | Some pr \<Rightarrow> (case rowToMeasurement pr of
         Inl e \<Rightarrow> throw e
       | Inr probe \<Rightarrow>
           let control = (case controlRow of None \<Rightarrow> None
                 | Some cr \<Rightarrow> (case rowToMeasurement cr of Inl e \<Rightarrow> None | Inr m \<Rightarrow> Some m));
               preliminary = Classify asn probe control 0
           in bnd (attempt (Redis_Record d (me_node_id probe) (vt_blocking preliminary))) (\<lambda>rec.
              let conf = (case rec of Inl e \<Rightarrow> 0 | Inr c \<Rightarrow> c);
                  v = Classify asn probe control conf
              in seq_eff (persistVerdict v)
                 (seq_eff (if alerting then ignore (EvaluateAndAlert v) else ret ())
                    (ret (Some v))))))"

section \<open>Registration\<close>

text \<open>
  C53: No probe node can register: the service never sets the metadata of the node it hands to the
  store, the store passes missing metadata as \<open>NULL\<close>, and the column is declared \<open>NOT NULL\<close>. So
  every registration ends in an error and leaves the table of nodes as it was.
\<close>

theorem probe_registration_fails:
  "(\<exists>e. result (Node_Register req) w = Inl e) \<and>
   gfw_probe_nodes (final (Node_Register req) w) = gfw_probe_nodes w"
proof -
  let ?e = "case faults w of True # _ \<Rightarrow> ErrDB | _ \<Rightarrow> ErrCheck ''gfw_probe_nodes''"
  have res: "result (NodeStore_Register n None) w = Inl ?e"
    and fin: "gfw_probe_nodes (final (NodeStore_Register n None) w) = gfw_probe_nodes w" for n
    unfolding NodeStore_Register_def result_stmt final_stmt
    by (simp_all add: node_admissible_def result_def final_def split: list.split bool.split)
  show ?thesis
    unfolding Node_Register_def Let_def by (simp add: result_seq final_seq res fin)
qed

section \<open>Storing and reading a measurement\<close>

lemma unmarshal_ptr [simp]: "(case marshal_ptr v of Value d \<Rightarrow> Some d | _ \<Rightarrow> None) = v" "marshal_ptr v \<noteq> Malformed"
  by (simp_all add: marshal_ptr_def split: option.split)

lemma unmarshal_slice [simp]: "(case marshal_slice xs of Value ys \<Rightarrow> ys | _ \<Rightarrow> []) = xs" "marshal_slice xs \<noteq> Malformed"
  by (simp_all add: marshal_slice_def)


section \<open>The domain columns and alerts after a verdict\<close>

lemma UpdateDomainBlockingStatus_calm:
  assumes "faults w = []"
  shows "faults (final (UpdateDomainBlockingStatus d st ty si c) w) = []"
    and "result (UpdateDomainBlockingStatus d st ty si c) w = Inr ()"
    and "alert_events (final (UpdateDomainBlockingStatus d st ty si c) w) = alert_events w"
    and "now (final (UpdateDomainBlockingStatus d st ty si c) w) = now w"
    and "task_queue (final (UpdateDomainBlockingStatus d st ty si c) w) = task_queue w"
  using assms by (simp_all add: UpdateDomainBlockingStatus_def)

lemma UpdateDomainBlockingStatus_columns:
  assumes "faults w = []" and "r \<in> set (rows (domains (final (UpdateDomainBlockingStatus d st ty si c) w)))"
    and "d_id r = d"
  shows "d_blocking_status r = (if st = [] then None else Some st) \<and>
    d_blocking_type r = (if ty = [] then None else Some ty) \<and> d_blocking_since r = si"
proof -
  let ?g = "\<lambda>r. r\<lparr>d_blocking_status := (if st = [] then None else Some st),
       d_blocking_type := (if ty = [] then None else Some ty), d_blocking_since := si,
       d_blocking_confidence := (if st = [] then None else Some c), d_updated_at := now w\<rparr>"
  have "r \<in> (\<lambda>r. if d_id r = d then ?g r else r) ` set (rows (domains w))"
    using assms(1,2) by (simp add: UpdateDomainBlockingStatus_def tbl_update_def del: if_image_distrib)
  then obtain r0 where "r = (if d_id r0 = d then ?g r0 else r0)" by (rule imageE)
  with assms(3) show ?thesis by (cases "d_id r0 = d") simp_all
qed

interpretation keeps_domains: alert_blind "\<lambda>w w'. domains w' = domains w"
  by unfold_locales simp_all

lemma alerting_keeps_domains: "domains (final (Resolve k) w) = domains w" "domains (final (Fire ev) w) = domains w"
  using keepsD [OF keeps_domains.k_Resolve] keepsD [OF keeps_domains.k_Fire] by blast+

lemma EvaluateAndAlert_domains:
  assumes "classifyBlocking (vt_confidence v) (vt_blocking v) = (status, severity)"
  shows "domains (final (EvaluateAndAlert v) w) = domains (final (UpdateDomainBlockingStatus (vt_domain_id v)
     status (vt_blocking v) (if status \<noteq> [] then Some (vt_measured_at v) else None) (vt_confidence v)) w)"
  unfolding EvaluateAndAlert_def assms by (simp add: eff_run alerting_keeps_domains)

lemma Resolve_calm:
  assumes "faults w = []"
  shows "result (Resolve k) w = Inr ()"
    and "\<forall>a \<in> set (rows (alert_events (final (Resolve k) w))). al_dedup_key a = Some k \<longrightarrow> al_resolved_at a \<noteq> None"
    and "length (rows (alert_events (final (Resolve k) w))) = length (rows (alert_events w))"
    and "task_queue (final (Resolve k) w) = task_queue w"
  using assms by (auto simp: Resolve_def ResolveByDedupKey_def tbl_defs)

text \<open>
  A sighting below the confidence of 0.7 never alerts anybody: although its severity is
  computed as P3, no alert is stored and no notification queued; instead every open alert
  of the domain is resolved and its blocking status cleared, while the blocking type stays on the
  row. This is also what happens to a domain known as blocked when the tracker cannot be
  reached, because the confidence is then 0.
\<close>

theorem weak_sighting_resolves_alerts:
  assumes "faults w = []" and "vt_blocking v \<noteq> []" and "vt_confidence v < 7 / 10"
  shows "result (EvaluateAndAlert v) w = Inr () \<and>
    task_queue (final (EvaluateAndAlert v) w) = task_queue w \<and>
    length (rows (alert_events (final (EvaluateAndAlert v) w))) = length (rows (alert_events w)) \<and>
    (\<forall>a \<in> set (rows (alert_events (final (EvaluateAndAlert v) w))).
       al_dedup_key a = Some (dedup_key_of (vt_domain_id v)) \<longrightarrow> al_resolved_at a \<noteq> None) \<and>
    (\<forall>r \<in> set (rows (domains (final (EvaluateAndAlert v) w))). d_id r = vt_domain_id v \<longrightarrow>
       d_blocking_status r = None \<and> d_blocking_type r = Some (vt_blocking v))"
proof -
  let ?U = "UpdateDomainBlockingStatus (vt_domain_id v) [] (vt_blocking v) None (vt_confidence v)"
  have st: "classifyBlocking (vt_confidence v) (vt_blocking v) = ([], if vt_confidence v \<ge> 3 / 10 then ''P3'' else [])"
    using assms(2,3) by (simp add: classifyBlocking_def)
  then have run: "EvaluateAndAlert v = seq_eff (ignore ?U) (ignore (Resolve (dedup_key_of (vt_domain_id v))))"
    by (simp add: EvaluateAndAlert_def)
  note U = UpdateDomainBlockingStatus_calm [OF assms(1), of "vt_domain_id v" "[]" "vt_blocking v" None "vt_confidence v"]
  have "d_blocking_status r = None \<and> d_blocking_type r = Some (vt_blocking v)"
    if "r \<in> set (rows (domains (final (EvaluateAndAlert v) w)))" "d_id r = vt_domain_id v" for r
    using that UpdateDomainBlockingStatus_columns [OF assms(1), of r "vt_domain_id v" "[]"] assms(2)
    by (simp add: EvaluateAndAlert_domains [OF st])
  with Resolve_calm [OF U(1)] U show ?thesis
    by (simp add: run eff_run)
qed

text \<open>
  A sighting with a confidence of at least 0.7 marks the domain and raises the alarm: when the
  database answers and no alert of the domain is open and younger than an hour, the domain's
  columns name the status, the kind and the time of the verdict, and an alert of severity P1
  (from 0.9) or P2 is stored for it.
\<close>

theorem strong_sighting_alerts:
  assumes "faults w = []" and "vt_blocking v \<noteq> []" and "\<not> vt_accessible v" and "vt_confidence v \<ge> 7 / 10"
    and "quiet_key (blocking_alert v []) w"
    and "alert_admissible (blocking_alert v (if vt_confidence v \<ge> 9 / 10 then ''P1'' else ''P2''))"
  shows "result (EvaluateAndAlert v) w = Inr () \<and>
    (\<exists>a \<in> set (rows (alert_events (final (EvaluateAndAlert v) w))). al_id a = seq (alert_events w) + 1 \<and>
       al_severity a = (if vt_confidence v \<ge> 9 / 10 then ''P1'' else ''P2'') \<and>
       al_target_id a = Some (vt_domain_id v) \<and> al_resolved_at a = None) \<and>
    (\<forall>r \<in> set (rows (domains (final (EvaluateAndAlert v) w))). d_id r = vt_domain_id v \<longrightarrow>
       d_blocking_status r = Some (if vt_confidence v \<ge> 9 / 10 then ''blocked'' else ''possibly_blocked'') \<and>
       d_blocking_type r = Some (vt_blocking v) \<and> d_blocking_since r = Some (vt_measured_at v))"
proof -
  let ?hi = "vt_confidence v \<ge> 9 / 10"
  let ?st = "if ?hi then ''blocked'' else ''possibly_blocked''" and ?sev = "if ?hi then ''P1'' else ''P2''"
  let ?U = "UpdateDomainBlockingStatus (vt_domain_id v) ?st (vt_blocking v) (Some (vt_measured_at v)) (vt_confidence v)"
  let ?w = "final ?U w" and ?a = "blocking_alert v ?sev"
  have st: "classifyBlocking (vt_confidence v) (vt_blocking v) = (?st, ?sev)"
    using assms(2,4) by (simp add: classifyBlocking_def)
  then have run: "EvaluateAndAlert v = seq_eff (ignore ?U) (Fire ?a)"
    using assms(3) by (simp add: EvaluateAndAlert_def)
  note U = UpdateDomainBlockingStatus_calm [OF assms(1), of "vt_domain_id v" ?st "vt_blocking v"
      "Some (vt_measured_at v)" "vt_confidence v"]
  have quiet: "quiet_key ?a ?w"
    using assms(5) U(3,4) by (simp add: quiet_key_def blocking_alert_def)
  have fired: "result (Fire ?a) ?w = Inr ()"
    "\<exists>a \<in> set (rows (alert_events (final (Fire ?a) ?w))). al_id a = seq (alert_events ?w) + 1 \<and>
       al_severity a = al_severity ?a \<and> al_target_id a = al_target_id ?a \<and> al_resolved_at a = None"
    using Fire_stores [OF U(1) assms(6) quiet] by blast+
  have "d_blocking_status r = Some ?st \<and> d_blocking_type r = Some (vt_blocking v) \<and>
      d_blocking_since r = Some (vt_measured_at v)"
    if "r \<in> set (rows (domains (final (EvaluateAndAlert v) w)))" "d_id r = vt_domain_id v" for r
    using that UpdateDomainBlockingStatus_columns [OF assms(1), of r "vt_domain_id v" ?st] assms(2)
    by (simp add: EvaluateAndAlert_domains [OF st])
  with fired U show ?thesis
    by (simp add: run eff_run blocking_alert_def)
qed

section \<open>From measurements to the stored verdict\<close>

interpretation keeps_verdicts: alert_blind "\<lambda>w w'. gfw_verdicts w' = gfw_verdicts w \<and> gfw_confidence w' = gfw_confidence w \<and> now w' = now w"
  by unfold_locales simp_all

lemma alerting_keeps_verdicts:
  "gfw_verdicts (final (EvaluateAndAlert v) w) = gfw_verdicts w"
  "redis_state (final (EvaluateAndAlert v) w) = redis_state w"
proof -
  have "keeps (\<lambda>w w'. gfw_verdicts w' = gfw_verdicts w \<and> gfw_confidence w' = gfw_confidence w \<and> now w' = now w)
      (EvaluateAndAlert v)"
    unfolding EvaluateAndAlert_def UpdateDomainBlockingStatus_def Let_def
    by (intro eff_intro keeps_verdicts.keeps_exec) simp
  from keepsD [OF this, of w] show "gfw_verdicts (final (EvaluateAndAlert v) w) = gfw_verdicts w"
    and "redis_state (final (EvaluateAndAlert v) w) = redis_state w"
    by (blast intro: redis_state_cong)+
qed

lemma score_bounds: "0 \<le> scoreFromState s \<and> scoreFromState s \<le> 1"
  by (simp add: scoreFromState_def Let_def)

lemma blocking_values:
  "expected_blocking asn probe control \<in> {[], ''dns'', ''tcp_ip'', ''tls_sni'', ''http-failure'', ''http-diff''}"
  by (simp add: expected_blocking_def)

definition verdict_row_of :: "verdict \<Rightarrow> verdict_row" where
  "verdict_row_of v = \<lparr>vr_id = 0, vr_domain_id = vt_domain_id v, vr_blocking = vt_blocking v,
     vr_accessible = vt_accessible v,
     vr_dns_consistency = (if vt_dns_consistency v \<noteq> [] then Some (vt_dns_consistency v) else None),
     vr_confidence = vt_confidence v, vr_probe_node_id = vt_probe_node_id v,
     vr_control_node_id = vt_control_node_id v, vr_detail = vt_detail v,
     vr_measured_at = vt_measured_at v, vr_created_at = 0\<rparr>"

lemma Classify_admissible:
  assumes "length (me_node_id probe) \<le> 64" and "\<forall>c. control = Some c \<longrightarrow> length (me_node_id c) \<le> 64"
    and "0 \<le> conf \<and> conf \<le> 1"
  shows "verdict_admissible (verdict_row_of (Classify asn probe control conf))"
  using assms blocking_values [of asn probe control] Classify_fields(7) [of asn probe control conf]
  by (auto simp: verdict_admissible_def verdict_row_of_def Classify_tree Classify_fields split: option.split)

definition decoded_control :: "int \<Rightarrow> world \<Rightarrow> measurement option" where
  "decoded_control d w = (case latest_measurement ''control'' d w of None \<Rightarrow> None
     | Some cr \<Rightarrow> (case rowToMeasurement cr of Inl e \<Rightarrow> None | Inr m \<Rightarrow> Some m))"

text \<open>
  The pipeline stores the verdict the measurements deserve: when the services answer, analysing a
  domain whose latest probe measurement decodes classifies it against the latest control
  measurement as the reference does, scores it with the tracker state after this observation,
  and appends exactly this verdict to the history. No constraint of the table can reject it.
\<close>

theorem AnalyzeAndStore_verdict:
  assumes "faults w = []" and "latest_measurement ''probe'' d w = Some pr" and "rowToMeasurement pr = Inr probe"
    and "length (me_node_id probe) \<le> 64" and "\<forall>c. decoded_control d w = Some c \<longrightarrow> length (me_node_id c) \<le> 64"
  shows "\<exists>v r. result (AnalyzeAndStore asn alerting d) w = Inr (Some v) \<and>
    vt_blocking v = expected_blocking asn probe (decoded_control d w) \<and>
    vt_confidence v = scoreFromState (observe (me_node_id probe) (vt_blocking v) (redis_state w d)) \<and>
    rows (gfw_verdicts (final (AnalyzeAndStore asn alerting d) w)) = rows (gfw_verdicts w) @ [r] \<and>
    vr_domain_id r = me_domain_id probe \<and> vr_blocking r = vt_blocking v \<and> vr_confidence r = vt_confidence v \<and>
    redis_state (final (AnalyzeAndStore asn alerting d) w) d =
      observe (me_node_id probe) (vt_blocking v) (redis_state w d)"
proof -
  let ?c = "decoded_control d w"
  let ?b = "expected_blocking asn probe ?c" and ?n = "me_node_id probe"
  let ?s = "observe ?n ?b (redis_state w d)"
  let ?v = "Classify asn probe ?c (scoreFromState ?s)"
  let ?w1 = "final (Redis_Record d ?n ?b) w"
  let ?w2 = "final (persistVerdict ?v) ?w1"
  let ?tail = "seq_eff (if alerting then ignore (EvaluateAndAlert ?v) else ret ()) (ret (Some ?v))"
  have w1: "faults ?w1 = []" "gfw_verdicts ?w1 = gfw_verdicts w" "redis_state ?w1 = (redis_state w)(d := ?s)"
    using redis.Rec_good [OF assms(1)] redis.Rec_state [OF assms(1)] assms(1)
    by (simp_all add: Redis_Record_def Redis_load_def Redis_save_def eff_run Let_def)
  have p: "result (persistVerdict ?v) ?w1 = Inr ()"
    "?w2 = ?w1\<lparr>gfw_verdicts := tbl_insert (\<lambda>i. (verdict_row_of ?v)\<lparr>vr_id := i, vr_created_at := now ?w1\<rparr>) (gfw_verdicts ?w1)\<rparr>"
    using w1(1) Classify_admissible [OF assms(4,5) score_bounds]
    unfolding persistVerdict_def InsertVerdict_def verdict_row_of_def [symmetric] by simp_all
  have w2: "redis_state ?w2 d = ?s"
    unfolding p(2) using w1(3) redis_state_cong [of "?w1\<lparr>gfw_verdicts := x\<rparr>" ?w1 for x] by simp
  have run: "result (AnalyzeAndStore asn alerting d) w = result ?tail ?w2"
    "final (AnalyzeAndStore asn alerting d) w = final ?tail ?w2"
    using assms(1-3) redis.Rec_result [OF assms(1), of d ?n ?b] p(1)
    by (simp_all add: AnalyzeAndStore_def LatestMeasurementPair_def eff_run decoded_control_def [symmetric]
        Classify_tree Let_def)
  show ?thesis
    using p(2) w1(2) w2
    by (intro exI [of _ ?v] exI [of _ "(verdict_row_of ?v)\<lparr>vr_id := seq (gfw_verdicts w) + 1, vr_created_at := now ?w1\<rparr>"])
      (simp add: run eff_run Classify_tree Classify_fields alerting_keeps_verdicts tbl_defs verdict_row_of_def)
qed

section \<open>The list of blocked domains\<close>

lemma latest_by_mem: "latest_by key rs = Some r \<Longrightarrow> r \<in> set rs"
  by (induction rs arbitrary: r) (auto split: option.splits if_splits)

lemma latest_by_exists: "rs \<noteq> [] \<Longrightarrow> \<exists>r. latest_by key rs = Some r"
  by (cases rs) (auto split: option.split)

lemma latest_by_None: "latest_by key rs = None \<longleftrightarrow> rs = []"
  by (cases rs) (auto split: option.split)

lemma latest_by_max: "latest_by key rs = Some r \<Longrightarrow> s \<in> set rs \<Longrightarrow> key s \<le> key r"
proof (induction rs arbitrary: r)
  case (Cons x rs)
  then show ?case
    by (cases "latest_by key rs") (fastforce simp: latest_by_None split: if_splits)+
qed simp

text \<open>
  A domain that recovered stays on the list of actively blocked domains: the query drops the
  verdicts without blocking before it picks the latest one per domain, so one positive
  verdict keeps the domain listed, with that old verdict, even when the latest verdict of the domain finds
  it accessible.
\<close>

theorem recovered_domain_still_listed:
  assumes "faults w = []" and "v \<in> set (rows (gfw_verdicts w))" and "vr_domain_id v = d"
    and "vr_blocking v \<notin> {[], ''indeterminate''}"
    and "result (LatestVerdict d) w = Inr (Some u)" and "vr_accessible u" and "vr_blocking u = []"
  shows "\<exists>vs x. result ActivelyBlockedDomains w = Inr vs \<and> x \<in> set vs \<and> vr_domain_id x = d \<and>
    vr_blocking x \<noteq> [] \<and> vr_measured_at x \<le> vr_measured_at u"
proof -
  let ?vs = "filter (\<lambda>v. vr_blocking v \<noteq> [] \<and> vr_blocking v \<noteq> ''indeterminate'') (rows (gfw_verdicts w))"
  let ?pick = "\<lambda>d. latest_by vr_measured_at (filter (\<lambda>v. vr_domain_id v = d) ?vs)"
  have ne: "filter (\<lambda>v. vr_domain_id v = d) ?vs \<noteq> []" using assms(2-4) by (auto simp: filter_empty_conv)
  from latest_by_exists [OF ne] obtain x where x: "?pick d = Some x" by blast
  then have mem: "x \<in> set ?vs" "vr_domain_id x = d" using latest_by_mem [OF x] by simp_all
  have "latest_by vr_measured_at (filter (\<lambda>v. vr_domain_id v = d) (rows (gfw_verdicts w))) = Some u"
    using assms(1,5) by (simp add: LatestVerdict_def tbl_defs)
  then have "vr_measured_at x \<le> vr_measured_at u"
    by (rule latest_by_max) (use mem in simp)
  moreover have "d \<in> set (sort (remdups (map vr_domain_id ?vs)))" using mem by (auto simp: image_iff)
  with x have "x \<in> set (List.map_filter ?pick (sort (remdups (map vr_domain_id ?vs))))"
    by (force simp: map_filter_def)
  moreover have "result ActivelyBlockedDomains w = Inr (List.map_filter ?pick (sort (remdups (map vr_domain_id ?vs))))"
    using assms(1) by (simp add: ActivelyBlockedDomains_def tbl_select_def Let_def)
  moreover have "vr_blocking x \<noteq> []" using mem(1) by simp
  ultimately show ?thesis using mem(2) by blast
qed

section \<open>A watched domain\<close>

text \<open>
  Domain 1 of the sample world, one enabled rule that sends everything to channel 5, and a
  measurement in which the probe node got an address from the bogon list.
\<close>

definition bogon_sighting :: measurement where
  "bogon_sighting = \<lparr>me_assignment_id = 1, me_domain_id = 1, me_fqdn = ''a.com'', me_node_id = ''bj'',
     me_node_role = ''probe'',
     me_dns = Some \<lparr>dr_resolver_ip = ''8.8.8.8:53'', dr_answers = [''1.2.3.4''], dr_cname = [], dr_error = [],
       dr_duration_ms = 40, dr_truncated = False, dr_is_bogon = True, dr_is_injected = False\<rparr>,
     me_tcp = [], me_tls = [], me_http = None, me_measured_at = 50, me_total_ms = 40\<rparr>"

definition sighting :: "rat \<Rightarrow> verdict" where
  "sighting conf = Classify None bogon_sighting None conf"

definition watched_world :: world where
  "watched_world = (one_domain None)\<lparr>
     notification_rules := \<lparr>rows = [\<lparr>nr_id = 1, nr_channel_id = 5, nr_alert_type = None, nr_min_severity = ''P3'',
       nr_target_type = None, nr_target_id = None, nr_enabled = True\<rparr>], seq = 1\<rparr>,
     gfw_measurements := \<lparr>rows = [measurement_of ''cn'' 0 bogon_sighting 1], seq = 1\<rparr>\<rparr>"

lemma watched_facts:
  "faults watched_world = []" "alert_events watched_world = empty_tbl" "gfw_confidence watched_world = []"
  "gfw_verdicts watched_world = empty_tbl" "quiet_key ev watched_world"
  "latest_measurement ''probe'' 1 watched_world = Some (measurement_of ''cn'' 0 bogon_sighting 1)"
  "decoded_control 1 watched_world = None"
  by (simp_all add: watched_world_def one_domain_def empty_world_def empty_tbl_def quiet_key_def
      latest_measurement_def decoded_control_def tbl_defs measurement_of_def bogon_sighting_def)

lemma sighting_facts:
  "vt_blocking (sighting conf) = ''dns''" "\<not> vt_accessible (sighting conf)" "vt_confidence (sighting conf) = conf"
  "vt_domain_id (sighting conf) = 1" "vt_fqdn (sighting conf) = ''a.com''"
  by (simp_all add: sighting_def Classify_tree Classify_fields expected_blocking_def dns_tampered_def
      bogon_sighting_def)

lemma sighting_alert_admissible:
  "alert_admissible (blocking_alert (sighting (7 / 10)) ''P2'')"
proof -
  have "length (buildTitle ''a.com'' ''dns'' (7 / 10)) \<le> 200"
    by (simp add: buildTitle_def show_int_def show_nat.simps)
  then show ?thesis
    by (simp add: alert_admissible_def blocking_alert_def sighting_facts dedup_key_of_def show_int_def
        show_nat.simps)
qed

theorem weak_sighting_resolves_alerts_witness:
  "task_queue (final (EvaluateAndAlert (sighting (1 / 2))) watched_world) = task_queue watched_world"
  using weak_sighting_resolves_alerts [OF watched_facts(1), of "sighting (1 / 2)"] by (simp add: sighting_facts)

theorem strong_sighting_alerts_witness:
  "\<exists>a \<in> set (rows (alert_events (final (EvaluateAndAlert (sighting (7 / 10))) watched_world))).
     al_severity a = ''P2'' \<and> al_target_id a = Some 1"
  using strong_sighting_alerts [OF watched_facts(1), of "sighting (7 / 10)"] watched_facts(5)
    sighting_alert_admissible
  by (auto simp: sighting_facts)

theorem AnalyzeAndStore_verdict_witness:
  "\<exists>r. rows (gfw_verdicts (final (AnalyzeAndStore None True 1) watched_world)) = [r] \<and> vr_blocking r = ''dns'' \<and>
     vr_confidence r = 3 / 10"
proof -
  have "rowToMeasurement (measurement_of ''cn'' 0 bogon_sighting 1) = Inr (bogon_sighting\<lparr>me_assignment_id := 0\<rparr>)"
    by (simp add: rowToMeasurement_def measurement_of_def bogon_sighting_def zero_time_def)
  from AnalyzeAndStore_verdict [OF watched_facts(1,6) this, of None True] show ?thesis
    by (auto simp: watched_facts bogon_sighting_def expected_blocking_def dns_tampered_def empty_tbl_def
        redis_state_def no_observation_def observe_def scoreFromState_def uniqueStrings_def)
qed

definition recovered_world :: world where
  "recovered_world = empty_world\<lparr>gfw_verdicts := \<lparr>rows =
     [(verdict_row_of (sighting (9 / 10)))\<lparr>vr_id := 1\<rparr>,
      (verdict_row_of (sighting 0))\<lparr>vr_id := 2, vr_blocking := [], vr_accessible := True, vr_measured_at := 100\<rparr>],
     seq = 2\<rparr>\<rparr>"

theorem recovered_domain_still_listed_witness:
  "\<exists>vs x. result ActivelyBlockedDomains recovered_world = Inr vs \<and> x \<in> set vs \<and> vr_domain_id x = 1"
proof -
  have m: "vt_measured_at (sighting c) = 50" for c
    by (simp add: sighting_def Classify_fields bogon_sighting_def)
  show ?thesis
    using recovered_domain_still_listed [of recovered_world "(verdict_row_of (sighting (9 / 10)))\<lparr>vr_id := 1\<rparr>" 1
        "(verdict_row_of (sighting 0))\<lparr>vr_id := 2, vr_blocking := [], vr_accessible := True, vr_measured_at := 100\<rparr>"]
    by (auto simp: recovered_world_def empty_world_def LatestVerdict_def tbl_defs verdict_row_of_def sighting_facts m)
qed

theorem Fire_notifies_each_channel_once_witness:
  "\<exists>qs. task_queue (final (Fire (blocking_alert (sighting (7 / 10)) ''P2'')) watched_world) = task_queue watched_world @ qs \<and>
     q_job ` set qs = {NotifySendJob 5 1 ''error''}"
proof -
  let ?a = "blocking_alert (sighting (7 / 10)) ''P2''"
  have "{r \<in> set (rows (notification_rules watched_world)). rule_selected (al_source ?a) (al_target_kind ?a)
      (al_target_id ?a) r \<and> severe_enough (al_severity ?a) r} = set (rows (notification_rules watched_world))"
    by (auto simp: watched_world_def rule_selected_def severe_enough_def severityRank_def blocking_alert_def)
  moreover have "nr_channel_id ` set (rows (notification_rules watched_world)) = {5}"
    by (simp add: watched_world_def)
  moreover have "severityToLevel (al_severity ?a) = ''error''"
    by (simp add: blocking_alert_def severityToLevel_def)
  ultimately show ?thesis
    using Fire_notifies_each_channel_once [OF watched_facts(1) sighting_alert_admissible watched_facts(5)]
    by (simp add: watched_facts empty_tbl_def) blast
qed

end
