(* ===== verification/Expiry.thy ===== *)
theory Expiry
  imports Lifecycle
begin

text \<open>
  internal/domain/expiry.go and task.go over the listing of store/postgres/domain.go: the
  expiry bands of a domain, the daily check that stores them and the grouping of its
  notifications. Dates are midnight timestamps in seconds; \<open>daysUntil\<close> is the exact ceiling,
  which the program's \<open>float64\<close> computation agrees with on whole seconds. The texts of the
  notifications are not modelled, only what they are about.
\<close>

section \<open>Listing domains\<close>

text \<open>
  \<open>lf_related\<close> stands for the three filters that join tables of other components (registrar
  accounts, CDN accounts, tags); a filter that is not set admits every row.
\<close>

record list_filter =
  lf_project_id :: "int option"
  lf_dns_provider_id :: "int option"
  lf_cdn_account_id :: "int option"
  lf_tld :: "string option"
  lf_expiry_status :: "string option"
  lf_lifecycle_state :: "string option"
  lf_purpose :: "string option"
  lf_related :: "domain_row \<Rightarrow> bool"
  lf_cursor :: int
  lf_limit :: int

definition no_filter :: "int \<Rightarrow> list_filter" where
  "no_filter limit = \<lparr>lf_project_id = None, lf_dns_provider_id = None, lf_cdn_account_id = None,
     lf_tld = None, lf_expiry_status = None, lf_lifecycle_state = None, lf_purpose = None,
     lf_related = (\<lambda>_. True), lf_cursor = 0, lf_limit = limit\<rparr>"

definition filter_admits :: "list_filter \<Rightarrow> domain_row \<Rightarrow> bool" where
  "filter_admits f d \<longleftrightarrow> d_deleted_at d = None \<and> d_id d > lf_cursor f \<and>
     (lf_project_id f = None \<or> lf_project_id f = Some (d_project_id d)) \<and>
     (lf_dns_provider_id f = None \<or> lf_dns_provider_id f = d_dns_provider_id d) \<and>
     (lf_cdn_account_id f = None \<or> lf_cdn_account_id f = d_cdn_account_id d) \<and>
     (lf_tld f = None \<or> lf_tld f = d_tld d) \<and>
     (lf_expiry_status f = None \<or> lf_expiry_status f = d_expiry_status d) \<and>
     (lf_lifecycle_state f = None \<or> lf_lifecycle_state f = Some (d_lifecycle_state d)) \<and>
     (lf_purpose f = None \<or> lf_purpose f = d_purpose d) \<and> lf_related f d"

definition clamp_limit :: "int \<Rightarrow> int" where
  "clamp_limit n = (let n1 = (if n \<le> 0 then 20 else n) in if n1 > 200 then 200 else n1)"

definition ListWithFilter :: "list_filter \<Rightarrow> domain_row list op" where
  "ListWithFilter f = query (\<lambda>w. take (nat (clamp_limit (lf_limit f)))
     (sort_key d_id (tbl_select (filter_admits f) (domains w))))"

section \<open>Expiry bands\<close>

definition daysUntil :: "int \<Rightarrow> int \<Rightarrow> int" where
  "daysUntil target t = \<lceil>rat_of_int (target - t) / 86400\<rceil>"

definition ComputeExpiryStatus :: "int option \<Rightarrow> int option \<Rightarrow> int \<Rightarrow> string option" where
  "ComputeExpiryStatus expiryDate graceEndDate t = (case expiryDate of
       None \<Rightarrow> None
     | Some e \<Rightarrow>
         if \<not> t < e
         then (case graceEndDate of
             Some g \<Rightarrow> if t < g then Some ''grace'' else Some ''expired''
           | None \<Rightarrow> Some ''expired'')
         else let daysLeft = daysUntil e t in
           if daysLeft \<le> 7 then Some ''expiring_7d''
           else if daysLeft \<le> 30 then Some ''expiring_30d''
           else if daysLeft \<le> 90 then Some ''expiring_90d''
           else None)"

definition SeverityForStatus :: "string option \<Rightarrow> string" where
  "SeverityForStatus status = (case status of
       None \<Rightarrow> []
     | Some s \<Rightarrow>
         if s = ''expiring_90d'' then ''info''
         else if s = ''expiring_30d'' then ''warning''
         else if s = ''expiring_7d'' then ''urgent''
         else if s = ''expired'' \<or> s = ''grace'' then ''critical''
         else ''info'')"

section \<open>The daily check\<close>

record expiry_change =
  ec_domain_id :: int
  ec_fqdn :: string
  ec_expiry_date :: int
  ec_old_status :: "string option"
  ec_new_status :: "string option"

definition new_status :: "int \<Rightarrow> domain_row \<Rightarrow> string option" where
  "new_status t d = ComputeExpiryStatus (d_expiry_date d) (d_grace_end_date d) t"

definition expiry_relevant :: "domain_row \<Rightarrow> bool" where
  "expiry_relevant d \<longleftrightarrow> \<not> (d_lifecycle_state d = ''retired'' \<or> d_expiry_date d = None)"

text \<open>The body of the loop: the changes it appends.\<close>

definition check_domain :: "int \<Rightarrow> domain_row \<Rightarrow> expiry_change list op" where
  "check_domain t d =
     (if \<not> expiry_relevant d then ret []
      else if d_expiry_status d = new_status t d then ret []
      else bnd (attempt (UpdateExpiryStatus (d_id d) (new_status t d))) (\<lambda>r. case r of
          Inl e \<Rightarrow> ret []
        | Inr u \<Rightarrow> ret [\<lparr>ec_domain_id = d_id d, ec_fqdn = d_fqdn d,
            ec_expiry_date = (case d_expiry_date d of None \<Rightarrow> 0 | Some e \<Rightarrow> e),
            ec_old_status = d_expiry_status d, ec_new_status = new_status t d\<rparr>]))"

definition CheckAllExpiry :: "(int \<times> expiry_change list) op" where
  "CheckAllExpiry =
     bnd (gets now) (\<lambda>t.
     bnd (ListWithFilter (no_filter 10000)) (\<lambda>ds.
     bnd (collect ds (check_domain t)) (\<lambda>changed.
       ret (int (length (filter expiry_relevant ds)), changed))))"

text \<open>\<open>groupByStatus\<close>: a change back to no status is filed under its fallback key.\<close>

definition band_of_change :: "expiry_change \<Rightarrow> string" where
  "band_of_change c = (case ec_new_status c of None \<Rightarrow> ''expired'' | Some s \<Rightarrow> s)"

definition groupByStatus :: "expiry_change list \<Rightarrow> (string \<times> expiry_change list) list" where
  "groupByStatus changes = group_all (map (\<lambda>c. (band_of_change c, c)) changes)"

text \<open>
  \<open>HandleExpiryCheck.ProcessTask\<close>: one notification per band, here its band, severity and
  changes; the order of a Go map is not defined, the model uses first occurrence.
\<close>

definition HandleExpiryCheck :: "(string \<times> string \<times> expiry_change list) list op" where
  "HandleExpiryCheck = bnd CheckAllExpiry (\<lambda>(checked, changed).
     if length changed = 0 then ret []
     else ret (map (\<lambda>(status, cs). (status, SeverityForStatus (Some status), cs)) (groupByStatus changed)))"

section \<open>The dashboard\<close>

record dashboard =
  db_bands :: "(string \<times> int) list"
  db_total :: int
  db_calendar :: "(int \<times> int) list"

definition band_order :: "string list" where
  "band_order = [''expired'', ''grace'', ''expiring_7d'', ''expiring_30d'', ''expiring_90d'']"

definition count_band :: "int \<Rightarrow> domain_row list \<Rightarrow> string \<Rightarrow> int" where
  "count_band t ds s = int (length (filter (\<lambda>d. new_status t d = Some s) ds))"

text \<open>Calendar days are counted from the epoch.\<close>

definition calendar_days :: "int \<Rightarrow> domain_row list \<Rightarrow> int list" where
  "calendar_days t ds = List.map_filter (\<lambda>d. case d_expiry_date d of None \<Rightarrow> None
     | Some e \<Rightarrow> if 0 \<le> daysUntil e t \<and> daysUntil e t \<le> 90 then Some (e div 86400) else None) ds"

definition GetDashboardData :: "dashboard op" where
  "GetDashboardData = bnd (gets now) (\<lambda>t. bnd (ListWithFilter (no_filter 10000)) (\<lambda>all.
     let ds = filter expiry_relevant all in
     ret \<lparr>db_bands = map (\<lambda>s. (s, count_band t ds s)) band_order,
          db_total = int (length (filter (\<lambda>d. new_status t d \<noteq> None) ds)),
          db_calendar = map (\<lambda>day. (day, int (count_list (calendar_days t ds) day)))
            (remdups (calendar_days t ds))\<rparr>))"

section \<open>The bands in seconds\<close>

lemma daysUntil_le: "daysUntil e t \<le> n \<longleftrightarrow> e - t \<le> n * 86400"
proof -
  have "daysUntil e t \<le> n \<longleftrightarrow> rat_of_int (e - t) \<le> rat_of_int (n * 86400)"
    by (simp add: daysUntil_def ceiling_le_iff divide_le_eq)
  then show ?thesis by (simp only: of_int_le_iff)
qed

text \<open>The severity of a band as a number: it never falls while time passes.\<close>

definition urgency :: "string option \<Rightarrow> nat" where
  "urgency s = (case s of None \<Rightarrow> 0 | Some b \<Rightarrow> if b = ''expiring_90d'' then 1
     else if b = ''expiring_30d'' then 2 else if b = ''expiring_7d'' then 3
     else if b = ''grace'' then 4 else 5)"

text \<open>
  The expiry band of a domain is the one its remaining time deserves: none without a date or more
  than 90 days ahead, then 90, 30 and 7 days, counted to the second; from the expiry date on
  it is in grace until the end of the grace period and expired afterwards. As time
  passes the urgency of the band never decreases.
\<close>

theorem ComputeExpiryStatus_bands:
  "ComputeExpiryStatus None g t = None \<and>
   ComputeExpiryStatus (Some e) g t =
     (if t \<ge> e then (if (\<exists>x. g = Some x \<and> t < x) then Some ''grace'' else Some ''expired'')
      else if e - t \<le> 7 * 86400 then Some ''expiring_7d''
      else if e - t \<le> 30 * 86400 then Some ''expiring_30d''
      else if e - t \<le> 90 * 86400 then Some ''expiring_90d'' else None) \<and>
   (\<forall>t'. t \<le> t' \<longrightarrow> urgency (ComputeExpiryStatus (Some e) g t) \<le> urgency (ComputeExpiryStatus (Some e) g t'))"
proof -
  have bands: "ComputeExpiryStatus (Some e) g t =
     (if t \<ge> e then (if (\<exists>x. g = Some x \<and> t < x) then Some ''grace'' else Some ''expired'')
      else if e - t \<le> 7 * 86400 then Some ''expiring_7d''
      else if e - t \<le> 30 * 86400 then Some ''expiring_30d''
      else if e - t \<le> 90 * 86400 then Some ''expiring_90d'' else None)" for t
    by (auto simp: ComputeExpiryStatus_def daysUntil_le Let_def split: option.split)
  have "urgency (ComputeExpiryStatus (Some e) g t) \<le> urgency (ComputeExpiryStatus (Some e) g t')" if "t \<le> t'" for t'
    using that unfolding bands by (auto simp: urgency_def)
  with bands show ?thesis by (simp add: ComputeExpiryStatus_def)
qed

theorem ComputeExpiryStatus_bands_witness:
  "ComputeExpiryStatus (Some 864000) None 0 = Some ''expiring_30d'' \<and>
   urgency (ComputeExpiryStatus (Some 864000) None 0) \<le> urgency (ComputeExpiryStatus (Some 864000) None 800000)"
  using ComputeExpiryStatus_bands [of None 0 864000] by auto

section \<open>What the check changes\<close>

text \<open>The domains the check looks at, those it finds out of date, and the row it leaves.\<close>

definition listed :: "world \<Rightarrow> domain_row list" where
  "listed w = take 200 (sort_key d_id (filter (\<lambda>d. d_deleted_at d = None \<and> d_id d > 0) (rows (domains w))))"

definition outdated :: "int \<Rightarrow> domain_row \<Rightarrow> bool" where
  "outdated t d \<longleftrightarrow> expiry_relevant d \<and> d_expiry_status d \<noteq> new_status t d"

definition refreshed :: "int \<Rightarrow> domain_row \<Rightarrow> domain_row" where
  "refreshed t d = d\<lparr>d_expiry_status := new_status t d, d_updated_at := t\<rparr>"

definition change_of :: "int \<Rightarrow> domain_row \<Rightarrow> expiry_change" where
  "change_of t d = \<lparr>ec_domain_id = d_id d, ec_fqdn = d_fqdn d,
     ec_expiry_date = (case d_expiry_date d of None \<Rightarrow> 0 | Some e \<Rightarrow> e),
     ec_old_status = d_expiry_status d, ec_new_status = new_status t d\<rparr>"

lemma ListWithFilter_calm:
  assumes "faults w = []"
  shows "result (ListWithFilter (no_filter 10000)) w = Inr (listed w)"
    and "final (ListWithFilter (no_filter 10000)) w = w"
proof -
  have "filter_admits (no_filter 10000) = (\<lambda>d. d_deleted_at d = None \<and> d_id d > 0)"
    by (simp add: filter_admits_def no_filter_def fun_eq_iff)
  with assms show "result (ListWithFilter (no_filter 10000)) w = Inr (listed w)"
    by (simp add: ListWithFilter_def listed_def clamp_limit_def no_filter_def tbl_select_def)
  show "final (ListWithFilter (no_filter 10000)) w = w"
    using assms by (simp add: ListWithFilter_def)
qed

lemma check_domain_calm:
  assumes "faults w = []"
  shows "result (check_domain t d) w = Inr (if outdated t d then [change_of t d] else [])"
    and "final (check_domain t d) w = (if outdated t d then w\<lparr>domains := tbl_update (live_domain (d_id d))
      (\<lambda>r. r\<lparr>d_expiry_status := new_status t d, d_updated_at := now w\<rparr>) (domains w)\<rparr> else w)"
  using assms by (auto simp: check_domain_def outdated_def change_of_def UpdateExpiryStatus_def eff_run)

text \<open>The rows after the loop over \<open>ds\<close>: a live row is rewritten when its id is outdated in \<open>ds\<close>.\<close>

definition swept :: "int \<Rightarrow> domain_row list \<Rightarrow> domain_row \<Rightarrow> domain_row" where
  "swept t ds r = (case find (\<lambda>d. d_id d = d_id r \<and> outdated t d) ds of
       None \<Rightarrow> r
     | Some d \<Rightarrow> if d_deleted_at r = None
         then r\<lparr>d_expiry_status := new_status t d, d_updated_at := t\<rparr> else r)"

lemma swept_Cons:
  assumes "d_id d \<notin> d_id ` set ds"
  shows "swept t (d # ds) r = swept t ds (if outdated t d \<and> live_domain (d_id d) r
    then r\<lparr>d_expiry_status := new_status t d, d_updated_at := t\<rparr> else r)"
proof (cases "d_id r = d_id d")
  case True
  then have "find (\<lambda>x. d_id x = d_id r \<and> outdated t x) ds = None"
    using assms by (auto simp: find_None_iff) (metis image_eqI)
  with True show ?thesis by (simp add: swept_def live_domain_def)
qed (auto simp: swept_def live_domain_def)

lemma collect_check_run:
  assumes "faults w = []" and "now w = t" and "distinct (map d_id ds)"
  shows "collect ds (check_domain t) w = (Inr (map (change_of t) (filter (outdated t) ds)),
    w\<lparr>domains := (domains w)\<lparr>rows := map (swept t ds) (rows (domains w))\<rparr>\<rparr>)"
  using assms
proof (induction ds arbitrary: w)
  case Nil
  have "swept t [] = (\<lambda>r. r)" by (simp add: swept_def fun_eq_iff)
  then show ?case by (simp add: ret_def)
next
  case (Cons d ds)
  let ?w = "final (check_domain t d) w"
  have w: "faults ?w = []" "now ?w = t" "distinct (map d_id ds)"
    using Cons.prems by (simp_all add: check_domain_calm)
  have "map (swept t (d # ds)) (rows (domains w)) = map (swept t ds) (rows (domains ?w))"
    using Cons.prems swept_Cons [of d ds t]
    by (simp add: check_domain_calm tbl_update_def live_domain_def)
  moreover have "?w\<lparr>domains := (domains ?w)\<lparr>rows := x\<rparr>\<rparr> = w\<lparr>domains := (domains w)\<lparr>rows := x\<rparr>\<rparr>" for x
    using Cons.prems by (simp add: check_domain_calm tbl_update_def)
  moreover have "check_domain t d w = (Inr (if outdated t d then [change_of t d] else []), ?w)"
    using check_domain_calm(1) [OF Cons.prems(1)] run_eq [of "check_domain t d" w] by simp
  ultimately show ?case
    using Cons.IH [OF w] by (simp add: bnd_def ret_def)
qed

lemma collect_check:
  assumes "faults w = []" and "now w = t" and "distinct (map d_id ds)"
  shows "result (collect ds (check_domain t)) w = Inr (map (change_of t) (filter (outdated t) ds))"
    and "final (collect ds (check_domain t)) w = w\<lparr>domains := (domains w)\<lparr>rows := map (swept t ds) (rows (domains w))\<rparr>\<rparr>"
  unfolding result_def final_def collect_check_run [OF assms] by simp_all

lemma listed_mem: "d \<in> set (listed w) \<Longrightarrow> d \<in> set (rows (domains w)) \<and> d_deleted_at d = None"
  by (auto simp: listed_def dest: in_set_takeD)

lemma listed_distinct:
  assumes "wf_tbl d_id (domains w)"
  shows "distinct (map d_id (listed w))"
proof -
  have "distinct (map d_id (filter (\<lambda>d. d_deleted_at d = None \<and> d_id d > 0) (rows (domains w))))"
    using assms by (auto simp: wf_tbl_def distinct_map inj_on_def)
  then have "distinct (sort (map d_id (filter (\<lambda>d. d_deleted_at d = None \<and> d_id d > 0) (rows (domains w)))))"
    by simp
  then show ?thesis by (simp add: listed_def take_map [symmetric] map_sort_key)
qed

lemma swept_listed:
  assumes "wf_tbl d_id (domains w)" and r: "r \<in> set (rows (domains w))"
  shows "swept t (listed w) r = (if r \<in> set (listed w) \<and> outdated t r then refreshed t r else r)"
proof (cases "find (\<lambda>d. d_id d = d_id r \<and> outdated t d) (listed w)")
  case None
  then have "swept t (listed w) r = r" by (simp add: swept_def)
  with None show ?thesis by (auto simp: find_None_iff)
next
  case (Some d)
  then have d: "d \<in> set (listed w)" "d_id d = d_id r" "outdated t d" using find_SomeD by fastforce+
  then have "d = r"
    using assms listed_mem [OF d(1)] by (auto simp: wf_tbl_def distinct_map dest: inj_onD)
  with Some d listed_mem [OF d(1)] show ?thesis by (simp add: swept_def refreshed_def)
qed

lemma CheckAllExpiry_run:
  assumes "faults w = []" and "wf_tbl d_id (domains w)"
  shows "result CheckAllExpiry w = Inr (int (length (filter expiry_relevant (listed w))),
      map (change_of (now w)) (filter (outdated (now w)) (listed w)))"
    and "final CheckAllExpiry w = w\<lparr>domains := (domains w)\<lparr>rows :=
      map (\<lambda>r. if r \<in> set (listed w) \<and> outdated (now w) r then refreshed (now w) r else r) (rows (domains w))\<rparr>\<rparr>"
proof -
  note c = collect_check [OF assms(1) refl listed_distinct [OF assms(2)]]
  show "result CheckAllExpiry w = Inr (int (length (filter expiry_relevant (listed w))),
      map (change_of (now w)) (filter (outdated (now w)) (listed w)))"
    using assms c by (simp add: CheckAllExpiry_def eff_run ListWithFilter_calm)
  have "map (swept (now w) (listed w)) (rows (domains w)) =
      map (\<lambda>r. if r \<in> set (listed w) \<and> outdated (now w) r then refreshed (now w) r else r) (rows (domains w))"
    using swept_listed [OF assms(2)] by (intro map_cong) auto
  then show "final CheckAllExpiry w = w\<lparr>domains := (domains w)\<lparr>rows :=
      map (\<lambda>r. if r \<in> set (listed w) \<and> outdated (now w) r then refreshed (now w) r else r) (rows (domains w))\<rparr>\<rparr>"
    using assms c by (simp add: CheckAllExpiry_def eff_run ListWithFilter_calm)
qed

text \<open>The check does not change which domains it looks at.\<close>

lemma sort_key_map: "(\<And>x. f (g x) = f x) \<Longrightarrow> sort_key f (map g xs) = map g (sort_key f xs)"
proof (induction xs)
  case (Cons x xs)
  have "insort_key f (g x) (map g ys) = map g (insort_key f x ys)" for ys
    using Cons.prems by (induction ys) simp_all
  with Cons show ?case by simp
qed simp

lemma listed_after:
  assumes "\<And>d. d_id (g d) = d_id d" and "\<And>d. d_deleted_at (g d) = d_deleted_at d"
  shows "listed (w\<lparr>domains := (domains w)\<lparr>rows := map g (rows (domains w))\<rparr>\<rparr>) = map g (listed w)"
  using assms by (simp add: listed_def filter_map o_def sort_key_map take_map)

text \<open>
  The expiry check brings the first 200 live domains, by id, up to date and touches no
  other row: the limit of 10000 it asks for is cut to 200 by the listing, so the domains
  beyond keep their band for ever. It reports exactly the rows it changed, and running it
  again at the same time reports nothing.
\<close>

theorem CheckAllExpiry_first_200:
  assumes "faults w = []" and "wf_tbl d_id (domains w)"
  shows "rows (domains (final CheckAllExpiry w)) = map (\<lambda>r. if r \<in> set (listed w) \<and> outdated (now w) r
      then refreshed (now w) r else r) (rows (domains w)) \<and>
    length (listed w) \<le> 200 \<and>
    (\<exists>n. result CheckAllExpiry w = Inr (n, map (change_of (now w)) (filter (outdated (now w)) (listed w)))) \<and>
    (\<exists>n. result CheckAllExpiry (final CheckAllExpiry w) = Inr (n, []))"
proof -
  let ?t = "now w" and ?w = "final CheckAllExpiry w"
  let ?g = "\<lambda>r. if r \<in> set (listed w) \<and> outdated ?t r then refreshed ?t r else r"
  note run = CheckAllExpiry_run [OF assms]
  have w: "faults ?w = []" "now ?w = ?t" using assms(1) by (simp_all add: run)
  have "map d_id (map ?g (rows (domains w))) = map d_id (rows (domains w))"
    by (simp add: refreshed_def)
  with assms(2) have wf: "wf_tbl d_id (domains ?w)"
    unfolding wf_tbl_def run(2) by (auto simp: refreshed_def simp del: map_map)
  have listed: "listed ?w = map ?g (listed w)"
    unfolding run(2) by (rule listed_after) (simp_all add: refreshed_def)
  have "\<not> outdated ?t (refreshed ?t d)" for d
    by (simp add: outdated_def refreshed_def new_status_def)
  then have none: "filter (outdated ?t) (listed ?w) = []"
    unfolding listed by (auto simp: filter_empty_conv)
  have "\<exists>n. result CheckAllExpiry ?w = Inr (n, [])"
    using CheckAllExpiry_run(1) [OF w(1) wf] by (simp add: w(2) none)
  moreover have "length (listed w) \<le> 200" by (simp add: listed_def)
  ultimately show ?thesis by (simp add: run)
qed

text \<open>A domain that expired a day ago and one that was renewed, both with a stale band.\<close>

definition stale_world :: world where
  "stale_world = empty_world\<lparr>now := 86400 * 100, domains := \<lparr>rows =
     [(domain_of_input \<lparr>ri_project_id = 1, ri_fqdn = ''a.com'', ri_owner_user_id = None,
        ri_dns_provider_id = None, ri_registrar_account_id = None, ri_cdn_account_id = None,
        ri_origin_ips = [], ri_registration_date = None, ri_expiry_date = Some (86400 * 99), ri_auto_renew = False,
        ri_annual_cost = None, ri_currency = None, ri_purpose = None, ri_notes = None,
        ri_triggered_by = ''user:1''\<rparr>)\<lparr>d_id := 1\<rparr>,
      (domain_of_input \<lparr>ri_project_id = 1, ri_fqdn = ''b.com'', ri_owner_user_id = None,
        ri_dns_provider_id = None, ri_registrar_account_id = None, ri_cdn_account_id = None,
        ri_origin_ips = [], ri_registration_date = None, ri_expiry_date = Some (86400 * 400), ri_auto_renew = False,
        ri_annual_cost = None, ri_currency = None, ri_purpose = None, ri_notes = None,
        ri_triggered_by = ''user:1''\<rparr>)\<lparr>d_id := 2, d_expiry_status := Some ''expiring_7d''\<rparr>], seq = 2\<rparr>\<rparr>"

lemma stale_facts: "faults stale_world = []" "wf_tbl d_id (domains stale_world)" "now stale_world = 8640000"
  "map (\<lambda>d. (d_id d, d_deleted_at d, d_expiry_status d, d_expiry_date d, d_grace_end_date d, d_lifecycle_state d))
     (rows (domains stale_world)) =
   [(1, None, None, Some 8553600, None, []), (2, None, Some ''expiring_7d'', Some 34560000, None, [])]"
  by (simp_all add: stale_world_def empty_world_def wf_tbl_def domain_of_input_def)

lemma stale_rows:
  obtains a b where "rows (domains stale_world) = [a, b]" "set (listed stale_world) = {a, b}"
    "new_status 8640000 a = Some ''expired''" "new_status 8640000 b = None" "outdated 8640000 a" "outdated 8640000 b"
proof -
  obtain a b where ab: "rows (domains stale_world) = [a, b]" "d_id a = 1" "d_id b = 2" "d_deleted_at a = None"
    "d_deleted_at b = None" "d_expiry_status a = None" "d_expiry_status b = Some ''expiring_7d''"
    "d_expiry_date a = Some 8553600" "d_expiry_date b = Some 34560000" "d_grace_end_date a = None"
    "d_grace_end_date b = None" "d_lifecycle_state a = []" "d_lifecycle_state b = []"
    using stale_facts(4) by auto
  have new: "new_status 8640000 a = Some ''expired''" "new_status 8640000 b = None"
    by (simp_all add: new_status_def ComputeExpiryStatus_def ab daysUntil_le Let_def)
  moreover have "set (listed stale_world) = {a, b}"
    by (simp add: listed_def ab)
  ultimately show thesis
    using that [of a b] by (simp add: ab outdated_def expiry_relevant_def)
qed

theorem CheckAllExpiry_first_200_witness:
  "map d_expiry_status (rows (domains (final CheckAllExpiry stale_world))) = [Some ''expired'', None]"
proof -
  obtain a b where ab: "rows (domains stale_world) = [a, b]" "set (listed stale_world) = {a, b}"
    "new_status 8640000 a = Some ''expired''" "new_status 8640000 b = None" "outdated 8640000 a" "outdated 8640000 b"
    by (rule stale_rows)
  then show ?thesis
    using CheckAllExpiry_first_200 [OF stale_facts(1,2)] by (simp add: stale_facts(3) refreshed_def)
qed

lemma groupByStatus_mem:
  "(k, cs) \<in> set (groupByStatus changes) \<longleftrightarrow>
     cs = filter (\<lambda>c. band_of_change c = k) changes \<and> cs \<noteq> []"
  by (auto simp: groupByStatus_def group_all_mem values_of_def filter_map o_def image_iff filter_empty_conv)

text \<open>
  A renewed domain is announced as expired: when the check clears the band of a domain, the
  change falls into the group of the expired ones, and the notification about expired domains,
  of severity critical, includes it.
\<close>

theorem renewal_announced_as_expired:
  assumes "faults w = []" and "wf_tbl d_id (domains w)"
    and "r \<in> set (listed w)" and "outdated (now w) r" and "new_status (now w) r = None"
  shows "\<exists>ns cs. result HandleExpiryCheck w = Inr ns \<and> (''expired'', ''critical'', cs) \<in> set ns \<and>
    change_of (now w) r \<in> set cs \<and> ec_new_status (change_of (now w) r) = None"
proof -
  let ?ch = "map (change_of (now w)) (filter (outdated (now w)) (listed w))"
  let ?cs = "filter (\<lambda>c. band_of_change c = ''expired'') ?ch"
  have r: "change_of (now w) r \<in> set ?cs"
    using assms(3-5) by (auto simp: band_of_change_def change_of_def)
  then have "?cs \<noteq> []" by (metis empty_iff empty_set)
  then have "(''expired'', ?cs) \<in> set (groupByStatus ?ch)"
    by (simp only: groupByStatus_mem) blast
  then have "(''expired'', ''critical'', ?cs) \<in>
      set (map (\<lambda>(status, cs). (status, SeverityForStatus (Some status), cs)) (groupByStatus ?ch))"
    by (force simp: SeverityForStatus_def image_iff)
  moreover have "result HandleExpiryCheck w =
      Inr (map (\<lambda>(status, cs). (status, SeverityForStatus (Some status), cs)) (groupByStatus ?ch))"
    using assms CheckAllExpiry_run(1) [OF assms(1,2)]
    by (auto simp: HandleExpiryCheck_def eff_run filter_empty_conv)
  moreover have "ec_new_status (change_of (now w) r) = None"
    using assms(5) by (simp add: change_of_def)
  ultimately show ?thesis using r by blast
qed

theorem renewal_announced_as_expired_witness:
  "\<exists>ns cs c. result HandleExpiryCheck stale_world = Inr ns \<and> (''expired'', ''critical'', cs) \<in> set ns \<and>
     c \<in> set cs \<and> ec_new_status c = None"
proof -
  obtain a b where ab: "set (listed stale_world) = {a, b}" "new_status 8640000 b = None" "outdated 8640000 b"
    by (rule stale_rows)
  then show ?thesis
    using renewal_announced_as_expired [OF stale_facts(1,2), of b] by (auto simp: stale_facts(3))
qed

end
