(* ===== verification/Permission.thy ===== *)
theory Permission
  imports Store
begin

text \<open>
  internal/domain/permission.go over store/postgres/domain\_permission.go and role.go: grants
  of a permission level on a domain, and the level a user effectively has from the global
  roles and the grant together.
\<close>

section \<open>The stores\<close>

definition permission_of :: "int \<Rightarrow> int \<Rightarrow> permission_row \<Rightarrow> bool" where
  "permission_of d u p \<longleftrightarrow> dp_domain_id p = d \<and> dp_user_id p = u"

definition Permission_Upsert :: "int \<Rightarrow> int \<Rightarrow> string \<Rightarrow> int option \<Rightarrow> unit op" where
  "Permission_Upsert d u level grantedBy = exec_unless
     (\<lambda>w. level \<notin> {''viewer'', ''editor'', ''admin''}) (ErrCheck ''chk_domain_permission'')
     (\<lambda>w. w\<lparr>domain_permissions :=
       (if tbl_find (permission_of d u) (domain_permissions w) = None
        then tbl_insert (\<lambda>i. \<lparr>dp_row_id = i, dp_domain_id = d, dp_user_id = u, dp_permission = level,
               dp_granted_by = grantedBy, dp_granted_at = now w\<rparr>) (domain_permissions w)
        else tbl_update (permission_of d u)
          (\<lambda>p. p\<lparr>dp_permission := level, dp_granted_by := grantedBy, dp_granted_at := now w\<rparr>)
          (domain_permissions w))\<rparr>)"

definition Permission_Delete :: "int \<Rightarrow> int \<Rightarrow> unit op" where
  "Permission_Delete d u = exec_unless
     (\<lambda>w. tbl_find (permission_of d u) (domain_permissions w) = None) ErrDomainPermissionNotFound
     (\<lambda>w. w\<lparr>domain_permissions := tbl_delete (permission_of d u) (domain_permissions w)\<rparr>)"

definition Permission_Get :: "int \<Rightarrow> int \<Rightarrow> permission_row op" where
  "Permission_Get d u = query_one ErrDomainPermissionNotFound
     (\<lambda>w. tbl_find (permission_of d u) (domain_permissions w))"

definition GetUserRoles :: "int \<Rightarrow> string list op" where
  "GetUserRoles u = query (\<lambda>w. map snd (filter (\<lambda>ur. fst ur = u) (user_roles w)))"

text \<open>\<open>INSERT ... SELECT\<close> from the roles that exist, without duplicates; an unknown name adds nothing.\<close>

definition GrantRole :: "string list \<Rightarrow> int \<Rightarrow> string \<Rightarrow> unit op" where
  "GrantRole known u role = exec (\<lambda>w. if role \<in> set known \<and> (u, role) \<notin> set (user_roles w)
     then w\<lparr>user_roles := user_roles w @ [(u, role)]\<rparr> else w)"

definition RevokeRole :: "int \<Rightarrow> string \<Rightarrow> unit op" where
  "RevokeRole u role = exec (\<lambda>w. w\<lparr>user_roles := filter (\<lambda>ur. ur \<noteq> (u, role)) (user_roles w)\<rparr>)"

section \<open>The service\<close>

definition permissionRank :: "(string \<times> int) list" where
  "permissionRank = [(''viewer'', 1), (''editor'', 2), (''admin'', 3)]"

definition globalRoleToPermission :: "(string \<times> string) list" where
  "globalRoleToPermission = [(''admin'', ''admin''), (''release_manager'', ''admin''),
     (''operator'', ''editor''), (''viewer'', ''viewer''), (''auditor'', ''viewer'')]"

text \<open>A Go map answers 0 for a key it does not have.\<close>

definition rank_of :: "string \<Rightarrow> int" where
  "rank_of p = (case map_of permissionRank p of None \<Rightarrow> 0 | Some n \<Rightarrow> n)"

definition GrantPermission :: "int \<Rightarrow> int \<Rightarrow> string \<Rightarrow> int \<Rightarrow> unit op" where
  "GrantPermission d u level grantedBy =
     (if map_of permissionRank level = None then throw (ErrMsg ''invalid permission level'')
      else Permission_Upsert d u level (Some grantedBy))"

definition RevokePermission :: "int \<Rightarrow> int \<Rightarrow> unit op" where
  "RevokePermission d u = Permission_Delete d u"

text \<open>One round of the loop over the global roles.\<close>

definition raise_to_role :: "string \<Rightarrow> string \<Rightarrow> string" where
  "raise_to_role r best = (case map_of globalRoleToPermission r of
       None \<Rightarrow> best
     | Some mapped \<Rightarrow> if rank_of mapped > rank_of best then mapped else best)"

definition EffectivePermission :: "int \<Rightarrow> int \<Rightarrow> string op" where
  "EffectivePermission d u =
     bnd (GetUserRoles u) (\<lambda>globalRoles.
       let best = fold raise_to_role globalRoles [] in
       bnd (attempt (Permission_Get d u)) (\<lambda>r. case r of
         Inl e \<Rightarrow> if e \<noteq> ErrDomainPermissionNotFound then throw e else ret best
       | Inr dp \<Rightarrow> ret (if rank_of (dp_permission dp) > rank_of best then dp_permission dp else best)))"

definition HasPermission :: "int \<Rightarrow> int \<Rightarrow> string \<Rightarrow> bool op" where
  "HasPermission d u minLevel =
     bnd (EffectivePermission d u) (\<lambda>eff. ret (rank_of eff \<ge> rank_of minLevel))"

section \<open>The effective level\<close>

text \<open>The levels a user holds on a domain: through a role, or through the grant.\<close>

definition holds :: "world \<Rightarrow> int \<Rightarrow> int \<Rightarrow> string \<Rightarrow> bool" where
  "holds w d u level \<longleftrightarrow>
     (\<exists>r. (u, r) \<in> set (user_roles w) \<and> map_of globalRoleToPermission r = Some level) \<or>
     (\<exists>p. tbl_find (permission_of d u) (domain_permissions w) = Some p \<and> dp_permission p = level)"

lemma rank_of_nonneg: "rank_of p \<ge> 0"
  by (simp add: rank_of_def permissionRank_def)

lemma rank_of_pos: "rank_of p > 0 \<longleftrightarrow> p \<in> {''viewer'', ''editor'', ''admin''}"
  by (simp add: rank_of_def permissionRank_def)

lemma raise_to_roles:
  "rank_of (fold raise_to_role rs best) \<ge> n \<longleftrightarrow> rank_of best \<ge> n \<or>
     (\<exists>r \<in> set rs. \<exists>p. map_of globalRoleToPermission r = Some p \<and> rank_of p \<ge> n)"
proof (induction rs arbitrary: best)
  case (Cons r rs)
  have "rank_of (raise_to_role r best) \<ge> n \<longleftrightarrow>
      rank_of best \<ge> n \<or> (\<exists>p. map_of globalRoleToPermission r = Some p \<and> rank_of p \<ge> n)"
    by (auto simp: raise_to_role_def split: option.split)
  with Cons [of "raise_to_role r best"] show ?case by auto
qed simp

lemma EffectivePermission_calm:
  assumes "faults w = []"
  shows "\<exists>p. result (EffectivePermission d u) w = Inr p \<and>
    (\<forall>n > 0. rank_of p \<ge> n \<longleftrightarrow> (\<exists>level. holds w d u level \<and> rank_of level \<ge> n))"
proof -
  let ?roles = "map snd (filter (\<lambda>ur. fst ur = u) (user_roles w))"
  let ?best = "fold raise_to_role ?roles []"
  have roles: "rank_of ?best \<ge> n \<longleftrightarrow>
      (\<exists>r p. (u, r) \<in> set (user_roles w) \<and> map_of globalRoleToPermission r = Some p \<and> rank_of p \<ge> n)" if "n > 0" for n
    using that rank_of_pos [of "[]"] unfolding raise_to_roles by force
  show ?thesis
  proof (cases "tbl_find (permission_of d u) (domain_permissions w)")
    case None
    then have "result (EffectivePermission d u) w = Inr ?best"
      using assms by (simp add: EffectivePermission_def GetUserRoles_def Permission_Get_def eff_run Let_def)
    with roles None show ?thesis by (auto simp: holds_def)
  next
    case (Some dp)
    then have "result (EffectivePermission d u) w =
        Inr (if rank_of (dp_permission dp) > rank_of ?best then dp_permission dp else ?best)"
      using assms by (simp add: EffectivePermission_def GetUserRoles_def Permission_Get_def eff_run Let_def)
    moreover have "rank_of (if rank_of (dp_permission dp) > rank_of ?best then dp_permission dp else ?best) \<ge> n \<longleftrightarrow>
        (\<exists>level. holds w d u level \<and> rank_of level \<ge> n)" if "n > 0" for n
      using roles [OF that] Some by (auto simp: holds_def)
    ultimately show ?thesis by blast
  qed
qed

text \<open>
  A permission check grants what the user holds and no more, for the three levels: when the
  database answers, a level is granted exactly if a role or the grant of the user gives at least
  that level. For any other name of a level the check grants access to everybody, because
  an unknown name has rank 0.
\<close>

theorem HasPermission_correct:
  assumes "faults w = []"
  shows "result (HasPermission d u level) w = Inr (if level \<in> {''viewer'', ''editor'', ''admin''}
      then (\<exists>l. holds w d u l \<and> rank_of l \<ge> rank_of level) else True)"
proof -
  obtain p where p: "result (EffectivePermission d u) w = Inr p"
    "\<And>n. n > 0 \<Longrightarrow> rank_of p \<ge> n \<longleftrightarrow> (\<exists>level. holds w d u level \<and> rank_of level \<ge> n)"
    using EffectivePermission_calm [OF assms] by blast
  show ?thesis
  proof (cases "rank_of level > 0")
    case True
    with p(2) [OF True] show ?thesis
      using rank_of_pos [of level] by (simp add: HasPermission_def eff_run p(1))
  next
    case False
    then have "rank_of level = 0" using rank_of_nonneg [of level] by simp
    with False show ?thesis
      using rank_of_pos [of level] rank_of_nonneg [of p] by (simp add: HasPermission_def eff_run p(1))
  qed
qed

text \<open>User 7 is an operator and administers domain 3.\<close>

definition granted_world :: world where
  "granted_world = final (GrantPermission 3 7 ''admin'' 1) (empty_world\<lparr>user_roles := [(7, ''operator'')]\<rparr>)"

lemma granted_facts: "faults granted_world = []" "user_roles granted_world = [(7, ''operator'')]"
  "tbl_find (permission_of d u) (domain_permissions granted_world) =
     (if d = 3 \<and> u = 7 then Some \<lparr>dp_row_id = 1, dp_domain_id = 3, dp_user_id = 7, dp_permission = ''admin'',
        dp_granted_by = Some 1, dp_granted_at = 0\<rparr> else None)"
  by (auto simp: granted_world_def GrantPermission_def permissionRank_def Permission_Upsert_def empty_world_def
      tbl_defs permission_of_def)

theorem HasPermission_correct_witness:
  "result (HasPermission 3 7 ''admin'') granted_world = Inr True \<and>
   result (HasPermission 4 7 ''admin'') granted_world = Inr False \<and>
   result (HasPermission 4 8 ''owner'') granted_world = Inr True"
proof -
  have "holds granted_world 3 7 ''admin''" by (simp add: holds_def granted_facts)
  moreover have "holds granted_world 4 7 l \<longleftrightarrow> l = ''editor''" for l
    by (auto simp: holds_def granted_facts globalRoleToPermission_def)
  moreover have "rank_of ''editor'' < rank_of ''admin''" by (simp add: rank_of_def permissionRank_def)
  ultimately show ?thesis
    using HasPermission_correct [OF granted_facts(1)] by auto
qed

end
