(* ===== verification/Asset_Store.thy ===== *)
theory Asset_Store
  imports Lifecycle
begin

text \<open>
  Statements on the tables of the asset services and on the marks in Redis, the rules that go
  with them, and the interface of a preorder that does not look at those tables.
\<close>

section \<open>Statements\<close>

text \<open>A statement sees the clock and the asset tables and answers with a value or an error.\<close>

definition asset_stmt :: "(int \<Rightarrow> assets \<Rightarrow> (go_err + 'a) \<times> assets) \<Rightarrow> 'a op" where
  "asset_stmt m = stmt (\<lambda>w. case m (now w) (assets w) of (r, a) \<Rightarrow> (r, w\<lparr>assets := a\<rparr>))"

definition asset_query :: "(assets \<Rightarrow> 'a) \<Rightarrow> 'a op" where
  "asset_query f = query (\<lambda>w. f (assets w))"

definition asset_get :: "go_err \<Rightarrow> (assets \<Rightarrow> 'a option) \<Rightarrow> 'a op" where
  "asset_get e f = query_one e (\<lambda>w. f (assets w))"

definition asset_exec :: "(int \<Rightarrow> assets \<Rightarrow> assets) \<Rightarrow> unit op" where
  "asset_exec f = exec (\<lambda>w. w\<lparr>assets := f (now w) (assets w)\<rparr>)"

text \<open>\<open>asset_exec_unless\<close>: the write is rejected with \<open>e\<close> when \<open>p\<close> holds.\<close>

definition asset_exec_unless :: "(assets \<Rightarrow> bool) \<Rightarrow> go_err \<Rightarrow> (int \<Rightarrow> assets \<Rightarrow> assets) \<Rightarrow> unit op" where
  "asset_exec_unless p e f =
     exec_unless (\<lambda>w. p (assets w)) e (\<lambda>w. w\<lparr>assets := f (now w) (assets w)\<rparr>)"

text \<open>
  \<open>INSERT ... RETURNING\<close> and \<open>UPDATE ... WHERE p RETURNING\<close> on one table, given by its field
  and its update function. \<open>bad\<close> is the constraint the statement violates, if any; \<open>e\<close> is the
  error of the method when no row is hit.
\<close>

definition insert_row ::
    "(assets \<Rightarrow> 'r tbl) \<Rightarrow> (('r tbl \<Rightarrow> 'r tbl) \<Rightarrow> assets \<Rightarrow> assets) \<Rightarrow> (assets \<Rightarrow> go_err option) \<Rightarrow>
     (int \<Rightarrow> int \<Rightarrow> 'r) \<Rightarrow> 'r op" where
  "insert_row get upd bad mk = asset_stmt (\<lambda>t a. case bad a of
       Some e \<Rightarrow> (Inl e, a)
     | None \<Rightarrow> (Inr (mk t (seq (get a) + 1)), upd (tbl_insert (mk t)) a))"

definition update_row ::
    "(assets \<Rightarrow> 'r tbl) \<Rightarrow> (('r tbl \<Rightarrow> 'r tbl) \<Rightarrow> assets \<Rightarrow> assets) \<Rightarrow> (assets \<Rightarrow> 'r \<Rightarrow> go_err option) \<Rightarrow>
     go_err \<Rightarrow> ('r \<Rightarrow> bool) \<Rightarrow> (int \<Rightarrow> 'r \<Rightarrow> 'r) \<Rightarrow> 'r op" where
  "update_row get upd bad e p f = asset_stmt (\<lambda>t a. case tbl_find p (get a) of
       None \<Rightarrow> (Inl e, a)
     | Some r \<Rightarrow> (case bad a r of
           Some e' \<Rightarrow> (Inl e', a)
         | None \<Rightarrow> (Inr (f t r), upd (tbl_update p (f t)) a)))"

section \<open>Marks in Redis\<close>

definition mark_live :: "int \<Rightarrow> (string \<times> int \<times> int) list \<Rightarrow> string \<Rightarrow> int option" where
  "mark_live t marks key = (case map_of marks key of None \<Rightarrow> None
     | Some (v, expires) \<Rightarrow> if t < expires then Some v else None)"

definition put_mark :: "string \<Rightarrow> int \<Rightarrow> int \<Rightarrow> (string \<times> int \<times> int) list \<Rightarrow> (string \<times> int \<times> int) list" where
  "put_mark key v expires marks = (key, v, expires) # filter (\<lambda>m. fst m \<noteq> key) marks"

definition drop_marks :: "string list \<Rightarrow> (string \<times> int \<times> int) list \<Rightarrow> (string \<times> int \<times> int) list" where
  "drop_marks keys marks = filter (\<lambda>m. fst m \<notin> set keys) marks"

text \<open>\<open>SETNX\<close> with a time to live, \<open>GET\<close> and \<open>DEL\<close> of the Redis client.\<close>

definition SetNX :: "string \<Rightarrow> (int \<Rightarrow> int) \<Rightarrow> int \<Rightarrow> bool op" where
  "SetNX key v ttl = asset_stmt (\<lambda>t a.
     if mark_live t (redis_marks a) key \<noteq> None then (Inr False, a)
     else (Inr True, a\<lparr>redis_marks := put_mark key (v t) (t + ttl) (redis_marks a)\<rparr>))"

definition GetMark :: "string \<Rightarrow> int option op" where
  "GetMark key = query (\<lambda>w. mark_live (now w) (redis_marks (assets w)) key)"

definition DelMarks :: "string list \<Rightarrow> unit op" where
  "DelMarks keys = asset_exec (\<lambda>t a. a\<lparr>redis_marks := drop_marks keys (redis_marks a)\<rparr>)"

lemma mark_live_put:
  "mark_live t (put_mark key v expires marks) k =
     (if k = key then if t < expires then Some v else None else mark_live t marks k)"
proof -
  have "map_of (filter (\<lambda>m. fst m \<noteq> key) marks) k = map_of marks k" if "k \<noteq> key"
    using that by (induction marks) auto
  then show ?thesis by (auto simp: mark_live_def put_mark_def)
qed

lemma mark_live_drop:
  "mark_live t (drop_marks keys marks) k = (if k \<in> set keys then None else mark_live t marks k)"
proof -
  have "map_of (filter (\<lambda>m. fst m \<notin> set keys) marks) k =
      (if k \<in> set keys then None else map_of marks k)"
    by (induction marks) auto
  then show ?thesis by (auto simp: mark_live_def drop_marks_def)
qed

section \<open>Answers from outside\<close>

text \<open>An answer from outside, for instance of a provider, that is not a statement of the database.\<close>

definition answer :: "go_err + 'a \<Rightarrow> 'a op" where
  "answer r = (\<lambda>w. (r, w))"

lemma answer_run [simp]: "result (answer r) w = r" "final (answer r) w = w"
  by (simp_all add: answer_def result_def final_def)

section \<open>Rules\<close>

lemma asset_calm [simp]:
  assumes "faults w = []"
  shows "result (asset_query f) w = Inr (f (assets w))" "final (asset_query f) w = w"
    and "result (asset_get e g) w = (case g (assets w) of None \<Rightarrow> Inl e | Some x \<Rightarrow> Inr x)"
    and "final (asset_get e g) w = w"
    and "result (asset_exec h) w = Inr ()"
    and "final (asset_exec h) w = w\<lparr>assets := h (now w) (assets w)\<rparr>"
    and "result (asset_exec_unless p e h) w = (if p (assets w) then Inl e else Inr ())"
    and "final (asset_exec_unless p e h) w =
      (if p (assets w) then w else w\<lparr>assets := h (now w) (assets w)\<rparr>)"
    and "result (asset_stmt m) w = fst (m (now w) (assets w))"
    and "final (asset_stmt m) w = w\<lparr>assets := snd (m (now w) (assets w))\<rparr>"
  using assms
  by (simp_all add: asset_query_def asset_get_def asset_exec_def asset_exec_unless_def asset_stmt_def)
    (simp_all add: result_def final_def split: prod.split)

text \<open>A preorder that does not look at the asset tables.\<close>

locale asset_blind = store_preorder R for R :: "world \<Rightarrow> world \<Rightarrow> bool" +
  assumes R_assets: "R w (w\<lparr>assets := x\<rparr>)"
begin

lemma k_assets [eff_intro]:
  "keeps R (asset_query f)" "keeps R (asset_get e g)" "keeps R (asset_exec h)"
  "keeps R (asset_exec_unless p e h)" "keeps R (asset_stmt m)"
  unfolding asset_query_def asset_get_def asset_exec_def asset_exec_unless_def asset_stmt_def
  by (intro eff_intro keeps_exec keeps_exec_unless keeps_stmt R_assets)+
    (auto simp: keeps_def final_def R_assets split: prod.split)

lemma k_rows [eff_intro]:
  "keeps R (insert_row get upd bad mk)" "keeps R (update_row get upd bad' e p f)"
  unfolding insert_row_def update_row_def by (rule k_assets)+

lemma k_marks [eff_intro]: "keeps R (SetNX key v ttl)" "keeps R (GetMark key)" "keeps R (DelMarks keys)"
  unfolding SetNX_def GetMark_def DelMarks_def by (intro eff_intro)+

lemma k_answer [eff_intro]: "keeps R (answer r)"
  by (simp add: keeps_def R_refl)

end

text \<open>Among them: nothing but faults is used up. Everything that only reads keeps it.\<close>

definition read_only :: "world \<Rightarrow> world \<Rightarrow> bool" where
  "read_only w w' \<longleftrightarrow> w' = w\<lparr>faults := faults w'\<rparr>"

interpretation ro: store_preorder read_only
proof unfold_locales
  fix u v w :: world
  assume "read_only u v" and "read_only v w"
  then have "v = u\<lparr>faults := faults v\<rparr>" and "w = v\<lparr>faults := faults w\<rparr>"
    by (simp_all add: read_only_def)
  then have "w = u\<lparr>faults := faults v, faults := faults w\<rparr>" by metis
  then show "read_only u w" by (simp add: read_only_def)
qed (simp_all add: read_only_def)

lemma read_onlyD [dest]: "read_only w w' \<Longrightarrow> w' = w\<lparr>faults := faults w'\<rparr>"
  by (simp add: read_only_def)

lemma read_only_fields:
  assumes "read_only w w'"
  shows "assets w' = assets w" "domains w' = domains w" "now w' = now w" "task_queue w' = task_queue w"
proof -
  obtain fs where "w' = w\<lparr>faults := fs\<rparr>" using assms by (auto simp: read_only_def)
  then show "assets w' = assets w" "domains w' = domains w" "now w' = now w" "task_queue w' = task_queue w"
    by simp_all
qed

lemma ro_assets [eff_intro]: "keeps read_only (asset_query f)" "keeps read_only (asset_get e g)"
    "keeps read_only (GetMark key)"
  unfolding asset_query_def asset_get_def GetMark_def by (intro eff_intro)+

section \<open>Triples from a known state\<close>

text \<open>
  \<open>snap w0\<close>: the state is \<open>w0\<close> up to the faults used so far. Every statement has one rule that
  says what it returns and which state it leaves, whatever the schedule; chained with \<open>hoare_bnd\<close>
  they give the outcome of a method under every schedule.
\<close>

abbreviation snap :: "world \<Rightarrow> world \<Rightarrow> bool" where
  "snap w0 w \<equiv> read_only w0 w"

named_theorems snap_rules \<open>triples from a known state\<close>

lemma hoare_pure: "(p \<Longrightarrow> hoare P m Q E) \<Longrightarrow> hoare (\<lambda>w. p \<and> P w) m Q E"
  by (auto simp: hoare_def)

lemma hoare_step:
  assumes "hoare P m (\<lambda>a w. F a \<and> P' a w) E" and "\<And>a. F a \<Longrightarrow> hoare (P' a) (k a) S E"
  shows "hoare P (bnd m k) S E"
  using assms by (intro hoare_bnd [OF assms(1)] hoare_pure)

lemma hoare_stepU:
  assumes "hoare P m (\<lambda>a w. F a \<and> P' a w) E" and "\<And>a. F a \<Longrightarrow> hoare (P' a) n S E"
  shows "hoare P (seq_eff m n) S E"
  unfolding seq_eff_def using assms by (rule hoare_step)

lemma snap_stmt:
  assumes "\<And>fs. m (w0\<lparr>faults := fs\<rparr>) = (case m w0 of (r, w) \<Rightarrow> (r, w\<lparr>faults := fs\<rparr>))"
  shows "hoare (snap w0) (stmt m) (\<lambda>x w. result m w0 = Inr x \<and> snap (final m w0) w)
    (\<lambda>w. snap w0 w \<or> (\<exists>e. result m w0 = Inl e) \<and> snap (final m w0) w)"
proof (rule hoareI)
  fix w assume "snap w0 w"
  then obtain fs where w: "w = w0\<lparr>faults := fs\<rparr>" by auto
  have run: "result m (w0\<lparr>faults := fs'\<rparr>) = result m w0"
    "final m (w0\<lparr>faults := fs'\<rparr>) = (final m w0)\<lparr>faults := fs'\<rparr>" for fs'
    by (simp_all add: result_def final_def assms split: prod.splits)
  show "case result (stmt m) w of Inl e \<Rightarrow> snap w0 (final (stmt m) w) \<or>
        (\<exists>e. result m w0 = Inl e) \<and> snap (final m w0) (final (stmt m) w)
      | Inr x \<Rightarrow> result m w0 = Inr x \<and> snap (final m w0) (final (stmt m) w)"
    by (cases fs; cases "result m w0")
      (auto simp: w result_stmt final_stmt run read_only_def)
qed

lemma snap_attempt:
  assumes "hoare (snap w0) m (\<lambda>x w. F x \<and> snap w0 w) (snap w0)"
  shows "hoare (snap w0) (attempt m) (\<lambda>r w. (\<forall>x. r = Inr x \<longrightarrow> F x) \<and> snap w0 w) E"
  by (rule hoare_attempt, rule hoare_post [OF assms]) auto

lemma snap_query [snap_rules]:
  assumes "\<And>fs. f (w0\<lparr>faults := fs\<rparr>) = f w0"
  shows "hoare (snap w0) (query f) (\<lambda>x w. x = f w0 \<and> snap w0 w) (snap w0)"
  unfolding query_def
  by (rule hoare_post [OF snap_stmt]) (auto simp: gets_def assms result_def final_def)

lemma snap_query_one [snap_rules]:
  assumes "\<And>fs. f (w0\<lparr>faults := fs\<rparr>) = f w0"
  shows "hoare (snap w0) (query_one e f) (\<lambda>x w. f w0 = Some x \<and> snap w0 w) (snap w0)"
  unfolding query_one_def
  by (rule hoare_step [OF snap_query [OF assms]]) (auto simp: hoare_def split: option.split)

lemma snap_exec [snap_rules]:
  assumes "\<And>fs. f (w0\<lparr>faults := fs\<rparr>) = (f w0)\<lparr>faults := fs\<rparr>"
  shows "hoare (snap w0) (exec f) (\<lambda>_ w. True \<and> snap (f w0) w) (snap w0)"
  unfolding exec_def
  by (rule hoare_post [OF snap_stmt]) (auto simp: modify_def assms result_def final_def)

lemma snap_assets [snap_rules]:
  "hoare (snap w0) (asset_query q) (\<lambda>x w. x = q (assets w0) \<and> snap w0 w) (snap w0)"
  "hoare (snap w0) (asset_get e g) (\<lambda>x w. g (assets w0) = Some x \<and> snap w0 w) (snap w0)"
  "hoare (snap w0) (asset_exec f)
     (\<lambda>_ w. True \<and> snap (w0\<lparr>assets := f (now w0) (assets w0)\<rparr>) w) (snap w0)"
  unfolding asset_query_def asset_get_def asset_exec_def
  by (rule snap_rules; simp)+

lemma snap_asset_exec_unless [snap_rules]:
  "hoare (snap w0) (asset_exec_unless p e f)
     (\<lambda>_ w. \<not> p (assets w0) \<and> snap (w0\<lparr>assets := f (now w0) (assets w0)\<rparr>) w) (snap w0)"
  unfolding asset_exec_unless_def exec_unless_def
  by (rule hoare_post [OF snap_stmt]) (auto simp: result_def final_def split: if_splits)

lemma snap_asset_stmt:
  "hoare (snap w0) (asset_stmt m)
     (\<lambda>x w. fst (m (now w0) (assets w0)) = Inr x \<and> snap (w0\<lparr>assets := snd (m (now w0) (assets w0))\<rparr>) w)
     (\<lambda>w. snap w0 w \<or> (\<exists>e. fst (m (now w0) (assets w0)) = Inl e) \<and>
        snap (w0\<lparr>assets := snd (m (now w0) (assets w0))\<rparr>) w)"
  unfolding asset_stmt_def
  by (rule hoare_post [OF snap_stmt]) (auto simp: result_def final_def split: prod.splits)

lemma snap_insert_row:
  "hoare (snap w) (insert_row get upd bad mk)
     (\<lambda>x w'. (bad (assets w) = None \<and> x = mk (now w) (seq (get (assets w)) + 1)) \<and>
        snap (w\<lparr>assets := upd (tbl_insert (mk (now w))) (assets w)\<rparr>) w') (snap w)"
  unfolding insert_row_def
  by (rule hoare_post [OF snap_asset_stmt]) (auto split: option.splits)

lemma snap_update_row:
  "hoare (snap w) (update_row get upd bad e p f)
     (\<lambda>x w'. (\<exists>r. tbl_find p (get (assets w)) = Some r \<and> bad (assets w) r = None \<and> x = f (now w) r) \<and>
        snap (w\<lparr>assets := upd (tbl_update p (f (now w))) (assets w)\<rparr>) w') (snap w)"
  unfolding update_row_def
  by (rule hoare_post [OF snap_asset_stmt]) (auto split: option.splits)

lemma snap_start:
  assumes "hoare (snap w) m Q E"
  shows "case result m w of Inl e \<Rightarrow> E (final m w) | Inr a \<Rightarrow> Q a (final m w)"
  by (rule hoareD [OF assms]) (rule ro.R_refl)

lemma exec_unless_outcome:
  "case result (asset_exec_unless p e f) w of
     Inl e' \<Rightarrow> assets (final (asset_exec_unless p e f) w) = assets w
   | Inr u \<Rightarrow> \<not> p (assets w) \<and> assets (final (asset_exec_unless p e f) w) = f (now w) (assets w)"
  using snap_start [OF snap_asset_exec_unless [of w p e f]]
  by (auto dest: read_only_fields split: sum.splits)

lemma snap_answer [snap_rules]:
  "hoare (snap w0) (answer r) (\<lambda>x w. r = Inr x \<and> snap w0 w) (snap w0)"
  by (simp add: hoare_def split: sum.split)

lemma ro_answer [eff_intro]: "keeps read_only (answer r)"
  by (simp add: keeps_def read_only_def)

section \<open>Unique constraints\<close>

text \<open>
  The unique constraints and unique indexes that the migrations create on the asset tables.
  \<open>ON CONFLICT\<close> on columns that no entry names is an error of the statement.
\<close>

definition unique_keys :: "(string \<times> string list) list" where
  "unique_keys =
     [(''registrars'', [''name'']), (''registrar_accounts'', [''registrar_id'', ''account_name'']),
      (''dns_providers'', [''name'']), (''domain_fee_schedules'', [''registrar_id'', ''tld'']),
      (''tags'', [''name'']),
      (''maintenance_window_targets'', [''maintenance_id'', ''target_type'', ''target_id'']),
      (''status_pages'', [''slug'']), (''status_page_monitors'', [''group_id'', ''domain_id'']),
      (''projects'', [''name'']), (''projects'', [''slug'']), (''templates'', [''project_id'', ''name'']),
      (''template_versions'', [''template_id'', ''version_label'']), (''dns_record_templates'', [''name'']),
      (''users'', [''username'']), (''cdn_providers'', [''provider_type'', ''name'']),
      (''cdn_accounts'', [''cdn_provider_id'', ''account_name'']),
      (''cdn_domain_configs'', [''binding_id'', ''config_type''])]"

definition on_conflict ::
    "string \<Rightarrow> string list \<Rightarrow> (int \<Rightarrow> assets \<Rightarrow> (go_err + 'a) \<times> assets) \<Rightarrow> 'a op" where
  "on_conflict table cols m = asset_stmt (\<lambda>t a.
     if (table, cols) \<in> set unique_keys then m t a
     else (Inl (ErrMsg ''no unique constraint matching the ON CONFLICT specification''), a))"

text \<open>
  Invariants of the asset tables: \<open>asset_step I\<close> says that a property \<open>I\<close> of them is not lost.
\<close>

definition asset_step :: "(assets \<Rightarrow> bool) \<Rightarrow> world \<Rightarrow> world \<Rightarrow> bool" where
  "asset_step I w w' \<longleftrightarrow> (I (assets w) \<longrightarrow> I (assets w'))"

interpretation inv: store_preorder "asset_step I" for I
  by unfold_locales (auto simp: asset_step_def)

lemma step_exec: "(\<And>t a. I a \<Longrightarrow> I (h t a)) \<Longrightarrow> keeps (asset_step I) (asset_exec h)"
  unfolding asset_exec_def by (rule inv.keeps_exec) (simp add: asset_step_def)

lemma step_exec_unless:
  "(\<And>t a. I a \<Longrightarrow> \<not> p a \<Longrightarrow> I (h t a)) \<Longrightarrow> keeps (asset_step I) (asset_exec_unless p e h)"
  unfolding asset_exec_unless_def by (rule inv.keeps_exec_unless) (simp add: asset_step_def)

lemma step_stmt:
  assumes "\<And>t a. I a \<Longrightarrow> I (snd (m t a))"
  shows "keeps (asset_step I) (asset_stmt m)"
  unfolding asset_stmt_def
proof (intro inv.keeps_stmt keepsI)
  fix w
  show "asset_step I w (final (\<lambda>w. case m (now w) (assets w) of (r, a) \<Rightarrow> (r, w\<lparr>assets := a\<rparr>)) w)"
    using assms [of "assets w" "now w"] by (auto simp: final_def asset_step_def split: prod.split)
qed

lemma step_insert_row:
  assumes "\<And>t a. I a \<Longrightarrow> bad a = None \<Longrightarrow> I (upd (tbl_insert (mk t)) a)"
  shows "keeps (asset_step I) (insert_row get upd bad mk)"
  unfolding insert_row_def by (rule step_stmt) (simp add: assms split: option.split)

lemma step_update_row:
  assumes "\<And>t a r. I a \<Longrightarrow> r \<in> set (rows (get a)) \<Longrightarrow> p r \<Longrightarrow> bad a r = None \<Longrightarrow> I (upd (tbl_update p (f t)) a)"
  shows "keeps (asset_step I) (update_row get upd bad e p f)"
  unfolding update_row_def
  by (rule step_stmt) (auto simp: tbl_find_def split: option.split dest!: find_SomeD intro: assms)

lemma step_query [eff_intro]: "keeps (asset_step I) (asset_query f)" "keeps (asset_step I) (asset_get e g)"
  unfolding asset_query_def asset_get_def by (intro eff_intro)+

lemma step_answer [eff_intro]: "keeps (asset_step I) (answer r)"
  by (simp add: keeps_def asset_step_def)

lemma keeps_of_snap:
  assumes "\<And>w. hoare (snap w) m (\<lambda>_. asset_step I w) (asset_step I w)"
  shows "keeps (asset_step I) m"
proof (rule keepsI)
  fix w
  show "asset_step I w (final m w)"
    using snap_start [OF assms [of w]] by (simp split: sum.splits)
qed

lemma snap_asset_step: "snap (w\<lparr>assets := a\<rparr>) w' \<Longrightarrow> (I (assets w) \<Longrightarrow> I a) \<Longrightarrow> asset_step I w w'"
  by (auto simp: asset_step_def dest: read_only_fields)

lemma snap_no_step: "snap w w' \<Longrightarrow> asset_step I w w'"
  by (auto simp: asset_step_def dest: read_only_fields)

lemma snap_write:
  assumes "I (assets w) \<Longrightarrow> I (snd (m (now w) (assets w)))"
  shows "hoare (snap w) (asset_stmt m) (\<lambda>_. asset_step I w) (asset_step I w)"
  by (rule hoare_post [OF snap_asset_stmt])
    (use assms in \<open>auto intro: snap_no_step snap_asset_step\<close>)

lemma asset_stmt_Inr:
  assumes "result (asset_stmt m) w = Inr x"
  shows "fst (m (now w) (assets w)) = Inr x" "assets (final (asset_stmt m) w) = snd (m (now w) (assets w))"
  using snap_start [OF snap_asset_stmt [of w m]] assms by (auto dest!: read_only_fields(1))

lemma asset_exec_Inr:
  assumes "result (asset_exec f) w = Inr u"
  shows "assets (final (asset_exec f) w) = f (now w) (assets w)"
  using snap_start [OF snap_assets(3) [of w f]] assms by (auto dest!: read_only_fields(1))

lemma insert_row_Inr:
  assumes "result (insert_row get upd bad mk) w = Inr x"
  shows "bad (assets w) = None" "x = mk (now w) (seq (get (assets w)) + 1)"
    "assets (final (insert_row get upd bad mk) w) = upd (tbl_insert (mk (now w))) (assets w)"
  using asset_stmt_Inr [OF assms [unfolded insert_row_def]]
  by (simp_all add: insert_row_def split: option.splits)

lemma update_row_Inr:
  assumes "result (update_row get upd bad e p f) w = Inr x"
  obtains r where "tbl_find p (get (assets w)) = Some r" "bad (assets w) r = None" "x = f (now w) r"
    "assets (final (update_row get upd bad e p f) w) = upd (tbl_update p (f (now w))) (assets w)"
  using asset_stmt_Inr [OF assms [unfolded update_row_def]] that
  by (simp add: update_row_def split: option.splits)

lemma asset_query_Inr:
  assumes "result (asset_query f) w = Inr x"
  shows "x = f (assets w)" "assets (final (asset_query f) w) = assets w"
  using snap_start [OF snap_assets(1) [of w f]] assms by (auto dest!: read_only_fields(1))

end
