(* ===== verification/Importer.thy ===== *)
theory Importer
  imports Asset_Store
begin

text \<open>
  internal/importer over store/postgres/import\_job.go: reading a CSV file of domains and the job
  that registers them. The reader follows encoding/csv of the standard library with the two settings of
  the code (leading space is trimmed, records may differ in length), on ASCII text. Texts of errors are
  abbreviated.
\<close>

section \<open>Reading CSV\<close>

text \<open>The lines of a text with their line feeds; a carriage return before the end of a line is dropped.\<close>

definition normal_line :: "string \<Rightarrow> string" where
  "normal_line l =
     (if HasSuffix l [CHR 0x0D, CHR 0x0A] then take (length l - 2) l @ [CHR 0x0A]
      else if HasSuffix l [CHR 0x0D] then take (length l - 1) l else l)"

fun raw_lines :: "string \<Rightarrow> string list" where
  "raw_lines [] = []"
| "raw_lines (c # cs) =
     (if c = CHR 0x0A then [c] # raw_lines cs
      else case raw_lines cs of [] \<Rightarrow> [[c]]
        | l # ls \<Rightarrow> (c # l) # ls)"

definition csv_lines :: "string \<Rightarrow> string list" where
  "csv_lines content = map normal_line (raw_lines content)"

abbreviation quote_char :: char where
  "quote_char \<equiv> CHR 0x22"

definition before :: "char \<Rightarrow> string \<Rightarrow> string" where
  "before c s = takeWhile (\<lambda>x. x \<noteq> c) s"

definition after :: "char \<Rightarrow> string \<Rightarrow> string" where
  "after c s = tl (dropWhile (\<lambda>x. x \<noteq> c) s)"

definition without_newline :: "string \<Rightarrow> string" where
  "without_newline s = (if HasSuffix s [CHR 0x0A] then take (length s - 1) s else s)"

lemma after_shorter: "c \<in> set s \<Longrightarrow> length (after c s) < length s"
  unfolding after_def by (induction s) auto

lemma dropWhile_shorter: "length (dropWhile p s) \<le> length s"
  by (induction s) auto

text \<open>
  The fields of a record: \<open>plain\<close> at the start of a field, \<open>quoted\<close> inside quotes, which may run over
  the end of the line into the lines that follow. The result has the fields and the lines left.
\<close>

function (sequential)
  plain :: "string \<Rightarrow> string list \<Rightarrow> string list \<Rightarrow> go_err + string list \<times> string list" and
  quoted :: "string \<Rightarrow> string list \<Rightarrow> string \<Rightarrow> string list \<Rightarrow> go_err + string list \<times> string list"
where
  "plain line0 rest fs =
     (let line = dropWhile is_space line0 in
      if take 1 line = [quote_char] then quoted (tl line) rest [] fs
      else if CHR '','' \<in> set line
      then (if quote_char \<in> set (before CHR '','' line) then Inl (ErrMsg ''bare quote'')
            else plain (after CHR '','' line) rest (fs @ [before CHR '','' line]))
      else if quote_char \<in> set line then Inl (ErrMsg ''bare quote'')
      else Inr (fs @ [without_newline line], rest))"
| "quoted line rest buf fs =
     (if quote_char \<in> set line
      then (let field = buf @ before quote_char line; post = after quote_char line in
        if take 1 post = [quote_char] then quoted (tl post) rest (field @ [quote_char]) fs
        else if take 1 post = '','' then plain (tl post) rest (fs @ [field])
        else if post = [] \<or> post = [CHR 0x0A] then Inr (fs @ [field], rest)
        else Inl (ErrMsg ''extraneous quote''))
      else if line = [] then Inl (ErrMsg ''extraneous quote'')
      else (case rest of [] \<Rightarrow> Inl (ErrMsg ''extraneous quote'')
            | l # ls \<Rightarrow> quoted l ls (buf @ line) fs))"
  by pat_completeness auto
termination
proof (relation "measure (\<lambda>x. case x of Inl (l, r, f) \<Rightarrow> length l + sum_list (map length r)
    | Inr (l, r, b, f) \<Rightarrow> length l + sum_list (map length r))", goal_cases)
  case 1
  then show ?case by simp
next
  case (2 line0 rest fs line)
  have "length line \<le> length line0" unfolding 2(1) by (rule dropWhile_shorter)
  with 2(2) show ?case by (cases line) simp_all
next
  case (3 line0 rest fs line)
  have "length line \<le> length line0" unfolding 3(1) by (rule dropWhile_shorter)
  moreover have "length (after CHR '','' line) < length line" using 3(3) by (rule after_shorter)
  ultimately show ?case by simp
next
  case (4 line rest buf fs field post)
  then have "length post < length line" using after_shorter by auto
  then show ?case by (cases post) simp_all
next
  case (5 line rest buf fs field post)
  then have "length post < length line" using after_shorter by auto
  then show ?case by (cases post) simp_all
next
  case (6 line rest buf fs l ls)
  then show ?case by (cases line) simp_all
qed

declare plain.simps [simp del] quoted.simps [simp del]

lemma lines_left:
  "plain line rest fs = Inr (r, left) \<Longrightarrow> length left \<le> length rest"
  "quoted line rest buf fs = Inr (r, left) \<Longrightarrow> length left \<le> length rest"
proof (induction line rest fs and line rest buf fs rule: plain_quoted.induct)
  case (1 line0 rest fs)
  then show ?case by (simp add: plain.simps [of line0 rest fs] Let_def split: if_splits)
next
  case (2 line rest buf fs)
  show ?case
  proof (cases "quote_char \<in> set line")
    case True
    with 2 show ?thesis by (simp add: quoted.simps [of line rest buf fs] Let_def split: if_splits)
  next
    case False
    note run = 2(4) [unfolded quoted.simps [of line rest buf fs] if_not_P [OF False]]
    then obtain l ls where "rest = l # ls" "line \<noteq> []" by (auto split: if_splits list.splits)
    with 2(3) [OF False] run show ?thesis by fastforce
  qed
qed

function read_all :: "string list \<Rightarrow> go_err + string list list" where
  "read_all lines = (case lines of [] \<Rightarrow> Inr []
     | l # ls \<Rightarrow>
         if l = [] \<or> l = [CHR 0x0A] then read_all ls
         else (case plain l ls [] of Inl e \<Rightarrow> Inl e
           | Inr (fs, rest) \<Rightarrow> (case read_all rest of Inl e \<Rightarrow> Inl e | Inr recs \<Rightarrow> Inr (fs # recs))))"
  by pat_completeness auto
termination
  by (relation "measure length") (auto dest!: lines_left)

declare read_all.simps [simp del]

section \<open>Values\<close>

definition is_letter :: "char \<Rightarrow> bool" where
  "is_letter c \<longleftrightarrow> 65 \<le> (of_char c :: nat) \<and> (of_char c :: nat) \<le> 90 \<or>
     97 \<le> (of_char c :: nat) \<and> (of_char c :: nat) \<le> 122"

definition validateFQDN :: "string \<Rightarrow> go_err + unit" where
  "validateFQDN fqdn =
     (if length fqdn > 253 then Inl (ErrMsg ''fqdn exceeds 253 characters'')
      else if \<not> Contains fqdn ''.'' then Inl (ErrMsg ''fqdn has no dot (must be fully-qualified)'')
      else if \<not> list_all (\<lambda>c. is_letter c \<or> is_digit c \<or> c = CHR ''.'' \<or> c = CHR ''-'') fqdn
      then Inl (ErrMsg ''fqdn contains invalid character'')
      else if list_ex (\<lambda>label. length label = 0) (Split CHR ''.'' fqdn)
      then Inl (ErrMsg ''fqdn contains empty label'')
      else if list_ex (\<lambda>label. HasPrefix label ''-'' \<or> HasSuffix label ''-'') (Split CHR ''.'' fqdn)
      then Inl (ErrMsg ''fqdn label starts or ends with hyphen'')
      else Inr ())"

text \<open>\<open>time.Parse("2006-01-02", s)\<close>, as the seconds of that midnight, and \<open>strconv.ParseBool\<close> and \<open>ParseInt\<close>.\<close>

definition leap_year :: "int \<Rightarrow> bool" where
  "leap_year y \<longleftrightarrow> y mod 4 = 0 \<and> (y mod 100 \<noteq> 0 \<or> y mod 400 = 0)"

definition days_in :: "int \<Rightarrow> int \<Rightarrow> int" where
  "days_in y m = (if m = 2 then (if leap_year y then 29 else 28)
     else if m = 4 \<or> m = 6 \<or> m = 9 \<or> m = 11 then 30 else 31)"

definition days_from_civil :: "int \<Rightarrow> int \<Rightarrow> int \<Rightarrow> int" where
  "days_from_civil y0 m d =
     (let y = (if m \<le> 2 then y0 - 1 else y0); era = y div 400; yoe = y mod 400;
          mp = (if m > 2 then m - 3 else m + 9); doy = (153 * mp + 2) div 5 + d - 1;
          doe = yoe * 365 + yoe div 4 - yoe div 100 + doy
      in era * 146097 + doe - 719468)"

definition parse_date :: "string \<Rightarrow> int option" where
  "parse_date s =
     (let ys = take 4 s; ms = take 2 (drop 5 s); ds = take 2 (drop 8 s);
          y = digits_value ys; m = digits_value ms; d = digits_value ds
      in if length s = 10 \<and> list_all is_digit (ys @ ms @ ds) \<and> s ! 4 = CHR ''-'' \<and> s ! 7 = CHR ''-'' \<and>
           1 \<le> m \<and> m \<le> 12 \<and> 1 \<le> d \<and> d \<le> days_in y m
         then Some (days_from_civil y m d * 86400) else None)"

definition ParseBool :: "string \<Rightarrow> bool option" where
  "ParseBool s = (if s \<in> {''1'', ''t'', ''T'', ''TRUE'', ''true'', ''True''} then Some True
     else if s \<in> {''0'', ''f'', ''F'', ''FALSE'', ''false'', ''False''} then Some False else None)"

definition ParseInt :: "string \<Rightarrow> int option" where
  "ParseInt s =
     (let neg = take 1 s = ''-''; body = (if take 1 s = ''-'' \<or> take 1 s = ''+'' then tl s else s);
          n = (if neg then - digits_value body else digits_value body)
      in if body = [] \<or> \<not> list_all is_digit body \<or> n < - (2 ^ 63) \<or> n \<ge> 2 ^ 63 then None else Some n)"

section \<open>Parsing the file\<close>

definition MaxRows :: nat where
  "MaxRows = 5000"

definition requiredHeaders :: "string list" where
  "requiredHeaders = [''fqdn'']"

record parsed_row =
  pw_fqdn :: string
  pw_expiry_date :: "int option"
  pw_auto_renew :: bool
  pw_registrar_account_id :: "int option"
  pw_dns_provider_id :: "int option"
  pw_tags :: "string list"
  pw_notes :: string

text \<open>The map of the headers: the last column of a name counts.\<close>

definition headers_of :: "string list \<Rightarrow> (string \<times> nat) list" where
  "headers_of hs = rev (zip (map (\<lambda>h. ToLower (TrimSpace h)) hs) [0..<length hs])"

definition col :: "(string \<times> nat) list \<Rightarrow> string list \<Rightarrow> string \<Rightarrow> string" where
  "col headers row name = (case map_of headers name of None \<Rightarrow> []
     | Some idx \<Rightarrow> if idx \<ge> length row then [] else TrimSpace (row ! idx))"

definition optional :: "string \<Rightarrow> 'a \<Rightarrow> (string \<Rightarrow> 'a option) \<Rightarrow> string \<Rightarrow> string + 'a" where
  "optional raw zero parse name = (if raw = [] then Inr zero
     else case parse raw of None \<Rightarrow> Inl (''invalid '' @ name @ '': '' @ raw) | Some x \<Rightarrow> Inr x)"

definition positive_id :: "string \<Rightarrow> int option option" where
  "positive_id raw = (case ParseInt raw of None \<Rightarrow> None | Some i \<Rightarrow> if i \<le> 0 then None else Some (Some i))"

definition parse_tags :: "string \<Rightarrow> string list" where
  "parse_tags raw = (if raw = [] then [] else filter (\<lambda>t. t \<noteq> []) (map TrimSpace (Split CHR '';'' raw)))"

definition parse_row :: "(string \<times> nat) list \<Rightarrow> string list \<Rightarrow> (string \<times> string) + parsed_row" where
  "parse_row headers row =
     (let fqdn = ToLower (col headers row ''fqdn'') in
      if fqdn = [] then Inl ([], ''fqdn is empty'')
      else case validateFQDN fqdn of Inl e \<Rightarrow> Inl (fqdn, case e of ErrMsg s \<Rightarrow> s | _ \<Rightarrow> [])
      | Inr u \<Rightarrow> (case optional (col headers row ''expiry_date'') None (\<lambda>s. map_option Some (parse_date s)) ''expiry_date'' of
          Inl m \<Rightarrow> Inl (fqdn, m)
        | Inr ex \<Rightarrow> (case optional (col headers row ''auto_renew'') True ParseBool ''auto_renew'' of
            Inl m \<Rightarrow> Inl (fqdn, m)
          | Inr auto \<Rightarrow> (case optional (col headers row ''registrar_account_id'') None positive_id ''registrar_account_id'' of
              Inl m \<Rightarrow> Inl (fqdn, m)
            | Inr acc \<Rightarrow> (case optional (col headers row ''dns_provider_id'') None positive_id ''dns_provider_id'' of
                Inl m \<Rightarrow> Inl (fqdn, m)
              | Inr prov \<Rightarrow> Inr \<lparr>pw_fqdn = fqdn, pw_expiry_date = ex, pw_auto_renew = auto,
                  pw_registrar_account_id = acc, pw_dns_provider_id = prov,
                  pw_tags = parse_tags (col headers row ''tags''), pw_notes = col headers row ''notes''\<rparr>)))))"

record parse_result =
  ps_rows :: "parsed_row list"
  ps_errors :: "row_error list"

fun parse_rows :: "(string \<times> nat) list \<Rightarrow> int \<Rightarrow> string list list \<Rightarrow> parse_result" where
  "parse_rows headers lineNum [] = \<lparr>ps_rows = [], ps_errors = []\<rparr>"
| "parse_rows headers lineNum (row # data) =
     (let res = parse_rows headers (lineNum + 1) data in
      case parse_row headers row of
        Inl (fqdn, reason) \<Rightarrow>
          res\<lparr>ps_errors := \<lparr>re_line = lineNum, re_fqdn = fqdn, re_reason = reason\<rparr> # ps_errors res\<rparr>
      | Inr pr \<Rightarrow> res\<lparr>ps_rows := pr # ps_rows res\<rparr>)"

definition ParseCSV :: "string \<Rightarrow> go_err + parse_result" where
  "ParseCSV content = (case read_all (csv_lines content) of
       Inl e \<Rightarrow> Inl e
     | Inr [] \<Rightarrow> Inl ErrEmptyCSV
     | Inr (hs # data) \<Rightarrow>
         if list_ex (\<lambda>h. h \<notin> fst ` set (headers_of hs)) requiredHeaders then Inl ErrInvalidHeader
         else if length data = 0 then Inl ErrEmptyCSV
         else if length data > MaxRows then Inl ErrTooManyRows
         else Inr (parse_rows (headers_of hs) 2 data))"

section \<open>Jobs\<close>

definition ImportJobStore_Create :: "import_job_row \<Rightarrow> int op" where
  "ImportJobStore_Create x = asset_stmt (\<lambda>t a.
     let i = seq (import_jobs a) + 1;
         mk = (\<lambda>i. \<lparr>ij_id = i, ij_project_id = ij_project_id x,
           ij_registrar_account_id = ij_registrar_account_id x, ij_source_type = ij_source_type x,
           ij_status = ij_status x, ij_total_count = ij_total_count x, ij_imported_count = 0,
           ij_skipped_count = 0, ij_failed_count = 0, ij_error_details = None, ij_raw_csv = ij_raw_csv x,
           ij_created_by = ij_created_by x, ij_started_at = None, ij_completed_at = None, ij_created_at = t\<rparr>)
     in (Inr i, a\<lparr>import_jobs := tbl_insert mk (import_jobs a)\<rparr>))"

definition ImportJobStore_Get :: "int \<Rightarrow> import_job_row op" where
  "ImportJobStore_Get i = asset_get ErrNoRows (\<lambda>a. tbl_get ij_id (import_jobs a) i)"

definition ImportJobStore_List :: "int \<Rightarrow> int \<Rightarrow> nat \<Rightarrow> import_job_row list op" where
  "ImportJobStore_List projectID limit0 offset = asset_query (\<lambda>a.
     let limit = (if limit0 \<le> 0 then 50 else limit0) in
     take (nat limit) (drop offset (sort_key (\<lambda>j. - ij_created_at j)
       (tbl_select (\<lambda>j. projectID = 0 \<or> ij_project_id j = projectID) (import_jobs a)))))"

definition update_job :: "int \<Rightarrow> (int \<Rightarrow> import_job_row \<Rightarrow> import_job_row) \<Rightarrow> unit op" where
  "update_job i f = asset_exec (\<lambda>t a. a\<lparr>import_jobs := tbl_update (\<lambda>j. ij_id j = i) (f t) (import_jobs a)\<rparr>)"

definition MarkStarted :: "int \<Rightarrow> unit op" where
  "MarkStarted i = update_job i (\<lambda>t j. j\<lparr>ij_status := ''processing'', ij_started_at := Some t\<rparr>)"

definition UpdateProgress :: "int \<Rightarrow> int \<Rightarrow> int \<Rightarrow> int \<Rightarrow> unit op" where
  "UpdateProgress i imported skipped failed = update_job i (\<lambda>t j. j\<lparr>ij_imported_count := imported,
     ij_skipped_count := skipped, ij_failed_count := failed\<rparr>)"

definition MarkCompleted :: "int \<Rightarrow> string \<Rightarrow> int \<Rightarrow> int \<Rightarrow> int \<Rightarrow> import_details option \<Rightarrow> unit op" where
  "MarkCompleted i status imported skipped failed details = update_job i (\<lambda>t j. j\<lparr>ij_status := status,
     ij_completed_at := Some t, ij_imported_count := imported, ij_skipped_count := skipped,
     ij_failed_count := failed, ij_error_details := details\<rparr>)"

definition ExistingFQDNs :: "int \<Rightarrow> string list \<Rightarrow> string list op" where
  "ExistingFQDNs projectID fqdns = (if length fqdns = 0 then ret []
     else query (\<lambda>w. map d_fqdn (tbl_select (\<lambda>d. d_project_id d = projectID \<and> d_fqdn d \<in> set fqdns \<and>
       d_deleted_at d = None \<and> d_lifecycle_state d \<noteq> ''retired'') (domains w))))"

record create_job_input =
  cj_project_id :: int
  cj_registrar_account_id :: "int option"
  cj_raw_csv :: string
  cj_created_by :: "int option"

definition CreateJob :: "create_job_input \<Rightarrow> int op" where
  "CreateJob inp = bnd (answer (ParseCSV (cj_raw_csv inp))) (\<lambda>res.
     let totalCount = length (ps_rows res) + length (ps_errors res) in
     if totalCount = 0 then throw ErrEmptyCSV
     else bnd (ImportJobStore_Create \<lparr>ij_id = 0, ij_project_id = cj_project_id inp,
            ij_registrar_account_id = cj_registrar_account_id inp, ij_source_type = ''csv_upload'',
            ij_status = ''pending'', ij_total_count = int totalCount, ij_imported_count = 0,
            ij_skipped_count = 0, ij_failed_count = 0, ij_error_details = None,
            ij_raw_csv = Some (cj_raw_csv inp), ij_created_by = cj_created_by inp, ij_started_at = None,
            ij_completed_at = None, ij_created_at = 0\<rparr>) (\<lambda>i.
          bnd (attempt (enqueue (ImportJob i) 1 1800 ''default'' 0)) (\<lambda>r. case r of
            Inl e \<Rightarrow> seq_eff (ignore (MarkCompleted i ''failed'' 0 0 0 (Some Queue_Error))) (throw e)
          | Inr u \<Rightarrow> ret i)))"

record import_counts =
  ic_imported :: int
  ic_skipped :: int
  ic_failed :: int
  ic_errors :: "row_error list"

definition err_text :: "go_err \<Rightarrow> string" where
  "err_text e = (if e = ErrDuplicateFQDN then ''FQDN already exists'' else ''register domain'')"

definition row_input :: "import_job_row \<Rightarrow> parsed_row \<Rightarrow> register_input" where
  "row_input job row = \<lparr>ri_project_id = ij_project_id job, ri_fqdn = pw_fqdn row, ri_owner_user_id = None,
     ri_dns_provider_id = pw_dns_provider_id row, ri_registrar_account_id = pw_registrar_account_id row,
     ri_cdn_account_id = None, ri_origin_ips = [], ri_registration_date = None,
     ri_expiry_date = pw_expiry_date row, ri_auto_renew = pw_auto_renew row, ri_annual_cost = None,
     ri_currency = None, ri_purpose = None,
     ri_notes = (if pw_notes row = [] then None else Some (pw_notes row)),
     ri_triggered_by = ''import-job:'' @ show_int (ij_id job)\<rparr>"

definition import_row :: "import_job_row \<Rightarrow> string list \<Rightarrow> int \<Rightarrow> parsed_row \<Rightarrow> import_counts \<Rightarrow> import_counts op" where
  "import_row job existing lineIdx row n =
     (let err = (\<lambda>reason. \<lparr>re_line = lineIdx + 2, re_fqdn = pw_fqdn row, re_reason = reason\<rparr>) in
      if pw_fqdn row \<in> set existing
      then ret (n\<lparr>ic_skipped := ic_skipped n + 1, ic_errors := ic_errors n @ [err ''already exists'']\<rparr>)
      else bnd (attempt (Register (row_input job row))) (\<lambda>r. case r of
          Inl e \<Rightarrow> ret (n\<lparr>ic_failed := ic_failed n + 1, ic_errors := ic_errors n @ [err (err_text e)]\<rparr>)
        | Inr d \<Rightarrow>
            let n' = n\<lparr>ic_imported := ic_imported n + 1\<rparr> in
            seq_eff (if (ic_imported n' + ic_skipped n' + ic_failed n') mod 100 = 0
                then ignore (UpdateProgress (ij_id job) (ic_imported n') (ic_skipped n') (ic_failed n'))
                else ret ())
              (ret n')))"

fun import_rows ::
    "import_job_row \<Rightarrow> string list \<Rightarrow> int \<Rightarrow> parsed_row list \<Rightarrow> import_counts \<Rightarrow> import_counts op" where
  "import_rows job existing lineIdx [] n = ret n"
| "import_rows job existing lineIdx (row # rs) n =
     bnd (import_row job existing lineIdx row n) (import_rows job existing (lineIdx + 1) rs)"

definition ProcessImportPayload :: "int \<Rightarrow> unit op" where
  "ProcessImportPayload jobID = bnd (ImportJobStore_Get jobID) (\<lambda>job.
     case ij_raw_csv job of None \<Rightarrow> throw (ErrMsg ''job has no raw CSV'')
     | Some raw \<Rightarrow>
       if raw = [] then throw (ErrMsg ''job has no raw CSV'')
       else seq_eff (MarkStarted jobID)
         (case ParseCSV raw of
            Inl e \<Rightarrow> seq_eff (ignore (MarkCompleted jobID ''failed'' 0 0 0 (Some Parse_Error))) (throw e)
          | Inr res \<Rightarrow>
              bnd (ExistingFQDNs (ij_project_id job) (map pw_fqdn (ps_rows res))) (\<lambda>existing.
              bnd (import_rows job existing 0 (ps_rows res) \<lparr>ic_imported = 0,
                     ic_skipped = int (length (ps_errors res)), ic_failed = 0, ic_errors = ps_errors res\<rparr>) (\<lambda>n.
                ignore (MarkCompleted jobID
                  (if ic_failed n > 0 \<and> ic_imported n = 0 then ''failed'' else ''completed'')
                  (ic_imported n) (ic_skipped n) (ic_failed n)
                  (if length (ic_errors n) > 0 then Some (Row_Errors (ic_errors n)) else None))))))"

definition HandleDomainImport :: "int \<Rightarrow> unit op" where
  "HandleDomainImport jobID = ProcessImportPayload jobID"

section \<open>Parsing accounts for every record\<close>

definition valid_row :: "parsed_row \<Rightarrow> bool" where
  "valid_row r \<longleftrightarrow> validateFQDN (pw_fqdn r) = Inr () \<and> ToLower (pw_fqdn r) = pw_fqdn r \<and>
     (case pw_registrar_account_id r of None \<Rightarrow> True | Some i \<Rightarrow> 0 < i) \<and>
     (case pw_dns_provider_id r of None \<Rightarrow> True | Some i \<Rightarrow> 0 < i) \<and> [] \<notin> set (pw_tags r)"

lemma ToLower_twice: "ToLower (ToLower s) = ToLower s"
proof -
  have "to_lower_char (to_lower_char c) = to_lower_char c" for c
    by (auto simp: to_lower_char_def)
  then show ?thesis by (simp add: ToLower_def)
qed

lemma optional_id: "optional raw None positive_id m = Inr x \<Longrightarrow> case x of None \<Rightarrow> True | Some i \<Rightarrow> 0 < i"
  by (auto simp: optional_def positive_id_def split: if_splits option.splits)

lemma parse_row_valid:
  assumes "parse_row headers row = Inr r"
  shows "valid_row r"
proof -
  let ?name = "ToLower (col headers row ''fqdn'')"
  from assms obtain u acc prov where "validateFQDN ?name = Inr u" "pw_fqdn r = ?name"
    "optional (col headers row ''registrar_account_id'') None positive_id ''registrar_account_id'' = Inr acc"
    "optional (col headers row ''dns_provider_id'') None positive_id ''dns_provider_id'' = Inr prov"
    "pw_registrar_account_id r = acc" "pw_dns_provider_id r = prov" "pw_tags r = parse_tags (col headers row ''tags'')"
    unfolding parse_row_def Let_def by (auto split: if_splits sum.splits)
  then show ?thesis
    using optional_id by (auto simp: valid_row_def ToLower_twice parse_tags_def)
qed

lemma parse_rows_accounts:
 "length (ps_rows (parse_rows headers n data)) + length (ps_errors (parse_rows headers n data)) = length data \<and>
    list_all valid_row (ps_rows (parse_rows headers n data)) \<and> sorted_wrt (<) (map re_line (ps_errors (parse_rows headers n data))) \<and>
    list_all (\<lambda>e. n \<le> re_line e \<and> re_line e < n + int (length data)) (ps_errors (parse_rows headers n data))"
proof (induction data arbitrary: n)
  case (Cons row data)
  note ih = Cons.IH [of "n + 1"]
  show ?case
  proof (cases "parse_row headers row")
    case (Inl m)
    with ih show ?thesis by (cases m) (auto simp: Let_def list_all_iff)
  next
    case (Inr pr)
    with ih parse_row_valid [OF Inr] show ?thesis by (auto simp: Let_def list_all_iff)
  qed
qed simp

text \<open>
  A file that parses is accounted for record by record: every data record, at most 5000 of them,
  becomes either a row or an error; rows carry a valid lower-case name, positive keys and no empty tag; errors
  carry strictly increasing line numbers of the file (counting records, the header being line 1).
\<close>

theorem ParseCSV_accounts:
  "case ParseCSV content of Inl e \<Rightarrow> True
   | Inr res \<Rightarrow> \<exists>hs data. read_all (csv_lines content) = Inr (hs # data) \<and>
       length (ps_rows res) + length (ps_errors res) = length data \<and> 1 \<le> length data \<and> length data \<le> 5000 \<and>
       list_all valid_row (ps_rows res) \<and> sorted_wrt (<) (map re_line (ps_errors res)) \<and>
       list_all (\<lambda>e. 2 \<le> re_line e \<and> re_line e \<le> int (length data) + 1) (ps_errors res)"
proof (cases "ParseCSV content")
  case (Inr res)
  then obtain hs data where records: "read_all (csv_lines content) = Inr (hs # data)"
    "data \<noteq> []" "length data \<le> MaxRows" and res: "res = parse_rows (headers_of hs) 2 data"
    by (auto simp: ParseCSV_def not_less split: sum.splits list.splits if_splits)
  have "1 \<le> length data" "length data \<le> 5000"
    using records(2,3) by (auto simp: MaxRows_def Suc_le_eq)
  with parse_rows_accounts [of "headers_of hs" 2 data] records(1) Inr show ?thesis
    unfolding res by (auto simp: list_all_iff)
qed simp

section \<open>Importing accounts for every row\<close>

definition grown :: "int \<Rightarrow> string list \<Rightarrow> domain_row list \<Rightarrow> domain_row list \<Rightarrow> int \<Rightarrow> bool" where
  "grown project names ds ds' n \<longleftrightarrow> (\<exists>new. ds' = ds @ new \<and> int (length new) = n \<and>
     list_all (\<lambda>d. d_project_id d = project \<and> d_fqdn d \<in> set names \<and> d_lifecycle_state d = ''requested'') new)"

lemma grown_refl [simp]: "grown p names ds ds 0"
  by (simp add: grown_def)

lemma grown_trans: "grown p names ds ds' m \<Longrightarrow> grown p names ds' ds'' n \<Longrightarrow> grown p names ds ds'' (m + n)"
  unfolding grown_def by (elim exE conjE) (rule_tac x = "new @ newa" in exI, simp)

lemma grown_mono: "grown p names ds ds' n \<Longrightarrow> set names \<subseteq> set names' \<Longrightarrow> grown p names' ds ds' n"
  unfolding grown_def list_all_iff by blast

definition same_domains :: "world \<Rightarrow> world \<Rightarrow> bool" where
  "same_domains w w' \<longleftrightarrow> rows (domains w') = rows (domains w)"

interpretation same_domains: store_preorder same_domains
  by unfold_locales (simp_all add: same_domains_def)

lemma same_domains_writes [eff_intro]:
  "keeps same_domains (UpdateProgress i a b c)"
  "keeps same_domains (transaction (insertLifecycleHistoryTx j f t rs by))"
  unfolding UpdateProgress_def update_job_def asset_exec_def insertLifecycleHistoryTx_def
  by (intro eff_intro same_domains.keeps_exec; simp add: same_domains_def)+

lemma Create_grows:
  "case result (DomainStore_Create d) w of
     Inl e \<Rightarrow> rows (domains (final (DomainStore_Create d) w)) = rows (domains w)
   | Inr r \<Rightarrow> grown (d_project_id d) [d_fqdn d] (rows (domains w))
       (rows (domains (final (DomainStore_Create d) w))) 1"
  by (cases "faults w")
    (simp_all add: DomainStore_Create_def stmt_def result_def final_def grown_def tbl_insert_def new_domain_def)

lemma Register_grows:
  "case result (Register inp) w of
     Inl e \<Rightarrow> rows (domains (final (Register inp) w)) = rows (domains w)
   | Inr r \<Rightarrow> grown (ri_project_id inp) [ri_fqdn inp] (rows (domains w)) (rows (domains (final (Register inp) w))) 1"
proof (cases "result (DomainStore_Create (domain_of_input inp)) w")
  case (Inl e)
  with Create_grows [of "domain_of_input inp" w] show ?thesis by (simp add: Register_def eff_run)
next
  case (Inr created)
  let ?w = "final (DomainStore_Create (domain_of_input inp)) w"
  have "keeps same_domains (ignore (transaction (insertLifecycleHistoryTx (d_id created) None ''requested''
      ''domain registered'' (ri_triggered_by inp))))"
    by (intro eff_intro)
  then have "rows (domains (final (Register inp) w)) = rows (domains ?w)"
    using Inr by (simp add: Register_def eff_run keeps_def same_domains_def)
  with Inr Create_grows [of "domain_of_input inp" w] show ?thesis
    by (simp add: Register_def eff_run domain_of_input_def)
qed

definition processed :: "import_counts \<Rightarrow> int" where
  "processed n = ic_imported n + ic_skipped n + ic_failed n"

lemma import_row_exact:
  "\<exists>n'. result (import_row job existing i row n) w = Inr n' \<and> processed n' = processed n + 1 \<and>
     grown (ij_project_id job) [pw_fqdn row] (rows (domains w))
       (rows (domains (final (import_row job existing i row n) w))) (ic_imported n' - ic_imported n)"
proof (cases "pw_fqdn row \<in> set existing")
  case True
  then show ?thesis by (simp add: import_row_def processed_def)
next
  case False
  note reg = Register_grows [of "row_input job row" w]
  show ?thesis
  proof (cases "result (Register (row_input job row)) w")
    case (Inl e)
    with False reg show ?thesis by (simp add: import_row_def Let_def eff_run processed_def)
  next
    case (Inr d)
    have "rows (domains (final (UpdateProgress j a b c) v)) = rows (domains v)" for j a b c v
      using same_domains_writes(1) by (simp add: keeps_def same_domains_def)
    moreover have "ri_project_id (row_input job row) = ij_project_id job" "ri_fqdn (row_input job row) = pw_fqdn row"
      by (simp_all add: row_input_def)
    ultimately show ?thesis
      using False reg Inr by (simp add: import_row_def Let_def eff_run processed_def)
  qed
qed


section \<open>An example\<close>

definition example_csv :: string where
  "example_csv = ''FQDN, notes'' @ [CHR 0x0A] @ ''not a name,'' @ [CHR 0x0A] @ ''old.com,x'' @ [CHR 0x0A, CHR 0x0A] @
     [quote_char] @ ''new.com'' @ [quote_char] @ '',y'' @ [CHR 0x0D, CHR 0x0A] @ ''New.com, z''"

definition import_world :: world where
  "import_world = empty_world\<lparr>
     domains := \<lparr>rows = [new_domain (domain_of_input (row_input \<lparr>ij_id = 1, ij_project_id = 1,
       ij_registrar_account_id = None, ij_source_type = [], ij_status = [], ij_total_count = 0,
       ij_imported_count = 0, ij_skipped_count = 0, ij_failed_count = 0, ij_error_details = None,
       ij_raw_csv = None, ij_created_by = None, ij_started_at = None, ij_completed_at = None, ij_created_at = 0\<rparr>
       \<lparr>pw_fqdn = ''old.com'', pw_expiry_date = None, pw_auto_renew = True, pw_registrar_account_id = None,
        pw_dns_provider_id = None, pw_tags = [], pw_notes = []\<rparr>)) 0 1], seq = 1\<rparr>\<rparr>"

definition import_outcome where
  "import_outcome content =
     (let w1 = final (CreateJob \<lparr>cj_project_id = 1, cj_registrar_account_id = None, cj_raw_csv = content,
          cj_created_by = None\<rparr>) import_world;
          w2 = final (HandleDomainImport 1) w1
      in (map (\<lambda>d. (d_fqdn d, d_notes d)) (rows (domains w2)),
          map (\<lambda>j. (ij_status j, [ij_total_count j, ij_imported_count j, ij_skipped_count j, ij_failed_count j],
             case ij_error_details j of Some (Row_Errors es) \<Rightarrow> map (\<lambda>e. (re_line e, re_fqdn e, re_reason e)) es | _ \<Rightarrow> []))
            (rows (import_jobs (assets w2)))))"

text \<open>
  The report of an import names the wrong lines after a rejected record, and a name that occurs
  twice in the file counts as failed: in a file whose first record is no name, whose second is a
  known domain and whose last two are the same new one, the known domain is reported for line 2 instead
  of 3, and the repeated one, on line 5 of the records, for line 4 as a failure.
\<close>

theorem import_reports_wrong_lines:
  "import_outcome example_csv =
     ([(''old.com'', None), (''new.com'', Some ''y'')],
      [(''completed'', [4, 1, 2, 1],
        [(2, ''not a name'', ''fqdn has no dot (must be fully-qualified)''), (2, ''old.com'', ''already exists''),
         (4, ''new.com'', ''FQDN already exists'')])])"
  by code_simp

end
