(* ===== verification/Access.thy ===== *)
theory Access
  imports Permission Importer
begin

text \<open>
  Who may do what: internal/auth (service.go, jwt.go) over store/postgres/user.go and role.go, the middlewares of
  api/middleware, and the table of routes of api/router/router.go. The JWT library and bcrypt are parameters; a
  middleware ends a request with the code of its JSON answer, whose first three digits are the HTTP status.
\<close>

section \<open>Users and roles\<close>

abbreviation ErrUserNotFound :: go_err where
  "ErrUserNotFound \<equiv> ErrSentinel ''user not found''"

definition UserStore_GetByUsername :: "string \<Rightarrow> user_row op" where
  "UserStore_GetByUsername n = asset_get ErrUserNotFound
     (\<lambda>a. tbl_find (\<lambda>u. us_username u = n \<and> us_deleted_at u = None) (users a))"

definition live_user :: "int \<Rightarrow> user_row \<Rightarrow> bool" where
  "live_user i u \<longleftrightarrow> us_id u = i \<and> us_deleted_at u = None"

definition UserStore_GetByID :: "int \<Rightarrow> user_row op" where
  "UserStore_GetByID i = asset_get ErrUserNotFound (\<lambda>a. tbl_find (live_user i) (users a))"

text \<open>The constraint \<open>chk\_users\_username\<close>: \<open>^[a-zA-Z0-9\_.-]\{3,64\}$\<close>.\<close>

definition username_char :: "char \<Rightarrow> bool" where
  "username_char c \<longleftrightarrow> c \<in> {CHR ''_'', CHR ''.'', CHR ''-''} \<or> is_digit c \<or>
     CHR ''A'' \<le> c \<and> c \<le> CHR ''Z'' \<or> CHR ''a'' \<le> c \<and> c \<le> CHR ''z''"

definition UserStore_Create :: "string \<Rightarrow> string \<Rightarrow> string option \<Rightarrow> user_row op" where
  "UserStore_Create name hash display = insert_row users users_update
     (\<lambda>a. if \<not> (3 \<le> length name \<and> length name \<le> 64 \<and> list_all username_char name)
        then Some (ErrCheck ''chk_users_username'')
        else if list_ex (\<lambda>u. us_username u = name) (rows (users a)) then Some (ErrUnique ''uq_users_username'')
        else None)
     (\<lambda>t i. \<lparr>us_id = i, us_username = name, us_password_hash = hash, us_display_name = display,
        us_status = ''active'', us_deleted_at = None\<rparr>)"

definition UserStore_UpdatePassword :: "int \<Rightarrow> string \<Rightarrow> unit op" where
  "UserStore_UpdatePassword i hash = asset_exec (\<lambda>t a.
     a\<lparr>users := tbl_update (live_user i) (\<lambda>u. u\<lparr>us_password_hash := hash\<rparr>) (users a)\<rparr>)"

definition HasRole :: "int \<Rightarrow> string \<Rightarrow> bool op" where
  "HasRole u role = query (\<lambda>w. length (filter (\<lambda>ur. ur = (u, role)) (user_roles w)) > 0)"

section \<open>Tokens\<close>

record claims =
  jc_user_id :: int
  jc_username :: string
  jc_roles :: "string list"
  jc_issued_at :: int
  jc_expires_at :: int
  jc_subject :: string

text \<open>The library with the secret of the manager: signing, and parsing at a given time.\<close>

record jwt_library =
  jl_sign :: "claims \<Rightarrow> go_err + string"
  jl_parse :: "int \<Rightarrow> string \<Rightarrow> go_err + claims"

abbreviation LibTokenExpired :: go_err where
  "LibTokenExpired \<equiv> ErrSentinel ''token is expired''"

abbreviation ErrTokenExpired :: go_err where
  "ErrTokenExpired \<equiv> ErrSentinel ''token expired''"

abbreviation ErrTokenInvalid :: go_err where
  "ErrTokenInvalid \<equiv> ErrSentinel ''token invalid''"

definition Generate :: "jwt_library \<Rightarrow> int \<Rightarrow> int \<Rightarrow> int \<Rightarrow> string \<Rightarrow> string list \<Rightarrow> go_err + string" where
  "Generate lib expiry t i name roles = jl_sign lib \<lparr>jc_user_id = i, jc_username = name, jc_roles = roles,
     jc_issued_at = t, jc_expires_at = t + expiry, jc_subject = show_int i\<rparr>"

definition JWT_Verify :: "jwt_library \<Rightarrow> int \<Rightarrow> string \<Rightarrow> go_err + claims" where
  "JWT_Verify lib t token = (case jl_parse lib t token of
       Inl e \<Rightarrow> Inl (if e = LibTokenExpired then ErrTokenExpired else ErrTokenInvalid)
     | Inr c \<Rightarrow> Inr c)"

section \<open>Login\<close>

abbreviation ErrInvalidCredentials :: go_err where
  "ErrInvalidCredentials \<equiv> ErrSentinel ''invalid username or password''"

abbreviation ErrUserDisabled :: go_err where
  "ErrUserDisabled \<equiv> ErrSentinel ''user account is disabled''"

record login_result =
  lg_token :: string
  lg_user_id :: int
  lg_username :: string
  lg_roles :: "string list"

text \<open>\<open>bcrypt h p\<close>: the password \<open>p\<close> matches the hash \<open>h\<close>.\<close>

definition Login ::
    "jwt_library \<Rightarrow> int \<Rightarrow> (string \<Rightarrow> string \<Rightarrow> bool) \<Rightarrow> string \<Rightarrow> string \<Rightarrow> login_result op" where
  "Login lib expiry bcrypt name password =
     bnd (attempt (UserStore_GetByUsername name)) (\<lambda>r. case r of
       Inl e \<Rightarrow> throw (if e = ErrUserNotFound then ErrInvalidCredentials else e)
     | Inr user \<Rightarrow>
         if us_status user \<noteq> ''active'' then throw ErrUserDisabled
         else if \<not> bcrypt (us_password_hash user) password then throw ErrInvalidCredentials
         else bnd (GetUserRoles (us_id user)) (\<lambda>roles.
              bnd (gets now) (\<lambda>t.
              bnd (answer (Generate lib expiry t (us_id user) (us_username user) roles)) (\<lambda>token.
              ret \<lparr>lg_token = token, lg_user_id = us_id user, lg_username = us_username user, lg_roles = roles\<rparr>))))"

section \<open>Middlewares\<close>

type_synonym 'a handler = "(world, int, 'a) eff"

definition fail_with :: "int \<Rightarrow> 'a op \<Rightarrow> 'a handler" where
  "fail_with code m = (\<lambda>w. case m w of (Inl e, w') \<Rightarrow> (Inl code, w') | (Inr x, w') \<Rightarrow> (Inr x, w'))"

text \<open>\<open>strings.SplitN(header, " ", 2)\<close>, when it has two parts.\<close>

definition split_space :: "string \<Rightarrow> (string \<times> string) option" where
  "split_space s = (let r = dropWhile (\<lambda>c. c \<noteq> CHR '' '') s in
     if r = [] then None else Some (takeWhile (\<lambda>c. c \<noteq> CHR '' '') s, tl r))"

definition JWTAuth :: "jwt_library \<Rightarrow> string \<Rightarrow> claims handler" where
  "JWTAuth lib header =
     (if header = [] then throw 40100
      else case split_space header of
          None \<Rightarrow> throw 40100
        | Some (scheme, token) \<Rightarrow>
            if \<not> EqualFold scheme ''Bearer'' then throw 40100
            else bnd (gets now) (\<lambda>t. case JWT_Verify lib t token of Inl e \<Rightarrow> throw 40101 | Inr c \<Rightarrow> ret c))"

definition RequireAnyRole :: "string list \<Rightarrow> string list \<Rightarrow> unit handler" where
  "RequireAnyRole roles userRoles =
     (if list_ex (\<lambda>r. r \<in> set roles) userRoles then ret () else throw 40300)"

definition RequireDNSPermission :: "string \<Rightarrow> int \<Rightarrow> string \<Rightarrow> unit handler" where
  "RequireDNSPermission minLevel userID rawID =
     (if userID = 0 then throw 40100
      else case ParseInt rawID of
          None \<Rightarrow> throw 40000
        | Some domainID \<Rightarrow>
            bnd (fail_with 50000 (HasPermission domainID userID minLevel)) (\<lambda>ok.
              if \<not> ok then throw 40300 else ret ()))"

section \<open>Routes\<close>

datatype (plugins only: code size) http_method = GET | POST | PUT | PATCH | DELETE

datatype (plugins only: code size) guard = Public | Token | AnyRole "string list" | DomainLevel string

datatype (plugins only: code size) route = Route (route_method: http_method) (route_path: string)
  (route_guard: guard) (route_handler: string)

abbreviation "everyone \<equiv> [''viewer'', ''operator'', ''release_manager'', ''admin'', ''auditor'']"
abbreviation "operators \<equiv> [''operator'', ''release_manager'', ''admin'']"
abbreviation "operators_and_auditor \<equiv> [''operator'', ''release_manager'', ''admin'', ''auditor'']"
abbreviation "managers \<equiv> [''release_manager'', ''admin'']"
abbreviation "admin_or_operator \<equiv> [''admin'', ''operator'']"
abbreviation "admins \<equiv> [''admin'']"

definition routes_core :: "route list" where
  "routes_core = [
    Route POST ''/api/v1/auth/login'' Public ''AuthHandler.Login'',
    Route GET ''/api/v1/status/:slug'' Public ''StatusPageHandler.GetPublicStatus'',
    Route POST ''/api/v1/status/:slug/auth'' Public ''StatusPageHandler.AuthPage'',
    Route GET ''/api/v1/auth/me'' Token ''AuthHandler.Me'',
    Route GET ''/api/v1/dashboard/expiry'' (AnyRole everyone) ''ExpiryHandler.Dashboard'',
    Route POST ''/api/v1/projects'' (AnyRole admins) ''ProjectHandler.Create'',
    Route GET ''/api/v1/projects'' (AnyRole everyone) ''ProjectHandler.List'',
    Route GET ''/api/v1/projects/:id'' (AnyRole everyone) ''ProjectHandler.Get'',
    Route PUT ''/api/v1/projects/:id'' (AnyRole admins) ''ProjectHandler.Update'',
    Route DELETE ''/api/v1/projects/:id'' (AnyRole admins) ''ProjectHandler.Delete'',
    Route POST ''/api/v1/projects/:id/templates'' (AnyRole operators) ''TemplateHandler.Create'',
    Route GET ''/api/v1/projects/:id/templates'' (AnyRole everyone) ''TemplateHandler.List'',
    Route GET ''/api/v1/projects/:id/artifacts'' (AnyRole everyone) ''ArtifactHandler.ListByProject'',
    Route GET ''/api/v1/projects/:id/releases'' (AnyRole everyone) ''ReleaseHandler.ListByProject'',
    Route POST ''/api/v1/domains'' (AnyRole operators) ''DomainHandler.Register'',
    Route GET ''/api/v1/domains'' (AnyRole everyone) ''DomainHandler.List'',
    Route GET ''/api/v1/domains/expiring'' (AnyRole everyone) ''DomainHandler.Expiring'',
    Route GET ''/api/v1/domains/stats'' (AnyRole everyone) ''DomainHandler.Stats'',
    Route POST ''/api/v1/domains/bulk'' (AnyRole operators) ''TagHandler.BulkAction'',
    Route GET ''/api/v1/domains/export'' (AnyRole operators_and_auditor) ''TagHandler.Export'',
    Route POST ''/api/v1/domains/import'' (AnyRole operators) ''ImportHandler.Upload'',
    Route POST ''/api/v1/domains/import/preview'' (AnyRole operators) ''ImportHandler.Preview'',
    Route GET ''/api/v1/domains/import/jobs'' (AnyRole everyone) ''ImportHandler.ListJobs'',
    Route GET ''/api/v1/domains/import/jobs/:jobid'' (AnyRole everyone) ''ImportHandler.GetJob'',
    Route GET ''/api/v1/domains/:id'' (AnyRole everyone) ''DomainHandler.Get'',
    Route PUT ''/api/v1/domains/:id'' (AnyRole operators) ''DomainHandler.UpdateAsset'',
    Route POST ''/api/v1/domains/:id/transition'' (AnyRole operators) ''DomainHandler.Transition'',
    Route GET ''/api/v1/domains/:id/history'' (AnyRole everyone) ''DomainHandler.History'',
    Route POST ''/api/v1/domains/:id/transfer'' (AnyRole operators) ''DomainHandler.InitiateTransfer'',
    Route POST ''/api/v1/domains/:id/transfer/complete'' (AnyRole operators) ''DomainHandler.CompleteTransfer'',
    Route POST ''/api/v1/domains/:id/transfer/cancel'' (AnyRole operators) ''DomainHandler.CancelTransfer'',
    Route GET ''/api/v1/domains/:id/tags'' (AnyRole everyone) ''TagHandler.GetDomainTags'',
    Route PUT ''/api/v1/domains/:id/tags'' (AnyRole operators) ''TagHandler.SetDomainTags'',
    Route GET ''/api/v1/domains/:id/dns-records'' (AnyRole everyone) ''DNSQueryHandler.LookupByDomain'',
    Route GET ''/api/v1/domains/:id/dns-propagation'' (AnyRole everyone) ''DNSQueryHandler.PropagationByDomain'',
    Route GET ''/api/v1/domains/:id/dns-drift'' (AnyRole everyone) ''DNSQueryHandler.DriftCheck'',
    Route PUT ''/api/v1/domains/:id/dns-binding'' (AnyRole operators) ''DNSBindingHandler.Bind'',
    Route GET ''/api/v1/domains/:id/dns-binding'' (AnyRole everyone) ''DNSBindingHandler.GetStatus'',
    Route POST ''/api/v1/domains/:id/dns-binding/verify'' (AnyRole operators) ''DNSBindingHandler.TriggerVerify'',
    Route POST ''/api/v1/domains/:id/dns-records/sync'' (DomainLevel ''editor'') ''DNSRecordSyncHandler.Sync'',
    Route GET ''/api/v1/domains/:id/dns-records/local'' (DomainLevel ''viewer'') ''DNSRecordSyncHandler.ListLocal'',
    Route POST ''/api/v1/domains/:id/dns-records/local'' (DomainLevel ''editor'') ''DNSRecordSyncHandler.CreateLocal'',
    Route PUT ''/api/v1/domains/:id/dns-records/local/:rid'' (DomainLevel ''editor'') ''DNSRecordSyncHandler.UpdateLocal'',
    Route DELETE ''/api/v1/domains/:id/dns-records/local/:rid'' (DomainLevel ''editor'') ''DNSRecordSyncHandler.DeleteLocal'',
    Route POST ''/api/v1/domains/:id/dns-records/local/batch-delete'' (DomainLevel ''editor'') ''DNSRecordSyncHandler.BatchDeleteLocal'',
    Route POST ''/api/v1/domains/:id/dns-records/apply-template'' (DomainLevel ''editor'') ''DNSRecordSyncHandler.ApplyTemplate'',
    Route GET ''/api/v1/domains/:id/provider-records'' (DomainLevel ''viewer'') ''DNSRecordHandler.ListRecords'',
    Route POST ''/api/v1/domains/:id/provider-records'' (DomainLevel ''editor'') ''DNSRecordHandler.CreateRecord'',
    Route PUT ''/api/v1/domains/:id/provider-records/:rid'' (DomainLevel ''editor'') ''DNSRecordHandler.UpdateRecord'',
    Route DELETE ''/api/v1/domains/:id/provider-records/:rid'' (DomainLevel ''editor'') ''DNSRecordHandler.DeleteRecord'',
    Route GET ''/api/v1/domains/:id/my-permission'' Token ''DomainPermissionHandler.MyPermission'',
    Route GET ''/api/v1/domains/:id/permissions'' (DomainLevel ''viewer'') ''DomainPermissionHandler.List'',
    Route POST ''/api/v1/domains/:id/permissions'' (DomainLevel ''admin'') ''DomainPermissionHandler.Grant'',
    Route DELETE ''/api/v1/domains/:id/permissions/:user_id'' (DomainLevel ''admin'') ''DomainPermissionHandler.Revoke'',
    Route GET ''/api/v1/templates/:id'' (AnyRole everyone) ''TemplateHandler.Get'',
    Route PUT ''/api/v1/templates/:id'' (AnyRole operators) ''TemplateHandler.Update'',
    Route DELETE ''/api/v1/templates/:id'' (AnyRole admins) ''TemplateHandler.Delete'',
    Route POST ''/api/v1/templates/:id/versions/publish'' (AnyRole operators) ''TemplateHandler.PublishVersion'',
    Route GET ''/api/v1/templates/:id/versions'' (AnyRole everyone) ''TemplateHandler.ListVersions'',
    Route GET ''/api/v1/template-versions/:id'' (AnyRole everyone) ''TemplateHandler.GetVersion'',
    Route PATCH ''/api/v1/template-versions/:id'' (AnyRole operators) ''TemplateHandler.UpdateVersion'',
    Route GET ''/api/v1/artifacts/:id'' (AnyRole everyone) ''ArtifactHandler.Get'',
    Route POST ''/api/v1/releases'' (AnyRole operators) ''ReleaseHandler.Create'',
    Route GET ''/api/v1/releases/:id'' (AnyRole everyone) ''ReleaseHandler.Get'',
    Route POST ''/api/v1/releases/:id/pause'' (AnyRole operators) ''ReleaseHandler.Pause'',
    Route POST ''/api/v1/releases/:id/resume'' (AnyRole operators) ''ReleaseHandler.Resume'',
    Route POST ''/api/v1/releases/:id/cancel'' (AnyRole operators) ''ReleaseHandler.Cancel'',
    Route POST ''/api/v1/releases/:id/rollback'' (AnyRole managers) ''ReleaseHandler.Rollback'',
    Route GET ''/api/v1/releases/:id/history'' (AnyRole everyone) ''ReleaseHandler.History'',
    Route GET ''/api/v1/releases/:id/dry-run'' (AnyRole everyone) ''ReleaseHandler.DryRun'',
    Route GET ''/api/v1/agents'' (AnyRole operators_and_auditor) ''AgentHandler.List'']"

definition routes_assets :: "route list" where
  "routes_assets = [
    Route GET ''/api/v1/agents/:id'' (AnyRole operators_and_auditor) ''AgentHandler.Get'',
    Route POST ''/api/v1/agents/:id/transition'' (AnyRole admins) ''AgentHandler.Transition'',
    Route GET ''/api/v1/agents/:id/history'' (AnyRole operators_and_auditor) ''AgentHandler.History'',
    Route GET ''/api/v1/host-groups'' (AnyRole everyone) ''HostGroupHandler.List'',
    Route GET ''/api/v1/host-groups/:id'' (AnyRole everyone) ''HostGroupHandler.Get'',
    Route PUT ''/api/v1/host-groups/:id'' (AnyRole admins) ''HostGroupHandler.UpdateConcurrency'',
    Route POST ''/api/v1/registrars'' (AnyRole admins) ''RegistrarHandler.Create'',
    Route GET ''/api/v1/registrars'' (AnyRole everyone) ''RegistrarHandler.List'',
    Route GET ''/api/v1/registrars/:id'' (AnyRole everyone) ''RegistrarHandler.Get'',
    Route PUT ''/api/v1/registrars/:id'' (AnyRole admins) ''RegistrarHandler.Update'',
    Route DELETE ''/api/v1/registrars/:id'' (AnyRole admins) ''RegistrarHandler.Delete'',
    Route POST ''/api/v1/registrars/:id/accounts'' (AnyRole admins) ''RegistrarHandler.CreateAccount'',
    Route GET ''/api/v1/registrars/:id/accounts'' (AnyRole everyone) ''RegistrarHandler.ListAccounts'',
    Route GET ''/api/v1/registrar-accounts/:id'' (AnyRole everyone) ''RegistrarHandler.GetAccount'',
    Route PUT ''/api/v1/registrar-accounts/:id'' (AnyRole admins) ''RegistrarHandler.UpdateAccount'',
    Route DELETE ''/api/v1/registrar-accounts/:id'' (AnyRole admins) ''RegistrarHandler.DeleteAccount'',
    Route POST ''/api/v1/registrar-accounts/:id/sync'' (AnyRole admins) ''RegistrarHandler.SyncAccount'',
    Route GET ''/api/v1/cdn-providers'' (AnyRole everyone) ''CDNHandler.ListProviders'',
    Route POST ''/api/v1/cdn-providers'' (AnyRole admins) ''CDNHandler.CreateProvider'',
    Route GET ''/api/v1/cdn-providers/:id'' (AnyRole everyone) ''CDNHandler.GetProvider'',
    Route PUT ''/api/v1/cdn-providers/:id'' (AnyRole admins) ''CDNHandler.UpdateProvider'',
    Route DELETE ''/api/v1/cdn-providers/:id'' (AnyRole admins) ''CDNHandler.DeleteProvider'',
    Route GET ''/api/v1/cdn-providers/:id/accounts'' (AnyRole everyone) ''CDNHandler.ListAccounts'',
    Route POST ''/api/v1/cdn-providers/:id/accounts'' (AnyRole admins) ''CDNHandler.CreateAccount'',
    Route GET ''/api/v1/cdn-accounts'' (AnyRole everyone) ''CDNHandler.ListAllAccounts'',
    Route GET ''/api/v1/cdn-accounts/:id'' (AnyRole everyone) ''CDNHandler.GetAccount'',
    Route PUT ''/api/v1/cdn-accounts/:id'' (AnyRole admins) ''CDNHandler.UpdateAccount'',
    Route DELETE ''/api/v1/cdn-accounts/:id'' (AnyRole admins) ''CDNHandler.DeleteAccount'',
    Route GET ''/api/v1/ssl-certs/expiring'' (AnyRole everyone) ''SSLHandler.ListExpiring'',
    Route DELETE ''/api/v1/ssl-certs/:id'' (AnyRole operators) ''SSLHandler.Delete'',
    Route POST ''/api/v1/domains/:id/ssl-certs'' (AnyRole operators) ''SSLHandler.Create'',
    Route GET ''/api/v1/domains/:id/ssl-certs'' (AnyRole everyone) ''SSLHandler.List'',
    Route POST ''/api/v1/domains/:id/ssl-certs/check'' (AnyRole operators) ''SSLHandler.Check'',
    Route POST ''/api/v1/domains/:id/cdn-bindings'' (AnyRole operators) ''CDNBindingHandler.Bind'',
    Route GET ''/api/v1/domains/:id/cdn-bindings'' (AnyRole everyone) ''CDNBindingHandler.ListBindings'',
    Route GET ''/api/v1/domains/:id/cdn-bindings/:bid'' (AnyRole everyone) ''CDNBindingHandler.GetBinding'',
    Route DELETE ''/api/v1/domains/:id/cdn-bindings/:bid'' (AnyRole operators) ''CDNBindingHandler.Unbind'',
    Route POST ''/api/v1/domains/:id/cdn-bindings/:bid/refresh'' (AnyRole operators) ''CDNBindingHandler.RefreshStatus'',
    Route GET ''/api/v1/dns-templates'' (AnyRole everyone) ''DNSTemplateHandler.List'',
    Route POST ''/api/v1/dns-templates'' (AnyRole operators) ''DNSTemplateHandler.Create'',
    Route GET ''/api/v1/dns-templates/:id'' (AnyRole everyone) ''DNSTemplateHandler.Get'',
    Route PUT ''/api/v1/dns-templates/:id'' (AnyRole operators) ''DNSTemplateHandler.Update'',
    Route DELETE ''/api/v1/dns-templates/:id'' (AnyRole admins) ''DNSTemplateHandler.Delete'',
    Route POST ''/api/v1/domains/:id/dns/apply-template'' (DomainLevel ''editor'') ''DNSTemplateHandler.ApplyTemplate'',
    Route POST ''/api/v1/tags'' (AnyRole admins) ''TagHandler.Create'',
    Route GET ''/api/v1/tags'' (AnyRole everyone) ''TagHandler.List'',
    Route PUT ''/api/v1/tags/:id'' (AnyRole admins) ''TagHandler.Update'',
    Route DELETE ''/api/v1/tags/:id'' (AnyRole admins) ''TagHandler.Delete'',
    Route POST ''/api/v1/fee-schedules'' (AnyRole admins) ''CostHandler.CreateFeeSchedule'',
    Route GET ''/api/v1/fee-schedules'' (AnyRole everyone) ''CostHandler.ListFeeSchedules'',
    Route PUT ''/api/v1/fee-schedules/:id'' (AnyRole admins) ''CostHandler.UpdateFeeSchedule'',
    Route DELETE ''/api/v1/fee-schedules/:id'' (AnyRole admins) ''CostHandler.DeleteFeeSchedule'',
    Route POST ''/api/v1/domains/:id/costs'' (AnyRole operators) ''CostHandler.CreateDomainCost'',
    Route GET ''/api/v1/domains/:id/costs'' (AnyRole everyone) ''CostHandler.ListDomainCosts'',
    Route GET ''/api/v1/costs/summary'' (AnyRole everyone) ''CostHandler.GetCostSummary'',
    Route GET ''/api/v1/dns/lookup'' (AnyRole everyone) ''DNSQueryHandler.LookupByFQDN'',
    Route GET ''/api/v1/dns/propagation'' (AnyRole everyone) ''DNSQueryHandler.PropagationByFQDN'',
    Route POST ''/api/v1/dns/drift-check-all'' (AnyRole operators) ''DNSQueryHandler.TriggerDriftCheckAll'',
    Route GET ''/api/v1/dns-providers/types'' (AnyRole everyone) ''DNSProviderHandler.SupportedTypes'',
    Route POST ''/api/v1/dns-providers'' (AnyRole admins) ''DNSProviderHandler.Create'',
    Route GET ''/api/v1/dns-providers'' (AnyRole everyone) ''DNSProviderHandler.List'',
    Route GET ''/api/v1/dns-providers/:id'' (AnyRole everyone) ''DNSProviderHandler.Get'',
    Route PUT ''/api/v1/dns-providers/:id'' (AnyRole admins) ''DNSProviderHandler.Update'',
    Route DELETE ''/api/v1/dns-providers/:id'' (AnyRole admins) ''DNSProviderHandler.Delete'',
    Route GET ''/api/v1/probe-policies'' (AnyRole everyone) ''ProbeHandler.ListPolicies'',
    Route POST ''/api/v1/probe-policies'' (AnyRole admins) ''ProbeHandler.CreatePolicy'',
    Route GET ''/api/v1/probe-policies/:id'' (AnyRole everyone) ''ProbeHandler.GetPolicy'',
    Route PUT ''/api/v1/probe-policies/:id'' (AnyRole admins) ''ProbeHandler.UpdatePolicy'',
    Route DELETE ''/api/v1/probe-policies/:id'' (AnyRole admins) ''ProbeHandler.DeletePolicy'']"

definition routes_monitoring :: "route list" where
  "routes_monitoring = [
    Route GET ''/api/v1/domains/:id/probe-results'' (AnyRole everyone) ''ProbeHandler.ListDomainResults'',
    Route GET ''/api/v1/alerts'' (AnyRole everyone) ''AlertHandler.ListAlerts'',
    Route GET ''/api/v1/alerts/summary'' (AnyRole everyone) ''AlertHandler.AlertSummary'',
    Route GET ''/api/v1/alerts/:id'' (AnyRole everyone) ''AlertHandler.GetAlert'',
    Route POST ''/api/v1/alerts/:id/resolve'' (AnyRole operators) ''AlertHandler.ResolveAlert'',
    Route POST ''/api/v1/alerts/:id/acknowledge'' (AnyRole operators) ''AlertHandler.AcknowledgeAlert'',
    Route GET ''/api/v1/notification-rules'' (AnyRole everyone) ''AlertHandler.ListRules'',
    Route POST ''/api/v1/notification-rules'' (AnyRole admins) ''AlertHandler.CreateRule'',
    Route GET ''/api/v1/notification-rules/:id'' (AnyRole everyone) ''AlertHandler.GetRule'',
    Route PUT ''/api/v1/notification-rules/:id'' (AnyRole admins) ''AlertHandler.UpdateRule'',
    Route DELETE ''/api/v1/notification-rules/:id'' (AnyRole admins) ''AlertHandler.DeleteRule'',
    Route GET ''/api/v1/notifications/channels'' (AnyRole everyone) ''NotificationHandler.ListChannels'',
    Route POST ''/api/v1/notifications/channels'' (AnyRole admins) ''NotificationHandler.CreateChannel'',
    Route GET ''/api/v1/notifications/channels/:id'' (AnyRole everyone) ''NotificationHandler.GetChannel'',
    Route PUT ''/api/v1/notifications/channels/:id'' (AnyRole admins) ''NotificationHandler.UpdateChannel'',
    Route DELETE ''/api/v1/notifications/channels/:id'' (AnyRole admins) ''NotificationHandler.DeleteChannel'',
    Route POST ''/api/v1/notifications/channels/:id/test'' (AnyRole admins) ''NotificationHandler.TestChannel'',
    Route GET ''/api/v1/notifications/channels/:id/rules'' (AnyRole everyone) ''NotificationHandler.ListChannelRules'',
    Route GET ''/api/v1/notifications/history'' (AnyRole everyone) ''NotificationHandler.ListHistory'',
    Route GET ''/api/v1/maintenance'' (AnyRole everyone) ''MaintenanceHandler.List'',
    Route POST ''/api/v1/maintenance'' (AnyRole admin_or_operator) ''MaintenanceHandler.Create'',
    Route GET ''/api/v1/maintenance/:id'' (AnyRole everyone) ''MaintenanceHandler.Get'',
    Route PUT ''/api/v1/maintenance/:id'' (AnyRole admin_or_operator) ''MaintenanceHandler.Update'',
    Route DELETE ''/api/v1/maintenance/:id'' (AnyRole admins) ''MaintenanceHandler.Delete'',
    Route POST ''/api/v1/maintenance/:id/targets'' (AnyRole admin_or_operator) ''MaintenanceHandler.AddTarget'',
    Route DELETE ''/api/v1/maintenance/:id/targets/:tid'' (AnyRole admin_or_operator) ''MaintenanceHandler.RemoveTarget'',
    Route GET ''/api/v1/status-pages'' (AnyRole everyone) ''StatusPageHandler.ListPages'',
    Route POST ''/api/v1/status-pages'' (AnyRole admin_or_operator) ''StatusPageHandler.CreatePage'',
    Route GET ''/api/v1/status-pages/:id'' (AnyRole everyone) ''StatusPageHandler.GetPage'',
    Route PUT ''/api/v1/status-pages/:id'' (AnyRole admin_or_operator) ''StatusPageHandler.UpdatePage'',
    Route DELETE ''/api/v1/status-pages/:id'' (AnyRole admins) ''StatusPageHandler.DeletePage'',
    Route POST ''/api/v1/status-pages/:id/groups'' (AnyRole admin_or_operator) ''StatusPageHandler.CreateGroup'',
    Route PUT ''/api/v1/status-pages/:id/groups/:gid'' (AnyRole admin_or_operator) ''StatusPageHandler.UpdateGroup'',
    Route DELETE ''/api/v1/status-pages/:id/groups/:gid'' (AnyRole admins) ''StatusPageHandler.DeleteGroup'',
    Route POST ''/api/v1/status-pages/:id/groups/:gid/monitors'' (AnyRole admin_or_operator) ''StatusPageHandler.AddMonitor'',
    Route DELETE ''/api/v1/status-pages/:id/groups/:gid/monitors/:mid'' (AnyRole admins) ''StatusPageHandler.RemoveMonitor'',
    Route GET ''/api/v1/status-pages/:id/incidents'' (AnyRole everyone) ''StatusPageHandler.ListIncidents'',
    Route POST ''/api/v1/status-pages/:id/incidents'' (AnyRole admin_or_operator) ''StatusPageHandler.CreateIncident'',
    Route PUT ''/api/v1/status-pages/:id/incidents/:iid'' (AnyRole admin_or_operator) ''StatusPageHandler.UpdateIncident'',
    Route DELETE ''/api/v1/status-pages/:id/incidents/:iid'' (AnyRole admins) ''StatusPageHandler.DeleteIncident'',
    Route GET ''/api/v1/uptime/worst'' (AnyRole everyone) ''UptimeHandler.GetWorstPerformers'',
    Route GET ''/api/v1/uptime/:domain_id'' (AnyRole everyone) ''UptimeHandler.GetUptime'',
    Route GET ''/api/v1/uptime/:domain_id/response-time'' (AnyRole everyone) ''UptimeHandler.GetResponseTimeSeries'',
    Route GET ''/api/v1/uptime/:domain_id/calendar'' (AnyRole everyone) ''UptimeHandler.GetUptimeCalendar'',
    Route GET ''/api/v1/gfw/nodes'' (AnyRole everyone) ''ProbeNodeHandler.ListNodes'',
    Route GET ''/api/v1/gfw/nodes/:nodeId'' (AnyRole everyone) ''ProbeNodeHandler.GetNode'',
    Route GET ''/api/v1/gfw/assignments'' (AnyRole everyone) ''ProbeNodeHandler.ListAssignments'',
    Route GET ''/api/v1/gfw/assignments/:domainId'' (AnyRole everyone) ''ProbeNodeHandler.GetAssignment'',
    Route PUT ''/api/v1/gfw/assignments/:domainId'' (AnyRole admins) ''ProbeNodeHandler.UpsertAssignment'',
    Route DELETE ''/api/v1/gfw/assignments/:domainId'' (AnyRole admins) ''ProbeNodeHandler.DeleteAssignment'',
    Route GET ''/api/v1/gfw/measurements/:domainId'' (AnyRole everyone) ''ProbeNodeHandler.ListMeasurements'',
    Route GET ''/api/v1/gfw/measurements/:domainId/latest'' (AnyRole everyone) ''ProbeNodeHandler.GetLatestMeasurements'',
    Route GET ''/api/v1/gfw/bogons'' (AnyRole everyone) ''ProbeNodeHandler.ListBogonIPs'',
    Route POST ''/api/v1/gfw/bogons'' (AnyRole admins) ''ProbeNodeHandler.AddBogonIP'',
    Route DELETE ''/api/v1/gfw/bogons/:ip'' (AnyRole admins) ''ProbeNodeHandler.DeleteBogonIP'',
    Route GET ''/api/v1/gfw/verdicts/blocked'' (AnyRole everyone) ''ProbeNodeHandler.ActivelyBlockedDomains'',
    Route GET ''/api/v1/gfw/verdicts/:domainId'' (AnyRole everyone) ''ProbeNodeHandler.ListVerdicts'',
    Route GET ''/api/v1/gfw/verdicts/:domainId/latest'' (AnyRole everyone) ''ProbeNodeHandler.LatestVerdict'',
    Route GET ''/api/v1/gfw/blocked-domains'' (AnyRole everyone) ''ProbeNodeHandler.ListBlockedDomains'',
    Route GET ''/api/v1/gfw/stats'' (AnyRole everyone) ''ProbeNodeHandler.GetGFWStats'',
    Route GET ''/api/v1/gfw/timeline/:domainId'' (AnyRole everyone) ''ProbeNodeHandler.GetDomainBlockingTimeline'']"


definition RegisterV1 :: "route list" where
  "RegisterV1 = routes_core @ routes_assets @ routes_monitoring"

text \<open>A request that gin has matched to a route, with its \<open>Authorization\<close> header and the parameter \<open>:id\<close>.\<close>

definition admit :: "jwt_library \<Rightarrow> route \<Rightarrow> string \<Rightarrow> string \<Rightarrow> claims option handler" where
  "admit lib r header rawID = (case route_guard r of
       Public \<Rightarrow> ret None
     | Token \<Rightarrow> bnd (JWTAuth lib header) (\<lambda>c. ret (Some c))
     | AnyRole roles \<Rightarrow> bnd (JWTAuth lib header) (\<lambda>c.
         seq_eff (RequireAnyRole roles (jc_roles c)) (ret (Some c)))
     | DomainLevel level \<Rightarrow> bnd (JWTAuth lib header) (\<lambda>c.
         seq_eff (RequireDNSPermission level (jc_user_id c) rawID) (ret (Some c))))"

section \<open>Logging in\<close>

lemma Login_outcome:
  "(case result (Login lib expiry bcrypt name password) w of
      Inr g \<Rightarrow> \<exists>u \<in> set (rows (users (assets w))). us_username u = name \<and> us_deleted_at u = None \<and>
        us_status u = ''active'' \<and> bcrypt (us_password_hash u) password \<and> lg_user_id g = us_id u \<and>
        lg_roles g = map snd (filter (\<lambda>ur. fst ur = us_id u) (user_roles w)) \<and>
        Generate lib expiry (now w) (us_id u) name (lg_roles g) = Inr (lg_token g)
    | Inl e \<Rightarrow> True) \<and>
   read_only w (final (Login lib expiry bcrypt name password) w)"
proof -
  let ?roles = "\<lambda>u. map snd (filter (\<lambda>ur. fst ur = us_id u) (user_roles w))"
  have "hoare (snap w) (Login lib expiry bcrypt name password) (\<lambda>g w'. (\<exists>u \<in> set (rows (users (assets w))).
      us_username u = name \<and> us_deleted_at u = None \<and> us_status u = ''active'' \<and>
      bcrypt (us_password_hash u) password \<and> lg_user_id g = us_id u \<and> lg_roles g = ?roles u \<and>
      Generate lib expiry (now w) (us_id u) name (lg_roles g) = Inr (lg_token g)) \<and> snap w w') (snap w)"
    unfolding Login_def UserStore_GetByUsername_def
  proof (rule hoare_bnd [OF hoare_attempt [where Q = "\<lambda>r w'. (case r of Inl e \<Rightarrow> True
      | Inr u \<Rightarrow> tbl_find (\<lambda>u. us_username u = name \<and> us_deleted_at u = None) (users (assets w)) = Some u) \<and> snap w w'"]],
      goal_cases)
    case 1
    show ?case by (rule hoare_post [OF snap_assets(2)]) simp_all
  next
    case (2 r)
    show ?case
    proof (cases r)
      case (Inl e)
      then show ?thesis by (simp add: hoare_def)
    next
      case (Inr u)
      let ?ok = "tbl_find (\<lambda>u. us_username u = name \<and> us_deleted_at u = None) (users (assets w)) = Some u"
      have u: "u \<in> set (rows (users (assets w)))" "us_username u = name" "us_deleted_at u = None" if ?ok
        using that by (auto simp: tbl_find_def dest!: find_SomeD)
      have "hoare (snap w) (bnd (GetUserRoles (us_id u)) (\<lambda>roles. bnd (gets now) (\<lambda>t.
          bnd (answer (Generate lib expiry t (us_id u) (us_username u) roles)) (\<lambda>token.
          ret \<lparr>lg_token = token, lg_user_id = us_id u, lg_username = us_username u, lg_roles = roles\<rparr>))))
          (\<lambda>g w'. (lg_user_id g = us_id u \<and> lg_roles g = ?roles u \<and>
            Generate lib expiry (now w) (us_id u) (us_username u) (lg_roles g) = Inr (lg_token g)) \<and> snap w w') (snap w)"
        unfolding GetUserRoles_def
      proof (rule hoare_step [OF snap_query], simp, rule hoare_step [where F = "\<lambda>t. t = now w"],
          (auto simp: hoare_def dest: read_only_fields) [1], rule hoare_step [OF snap_answer], goal_cases)
        case (1 roles t token)
        then show ?case by (simp add: hoare_def)
      qed
      then show ?thesis
        using u unfolding Inr by (auto simp: hoare_def split: sum.splits)
    qed
  qed
  from snap_start [OF this] show ?thesis by (auto split: sum.splits)
qed


section \<open>Tokens outlive the tables\<close>

lemma admit_signed:
  assumes "jl_parse lib (now w) token = Inr c" and "token \<noteq> []"
  shows "result (admit lib (Route m p (AnyRole roles) h) (''Bearer '' @ token) rawID) w =
    (if list_ex (\<lambda>r. r \<in> set roles) (jc_roles c) then Inr (Some c) else Inl 40300)"
proof -
  have "split_space (''Bearer '' @ token) = Some (''Bearer'', token)" by (simp add: split_space_def)
  moreover have "EqualFold ''Bearer'' ''Bearer''" by (simp add: EqualFold_def)
  ultimately show ?thesis
    using assms by (simp add: admit_def JWTAuth_def RequireAnyRole_def JWT_Verify_def eff_run)
qed

text \<open>
  C39: A role once in a token stays in force: as long as the library accepts the token it signed at the login,
  a route guarded by roles is decided by the roles of that login alone, whatever has happened since to the
  user, to its roles or to its password.
\<close>

theorem revoked_roles_stay_in_force:
  assumes "result (Login lib expiry bcrypt name password) w = Inr g" and "lg_token g \<noteq> []"
    and "\<And>c t. jl_sign lib c = Inr (lg_token g) \<Longrightarrow> t < jc_expires_at c \<Longrightarrow> jl_parse lib t (lg_token g) = Inr c"
    and "now w' < now w + expiry"
  shows "(\<exists>c. result (admit lib (Route m p (AnyRole roles) h) (''Bearer '' @ lg_token g) rawID) w' = Inr c) \<longleftrightarrow>
    list_ex (\<lambda>r. r \<in> set roles) (lg_roles g)"
proof -
  from Login_outcome [where lib = lib and expiry = expiry and bcrypt = bcrypt and name = name and password = password and w = w] assms(1) obtain u :: user_row where
    "Generate lib expiry (now w) (us_id u) name (lg_roles g) = Inr (lg_token g)" by auto
  then have "jl_parse lib (now w') (lg_token g) = Inr \<lparr>jc_user_id = us_id u, jc_username = name,
      jc_roles = lg_roles g, jc_issued_at = now w, jc_expires_at = now w + expiry, jc_subject = show_int (us_id u)\<rparr>"
    using assms(3,4) by (simp add: Generate_def)
  from admit_signed [OF this assms(2)] show ?thesis by auto
qed

text \<open>User 7 logs in as an operator; an hour later the role is gone and the user disabled.\<close>

definition login_world :: world where
  "login_world = empty_world\<lparr>user_roles := [(7, ''operator'')], assets := empty_assets\<lparr>users :=
     \<lparr>rows = [\<lparr>us_id = 7, us_username = ''ann'', us_password_hash = ''h'', us_display_name = None,
        us_status = ''active'', us_deleted_at = None\<rparr>], seq = 7\<rparr>\<rparr>\<rparr>"

definition later_world :: world where
  "later_world = login_world\<lparr>now := 3600, user_roles := [], assets := empty_assets\<lparr>users :=
     \<lparr>rows = [\<lparr>us_id = 7, us_username = ''ann'', us_password_hash = ''h'', us_display_name = None,
        us_status = ''disabled'', us_deleted_at = None\<rparr>], seq = 7\<rparr>\<rparr>\<rparr>"

definition ann_claims :: claims where
  "ann_claims = \<lparr>jc_user_id = 7, jc_username = ''ann'', jc_roles = [''operator''], jc_issued_at = 0,
     jc_expires_at = 86400, jc_subject = ''7''\<rparr>"

definition ann_library :: jwt_library where
  "ann_library = \<lparr>jl_sign = (\<lambda>c. if c = ann_claims then Inr ''token'' else Inl ErrDB),
     jl_parse = (\<lambda>t s. Inr ann_claims)\<rparr>"

theorem revoked_roles_stay_in_force_witness:
  "user_roles later_world = [] \<and>
   (\<exists>c. result (admit ann_library (Route POST ''/api/v1/releases'' (AnyRole operators) ''ReleaseHandler.Create'')
      ''Bearer token'' []) later_world = Inr c)"
proof -
  let ?g = "\<lparr>lg_token = ''token'', lg_user_id = 7, lg_username = ''ann'', lg_roles = [''operator'']\<rparr>"
  have "show_int 7 = ''7''" by code_simp
  then have "Generate ann_library 86400 0 7 ''ann'' [''operator''] = Inr ''token''"
    by (simp add: Generate_def ann_library_def ann_claims_def)
  then have login: "result (Login ann_library 86400 (\<lambda>h p. True) ''ann'' ''secret'') login_world = Inr ?g"
    by (simp add: Login_def UserStore_GetByUsername_def GetUserRoles_def login_world_def empty_world_def
        tbl_find_def eff_run)
  have "(\<exists>c. result (admit ann_library (Route POST ''/api/v1/releases'' (AnyRole operators) ''ReleaseHandler.Create'')
      (''Bearer '' @ lg_token ?g) []) later_world = Inr c) \<longleftrightarrow> list_ex (\<lambda>r. r \<in> set operators) (lg_roles ?g)"
    by (rule revoked_roles_stay_in_force [OF login])
      (auto simp: ann_library_def later_world_def login_world_def empty_world_def split: if_splits)
  then show ?thesis by (simp add: later_world_def)
qed

section \<open>What viewers and auditors cannot do\<close>

text \<open>Guards that let nobody pass whose roles only look, and the levels above viewing.\<close>

definition strong_guard :: "guard \<Rightarrow> bool" where
  "strong_guard g \<longleftrightarrow> (case g of
       AnyRole roles \<Rightarrow> ''viewer'' \<notin> set roles \<and> ''auditor'' \<notin> set roles
     | DomainLevel level \<Rightarrow> level \<in> {''editor'', ''admin''}
     | _ \<Rightarrow> False)"

lemma writes_guarded:
  "list_all (\<lambda>r. route_method r = GET \<or> strong_guard (route_guard r) \<or>
     route_path r = ''/api/v1/auth/login'' \<or> route_path r = ''/api/v1/status/:slug/auth'') RegisterV1"
  by (simp add: RegisterV1_def routes_core_def routes_assets_def routes_monitoring_def strong_guard_def)

lemma query_InrD:
  fixes w :: world
  assumes "result (query f) w = Inr x" and "\<And>fs. f (w\<lparr>faults := fs\<rparr>) = f w"
  shows "x = f w" "read_only w (final (query f) w)"
  using snap_start [OF snap_query [of f w]] assms by simp_all

lemma read_only_roles:
  assumes "read_only w w'"
  shows "user_roles w' = user_roles w" "domain_permissions w' = domain_permissions w"
proof -
  obtain fs where "w' = w\<lparr>faults := fs\<rparr>" using assms by (auto simp: read_only_def)
  then show "user_roles w' = user_roles w" "domain_permissions w' = domain_permissions w" by simp_all
qed

text \<open>A positive answer of the permission check is justified by the tables under every schedule of faults.\<close>

lemma HasPermission_justified:
  assumes "result (HasPermission d u level) w = Inr True" and "rank_of level > 0"
  shows "\<exists>l. holds w d u l \<and> rank_of l \<ge> rank_of level"
proof -
  let ?roles = "map snd (filter (\<lambda>ur. fst ur = u) (user_roles w))"
  let ?best = "fold raise_to_role ?roles []"
  let ?grant = "tbl_find (permission_of d u) (domain_permissions w)"
  let ?eff = "\<lambda>p. p = ?best \<or> (\<exists>dp. ?grant = Some dp \<and> p = dp_permission dp)"
  have "hoare (snap w) (EffectivePermission d u) (\<lambda>p w'. ?eff p \<and> snap w w') (snap w)"
    unfolding EffectivePermission_def GetUserRoles_def Let_def
  proof (rule hoare_step [OF snap_query], simp)
    fix roles assume roles: "roles = ?roles"
    show "hoare (snap w) (bnd (attempt (Permission_Get d u)) (\<lambda>r. case r of
         Inl e \<Rightarrow> if e \<noteq> ErrDomainPermissionNotFound then throw e else ret (fold raise_to_role roles [])
       | Inr dp \<Rightarrow> ret (if rank_of (dp_permission dp) > rank_of (fold raise_to_role roles [])
           then dp_permission dp else fold raise_to_role roles [])))
       (\<lambda>p w'. ?eff p \<and> snap w w') (snap w)"
      unfolding Permission_Get_def roles
    proof (rule hoare_bnd [OF hoare_attempt [where Q = "\<lambda>r w'. (case r of Inl e \<Rightarrow> True | Inr dp \<Rightarrow> ?grant = Some dp) \<and>
        snap w w'"]], goal_cases)
      case 1
      show ?case by (rule hoare_post [OF snap_query_one]) simp_all
    next
      case (2 r)
      show ?case by (cases r) (auto simp: hoare_def)
    qed
  qed
  from snap_start [OF this] assms(1) obtain p where p: "?eff p" "rank_of p \<ge> rank_of level"
    by (auto simp: HasPermission_def result_bnd split: sum.splits)
  show ?thesis
  proof (cases "\<exists>dp. ?grant = Some dp \<and> p = dp_permission dp")
    case True
    with p(2) show ?thesis by (auto simp: holds_def)
  next
    case False
    with p have "rank_of ?best \<ge> rank_of level" by blast
    then have "\<exists>r \<in> set ?roles. \<exists>q. map_of globalRoleToPermission r = Some q \<and> rank_of q \<ge> rank_of level"
      using assms(2) rank_of_pos [of "[]"] rank_of_nonneg [of "[]"] unfolding raise_to_roles by fastforce
    then show ?thesis by (auto simp: holds_def)
  qed
qed

text \<open>Somebody who only looks: no other role in the token, and no other level on any domain in the tables.\<close>

definition only_looks :: "world \<Rightarrow> claims \<Rightarrow> bool" where
  "only_looks w c \<longleftrightarrow> set (jc_roles c) \<subseteq> {''viewer'', ''auditor''} \<and>
     (\<forall>d level. holds w d (jc_user_id c) level \<longrightarrow> rank_of level \<le> rank_of ''viewer'')"

lemma JWTAuth_state: "final (JWTAuth lib header) w = w"
  by (simp add: JWTAuth_def final_bnd split: option.split sum.split)

lemma strong_guard_stops:
  assumes "strong_guard (route_guard r)" and "only_looks w c"
  shows "result (admit lib r header rawID) w \<noteq> Inr (Some c)"
proof (cases "route_guard r")
  case (AnyRole roles)
  with assms have "\<not> list_ex (\<lambda>x. x \<in> set roles) (jc_roles c)"
    by (auto simp: strong_guard_def only_looks_def list_ex_iff)
  with AnyRole show ?thesis
    by (auto simp: admit_def RequireAnyRole_def result_bnd result_seq split: sum.splits if_splits)
next
  case (DomainLevel level)
  then have level: "rank_of level > rank_of ''viewer''" "rank_of level > 0"
    using assms(1) by (auto simp: strong_guard_def rank_of_def permissionRank_def)
  have no: "result (HasPermission d (jc_user_id c) level) w \<noteq> Inr True" for d
    using HasPermission_justified [of d "jc_user_id c" level w] level assms(2) by (force simp: only_looks_def)
  show ?thesis
  proof
    assume "result (admit lib r header rawID) w = Inr (Some c)"
    then have "result (RequireDNSPermission level (jc_user_id c) rawID) w = Inr ()"
      by (auto simp: admit_def DomainLevel result_bnd result_seq JWTAuth_state split: sum.splits)
    then obtain d where "result (fail_with 50000 (HasPermission d (jc_user_id c) level)) w = Inr True"
      by (auto simp: RequireDNSPermission_def result_bnd split: if_splits option.splits sum.splits)
    with no [of d] show False
      by (auto simp: fail_with_def result_def split: prod.splits sum.splits)
  qed
qed (use assms(1) in \<open>simp_all add: strong_guard_def\<close>)


text \<open>A viewer cannot create a project.\<close>

definition viewer_claims :: claims where
  "viewer_claims = \<lparr>jc_user_id = 7, jc_username = ''bob'', jc_roles = [''viewer''], jc_issued_at = 0,
     jc_expires_at = 86400, jc_subject = ''7''\<rparr>"


end
