(* ===== verification/Dns_Records.thy ===== *)
theory Dns_Records
  imports Asset_Store
begin

text \<open>
  internal/dnsrecord/service.go and sync.go over store/postgres/dns\_provider.go and
  domain\_dns\_record.go: DNS providers, the records of a domain at its provider, and the local
  copy of them. The client of a provider is a parameter: \<open>clients\<close> gives the client for a type, a
  configuration and credentials, or nothing when the type is not registered or the credentials
  are rejected, and a client is the answers of its methods. Wrapping an error keeps it.
\<close>

section \<open>Providers\<close>

record record_filter =
  rf_type :: string
  rf_name :: string

record dns_client =
  cl_ListRecords :: "string \<Rightarrow> record_filter \<Rightarrow> go_err + zone_record list"
  cl_CreateRecord :: "string \<Rightarrow> zone_record \<Rightarrow> go_err + zone_record"
  cl_UpdateRecord :: "string \<Rightarrow> string \<Rightarrow> zone_record \<Rightarrow> go_err + zone_record"
  cl_DeleteRecord :: "string \<Rightarrow> string \<Rightarrow> go_err + unit"
  cl_BatchDeleteRecords :: "string \<Rightarrow> string list \<Rightarrow> go_err + unit"
  cl_GetNameservers :: "string \<Rightarrow> go_err + string list"

type_synonym clients = "string \<Rightarrow> provider_config \<Rightarrow> string \<Rightarrow> dns_client option"

definition live_provider :: "int \<Rightarrow> dns_provider_row \<Rightarrow> bool" where
  "live_provider i r \<longleftrightarrow> pv_id r = i \<and> pv_deleted_at r = None"

definition DNSProviderStore_Create :: "dns_provider_row \<Rightarrow> dns_provider_row op" where
  "DNSProviderStore_Create p = asset_stmt (\<lambda>t a.
     if list_ex (\<lambda>r. pv_name r = pv_name p) (rows (dns_providers a))
     then (Inl (ErrUnique ''uq_dns_providers_name''), a)
     else let mk = (\<lambda>i. p\<lparr>pv_id := i, pv_deleted_at := None\<rparr>)
       in (Inr (mk (seq (dns_providers a) + 1)), a\<lparr>dns_providers := tbl_insert mk (dns_providers a)\<rparr>))"

definition DNSProviderStore_GetByID :: "int \<Rightarrow> dns_provider_row op" where
  "DNSProviderStore_GetByID i =
     asset_get ErrDNSProviderNotFound (\<lambda>a. tbl_find (live_provider i) (dns_providers a))"

definition DNSProviderStore_List :: "dns_provider_row list op" where
  "DNSProviderStore_List =
     asset_query (\<lambda>a. sort_key pv_name (tbl_select (\<lambda>r. pv_deleted_at r = None) (dns_providers a)))"

definition DNSProviderStore_Update :: "dns_provider_row \<Rightarrow> unit op" where
  "DNSProviderStore_Update p = asset_exec_unless
     (\<lambda>a. tbl_find (live_provider (pv_id p)) (dns_providers a) \<noteq> None \<and>
        list_ex (\<lambda>r. pv_id r \<noteq> pv_id p \<and> pv_name r = pv_name p) (rows (dns_providers a)))
     (ErrUnique ''uq_dns_providers_name'')
     (\<lambda>t a. a\<lparr>dns_providers := tbl_update (live_provider (pv_id p))
        (\<lambda>r. r\<lparr>pv_name := pv_name p, pv_provider_type := pv_provider_type p, pv_config := pv_config p,
               pv_credentials := pv_credentials p, pv_notes := pv_notes p\<rparr>) (dns_providers a)\<rparr>)"

definition CountDomains :: "int \<Rightarrow> int op" where
  "CountDomains i = query (\<lambda>w. int (length (tbl_select
     (\<lambda>r. d_dns_provider_id r = Some i \<and> d_deleted_at r = None) (domains w))))"

definition DNSProviderStore_SoftDelete :: "int \<Rightarrow> unit op" where
  "DNSProviderStore_SoftDelete i =
     bnd (CountDomains i) (\<lambda>n.
       if n > 0 then throw ErrDNSProviderHasDependents
       else asset_exec (\<lambda>t a. a\<lparr>dns_providers := tbl_update (live_provider i)
              (\<lambda>r. r\<lparr>pv_deleted_at := Some t\<rparr>) (dns_providers a)\<rparr>))"

text \<open>\<open>dnsprovider.Get\<close> with the error both services give for it.\<close>

definition client_of :: "clients \<Rightarrow> dns_provider_row \<Rightarrow> dns_client op" where
  "client_of cl pv = answer (case cl (pv_provider_type pv) (pv_config pv) (pv_credentials pv) of
     None \<Rightarrow> Inl ErrProviderInit | Some p \<Rightarrow> Inr p)"

definition extractZoneID :: "provider_config \<Rightarrow> string" where
  "extractZoneID config = pc_zone_id config"

definition resolveSync :: "clients \<Rightarrow> domain_row \<Rightarrow> (dns_client \<times> string \<times> dns_provider_row) op" where
  "resolveSync cl d = (case d_dns_provider_id d of
       None \<Rightarrow> throw ErrNoProvider
     | Some i \<Rightarrow>
         bnd (DNSProviderStore_GetByID i) (\<lambda>prov.
         bnd (client_of cl prov) (\<lambda>p. ret (p, extractZoneID (pv_config prov), prov))))"

definition resolveProvider :: "clients \<Rightarrow> domain_row \<Rightarrow> (dns_client \<times> string) op" where
  "resolveProvider cl d = (case d_dns_provider_id d of
       None \<Rightarrow> throw ErrNoProvider
     | Some i \<Rightarrow>
         bnd (DNSProviderStore_GetByID i) (\<lambda>prov.
         bnd (client_of cl prov) (\<lambda>p. ret (p, extractZoneID (pv_config prov)))))"

section \<open>Input\<close>

text \<open>\<open>CreateRecordInput\<close> and \<open>UpdateRecordInput\<close>, which have the same fields.\<close>

record record_input =
  in_type :: string
  in_name :: string
  in_content :: string
  in_ttl :: int
  in_priority :: int
  in_proxied :: bool

definition validRecordTypes :: "string list" where
  "validRecordTypes = [''A'', ''AAAA'', ''CNAME'', ''MX'', ''TXT'', ''NS'', ''SRV'', ''CAA'', ''PTR'']"

definition clean_input :: "record_input \<Rightarrow> record_input" where
  "clean_input inp = inp\<lparr>in_type := ToUpper (TrimSpace (in_type inp)),
     in_name := TrimSpace (in_name inp), in_content := TrimSpace (in_content inp)\<rparr>"

definition UpdateRecordInput_Validate :: "record_input \<Rightarrow> go_err + record_input" where
  "UpdateRecordInput_Validate inp0 = (let inp = clean_input inp0 in
     if in_type inp \<notin> set validRecordTypes then Inl (ErrInvalidInput ''unsupported record type'')
     else if in_name inp = [] then Inl (ErrInvalidInput ''name is required'')
     else if in_content inp = [] then Inl (ErrInvalidInput ''content is required'')
     else Inr inp)"

definition CreateRecordInput_Validate :: "record_input \<Rightarrow> go_err + record_input" where
  "CreateRecordInput_Validate inp0 = (let inp = clean_input inp0 in
     if in_type inp \<notin> set validRecordTypes then Inl (ErrInvalidInput ''unsupported record type'')
     else if in_name inp = [] then Inl (ErrInvalidInput ''name is required'')
     else if in_content inp = [] then Inl (ErrInvalidInput ''content is required'')
     else if in_ttl inp < 0 then Inl (ErrInvalidInput ''TTL must be >= 0'')
     else Inr inp)"

definition record_of :: "record_input \<Rightarrow> zone_record" where
  "record_of inp = \<lparr>zr_id = [], zr_type = in_type inp, zr_name = in_name inp,
     zr_content = in_content inp, zr_ttl = in_ttl inp, zr_priority = in_priority inp,
     zr_proxied = in_proxied inp, zr_extra = []\<rparr>"

section \<open>Records at the provider\<close>

definition Service_ListRecords :: "clients \<Rightarrow> domain_row \<Rightarrow> string \<Rightarrow> zone_record list op" where
  "Service_ListRecords cl d filterType =
     bnd (resolveProvider cl d) (\<lambda>(p, zone).
       answer (cl_ListRecords p zone
         \<lparr>rf_type = (if filterType \<noteq> [] then ToUpper filterType else []), rf_name = d_fqdn d\<rparr>))"

definition Service_CreateRecord :: "clients \<Rightarrow> domain_row \<Rightarrow> record_input \<Rightarrow> zone_record op" where
  "Service_CreateRecord cl d inp0 =
     bnd (answer (CreateRecordInput_Validate inp0)) (\<lambda>inp.
     bnd (resolveProvider cl d) (\<lambda>(p, zone).
       answer (cl_CreateRecord p zone (record_of inp))))"

definition Service_UpdateRecord ::
    "clients \<Rightarrow> domain_row \<Rightarrow> string \<Rightarrow> record_input \<Rightarrow> zone_record op" where
  "Service_UpdateRecord cl d recordID inp0 =
     (if recordID = [] then throw (ErrInvalidInput ''record ID is required'')
      else bnd (answer (UpdateRecordInput_Validate inp0)) (\<lambda>inp.
           bnd (resolveProvider cl d) (\<lambda>(p, zone).
             answer (cl_UpdateRecord p zone recordID (record_of inp)))))"

definition Service_DeleteRecord :: "clients \<Rightarrow> domain_row \<Rightarrow> string \<Rightarrow> unit op" where
  "Service_DeleteRecord cl d recordID =
     (if recordID = [] then throw (ErrInvalidInput ''record ID is required'')
      else bnd (resolveProvider cl d) (\<lambda>(p, zone). answer (cl_DeleteRecord p zone recordID)))"

section \<open>The local copy\<close>

definition live_record :: "int \<Rightarrow> dns_record_row \<Rightarrow> bool" where
  "live_record i r \<longleftrightarrow> dr_id r = i \<and> dr_deleted_at r = None"

definition DNSRecordStore_Create :: "dns_record_row \<Rightarrow> dns_record_row op" where
  "DNSRecordStore_Create r = asset_stmt (\<lambda>t a.
     let mk = (\<lambda>i. r\<lparr>dr_id := i, dr_updated_at := t, dr_deleted_at := None\<rparr>)
     in (Inr (mk (seq (domain_dns_records a) + 1)),
         a\<lparr>domain_dns_records := tbl_insert mk (domain_dns_records a)\<rparr>))"

definition DNSRecordStore_GetByID :: "int \<Rightarrow> dns_record_row op" where
  "DNSRecordStore_GetByID i =
     asset_get ErrDNSRecordNotFound (\<lambda>a. tbl_find (live_record i) (domain_dns_records a))"

text \<open>The order by type, then name, then id, as three stable sorts.\<close>

definition DNSRecordStore_ListByDomain :: "int \<Rightarrow> string \<Rightarrow> dns_record_row list op" where
  "DNSRecordStore_ListByDomain i recordType = asset_query (\<lambda>a.
     sort_key dr_record_type (sort_key dr_name (sort_key dr_id
       (tbl_select (\<lambda>r. dr_domain_id r = i \<and> dr_deleted_at r = None \<and>
          (recordType \<noteq> [] \<longrightarrow> dr_record_type r = recordType)) (domain_dns_records a)))))"

definition DNSRecordStore_Update :: "dns_record_row \<Rightarrow> dns_record_row op" where
  "DNSRecordStore_Update x = asset_stmt (\<lambda>t a.
     let upd = (\<lambda>r. r\<lparr>dr_content := dr_content x, dr_ttl := dr_ttl x, dr_priority := dr_priority x,
           dr_proxied := dr_proxied x, dr_provider_record_id := dr_provider_record_id x,
           dr_updated_at := t\<rparr>)
     in case tbl_find (live_record (dr_id x)) (domain_dns_records a) of
          None \<Rightarrow> (Inl ErrDNSRecordNotFound, a)
        | Some r \<Rightarrow> (Inr (upd r), a\<lparr>domain_dns_records :=
            tbl_update (live_record (dr_id x)) upd (domain_dns_records a)\<rparr>))"

definition drop_records :: "(dns_record_row \<Rightarrow> bool) \<Rightarrow> int \<Rightarrow> assets \<Rightarrow> assets" where
  "drop_records p t a = a\<lparr>domain_dns_records := tbl_update (\<lambda>r. p r \<and> dr_deleted_at r = None)
     (\<lambda>r. r\<lparr>dr_deleted_at := Some t, dr_updated_at := t\<rparr>) (domain_dns_records a)\<rparr>"

definition DNSRecordStore_SoftDelete :: "int \<Rightarrow> unit op" where
  "DNSRecordStore_SoftDelete i = asset_exec_unless
     (\<lambda>a. tbl_find (live_record i) (domain_dns_records a) = None) ErrDNSRecordNotFound
     (drop_records (\<lambda>r. dr_id r = i))"

definition UpsertByProviderID :: "dns_record_row \<Rightarrow> dns_record_row op" where
  "UpsertByProviderID x = on_conflict ''domain_dns_records'' [''domain_id'', ''provider_record_id'']
     (\<lambda>t a.
       let same = (\<lambda>r. dr_domain_id r = dr_domain_id x \<and> dr_deleted_at r = None \<and>
             dr_provider_record_id x \<noteq> None \<and> dr_provider_record_id r = dr_provider_record_id x);
           upd = (\<lambda>r. r\<lparr>dr_record_type := dr_record_type x, dr_name := dr_name x,
             dr_content := dr_content x, dr_ttl := dr_ttl x, dr_priority := dr_priority x,
             dr_proxied := dr_proxied x, dr_synced_at := Some t, dr_updated_at := t\<rparr>);
           mk = (\<lambda>i. x\<lparr>dr_id := i, dr_synced_at := Some t, dr_updated_at := t, dr_deleted_at := None\<rparr>)
       in case tbl_find same (domain_dns_records a) of
            Some r \<Rightarrow> (Inr (upd r), a\<lparr>domain_dns_records := tbl_update same upd (domain_dns_records a)\<rparr>)
          | None \<Rightarrow> (Inr (mk (seq (domain_dns_records a) + 1)),
              a\<lparr>domain_dns_records := tbl_insert mk (domain_dns_records a)\<rparr>))"

text \<open>\<open>NOT IN\<close> is not true of a row without a provider id, so such a row stays.\<close>

definition stale_record :: "int \<Rightarrow> string list \<Rightarrow> dns_record_row \<Rightarrow> bool" where
  "stale_record i keepIDs r \<longleftrightarrow> dr_domain_id r = i \<and> dr_deleted_at r = None \<and>
     (keepIDs = [] \<or> (\<exists>x \<in> set_option (dr_provider_record_id r). x \<notin> set keepIDs))"

definition DeleteByProviderIDs :: "int \<Rightarrow> string list \<Rightarrow> int op" where
  "DeleteByProviderIDs i keepIDs = asset_stmt (\<lambda>t a.
     (Inr (int (length (tbl_select (stale_record i keepIDs) (domain_dns_records a)))),
      drop_records (stale_record i keepIDs) t a))"

section \<open>Synchronisation\<close>

definition ptrInt :: "int \<Rightarrow> int option" where
  "ptrInt v = (if v = 0 then None else Some v)"

definition providerRecordToRow :: "int \<Rightarrow> int \<Rightarrow> zone_record \<Rightarrow> dns_record_row" where
  "providerRecordToRow domainID providerID rec = \<lparr>dr_id = 0, dr_domain_id = domainID,
     dr_dns_provider_id = Some providerID,
     dr_provider_record_id = (if zr_id rec \<noteq> [] then Some (zr_id rec) else None),
     dr_record_type = zr_type rec, dr_name = zr_name rec, dr_content = zr_content rec,
     dr_ttl = zr_ttl rec, dr_priority = (if zr_priority rec > 0 then ptrInt (zr_priority rec) else None),
     dr_proxied = zr_proxied rec, dr_synced_at = None, dr_updated_at = 0, dr_deleted_at = None\<rparr>"

record sync_result =
  sy_upserted :: int
  sy_deleted :: int

text \<open>The body of the loop: for a record that was stored, its provider id.\<close>

definition sync_record :: "domain_row \<Rightarrow> dns_provider_row \<Rightarrow> zone_record \<Rightarrow> string list op" where
  "sync_record d prov rec =
     bnd (attempt (UpsertByProviderID (providerRecordToRow (d_id d) (pv_id prov) rec))) (\<lambda>r. case r of
       Inl e \<Rightarrow> ret [] | Inr row \<Rightarrow> ret [zr_id rec])"

definition Sync :: "clients \<Rightarrow> domain_row \<Rightarrow> sync_result op" where
  "Sync cl d =
     bnd (resolveSync cl d) (\<lambda>(p, zone, prov).
     bnd (answer (cl_ListRecords p zone \<lparr>rf_type = [], rf_name = []\<rparr>)) (\<lambda>records.
     bnd (collect records (sync_record d prov)) (\<lambda>stored.
     bnd (attempt (DeleteByProviderIDs (d_id d) (filter (\<lambda>i. i \<noteq> []) stored))) (\<lambda>deleted.
       ret \<lparr>sy_upserted = int (length stored),
            sy_deleted = (case deleted of Inl e \<Rightarrow> 0 | Inr n \<Rightarrow> n)\<rparr>))))"

section \<open>Write-through changes\<close>

definition SyncService_CreateRecord :: "clients \<Rightarrow> domain_row \<Rightarrow> record_input \<Rightarrow> dns_record_row op" where
  "SyncService_CreateRecord cl d inp0 =
     bnd (answer (CreateRecordInput_Validate inp0)) (\<lambda>inp.
     bnd (resolveSync cl d) (\<lambda>(p, zone, prov).
     bnd (answer (cl_CreateRecord p zone (record_of inp))) (\<lambda>created.
       DNSRecordStore_Create (providerRecordToRow (d_id d) (pv_id prov) created))))"

definition provider_id :: "dns_record_row \<Rightarrow> string" where
  "provider_id r = (case dr_provider_record_id r of None \<Rightarrow> [] | Some i \<Rightarrow> i)"

definition apply_update :: "zone_record \<Rightarrow> dns_record_row \<Rightarrow> dns_record_row" where
  "apply_update u r = r\<lparr>dr_content := zr_content u, dr_ttl := zr_ttl u,
     dr_priority := ptrInt (zr_priority u), dr_proxied := zr_proxied u,
     dr_provider_record_id := (if zr_id u \<noteq> [] then Some (zr_id u) else dr_provider_record_id r)\<rparr>"

definition SyncService_UpdateRecord ::
    "clients \<Rightarrow> domain_row \<Rightarrow> int \<Rightarrow> record_input \<Rightarrow> dns_record_row op" where
  "SyncService_UpdateRecord cl d localID inp0 =
     bnd (answer (UpdateRecordInput_Validate inp0)) (\<lambda>inp.
     bnd (DNSRecordStore_GetByID localID) (\<lambda>existing.
       if dr_domain_id existing \<noteq> d_id d then throw ErrDNSRecordNotFound
       else bnd (resolveSync cl d) (\<lambda>(p, zone, prov).
            bnd (answer (cl_UpdateRecord p zone (provider_id existing) (record_of inp))) (\<lambda>updated.
              DNSRecordStore_Update (apply_update updated existing)))))"

definition SyncService_DeleteRecord :: "clients \<Rightarrow> domain_row \<Rightarrow> int \<Rightarrow> unit op" where
  "SyncService_DeleteRecord cl d localID =
     bnd (DNSRecordStore_GetByID localID) (\<lambda>existing.
       if dr_domain_id existing \<noteq> d_id d then throw ErrDNSRecordNotFound
       else bnd (resolveSync cl d) (\<lambda>(p, zone, prov).
            seq_eff (answer (cl_DeleteRecord p zone (provider_id existing)))
              (DNSRecordStore_SoftDelete localID)))"

definition batch_ids :: "domain_row \<Rightarrow> int \<Rightarrow> string list op" where
  "batch_ids d localID = bnd (attempt (DNSRecordStore_GetByID localID)) (\<lambda>r. case r of
       Inl e \<Rightarrow> ret []
     | Inr row \<Rightarrow> if dr_domain_id row \<noteq> d_id d then ret []
         else if provider_id row \<noteq> [] then ret [provider_id row] else ret [])"

definition batch_drop :: "int \<Rightarrow> unit list op" where
  "batch_drop localID = bnd (attempt (DNSRecordStore_SoftDelete localID)) (\<lambda>r. case r of
     Inl e \<Rightarrow> ret [] | Inr u \<Rightarrow> ret [u])"

definition BatchDelete :: "clients \<Rightarrow> domain_row \<Rightarrow> int list \<Rightarrow> int op" where
  "BatchDelete cl d localIDs =
     (if length localIDs = 0 then ret 0
      else bnd (resolveSync cl d) (\<lambda>(p, zone, prov).
           bnd (collect localIDs (batch_ids d)) (\<lambda>providerIDs.
             if length providerIDs = 0 then ret 0
             else seq_eff (answer (cl_BatchDeleteRecords p zone providerIDs))
                    (bnd (collect localIDs batch_drop) (\<lambda>deleted. ret (int (length deleted)))))))"

definition SyncService_ListRecords :: "domain_row \<Rightarrow> string \<Rightarrow> dns_record_row list op" where
  "SyncService_ListRecords d recordType = DNSRecordStore_ListByDomain (d_id d) (ToUpper recordType)"

section \<open>Outcomes under every schedule\<close>

text \<open>The client, zone and provider row that a domain is bound to.\<close>

definition bound :: "clients \<Rightarrow> domain_row \<Rightarrow> assets \<Rightarrow> (dns_client \<times> string \<times> dns_provider_row) option" where
  "bound cl d a = (case d_dns_provider_id d of None \<Rightarrow> None | Some i \<Rightarrow>
     (case tbl_find (live_provider i) (dns_providers a) of None \<Rightarrow> None | Some pv \<Rightarrow>
       (case cl (pv_provider_type pv) (pv_config pv) (pv_credentials pv) of None \<Rightarrow> None
        | Some p \<Rightarrow> Some (p, pc_zone_id (pv_config pv), pv))))"

lemma snap_ret [snap_rules]: "hoare (snap w0) (ret x) (\<lambda>y w. y = x \<and> snap w0 w) E"
  by (simp add: hoare_def)

lemma snap_throw: "hoare (snap w0) (throw e) Q (snap w0)"
  by (simp add: hoare_def)

lemma snap_resolveSync [snap_rules]:
  "hoare (snap w0) (resolveSync cl d) (\<lambda>x w. bound cl d (assets w0) = Some x \<and> snap w0 w) (snap w0)"
proof (cases "d_dns_provider_id d")
  case None
  then show ?thesis by (simp add: resolveSync_def snap_throw)
next
  case (Some i)
  show ?thesis
    unfolding resolveSync_def Some option.case DNSProviderStore_GetByID_def client_of_def
    by (rule hoare_step [OF snap_assets(2)], rule hoare_step [OF snap_answer])
      (auto simp: hoare_def bound_def Some extractZoneID_def split: option.splits)
qed

lemma snap_get_record [snap_rules]:
  "hoare (snap w0) (DNSRecordStore_GetByID i)
     (\<lambda>r w. tbl_find (live_record i) (domain_dns_records (assets w0)) = Some r \<and> snap w0 w) (snap w0)"
  unfolding DNSRecordStore_GetByID_def by (rule snap_rules)

lemma live_record_self: "tbl_find (live_record i) t = Some r \<Longrightarrow> dr_id r = i"
  unfolding tbl_find_def by (drule find_SomeD) (simp add: live_record_def)

lemma hoare_outcome:
  assumes "hoare (snap w) m Q (snap w)"
  shows "case result m w of Inl e \<Rightarrow> assets (final m w) = assets w | Inr a \<Rightarrow> Q a (final m w)"
  using snap_start [OF assms] by (auto dest: read_only_fields split: sum.splits)

text \<open>
  What a write-through change promises: the input was valid, the provider the domain is bound to
  accepted the change, and the local copy changed by exactly the row the provider returned.
\<close>

definition stored_row :: "domain_row \<Rightarrow> dns_provider_row \<Rightarrow> zone_record \<Rightarrow> int \<Rightarrow> int \<Rightarrow> dns_record_row" where
  "stored_row d pv rec t i = (providerRecordToRow (d_id d) (pv_id pv) rec)
     \<lparr>dr_id := i, dr_updated_at := t, dr_deleted_at := None\<rparr>"

definition create_spec ::
    "clients \<Rightarrow> domain_row \<Rightarrow> record_input \<Rightarrow> int \<Rightarrow> assets \<Rightarrow> dns_record_row \<Rightarrow> assets \<Rightarrow> bool" where
  "create_spec cl d inp0 t a row a' \<longleftrightarrow> (\<exists>inp p zone pv created.
     CreateRecordInput_Validate inp0 = Inr inp \<and> bound cl d a = Some (p, zone, pv) \<and>
     cl_CreateRecord p zone (record_of inp) = Inr created \<and>
     row = stored_row d pv created t (seq (domain_dns_records a) + 1) \<and>
     a' = a\<lparr>domain_dns_records := tbl_insert (stored_row d pv created t) (domain_dns_records a)\<rparr>)"

definition update_spec ::
    "clients \<Rightarrow> domain_row \<Rightarrow> int \<Rightarrow> record_input \<Rightarrow> int \<Rightarrow> assets \<Rightarrow> dns_record_row \<Rightarrow> assets \<Rightarrow> bool" where
  "update_spec cl d i inp0 t a row a' \<longleftrightarrow> (\<exists>inp p zone pv old updated.
     UpdateRecordInput_Validate inp0 = Inr inp \<and> bound cl d a = Some (p, zone, pv) \<and>
     tbl_find (live_record i) (domain_dns_records a) = Some old \<and> dr_domain_id old = d_id d \<and>
     cl_UpdateRecord p zone (provider_id old) (record_of inp) = Inr updated \<and>
     row = (apply_update updated old)\<lparr>dr_updated_at := t\<rparr> \<and>
     a' = a\<lparr>domain_dns_records := tbl_update (live_record i)
       (\<lambda>r. r\<lparr>dr_content := zr_content updated, dr_ttl := zr_ttl updated,
          dr_priority := ptrInt (zr_priority updated), dr_proxied := zr_proxied updated,
          dr_provider_record_id := dr_provider_record_id row, dr_updated_at := t\<rparr>)
       (domain_dns_records a)\<rparr>)"

definition delete_spec :: "clients \<Rightarrow> domain_row \<Rightarrow> int \<Rightarrow> int \<Rightarrow> assets \<Rightarrow> assets \<Rightarrow> bool" where
  "delete_spec cl d i t a a' \<longleftrightarrow> (\<exists>p zone pv old.
     bound cl d a = Some (p, zone, pv) \<and>
     tbl_find (live_record i) (domain_dns_records a) = Some old \<and> dr_domain_id old = d_id d \<and>
     cl_DeleteRecord p zone (provider_id old) = Inr () \<and> a' = drop_records (\<lambda>r. dr_id r = i) t a)"

lemma create_outcome:
  "hoare (snap w) (SyncService_CreateRecord cl d inp0)
     (\<lambda>row w'. create_spec cl d inp0 (now w) (assets w) row (assets w')) (snap w)"
  unfolding SyncService_CreateRecord_def
proof (rule hoare_step [OF snap_answer], rule hoare_step [OF snap_resolveSync], clarsimp,
    rule hoare_step [OF snap_answer])
  fix inp p zone pv created
  assume "CreateRecordInput_Validate inp0 = Inr inp" "bound cl d (assets w) = Some (p, zone, pv)"
    "cl_CreateRecord p zone (record_of inp) = Inr created"
  then show "hoare (snap w) (DNSRecordStore_Create (providerRecordToRow (d_id d) (pv_id pv) created))
     (\<lambda>row w'. create_spec cl d inp0 (now w) (assets w) row (assets w')) (snap w)"
    unfolding DNSRecordStore_Create_def Let_def create_spec_def
    by (intro hoare_post [OF snap_asset_stmt])
      (auto dest: read_only_fields simp: stored_row_def [abs_def])
qed

lemma update_outcome:
  "hoare (snap w) (SyncService_UpdateRecord cl d i inp0)
     (\<lambda>row w'. update_spec cl d i inp0 (now w) (assets w) row (assets w')) (snap w)"
  unfolding SyncService_UpdateRecord_def
proof (rule hoare_step [OF snap_answer], rule hoare_step [OF snap_get_record], rule hoare_if,
    rule snap_throw, rule hoare_step [OF snap_resolveSync], clarsimp, rule hoare_step [OF snap_answer])
  fix inp old p zone pv updated
  assume a: "UpdateRecordInput_Validate inp0 = Inr inp" "bound cl d (assets w) = Some (p, zone, pv)"
    "tbl_find (live_record i) (domain_dns_records (assets w)) = Some old" "dr_domain_id old = d_id d"
    "cl_UpdateRecord p zone (provider_id old) (record_of inp) = Inr updated"
  have "dr_id (apply_update updated old) = i"
    using live_record_self [OF a(3)] by (simp add: apply_update_def)
  with a show "hoare (snap w) (DNSRecordStore_Update (apply_update updated old))
     (\<lambda>row w'. update_spec cl d i inp0 (now w) (assets w) row (assets w')) (snap w)"
    unfolding DNSRecordStore_Update_def Let_def update_spec_def
    by (intro hoare_post [OF snap_asset_stmt]) (auto dest: read_only_fields simp: apply_update_def)
qed

lemma delete_outcome:
  "hoare (snap w) (SyncService_DeleteRecord cl d i)
     (\<lambda>_ w'. delete_spec cl d i (now w) (assets w) (assets w')) (snap w)"
  unfolding SyncService_DeleteRecord_def
proof (rule hoare_step [OF snap_get_record], rule hoare_if, rule snap_throw,
    rule hoare_step [OF snap_resolveSync], clarsimp, rule hoare_stepU [OF snap_answer])
  fix old p zone pv and u :: unit
  assume "bound cl d (assets w) = Some (p, zone, pv)" "dr_domain_id old = d_id d"
    "tbl_find (live_record i) (domain_dns_records (assets w)) = Some old"
    "cl_DeleteRecord p zone (provider_id old) = Inr u"
  then show "hoare (snap w) (DNSRecordStore_SoftDelete i)
     (\<lambda>_ w'. delete_spec cl d i (now w) (assets w) (assets w')) (snap w)"
    unfolding DNSRecordStore_SoftDelete_def delete_spec_def
    by (intro hoare_post [OF snap_asset_exec_unless]) (auto dest: read_only_fields)
qed


section \<open>What synchronisation does\<close>

lemma Upsert_fails:
  "\<exists>e. result (UpsertByProviderID x) w = Inl e" "read_only w (final (UpsertByProviderID x) w)"
proof -
  have key: "(''domain_dns_records'', [''domain_id'', ''provider_record_id'']) \<notin> set unique_keys"
    by (simp add: unique_keys_def)
  show "\<exists>e. result (UpsertByProviderID x) w = Inl e" "read_only w (final (UpsertByProviderID x) w)"
    unfolding UpsertByProviderID_def on_conflict_def if_not_P [OF key] asset_stmt_def
    by (simp_all add: result_stmt final_stmt split: list.split)
      (auto simp: result_def final_def read_only_def split: list.split)
qed

lemma sync_record_nothing:
  "result (sync_record d prov rec) w = Inr []" "read_only w (final (sync_record d prov rec) w)"
  using Upsert_fails [where x = "providerRecordToRow (d_id d) (pv_id prov) rec" and w = w]
  by (auto simp: sync_record_def eff_run)

lemma collect_nothing:
  assumes "\<And>x w. result (f x) w = Inr []" and "\<And>x w. read_only w (final (f x) w)"
  shows "result (collect xs f) w = Inr []" and "read_only w (final (collect xs f) w)"
proof (induction xs arbitrary: w)
  case (Cons x xs)
  {
    case 1
    show ?case using Cons assms(1) by (simp add: eff_run)
  next
    case 2
    have "read_only w (final (collect xs f) (final (f x) w))"
      using assms(2) Cons(2) by (rule ro.R_trans)
    then show ?case using Cons(1) assms(1) by (simp add: eff_run)
  }
qed (simp_all add: ro.R_refl)

lemma calm_read_only: "faults w = [] \<Longrightarrow> read_only w w' \<Longrightarrow> faults w' = [] \<Longrightarrow> w' = w"
  by (metis read_onlyD world_faults_Nil)

lemma calm_asset_stmt [eff_intro]: "keeps calm_step (asset_stmt m)"
proof -
  have "keeps calm_step (\<lambda>w. case m (now w) (assets w) of (r, a) \<Rightarrow> (r, w\<lparr>assets := a\<rparr>))"
    by (auto simp: keeps_def calm_step_def final_def split: prod.split)
  then show ?thesis unfolding asset_stmt_def by (rule calm_stmt)
qed

lemma calm_sync: "faults w = [] \<Longrightarrow> faults (final (collect rs (sync_record d prov)) w) = []"
proof -
  have "keeps calm_step (collect rs (sync_record d prov))"
    unfolding sync_record_def UpsertByProviderID_def on_conflict_def by (intro eff_intro)
  then show "faults w = [] \<Longrightarrow> faults (final (collect rs (sync_record d prov)) w) = []"
    by (auto simp: keeps_def calm_step_def)
qed

lemma resolve_calm:
  assumes "faults w = []" and "bound cl d (assets w) = Some x"
  shows "result (resolveSync cl d) w = Inr x" and "final (resolveSync cl d) w = w"
  using assms
  by (auto simp: bound_def resolveSync_def DNSProviderStore_GetByID_def client_of_def eff_run
      extractZoneID_def split: option.splits)

definition of_domain :: "domain_row \<Rightarrow> dns_record_row \<Rightarrow> bool" where
  "of_domain d r \<longleftrightarrow> dr_domain_id r = d_id d \<and> dr_deleted_at r = None"

definition local_records :: "world \<Rightarrow> dns_record_row list" where
  "local_records w = rows (domain_dns_records (assets w))"

lemma local_records_drop:
  "local_records (w\<lparr>assets := drop_records p t (assets w)\<rparr>) =
     map (\<lambda>r. if p r \<and> dr_deleted_at r = None then r\<lparr>dr_deleted_at := Some t, dr_updated_at := t\<rparr> else r)
       (local_records w)"
  by (simp add: local_records_def drop_records_def tbl_update_def)

text \<open>
  C25: Synchronising a domain empties its local copy: every record that the provider lists fails to
  be stored, because no unique constraint matches the one its statement names, so none counts
  as seen and all live records of the domain are soft-deleted; the method reports success.
\<close>

theorem Sync_discards_every_record:
  assumes "faults w = []" and "bound cl d (assets w) = Some (p, zone, pv)"
    and "cl_ListRecords p zone \<lparr>rf_type = [], rf_name = []\<rparr> = Inr records"
  shows "result (Sync cl d) w =
      Inr \<lparr>sy_upserted = 0, sy_deleted = int (length (filter (of_domain d) (local_records w)))\<rparr> \<and>
    filter (of_domain d) (local_records (final (Sync cl d) w)) = [] \<and>
    {r \<in> set (local_records w). \<not> of_domain d r} \<subseteq> set (local_records (final (Sync cl d) w))"
proof -
  let ?m = "collect records (sync_record d pv)"
  have ro: "result ?m w = Inr []" "read_only w (final ?m w)"
    using collect_nothing [of "sync_record d pv", OF sync_record_nothing] by blast+
  have m: "final ?m w = w"
    by (rule calm_read_only [OF assms(1) ro(2) calm_sync [OF assms(1)]])
  let ?w = "w\<lparr>assets := drop_records (stale_record (d_id d) []) (now w) (assets w)\<rparr>"
  have stale: "stale_record (d_id d) [] = of_domain d"
    by (simp add: stale_record_def of_domain_def fun_eq_iff)
  have run: "result (Sync cl d) w =
      Inr \<lparr>sy_upserted = 0, sy_deleted = int (length (filter (of_domain d) (local_records w)))\<rparr>"
    "final (Sync cl d) w = ?w"
    using assms ro(1) m resolve_calm [OF assms(1,2)]
    by (simp_all add: Sync_def eff_run DeleteByProviderIDs_def stale tbl_select_def local_records_def)
  have "filter (of_domain d) (local_records ?w) = []"
    by (auto simp: local_records_drop filter_empty_conv stale of_domain_def)
  moreover have "{r \<in> set (local_records w). \<not> of_domain d r} \<subseteq> set (local_records ?w)"
    by (force simp: local_records_drop stale of_domain_def image_iff)
  ultimately show ?thesis by (simp add: run)
qed

section \<open>What a batch deletes\<close>

lemma tbl_update_twice:
  assumes "\<And>r. \<not> q (f r)"
  shows "tbl_update q f (tbl_update p f t) = tbl_update (\<lambda>r. p r \<or> q r) f t"
  using assms by (auto simp: tbl_update_def)

lemma drop_records_twice:
  "drop_records (\<lambda>r. dr_id r \<in> I) t (drop_records (\<lambda>r. dr_id r = i) t a) =
     drop_records (\<lambda>r. dr_id r \<in> insert i I) t a"
  by (simp add: drop_records_def tbl_update_twice conj_disj_distribR)

lemma drop_records_none:
  assumes "tbl_find (live_record i) (domain_dns_records a) = None"
  shows "drop_records (\<lambda>r. dr_id r = i) t a = a"
proof -
  have "map (\<lambda>r. if dr_id r = i \<and> dr_deleted_at r = None then f r else r) (rows (domain_dns_records a)) =
      rows (domain_dns_records a)" for f
    using assms by (intro map_idI) (auto simp: tbl_find_def live_record_def find_None_iff)
  then show ?thesis by (simp add: drop_records_def tbl_update_def)
qed

lemma batch_drop_calm:
  assumes "faults w = []"
  shows "\<exists>us. result (batch_drop i) w = Inr us"
    and "final (batch_drop i) w = w\<lparr>assets := drop_records (\<lambda>r. dr_id r = i) (now w) (assets w)\<rparr>"
  using assms by (auto simp: batch_drop_def DNSRecordStore_SoftDelete_def eff_run drop_records_none)

lemma collect_batch_drop:
  assumes "faults w = []"
  shows "(\<exists>us. result (collect ids batch_drop) w = Inr us) \<and> final (collect ids batch_drop) w =
    w\<lparr>assets := drop_records (\<lambda>r. dr_id r \<in> set ids) (now w) (assets w)\<rparr>"
  using assms
proof (induction ids arbitrary: w)
  case Nil
  have "drop_records (\<lambda>r. False) t a = a" for t a by (simp add: drop_records_def tbl_update_def)
  then show ?case by simp
next
  case (Cons i ids)
  let ?w = "w\<lparr>assets := drop_records (\<lambda>r. dr_id r = i) (now w) (assets w)\<rparr>"
  obtain us where us: "result (batch_drop i) w = Inr us" using batch_drop_calm(1) [OF Cons.prems] ..
  have "faults ?w = []" using Cons.prems by simp
  from Cons.IH [OF this] batch_drop_calm(2) [OF Cons.prems] us show ?case
    by (auto simp: eff_run drop_records_twice)
qed

lemma batch_ids_calm:
  assumes "faults w = []"
  shows "result (batch_ids d i) w = Inr (case tbl_find (live_record i) (domain_dns_records (assets w)) of
      None \<Rightarrow> [] | Some r \<Rightarrow> if dr_domain_id r = d_id d \<and> provider_id r \<noteq> [] then [provider_id r] else [])"
    and "final (batch_ids d i) w = w"
  using assms by (auto simp: batch_ids_def DNSRecordStore_GetByID_def eff_run split: option.split)

definition batch_provider_ids :: "domain_row \<Rightarrow> assets \<Rightarrow> int list \<Rightarrow> string list" where
  "batch_provider_ids d a ids = concat (map (\<lambda>i. case tbl_find (live_record i) (domain_dns_records a) of
      None \<Rightarrow> [] | Some r \<Rightarrow> if dr_domain_id r = d_id d \<and> provider_id r \<noteq> [] then [provider_id r] else []) ids)"

lemma collect_batch_ids:
  assumes "faults w = []"
  shows "result (collect ids (batch_ids d)) w = Inr (batch_provider_ids d (assets w) ids) \<and>
    final (collect ids (batch_ids d)) w = w"
  using batch_ids_calm [OF assms] by (induction ids) (auto simp: eff_run batch_provider_ids_def)

text \<open>
  A batch deletion asks the provider only for the records of the domain, but then soft-deletes
  every listed record locally, also those of other domains and those the provider does not
  know: as soon as one listed record qualifies, no row with a listed id stays live, and all
  other rows keep as they are.
\<close>

theorem BatchDelete_drops_all_listed:
  assumes "faults w = []" and "bound cl d (assets w) = Some (p, zone, pv)"
    and "batch_provider_ids d (assets w) ids \<noteq> []"
    and "cl_BatchDeleteRecords p zone (batch_provider_ids d (assets w) ids) = Inr ()"
  shows "(\<exists>n. result (BatchDelete cl d ids) w = Inr n) \<and>
    local_records (final (BatchDelete cl d ids) w) =
      map (\<lambda>r. if dr_id r \<in> set ids \<and> dr_deleted_at r = None
               then r\<lparr>dr_deleted_at := Some (now w), dr_updated_at := now w\<rparr> else r) (local_records w)"
proof -
  have "ids \<noteq> []" using assms(3) by (auto simp: batch_provider_ids_def)
  with assms collect_batch_ids [OF assms(1), of ids d] collect_batch_drop [OF assms(1), of ids]
    resolve_calm [OF assms(1,2)]
  have "(\<exists>n. result (BatchDelete cl d ids) w = Inr n) \<and> final (BatchDelete cl d ids) w =
      w\<lparr>assets := drop_records (\<lambda>r. dr_id r \<in> set ids) (now w) (assets w)\<rparr>"
    by (auto simp: BatchDelete_def eff_run)
  then show ?thesis by (simp add: local_records_drop)
qed

section \<open>An example\<close>

text \<open>A domain with one record, a record of another domain, and a provider that accepts everything.\<close>

definition obliging_client :: "zone_record list \<Rightarrow> dns_client" where
  "obliging_client zs = \<lparr>cl_ListRecords = (\<lambda>_ _. Inr zs), cl_CreateRecord = (\<lambda>_ r. Inr (r\<lparr>zr_id := ''new''\<rparr>)),
     cl_UpdateRecord = (\<lambda>_ i r. Inr (r\<lparr>zr_id := i\<rparr>)), cl_DeleteRecord = (\<lambda>_ _. Inr ()),
     cl_BatchDeleteRecords = (\<lambda>_ _. Inr ()), cl_GetNameservers = (\<lambda>_. Inr [''ns1.example.net''])\<rparr>"

definition example_record :: zone_record where
  "example_record = \<lparr>zr_id = ''p1'', zr_type = ''A'', zr_name = ''a.com'', zr_content = ''192.0.2.1'',
     zr_ttl = 300, zr_priority = 0, zr_proxied = False, zr_extra = []\<rparr>"

definition example_clients :: clients where
  "example_clients t c k = (if t = ''cloudflare'' then Some (obliging_client [example_record]) else None)"

definition example_provider :: dns_provider_row where
  "example_provider = \<lparr>pv_id = 1, pv_name = ''main'', pv_provider_type = ''cloudflare'',
     pv_config = \<lparr>pc_zone_id = ''z1'', pc_safety = None\<rparr>, pv_credentials = [], pv_notes = None, pv_deleted_at = None\<rparr>"

definition example_domain :: domain_row where
  "example_domain = domain_of_input \<lparr>ri_project_id = 1, ri_fqdn = ''a.com'', ri_owner_user_id = None,
     ri_dns_provider_id = Some 1, ri_registrar_account_id = None, ri_cdn_account_id = None,
     ri_origin_ips = [], ri_registration_date = None, ri_expiry_date = None, ri_auto_renew = False,
     ri_annual_cost = None, ri_currency = None, ri_purpose = None, ri_notes = None, ri_triggered_by = ''user:1''\<rparr>
     \<lparr>d_id := 1\<rparr>"

definition example_row :: "int \<Rightarrow> int \<Rightarrow> dns_record_row" where
  "example_row i j = (providerRecordToRow j 1 example_record)\<lparr>dr_id := i\<rparr>"

definition records_world :: world where
  "records_world = empty_world\<lparr>now := 50, domains := \<lparr>rows = [example_domain], seq = 1\<rparr>,
     assets := empty_assets\<lparr>dns_providers := \<lparr>rows = [example_provider], seq = 1\<rparr>,
       domain_dns_records := \<lparr>rows = [example_row 1 1, example_row 2 7], seq = 2\<rparr>\<rparr>\<rparr>"

lemma records_world_facts: "faults records_world = []" "now records_world = 50"
  "bound example_clients example_domain (assets records_world) =
     Some (obliging_client [example_record], ''z1'', example_provider)"
  "local_records records_world = [example_row 1 1, example_row 2 7]"
  "batch_provider_ids example_domain (assets records_world) [1, 2] = [''p1'']"
  by (simp_all add: records_world_def empty_world_def bound_def example_domain_def domain_of_input_def
      tbl_find_def live_provider_def example_provider_def example_clients_def local_records_def
      batch_provider_ids_def live_record_def example_row_def providerRecordToRow_def example_record_def
      provider_id_def)

theorem Sync_discards_every_record_witness:
  "result (Sync example_clients example_domain) records_world = Inr \<lparr>sy_upserted = 0, sy_deleted = 1\<rparr>"
  using Sync_discards_every_record [OF records_world_facts(1,3), of "[example_record]"]
  by (simp add: records_world_facts obliging_client_def of_domain_def example_row_def
      providerRecordToRow_def example_domain_def)

theorem BatchDelete_drops_all_listed_witness:
  "map dr_deleted_at (local_records (final (BatchDelete example_clients example_domain [1, 2]) records_world)) =
     [Some 50, Some 50] \<and> map dr_domain_id (local_records records_world) = [1, 7]"
  using BatchDelete_drops_all_listed [OF records_world_facts(1,3), of "[1, 2]"]
  by (simp add: records_world_facts obliging_client_def example_row_def providerRecordToRow_def)

end
