(* ===== verification/Dns_Delegation.thy ===== *)
theory Dns_Delegation
  imports Dns_Records
begin

text \<open>
  internal/dnsrecord/binding.go, ns\_checker.go and ns\_task.go over the delegation columns of
  store/postgres/domain.go: binding a domain to a DNS provider and watching its name servers
  until they are the ones of the provider. The resolver and the notifier are parameters: \<open>lookupNS\<close>
  answers with the hosts of the NS records or fails, \<open>send\<close> succeeds or not. A handler returns the
  message it gave to the notifier, if it did.
\<close>

section \<open>The delegation columns\<close>

definition UpdateNSDelegation :: "int \<Rightarrow> string \<Rightarrow> string list \<Rightarrow> unit op" where
  "UpdateNSDelegation i status actual = exec (\<lambda>w. w\<lparr>domains := tbl_update (live_domain i)
     (\<lambda>r. r\<lparr>d_ns_delegation_status := status, d_ns_actual := actual, d_ns_last_checked_at := Some (now w),
            d_ns_verified_at := (if status = ''verified'' then Some (now w) else d_ns_verified_at r),
            d_updated_at := now w\<rparr>) (domains w)\<rparr>)"

definition SetNSDelegationPending :: "int \<Rightarrow> unit op" where
  "SetNSDelegationPending i = exec (\<lambda>w. w\<lparr>domains := tbl_update (live_domain i)
     (\<lambda>r. r\<lparr>d_ns_delegation_status := ''pending'', d_ns_actual := [], d_ns_verified_at := None,
            d_ns_last_checked_at := None, d_updated_at := now w\<rparr>) (domains w)\<rparr>)"

definition pending_ns :: "domain_row \<Rightarrow> bool" where
  "pending_ns d \<longleftrightarrow> d_deleted_at d = None \<and> d_dns_provider_id d \<noteq> None \<and>
     (d_ns_delegation_status d = ''pending'' \<or> d_ns_delegation_status d = ''mismatch'')"

definition ListWithPendingNS :: "domain_row list op" where
  "ListWithPendingNS = query (\<lambda>w. sort_key d_id (tbl_select pending_ns (domains w)))"

section \<open>Binding\<close>

record binding_status =
  bs_dns_provider_id :: "int option"
  bs_ns_delegation_status :: string
  bs_expected_nameservers :: "string list"
  bs_actual_nameservers :: "string list"
  bs_ns_verified_at :: "int option"
  bs_ns_last_checked_at :: "int option"

text \<open>Every caller goes on with the empty list when the provider fails.\<close>

definition fetchExpectedNS :: "dns_client \<Rightarrow> string \<Rightarrow> string list" where
  "fetchExpectedNS p fqdn = (case cl_GetNameservers p fqdn of Inl e \<Rightarrow> [] | Inr ns \<Rightarrow> ns)"

definition BindDNSProvider :: "clients \<Rightarrow> domain_row \<Rightarrow> int \<Rightarrow> binding_status op" where
  "BindDNSProvider cl d providerID =
     bnd (attempt (DNSProviderStore_GetByID providerID)) (\<lambda>r. case r of
       Inl e \<Rightarrow> throw (if e = ErrDNSProviderNotFound then ErrProviderNotFound else e)
     | Inr provider \<Rightarrow>
         bnd (client_of cl provider) (\<lambda>p.
         seq_eff (UpdateAssetFields (d\<lparr>d_dns_provider_id := Some providerID\<rparr>))
        (seq_eff (SetNSDelegationPending (d_id d))
           (ret \<lparr>bs_dns_provider_id = Some providerID, bs_ns_delegation_status = ''pending'',
              bs_expected_nameservers = fetchExpectedNS p (d_fqdn d), bs_actual_nameservers = [],
              bs_ns_verified_at = None, bs_ns_last_checked_at = None\<rparr>))))"

definition UnbindDNSProvider :: "domain_row \<Rightarrow> unit op" where
  "UnbindDNSProvider d =
     seq_eff (UpdateAssetFields (d\<lparr>d_dns_provider_id := None\<rparr>))
       (UpdateNSDelegation (d_id d) ''unset'' [])"

text \<open>The two times are formatted by the code; the model keeps them as they are.\<close>

definition GetBindingStatus :: "clients \<Rightarrow> domain_row \<Rightarrow> binding_status op" where
  "GetBindingStatus cl d =
     (let status = (\<lambda>expected. \<lparr>bs_dns_provider_id = d_dns_provider_id d,
            bs_ns_delegation_status = d_ns_delegation_status d, bs_expected_nameservers = expected,
            bs_actual_nameservers = d_ns_actual d, bs_ns_verified_at = d_ns_verified_at d,
            bs_ns_last_checked_at = d_ns_last_checked_at d\<rparr>)
      in case d_dns_provider_id d of
           None \<Rightarrow> ret (status [])
         | Some i \<Rightarrow>
             bnd (attempt (bnd (DNSProviderStore_GetByID i) (client_of cl))) (\<lambda>r. case r of
               Inl e \<Rightarrow> ret (status [])
             | Inr p \<Rightarrow> ret (status (fetchExpectedNS p (d_fqdn d)))))"

section \<open>The check\<close>

definition normaliseNS :: "string \<Rightarrow> string" where
  "normaliseNS ns = ToLower (TrimSuffix (TrimSpace ns) ''.'')"

definition normaliseNSList :: "string list \<Rightarrow> string list" where
  "normaliseNSList ns = sort (filter (\<lambda>n. n \<noteq> []) (map normaliseNS ns))"

fun same_entries :: "string list \<Rightarrow> string list \<Rightarrow> bool" where
  "same_entries [] actual \<longleftrightarrow> True"
| "same_entries (e # es) [] \<longleftrightarrow> False"
| "same_entries (e # es) (a # as) \<longleftrightarrow> (if e \<noteq> a then False else same_entries es as)"

definition nsListsMatch :: "string list \<Rightarrow> string list \<Rightarrow> bool" where
  "nsListsMatch expected actual =
     (if length expected = 0 then False
      else if length expected \<noteq> length actual then False
      else same_entries expected actual)"

record ns_check_result =
  nr_status :: string
  nr_actual :: "string list"
  nr_expected :: "string list"

definition CheckNSDelegation ::
    "(string \<Rightarrow> string list option) \<Rightarrow> string \<Rightarrow> string list \<Rightarrow> ns_check_result" where
  "CheckNSDelegation lookupNS domain expectedNS =
     (let expected = normaliseNSList expectedNS in
      case lookupNS domain of
        None \<Rightarrow> \<lparr>nr_status = ''error'', nr_actual = [], nr_expected = expected\<rparr>
      | Some hosts \<Rightarrow>
          let actual = sort (map normaliseNS hosts) in
          \<lparr>nr_status = (if nsListsMatch expected actual then ''verified'' else ''mismatch''),
             nr_actual = actual, nr_expected = expected\<rparr>)"

section \<open>The tasks\<close>

definition enqueue_ns_check :: "clients \<Rightarrow> domain_row \<Rightarrow> unit op" where
  "enqueue_ns_check cl d = (case d_dns_provider_id d of
       None \<Rightarrow> ret ()
     | Some i \<Rightarrow>
         bnd (attempt (bnd (DNSProviderStore_GetByID i) (client_of cl))) (\<lambda>r.
           ignore (enqueue (NSCheckJob (d_id d) (d_fqdn d) i
             (case r of Inl e \<Rightarrow> [] | Inr p \<Rightarrow> fetchExpectedNS p (d_fqdn d))) 2 30 ''default'' 0)))"

definition HandleNSCheckAll :: "clients \<Rightarrow> unit op" where
  "HandleNSCheckAll cl = bnd ListWithPendingNS (\<lambda>ds.
     if length ds = 0 then ret () else for_each ds (enqueue_ns_check cl))"

definition nsMismatchStartKey :: "int \<Rightarrow> string" where
  "nsMismatchStartKey i = ''ns:mismatch:start:'' @ show_int i"

definition nsMismatchAlertedKey :: "int \<Rightarrow> string" where
  "nsMismatchAlertedKey i = ''ns:mismatch:alerted:'' @ show_int i"

text \<open>Both marks fail open: when Redis does not answer they count as newly set.\<close>

definition trySetMismatchStart :: "int \<Rightarrow> bool op" where
  "trySetMismatchStart i = bnd (attempt (SetNX (nsMismatchStartKey i) (\<lambda>t. t) (7 * 24 * 3600)))
     (\<lambda>r. case r of Inl e \<Rightarrow> ret True | Inr ok \<Rightarrow> ret ok)"

definition trySetMismatchAlerted :: "int \<Rightarrow> bool op" where
  "trySetMismatchAlerted i = bnd (attempt (SetNX (nsMismatchAlertedKey i) (\<lambda>_. 1) 3600))
     (\<lambda>r. case r of Inl e \<Rightarrow> ret True | Inr ok \<Rightarrow> ret ok)"

definition mismatchAge :: "int \<Rightarrow> int op" where
  "mismatchAge i = bnd (attempt (GetMark (nsMismatchStartKey i))) (\<lambda>r. case r of
       Inl e \<Rightarrow> ret 0
     | Inr v \<Rightarrow> (case v of None \<Rightarrow> ret 0 | Some ts \<Rightarrow> gets (\<lambda>w. now w - ts)))"

definition clearMismatchAlerted :: "int \<Rightarrow> unit op" where
  "clearMismatchAlerted i = ignore (DelMarks [nsMismatchAlertedKey i, nsMismatchStartKey i])"

record ns_message =
  nm_fqdn :: string
  nm_expected :: "string list"
  nm_actual :: "string list"

definition send_mismatch :: "(ns_message \<Rightarrow> bool) \<Rightarrow> int \<Rightarrow> ns_message \<Rightarrow> ns_message option op" where
  "send_mismatch send i msg =
     (if \<not> send msg then seq_eff (clearMismatchAlerted i) (ret (Some msg)) else ret (Some msg))"

definition HandleNSCheck ::
    "(string \<Rightarrow> string list option) \<Rightarrow> (ns_message \<Rightarrow> bool) \<Rightarrow> int \<Rightarrow> string \<Rightarrow> string list \<Rightarrow> ns_message option op"
  where
  "HandleNSCheck lookupNS send i fqdn expectedNS =
     (let res = CheckNSDelegation lookupNS fqdn expectedNS in
      if nr_status res = ''error''
      then seq_eff (ignore (UpdateNSDelegation i ''mismatch'' [])) (ret None)
      else seq_eff (UpdateNSDelegation i (nr_status res) (nr_actual res))
       (if nr_status res = ''verified'' then seq_eff (clearMismatchAlerted i) (ret None)
        else bnd (attempt (DomainStore_GetByID i)) (\<lambda>r. case r of
            Inl e \<Rightarrow> ret None
          | Inr domain \<Rightarrow>
              bnd (gets now) (\<lambda>t.
              bnd (trySetMismatchStart i) (\<lambda>fresh.
              bnd (if \<not> fresh then mismatchAge i else ret (t - d_created_at domain)) (\<lambda>age.
                if age < 24 * 3600 then ret None
                else bnd (trySetMismatchAlerted i) (\<lambda>first.
                  if \<not> first then ret None
                  else send_mismatch send i
                    \<lparr>nm_fqdn = fqdn, nm_expected = expectedNS, nm_actual = nr_actual res\<rparr>)))))))"

section \<open>What a check decides\<close>

lemma same_entries_eq: "length xs = length ys \<Longrightarrow> same_entries xs ys \<longleftrightarrow> xs = ys"
  by (induction xs ys rule: same_entries.induct) auto

lemma sort_eq_iff: "sort xs = sort ys \<longleftrightarrow> mset xs = mset ys" for xs :: "'a::linorder list"
  by (metis mset_sort properties_for_sort sorted_sort)

lemma nsListsMatch_sort:
  "nsListsMatch (sort xs) (sort ys) \<longleftrightarrow> xs \<noteq> [] \<and> mset xs = mset ys"
proof -
  have "mset xs = mset ys \<Longrightarrow> length xs = length ys" by (rule mset_eq_length)
  then show ?thesis
    by (auto simp: nsListsMatch_def same_entries_eq sort_eq_iff)
qed

text \<open>
  A delegation check says verified exactly when the live name servers are, counted with
  repetitions and after normalisation, the expected ones that are not empty, and there is at
  least one; a failed look-up is an error and everything else a mismatch. So a live set that
  contains every expected server and one more is a mismatch.
\<close>

theorem CheckNSDelegation_exact:
  "nr_status (CheckNSDelegation lookupNS fqdn expected) = (case lookupNS fqdn of
      None \<Rightarrow> ''error''
    | Some hosts \<Rightarrow>
        if filter (\<lambda>n. n \<noteq> []) (map normaliseNS expected) \<noteq> [] \<and>
          mset (map normaliseNS hosts) = mset (filter (\<lambda>n. n \<noteq> []) (map normaliseNS expected))
        then ''verified'' else ''mismatch'')"
  by (auto simp: CheckNSDelegation_def normaliseNSList_def nsListsMatch_sort Let_def split: option.split)

section \<open>Marks that space out alerts\<close>

lemma trySet_calm:
  assumes "faults w = []"
  shows "result (trySetMismatchStart i) w = Inr (mark_live (now w) (redis_marks (assets w)) (nsMismatchStartKey i) = None)"
    and "result (trySetMismatchAlerted i) w = Inr (mark_live (now w) (redis_marks (assets w)) (nsMismatchAlertedKey i) = None)"
  using assms by (simp_all add: trySetMismatchStart_def trySetMismatchAlerted_def SetNX_def eff_run)

lemma trySet_final:
  assumes "faults w = []"
  shows "final (trySetMismatchStart i) w =
      (if mark_live (now w) (redis_marks (assets w)) (nsMismatchStartKey i) = None
       then w\<lparr>assets := (assets w)\<lparr>redis_marks :=
         put_mark (nsMismatchStartKey i) (now w) (now w + 604800) (redis_marks (assets w))\<rparr>\<rparr> else w)"
  using assms by (simp add: trySetMismatchStart_def SetNX_def eff_run)

lemma send_mismatch_result: "result (send_mismatch send i msg) w = Inr (Some msg)"
  by (simp add: send_mismatch_def clearMismatchAlerted_def eff_run)

lemma ns_keys_differ: "nsMismatchStartKey i \<noteq> nsMismatchAlertedKey j"
  by (simp add: nsMismatchStartKey_def nsMismatchAlertedKey_def)

lemma UpdateNS_find:
  "tbl_find (live_domain i) (domains (w\<lparr>domains := tbl_update (live_domain i) (\<lambda>r. r\<lparr>d_ns_delegation_status := st,
     d_ns_actual := ac, d_ns_last_checked_at := lc, d_ns_verified_at := f r, d_updated_at := u\<rparr>) (domains w)\<rparr>)) =
   map_option (\<lambda>r. r\<lparr>d_ns_delegation_status := st, d_ns_actual := ac, d_ns_last_checked_at := lc,
     d_ns_verified_at := f r, d_updated_at := u\<rparr>) (tbl_find (live_domain i) (domains w))"
  by (simp add: find_live_update)

text \<open>
  The alert that a delegation has been wrong for more than 24 hours is sent at the first
  check that finds it wrong, when the domain is older than a day and no mark of an earlier
  mismatch is left: the age is then taken from the creation of the domain.
\<close>

theorem first_mismatch_alerts:
  assumes "faults w = []" and "tbl_find (live_domain i) (domains w) = Some d"
    and "nr_status (CheckNSDelegation lookupNS fqdn expected) = ''mismatch''"
    and "mark_live (now w) (redis_marks (assets w)) (nsMismatchStartKey i) = None"
    and "mark_live (now w) (redis_marks (assets w)) (nsMismatchAlertedKey i) = None"
    and "now w - d_created_at d \<ge> 86400"
  shows "result (HandleNSCheck lookupNS send i fqdn expected) w = Inr (Some
    \<lparr>nm_fqdn = fqdn, nm_expected = expected,
      nm_actual = nr_actual (CheckNSDelegation lookupNS fqdn expected)\<rparr>)"
proof -
  let ?res = "CheckNSDelegation lookupNS fqdn expected"
  let ?w = "final (UpdateNSDelegation i ''mismatch'' (nr_actual ?res)) w"
  obtain d' where w: "faults ?w = []" "assets ?w = assets w" "now ?w = now w"
    "tbl_find (live_domain i) (domains ?w) = Some d'" "d_created_at d' = d_created_at d"
    using assms(1,2) by (simp add: UpdateNSDelegation_def find_live_update)
  let ?w2 = "final (trySetMismatchStart i) ?w"
  have w2: "faults ?w2 = []" "now ?w2 = now w"
    "mark_live (now ?w2) (redis_marks (assets ?w2)) (nsMismatchAlertedKey i) = None"
    using assms(4,5) w ns_keys_differ [of i i]
    by (auto simp: trySet_final [OF w(1)] mark_live_put)
  have get: "result (DomainStore_GetByID i) ?w = Inr d'" "final (DomainStore_GetByID i) ?w = ?w"
    using w by (simp_all add: DomainStore_GetByID_def)
  have upd: "result (UpdateNSDelegation i ''mismatch'' (nr_actual ?res)) w = Inr ()"
    using assms(1) by (simp add: UpdateNSDelegation_def)
  show ?thesis
    using assms(3,4,6) w w2 trySet_calm(1) [OF w(1), of i] trySet_calm(2) [OF w2(1), of i]
    by (simp add: HandleNSCheck_def Let_def result_seq upd get result_bnd [of "attempt (DomainStore_GetByID i)"]
        result_bnd [of "gets now"] result_bnd [of "trySetMismatchStart i"]
        result_bnd [of "trySetMismatchAlerted i"] send_mismatch_result)
qed

section \<open>Binding is two statements\<close>

text \<open>
  Binding a domain to another provider is not atomic: when the database fails between the two
  statements the caller gets an error, but the domain has the new provider and is still marked
  verified, for name servers of the old one, and no check will look at it again.
\<close>

theorem half_bound_stays_verified:
  assumes "faults w = [False, False, True]"
    and "tbl_find (live_provider pid) (dns_providers (assets w)) = Some pv"
    and "cl (pv_provider_type pv) (pv_config pv) (pv_credentials pv) = Some p"
    and "tbl_find (live_domain (d_id d)) (domains w) = Some d" and "d_ns_delegation_status d = ''verified''"
  shows "\<exists>d'. result (BindDNSProvider cl d pid) w = Inl ErrDB \<and>
    tbl_find (live_domain (d_id d)) (domains (final (BindDNSProvider cl d pid) w)) = Some d' \<and>
    d_dns_provider_id d' = Some pid \<and> d_ns_delegation_status d' = ''verified'' \<and> \<not> pending_ns d'"
  using assms
  by (simp add: BindDNSProvider_def DNSProviderStore_GetByID_def asset_get_def query_one_def query_def
      client_of_def UpdateAssetFields_def SetNSDelegationPending_def exec_def eff_run result_stmt final_stmt
      find_live_update pending_ns_def)

section \<open>Examples\<close>

definition delegation_world :: "bool list \<Rightarrow> world" where
  "delegation_world fs = records_world\<lparr>now := 100000, faults := fs,
     domains := \<lparr>rows = [example_domain\<lparr>d_ns_delegation_status := ''verified''\<rparr>], seq = 1\<rparr>\<rparr>"

lemma delegation_facts: "faults (delegation_world fs) = fs" "now (delegation_world fs) = 100000"
  "tbl_find (live_domain 1) (domains (delegation_world fs)) =
     Some (example_domain\<lparr>d_ns_delegation_status := ''verified''\<rparr>)"
  "tbl_find (live_provider 1) (dns_providers (assets (delegation_world fs))) = Some example_provider"
  "redis_marks (assets (delegation_world fs)) = []" "d_created_at example_domain = 0" "d_id example_domain = 1"
  "example_clients (pv_provider_type example_provider) (pv_config example_provider)
     (pv_credentials example_provider) = Some (obliging_client [example_record])"
  by (simp_all add: delegation_world_def records_world_def tbl_find_def live_domain_def example_domain_def
      domain_of_input_def live_provider_def example_provider_def example_clients_def empty_assets_def)

theorem first_mismatch_alerts_witness:
  "\<exists>m. result (HandleNSCheck (\<lambda>_. Some [''ns9.example.org'']) (\<lambda>_. True) 1 ''a.com'' [''ns1.example.net''])
     (delegation_world []) = Inr (Some m) \<and> nm_actual m = [''ns9.example.org'']"
proof -
  have "CheckNSDelegation (\<lambda>_. Some [''ns9.example.org'']) ''a.com'' [''ns1.example.net''] =
      \<lparr>nr_status = ''mismatch'', nr_actual = [''ns9.example.org''], nr_expected = [''ns1.example.net'']\<rparr>"
    by code_simp
  then show ?thesis
    using first_mismatch_alerts [OF delegation_facts(1,3), of "\<lambda>_. Some [''ns9.example.org'']" "''a.com''"
        "[''ns1.example.net'']" "\<lambda>_. True"]
    by (simp add: delegation_facts mark_live_def)
qed

theorem half_bound_stays_verified_witness:
  "\<exists>d'. tbl_find (live_domain 1) (domains (final (BindDNSProvider example_clients
      (example_domain\<lparr>d_ns_delegation_status := ''verified''\<rparr>) 1) (delegation_world [False, False, True]))) = Some d' \<and>
    d_ns_delegation_status d' = ''verified'' \<and> \<not> pending_ns d'"
  using half_bound_stays_verified [where w = "delegation_world [False, False, True]" and cl = example_clients
      and d = "example_domain\<lparr>d_ns_delegation_status := ''verified''\<rparr>" and pid = 1 and pv = example_provider]
  by (auto simp: delegation_facts)

end
