(* ===== verification/Dns_Drift.thy ===== *)
theory Dns_Drift
  imports Dns_Records "HOL-Library.AList"
begin

text \<open>
  internal/dnsquery: live look-ups (service.go), agreement of public resolvers (propagation.go),
  comparison of a zone at its provider with the live answers (drift.go) and the periodic check
  (task.go). The resolver is a parameter \<open>exchange\<close>: the reply of a server to a question over UDP
  or TCP, or nothing when the exchange fails. Requests are not cancelled in the model. The
  handler returns the result it gave to the notifier, if it did.
\<close>

section \<open>Records and replies\<close>

record live_rec =
  lr_type :: string
  lr_name :: string
  lr_value :: string
  lr_ttl :: int
  lr_priority :: int

datatype rdata =
    RR_A string
  | RR_AAAA string
  | RR_CNAME string
  | RR_MX string int
  | RR_NS string
  | RR_SOA string string int int int int int
  | RR_SRV string int int int
  | RR_CAA int string string
  | RR_TXT "string list"
  | RR_PTR string
  | RR_Other

record dns_rr =
  rr_name :: string
  rr_ttl :: int
  rr_data :: rdata

record dns_reply =
  rp_truncated :: bool
  rp_rcode :: int
  rp_answer :: "dns_rr list"

type_synonym exchange = "bool \<Rightarrow> string \<Rightarrow> string \<Rightarrow> string \<Rightarrow> dns_reply option"

definition undot :: "string \<Rightarrow> string" where
  "undot s = TrimSuffix s ''.''"

definition parseRR :: "dns_rr \<Rightarrow> live_rec option" where
  "parseRR rr =
     (let mk = (\<lambda>ty val prio. Some \<lparr>lr_type = ty, lr_name = undot (rr_name rr), lr_value = val,
          lr_ttl = rr_ttl rr, lr_priority = prio\<rparr>)
      in case rr_data rr of
        RR_A a \<Rightarrow> mk ''A'' a 0
      | RR_AAAA a \<Rightarrow> mk ''AAAA'' a 0
      | RR_CNAME t \<Rightarrow> mk ''CNAME'' (undot t) 0
      | RR_MX m pref \<Rightarrow> mk ''MX'' (undot m) pref
      | RR_NS n \<Rightarrow> mk ''NS'' (undot n) 0
      | RR_SOA ns mbox serial refresh retry expire minttl \<Rightarrow>
          mk ''SOA'' (undot ns @ '' '' @ undot mbox @ '' '' @ show_int serial @ '' '' @ show_int refresh @
            '' '' @ show_int retry @ '' '' @ show_int expire @ '' '' @ show_int minttl) 0
      | RR_SRV t port weight prio \<Rightarrow>
          mk ''SRV'' (undot t @ '':'' @ show_int port @ '' (weight='' @ show_int weight @ '')'') prio
      | RR_CAA flag tag val \<Rightarrow>
          mk ''CAA'' (show_int flag @ '' '' @ tag @ '' '' @ [CHR 0x22] @ val @ [CHR 0x22]) 0
      | RR_TXT txt \<Rightarrow> mk ''TXT'' (concat txt) 0
      | RR_PTR p \<Rightarrow> mk ''PTR'' (undot p) 0
      | RR_Other \<Rightarrow> None)"

text \<open>A type that the map \<open>typeOrder\<close> does not have counts 0.\<close>

definition typeOrder :: "string \<Rightarrow> nat" where
  "typeOrder t = (case map_of [(''A'', 0), (''AAAA'', 1), (''CNAME'', 2), (''MX'', 3), (''NS'', 4),
     (''SOA'', 5), (''SRV'', 6), (''CAA'', 7), (''TXT'', 8), (''PTR'', 9)] t of None \<Rightarrow> 0 | Some n \<Rightarrow> n)"

definition defaultQueryTypes :: "string list" where
  "defaultQueryTypes = [''A'', ''AAAA'', ''CNAME'', ''MX'', ''NS'', ''SOA'', ''SRV'', ''CAA'', ''TXT'']"

definition dedup_key :: "live_rec \<Rightarrow> string" where
  "dedup_key r = lr_type r @ ''|'' @ lr_value r"

fun dedup_from :: "string list \<Rightarrow> live_rec list \<Rightarrow> live_rec list" where
  "dedup_from seen [] = []"
| "dedup_from seen (r # rs) =
     (if dedup_key r \<in> set seen then dedup_from seen rs else r # dedup_from (dedup_key r # seen) rs)"

definition dedup :: "live_rec list \<Rightarrow> live_rec list" where
  "dedup records = dedup_from [] records"

definition sort_records :: "live_rec list \<Rightarrow> live_rec list" where
  "sort_records rs = sort_key (\<lambda>r. typeOrder (lr_type r)) (sort_key lr_value rs)"

text \<open>One question, asked again over TCP when the reply was truncated.\<close>

definition ask :: "exchange \<Rightarrow> string \<Rightarrow> string \<Rightarrow> string \<Rightarrow> dns_reply option" where
  "ask ex server qname qtype = (case ex False server qname qtype of
       None \<Rightarrow> None
     | Some resp \<Rightarrow>
         if rp_truncated resp
         then (case ex True server qname qtype of None \<Rightarrow> Some resp | Some resp' \<Rightarrow> Some resp')
         else Some resp)"

definition Fqdn :: "string \<Rightarrow> string" where
  "Fqdn s = (if HasSuffix s ''.'' then s else s @ ''.'')"

definition lookup_type :: "exchange \<Rightarrow> string \<Rightarrow> string \<Rightarrow> string \<Rightarrow> live_rec list" where
  "lookup_type ex server fqdn qtype = (case ask ex server (Fqdn fqdn) qtype of
       None \<Rightarrow> []
     | Some resp \<Rightarrow>
         if rp_rcode resp \<noteq> 0 \<and> rp_rcode resp \<noteq> 3 then []
         else List.map_filter parseRR (rp_answer resp))"

definition Lookup :: "exchange \<Rightarrow> string \<Rightarrow> string \<Rightarrow> live_rec list" where
  "Lookup ex server fqdn0 =
     (let fqdn = undot (TrimSpace fqdn0) in
      if fqdn = [] then []
      else sort_records (dedup (concat (map (lookup_type ex server fqdn) defaultQueryTypes))))"

section \<open>Propagation\<close>

record resolver_entry =
  re_address :: string
  re_label :: string
  re_authoritative :: bool

definition DefaultResolvers :: "resolver_entry list" where
  "DefaultResolvers = map (\<lambda>(a, l). \<lparr>re_address = a, re_label = l, re_authoritative = False\<rparr>)
     [(''8.8.8.8:53'', ''Google''), (''1.1.1.1:53'', ''Cloudflare''), (''9.9.9.9:53'', ''Quad9''),
      (''208.67.222.222:53'', ''OpenDNS'')]"

record resolver_result =
  rs_entry :: resolver_entry
  rs_records :: "live_rec list"
  rs_error :: bool

text \<open>
  \<open>known\<close> is the set of type names of the DNS library. The label of an authoritative server is its
  address, without the words the code puts before it.
\<close>

definition queryResolver ::
    "exchange \<Rightarrow> (string \<Rightarrow> bool) \<Rightarrow> string \<Rightarrow> resolver_entry \<Rightarrow> string list \<Rightarrow> resolver_result" where
  "queryResolver ex known fqdn entry queryTypes =
     (let replies = map (ask ex (re_address entry) (Fqdn fqdn)) (filter known queryTypes) in
      \<lparr>rs_entry = entry,
       rs_records = sort_records (dedup (concat (map (\<lambda>r. case r of None \<Rightarrow> []
         | Some resp \<Rightarrow> List.map_filter parseRR (rp_answer resp)) replies))),
       rs_error = list_ex (\<lambda>r. r = None) replies\<rparr>)"

definition JoinHostPort :: "string \<Rightarrow> string \<Rightarrow> string" where
  "JoinHostPort host port =
     (if CHR '':'' \<in> set host then ''['' @ host @ '']:'' @ port else host @ '':'' @ port)"

fun first_addresses :: "(string \<Rightarrow> string list) \<Rightarrow> string list \<Rightarrow> string list \<Rightarrow> string list" where
  "first_addresses lookupHost res [] = res"
| "first_addresses lookupHost res (host # hosts) =
     (if length res \<ge> 2 then res
      else case lookupHost host of
        [] \<Rightarrow> first_addresses lookupHost res hosts
      | ip # ips \<Rightarrow> first_addresses lookupHost (res @ [JoinHostPort ip ''53'']) hosts)"

definition discoverAuthNS :: "exchange \<Rightarrow> (string \<Rightarrow> string list) \<Rightarrow> string \<Rightarrow> string \<Rightarrow> string list" where
  "discoverAuthNS ex lookupHost server fqdn = (case ex False server (Fqdn fqdn) ''NS'' of
       None \<Rightarrow> []
     | Some resp \<Rightarrow> first_addresses lookupHost []
         (List.map_filter (\<lambda>rr. case rr_data rr of RR_NS n \<Rightarrow> Some (undot n) | _ \<Rightarrow> None) (rp_answer resp)))"

definition fingerprint :: "live_rec list \<Rightarrow> string" where
  "fingerprint records =
     concat (case sort (map (\<lambda>r. lr_type r @ ''='' @ lr_value r) records) of
       [] \<Rightarrow> [] | p # ps \<Rightarrow> p # map (\<lambda>q. ''|'' @ q) ps)"

definition checkConsistency :: "resolver_result list \<Rightarrow> bool" where
  "checkConsistency results =
     (let fingerprints = map (\<lambda>r. fingerprint (rs_records r)) (filter (\<lambda>r. \<not> rs_error r) results) in
      if length fingerprints \<le> 1 then True
      else list_all (\<lambda>fp. fp = hd fingerprints) (tl fingerprints))"

definition CheckPropagation :: "exchange \<Rightarrow> (string \<Rightarrow> bool) \<Rightarrow> (string \<Rightarrow> string list) \<Rightarrow> string \<Rightarrow>
    string \<Rightarrow> string list \<Rightarrow> resolver_result list \<times> bool" where
  "CheckPropagation ex known lookupHost server fqdn0 queryTypes0 =
     (let fqdn = undot (TrimSpace fqdn0) in
      if fqdn = [] then ([], False)
      else let queryTypes = (if length queryTypes0 = 0 then [''A'', ''AAAA''] else queryTypes0);
               resolvers = DefaultResolvers @ map (\<lambda>ns. \<lparr>re_address = ns,
                 re_label = TrimSuffix ns '':53'', re_authoritative = True\<rparr>) (discoverAuthNS ex lookupHost server fqdn);
               results = map (\<lambda>e. queryResolver ex known fqdn e queryTypes) resolvers
           in (results, checkConsistency results))"

section \<open>Drift\<close>

record drift_record =
  df_type :: string
  df_name :: string
  df_expected :: string
  df_actual :: string
  df_match :: bool

definition normaliseKey :: "string \<Rightarrow> string \<Rightarrow> string" where
  "normaliseKey rtype val = ToUpper rtype @ ''|'' @ ToLower (TrimSuffix val ''.'')"

text \<open>A Go map filled in a loop: the last entry of a key wins.\<close>

definition index_by :: "('r \<Rightarrow> string) \<Rightarrow> 'r list \<Rightarrow> (string \<times> 'r) list" where
  "index_by key rs = fold (\<lambda>r m. AList.update (key r) r m) rs []"

definition expected_key :: "zone_record \<Rightarrow> string" where
  "expected_key r = normaliseKey (zr_type r) (zr_content r)"

definition actual_key :: "live_rec \<Rightarrow> string" where
  "actual_key r = normaliseKey (lr_type r) (lr_value r)"

text \<open>The two loops over the maps; the sort afterwards makes their order irrelevant but for ties.\<close>

definition CompareRecords :: "zone_record list \<Rightarrow> live_rec list \<Rightarrow> drift_record list" where
  "CompareRecords expected actual =
     (let expectedMap = index_by expected_key expected;
          actualMap = index_by actual_key actual;
          walked = map (\<lambda>(key, e). \<lparr>df_type = zr_type e, df_name = zr_name e, df_expected = zr_content e,
            df_actual = (case map_of actualMap key of None \<Rightarrow> [] | Some act \<Rightarrow> lr_value act),
            df_match = (map_of actualMap key \<noteq> None)\<rparr>) expectedMap;
          extras = map (\<lambda>(key, act). \<lparr>df_type = lr_type act, df_name = lr_name act, df_expected = [],
            df_actual = lr_value act, df_match = False\<rparr>)
            (filter (\<lambda>(key, act). key \<notin> fst ` set expectedMap) actualMap)
      in sort_key df_type (sort_key df_name (sort_key (\<lambda>r. df_expected r @ df_actual r) (walked @ extras))))"

datatype drift_status = DriftOK | DriftDetected | DriftNoExpected | DriftError

record drift_result =
  dr_status :: drift_status
  dr_records :: "drift_record list"
  dr_expected_count :: nat
  dr_actual_count :: nat
  dr_match_count :: nat
  dr_drift_count :: nat
  dr_missing_count :: nat
  dr_extra_count :: nat

definition drift_failed :: "drift_status \<Rightarrow> drift_result" where
  "drift_failed st = \<lparr>dr_status = st, dr_records = [], dr_expected_count = 0, dr_actual_count = 0,
     dr_match_count = 0, dr_drift_count = 0, dr_missing_count = 0, dr_extra_count = 0\<rparr>"

definition summarise :: "zone_record list \<Rightarrow> live_rec list \<Rightarrow> drift_result" where
  "summarise expected actual =
     (let ds = CompareRecords expected actual;
          missing = length (filter (\<lambda>r. \<not> df_match r \<and> df_expected r \<noteq> [] \<and> df_actual r = []) ds);
          extra = length (filter (\<lambda>r. \<not> df_match r \<and> df_expected r = [] \<and> df_actual r \<noteq> []) ds);
          drifted = length (filter (\<lambda>r. \<not> df_match r \<and> \<not> (df_expected r \<noteq> [] \<and> df_actual r = []) \<and>
            \<not> (df_expected r = [] \<and> df_actual r \<noteq> [])) ds)
      in \<lparr>dr_status = (if missing = 0 \<and> drifted = 0 \<and> extra = 0 then DriftOK
            else if length expected = 0 then DriftNoExpected else DriftDetected),
          dr_records = ds, dr_expected_count = length expected, dr_actual_count = length actual,
          dr_match_count = length (filter df_match ds), dr_drift_count = drifted,
          dr_missing_count = missing, dr_extra_count = extra\<rparr>)"

definition CheckDrift :: "clients \<Rightarrow> exchange \<Rightarrow> string \<Rightarrow> domain_row \<Rightarrow> dns_provider_row option \<Rightarrow> drift_result" where
  "CheckDrift cl ex server d provider = (case provider of
       None \<Rightarrow> drift_failed DriftNoExpected
     | Some pv \<Rightarrow> (case cl (pv_provider_type pv) (pv_config pv) (pv_credentials pv) of
         None \<Rightarrow> drift_failed DriftError
       | Some p \<Rightarrow> (case cl_ListRecords p (extractZoneID (pv_config pv)) \<lparr>rf_type = [], rf_name = d_fqdn d\<rparr> of
           Inl e \<Rightarrow> drift_failed DriftError
         | Inr expected \<Rightarrow> summarise expected (Lookup ex server (d_fqdn d)))))"

section \<open>The periodic check\<close>

definition ListActiveWithDNSProvider :: "domain_row list op" where
  "ListActiveWithDNSProvider = query (\<lambda>w. sort_key d_id (tbl_select (\<lambda>d. d_lifecycle_state d = ''active'' \<and>
     d_dns_provider_id d \<noteq> None \<and> d_deleted_at d = None) (domains w)))"

definition UpdateLastDriftAt :: "int \<Rightarrow> unit op" where
  "UpdateLastDriftAt i = exec (\<lambda>w. w\<lparr>domains := tbl_update (\<lambda>r. d_id r = i)
     (\<lambda>r. r\<lparr>d_last_drift_at := Some (now w), d_updated_at := now w\<rparr>) (domains w)\<rparr>)"

definition UpdateLastSyncAt :: "int \<Rightarrow> unit op" where
  "UpdateLastSyncAt i = exec (\<lambda>w. w\<lparr>domains := tbl_update (\<lambda>r. d_id r = i)
     (\<lambda>r. r\<lparr>d_last_sync_at := Some (now w), d_updated_at := now w\<rparr>) (domains w)\<rparr>)"

definition enqueue_drift_check :: "domain_row \<Rightarrow> unit op" where
  "enqueue_drift_check d = (case d_dns_provider_id d of
       None \<Rightarrow> ret ()
     | Some i \<Rightarrow> ignore (enqueue (DriftCheckJob (d_id d) (d_fqdn d) i) 2 60 ''default'' 0))"

definition HandleDriftCheckAll :: "unit op" where
  "HandleDriftCheckAll = bnd ListActiveWithDNSProvider (\<lambda>ds.
     if length ds = 0 then ret () else for_each ds enqueue_drift_check)"

definition drift_key :: "int \<Rightarrow> string" where
  "drift_key i = ''dns:drift:alerted:'' @ show_int i"

definition trySetAlerted :: "int \<Rightarrow> bool op" where
  "trySetAlerted i = bnd (attempt (SetNX (drift_key i) (\<lambda>_. 1) 3600))
     (\<lambda>r. case r of Inl e \<Rightarrow> ret True | Inr ok \<Rightarrow> ret ok)"

definition clearAlerted :: "int \<Rightarrow> unit op" where
  "clearAlerted i = ignore (DelMarks [drift_key i])"

definition HandleDriftCheck ::
    "clients \<Rightarrow> exchange \<Rightarrow> string \<Rightarrow> (drift_result \<Rightarrow> bool) \<Rightarrow> int \<Rightarrow> int \<Rightarrow> drift_result option op" where
  "HandleDriftCheck cl ex server send i pid =
     bnd (DomainStore_GetByID i) (\<lambda>d.
     bnd (DNSProviderStore_GetByID pid) (\<lambda>pv.
       let res = CheckDrift cl ex server d (Some pv) in
       if dr_status res \<noteq> DriftDetected then ret None
       else seq_eff (ignore (UpdateLastDriftAt i))
           (bnd (trySetAlerted i) (\<lambda>ok.
              if \<not> ok then ret None
              else if \<not> send res then seq_eff (clearAlerted i) (ret (Some res)) else ret (Some res)))))"

section \<open>What a comparison finds\<close>

lemma index_by_keys:
  "distinct (map fst (index_by key rs)) \<and> fst ` set (index_by key rs) = key ` set rs"
proof (induction rs rule: rev_induct)
  case (snoc r rs)
  have "set (map fst (AList.update (key r) r (index_by key rs))) = insert (key r) (key ` set rs)"
    unfolding update_keys using snoc by auto
  then show ?case using snoc by (simp add: index_by_def distinct_update)
qed (simp add: index_by_def)

lemma length_filter_keys:
  assumes "distinct (map fst m)"
  shows "length (filter (\<lambda>kv. P (fst kv)) m) = card {k \<in> fst ` set m. P k}"
proof -
  have "length (filter (\<lambda>kv. P (fst kv)) m) = length (filter P (map fst m))"
    by (simp add: filter_map o_def)
  also have "\<dots> = card (set (filter P (map fst m)))"
    using assms by (intro distinct_card [symmetric] distinct_filter)
  finally show ?thesis by (simp only: set_filter set_map)
qed

lemma length_filter_sort_key: "length (filter P (sort_key f xs)) = length (filter P xs)"
  by (metis mset_filter mset_sort size_mset)

lemma length_filter_three:
  "length (filter (\<lambda>x. \<not> p x \<and> q x) xs) + length (filter (\<lambda>x. \<not> p x \<and> r x) xs) +
     length (filter (\<lambda>x. \<not> p x \<and> \<not> q x \<and> \<not> r x) xs) = length (filter (\<lambda>x. \<not> p x) xs)"
  if "\<And>x. \<not> (q x \<and> r x)"
  using that by (induction xs) auto

lemma matches_and_mismatches:
  fixes expected actual
  defines "E \<equiv> expected_key ` set expected" and "A \<equiv> actual_key ` set actual"
  shows "length (filter df_match (CompareRecords expected actual)) = card (E \<inter> A)"
    and "length (filter (\<lambda>r. \<not> df_match r) (CompareRecords expected actual)) = card (E - A) + card (A - E)"
proof -
  let ?E = "index_by expected_key expected" and ?A = "index_by actual_key actual"
  have keys: "distinct (map fst ?E)" "fst ` set ?E = E" "distinct (map fst ?A)" "fst ` set ?A = A"
    using index_by_keys unfolding E_def A_def by blast+
  have found: "(\<exists>y. map_of ?A k = Some y) = (k \<in> A)" "(map_of ?A k = None) = (k \<notin> A)" for k
    using keys(4) map_of_eq_None_iff [of ?A k] by auto
  have "length (filter df_match (CompareRecords expected actual)) = length (filter (\<lambda>kv. fst kv \<in> A) ?E)"
    by (simp add: CompareRecords_def Let_def length_filter_sort_key filter_map o_def case_prod_beta found)
  also have "\<dots> = card (E \<inter> A)"
    using length_filter_keys [OF keys(1), of "\<lambda>k. k \<in> A"] by (simp add: keys(2) Int_def)
  finally show "length (filter df_match (CompareRecords expected actual)) = card (E \<inter> A)" .
  have "length (filter (\<lambda>r. \<not> df_match r) (CompareRecords expected actual)) =
      length (filter (\<lambda>kv. fst kv \<notin> A) ?E) + length (filter (\<lambda>kv. fst kv \<notin> E) ?A)"
    by (simp add: CompareRecords_def Let_def length_filter_sort_key filter_map o_def case_prod_beta found keys(2))
  also have "\<dots> = card (E - A) + card (A - E)"
    using length_filter_keys [OF keys(1), of "\<lambda>k. k \<notin> A"] length_filter_keys [OF keys(3), of "\<lambda>k. k \<notin> E"]
    by (simp add: keys(2,4) set_diff_eq)
  finally show "length (filter (\<lambda>r. \<not> df_match r) (CompareRecords expected actual)) =
      card (E - A) + card (A - E)" .
qed

text \<open>
  The summary of a comparison counts keys of type and normalised value: the matches are the
  keys both sides have, missing, extra and differing together are those only one side has, and
  the zone is in order exactly when both sides have the same keys; otherwise it has drifted,
  unless the provider lists nothing.
\<close>

theorem summarise_counts_keys:
  fixes expected actual
  defines "E \<equiv> expected_key ` set expected" and "A \<equiv> actual_key ` set actual"
  shows "dr_match_count (summarise expected actual) = card (E \<inter> A) \<and>
    dr_missing_count (summarise expected actual) + dr_extra_count (summarise expected actual) +
      dr_drift_count (summarise expected actual) = card (E - A) + card (A - E) \<and>
    dr_status (summarise expected actual) =
      (if E = A then DriftOK else if expected = [] then DriftNoExpected else DriftDetected)"
proof -
  let ?s = "summarise expected actual"
  have sum: "dr_missing_count ?s + dr_extra_count ?s + dr_drift_count ?s = card (E - A) + card (A - E)"
    using matches_and_mismatches(2) [of expected actual]
      length_filter_three [of "\<lambda>r. df_expected r \<noteq> [] \<and> df_actual r = []" "\<lambda>r. df_expected r = [] \<and> df_actual r \<noteq> []"
        df_match "CompareRecords expected actual"]
    by (simp add: summarise_def Let_def E_def A_def)
  have "finite E" "finite A" by (simp_all add: E_def A_def)
  then have "card (E - A) + card (A - E) = 0 \<longleftrightarrow> E = A" by auto
  then have "dr_missing_count ?s = 0 \<and> dr_drift_count ?s = 0 \<and> dr_extra_count ?s = 0 \<longleftrightarrow> E = A"
    using sum by auto
  then have "dr_status ?s = (if E = A then DriftOK else if expected = [] then DriftNoExpected else DriftDetected)"
    by (simp add: summarise_def Let_def)
  with sum matches_and_mismatches(1) [of expected actual] show ?thesis
    by (simp add: summarise_def Let_def E_def A_def)
qed

text \<open>A live SOA record that the provider does not list makes a listed zone drift.\<close>

lemma unlisted_SOA_is_drift:
  assumes "cl (pv_provider_type pv) (pv_config pv) (pv_credentials pv) = Some p"
    and "cl_ListRecords p (pc_zone_id (pv_config pv)) \<lparr>rf_type = [], rf_name = d_fqdn d\<rparr> = Inr (e # es)"
    and "r \<in> set (Lookup ex server (d_fqdn d))" and "actual_key r \<notin> expected_key ` set (e # es)"
  shows "dr_status (CheckDrift cl ex server d (Some pv)) = DriftDetected"
proof -
  let ?s = "summarise (e # es) (Lookup ex server (d_fqdn d))"
  have "actual_key r \<in> actual_key ` set (Lookup ex server (d_fqdn d)) - expected_key ` set (e # es)"
    using assms(3,4) by blast
  then have "card (actual_key ` set (Lookup ex server (d_fqdn d)) - expected_key ` set (e # es)) \<noteq> 0"
    by (metis card_0_eq empty_iff finite_Diff finite_imageI finite_set)
  then have "length (filter (\<lambda>r. \<not> df_match r) (CompareRecords (e # es) (Lookup ex server (d_fqdn d)))) \<noteq> 0"
    unfolding matches_and_mismatches(2) by simp
  then have "dr_status ?s = DriftDetected"
    using length_filter_three [of "\<lambda>r. df_expected r \<noteq> [] \<and> df_actual r = []" "\<lambda>r. df_expected r = [] \<and> df_actual r \<noteq> []"
        df_match "CompareRecords (e # es) (Lookup ex server (d_fqdn d))"]
    by (auto simp: summarise_def Let_def)
  with assms(1,2) show ?thesis by (simp add: CheckDrift_def extractZoneID_def)
qed

section \<open>Alerts are an hour apart\<close>

lemma trySetAlerted_calm:
  assumes "faults w = []"
  shows "result (trySetAlerted i) w = Inr (mark_live (now w) (redis_marks (assets w)) (drift_key i) = None)"
  using assms by (simp add: trySetAlerted_def SetNX_def eff_run)

lemma trySetAlerted_marks:
  assumes "faults w = []" and "mark_live (now w) (redis_marks (assets w)) (drift_key i) = None"
  shows "redis_marks (assets (final (trySetAlerted i) w)) =
    put_mark (drift_key i) 1 (now w + 3600) (redis_marks (assets w))"
  using assms by (simp add: trySetAlerted_def SetNX_def eff_run)

lemma HandleDriftCheck_alert:
  assumes "faults w = []" and "result (HandleDriftCheck cl ex server send i pid) w = Inr (Some res)"
  shows "mark_live (now w) (redis_marks (assets w)) (drift_key i) = None"
    and "send res \<Longrightarrow> redis_marks (assets (final (HandleDriftCheck cl ex server send i pid) w)) =
      put_mark (drift_key i) 1 (now w + 3600) (redis_marks (assets w))"
proof -
  let ?w = "final (ignore (UpdateLastDriftAt i)) w"
  have w: "faults ?w = []" "now ?w = now w" "assets ?w = assets w"
    using assms(1) by (simp_all add: UpdateLastDriftAt_def)
  obtain d pv where get: "tbl_find (live_domain i) (domains w) = Some d"
    "tbl_find (live_provider pid) (dns_providers (assets w)) = Some pv"
    using assms by (auto simp: HandleDriftCheck_def DomainStore_GetByID_def DNSProviderStore_GetByID_def eff_run
        split: option.splits)
  then have run: "result (DomainStore_GetByID i) w = Inr d" "final (DomainStore_GetByID i) w = w"
    "result (DNSProviderStore_GetByID pid) w = Inr pv" "final (DNSProviderStore_GetByID pid) w = w"
    using assms(1) by (simp_all add: DomainStore_GetByID_def DNSProviderStore_GetByID_def)
  have ok: "result (trySetAlerted i) ?w = Inr True" and res: "res = CheckDrift cl ex server d (Some pv)"
    using assms(2) trySetAlerted_calm [OF w(1), of i]
    by (auto simp: HandleDriftCheck_def Let_def run result_bnd result_seq split: if_splits sum.splits)
  then show none: "mark_live (now w) (redis_marks (assets w)) (drift_key i) = None"
    using trySetAlerted_calm [OF w(1), of i] w by simp
  assume "send res"
  then have "final (HandleDriftCheck cl ex server send i pid) w = final (trySetAlerted i) ?w"
    using assms(2) ok res by (auto simp: HandleDriftCheck_def Let_def run eff_run split: if_splits)
  with trySetAlerted_marks [OF w(1), of i] w none
  show "redis_marks (assets (final (HandleDriftCheck cl ex server send i pid) w)) =
      put_mark (drift_key i) 1 (now w + 3600) (redis_marks (assets w))" by simp
qed

text \<open>
  When Redis answers, a domain whose drift was announced is not announced again within an
  hour, as long as nothing else touches its mark: whatever the later check finds, it sends
  nothing.
\<close>

theorem drift_alerts_hourly:
  assumes "faults w = []" and "result (HandleDriftCheck cl ex server send i pid) w = Inr (Some res)" and "send res"
    and "faults w' = []" and "now w' < now w + 3600"
    and "map_of (redis_marks (assets w')) (drift_key i) =
      map_of (redis_marks (assets (final (HandleDriftCheck cl ex server send i pid) w))) (drift_key i)"
  shows "result (HandleDriftCheck cl' ex' server' send' i pid') w' \<noteq> Inr (Some res')"
proof
  assume "result (HandleDriftCheck cl' ex' server' send' i pid') w' = Inr (Some res')"
  then have "mark_live (now w') (redis_marks (assets w')) (drift_key i) = None"
    by (rule HandleDriftCheck_alert(1) [OF assms(4)])
  then show False
    using assms(5,6) HandleDriftCheck_alert(2) [OF assms(1,2,3)] by (simp add: mark_live_def put_mark_def)
qed

text \<open>A resolver that never answers, so the listed record is missing.\<close>

definition silent :: exchange where
  "silent tcp server qname qtype = None"

lemma silent_drift:
  "dr_status (CheckDrift example_clients silent ''r'' example_domain (Some example_provider)) = DriftDetected"
  by code_simp

lemma silent_alert:
  "result (HandleDriftCheck example_clients silent ''r'' (\<lambda>_. True) 1 1) records_world =
     Inr (Some (CheckDrift example_clients silent ''r'' example_domain (Some example_provider)))"
proof -
  have "result (DomainStore_GetByID 1) records_world = Inr example_domain"
    "final (DomainStore_GetByID 1) records_world = records_world"
    "result (DNSProviderStore_GetByID 1) records_world = Inr example_provider"
    "final (DNSProviderStore_GetByID 1) records_world = records_world"
    by (simp_all add: DomainStore_GetByID_def DNSProviderStore_GetByID_def records_world_def tbl_find_def
        live_domain_def live_provider_def example_domain_def domain_of_input_def example_provider_def empty_world_def)
  moreover have "result (trySetAlerted 1) (final (ignore (UpdateLastDriftAt 1)) records_world) = Inr True"
    by (subst trySetAlerted_calm)
      (simp_all add: UpdateLastDriftAt_def records_world_def empty_world_def empty_assets_def mark_live_def)
  ultimately show ?thesis
    by (simp add: HandleDriftCheck_def Let_def result_bnd result_seq silent_drift)
qed

theorem drift_alerts_hourly_witness:
  "\<forall>res. result (HandleDriftCheck example_clients silent ''r'' (\<lambda>_. True) 1 1)
     (records_world\<lparr>assets := assets (final (HandleDriftCheck example_clients silent ''r'' (\<lambda>_. True) 1 1)
        records_world)\<rparr>) \<noteq> Inr (Some res)"
proof
  fix res
  show "result (HandleDriftCheck example_clients silent ''r'' (\<lambda>_. True) 1 1)
     (records_world\<lparr>assets := assets (final (HandleDriftCheck example_clients silent ''r'' (\<lambda>_. True) 1 1)
        records_world)\<rparr>) \<noteq> Inr (Some res)"
    using records_world_facts(1,2)
    by (intro drift_alerts_hourly [OF records_world_facts(1) silent_alert]) simp_all
qed

end
