(* ===== verification/Maintenance.thy ===== *)
theory Maintenance
  imports Asset_Store
begin

text \<open>
  internal/maintenance/service.go over store/postgres/maintenance.go: planned maintenance windows,
  what they cover and the test whether a domain is in maintenance. Times are seconds since the
  epoch. A time zone is a fixed distance from UTC in seconds: \<open>zone\<close> gives it for a name, or
  nothing for a name that is not known; a zone whose distance changes during the year is not
  modelled. The calendar is the proleptic Gregorian one of the time package.
\<close>

section \<open>Calendar\<close>

definition weekday :: "int \<Rightarrow> int" where
  "weekday day = (day + 4) mod 7"

text \<open>Year, month and day of a day counted from the epoch.\<close>

definition civil :: "int \<Rightarrow> int \<times> int \<times> int" where
  "civil day =
     (let z = day + 719468; era = z div 146097; doe = z mod 146097;
          yoe = (doe - doe div 1460 + doe div 36524 - doe div 146096) div 365;
          doy = doe - (365 * yoe + yoe div 4 - yoe div 100);
          mp = (5 * doy + 2) div 153;
          d = doy - (153 * mp + 2) div 5 + 1;
          m = (if mp < 10 then mp + 3 else mp - 9)
      in (yoe + era * 400 + (if m \<le> 2 then 1 else 0), m, d))"

definition day_of_month :: "int \<Rightarrow> int" where
  "day_of_month day = snd (snd (civil day))"

definition month_of :: "int \<Rightarrow> int" where
  "month_of day = fst (snd (civil day))"

section \<open>Parsing\<close>

text \<open>\<open>fmt.Sscanf(s, "%d", &n)\<close>: blanks, a sign, and as many digits as there are.\<close>

definition Sscanf_d :: "string \<Rightarrow> int option" where
  "Sscanf_d s0 =
     (let s = dropWhile (\<lambda>c. is_space c \<and> c \<noteq> CHR 0x0A) s0;
          neg = (case s of [] \<Rightarrow> False | c # cs \<Rightarrow> c = CHR ''-'');
          body = (case s of [] \<Rightarrow> [] | c # cs \<Rightarrow> if c = CHR ''-'' \<or> c = CHR ''+'' then cs else s);
          ds = takeWhile is_digit body;
          n = (if neg then - digits_value ds else digits_value ds)
      in if ds = [] \<or> n < - (2 ^ 63) \<or> n \<ge> 2 ^ 63 then None else Some n)"

text \<open>\<open>strings.SplitN(s, ":", 2)\<close>, when it gives two parts.\<close>

definition split_colon :: "string \<Rightarrow> (string \<times> string) option" where
  "split_colon s = (case dropWhile (\<lambda>c. c \<noteq> CHR '':'') s of
     [] \<Rightarrow> None | _ # rest \<Rightarrow> Some (takeWhile (\<lambda>c. c \<noteq> CHR '':'') s, rest))"

text \<open>\<open>strings.Fields\<close>.\<close>

fun Fields_from :: "string \<Rightarrow> string \<Rightarrow> string list" where
  "Fields_from cur [] = (if cur = [] then [] else [cur])"
| "Fields_from cur (c # cs) =
     (if is_space c then (if cur = [] then Fields_from [] cs else cur # Fields_from [] cs)
      else Fields_from (cur @ [c]) cs)"

definition Fields :: "string \<Rightarrow> string list" where
  "Fields s = Fields_from [] s"

text \<open>The seconds after midnight that \<open>parseHHMM\<close> puts on the day of its reference.\<close>

definition parseHHMM :: "string \<Rightarrow> go_err + int" where
  "parseHHMM hhmm = (case split_colon hhmm of
       None \<Rightarrow> Inl (ErrMsg ''invalid time format'')
     | Some (hh, mm) \<Rightarrow> (case Sscanf_d hh of
         None \<Rightarrow> Inl (ErrMsg ''invalid hour'')
       | Some h \<Rightarrow>
           if h < 0 \<or> h > 23 then Inl (ErrMsg ''invalid hour'')
           else (case Sscanf_d mm of
               None \<Rightarrow> Inl (ErrMsg ''invalid minute'')
             | Some m \<Rightarrow>
                 if m < 0 \<or> m > 59 then Inl (ErrMsg ''invalid minute'') else Inr (h * 3600 + m * 60))))"

definition loadLocation :: "(string \<Rightarrow> int option) \<Rightarrow> string \<Rightarrow> go_err + int" where
  "loadLocation zone tz = (if tz = [] then Inr 0
     else case zone tz of None \<Rightarrow> Inl (ErrMsg ''invalid timezone'') | Some off \<Rightarrow> Inr off)"

section \<open>Schedules\<close>

definition coversSingle :: "maintenance_window_row \<Rightarrow> int \<Rightarrow> bool" where
  "coversSingle w t = (case (mw_start_at w, mw_end_at w) of
     (Some s, Some e) \<Rightarrow> \<not> t < s \<and> \<not> t > e | _ \<Rightarrow> False)"

text \<open>\<open>json.Unmarshal\<close> of the recurrence; \<open>null\<close> leaves the zero value.\<close>

definition zero_recurrence :: recurrence where
  "zero_recurrence = \<lparr>rc_weekdays = [], rc_day_of_month = 0, rc_expression = [], rc_start_time = [],
     rc_duration_minutes = 0, rc_timezone = []\<rparr>"

definition recurrence_of :: "maintenance_window_row \<Rightarrow> go_err + recurrence" where
  "recurrence_of w = (case mw_recurrence w of
       Empty_Json \<Rightarrow> Inl (ErrMsg ''missing recurrence config'')
     | Bad_Json \<Rightarrow> Inl (ErrMsg ''parse recurrence'')
     | Null_Json \<Rightarrow> Inr zero_recurrence
     | Good_Json r \<Rightarrow> Inr r)"

text \<open>The last lines of the weekly and the monthly test: start and end on the day of \<open>loc\<close>.\<close>

definition covers_today :: "recurrence \<Rightarrow> int \<Rightarrow> go_err + bool" where
  "covers_today r loc = (case parseHHMM (rc_start_time r) of
       Inl e \<Rightarrow> Inl e
     | Inr start \<Rightarrow>
         let windowStart = loc div 86400 * 86400 + start;
             windowEnd = windowStart + rc_duration_minutes r * 60
         in Inr (\<not> loc < windowStart \<and> \<not> loc > windowEnd))"

definition coversWeekly :: "(string \<Rightarrow> int option) \<Rightarrow> maintenance_window_row \<Rightarrow> int \<Rightarrow> go_err + bool" where
  "coversWeekly zone w t = (case recurrence_of w of
       Inl e \<Rightarrow> Inl e
     | Inr r \<Rightarrow> (case loadLocation zone (rc_timezone r) of
         Inl e \<Rightarrow> Inl e
       | Inr off \<Rightarrow>
           if weekday ((t + off) div 86400) \<notin> set (rc_weekdays r) then Inr False
           else covers_today r (t + off)))"

definition coversMonthly :: "(string \<Rightarrow> int option) \<Rightarrow> maintenance_window_row \<Rightarrow> int \<Rightarrow> go_err + bool" where
  "coversMonthly zone w t = (case recurrence_of w of
       Inl e \<Rightarrow> Inl e
     | Inr r \<Rightarrow> (case loadLocation zone (rc_timezone r) of
         Inl e \<Rightarrow> Inl e
       | Inr off \<Rightarrow>
           if day_of_month ((t + off) div 86400) \<noteq> rc_day_of_month r then Inr False
           else covers_today r (t + off)))"

definition matchCronField :: "string \<Rightarrow> int \<Rightarrow> bool" where
  "matchCronField field val =
     (if field = ''*'' then True
      else list_ex (\<lambda>part. Sscanf_d (TrimSpace part) = Some val) (Split (CHR '','') field))"

definition cron_matches :: "string list \<Rightarrow> int \<Rightarrow> bool" where
  "cron_matches fs loc =
     (let day = loc div 86400 in
      matchCronField (fs ! 4) (weekday day) \<and> matchCronField (fs ! 3) (month_of day) \<and>
      matchCronField (fs ! 2) (day_of_month day) \<and>
      matchCronField (fs ! 1) (loc div 3600 mod 24) \<and> matchCronField (fs ! 0) (loc div 60 mod 60))"

text \<open>The loop of \<open>prevCronFire\<close>: at most \<open>n\<close> candidates, a minute apart.\<close>

primrec search_back :: "(int \<Rightarrow> bool) \<Rightarrow> nat \<Rightarrow> int \<Rightarrow> int option" where
  "search_back p 0 candidate = None"
| "search_back p (Suc n) candidate = (if p candidate then Some candidate else search_back p n (candidate - 60))"

definition prevCronFire :: "string \<Rightarrow> int \<Rightarrow> int \<Rightarrow> go_err + int" where
  "prevCronFire expr off t =
     (let fs = Fields expr in
      if length fs \<noteq> 5 then Inl (ErrMsg ''cron expression must have 5 fields'')
      else case search_back (\<lambda>c. cron_matches fs (c + off)) (60 * 24 * 7) (t - t mod 60) of
          None \<Rightarrow> Inl (ErrMsg ''no cron fire time found within 1 week'')
        | Some c \<Rightarrow> Inr c)"

definition coversCron :: "(string \<Rightarrow> int option) \<Rightarrow> maintenance_window_row \<Rightarrow> int \<Rightarrow> go_err + bool" where
  "coversCron zone w t = (case recurrence_of w of
       Inl e \<Rightarrow> Inl e
     | Inr r \<Rightarrow> (case loadLocation zone (rc_timezone r) of
         Inl e \<Rightarrow> Inl e
       | Inr off \<Rightarrow> (case prevCronFire (rc_expression r) off t of
           Inl e \<Rightarrow> Inl e
         | Inr fire \<Rightarrow> Inr (\<not> t < fire \<and> \<not> t > fire + rc_duration_minutes r * 60))))"

definition windowCoversTime :: "(string \<Rightarrow> int option) \<Rightarrow> maintenance_window_row \<Rightarrow> int \<Rightarrow> go_err + bool" where
  "windowCoversTime zone w t =
     (if mw_strategy w = ''single'' then Inr (coversSingle w t)
      else if mw_strategy w = ''recurring_weekly'' then coversWeekly zone w t
      else if mw_strategy w = ''recurring_monthly'' then coversMonthly zone w t
      else if mw_strategy w = ''cron'' then coversCron zone w t
      else Inl (ErrMsg ''unknown strategy''))"

section \<open>The store\<close>

definition MaintenanceStore_Create :: "maintenance_window_row \<Rightarrow> maintenance_window_row op" where
  "MaintenanceStore_Create w = asset_stmt (\<lambda>t a.
     let mk = (\<lambda>i. w\<lparr>mw_id := i\<rparr>)
     in (Inr (mk (seq (maintenance_windows a) + 1)),
         a\<lparr>maintenance_windows := tbl_insert mk (maintenance_windows a)\<rparr>))"

definition MaintenanceStore_Update :: "maintenance_window_row \<Rightarrow> unit op" where
  "MaintenanceStore_Update w = asset_exec_unless
     (\<lambda>a. tbl_get mw_id (maintenance_windows a) (mw_id w) = None) ErrNoRows
     (\<lambda>t a. a\<lparr>maintenance_windows := tbl_update (\<lambda>r. mw_id r = mw_id w)
        (\<lambda>r. r\<lparr>mw_title := mw_title w, mw_description := mw_description w, mw_strategy := mw_strategy w,
          mw_start_at := mw_start_at w, mw_end_at := mw_end_at w,
          mw_recurrence := (if mw_recurrence w = Empty_Json then Null_Json else mw_recurrence w),
          mw_active := mw_active w\<rparr>) (maintenance_windows a)\<rparr>)"

definition MaintenanceStore_Delete :: "int \<Rightarrow> unit op" where
  "MaintenanceStore_Delete i = asset_exec (\<lambda>t a. a\<lparr>
     maintenance_windows := tbl_delete (\<lambda>r. mw_id r = i) (maintenance_windows a),
     maintenance_targets := tbl_delete (\<lambda>r. mt_maintenance_id r = i) (maintenance_targets a)\<rparr>)"

definition MaintenanceStore_Get :: "int \<Rightarrow> maintenance_window_row op" where
  "MaintenanceStore_Get i =
     asset_get ErrMaintenanceWindowNotFound (\<lambda>a. tbl_get mw_id (maintenance_windows a) i)"

text \<open>The creation time is not kept: the newest window is the last of the table.\<close>

definition MaintenanceStore_List :: "maintenance_window_row list op" where
  "MaintenanceStore_List = asset_query (\<lambda>a. rev (rows (maintenance_windows a)))"

definition MaintenanceStore_ListActive :: "maintenance_window_row list op" where
  "MaintenanceStore_ListActive = asset_query (\<lambda>a. tbl_select mw_active (maintenance_windows a))"

definition MaintenanceStore_AddTarget :: "int \<Rightarrow> string \<Rightarrow> int \<Rightarrow> maintenance_target_row op" where
  "MaintenanceStore_AddTarget m ty i =
     on_conflict ''maintenance_window_targets'' [''maintenance_id'', ''target_type'', ''target_id'']
     (\<lambda>t a.
       let mk = (\<lambda>k. \<lparr>mt_id = k, mt_maintenance_id = m, mt_target_type = ty, mt_target_id = i\<rparr>)
       in if list_ex (\<lambda>r. mt_maintenance_id r = m \<and> mt_target_type r = ty \<and> mt_target_id r = i)
            (rows (maintenance_targets a))
          then (Inr (mk 0), a)
          else (Inr (mk (seq (maintenance_targets a) + 1)),
                a\<lparr>maintenance_targets := tbl_insert mk (maintenance_targets a)\<rparr>))"

definition MaintenanceStore_RemoveTarget :: "int \<Rightarrow> int \<Rightarrow> unit op" where
  "MaintenanceStore_RemoveTarget m i = asset_exec (\<lambda>t a. a\<lparr>maintenance_targets :=
     tbl_delete (\<lambda>r. mt_id r = i \<and> mt_maintenance_id r = m) (maintenance_targets a)\<rparr>)"

definition MaintenanceStore_ListTargets :: "int \<Rightarrow> maintenance_target_row list op" where
  "MaintenanceStore_ListTargets m = asset_query (\<lambda>a. sort_key mt_id
     (tbl_select (\<lambda>r. mt_maintenance_id r = m) (maintenance_targets a)))"

definition targets_domain :: "world \<Rightarrow> int \<Rightarrow> maintenance_target_row \<Rightarrow> bool" where
  "targets_domain w i r \<longleftrightarrow> mt_target_type r = ''domain'' \<and> mt_target_id r = i \<or>
     mt_target_type r = ''project'' \<and>
       (case tbl_get d_id (domains w) i of None \<Rightarrow> False | Some d \<Rightarrow> mt_target_id r = d_project_id d)"

definition WindowsForDomain :: "int \<Rightarrow> maintenance_window_row list op" where
  "WindowsForDomain i = query (\<lambda>w. tbl_select (\<lambda>m. mw_active m \<and>
     list_ex (\<lambda>r. mt_maintenance_id r = mw_id m \<and> targets_domain w i r) (rows (maintenance_targets (assets w))))
     (maintenance_windows (assets w)))"

section \<open>The service\<close>

definition validateStrategy ::
    "string \<Rightarrow> int option \<Rightarrow> int option \<Rightarrow> recurrence_json \<Rightarrow> go_err + unit" where
  "validateStrategy strategy startAt endAt rec =
     (if strategy = ''single'' then
        (case (startAt, endAt) of
           (Some s, Some e) \<Rightarrow> if \<not> e > s then Inl (ErrMsg ''end_at must be after start_at'') else Inr ()
         | _ \<Rightarrow> Inl (ErrMsg ''single maintenance window requires start_at and end_at''))
      else if strategy \<in> {''recurring_weekly'', ''recurring_monthly'', ''cron''} then
        (if rec = Empty_Json \<or> rec = Null_Json then Inl (ErrMsg ''strategy requires recurrence config'') else Inr ())
      else Inl (ErrMsg ''invalid strategy''))"

text \<open>\<open>CreateWindowInput\<close> and \<open>UpdateWindowInput\<close>; an update does not read the creator.\<close>

record window_input =
  wi_title :: string
  wi_description :: "string option"
  wi_strategy :: string
  wi_start_at :: "int option"
  wi_end_at :: "int option"
  wi_recurrence :: recurrence_json
  wi_active :: bool
  wi_created_by :: "int option"

definition Maintenance_Create :: "window_input \<Rightarrow> maintenance_window_row op" where
  "Maintenance_Create inp =
     seq_eff (answer (validateStrategy (wi_strategy inp) (wi_start_at inp) (wi_end_at inp) (wi_recurrence inp)))
       (MaintenanceStore_Create \<lparr>mw_id = 0, mw_title = wi_title inp, mw_description = wi_description inp,
          mw_strategy = wi_strategy inp, mw_start_at = wi_start_at inp, mw_end_at = wi_end_at inp,
          mw_recurrence = wi_recurrence inp, mw_active = wi_active inp, mw_created_by = wi_created_by inp\<rparr>)"

definition Maintenance_Update :: "int \<Rightarrow> window_input \<Rightarrow> maintenance_window_row op" where
  "Maintenance_Update i inp =
     bnd (MaintenanceStore_Get i) (\<lambda>w.
     seq_eff (answer (validateStrategy (wi_strategy inp) (wi_start_at inp) (wi_end_at inp) (wi_recurrence inp)))
       (let w' = w\<lparr>mw_title := wi_title inp, mw_description := wi_description inp,
              mw_strategy := wi_strategy inp, mw_start_at := wi_start_at inp, mw_end_at := wi_end_at inp,
              mw_recurrence := wi_recurrence inp, mw_active := wi_active inp\<rparr>
        in seq_eff (MaintenanceStore_Update w') (ret w')))"

definition Maintenance_Delete :: "int \<Rightarrow> unit op" where
  "Maintenance_Delete i = MaintenanceStore_Delete i"

definition Maintenance_Get :: "int \<Rightarrow> (maintenance_window_row \<times> maintenance_target_row list) op" where
  "Maintenance_Get i = bnd (MaintenanceStore_Get i) (\<lambda>w.
     bnd (MaintenanceStore_ListTargets i) (\<lambda>ts. ret (w, ts)))"

definition Maintenance_AddTarget :: "int \<Rightarrow> string \<Rightarrow> int \<Rightarrow> maintenance_target_row op" where
  "Maintenance_AddTarget m ty i =
     (if ty \<in> {''domain'', ''host_group'', ''project''} then MaintenanceStore_AddTarget m ty i
      else throw (ErrMsg ''invalid target_type''))"

definition Maintenance_RemoveTarget :: "int \<Rightarrow> int \<Rightarrow> unit op" where
  "Maintenance_RemoveTarget m i = MaintenanceStore_RemoveTarget m i"

fun first_covering ::
    "(string \<Rightarrow> int option) \<Rightarrow> int \<Rightarrow> maintenance_window_row list \<Rightarrow> maintenance_window_row option" where
  "first_covering zone t [] = None"
| "first_covering zone t (w # ws) = (case windowCoversTime zone w t of
     Inl e \<Rightarrow> first_covering zone t ws
   | Inr active \<Rightarrow> if active then Some w else first_covering zone t ws)"

definition IsInMaintenance :: "(string \<Rightarrow> int option) \<Rightarrow> int \<Rightarrow> int \<Rightarrow> maintenance_window_row option op" where
  "IsInMaintenance zone i t = bnd (WindowsForDomain i) (\<lambda>ws. ret (first_covering zone t ws))"

section \<open>Schedules and what they promise\<close>

lemma search_back_Some:
  "search_back p n c = Some f \<longleftrightarrow>
     (\<exists>k < n. f = c - 60 * int k \<and> p f \<and> (\<forall>j < k. \<not> p (c - 60 * int j)))"
proof (induction n arbitrary: c)
  case (Suc n)
  show ?case
  proof (cases "p c")
    case True
    then show ?thesis by (auto intro!: exI [of _ 0]) (metis gr0I mult_zero_right of_nat_0 diff_zero)
  next
    case False
    have shift: "(\<exists>k < Suc n. f = c - 60 * int k \<and> p f \<and> (\<forall>j < k. \<not> p (c - 60 * int j))) \<longleftrightarrow>
        (\<exists>k < n. f = c - 60 - 60 * int k \<and> p f \<and> (\<forall>j < k. \<not> p (c - 60 - 60 * int j)))"
    proof
      assume "\<exists>k < Suc n. f = c - 60 * int k \<and> p f \<and> (\<forall>j < k. \<not> p (c - 60 * int j))"
      then obtain k where k: "k < Suc n" "f = c - 60 * int k" "p f" "\<forall>j < k. \<not> p (c - 60 * int j)" by blast
      with False obtain k' where "k = Suc k'" by (cases k) auto
      moreover have "\<not> p (c - 60 - 60 * int j)" if "j < k'" for j
      proof -
        have "\<not> p (c - 60 * int (Suc j))" using k(4) that \<open>k = Suc k'\<close> by blast
        then show ?thesis by (simp add: algebra_simps)
      qed
      ultimately show "\<exists>k < n. f = c - 60 - 60 * int k \<and> p f \<and> (\<forall>j < k. \<not> p (c - 60 - 60 * int j))"
        using k by auto
    next
      assume "\<exists>k < n. f = c - 60 - 60 * int k \<and> p f \<and> (\<forall>j < k. \<not> p (c - 60 - 60 * int j))"
      then obtain k where k: "k < n" "f = c - 60 - 60 * int k" "p f" "\<forall>j < k. \<not> p (c - 60 - 60 * int j)" by blast
      have "\<not> p (c - 60 * int j)" if "j < Suc k" for j
        using k(4) that False by (cases j) (auto simp: algebra_simps)
      with k show "\<exists>k < Suc n. f = c - 60 * int k \<and> p f \<and> (\<forall>j < k. \<not> p (c - 60 * int j))"
        by (intro exI [of _ "Suc k"]) auto
    qed
    show ?thesis using False Suc [of "c - 60"] shift by simp
  qed
qed simp

lemma search_back_None: "search_back p n c = None \<longleftrightarrow> (\<forall>k < n. \<not> p (c - 60 * int k))"
proof (induction n arbitrary: c)
  case (Suc n)
  have "(\<forall>k < Suc n. \<not> p (c - 60 * int k)) \<longleftrightarrow> \<not> p c \<and> (\<forall>k < n. \<not> p (c - 60 - 60 * int k))"
    by (auto simp: less_Suc_eq_0_disj algebra_simps)
  with Suc show ?case by simp
qed simp

text \<open>The minutes at which a cron expression fires, in a zone at distance \<open>off\<close>.\<close>

definition fires :: "string \<Rightarrow> int \<Rightarrow> int \<Rightarrow> bool" where
  "fires expr off m \<longleftrightarrow> m mod 60 = 0 \<and> cron_matches (Fields expr) (m + off)"

lemma minutes_before:
  fixes m t :: int
  assumes "m mod 60 = 0" and "m \<le> t" and "t \<le> m + d * 60" and "d \<le> 10079"
  obtains k where "k < 10080" "m = t - t mod 60 - 60 * int k"
proof -
  define k where "k = (t - t mod 60 - m) div 60"
  have "60 dvd m" "60 dvd t - t mod 60" using assms(1) by (auto simp: mod_eq_0_iff_dvd)
  then have "60 dvd t - t mod 60 - m" by simp
  then have eq: "t - t mod 60 - m = 60 * k" by (simp add: k_def)
  have "m \<le> t - t mod 60" using assms(1,2) by presburger
  with eq have "0 \<le> k" by simp
  moreover have "60 * k \<le> d * 60" using eq assms(3) by (smt (verit) pos_mod_sign)
  then have "k < 10080" using assms(4) by simp
  ultimately show thesis using that [of "nat k"] eq by (simp add: nat_less_iff)
qed

text \<open>
  C27: A cron window covers a time exactly when the expression fired at some minute before it and
  the duration has not passed since: the search for the latest firing time, minute by minute
  and for a week at most, decides this for every duration shorter than the week.
\<close>

theorem coversCron_exact:
  assumes "recurrence_of w = Inr r" and "loadLocation zone (rc_timezone r) = Inr off"
    and "length (Fields (rc_expression r)) = 5" and "rc_duration_minutes r \<le> 10079"
  shows "coversCron zone w t = Inr True \<longleftrightarrow>
    (\<exists>m. fires (rc_expression r) off m \<and> m \<le> t \<and> t \<le> m + rc_duration_minutes r * 60)"
proof -
  let ?p = "\<lambda>c. cron_matches (Fields (rc_expression r)) (c + off)" and ?c = "t - t mod 60"
  let ?d = "rc_duration_minutes r"
  have le: "?c \<le> t" "?c mod 60 = 0" by (simp, presburger)
  have aligned: "(?c - 60 * int k) mod 60 = 0" for k by presburger
  show ?thesis
  proof (cases "search_back ?p 10080 ?c")
    case None
    then have "coversCron zone w t \<noteq> Inr True"
      using assms by (simp add: coversCron_def prevCronFire_def Let_def)
    moreover have "\<not> (fires (rc_expression r) off m \<and> m \<le> t \<and> t \<le> m + ?d * 60)" for m
    proof
      assume m: "fires (rc_expression r) off m \<and> m \<le> t \<and> t \<le> m + ?d * 60"
      then obtain k where "k < 10080" "m = ?c - 60 * int k"
        using minutes_before [of m t ?d] assms(4) by (auto simp: fires_def)
      with m None show False by (auto simp: search_back_None fires_def)
    qed
    ultimately show ?thesis by blast
  next
    case (Some f)
    then obtain k where k: "f = ?c - 60 * int k" "?p f" "\<forall>j < k. \<not> ?p (?c - 60 * int j)"
      by (auto simp: search_back_Some)
    have run: "coversCron zone w t = Inr True \<longleftrightarrow> f \<le> t \<and> t \<le> f + ?d * 60"
      using assms Some by (simp add: coversCron_def prevCronFire_def Let_def not_less)
    have f: "fires (rc_expression r) off f" "f \<le> t"
      using k aligned [of k] le by (simp_all add: fires_def)
    have "m \<le> f" if m: "fires (rc_expression r) off m" "m \<le> t" "t \<le> m + ?d * 60" for m
    proof -
      obtain k' where k': "m = ?c - 60 * int k'"
        using minutes_before [of m t ?d] assms(4) m by (auto simp: fires_def)
      then have "\<not> k' < k" using m(1) k(3) by (auto simp: fires_def)
      with k' k(1) show ?thesis by simp
    qed
    with run f show ?thesis by (meson add_right_mono order_trans)
  qed
qed

text \<open>
  C99: A weekly window is cut at midnight. It covers no time that it should not, it covers all it
  should when it ends on the day it starts, but a time after midnight is refused as soon as its
  own weekday is not scheduled, although the window of the evening before still lasts.
\<close>

definition weekly_reference :: "recurrence \<Rightarrow> int \<Rightarrow> int \<Rightarrow> bool" where
  "weekly_reference r start loc \<longleftrightarrow> (\<exists>day. weekday day \<in> set (rc_weekdays r) \<and>
     day * 86400 + start \<le> loc \<and> loc \<le> day * 86400 + start + rc_duration_minutes r * 60)"

theorem weekly_cut_at_midnight:
  assumes "recurrence_of w = Inr r" and "loadLocation zone (rc_timezone r) = Inr off"
    and "parseHHMM (rc_start_time r) = Inr start" and "0 \<le> start" and "start < 86400"
  shows "(coversWeekly zone w t = Inr True \<longrightarrow> weekly_reference r start (t + off)) \<and>
    (start + rc_duration_minutes r * 60 < 86400 \<longrightarrow> weekly_reference r start (t + off) \<longrightarrow>
      coversWeekly zone w t = Inr True) \<and>
    (weekday ((t + off) div 86400) \<notin> set (rc_weekdays r) \<longrightarrow> coversWeekly zone w t = Inr False)"
proof -
  let ?loc = "t + off"
  have covers: "coversWeekly zone w t = Inr True \<longleftrightarrow> weekday (?loc div 86400) \<in> set (rc_weekdays r) \<and>
      ?loc div 86400 * 86400 + start \<le> ?loc \<and> ?loc \<le> ?loc div 86400 * 86400 + start + rc_duration_minutes r * 60"
    using assms by (auto simp: coversWeekly_def covers_today_def Let_def)
  have "coversWeekly zone w t = Inr True \<longrightarrow> weekly_reference r start ?loc"
    using covers by (auto simp: weekly_reference_def)
  moreover have "coversWeekly zone w t = Inr True"
    if "start + rc_duration_minutes r * 60 < 86400" and ref: "weekly_reference r start ?loc"
  proof -
    obtain day where day: "weekday day \<in> set (rc_weekdays r)" "day * 86400 + start \<le> ?loc"
      "?loc \<le> day * 86400 + start + rc_duration_minutes r * 60"
      using ref by (auto simp: weekly_reference_def)
    then have "day * 86400 \<le> ?loc" "?loc < day * 86400 + 86400" using that(1) assms(4) by simp_all
    then have "?loc div 86400 = day" by simp
    with day covers show ?thesis by simp
  qed
  moreover have "coversWeekly zone w t = Inr False" if "weekday (?loc div 86400) \<notin> set (rc_weekdays r)"
    using assms that by (simp add: coversWeekly_def)
  ultimately show ?thesis by blast
qed

section \<open>Stored windows are valid\<close>

definition windows_valid :: "assets \<Rightarrow> bool" where
  "windows_valid a \<longleftrightarrow> (\<forall>w \<in> set (rows (maintenance_windows a)).
     validateStrategy (mw_strategy w) (mw_start_at w) (mw_end_at w) (mw_recurrence w) = Inr ())"

definition targets_valid :: "assets \<Rightarrow> bool" where
  "targets_valid a \<longleftrightarrow> (\<forall>r \<in> set (rows (maintenance_targets a)).
     mt_target_type r \<in> {''domain'', ''host_group'', ''project''})"

definition maintenance_inv :: "assets \<Rightarrow> bool" where
  "maintenance_inv a \<longleftrightarrow> windows_valid a \<and> targets_valid a"

lemma validate_null:
  "validateStrategy st s e Null_Json = validateStrategy st s e Empty_Json"
  by (simp add: validateStrategy_def)

lemma keeps_validated:
  assumes "v = Inr () \<Longrightarrow> keeps (asset_step I) m"
  shows "keeps (asset_step I) (seq_eff (answer v) m)"
proof (cases v)
  case (Inl e)
  then show ?thesis by (simp add: keeps_def asset_step_def eff_run)
next
  case (Inr u)
  then show ?thesis using assms by (simp add: keeps_def eff_run)
qed

text \<open>
  Every stored window passes the validation of its strategy (a single window ends after it
  starts, a recurring one has a recurrence that is not null) and every target has one of the
  three types: no operation of the service breaks this, however the database fails.
\<close>

theorem maintenance_inv_kept:
  "keeps (asset_step maintenance_inv) (Maintenance_Create inp) \<and>
   keeps (asset_step maintenance_inv) (Maintenance_Update i inp) \<and>
   keeps (asset_step maintenance_inv) (Maintenance_Delete i) \<and>
   keeps (asset_step maintenance_inv) (Maintenance_AddTarget i ty j) \<and>
   keeps (asset_step maintenance_inv) (Maintenance_RemoveTarget i j)"
proof (intro conjI)
  show "keeps (asset_step maintenance_inv) (Maintenance_Create inp)"
    unfolding Maintenance_Create_def MaintenanceStore_Create_def
    by (intro keeps_validated step_stmt)
      (auto simp: maintenance_inv_def windows_valid_def targets_valid_def tbl_insert_def Let_def)
  show "keeps (asset_step maintenance_inv) (Maintenance_Update i inp)"
    unfolding Maintenance_Update_def MaintenanceStore_Get_def MaintenanceStore_Update_def Let_def
  proof (rule inv.keeps_bnd, rule step_query, rule keeps_validated, rule inv.keeps_seq, rule step_exec_unless)
  qed (auto simp: maintenance_inv_def windows_valid_def targets_valid_def tbl_update_def validate_null
      intro: inv.keeps_ret)
  show "keeps (asset_step maintenance_inv) (Maintenance_Delete i)"
    unfolding Maintenance_Delete_def MaintenanceStore_Delete_def
    by (intro step_exec) (auto simp: maintenance_inv_def windows_valid_def targets_valid_def tbl_delete_def)
  show "keeps (asset_step maintenance_inv) (Maintenance_AddTarget i ty j)"
    unfolding Maintenance_AddTarget_def MaintenanceStore_AddTarget_def on_conflict_def
    by (intro eff_intro step_stmt)
      (auto simp: maintenance_inv_def windows_valid_def targets_valid_def tbl_insert_def Let_def)
  show "keeps (asset_step maintenance_inv) (Maintenance_RemoveTarget i j)"
    unfolding Maintenance_RemoveTarget_def MaintenanceStore_RemoveTarget_def
    by (intro step_exec) (auto simp: maintenance_inv_def windows_valid_def targets_valid_def tbl_delete_def)
qed

section \<open>Who is in maintenance\<close>

lemma first_covering_iff:
  "(\<exists>w. first_covering zone t ws = Some w) \<longleftrightarrow> (\<exists>w \<in> set ws. windowCoversTime zone w t = Inr True)"
  "first_covering zone t ws = Some w \<Longrightarrow> w \<in> set ws \<and> windowCoversTime zone w t = Inr True"
  by (induction ws) (auto split: sum.splits if_splits)

text \<open>
  A domain is reported in maintenance exactly when an active window covers the time and names
  the domain or its project as a target; the answer is such a window. A target of type host group
  never counts, whatever runs on the group.
\<close>

theorem IsInMaintenance_exact:
  assumes "result (IsInMaintenance zone i t) w = Inr x"
  shows "(x \<noteq> None \<longleftrightarrow> (\<exists>m \<in> set (rows (maintenance_windows (assets w))). mw_active m \<and>
      windowCoversTime zone m t = Inr True \<and>
      (\<exists>r \<in> set (rows (maintenance_targets (assets w))). mt_maintenance_id r = mw_id m \<and>
        (mt_target_type r = ''domain'' \<and> mt_target_id r = i \<or>
         mt_target_type r = ''project'' \<and>
           (\<exists>d. tbl_get d_id (domains w) i = Some d \<and> mt_target_id r = d_project_id d))))) \<and>
    (\<forall>m. x = Some m \<longrightarrow> mw_active m \<and> windowCoversTime zone m t = Inr True)"
proof -
  let ?sel = "tbl_select (\<lambda>m. mw_active m \<and> list_ex (\<lambda>r. mt_maintenance_id r = mw_id m \<and> targets_domain w i r)
    (rows (maintenance_targets (assets w)))) (maintenance_windows (assets w))"
  obtain ws where ws: "result (WindowsForDomain i) w = Inr ws" and x: "x = first_covering zone t ws"
    using assms by (auto simp: IsInMaintenance_def eff_run split: sum.splits)
  from ws have "ws = ?sel"
    unfolding WindowsForDomain_def by (rule query_InrE) (simp add: targets_domain_def)
  then have mem: "m \<in> set ws \<longleftrightarrow> m \<in> set (rows (maintenance_windows (assets w))) \<and> mw_active m \<and>
      (\<exists>r \<in> set (rows (maintenance_targets (assets w))). mt_maintenance_id r = mw_id m \<and> targets_domain w i r)" for m
    by (auto simp: tbl_select_def list_ex_iff)
  have target: "targets_domain w i r \<longleftrightarrow> mt_target_type r = ''domain'' \<and> mt_target_id r = i \<or>
      mt_target_type r = ''project'' \<and> (\<exists>d. tbl_get d_id (domains w) i = Some d \<and> mt_target_id r = d_project_id d)" for r
    by (auto simp: targets_domain_def split: option.splits)
  have "x \<noteq> None \<longleftrightarrow> (\<exists>m \<in> set ws. windowCoversTime zone m t = Inr True)"
    using x first_covering_iff(1) [of zone t ws] by auto
  moreover have "m \<in> set ws \<and> windowCoversTime zone m t = Inr True" if "x = Some m" for m
    using x first_covering_iff(2) that by metis
  moreover have "(\<exists>m \<in> set ws. windowCoversTime zone m t = Inr True) \<longleftrightarrow>
      (\<exists>m \<in> set (rows (maintenance_windows (assets w))). mw_active m \<and> windowCoversTime zone m t = Inr True \<and>
        (\<exists>r \<in> set (rows (maintenance_targets (assets w))). mt_maintenance_id r = mw_id m \<and> targets_domain w i r))"
    using mem by blast
  moreover have "mw_active m" if "m \<in> set ws" for m using mem that by blast
  ultimately show ?thesis unfolding target by blast
qed

section \<open>Examples\<close>

text \<open>Every day at half past two; Thursdays from 23:00; a single window of a host group.\<close>

definition nightly :: recurrence where
  "nightly = zero_recurrence\<lparr>rc_expression := ''30 2 * * *'', rc_duration_minutes := 120\<rparr>"

definition late_thursday :: recurrence where
  "late_thursday = zero_recurrence\<lparr>rc_weekdays := [4], rc_start_time := ''23:00'', rc_duration_minutes := 120\<rparr>"

definition window_with :: "string \<Rightarrow> recurrence \<Rightarrow> maintenance_window_row" where
  "window_with strategy r = \<lparr>mw_id = 1, mw_title = ''w'', mw_description = None, mw_strategy = strategy,
     mw_start_at = Some 0, mw_end_at = Some 1000, mw_recurrence = Good_Json r, mw_active = True, mw_created_by = None\<rparr>"

definition group_world :: world where
  "group_world = empty_world\<lparr>assets := empty_assets\<lparr>
     maintenance_windows := \<lparr>rows = [window_with ''single'' zero_recurrence], seq = 1\<rparr>,
     maintenance_targets := \<lparr>rows = [\<lparr>mt_id = 1, mt_maintenance_id = 1, mt_target_type = ''host_group'',
       mt_target_id = 1\<rparr>], seq = 1\<rparr>\<rparr>\<rparr>"

theorem coversCron_exact_witness:
  "coversCron (\<lambda>_. None) (window_with ''cron'' nightly) 10800 = Inr True"
proof -
  have "fires (rc_expression nightly) 0 9000" "length (Fields (rc_expression nightly)) = 5"
    by code_simp+
  moreover have "recurrence_of (window_with ''cron'' nightly) = Inr nightly"
    "loadLocation (\<lambda>_. None) (rc_timezone nightly) = Inr 0" "rc_duration_minutes nightly = 120"
    by (simp_all add: recurrence_of_def window_with_def loadLocation_def nightly_def zero_recurrence_def)
  ultimately show ?thesis
    using coversCron_exact [of "window_with ''cron'' nightly" nightly "\<lambda>_. None" 0 10800] by force
qed

theorem weekly_cut_at_midnight_witness:
  "weekly_reference late_thursday 82800 (86400 + 1800) \<and>
   coversWeekly (\<lambda>_. None) (window_with ''recurring_weekly'' late_thursday) (86400 + 1800) = Inr False"
proof -
  have "recurrence_of (window_with ''recurring_weekly'' late_thursday) = Inr late_thursday"
    "loadLocation (\<lambda>_. None) (rc_timezone late_thursday) = Inr 0" "rc_weekdays late_thursday = [4]"
    "rc_duration_minutes late_thursday = 120"
    by (simp_all add: recurrence_of_def window_with_def loadLocation_def late_thursday_def zero_recurrence_def)
  moreover have "parseHHMM (rc_start_time late_thursday) = Inr 82800" by code_simp
  moreover have "weekly_reference late_thursday 82800 (86400 + 1800)"
    unfolding weekly_reference_def by (rule exI [of _ 0]) (simp add: late_thursday_def zero_recurrence_def weekday_def)
  ultimately show ?thesis
    using weekly_cut_at_midnight [of "window_with ''recurring_weekly'' late_thursday" late_thursday "\<lambda>_. None" 0
        82800 "86400 + 1800"]
    by (simp add: weekday_def)
qed

theorem IsInMaintenance_exact_witness:
  "result (IsInMaintenance (\<lambda>_. None) 1 500) group_world = Inr None"
proof -
  have "faults group_world = []" by (simp add: group_world_def empty_world_def)
  then obtain x where x: "result (IsInMaintenance (\<lambda>_. None) 1 500) group_world = Inr x"
    by (simp add: IsInMaintenance_def WindowsForDomain_def eff_run)
  have "set (rows (maintenance_targets (assets group_world))) =
      {\<lparr>mt_id = 1, mt_maintenance_id = 1, mt_target_type = ''host_group'', mt_target_id = 1\<rparr>}"
    by (simp add: group_world_def)
  with IsInMaintenance_exact [OF x] x show ?thesis by simp
qed

end
