(* ===== verification/Probe_Checkers.thy ===== *)
theory Probe_Checkers
  imports Asset_Store
begin

text \<open>
  internal/probe/checker.go, l1.go, l2.go and l3.go: the three tiers of uptime checks. The network is
  a parameter: the answers of name resolution, of connecting to a port and of an HTTP request, the
  hash of a body, and the milliseconds a check took. \<open>%q\<close> is the text in quotes, for texts without
  characters to escape.
\<close>

section \<open>Requests, results and the network\<close>

record check_request =
  cq_fqdn :: string
  cq_expected_status :: "int option"
  cq_expected_keyword :: "string option"
  cq_expected_meta_tag :: "string option"
  cq_timeout_seconds :: int
  cq_health_path :: string

record check_result =
  ck_status :: string
  ck_http_status :: "int option"
  ck_response_time_ms :: "int option"
  ck_response_size_b :: "int option"
  ck_tls_handshake_ok :: "bool option"
  ck_cert_expires_at :: "int option"
  ck_content_hash :: "string option"
  ck_error_message :: "string option"

record http_failure =
  hf_timeout :: bool
  hf_text :: string

text \<open>The expiry times of the peer certificates, if the answer came over TLS; the bytes of the body.\<close>

record http_reply =
  hp_status :: int
  hp_certificates :: "int list option"
  hp_body :: string
  hp_read_error :: "string option"

record network =
  nt_lookup_host :: "string \<Rightarrow> string + string list"
  nt_get :: "int \<Rightarrow> string \<Rightarrow> http_failure + http_reply"
  nt_sha256 :: "string \<Rightarrow> string"
  nt_elapsed_ms :: int

definition StatusOK :: string where "StatusOK = ''ok''"
definition StatusFail :: string where "StatusFail = ''fail''"
definition StatusTimeout :: string where "StatusTimeout = ''timeout''"
definition StatusError :: string where "StatusError = ''error''"

definition statusFromErr :: "http_failure \<Rightarrow> string" where
  "statusFromErr e = (if hf_timeout e then StatusTimeout else StatusFail)"

definition effective_timeout :: "check_request \<Rightarrow> int" where
  "effective_timeout req = (if cq_timeout_seconds req \<le> 0 then 8 else cq_timeout_seconds req)"

text \<open>HTTPS first, HTTP when that fails; the last failure counts.\<close>

definition get_either :: "network \<Rightarrow> check_request \<Rightarrow> string \<Rightarrow> http_failure + http_reply" where
  "get_either net req path =
     (case nt_get net (effective_timeout req) (''https://'' @ cq_fqdn req @ path) of
        Inr resp \<Rightarrow> Inr resp
      | Inl _ \<Rightarrow> nt_get net (effective_timeout req) (''http://'' @ cq_fqdn req @ path))"

text \<open>\<open>io.ReadAll(io.LimitReader(body, n))\<close>: an error behind the limit is not seen.\<close>

definition read_limited :: "nat \<Rightarrow> http_reply \<Rightarrow> string \<times> string option" where
  "read_limited n resp = (take n (hp_body resp),
     if length (hp_body resp) \<ge> n then None else hp_read_error resp)"

definition failed_check :: "network \<Rightarrow> string \<Rightarrow> int option \<Rightarrow> string \<Rightarrow> check_result" where
  "failed_check net status http msg = \<lparr>ck_status = status, ck_http_status = http,
     ck_response_time_ms = Some (nt_elapsed_ms net), ck_response_size_b = None, ck_tls_handshake_ok = None,
     ck_cert_expires_at = None, ck_content_hash = None, ck_error_message = Some msg\<rparr>"

section \<open>Tier 1: infrastructure\<close>

text \<open>\<open>net.SplitHostPort\<close> on names and IPv4 addresses: one colon.\<close>

definition dnsHost :: "string \<Rightarrow> string" where
  "dnsHost fqdn = (if count_list fqdn (CHR '':'') = 1 then takeWhile (\<lambda>c. c \<noteq> CHR '':'') fqdn else fqdn)"

definition earliest :: "int list \<Rightarrow> int option" where
  "earliest ts = fold (\<lambda>t acc. case acc of None \<Rightarrow> Some t | Some m \<Rightarrow> if t < m then Some t else Some m) ts None"

definition L1_Check :: "network \<Rightarrow> check_request \<Rightarrow> check_result" where
  "L1_Check net req = (case nt_lookup_host net (dnsHost (cq_fqdn req)) of
       Inl e \<Rightarrow> failed_check net StatusFail None (''dns: '' @ e)
     | Inr addrs \<Rightarrow> (case get_either net req ''/'' of
         Inl e \<Rightarrow> failed_check net (statusFromErr e) None (''http: '' @ hf_text e)
       | Inr resp \<Rightarrow>
           \<lparr>ck_status = (if hp_status resp \<ge> 500 then StatusFail else StatusOK),
            ck_http_status = Some (hp_status resp), ck_response_time_ms = Some (nt_elapsed_ms net),
            ck_response_size_b = None, ck_tls_handshake_ok = Some (hp_certificates resp \<noteq> None),
            ck_cert_expires_at = (case hp_certificates resp of None \<Rightarrow> None | Some cs \<Rightarrow> earliest cs),
            ck_content_hash = None, ck_error_message = None\<rparr>))"

section \<open>Tier 2: what was released\<close>

definition is_word :: "char \<Rightarrow> bool" where
  "is_word c \<longleftrightarrow> (let n = of_char c :: nat in
     48 \<le> n \<and> n \<le> 57 \<or> 65 \<le> n \<and> n \<le> 90 \<or> 97 \<le> n \<and> n \<le> 122 \<or> n = 95)"

definition is_quote :: "char \<Rightarrow> bool" where
  "is_quote c \<longleftrightarrow> of_char c = (34::nat) \<or> of_char c = (39::nat)"

text \<open>
  \<open>metaTagRe\<close>, \<open>(?i)<meta\b[^>]*>\<close>: the matches from left to right, and \<open>metaNameRe\<close> and
  \<open>metaContentRe\<close> as matchers tried at every word boundary of a tag.
\<close>

definition meta_here :: "string \<Rightarrow> string option" where
  "meta_here s = (let rest = drop 5 s in
     if EqualFold (take 5 s) ''<meta'' \<and> (case rest of [] \<Rightarrow> False | c # _ \<Rightarrow> \<not> is_word c) \<and>
       CHR ''>'' \<in> set rest
     then Some (take 5 s @ takeWhile (\<lambda>c. c \<noteq> CHR ''>'') rest @ ''>'') else None)"

fun meta_tags :: "nat \<Rightarrow> string \<Rightarrow> string list" where
  "meta_tags skip [] = []"
| "meta_tags (Suc k) (c # cs) = meta_tags k cs"
| "meta_tags 0 (c # cs) = (case meta_here (c # cs) of
     None \<Rightarrow> meta_tags 0 cs | Some tag \<Rightarrow> tag # meta_tags (length tag - 1) cs)"

fun at_boundary :: "(string \<Rightarrow> 'a option) \<Rightarrow> bool \<Rightarrow> string \<Rightarrow> 'a option" where
  "at_boundary m prev [] = None"
| "at_boundary m prev (c # cs) = (case (if prev then None else m (c # cs)) of
     Some x \<Rightarrow> Some x | None \<Rightarrow> at_boundary m (is_word c) cs)"

definition name_attr :: "string \<Rightarrow> unit option" where
  "name_attr s = (case drop 5 s of
     q # rest \<Rightarrow> if EqualFold (take 5 s) ''name='' \<and> is_quote q \<and>
         EqualFold (take 15 rest) ''release-version'' \<and>
         (case drop 15 rest of [] \<Rightarrow> False | q' # _ \<Rightarrow> is_quote q') then Some () else None
   | [] \<Rightarrow> None)"

definition content_attr :: "string \<Rightarrow> string option" where
  "content_attr s = (case drop 8 s of
     q # rest \<Rightarrow> let val = takeWhile (\<lambda>c. \<not> is_quote c) rest in
       if EqualFold (take 8 s) ''content='' \<and> is_quote q \<and> val \<noteq> [] \<and> length val < length rest
       then Some val else None
   | [] \<Rightarrow> None)"

text \<open>The content of the first tag that has the name, if it has a content.\<close>

definition meta_version :: "string \<Rightarrow> string option" where
  "meta_version body = (case find (\<lambda>tag. at_boundary name_attr False tag \<noteq> None) (meta_tags 0 body) of
     None \<Rightarrow> None | Some tag \<Rightarrow> at_boundary content_attr False tag)"

definition wanted :: "string option \<Rightarrow> string option" where
  "wanted x = (case x of None \<Rightarrow> None | Some s \<Rightarrow> if s = [] then None else Some s)"

definition quoted :: "string \<Rightarrow> string" where
  "quoted s = [CHR 0x22] @ s @ [CHR 0x22]"

definition join_failures :: "string list \<Rightarrow> string" where
  "join_failures fs = concat (case fs of [] \<Rightarrow> [] | f # r \<Rightarrow> f # map (\<lambda>x. ''; '' @ x) r)"

definition maxBodyBytes :: nat where
  "maxBodyBytes = 1048576"

definition L2_failures :: "check_request \<Rightarrow> int \<Rightarrow> string \<Rightarrow> string list" where
  "L2_failures req status body =
     (let expectedStatus = (case cq_expected_status req of None \<Rightarrow> 200 | Some s \<Rightarrow> s) in
      (if status \<noteq> expectedStatus
       then [''status '' @ show_int status @ '' != '' @ show_int expectedStatus] else []) @
      (case wanted (cq_expected_keyword req) of None \<Rightarrow> []
       | Some k \<Rightarrow> if \<not> Contains body k then [''keyword '' @ quoted k @ '' not found''] else []) @
      (case wanted (cq_expected_meta_tag req) of None \<Rightarrow> []
       | Some v \<Rightarrow>
           let detected = (case meta_version body of None \<Rightarrow> [] | Some x \<Rightarrow> x) in
           if meta_version body \<noteq> Some v
           then [''meta version '' @ quoted detected @ '' != '' @ quoted v] else []))"

definition L2_Check :: "network \<Rightarrow> check_request \<Rightarrow> check_result" where
  "L2_Check net req = (case get_either net req ''/'' of
       Inl e \<Rightarrow> failed_check net (statusFromErr e) None (''http: '' @ hf_text e)
     | Inr resp \<Rightarrow> (case read_limited maxBodyBytes resp of
         (body, Some e) \<Rightarrow> failed_check net StatusError (Some (hp_status resp)) (''read body: '' @ e)
       | (body, None) \<Rightarrow>
           let failures = L2_failures req (hp_status resp) body in
           \<lparr>ck_status = (if failures \<noteq> [] then StatusFail else StatusOK),
            ck_http_status = Some (hp_status resp), ck_response_time_ms = Some (nt_elapsed_ms net),
            ck_response_size_b = Some (int (length body)), ck_tls_handshake_ok = None,
            ck_cert_expires_at = None, ck_content_hash = Some (nt_sha256 net body),
            ck_error_message = (if failures \<noteq> [] then Some (join_failures failures) else None)\<rparr>))"

section \<open>Tier 3: health\<close>

definition health_path :: "check_request \<Rightarrow> string" where
  "health_path req =
     (let p = (if cq_health_path req = [] then ''/health'' else cq_health_path req) in
      if \<not> HasPrefix p ''/'' then ''/'' @ p else p)"

definition L3_failures :: "check_request \<Rightarrow> int \<Rightarrow> string \<Rightarrow> string list" where
  "L3_failures req status snippet =
     (if status < 200 \<or> status \<ge> 300 then [''status '' @ show_int status] else []) @
     (case wanted (cq_expected_keyword req) of None \<Rightarrow> []
      | Some k \<Rightarrow> if \<not> Contains snippet k then [''keyword '' @ quoted k @ '' not found''] else [])"

definition L3_Check :: "network \<Rightarrow> check_request \<Rightarrow> check_result" where
  "L3_Check net req = (case get_either net req (health_path req) of
       Inl e \<Rightarrow> failed_check net (statusFromErr e) None (''http: '' @ hf_text e)
     | Inr resp \<Rightarrow>
         let failures = L3_failures req (hp_status resp) (fst (read_limited 512 resp)) in
         \<lparr>ck_status = (if failures \<noteq> [] then StatusFail else StatusOK),
          ck_http_status = Some (hp_status resp), ck_response_time_ms = Some (nt_elapsed_ms net),
          ck_response_size_b = None, ck_tls_handshake_ok = None, ck_cert_expires_at = None,
          ck_content_hash = None,
          ck_error_message = (if failures \<noteq> [] then Some (join_failures failures) else None)\<rparr>)"

section \<open>When a check succeeds\<close>

lemma status_simps [simp]:
  "StatusFail \<noteq> StatusOK" "StatusTimeout \<noteq> StatusOK" "StatusError \<noteq> StatusOK"
  by (simp_all add: StatusOK_def StatusFail_def StatusTimeout_def StatusError_def)

lemma L2_failures_Nil:
  "L2_failures req status body = [] \<longleftrightarrow>
     status = (case cq_expected_status req of None \<Rightarrow> 200 | Some s \<Rightarrow> s) \<and>
     (\<forall>k. wanted (cq_expected_keyword req) = Some k \<longrightarrow> Contains body k) \<and>
     (\<forall>v. wanted (cq_expected_meta_tag req) = Some v \<longrightarrow> meta_version body = Some v)"
  by (auto simp: L2_failures_def Let_def split: option.split)

text \<open>
  A release check succeeds exactly when the site answered, over HTTPS or else over HTTP, its
  status is the expected one (200 if none is given), the expected text occurs in the first
  megabyte, and the first meta tag named release-version has the expected content; whenever it
  does not succeed it carries a message.
\<close>

theorem L2_Check_exact:
  "(ck_status (L2_Check net req) = StatusOK \<longleftrightarrow> (\<exists>resp body. get_either net req ''/'' = Inr resp \<and>
      read_limited maxBodyBytes resp = (body, None) \<and>
      hp_status resp = (case cq_expected_status req of None \<Rightarrow> 200 | Some s \<Rightarrow> s) \<and>
      (\<forall>k. wanted (cq_expected_keyword req) = Some k \<longrightarrow> (\<exists>pre post. body = pre @ k @ post)) \<and>
      (\<forall>v. wanted (cq_expected_meta_tag req) = Some v \<longrightarrow> meta_version body = Some v))) \<and>
   (ck_status (L2_Check net req) \<noteq> StatusOK \<longleftrightarrow> ck_error_message (L2_Check net req) \<noteq> None)"
proof (cases "get_either net req ''/''")
  case (Inl e)
  then show ?thesis by (simp add: L2_Check_def failed_check_def statusFromErr_def)
next
  case (Inr resp)
  obtain body err where read: "read_limited maxBodyBytes resp = (body, err)" by fastforce
  show ?thesis
  proof (cases err)
    case None
    with Inr read show ?thesis
      by (simp add: L2_Check_def Let_def L2_failures_Nil Contains_iff)
  next
    case (Some e)
    with Inr read show ?thesis by (simp add: L2_Check_def failed_check_def)
  qed
qed

text \<open>Tier 1 reports a site that answers 404 as well: it fails from 500 on, without a message.\<close>

lemma L1_Check_ok:
  "ck_status (L1_Check net req) = StatusOK \<longleftrightarrow> (\<exists>addrs resp. nt_lookup_host net (dnsHost (cq_fqdn req)) = Inr addrs \<and>
     get_either net req ''/'' = Inr resp \<and> hp_status resp < 500)"
  by (auto simp: L1_Check_def failed_check_def statusFromErr_def split: sum.split)

lemma L1_server_error_no_message:
  "nt_lookup_host net (dnsHost (cq_fqdn req)) = Inr addrs \<Longrightarrow> get_either net req ''/'' = Inr resp \<Longrightarrow>
   hp_status resp \<ge> 500 \<Longrightarrow>
   ck_status (L1_Check net req) = StatusFail \<and> ck_error_message (L1_Check net req) = None"
  by (simp add: L1_Check_def)

lemma L3_Check_ok:
  "ck_status (L3_Check net req) = StatusOK \<longleftrightarrow> (\<exists>resp. get_either net req (health_path req) = Inr resp \<and>
     200 \<le> hp_status resp \<and> hp_status resp < 300 \<and>
     (\<forall>k. wanted (cq_expected_keyword req) = Some k \<longrightarrow> Contains (take 512 (hp_body resp)) k))"
  by (auto simp: L3_Check_def L3_failures_def Let_def failed_check_def statusFromErr_def read_limited_def
      split: sum.split option.split)

lemma check_status:
  "ck_status (L1_Check net req) \<in> {StatusOK, StatusFail, StatusTimeout, StatusError}"
  "ck_status (L2_Check net req) \<in> {StatusOK, StatusFail, StatusTimeout, StatusError}"
  "ck_status (L3_Check net req) \<in> {StatusOK, StatusFail, StatusTimeout, StatusError}"
  by (auto simp: L1_Check_def L2_Check_def L3_Check_def Let_def failed_check_def statusFromErr_def
      split: sum.split prod.split option.split)

end
