(* ===== verification/Uptime.thy ===== *)
theory Uptime
  imports Probe_Checkers Alerting
begin

text \<open>
  internal/probe/service.go and task.go over store/postgres/probe.go: policies, the tasks made of
  them, the handlers that run a check and the results they leave. A result row keeps what the
  status pages and the alerts read. Columns of releases and artifacts, which no code here fills,
  are left out.
\<close>

section \<open>Policies\<close>

definition ListPolicies :: "int option \<Rightarrow> bool \<Rightarrow> probe_policy_row list op" where
  "ListPolicies projectID enabledOnly = asset_query (\<lambda>a. sort_key pp_tier (sort_key pp_name
     (tbl_select (\<lambda>p. (projectID = None \<or> pp_project_id p = projectID) \<and> (enabledOnly \<longrightarrow> pp_enabled p))
        (probe_policies a))))"

definition GetPolicy :: "int \<Rightarrow> probe_policy_row op" where
  "GetPolicy i = asset_get ErrProbePolicyNotFound (\<lambda>a. tbl_get pp_id (probe_policies a) i)"

definition valid_tier :: "int \<Rightarrow> bool" where
  "valid_tier n \<longleftrightarrow> n \<in> {1, 2, 3}"

definition CreatePolicy :: "probe_policy_row \<Rightarrow> unit op" where
  "CreatePolicy p = asset_exec_unless (\<lambda>a. \<not> valid_tier (pp_tier p)) (ErrCheck ''chk_probe_policies_tier'')
     (\<lambda>t a. a\<lparr>probe_policies := tbl_insert (\<lambda>i. p\<lparr>pp_id := i\<rparr>) (probe_policies a)\<rparr>)"

definition UpdatePolicy :: "probe_policy_row \<Rightarrow> unit op" where
  "UpdatePolicy p = asset_stmt (\<lambda>t a.
     if tbl_get pp_id (probe_policies a) (pp_id p) = None then (Inl ErrProbePolicyNotFound, a)
     else if \<not> valid_tier (pp_tier p) then (Inl (ErrCheck ''chk_probe_policies_tier''), a)
     else (Inr (), a\<lparr>probe_policies := tbl_update (\<lambda>r. pp_id r = pp_id p)
       (\<lambda>r. r\<lparr>pp_name := pp_name p, pp_tier := pp_tier p, pp_interval_seconds := pp_interval_seconds p,
          pp_timeout_seconds := pp_timeout_seconds p, pp_expected_status := pp_expected_status p,
          pp_expected_keyword := pp_expected_keyword p, pp_expected_meta_tag := pp_expected_meta_tag p,
          pp_enabled := pp_enabled p\<rparr>) (probe_policies a)\<rparr>))"

definition DeletePolicy :: "int \<Rightarrow> unit op" where
  "DeletePolicy i = asset_exec_unless (\<lambda>a. tbl_get pp_id (probe_policies a) i = None) ErrProbePolicyNotFound
     (\<lambda>t a. a\<lparr>probe_policies := tbl_delete (\<lambda>r. pp_id r = i) (probe_policies a)\<rparr>)"

section \<open>Tasks and results\<close>

definition new_probe_task :: "int \<Rightarrow> int \<Rightarrow> int \<Rightarrow> int \<Rightarrow> probe_task_row" where
  "new_probe_task policy dm when i = \<lparr>pt_id = i, pt_policy_id = policy, pt_domain_id = dm,
     pt_scheduled_for = when, pt_status = ''pending'', pt_started_at = None, pt_completed_at = None,
     pt_error_message = None\<rparr>"

definition ProbeStore_CreateTask :: "int \<Rightarrow> int \<Rightarrow> int \<Rightarrow> int op" where
  "ProbeStore_CreateTask policy dm when = asset_stmt (\<lambda>t a.
     (Inr (seq (probe_tasks a) + 1),
      a\<lparr>probe_tasks := tbl_insert (new_probe_task policy dm when) (probe_tasks a)\<rparr>))"

definition ProbeStore_ListPendingTasks :: "nat \<Rightarrow> probe_task_row list op" where
  "ProbeStore_ListPendingTasks limit = query (\<lambda>w. take limit (sort_key pt_scheduled_for
     (tbl_select (\<lambda>t. pt_status t = ''pending'' \<and> pt_scheduled_for t \<le> now w) (probe_tasks (assets w)))))"

definition pending_task :: "int \<Rightarrow> probe_task_row \<Rightarrow> bool" where
  "pending_task i t \<longleftrightarrow> pt_id t = i \<and> pt_status t = ''pending''"

definition ProbeStore_ClaimTask :: "int \<Rightarrow> unit op" where
  "ProbeStore_ClaimTask i = asset_exec_unless
     (\<lambda>a. tbl_find (pending_task i) (probe_tasks a) = None) ErrProbeTaskNotFound
     (\<lambda>t a. a\<lparr>probe_tasks := tbl_update (pending_task i)
        (\<lambda>r. r\<lparr>pt_status := ''running'', pt_started_at := Some t\<rparr>) (probe_tasks a)\<rparr>)"

definition ProbeStore_CompleteTask :: "int \<Rightarrow> string option \<Rightarrow> unit op" where
  "ProbeStore_CompleteTask i msg = asset_exec (\<lambda>t a. a\<lparr>probe_tasks := tbl_update (\<lambda>r. pt_id r = i)
     (\<lambda>r. r\<lparr>pt_status := ''completed'', pt_completed_at := Some t, pt_error_message := msg\<rparr>) (probe_tasks a)\<rparr>)"

definition valid_result :: "probe_result_row \<Rightarrow> bool" where
  "valid_result r \<longleftrightarrow> valid_tier (pr_tier r) \<and> pr_status r \<in> {''ok'', ''fail'', ''timeout'', ''error''}"

text \<open>The column \<open>probe_type\<close> is not among those of the \<open>INSERT\<close>: its default is \<open>http\<close>.\<close>

definition ProbeStore_SaveResult :: "probe_result_row \<Rightarrow> unit op" where
  "ProbeStore_SaveResult r = asset_exec_unless (\<lambda>a. \<not> valid_result r) (ErrCheck ''chk_probe_results'')
     (\<lambda>t a. a\<lparr>probe_results := tbl_insert (\<lambda>i. r\<lparr>pr_id := i, pr_probe_type := ''http''\<rparr>) (probe_results a)\<rparr>)"

definition newest_first :: "probe_result_row list \<Rightarrow> probe_result_row list" where
  "newest_first rs = rev (sort_key pr_checked_at rs)"

definition ListDomainResults :: "int \<Rightarrow> int option \<Rightarrow> nat \<Rightarrow> probe_result_row list op" where
  "ListDomainResults dm tier limit = asset_query (\<lambda>a. take limit (newest_first (tbl_select
     (\<lambda>r. pr_domain_id r = dm \<and> (tier = None \<or> tier = Some (pr_tier r))) (probe_results a))))"

definition DomainLastResult :: "int \<Rightarrow> int \<Rightarrow> probe_result_row option op" where
  "DomainLastResult dm tier = asset_query (\<lambda>a. case newest_first (tbl_select
     (\<lambda>r. pr_domain_id r = dm \<and> pr_tier r = tier) (probe_results a)) of [] \<Rightarrow> None | r # rs \<Rightarrow> Some r)"

section \<open>Scheduling\<close>

definition DomainStore_ListActive :: "domain_row list op" where
  "DomainStore_ListActive = query (\<lambda>w. sort_key d_id (tbl_select
     (\<lambda>d. d_lifecycle_state d = ''active'' \<and> d_deleted_at d = None) (domains w)))"

definition createAndEnqueue :: "probe_policy_row \<Rightarrow> domain_row \<Rightarrow> unit op" where
  "createAndEnqueue policy d =
     bnd (gets now) (\<lambda>t.
     bnd (ProbeStore_CreateTask (pp_id policy) (d_id d) t) (\<lambda>i.
       enqueue (ProbeRunJob (pp_tier policy) \<lparr>rp_probe_task_id = i, rp_policy_id = pp_id policy,
          rp_domain_id = d_id d, rp_fqdn = d_fqdn d, rp_expected_status = pp_expected_status policy,
          rp_expected_keyword = pp_expected_keyword policy, rp_expected_meta_tag = pp_expected_meta_tag policy,
          rp_timeout_seconds = pp_timeout_seconds policy, rp_health_path = []\<rparr>)
        2 (pp_timeout_seconds policy + 5) ''probe'' 0))"

text \<open>\<open>taskTypeForTier\<close> knows the three tiers.\<close>

definition schedule_policy :: "domain_row list \<Rightarrow> probe_policy_row \<Rightarrow> unit op" where
  "schedule_policy ds policy =
     (if \<not> valid_tier (pp_tier policy) then ret ()
      else for_each ds (\<lambda>d.
        if \<exists>p \<in> set_option (pp_project_id policy). d_project_id d \<noteq> p then ret ()
        else ignore (createAndEnqueue policy d)))"

definition ScheduleAll :: "unit op" where
  "ScheduleAll =
     bnd (ListPolicies None True) (\<lambda>policies.
       if length policies = 0 then ret ()
       else bnd DomainStore_ListActive (\<lambda>ds.
         if length ds = 0 then ret () else for_each policies (schedule_policy ds)))"

section \<open>Running a task\<close>

definition Probe_SaveResult :: "int \<Rightarrow> int \<Rightarrow> int \<Rightarrow> int \<Rightarrow> check_result \<Rightarrow> unit op" where
  "Probe_SaveResult taskID domainID policyID tier r = bnd (gets now) (\<lambda>t.
     ProbeStore_SaveResult \<lparr>pr_id = 0, pr_domain_id = domainID, pr_policy_id = Some policyID,
       pr_probe_task_id = Some taskID, pr_tier = tier, pr_status = ck_status r,
       pr_http_status = ck_http_status r, pr_response_time_ms = ck_response_time_ms r,
       pr_error_message = ck_error_message r, pr_probe_runner = Some ''worker'',
       pr_checked_at = t, pr_probe_type = []\<rparr>)"

definition fireProbeAlert :: "int \<Rightarrow> string \<Rightarrow> run_payload \<Rightarrow> unit op" where
  "fireProbeAlert tier severity p = ignore (EnqueueFire \<lparr>ap_severity = severity, ap_source = ''probe'',
     ap_target_kind = ''domain'', ap_target_id = Some (rp_domain_id p),
     ap_title = ''L'' @ show_int tier @ '' probe failed: '' @ rp_fqdn p, ap_detail = None,
     ap_dedup_key = ''probe:l'' @ show_int tier @ '':domain:'' @ show_int (rp_domain_id p)\<rparr>)"

text \<open>The body the three handlers share.\<close>

definition run_task :: "int \<Rightarrow> string \<Rightarrow> check_result \<Rightarrow> run_payload \<Rightarrow> unit op" where
  "run_task tier severity res p =
     bnd (attempt (ProbeStore_ClaimTask (rp_probe_task_id p))) (\<lambda>c. case c of
       Inl e \<Rightarrow> ret ()
     | Inr u \<Rightarrow>
         seq_eff (ignore (Probe_SaveResult (rp_probe_task_id p) (rp_domain_id p) (rp_policy_id p) tier res))
        (seq_eff (if ck_status res = StatusFail \<or> ck_status res = StatusTimeout \<or> ck_status res = StatusError
                  then fireProbeAlert tier severity p else ret ())
           (ProbeStore_CompleteTask (rp_probe_task_id p) (ck_error_message res))))"

definition HandleL1_run :: "network \<Rightarrow> run_payload \<Rightarrow> unit op" where
  "HandleL1_run net p = run_task 1 ''P1'' (L1_Check net \<lparr>cq_fqdn = rp_fqdn p,
     cq_expected_status = rp_expected_status p, cq_expected_keyword = None, cq_expected_meta_tag = None,
     cq_timeout_seconds = rp_timeout_seconds p, cq_health_path = []\<rparr>) p"

definition HandleL2_run :: "network \<Rightarrow> run_payload \<Rightarrow> unit op" where
  "HandleL2_run net p = run_task 2 ''P2'' (L2_Check net \<lparr>cq_fqdn = rp_fqdn p,
     cq_expected_status = rp_expected_status p, cq_expected_keyword = rp_expected_keyword p,
     cq_expected_meta_tag = rp_expected_meta_tag p, cq_timeout_seconds = rp_timeout_seconds p,
     cq_health_path = []\<rparr>) p"

definition HandleL3_run :: "network \<Rightarrow> run_payload \<Rightarrow> unit op" where
  "HandleL3_run net p = run_task 3 ''P3'' (L3_Check net \<lparr>cq_fqdn = rp_fqdn p,
     cq_expected_status = None, cq_expected_keyword = rp_expected_keyword p, cq_expected_meta_tag = None,
     cq_timeout_seconds = rp_timeout_seconds p, cq_health_path = rp_health_path p\<rparr>) p"

definition HandleProbeRun :: "network \<Rightarrow> int \<Rightarrow> run_payload \<Rightarrow> unit op" where
  "HandleProbeRun net tier p =
     (if tier = 1 then HandleL1_run net p else if tier = 2 then HandleL2_run net p
      else if tier = 3 then HandleL3_run net p else ret ())"

section \<open>One result per task\<close>

text \<open>
  The tables of tasks and results fit together: every result belongs to a task that was claimed,
  no task has two results, and every result has the default type.
\<close>

definition claimed :: "int \<Rightarrow> assets \<Rightarrow> bool" where
  "claimed i a \<longleftrightarrow> i \<le> seq (probe_tasks a) \<and> tbl_find (pending_task i) (probe_tasks a) = None"

definition result_tasks :: "assets \<Rightarrow> int option list" where
  "result_tasks a = map pr_probe_task_id (rows (probe_results a))"

definition probe_inv :: "assets \<Rightarrow> bool" where
  "probe_inv a \<longleftrightarrow> wf_tbl pt_id (probe_tasks a) \<and> distinct (result_tasks a) \<and>
     (\<forall>x \<in> set (result_tasks a). \<exists>i. x = Some i \<and> claimed i a) \<and>
     (\<forall>r \<in> set (rows (probe_results a)). pr_probe_type r = ''http'' \<and> valid_result r)"

text \<open>A task that was claimed and has no result yet.\<close>

definition unreported :: "int \<Rightarrow> assets \<Rightarrow> bool" where
  "unreported i a \<longleftrightarrow> claimed i a \<and> Some i \<notin> set (result_tasks a)"

lemma find_update_None:
  "find q xs = None \<Longrightarrow> (\<And>r. q (f r) \<Longrightarrow> q r) \<Longrightarrow> find q (map (\<lambda>r. if p r then f r else r) xs) = None"
  by (induction xs) (auto split: if_splits)

lemma claimed_update:
  assumes "claimed i a" and "\<And>r. pt_id (f r) = pt_id r" and "\<And>r. pt_status (f r) \<noteq> ''pending''"
  shows "claimed i (a\<lparr>probe_tasks := tbl_update p f (probe_tasks a)\<rparr>)"
  using assms unfolding claimed_def tbl_find_def tbl_update_def
  by (auto simp: pending_task_def intro!: find_update_None)

lemma probe_inv_update:
  assumes "probe_inv a" and "\<And>r. pt_id (f r) = pt_id r" and "\<And>r. pt_status (f r) \<noteq> ''pending''"
  shows "probe_inv (a\<lparr>probe_tasks := tbl_update p f (probe_tasks a)\<rparr>)"
  using assms claimed_update [of _ a f p]
  by (fastforce simp: probe_inv_def result_tasks_def wf_update)

lemma ClaimTask_hoare:
  "hoare (\<lambda>w. probe_inv (assets w)) (ProbeStore_ClaimTask i)
     (\<lambda>_ w. probe_inv (assets w) \<and> unreported i (assets w)) (\<lambda>w. probe_inv (assets w))"
proof (rule hoareI)
  fix w :: world assume inv: "probe_inv (assets w)"
  let ?m = "ProbeStore_ClaimTask i"
  let ?f = "\<lambda>r. r\<lparr>pt_status := ''running'', pt_started_at := Some (now w)\<rparr>"
  note out = exec_unless_outcome [of "\<lambda>a. tbl_find (pending_task i) (probe_tasks a) = None" ErrProbeTaskNotFound
      "\<lambda>t a. a\<lparr>probe_tasks := tbl_update (pending_task i)
        (\<lambda>r. r\<lparr>pt_status := ''running'', pt_started_at := Some t\<rparr>) (probe_tasks a)\<rparr>" w,
      folded ProbeStore_ClaimTask_def]
  show "case result ?m w of Inl e \<Rightarrow> probe_inv (assets (final ?m w))
    | Inr u \<Rightarrow> probe_inv (assets (final ?m w)) \<and> unreported i (assets (final ?m w))"
  proof (cases "result ?m w")
    case (Inl e)
    with out inv show ?thesis by simp
  next
    case (Inr u)
    let ?a = "(assets w)\<lparr>probe_tasks := tbl_update (pending_task i) ?f (probe_tasks (assets w))\<rparr>"
    have a: "assets (final ?m w) = ?a" and old: "tbl_find (pending_task i) (probe_tasks (assets w)) \<noteq> None"
      using out Inr by simp_all
    have "find (pending_task i) (map (\<lambda>r. if pending_task i r then ?f r else r) xs) = None" for xs
      by (induction xs) (auto simp: pending_task_def)
    then have "tbl_find (pending_task i) (probe_tasks ?a) = None"
      by (simp add: tbl_find_def tbl_update_def)
    moreover obtain t where "t \<in> set (rows (probe_tasks (assets w)))" "pt_id t = i"
      using old by (auto simp: tbl_find_def pending_task_def dest: find_SomeD)
    then have "i \<le> seq (probe_tasks ?a)"
      using inv by (auto simp: probe_inv_def wf_tbl_def)
    ultimately have "claimed i ?a" by (simp add: claimed_def)
    moreover have "Some i \<notin> set (result_tasks (assets w))"
      using inv old by (auto simp: probe_inv_def claimed_def)
    ultimately have "unreported i ?a" by (simp add: unreported_def result_tasks_def)
    moreover have "probe_inv ?a" using inv by (rule probe_inv_update) simp_all
    ultimately show ?thesis using Inr a by simp
  qed
qed

abbreviation probe_ok :: "world \<Rightarrow> bool" where
  "probe_ok w \<equiv> probe_inv (assets w)"

lemma SaveResult_hoare:
  "hoare (\<lambda>w. probe_ok w \<and> unreported i (assets w)) (Probe_SaveResult i dm pol tier r)
     (\<lambda>_. probe_ok) probe_ok"
proof (rule hoareI)
  fix w :: world assume inv: "probe_ok w \<and> unreported i (assets w)"
  let ?m = "Probe_SaveResult i dm pol tier r"
  let ?row = "\<lparr>pr_id = 0, pr_domain_id = dm, pr_policy_id = Some pol, pr_probe_task_id = Some i, pr_tier = tier,
    pr_status = ck_status r, pr_http_status = ck_http_status r, pr_response_time_ms = ck_response_time_ms r,
    pr_error_message = ck_error_message r, pr_probe_runner = Some ''worker'', pr_checked_at = now w, pr_probe_type = []\<rparr>"
  let ?a = "(assets w)\<lparr>probe_results := tbl_insert (\<lambda>k. ?row\<lparr>pr_id := k, pr_probe_type := ''http''\<rparr>)
    (probe_results (assets w))\<rparr>"
  have run: "result ?m w = result (ProbeStore_SaveResult ?row) w" "final ?m w = final (ProbeStore_SaveResult ?row) w"
    by (simp_all add: Probe_SaveResult_def eff_run)
  have out: "case result ?m w of Inl e \<Rightarrow> assets (final ?m w) = assets w
    | Inr u \<Rightarrow> valid_result ?row \<and> assets (final ?m w) = ?a"
    unfolding run ProbeStore_SaveResult_def
    using exec_unless_outcome [of "\<lambda>_. \<not> valid_result ?row" "ErrCheck ''chk_probe_results''"
      "\<lambda>t a. a\<lparr>probe_results := tbl_insert (\<lambda>k. ?row\<lparr>pr_id := k, pr_probe_type := ''http''\<rparr>) (probe_results a)\<rparr>" w]
    by (simp only: not_not)
  have "probe_inv ?a" if "valid_result ?row"
    using inv that by (auto simp: probe_inv_def unreported_def claimed_def result_tasks_def tbl_insert_def valid_result_def)
  with out inv show "case result ?m w of Inl e \<Rightarrow> probe_ok (final ?m w) | Inr u \<Rightarrow> probe_ok (final ?m w)"
    by (auto split: sum.splits)
qed

lemma probe_step_hoare: "keeps (asset_step probe_inv) m \<Longrightarrow> hoare probe_ok m (\<lambda>_. probe_ok) probe_ok"
  by (rule hoare_frame [where S = "asset_step probe_inv"]) (auto simp: asset_step_def)

lemma step_enqueue [eff_intro]: "keeps (asset_step I) (enqueue j r t q d)"
  by (rule inv.keeps_enqueue) (simp add: asset_step_def)

lemma step_alert [eff_intro]: "keeps (asset_step I) (fireProbeAlert tier sev p)"
  unfolding fireProbeAlert_def EnqueueFire_def by (intro eff_intro)

lemma step_CompleteTask: "keeps (asset_step probe_inv) (ProbeStore_CompleteTask i msg)"
  unfolding ProbeStore_CompleteTask_def by (intro step_exec probe_inv_update) simp_all

lemma run_task_hoare: "hoare probe_ok (run_task tier sev res p) (\<lambda>_. probe_ok) probe_ok"
  unfolding run_task_def
proof (rule hoare_bnd [OF hoare_attempt])
  let ?Q = "\<lambda>c w. probe_ok w \<and> (case c of Inl e \<Rightarrow> True | Inr u \<Rightarrow> unreported (rp_probe_task_id p) (assets w))"
  show "hoare probe_ok (ProbeStore_ClaimTask (rp_probe_task_id p)) (\<lambda>a. ?Q (Inr a)) (\<lambda>w. \<forall>e::go_err. ?Q (Inl e) w)"
    using ClaimTask_hoare by (rule hoare_post) auto
  fix c :: "go_err + unit"
  have "keeps (asset_step probe_inv)
      (seq_eff (if ck_status res = StatusFail \<or> ck_status res = StatusTimeout \<or> ck_status res = StatusError
         then fireProbeAlert tier sev p else ret ())
       (ProbeStore_CompleteTask (rp_probe_task_id p) (ck_error_message res)))"
    by (intro eff_intro step_CompleteTask)
  from hoare_seq [OF hoare_ignore [OF SaveResult_hoare] probe_step_hoare [OF this]]
  show "hoare (?Q c) (case c of Inl e \<Rightarrow> ret ()
     | Inr u \<Rightarrow> seq_eff (ignore (Probe_SaveResult (rp_probe_task_id p) (rp_domain_id p) (rp_policy_id p) tier res))
        (seq_eff (if ck_status res = StatusFail \<or> ck_status res = StatusTimeout \<or> ck_status res = StatusError
                  then fireProbeAlert tier sev p else ret ())
           (ProbeStore_CompleteTask (rp_probe_task_id p) (ck_error_message res)))) (\<lambda>_. probe_ok) probe_ok"
    by (cases c) (auto intro: hoare_ret)
qed

lemma step_run: "keeps (asset_step probe_inv) (HandleProbeRun net tier p)"
proof -
  have "keeps (asset_step probe_inv) (run_task n sev res p)" for n sev res
    using hoareD [OF run_task_hoare] by (fastforce simp: keeps_def asset_step_def split: sum.splits)
  then show ?thesis
    unfolding HandleProbeRun_def HandleL1_run_def HandleL2_run_def HandleL3_run_def by (intro eff_intro) simp_all
qed

lemma claimed_insert:
  assumes "claimed i a"
  shows "claimed i (a\<lparr>probe_tasks := tbl_insert (new_probe_task pol dm when) (probe_tasks a)\<rparr>)"
  using assms by (auto simp: claimed_def tbl_find_def tbl_insert_def find_append pending_task_def new_probe_task_def)

lemma step_CreateTask [eff_intro]: "keeps (asset_step probe_inv) (ProbeStore_CreateTask pol dm when)"
  unfolding ProbeStore_CreateTask_def
proof (rule step_stmt)
  fix t a assume "probe_inv a"
  moreover have "pt_id (new_probe_task pol dm when i) = i" for i by (simp add: new_probe_task_def)
  ultimately show "probe_inv (snd (Inr (seq (probe_tasks a) + 1) :: go_err + int,
      a\<lparr>probe_tasks := tbl_insert (new_probe_task pol dm when) (probe_tasks a)\<rparr>))"
    using claimed_insert [of _ a pol dm "when"] by (fastforce simp: probe_inv_def result_tasks_def wf_insert)
qed

lemma step_ScheduleAll: "keeps (asset_step probe_inv) ScheduleAll"
  unfolding ScheduleAll_def ListPolicies_def DomainStore_ListActive_def schedule_policy_def createAndEnqueue_def
  by (intro eff_intro)

text \<open>
  C28: A probe task leaves at most one result, of a task that was claimed: whatever the checks
  answer and however the database fails, scheduling, running tasks of all tiers and editing
  policies keep the tables fitting together. In particular every stored result has the type http.
\<close>

theorem probe_inv_kept:
  "keeps (asset_step probe_inv) ScheduleAll \<and> keeps (asset_step probe_inv) (HandleProbeRun net tier p) \<and>
   keeps (asset_step probe_inv) (CreatePolicy pol) \<and> keeps (asset_step probe_inv) (UpdatePolicy pol) \<and>
   keeps (asset_step probe_inv) (DeletePolicy i)"
proof (intro conjI)
  have "probe_inv (a\<lparr>probe_policies := x\<rparr>) = probe_inv a" for a x
    by (simp add: probe_inv_def result_tasks_def claimed_def)
  then show "keeps (asset_step probe_inv) (CreatePolicy pol)" "keeps (asset_step probe_inv) (UpdatePolicy pol)"
    "keeps (asset_step probe_inv) (DeletePolicy i)"
    unfolding CreatePolicy_def UpdatePolicy_def DeletePolicy_def
    by (intro step_exec_unless step_stmt; simp)+
qed (rule step_ScheduleAll step_run)+

section \<open>A completion that fails is final\<close>

text \<open>What a claim leaves, and the steps between claim and completion, which do not touch tasks.\<close>

lemma claim_leaves:
  assumes "result (ProbeStore_ClaimTask i) w = Inr u"
  shows "(\<exists>t \<in> set (rows (probe_tasks (assets (final (ProbeStore_ClaimTask i) w)))). pt_id t = i \<and> pt_status t = ''running'')"
    and "tbl_find (pending_task i) (probe_tasks (assets (final (ProbeStore_ClaimTask i) w))) = None"
proof -
  let ?f = "\<lambda>r. r\<lparr>pt_status := ''running'', pt_started_at := Some (now w)\<rparr>"
  have a: "tbl_find (pending_task i) (probe_tasks (assets w)) \<noteq> None"
    "probe_tasks (assets (final (ProbeStore_ClaimTask i) w)) = tbl_update (pending_task i) ?f (probe_tasks (assets w))"
    using assms exec_unless_outcome [of "\<lambda>a. tbl_find (pending_task i) (probe_tasks a) = None" ErrProbeTaskNotFound
      "\<lambda>t a. a\<lparr>probe_tasks := tbl_update (pending_task i)
        (\<lambda>r. r\<lparr>pt_status := ''running'', pt_started_at := Some t\<rparr>) (probe_tasks a)\<rparr>" w,
      folded ProbeStore_ClaimTask_def] by simp_all
  from a(1) obtain t where "t \<in> set (rows (probe_tasks (assets w)))" "pending_task i t"
    by (auto simp: tbl_find_def dest: find_SomeD)
  then show "\<exists>t \<in> set (rows (probe_tasks (assets (final (ProbeStore_ClaimTask i) w)))). pt_id t = i \<and> pt_status t = ''running''"
    unfolding a(2) by (intro bexI [of _ "?f t"]) (auto simp: tbl_update_def pending_task_def image_iff)
  have "find (pending_task i) (map (\<lambda>r. if pending_task i r then ?f r else r) xs) = None" for xs
    by (induction xs) (auto simp: pending_task_def)
  then show "tbl_find (pending_task i) (probe_tasks (assets (final (ProbeStore_ClaimTask i) w))) = None"
    unfolding a(2) by (simp add: tbl_find_def tbl_update_def)
qed

definition same_tasks :: "world \<Rightarrow> world \<Rightarrow> bool" where
  "same_tasks w w' \<longleftrightarrow> probe_tasks (assets w') = probe_tasks (assets w)"

interpretation tk: store_preorder same_tasks
  by unfold_locales (simp_all add: same_tasks_def)

lemma tk_report [eff_intro]:
  "keeps same_tasks (Probe_SaveResult i dm pol tier r)" "keeps same_tasks (fireProbeAlert tier sev p)"
  unfolding Probe_SaveResult_def ProbeStore_SaveResult_def asset_exec_unless_def fireProbeAlert_def EnqueueFire_def
  by (intro eff_intro tk.keeps_exec_unless tk.keeps_enqueue; simp add: same_tasks_def)+

lemma complete_fails:
  "result (ProbeStore_CompleteTask i msg) w = Inl e \<Longrightarrow> assets (final (ProbeStore_CompleteTask i msg) w) = assets w"
  using snap_start [OF snap_assets(3) [of w "\<lambda>t a. a\<lparr>probe_tasks := tbl_update (\<lambda>r. pt_id r = i)
     (\<lambda>r. r\<lparr>pt_status := ''completed'', pt_completed_at := Some t, pt_error_message := msg\<rparr>) (probe_tasks a)\<rparr>"]]
  by (auto simp: ProbeStore_CompleteTask_def dest: read_only_fields)

text \<open>
  When a run ends with an error, the task was claimed and not completed; the queue will retry
  it, but the retry finds it claimed, does nothing and reports success, so the task stays running.
\<close>

theorem failed_run_never_completes:
  assumes "result (run_task tier sev res p) w = Inl e"
    and "faults w' = []" and "probe_tasks (assets w') = probe_tasks (assets (final (run_task tier sev res p) w))"
  shows "(\<exists>t \<in> set (rows (probe_tasks (assets w'))). pt_id t = rp_probe_task_id p \<and> pt_status t = ''running'') \<and>
    result (run_task tier' sev' res' p) w' = Inr () \<and> final (run_task tier' sev' res' p) w' = w'"
proof -
  let ?claim = "ProbeStore_ClaimTask (rp_probe_task_id p)"
  let ?save = "ignore (Probe_SaveResult (rp_probe_task_id p) (rp_domain_id p) (rp_policy_id p) tier res)"
  let ?alert = "if ck_status res = StatusFail \<or> ck_status res = StatusTimeout \<or> ck_status res = StatusError
    then fireProbeAlert tier sev p else ret ()"
  let ?complete = "ProbeStore_CompleteTask (rp_probe_task_id p) (ck_error_message res)"
  let ?w3 = "final ?alert (final ?save (final ?claim w))"
  have ok: "result ?save v = Inr ()" "result ?alert v = Inr ()" for v
    by (simp_all add: fireProbeAlert_def)
  obtain u where claim: "result ?claim w = Inr u"
    using assms(1) by (cases "result ?claim w") (simp_all add: run_task_def eff_run)
  then have run: "result (run_task tier sev res p) w = result ?complete ?w3"
    "final (run_task tier sev res p) w = final ?complete ?w3"
    unfolding run_task_def by (simp_all add: result_bnd final_bnd result_seq [of ?save] final_seq [of ?save]
        result_seq [of ?alert] final_seq [of ?alert] ok del: result_if final_if)
  have "keeps same_tasks ?save" "keeps same_tasks ?alert" by (intro eff_intro)+
  then have "same_tasks (final ?claim w) ?w3" by (blast intro: tk.R_trans dest: keepsD)
  then have tasks: "probe_tasks (assets w') = probe_tasks (assets (final ?claim w))"
    using assms(1,3) complete_fails [of "rp_probe_task_id p" "ck_error_message res" ?w3 e] run
    by (simp add: same_tasks_def)
  have "result ?claim w' = Inl ErrProbeTaskNotFound" "final ?claim w' = w'"
    using assms(2) claim_leaves(2) [OF claim] by (simp_all add: ProbeStore_ClaimTask_def tasks)
  then show ?thesis
    using claim_leaves(1) [OF claim] by (simp add: run_task_def eff_run tasks)
qed

definition claim_world :: "bool list \<Rightarrow> world" where
  "claim_world fs = empty_world\<lparr>faults := fs, assets := empty_assets\<lparr>probe_tasks :=
     \<lparr>rows = [new_probe_task 1 1 0 1], seq = 1\<rparr>\<rparr>\<rparr>"

definition claim_payload :: run_payload where
  "claim_payload = \<lparr>rp_probe_task_id = 1, rp_policy_id = 1, rp_domain_id = 1, rp_fqdn = ''a.com'',
     rp_expected_status = None, rp_expected_keyword = None, rp_expected_meta_tag = None,
     rp_timeout_seconds = 5, rp_health_path = []\<rparr>"

definition good_check :: check_result where
  "good_check = \<lparr>ck_status = ''ok'', ck_http_status = Some 200, ck_response_time_ms = Some 20,
     ck_response_size_b = None, ck_tls_handshake_ok = None, ck_cert_expires_at = None,
     ck_content_hash = None, ck_error_message = None\<rparr>"

theorem failed_run_never_completes_witness:
  "\<exists>w. result (run_task 1 ''P1'' good_check claim_payload) (claim_world [False, False, True]) = Inl ErrDB \<and>
     w = final (run_task 1 ''P1'' good_check claim_payload) (claim_world [False, False, True]) \<and>
     result (run_task 1 ''P1'' good_check claim_payload) (w\<lparr>faults := []\<rparr>) = Inr () \<and>
     (\<exists>t \<in> set (rows (probe_tasks (assets w))). pt_status t = ''running'')"
proof -
  have err: "result (run_task 1 ''P1'' good_check claim_payload) (claim_world [False, False, True]) = Inl ErrDB"
    by (simp add: run_task_def claim_world_def claim_payload_def good_check_def ProbeStore_ClaimTask_def
        Probe_SaveResult_def ProbeStore_SaveResult_def ProbeStore_CompleteTask_def asset_exec_unless_def
        asset_exec_def exec_unless_def exec_def eff_run result_stmt final_stmt tbl_find_def pending_task_def
        new_probe_task_def StatusFail_def StatusTimeout_def StatusError_def final_def [of "\<lambda>w. if _ w then _ w else _ w"]
        result_def [of "\<lambda>w. if _ w then _ w else _ w"])
  let ?w = "final (run_task 1 ''P1'' good_check claim_payload) (claim_world [False, False, True])"
  show ?thesis
    using failed_run_never_completes [OF err, where w' = "?w\<lparr>faults := []\<rparr>" and tier' = 1
        and sev' = "''P1''" and res' = good_check] err by (simp, blast)
qed

end
