(* ===== verification/Status_Page.thy ===== *)
theory Status_Page
  imports Maintenance Uptime
begin

text \<open>
  internal/statuspage/service.go over store/postgres/statuspage.go, and internal/probe/analytics.go:
  public status pages with their groups, monitors and incidents, what a page shows of the probe
  results, and the uptime statistics. The password hash is a parameter: \<open>hash\<close> makes one or
  fails, \<open>fits\<close> compares. Percentages, \<open>float64\<close> in the code, are rationals.
\<close>

section \<open>Pages\<close>

record page_input =
  qi_slug :: string
  qi_title :: string
  qi_description :: "string option"
  qi_published :: bool
  qi_password :: "string option"
  qi_clear_password :: bool
  qi_custom_domain :: "string option"
  qi_theme :: string
  qi_logo_url :: "string option"
  qi_footer_text :: "string option"
  qi_custom_css :: "string option"
  qi_auto_refresh_seconds :: int
  qi_created_by :: "int option"

definition StatusPageStore_CreatePage :: "status_page_row \<Rightarrow> status_page_row op" where
  "StatusPageStore_CreatePage p = asset_stmt (\<lambda>t a.
     if list_ex (\<lambda>r. sp_slug r = sp_slug p) (rows (status_pages a))
     then (Inl (ErrUnique ''uq_status_pages_slug''), a)
     else let mk = (\<lambda>i. p\<lparr>sp_id := i\<rparr>)
       in (Inr (mk (seq (status_pages a) + 1)), a\<lparr>status_pages := tbl_insert mk (status_pages a)\<rparr>))"

definition StatusPageStore_UpdatePage :: "status_page_row \<Rightarrow> unit op" where
  "StatusPageStore_UpdatePage p = asset_stmt (\<lambda>t a.
     if tbl_get sp_id (status_pages a) (sp_id p) = None then (Inl ErrNoRows, a)
     else if list_ex (\<lambda>r. sp_id r \<noteq> sp_id p \<and> sp_slug r = sp_slug p) (rows (status_pages a))
     then (Inl (ErrUnique ''uq_status_pages_slug''), a)
     else (Inr (), a\<lparr>status_pages := tbl_update (\<lambda>r. sp_id r = sp_id p)
       (\<lambda>r. p\<lparr>sp_created_by := sp_created_by r\<rparr>) (status_pages a)\<rparr>))"

text \<open>The foreign keys delete the groups, their monitors and the incidents with the page.\<close>

definition StatusPageStore_DeletePage :: "int \<Rightarrow> unit op" where
  "StatusPageStore_DeletePage i = asset_exec (\<lambda>t a. a\<lparr>
     status_pages := tbl_delete (\<lambda>r. sp_id r = i) (status_pages a),
     page_monitors := tbl_delete (\<lambda>m. list_ex (\<lambda>g. pg_status_page_id g = i \<and> pg_id g = pm_group_id m)
       (rows (page_groups a))) (page_monitors a),
     page_groups := tbl_delete (\<lambda>g. pg_status_page_id g = i) (page_groups a),
     page_incidents := tbl_delete (\<lambda>r. pi_status_page_id r = i) (page_incidents a)\<rparr>)"

definition StatusPageStore_GetPage :: "int \<Rightarrow> status_page_row op" where
  "StatusPageStore_GetPage i = asset_get ErrStatusPageNotFound (\<lambda>a. tbl_get sp_id (status_pages a) i)"

definition GetPageBySlug :: "string \<Rightarrow> status_page_row op" where
  "GetPageBySlug slug =
     asset_get ErrStatusPageNotFound (\<lambda>a. tbl_find (\<lambda>r. sp_slug r = slug) (status_pages a))"

definition StatusPageStore_ListPages :: "status_page_row list op" where
  "StatusPageStore_ListPages = asset_query (\<lambda>a. rev (rows (status_pages a)))"

definition CreatePage :: "(string \<Rightarrow> go_err + string) \<Rightarrow> page_input \<Rightarrow> status_page_row op" where
  "CreatePage hash inp =
     (if qi_slug inp = [] then throw (ErrMsg ''slug is required'')
      else if qi_title inp = [] then throw (ErrMsg ''title is required'')
      else
        bnd (case wanted (qi_password inp) of None \<Rightarrow> ret None
             | Some pw \<Rightarrow> bnd (answer (hash pw)) (\<lambda>h. ret (Some h))) (\<lambda>pwhash.
        StatusPageStore_CreatePage \<lparr>sp_id = 0, sp_slug = qi_slug inp, sp_title = qi_title inp,
          sp_description = qi_description inp, sp_published = qi_published inp, sp_password_hash = pwhash,
          sp_custom_domain = qi_custom_domain inp,
          sp_theme = (if qi_theme inp = [] then ''default'' else qi_theme inp),
          sp_logo_url = qi_logo_url inp, sp_footer_text = qi_footer_text inp,
          sp_custom_css = qi_custom_css inp,
          sp_auto_refresh_seconds = (if qi_auto_refresh_seconds inp \<le> 0 then 60 else qi_auto_refresh_seconds inp),
          sp_created_by = qi_created_by inp\<rparr>))"

definition UpdatePage :: "(string \<Rightarrow> go_err + string) \<Rightarrow> int \<Rightarrow> page_input \<Rightarrow> status_page_row op" where
  "UpdatePage hash i inp =
     bnd (StatusPageStore_GetPage i) (\<lambda>p0.
       let p = p0\<lparr>sp_slug := qi_slug inp, sp_title := qi_title inp, sp_description := qi_description inp,
             sp_published := qi_published inp, sp_custom_domain := qi_custom_domain inp,
             sp_theme := (if qi_theme inp = [] then ''default'' else qi_theme inp),
             sp_logo_url := qi_logo_url inp, sp_footer_text := qi_footer_text inp,
             sp_custom_css := qi_custom_css inp,
             sp_auto_refresh_seconds := (if qi_auto_refresh_seconds inp \<le> 0 then 60 else qi_auto_refresh_seconds inp)\<rparr>
       in bnd (if qi_clear_password inp then ret (p\<lparr>sp_password_hash := None\<rparr>)
               else case wanted (qi_password inp) of None \<Rightarrow> ret p
                 | Some pw \<Rightarrow> bnd (answer (hash pw)) (\<lambda>h. ret (p\<lparr>sp_password_hash := Some h\<rparr>)))
          (\<lambda>p'. seq_eff (StatusPageStore_UpdatePage p') (ret p')))"

definition VerifyPassword :: "(string \<Rightarrow> string \<Rightarrow> bool) \<Rightarrow> status_page_row \<Rightarrow> string \<Rightarrow> bool" where
  "VerifyPassword fits p password = (case sp_password_hash p of None \<Rightarrow> True | Some h \<Rightarrow> fits h password)"

section \<open>Groups, monitors, incidents\<close>

definition CreateGroup :: "int \<Rightarrow> string \<Rightarrow> int \<Rightarrow> page_group_row op" where
  "CreateGroup pageID name sortOrder = asset_stmt (\<lambda>t a.
     let mk = (\<lambda>i. \<lparr>pg_id = i, pg_status_page_id = pageID, pg_name = name, pg_sort_order = sortOrder\<rparr>)
     in (Inr (mk (seq (page_groups a) + 1)), a\<lparr>page_groups := tbl_insert mk (page_groups a)\<rparr>))"

definition UpdateGroup :: "page_group_row \<Rightarrow> unit op" where
  "UpdateGroup g = asset_exec (\<lambda>t a. a\<lparr>page_groups := tbl_update
     (\<lambda>r. pg_id r = pg_id g \<and> pg_status_page_id r = pg_status_page_id g)
     (\<lambda>r. r\<lparr>pg_name := pg_name g, pg_sort_order := pg_sort_order g\<rparr>) (page_groups a)\<rparr>)"

definition DeleteGroup :: "int \<Rightarrow> int \<Rightarrow> unit op" where
  "DeleteGroup pageID groupID = asset_exec (\<lambda>t a.
     let gone = (\<lambda>g. pg_id g = groupID \<and> pg_status_page_id g = pageID)
     in a\<lparr>page_monitors := tbl_delete (\<lambda>m. list_ex (\<lambda>g. gone g \<and> pg_id g = pm_group_id m) (rows (page_groups a)))
            (page_monitors a),
          page_groups := tbl_delete gone (page_groups a)\<rparr>)"

definition ListGroups :: "int \<Rightarrow> page_group_row list op" where
  "ListGroups pageID = asset_query (\<lambda>a. sort_key pg_sort_order (sort_key pg_id
     (tbl_select (\<lambda>g. pg_status_page_id g = pageID) (page_groups a))))"

definition AddMonitor :: "int \<Rightarrow> int \<Rightarrow> string option \<Rightarrow> int \<Rightarrow> page_monitor_row op" where
  "AddMonitor groupID domainID displayName sortOrder =
     on_conflict ''status_page_monitors'' [''group_id'', ''domain_id''] (\<lambda>t a.
       let mk = (\<lambda>i. \<lparr>pm_id = i, pm_group_id = groupID, pm_domain_id = domainID,
             pm_display_name = displayName, pm_sort_order = sortOrder\<rparr>);
           same = (\<lambda>m. pm_group_id m = groupID \<and> pm_domain_id m = domainID)
       in case tbl_find same (page_monitors a) of
            Some m \<Rightarrow> (Inr (mk (pm_id m)), a\<lparr>page_monitors := tbl_update same
              (\<lambda>m. m\<lparr>pm_display_name := displayName, pm_sort_order := sortOrder\<rparr>) (page_monitors a)\<rparr>)
          | None \<Rightarrow> (Inr (mk (seq (page_monitors a) + 1)),
              a\<lparr>page_monitors := tbl_insert mk (page_monitors a)\<rparr>))"

definition RemoveMonitor :: "int \<Rightarrow> int \<Rightarrow> unit op" where
  "RemoveMonitor groupID monitorID = asset_exec (\<lambda>t a. a\<lparr>page_monitors :=
     tbl_delete (\<lambda>m. pm_id m = monitorID \<and> pm_group_id m = groupID) (page_monitors a)\<rparr>)"

definition ListMonitors :: "int \<Rightarrow> page_monitor_row list op" where
  "ListMonitors groupID = asset_query (\<lambda>a. sort_key pm_sort_order (sort_key pm_id
     (tbl_select (\<lambda>m. pm_group_id m = groupID) (page_monitors a))))"

definition validSeverity :: "string \<Rightarrow> bool" where
  "validSeverity s \<longleftrightarrow> s = ''info'' \<or> s = ''warning'' \<or> s = ''danger''"

definition CreateIncident ::
    "int \<Rightarrow> string \<Rightarrow> string option \<Rightarrow> string \<Rightarrow> bool \<Rightarrow> int option \<Rightarrow> page_incident_row op" where
  "CreateIncident pageID title content severity pinned createdBy =
     (if \<not> validSeverity severity then throw (ErrMsg ''invalid severity'')
      else asset_stmt (\<lambda>t a.
        let mk = (\<lambda>i. \<lparr>pi_id = i, pi_status_page_id = pageID, pi_title = title, pi_content = content,
              pi_severity = severity, pi_pinned = pinned, pi_active = True, pi_created_by = createdBy,
              pi_created_at = t\<rparr>)
        in (Inr (mk (seq (page_incidents a) + 1)), a\<lparr>page_incidents := tbl_insert mk (page_incidents a)\<rparr>)))"

definition UpdateIncident :: "page_incident_row \<Rightarrow> unit op" where
  "UpdateIncident inc =
     (if \<not> validSeverity (pi_severity inc) then throw (ErrMsg ''invalid severity'')
      else let same = (\<lambda>r. pi_id r = pi_id inc \<and> pi_status_page_id r = pi_status_page_id inc)
        in asset_exec_unless (\<lambda>a. tbl_find same (page_incidents a) = None) ErrNoRows
          (\<lambda>t a. a\<lparr>page_incidents := tbl_update same
            (\<lambda>r. r\<lparr>pi_title := pi_title inc, pi_content := pi_content inc, pi_severity := pi_severity inc,
               pi_pinned := pi_pinned inc, pi_active := pi_active inc\<rparr>) (page_incidents a)\<rparr>))"

definition DeleteIncident :: "int \<Rightarrow> int \<Rightarrow> unit op" where
  "DeleteIncident pageID incidentID = asset_exec (\<lambda>t a. a\<lparr>page_incidents :=
     tbl_delete (\<lambda>r. pi_id r = incidentID \<and> pi_status_page_id r = pageID) (page_incidents a)\<rparr>)"

text \<open>Pinned first, then the newest; twenty at most.\<close>

definition ListIncidents :: "int \<Rightarrow> bool \<Rightarrow> page_incident_row list op" where
  "ListIncidents pageID activeOnly = asset_query (\<lambda>a.
     let rs = rev (sort_key pi_created_at (tbl_select (\<lambda>r. pi_status_page_id r = pageID \<and>
       (activeOnly \<longrightarrow> pi_active r)) (page_incidents a)))
     in take 20 (filter pi_pinned rs @ filter (\<lambda>r. \<not> pi_pinned r) rs))"

section \<open>What a page shows\<close>

record monitor_row =
  mo_id :: int
  mo_group_id :: int
  mo_domain_id :: int
  mo_display_name :: "string option"
  mo_fqdn :: string
  mo_group_name :: string

definition monitors_of_group :: "world \<Rightarrow> page_group_row \<Rightarrow> monitor_row list" where
  "monitors_of_group w g = List.map_filter (\<lambda>m. case tbl_get d_id (domains w) (pm_domain_id m) of
       None \<Rightarrow> None
     | Some d \<Rightarrow> Some \<lparr>mo_id = pm_id m, mo_group_id = pg_id g, mo_domain_id = pm_domain_id m,
         mo_display_name = pm_display_name m, mo_fqdn = d_fqdn d, mo_group_name = pg_name g\<rparr>)
     (sort_key pm_sort_order (sort_key pm_id
       (tbl_select (\<lambda>m. pm_group_id m = pg_id g) (page_monitors (assets w)))))"

definition ListMonitorsByPage :: "int \<Rightarrow> monitor_row list op" where
  "ListMonitorsByPage pageID = query (\<lambda>w. concat (map (monitors_of_group w)
     (sort_key pg_sort_order (sort_key pg_id
       (tbl_select (\<lambda>g. pg_status_page_id g = pageID) (page_groups (assets w)))))))"

definition l1_results :: "assets \<Rightarrow> int \<Rightarrow> probe_result_row list" where
  "l1_results a i = tbl_select (\<lambda>r. pr_domain_id r = i \<and> pr_probe_type r = ''l1'') (probe_results a)"

text \<open>The newest result of each domain that has one.\<close>

definition GetLatestProbeStatuses :: "int list \<Rightarrow> (int \<times> probe_result_row) list op" where
  "GetLatestProbeStatuses domainIDs =
     (if length domainIDs = 0 then ret []
      else asset_query (\<lambda>a. List.map_filter (\<lambda>i. case newest_first (l1_results a i) of
         [] \<Rightarrow> None | r # _ \<Rightarrow> Some (i, r)) domainIDs))"

text \<open>Domain, results that are up, results that are up or down; a group without rows is missing.\<close>

definition count_status :: "probe_result_row list \<Rightarrow> string \<Rightarrow> int" where
  "count_status rs s = int (length (filter (\<lambda>r. pr_status r = s) rs))"

definition GetUptimeStats :: "int list \<Rightarrow> int \<Rightarrow> (int \<times> int \<times> int) list op" where
  "GetUptimeStats domainIDs since =
     (if length domainIDs = 0 then ret []
      else asset_query (\<lambda>a. List.map_filter (\<lambda>i.
         case filter (\<lambda>r. pr_checked_at r \<ge> since) (l1_results a i) of
           [] \<Rightarrow> None
         | rs \<Rightarrow> Some (i, count_status rs ''up'', count_status rs ''up'' + count_status rs ''down'')) domainIDs))"

record monitor_status =
  ms_monitor_id :: int
  ms_domain_id :: int
  ms_display_name :: string
  ms_status :: string
  ms_uptime_pct :: rat
  ms_response_ms :: "int option"

record group_status =
  gs_group_id :: int
  gs_group_name :: string
  gs_status :: string
  gs_monitors :: "monitor_status list"

record public_status =
  ps_page :: status_page_row
  ps_overall :: string
  ps_groups :: "group_status list"
  ps_incidents :: "page_incident_row list"

definition statusRank :: "string \<Rightarrow> nat" where
  "statusRank s = (if s = ''down'' then 3 else if s = ''unknown'' then 2 else if s = ''maintenance'' then 1 else 0)"

definition worstStatus :: "monitor_status list \<Rightarrow> string" where
  "worstStatus ms = fold (\<lambda>m worst. if statusRank (ms_status m) > statusRank worst then ms_status m else worst) ms ''up''"

definition computeOverall :: "group_status list \<Rightarrow> string" where
  "computeOverall gs =
     (let ms = concat (map gs_monitors gs);
          total = length ms;
          downCount = length (filter (\<lambda>m. ms_status m = ''down'') ms);
          hasMaintenance = list_ex (\<lambda>m. ms_status m = ''maintenance'') ms
      in if total = 0 then ''operational''
         else if downCount = 0 \<and> \<not> hasMaintenance then ''operational''
         else if downCount = 0 \<and> hasMaintenance then ''maintenance''
         else if downCount * 2 \<ge> total then ''outage'' else ''degraded'')"

definition uptime_pct :: "(int \<times> int \<times> int) list \<Rightarrow> int \<Rightarrow> rat" where
  "uptime_pct stats i = (case map_of stats i of None \<Rightarrow> 0
     | Some (up, n) \<Rightarrow> if n > 0 then of_int up / of_int n * 100 else 0)"

definition monitor_status_of ::
    "(int \<times> probe_result_row) list \<Rightarrow> (int \<times> int \<times> int) list \<Rightarrow> int list \<Rightarrow> monitor_row \<Rightarrow> monitor_status" where
  "monitor_status_of probes stats inMaint m =
     \<lparr>ms_monitor_id = mo_id m, ms_domain_id = mo_domain_id m,
      ms_display_name = (case mo_display_name m of None \<Rightarrow> mo_fqdn m | Some n \<Rightarrow> n),
      ms_status = (if mo_domain_id m \<in> set inMaint then ''maintenance''
        else case map_of probes (mo_domain_id m) of None \<Rightarrow> ''unknown'' | Some r \<Rightarrow> pr_status r),
      ms_uptime_pct = uptime_pct stats (mo_domain_id m),
      ms_response_ms = (case map_of probes (mo_domain_id m) of None \<Rightarrow> None | Some r \<Rightarrow> pr_response_time_ms r)\<rparr>"

definition group_status_of ::
    "(int \<times> probe_result_row) list \<Rightarrow> (int \<times> int \<times> int) list \<Rightarrow> int list \<Rightarrow> int \<times> monitor_row list \<Rightarrow> group_status" where
  "group_status_of probes stats inMaint g =
     (let ms = map (monitor_status_of probes stats inMaint) (snd g) in
      \<lparr>gs_group_id = fst g, gs_group_name = (case snd g of [] \<Rightarrow> [] | m # _ \<Rightarrow> mo_group_name m),
       gs_status = worstStatus ms, gs_monitors = ms\<rparr>)"

text \<open>An error of a best-effort query is logged and counts as no rows.\<close>

definition or_empty :: "'a list op \<Rightarrow> 'a list op" where
  "or_empty m = bnd (attempt m) (\<lambda>r. case r of Inl e \<Rightarrow> ret [] | Inr xs \<Rightarrow> ret xs)"

definition in_maintenance :: "(string \<Rightarrow> int option) \<Rightarrow> int \<Rightarrow> int \<Rightarrow> int list op" where
  "in_maintenance zone t i = bnd (attempt (IsInMaintenance zone i t)) (\<lambda>r. case r of
     Inl e \<Rightarrow> ret [] | Inr None \<Rightarrow> ret [] | Inr (Some m) \<Rightarrow> ret [i])"

definition GetPublicStatus :: "(string \<Rightarrow> int option) \<Rightarrow> string \<Rightarrow> public_status op" where
  "GetPublicStatus zone slug =
     bnd (GetPageBySlug slug) (\<lambda>p.
     if \<not> sp_published p then throw ErrStatusPageNotFound
     else bnd (ListMonitorsByPage (sp_id p)) (\<lambda>ms.
       let domainIDs = rev (remdups (rev (map mo_domain_id ms))) in
       bnd (or_empty (GetLatestProbeStatuses domainIDs)) (\<lambda>probes.
       bnd (gets now) (\<lambda>t.
       bnd (or_empty (GetUptimeStats domainIDs (t - 30 * 86400))) (\<lambda>stats.
       bnd (collect domainIDs (in_maintenance zone t)) (\<lambda>inMaint.
       bnd (or_empty (ListIncidents (sp_id p) True)) (\<lambda>incidents.
         let gs = map (group_status_of probes stats inMaint) (group_all (map (\<lambda>m. (mo_group_id m, m)) ms))
         in ret \<lparr>ps_page = p, ps_overall = computeOverall gs, ps_groups = gs, ps_incidents = incidents\<rparr>)))))))"

section \<open>Uptime statistics\<close>

definition typed_results :: "assets \<Rightarrow> string \<Rightarrow> probe_result_row list" where
  "typed_results a ty = tbl_select (\<lambda>r. pr_probe_type r = ty) (probe_results a)"

record uptime_result =
  ur_domain_id :: int
  ur_up_count :: int
  ur_down_count :: int
  ur_uptime_pct :: rat

definition uptime_of :: "int \<Rightarrow> probe_result_row list \<Rightarrow> uptime_result" where
  "uptime_of i rs =
     (let up = count_status rs ''up''; down = count_status rs ''down'' in
      \<lparr>ur_domain_id = i, ur_up_count = up, ur_down_count = down,
       ur_uptime_pct = (if up + down > 0 then of_int up / of_int (up + down) * 100 else 0)\<rparr>)"

definition GetUptime :: "int \<Rightarrow> string \<Rightarrow> int \<Rightarrow> uptime_result op" where
  "GetUptime i ty duration = query (\<lambda>w. uptime_of i (filter (\<lambda>r. pr_domain_id r = i \<and>
     pr_checked_at r \<ge> now w - duration) (typed_results (assets w) ty)))"

text \<open>Domains with at least one result up or down, those with the lowest share first.\<close>

definition GetWorstPerformers :: "string \<Rightarrow> int \<Rightarrow> nat \<Rightarrow> (uptime_result \<times> string) list op" where
  "GetWorstPerformers ty duration limit = query (\<lambda>w.
     take limit (sort_key (\<lambda>(u, f). ur_uptime_pct u)
       (filter (\<lambda>(u, f). ur_up_count u + ur_down_count u > 0)
         (map (\<lambda>d. (uptime_of (d_id d) (filter (\<lambda>r. pr_domain_id r = d_id d \<and>
            pr_checked_at r \<ge> now w - duration) (typed_results (assets w) ty)), d_fqdn d)) (rows (domains w))))))"

text \<open>Days are counted from the epoch; \<open>days\<close> is the number of days of the month. \<open>-1\<close> is no data.\<close>

definition GetUptimeCalendar :: "int \<Rightarrow> int \<Rightarrow> nat \<Rightarrow> (int \<times> rat) list op" where
  "GetUptimeCalendar i first days = asset_query (\<lambda>a. map (\<lambda>k.
     let day = first + int k;
         u = uptime_of i (filter (\<lambda>r. pr_checked_at r div 86400 = day) (l1_results a i))
     in (day, if ur_up_count u + ur_down_count u > 0 then ur_uptime_pct u else -1)) [0 ..< days])"

section \<open>No page ever shows a failure\<close>

lemma snap_or_empty:
  assumes "hoare (snap w0) m (\<lambda>xs w. F xs \<and> snap w0 w) (snap w0)" and "F []"
  shows "hoare (snap w0) (or_empty m) (\<lambda>xs w. F xs \<and> snap w0 w) E"
  unfolding or_empty_def
  by (rule hoare_step [OF snap_attempt [OF assms(1)]]) (auto simp: hoare_def assms(2) split: sum.split)

lemma snap_keeps: "keeps read_only m \<Longrightarrow> hoare (snap w0) m (\<lambda>_ w. True \<and> snap w0 w) (snap w0)"
  by (rule hoare_post [OF hoare_frame [where S = read_only]]) (auto intro: ro.R_trans)

lemma ro_maintenance: "keeps read_only (in_maintenance zone t i)"
  unfolding in_maintenance_def IsInMaintenance_def WindowsForDomain_def by (intro eff_intro)

lemma no_l1_results: "probe_inv a \<Longrightarrow> l1_results a i = []"
  by (auto simp: probe_inv_def l1_results_def tbl_select_def filter_empty_conv)

lemma no_l1_status:
  assumes "probe_inv (assets w)"
  shows "hoare (snap w) (or_empty (GetLatestProbeStatuses ids)) (\<lambda>xs w'. xs = [] \<and> snap w w') E"
    and "hoare (snap w) (or_empty (GetUptimeStats ids since)) (\<lambda>xs w'. xs = [] \<and> snap w w') E"
proof -
  have "hoare (snap w) (GetLatestProbeStatuses ids) (\<lambda>xs w'. xs = [] \<and> snap w w') (snap w)"
    unfolding GetLatestProbeStatuses_def
    by (intro hoare_if hoare_ret hoare_post [OF snap_assets(1)])
      (simp_all add: no_l1_results [OF assms] newest_first_def List.map_filter_def)
  moreover have "hoare (snap w) (GetUptimeStats ids since) (\<lambda>xs w'. xs = [] \<and> snap w w') (snap w)"
    unfolding GetUptimeStats_def
    by (intro hoare_if hoare_ret hoare_post [OF snap_assets(1)])
      (simp_all add: no_l1_results [OF assms] List.map_filter_def)
  ultimately show "hoare (snap w) (or_empty (GetLatestProbeStatuses ids)) (\<lambda>xs w'. xs = [] \<and> snap w w') E"
    "hoare (snap w) (or_empty (GetUptimeStats ids since)) (\<lambda>xs w'. xs = [] \<and> snap w w') E"
    by (auto intro: snap_or_empty)
qed

text \<open>Monitors that are unknown or in maintenance, with no uptime.\<close>

definition uninformed :: "monitor_status \<Rightarrow> bool" where
  "uninformed m \<longleftrightarrow> (ms_status m = ''unknown'' \<or> ms_status m = ''maintenance'') \<and> ms_uptime_pct m = 0 \<and>
     ms_response_ms m = None"

lemma uninformed_groups:
  assumes "gs = map (group_status_of [] [] inMaint) xs"
  shows "\<forall>g \<in> set gs. \<forall>m \<in> set (gs_monitors g). uninformed m"
  using assms by (auto simp: group_status_of_def Let_def monitor_status_of_def uninformed_def uptime_pct_def)

lemma uninformed_overall:
  assumes "\<forall>g \<in> set gs. \<forall>m \<in> set (gs_monitors g). uninformed m"
  shows "computeOverall gs = ''operational'' \<or> computeOverall gs = ''maintenance''"
proof -
  have "filter (\<lambda>m. ms_status m = ''down'') (concat (map gs_monitors gs)) = []"
    using assms by (fastforce simp: filter_empty_conv uninformed_def)
  then show ?thesis by (simp add: computeOverall_def Let_def)
qed

lemma page_shown:
  assumes "probes = []" and "stats = []"
  shows "(\<forall>g \<in> set (ps_groups \<lparr>ps_page = p, ps_overall = computeOverall (map (group_status_of probes stats im) xs),
        ps_groups = map (group_status_of probes stats im) xs, ps_incidents = i\<rparr>).
      \<forall>m \<in> set (gs_monitors g). uninformed m) \<and>
    (ps_overall \<lparr>ps_page = p, ps_overall = computeOverall (map (group_status_of probes stats im) xs),
        ps_groups = map (group_status_of probes stats im) xs, ps_incidents = i\<rparr> = ''operational'' \<or>
     ps_overall \<lparr>ps_page = p, ps_overall = computeOverall (map (group_status_of probes stats im) xs),
        ps_groups = map (group_status_of probes stats im) xs, ps_incidents = i\<rparr> = ''maintenance'')"
  using uninformed_groups [OF refl, of im xs] uninformed_overall [OF uninformed_groups [OF refl, of im xs]]
  by (simp only: assms public_status.simps)

text \<open>
  C29: A public page never shows a failure: whatever the probes found and however the database
  fails, every monitor of it is unknown or in maintenance, without uptime or response time, and
  the page as a whole operational or in maintenance. The page looks for results of the type l1
  with the status up or down, the probes store results of the type http with other status values.
\<close>

theorem public_status_never_down:
  assumes "probe_inv (assets w)" and "result (GetPublicStatus zone slug) w = Inr s"
  shows "(\<forall>g \<in> set (ps_groups s). \<forall>m \<in> set (gs_monitors g). uninformed m) \<and>
    (ps_overall s = ''operational'' \<or> ps_overall s = ''maintenance'')"
proof -
  let ?Q = "\<lambda>s. (\<forall>g \<in> set (ps_groups s). \<forall>m \<in> set (gs_monitors g). uninformed m) \<and>
    (ps_overall s = ''operational'' \<or> ps_overall s = ''maintenance'')"
  have "hoare (snap w) (GetPublicStatus zone slug) (\<lambda>s _. ?Q s) (snap w)"
    unfolding GetPublicStatus_def Let_def
  proof (rule hoare_step [where P' = "\<lambda>_. snap w" and F = "\<lambda>_. True"])
    show "hoare (snap w) (GetPageBySlug slug) (\<lambda>a w'. True \<and> snap w w') (snap w)"
      unfolding GetPageBySlug_def by (rule hoare_post [OF snap_assets(2)]) auto
  next
    fix p :: status_page_row
    have ms: "hoare (snap w) (ListMonitorsByPage (sp_id p)) (\<lambda>a w'. True \<and> snap w w') (snap w)"
      by (rule hoare_post [OF snap_keeps]) (auto simp: ListMonitorsByPage_def intro: ro.keeps_query)
    have t: "hoare (snap w) (gets now) (\<lambda>a w'. True \<and> snap w w') (snap w)"
      by (simp add: hoare_def)
    have mt: "hoare (snap w) (collect ids (in_maintenance zone t)) (\<lambda>a w'. True \<and> snap w w') (snap w)" for ids t
      by (rule hoare_post [OF snap_keeps]) (auto intro: ro.keeps_collect ro_maintenance)
    have inc: "hoare (snap w) (or_empty (ListIncidents (sp_id p) True)) (\<lambda>a w'. True \<and> snap w w') (snap w)"
      by (rule snap_or_empty, rule snap_keeps) (auto simp: ListIncidents_def intro: ro_assets)
    show "hoare (snap w) (if \<not> sp_published p then throw ErrStatusPageNotFound
       else bnd (ListMonitorsByPage (sp_id p)) (\<lambda>ms.
       bnd (or_empty (GetLatestProbeStatuses (rev (remdups (rev (map mo_domain_id ms)))))) (\<lambda>probes.
       bnd (gets now) (\<lambda>t.
       bnd (or_empty (GetUptimeStats (rev (remdups (rev (map mo_domain_id ms)))) (t - 30 * 86400))) (\<lambda>stats.
       bnd (collect (rev (remdups (rev (map mo_domain_id ms)))) (in_maintenance zone t)) (\<lambda>inMaint.
       bnd (or_empty (ListIncidents (sp_id p) True)) (\<lambda>incidents.
         ret \<lparr>ps_page = p, ps_overall = computeOverall (map (group_status_of probes stats inMaint)
             (group_all (map (\<lambda>m. (mo_group_id m, m)) ms))),
           ps_groups = map (group_status_of probes stats inMaint) (group_all (map (\<lambda>m. (mo_group_id m, m)) ms)),
           ps_incidents = incidents\<rparr>)))))))
       (\<lambda>s _. ?Q s) (snap w)"
      by (rule hoare_if, rule hoare_throw, assumption, rule hoare_step [OF ms],
          rule hoare_step [OF no_l1_status(1) [OF assms(1)]], rule hoare_step [OF t],
          rule hoare_step [OF no_l1_status(2) [OF assms(1)]], rule hoare_step [OF mt], rule hoare_step [OF inc],
          rule hoare_ret, rule page_shown, assumption, assumption)
  qed
  from snap_start [OF this] assms(2) show ?thesis by simp
qed

text \<open>A published page with one monitor, whose domain failed its last probe.\<close>

definition failing_world :: world where
  "failing_world = empty_world\<lparr>now := 1000, domains := \<lparr>rows = [domain_of_input \<lparr>ri_project_id = 1,
       ri_fqdn = ''a.com'', ri_owner_user_id = None, ri_dns_provider_id = None, ri_registrar_account_id = None,
       ri_cdn_account_id = None, ri_origin_ips = [], ri_registration_date = None, ri_expiry_date = None,
       ri_auto_renew = False, ri_annual_cost = None, ri_currency = None, ri_purpose = None, ri_notes = None,
       ri_triggered_by = ''user:1''\<rparr>\<lparr>d_id := 1\<rparr>], seq = 1\<rparr>,
     assets := empty_assets\<lparr>
       status_pages := \<lparr>rows = [\<lparr>sp_id = 1, sp_slug = ''main'', sp_title = ''Main'', sp_description = None,
         sp_published = True, sp_password_hash = None, sp_custom_domain = None, sp_theme = ''default'',
         sp_logo_url = None, sp_footer_text = None, sp_custom_css = None, sp_auto_refresh_seconds = 60,
         sp_created_by = None\<rparr>], seq = 1\<rparr>,
       page_groups := \<lparr>rows = [\<lparr>pg_id = 1, pg_status_page_id = 1, pg_name = ''g'', pg_sort_order = 0\<rparr>], seq = 1\<rparr>,
       page_monitors := \<lparr>rows = [\<lparr>pm_id = 1, pm_group_id = 1, pm_domain_id = 1, pm_display_name = None,
         pm_sort_order = 0\<rparr>], seq = 1\<rparr>,
       probe_tasks := \<lparr>rows = [(new_probe_task 1 1 0 1)\<lparr>pt_status := ''completed''\<rparr>], seq = 1\<rparr>,
       probe_results := \<lparr>rows = [\<lparr>pr_id = 1, pr_domain_id = 1, pr_policy_id = Some 1, pr_probe_task_id = Some 1,
         pr_tier = 1, pr_status = ''fail'', pr_http_status = None, pr_response_time_ms = Some 30,
         pr_error_message = None, pr_probe_runner = Some ''worker'', pr_checked_at = 900,
         pr_probe_type = ''http''\<rparr>], seq = 1\<rparr>\<rparr>\<rparr>"

theorem public_status_never_down_witness:
  "\<exists>s. result (GetPublicStatus (\<lambda>_. None) ''main'') failing_world = Inr s \<and>
     (ps_overall s = ''operational'' \<or> ps_overall s = ''maintenance'')"
proof -
  have inv: "probe_inv (assets failing_world)"
    by (simp add: failing_world_def probe_inv_def wf_tbl_def result_tasks_def claimed_def tbl_find_def
        pending_task_def new_probe_task_def valid_result_def valid_tier_def)
  have "case result (GetPublicStatus (\<lambda>_. None) ''main'') failing_world of Inl e \<Rightarrow> False | Inr s \<Rightarrow> True"
    by code_simp
  then obtain s where "result (GetPublicStatus (\<lambda>_. None) ''main'') failing_world = Inr s"
    by (auto split: sum.splits)
  with public_status_never_down [OF inv] show ?thesis by blast
qed

end
