(* ===== verification/Registrars.thy ===== *)
theory Registrars
  imports Dns_Records
begin

text \<open>
  internal/registrar/service.go over store/postgres/registrar.go, and internal/dnsprovider/service.go:
  registrars with their accounts, the import of renewal dates from a registrar, and the
  administration of DNS providers. The API of a registrar is a parameter: from the type of the API
  and the credentials to an error or the list of domains. The sentinel errors of the client and those of
  the service that stand for them are one error here.
\<close>

section \<open>The store\<close>

definition live_registrar :: "int \<Rightarrow> registrar_row \<Rightarrow> bool" where
  "live_registrar i r \<longleftrightarrow> rg_id r = i \<and> rg_deleted_at r = None"

definition live_account :: "int \<Rightarrow> registrar_account_row \<Rightarrow> bool" where
  "live_account i r \<longleftrightarrow> ra_id r = i \<and> ra_deleted_at r = None"

definition RegistrarStore_Create :: "registrar_row \<Rightarrow> registrar_row op" where
  "RegistrarStore_Create x = asset_stmt (\<lambda>t a.
     if list_ex (\<lambda>r. rg_name r = rg_name x) (rows (registrars a))
     then (Inl (ErrUnique ''uq_registrars_name''), a)
     else let mk = (\<lambda>i. x\<lparr>rg_id := i, rg_deleted_at := None\<rparr>)
       in (Inr (mk (seq (registrars a) + 1)), a\<lparr>registrars := tbl_insert mk (registrars a)\<rparr>))"

definition RegistrarStore_GetByID :: "int \<Rightarrow> registrar_row op" where
  "RegistrarStore_GetByID i =
     asset_get ErrRegistrarNotFound (\<lambda>a. tbl_find (live_registrar i) (registrars a))"

definition RegistrarStore_List :: "registrar_row list op" where
  "RegistrarStore_List = asset_query (\<lambda>a.
     sort_key rg_name (tbl_select (\<lambda>r. rg_deleted_at r = None) (registrars a)))"

definition RegistrarStore_Update :: "registrar_row \<Rightarrow> unit op" where
  "RegistrarStore_Update x = asset_exec_unless
     (\<lambda>a. tbl_find (live_registrar (rg_id x)) (registrars a) \<noteq> None \<and>
        list_ex (\<lambda>r. rg_id r \<noteq> rg_id x \<and> rg_name r = rg_name x) (rows (registrars a)))
     (ErrUnique ''uq_registrars_name'')
     (\<lambda>t a. a\<lparr>registrars := tbl_update (live_registrar (rg_id x))
        (\<lambda>r. r\<lparr>rg_name := rg_name x, rg_url := rg_url x, rg_api_type := rg_api_type x,
           rg_capabilities := rg_capabilities x, rg_notes := rg_notes x\<rparr>) (registrars a)\<rparr>)"

definition accounts_of :: "assets \<Rightarrow> int \<Rightarrow> registrar_account_row list" where
  "accounts_of a i = tbl_select (\<lambda>r. ra_registrar_id r = i \<and> ra_deleted_at r = None) (registrar_accounts a)"

definition RegistrarStore_SoftDelete :: "int \<Rightarrow> unit op" where
  "RegistrarStore_SoftDelete i =
     bnd (asset_query (\<lambda>a. length (accounts_of a i))) (\<lambda>n.
       if n > 0 then throw ErrRegistrarHasDependents
       else asset_exec (\<lambda>t a. a\<lparr>registrars := tbl_update (live_registrar i)
         (\<lambda>r. r\<lparr>rg_deleted_at := Some t\<rparr>) (registrars a)\<rparr>))"

definition RegistrarStore_CreateAccount :: "registrar_account_row \<Rightarrow> registrar_account_row op" where
  "RegistrarStore_CreateAccount x = asset_stmt (\<lambda>t a.
     if list_ex (\<lambda>r. ra_registrar_id r = ra_registrar_id x \<and> ra_account_name r = ra_account_name x)
          (rows (registrar_accounts a))
     then (Inl (ErrUnique ''uq_registrar_accounts''), a)
     else let mk = (\<lambda>i. x\<lparr>ra_id := i, ra_deleted_at := None\<rparr>)
       in (Inr (mk (seq (registrar_accounts a) + 1)),
           a\<lparr>registrar_accounts := tbl_insert mk (registrar_accounts a)\<rparr>))"

definition GetAccountByID :: "int \<Rightarrow> registrar_account_row op" where
  "GetAccountByID i =
     asset_get ErrRegistrarAccountNotFound (\<lambda>a. tbl_find (live_account i) (registrar_accounts a))"

definition ListAccountsByRegistrar :: "int \<Rightarrow> registrar_account_row list op" where
  "ListAccountsByRegistrar i = asset_query (\<lambda>a. sort_key ra_account_name (accounts_of a i))"

definition RegistrarStore_UpdateAccount :: "registrar_account_row \<Rightarrow> unit op" where
  "RegistrarStore_UpdateAccount x = asset_exec_unless
     (\<lambda>a. case tbl_find (live_account (ra_id x)) (registrar_accounts a) of None \<Rightarrow> False
        | Some y \<Rightarrow> list_ex (\<lambda>r. ra_id r \<noteq> ra_id x \<and> ra_registrar_id r = ra_registrar_id y \<and>
            ra_account_name r = ra_account_name x) (rows (registrar_accounts a)))
     (ErrUnique ''uq_registrar_accounts'')
     (\<lambda>t a. a\<lparr>registrar_accounts := tbl_update (live_account (ra_id x))
        (\<lambda>r. r\<lparr>ra_account_name := ra_account_name x, ra_owner_user_id := ra_owner_user_id x,
           ra_credentials := ra_credentials x, ra_is_default := ra_is_default x,
           ra_notes := ra_notes x\<rparr>) (registrar_accounts a)\<rparr>)"

definition SoftDeleteAccount :: "int \<Rightarrow> unit op" where
  "SoftDeleteAccount i =
     bnd (query (\<lambda>w. length (tbl_select
        (\<lambda>d. d_registrar_account_id d = Some i \<and> d_deleted_at d = None) (domains w)))) (\<lambda>n.
       if n > 0 then throw ErrRegistrarHasDependents
       else asset_exec (\<lambda>t a. a\<lparr>registrar_accounts := tbl_update (live_account i)
         (\<lambda>r. r\<lparr>ra_deleted_at := Some t\<rparr>) (registrar_accounts a)\<rparr>))"

definition CountDomainsByRegistrar :: "int \<Rightarrow> int op" where
  "CountDomainsByRegistrar i = query (\<lambda>w. int (length (tbl_select
     (\<lambda>d. d_deleted_at d = None \<and> (\<exists>r \<in> set (rows (registrar_accounts (assets w))).
        ra_registrar_id r = i \<and> d_registrar_account_id d = Some (ra_id r))) (domains w))))"

section \<open>Registrars\<close>

text \<open>\<open>\{\}\<close> is what an empty JSON column becomes.\<close>

definition json_or :: "string \<Rightarrow> string \<Rightarrow> string" where
  "json_or other js = (if js = [] then other else js)"

definition duplicate_as :: "string \<Rightarrow> go_err \<Rightarrow> 'a op \<Rightarrow> 'a op" where
  "duplicate_as key e m = bnd (attempt m) (\<lambda>r. case r of
     Inl x \<Rightarrow> throw (if x = ErrUnique key then e else x) | Inr y \<Rightarrow> ret y)"

definition Registrar_Create :: "registrar_row \<Rightarrow> registrar_row op" where
  "Registrar_Create inp =
     (if TrimSpace (rg_name inp) = [] then throw (ErrMsg ''registrar name required'')
      else duplicate_as ''uq_registrars_name'' ErrDuplicateName
        (RegistrarStore_Create (inp\<lparr>rg_capabilities := json_or ''{}'' (rg_capabilities inp)\<rparr>)))"

definition Registrar_Update :: "registrar_row \<Rightarrow> registrar_row op" where
  "Registrar_Update inp =
     (if TrimSpace (rg_name inp) = [] then throw (ErrMsg ''registrar name required'')
      else bnd (RegistrarStore_GetByID (rg_id inp)) (\<lambda>existing.
           seq_eff (duplicate_as ''uq_registrars_name'' ErrDuplicateName (RegistrarStore_Update
             (existing\<lparr>rg_name := rg_name inp, rg_url := rg_url inp, rg_api_type := rg_api_type inp,
                rg_capabilities := json_or (rg_capabilities existing) (rg_capabilities inp),
                rg_notes := rg_notes inp\<rparr>)))
             (RegistrarStore_GetByID (rg_id inp))))"

definition CreateAccount :: "registrar_account_row \<Rightarrow> registrar_account_row op" where
  "CreateAccount inp =
     (if TrimSpace (ra_account_name inp) = [] then throw (ErrMsg ''account name required'')
      else bnd (RegistrarStore_GetByID (ra_registrar_id inp)) (\<lambda>_.
        RegistrarStore_CreateAccount (inp\<lparr>ra_credentials := json_or ''{}'' (ra_credentials inp)\<rparr>)))"

definition ListAccounts :: "int \<Rightarrow> registrar_account_row list op" where
  "ListAccounts i = bnd (RegistrarStore_GetByID i) (\<lambda>_. ListAccountsByRegistrar i)"

definition UpdateAccount :: "registrar_account_row \<Rightarrow> registrar_account_row op" where
  "UpdateAccount inp =
     (if TrimSpace (ra_account_name inp) = [] then throw (ErrMsg ''account name required'')
      else bnd (GetAccountByID (ra_id inp)) (\<lambda>existing.
           seq_eff (RegistrarStore_UpdateAccount
             (existing\<lparr>ra_account_name := ra_account_name inp, ra_owner_user_id := ra_owner_user_id inp,
                ra_credentials := json_or (ra_credentials existing) (ra_credentials inp),
                ra_is_default := ra_is_default inp, ra_notes := ra_notes inp\<rparr>))
             (GetAccountByID (ra_id inp))))"

section \<open>Synchronisation of an account\<close>

record registrar_domain =
  gd_fqdn :: string
  gd_registration_date :: "int option"
  gd_expiry_date :: "int option"
  gd_auto_renew :: bool

type_synonym registrar_api = "string \<Rightarrow> string \<Rightarrow> go_err + registrar_domain list"

record account_sync =
  as_total :: int
  as_updated :: int
  as_not_found :: "string list"
  as_errors :: "(string \<times> go_err) list"

text \<open>store/postgres/domain.go; the result tells whether a row was changed.\<close>

definition UpdateDomainDates :: "string \<Rightarrow> int \<Rightarrow> int option \<Rightarrow> int option \<Rightarrow> bool \<Rightarrow> bool op" where
  "UpdateDomainDates fqdn account reg ex auto =
     (let hit = (\<lambda>d. d_fqdn d = fqdn \<and> d_registrar_account_id d = Some account \<and> d_deleted_at d = None)
      in stmt (\<lambda>w. (Inr (list_ex hit (rows (domains w))),
        w\<lparr>domains := tbl_update hit (\<lambda>d. d\<lparr>d_registration_date := reg, d_expiry_date := ex,
          d_auto_renew := auto, d_last_sync_at := Some (now w), d_updated_at := now w\<rparr>) (domains w)\<rparr>)))"

definition count_synced :: "int \<Rightarrow> registrar_domain \<Rightarrow> account_sync \<Rightarrow> account_sync op" where
  "count_synced account d res =
     bnd (attempt (UpdateDomainDates (gd_fqdn d) account (gd_registration_date d) (gd_expiry_date d)
            (gd_auto_renew d))) (\<lambda>r. ret (case r of
       Inl e \<Rightarrow> res\<lparr>as_errors := as_errors res @ [(gd_fqdn d, e)]\<rparr>
     | Inr updated \<Rightarrow> if \<not> updated then res\<lparr>as_not_found := as_not_found res @ [gd_fqdn d]\<rparr>
         else res\<lparr>as_updated := as_updated res + 1\<rparr>))"

fun sync_domains :: "int \<Rightarrow> registrar_domain list \<Rightarrow> account_sync \<Rightarrow> account_sync op" where
  "sync_domains account [] res = ret res"
| "sync_domains account (d # ds) res = bnd (count_synced account d res) (sync_domains account ds)"

definition SyncAccount :: "registrar_api \<Rightarrow> int \<Rightarrow> account_sync op" where
  "SyncAccount api i =
     bnd (GetAccountByID i) (\<lambda>account.
     bnd (RegistrarStore_GetByID (ra_registrar_id account)) (\<lambda>reg.
       case rg_api_type reg of
         None \<Rightarrow> throw ErrNoAPIType
       | Some ty \<Rightarrow>
           if TrimSpace ty = [] then throw ErrNoAPIType
           else bnd (answer (api ty (ra_credentials account))) (\<lambda>ds.
                sync_domains i ds \<lparr>as_total = int (length ds), as_updated = 0, as_not_found = [],
                  as_errors = []\<rparr>)))"

section \<open>DNS providers\<close>

definition KnownProviderTypes :: "string list" where
  "KnownProviderTypes = [''cloudflare'', ''route53'', ''dnspod'', ''alidns'', ''godaddy'', ''namecheap'',
     ''manual'']"

definition SupportedTypes :: "string list" where
  "SupportedTypes = KnownProviderTypes"

definition Provider_Create :: "dns_provider_row \<Rightarrow> dns_provider_row op" where
  "Provider_Create inp =
     (if TrimSpace (pv_name inp) = [] then throw (ErrMsg ''provider name required'')
      else if pv_provider_type inp \<notin> set KnownProviderTypes then throw (ErrMsg ''unknown dns provider type'')
      else DNSProviderStore_Create (inp\<lparr>pv_credentials := json_or ''{}'' (pv_credentials inp)\<rparr>))"

text \<open>\<open>None\<close>: no configuration in the request, the stored one stays.\<close>

definition Provider_Update :: "dns_provider_row \<Rightarrow> provider_config option \<Rightarrow> dns_provider_row op" where
  "Provider_Update inp config =
     (if TrimSpace (pv_name inp) = [] then throw (ErrMsg ''provider name required'')
      else if pv_provider_type inp \<notin> set KnownProviderTypes then throw (ErrMsg ''unknown dns provider type'')
      else bnd (DNSProviderStore_GetByID (pv_id inp)) (\<lambda>existing.
           seq_eff (DNSProviderStore_Update
             (existing\<lparr>pv_config := (case config of None \<Rightarrow> pv_config existing | Some c \<Rightarrow> c),
                pv_credentials := json_or (pv_credentials existing) (pv_credentials inp),
                pv_name := pv_name inp, pv_provider_type := pv_provider_type inp, pv_notes := pv_notes inp\<rparr>))
             (DNSProviderStore_GetByID (pv_id inp))))"

section \<open>What a synchronisation does\<close>

text \<open>
  \<open>dated i\<close>: rows change only in the columns a registrar reports, and only live rows of account \<open>i\<close>.
\<close>

definition undated :: "domain_row \<Rightarrow> domain_row" where
  "undated d = d\<lparr>d_registration_date := None, d_expiry_date := None, d_auto_renew := False,
     d_last_sync_at := None, d_updated_at := 0\<rparr>"

definition dated :: "int \<Rightarrow> domain_row \<Rightarrow> domain_row \<Rightarrow> bool" where
  "dated i d d' \<longleftrightarrow> d' = d \<or>
     d_registrar_account_id d = Some i \<and> d_deleted_at d = None \<and> undated d' = undated d"

definition dates_step :: "int \<Rightarrow> world \<Rightarrow> world \<Rightarrow> bool" where
  "dates_step i w w' \<longleftrightarrow> list_all2 (dated i) (rows (domains w)) (rows (domains w'))"

lemma undated_same:
  assumes "undated d' = undated d"
  shows "d_registrar_account_id d' = d_registrar_account_id d" "d_deleted_at d' = d_deleted_at d"
proof -
  have "d_registrar_account_id (undated d') = d_registrar_account_id (undated d)"
    "d_deleted_at (undated d') = d_deleted_at (undated d)" using assms by simp_all
  then show "d_registrar_account_id d' = d_registrar_account_id d" "d_deleted_at d' = d_deleted_at d"
    by (simp_all add: undated_def)
qed

lemma dated_trans: "dated i d d' \<Longrightarrow> dated i d' d'' \<Longrightarrow> dated i d d''"
  using undated_same [of d' d] unfolding dated_def by auto

lemma all_dated_trans:
  "list_all2 (dated i) xs ys \<Longrightarrow> list_all2 (dated i) ys zs \<Longrightarrow> list_all2 (dated i) xs zs"
  using list_all2_trans [of "dated i" "dated i" "dated i" xs ys zs] dated_trans by blast

interpretation dates: store_preorder "dates_step i" for i
proof unfold_locales
  show "dates_step i w w" for w by (simp add: dates_step_def dated_def list_all2_refl)
  show "dates_step i u w" if "dates_step i u v" "dates_step i v w" for u v w
    using that unfolding dates_step_def by (rule all_dated_trans)
  show "dates_step i w (w\<lparr>faults := fs\<rparr>)" for w fs by (simp add: dates_step_def dated_def list_all2_refl)
qed

lemma dates_UpdateDomainDates [eff_intro]: "keeps (dates_step i) (UpdateDomainDates fqdn i reg ex auto)"
  unfolding UpdateDomainDates_def Let_def
  by (intro eff_intro keepsI)
    (auto simp: final_def dates_step_def tbl_update_def list_all2_map2 dated_def undated_def
      intro!: list_all2_refl)

lemma dates_sync [eff_intro]: "keeps (dates_step i) (sync_domains i ds res)"
proof (induction ds arbitrary: res)
  case (Cons d ds)
  show ?case unfolding sync_domains.simps count_synced_def by (intro eff_intro Cons.IH)
qed (simp add: dates.keeps_ret)

lemma dates_SyncAccount: "keeps (dates_step i) (SyncAccount api i)"
  unfolding SyncAccount_def GetAccountByID_def RegistrarStore_GetByID_def asset_get_def answer_def
  by (intro eff_intro) (simp add: keeps_def final_def dates.R_refl)

definition accounted :: "account_sync \<Rightarrow> int" where
  "accounted res = as_updated res + int (length (as_not_found res)) + int (length (as_errors res))"

lemma count_synced_one:
  "\<exists>res'. result (count_synced i d res) w = Inr res' \<and> accounted res' = accounted res + 1 \<and>
     as_total res' = as_total res"
  by (auto simp: count_synced_def eff_run accounted_def split: sum.split)

lemma sync_domains_accounted:
  "\<exists>res'. result (sync_domains i ds res) w = Inr res' \<and>
     accounted res' = accounted res + int (length ds) \<and> as_total res' = as_total res"
proof (induction ds arbitrary: res w)
  case (Cons d ds)
  obtain res1 where "result (count_synced i d res) w = Inr res1" "accounted res1 = accounted res + 1"
    "as_total res1 = as_total res" using count_synced_one by blast
  with Cons.IH [of res1 "final (count_synced i d res) w"] show ?case by (auto simp: eff_run)
qed simp

lemma sync_starts:
  assumes "result (SyncAccount api i) w = Inr res"
  obtains ds w' where "result (sync_domains i ds \<lparr>as_total = int (length ds), as_updated = 0,
      as_not_found = [], as_errors = []\<rparr>) w' = Inr res"
  using assms by (auto simp: SyncAccount_def eff_run split: sum.splits option.splits if_splits)

text \<open>
  C30: A synchronisation accounts for every domain the registrar lists: each is counted as updated,
  reported as unknown or reported with its error, so the three add up to the total on every run
  that returns; and whatever fails on the way, no row changes that is not a live domain of this account,
  and none in a column other than the dates and flags the registrar reports.
\<close>

theorem SyncAccount_accounts_for_all:
  "(case result (SyncAccount api i) w of Inl e \<Rightarrow> True
    | Inr res \<Rightarrow> as_updated res + int (length (as_not_found res)) + int (length (as_errors res)) = as_total res) \<and>
   list_all2 (dated i) (rows (domains w)) (rows (domains (final (SyncAccount api i) w)))"
proof
  show "list_all2 (dated i) (rows (domains w)) (rows (domains (final (SyncAccount api i) w)))"
    using keepsD [OF dates_SyncAccount] by (simp add: dates_step_def)
  show "case result (SyncAccount api i) w of Inl e \<Rightarrow> True
    | Inr res \<Rightarrow> as_updated res + int (length (as_not_found res)) + int (length (as_errors res)) = as_total res"
  proof (cases "result (SyncAccount api i) w")
    case (Inr res)
    then obtain ds w' where start: "result (sync_domains i ds \<lparr>as_total = int (length ds), as_updated = 0,
        as_not_found = [], as_errors = []\<rparr>) w' = Inr res" by (rule sync_starts)
    from sync_domains_accounted [of i ds "\<lparr>as_total = int (length ds), as_updated = 0,
        as_not_found = [], as_errors = []\<rparr>" w'] Inr
    show ?thesis unfolding start by (auto simp: accounted_def)
  qed simp
qed

section \<open>Names and references\<close>

definition registrars_inv :: "assets \<Rightarrow> bool" where
  "registrars_inv a \<longleftrightarrow> wf_tbl rg_id (registrars a) \<and> wf_tbl ra_id (registrar_accounts a) \<and>
     distinct (map rg_name (rows (registrars a))) \<and>
     distinct (map (\<lambda>r. (ra_registrar_id r, ra_account_name r)) (rows (registrar_accounts a))) \<and>
     (\<forall>r \<in> set (rows (registrar_accounts a)). ra_deleted_at r = None \<longrightarrow>
        (\<exists>g \<in> set (rows (registrars a)). live_registrar (ra_registrar_id r) g))"

text \<open>A registrar goes only when it has no live account, an account comes only to a live registrar.\<close>

lemma inv_drop_registrar:
  assumes "registrars_inv a" and "accounts_of a i = []"
  shows "registrars_inv (a\<lparr>registrars := tbl_update (live_registrar i) (\<lambda>r. r\<lparr>rg_deleted_at := Some t\<rparr>)
    (registrars a)\<rparr>)"
proof -
  let ?t = "tbl_update (live_registrar i) (\<lambda>r. r\<lparr>rg_deleted_at := Some t\<rparr>) (registrars a)"
  have "distinct (map rg_name (rows ?t))"
    by (rule distinct_tbl_update [where key = rg_id and i = i and n = rg_name])
      (use assms(1) in \<open>auto simp: registrars_inv_def live_registrar_def distinct_map dest: inj_onD\<close>)
  moreover have "wf_tbl rg_id ?t" using assms(1) by (auto simp: registrars_inv_def intro: wf_update)
  moreover have "\<exists>g \<in> set (rows ?t). live_registrar (ra_registrar_id r) g"
    if r: "r \<in> set (rows (registrar_accounts a))" "ra_deleted_at r = None" for r
  proof -
    obtain g where g: "g \<in> set (rows (registrars a))" "live_registrar (ra_registrar_id r) g"
      using assms(1) r by (auto simp: registrars_inv_def)
    moreover have "ra_registrar_id r \<noteq> i"
      using assms(2) r by (auto simp: accounts_of_def tbl_select_def filter_empty_conv)
    ultimately have "\<not> live_registrar i g" by (simp add: live_registrar_def)
    with g show ?thesis by (auto simp: rows_update_iff intro!: bexI [of _ g])
  qed
  ultimately show ?thesis using assms(1) by (simp add: registrars_inv_def)
qed

lemma inv_new_account:
  assumes "registrars_inv a" and "(ra_registrar_id x, ra_account_name x) \<notin>
      (\<lambda>r. (ra_registrar_id r, ra_account_name r)) ` set (rows (registrar_accounts a))"
    and "g \<in> set (rows (registrars a))" and "live_registrar (ra_registrar_id x) g"
  shows "registrars_inv (a\<lparr>registrar_accounts := tbl_insert (\<lambda>i. x\<lparr>ra_id := i, ra_deleted_at := None\<rparr>)
    (registrar_accounts a)\<rparr>)"
proof -
  let ?t = "tbl_insert (\<lambda>i. x\<lparr>ra_id := i, ra_deleted_at := None\<rparr>) (registrar_accounts a)"
  have "\<exists>g \<in> set (rows (registrars a)). live_registrar (ra_registrar_id r) g"
    if "r \<in> set (rows ?t)" "ra_deleted_at r = None" for r
    using that(1) unfolding rows_insert_iff
  proof
    assume "r \<in> set (rows (registrar_accounts a))"
    with assms(1) that(2) show ?thesis by (simp add: registrars_inv_def)
  next
    assume "r = x\<lparr>ra_id := seq (registrar_accounts a) + 1, ra_deleted_at := None\<rparr>"
    with assms(3,4) show ?thesis by (intro bexI [of _ g]) simp_all
  qed
  moreover have "wf_tbl ra_id ?t" and "distinct (map (\<lambda>r. (ra_registrar_id r, ra_account_name r)) (rows ?t))"
    using assms(1,2) by (auto simp: registrars_inv_def intro!: wf_insert distinct_insert)
  ultimately show ?thesis using assms(1) by (simp add: registrars_inv_def)
qed

lemma inv_update_account:
  assumes "registrars_inv a"
    and "\<And>r. r \<in> set (rows (registrar_accounts a)) \<Longrightarrow> live_account i r \<Longrightarrow> ra_id (f r) = i \<and>
      ra_registrar_id (f r) = ra_registrar_id r"
    and "\<And>r. ra_id (f r) = ra_id r"
    and "\<And>r s. r \<in> set (rows (registrar_accounts a)) \<Longrightarrow> live_account i r \<Longrightarrow>
      s \<in> set (rows (registrar_accounts a)) \<Longrightarrow> ra_id s \<noteq> i \<Longrightarrow> ra_account_name (f r) \<noteq> ra_account_name r \<Longrightarrow>
      (ra_registrar_id s, ra_account_name s) \<noteq> (ra_registrar_id r, ra_account_name (f r))"
  shows "registrars_inv (a\<lparr>registrar_accounts := tbl_update (live_account i) f (registrar_accounts a)\<rparr>)"
proof -
  let ?t = "tbl_update (live_account i) f (registrar_accounts a)"
  let ?g = "\<lambda>r. (ra_registrar_id r, ra_account_name r)"
  have "distinct (map ?g (rows ?t))"
  proof (rule distinct_tbl_update [where key = ra_id and i = i and n = "\<lambda>r. ?g (f r)"])
    fix r s
    assume rs: "r \<in> set (rows (registrar_accounts a))" "live_account i r"
      "s \<in> set (rows (registrar_accounts a))" "ra_id s \<noteq> i"
    show "?g s \<noteq> ?g (f r)"
    proof (cases "ra_account_name (f r) = ra_account_name r")
      case True
      have "inj_on ?g (set (rows (registrar_accounts a)))"
        using assms(1) by (simp add: registrars_inv_def distinct_map)
      from inj_onD [OF this, of s r] True rs assms(2) [of r] show ?thesis by (auto simp: live_account_def)
    next
      case False
      from assms(4) [OF rs False] assms(2) [OF rs(1,2)] show ?thesis by auto
    qed
  qed (use assms(1) in \<open>auto simp: registrars_inv_def live_account_def\<close>)
  moreover have "wf_tbl ra_id ?t" using assms(1,3) by (auto simp: registrars_inv_def intro: wf_update)
  moreover have "\<exists>g \<in> set (rows (registrars a)). live_registrar (ra_registrar_id y) g"
    if y: "y \<in> set (rows ?t)" "ra_deleted_at y = None" for y
  proof -
    obtain r where r: "r \<in> set (rows (registrar_accounts a))" "y = (if live_account i r then f r else r)"
      using y(1) unfolding rows_update_iff by blast
    then have "ra_registrar_id y = ra_registrar_id r" "ra_deleted_at r = None"
      using assms(2) [of r] y(2) by (auto simp: live_account_def split: if_splits)
    with r(1) assms(1) show ?thesis by (simp add: registrars_inv_def)
  qed
  ultimately show ?thesis using assms(1) by (simp add: registrars_inv_def)
qed

lemma inv_update_registrar:
  assumes "registrars_inv a" and "\<And>r. rg_id (f r) = rg_id r" and "\<And>r. rg_deleted_at (f r) = rg_deleted_at r"
    and "\<And>r. rg_name (f r) = n"
    and "\<And>s r. r \<in> set (rows (registrars a)) \<Longrightarrow> live_registrar i r \<Longrightarrow> s \<in> set (rows (registrars a)) \<Longrightarrow>
      rg_id s \<noteq> i \<Longrightarrow> rg_name s \<noteq> n"
  shows "registrars_inv (a\<lparr>registrars := tbl_update (live_registrar i) f (registrars a)\<rparr>)"
proof -
  let ?t = "tbl_update (live_registrar i) f (registrars a)"
  have "distinct (map rg_name (rows ?t))"
    by (rule distinct_tbl_update [where key = rg_id and i = i and n = "\<lambda>r. n"])
      (use assms in \<open>auto simp: registrars_inv_def live_registrar_def\<close>)
  moreover have "wf_tbl rg_id ?t" using assms(1,2) by (auto simp: registrars_inv_def intro: wf_update)
  moreover have "\<exists>g \<in> set (rows ?t). live_registrar j g"
    if "g \<in> set (rows (registrars a))" "live_registrar j g" for g j
  proof (rule bexI [of _ "if live_registrar i g then f g else g"])
    show "live_registrar j (if live_registrar i g then f g else g)"
      using that(2) assms(2,3) by (simp add: live_registrar_def)
    show "(if live_registrar i g then f g else g) \<in> set (rows ?t)"
      using that(1) unfolding rows_update_iff by blast
  qed
  ultimately show ?thesis using assms(1) by (fastforce simp: registrars_inv_def)
qed

lemma step_RegistrarStore_Create [eff_intro]: "keeps (asset_step registrars_inv) (RegistrarStore_Create x)"
proof -
  have "registrars_inv (a\<lparr>registrars := tbl_insert (\<lambda>i. x\<lparr>rg_id := i, rg_deleted_at := None\<rparr>) (registrars a)\<rparr>)"
    if "registrars_inv a" "rg_name x \<notin> rg_name ` set (rows (registrars a))" for a
  proof -
    have "\<exists>g \<in> set (rows (registrars a)). P g \<Longrightarrow>
        \<exists>g \<in> set (rows (tbl_insert (\<lambda>i. x\<lparr>rg_id := i, rg_deleted_at := None\<rparr>) (registrars a))). P g" for P
      by (auto simp: rows_insert_iff)
    with that show ?thesis by (simp add: registrars_inv_def wf_insert distinct_insert)
  qed
  then show ?thesis
    unfolding RegistrarStore_Create_def by (intro step_stmt) (auto simp: Let_def list_ex_iff image_iff eq_commute)
qed

lemma step_RegistrarStore_Update [eff_intro]: "keeps (asset_step registrars_inv) (RegistrarStore_Update x)"
  unfolding RegistrarStore_Update_def
  by (intro step_exec_unless, erule inv_update_registrar [where n = "rg_name x"])
    (auto simp: find_None_live list_ex_iff)

lemma step_RegistrarStore_UpdateAccount [eff_intro]:
  "keeps (asset_step registrars_inv) (RegistrarStore_UpdateAccount x)"
  unfolding RegistrarStore_UpdateAccount_def
proof (intro step_exec_unless, rule inv_update_account)
  fix a :: assets and r s :: registrar_account_row
  assume np: "\<not> (case tbl_find (live_account (ra_id x)) (registrar_accounts a) of None \<Rightarrow> False
      | Some y \<Rightarrow> list_ex (\<lambda>r. ra_id r \<noteq> ra_id x \<and> ra_registrar_id r = ra_registrar_id y \<and>
          ra_account_name r = ra_account_name x) (rows (registrar_accounts a)))"
    and inv: "registrars_inv a"
    and r: "r \<in> set (rows (registrar_accounts a))" "live_account (ra_id x) r"
    and s: "s \<in> set (rows (registrar_accounts a))" "ra_id s \<noteq> ra_id x"
  obtain y where y: "tbl_find (live_account (ra_id x)) (registrar_accounts a) = Some y"
    using r find_None_live by (metis option.exhaust)
  then have "y \<in> set (rows (registrar_accounts a))" "ra_id y = ra_id r"
    using r(2) by (auto simp: tbl_find_def live_account_def dest!: find_SomeD)
  then have "y = r" using inv r(1) by (auto simp: registrars_inv_def wf_tbl_def distinct_map dest: inj_onD)
  with np y s show "(ra_registrar_id s, ra_account_name s) \<noteq>
      (ra_registrar_id r, ra_account_name (r\<lparr>ra_account_name := ra_account_name x,
        ra_owner_user_id := ra_owner_user_id x, ra_credentials := ra_credentials x,
        ra_is_default := ra_is_default x, ra_notes := ra_notes x\<rparr>))"
    by (auto simp: list_ex_iff)
qed (simp_all add: live_account_def)

lemma inv_update_accounts_deleted:
  assumes "registrars_inv a"
  shows "registrars_inv (a\<lparr>registrar_accounts := tbl_update (live_account i) (\<lambda>r. r\<lparr>ra_deleted_at := Some t\<rparr>)
    (registrar_accounts a)\<rparr>)"
  using assms by (rule inv_update_account) (simp_all add: live_account_def)

lemma step_SoftDeleteAccount [eff_intro]: "keeps (asset_step registrars_inv) (SoftDeleteAccount i)"
  unfolding SoftDeleteAccount_def by (intro eff_intro step_exec inv_update_accounts_deleted)

lemma step_lookups [eff_intro]:
  "keeps (asset_step registrars_inv) (RegistrarStore_GetByID i)" "keeps (asset_step registrars_inv) (GetAccountByID i)"
  unfolding RegistrarStore_GetByID_def GetAccountByID_def by (intro eff_intro)+

lemma step_RegistrarStore_SoftDelete [eff_intro]: "keeps (asset_step registrars_inv) (RegistrarStore_SoftDelete i)"
proof (rule keeps_of_snap)
  fix w
  show "hoare (snap w) (RegistrarStore_SoftDelete i) (\<lambda>_. asset_step registrars_inv w) (asset_step registrars_inv w)"
    unfolding RegistrarStore_SoftDelete_def
  proof (rule hoare_step [OF hoare_post [OF snap_assets(1)]])
    fix n :: nat
    assume n: "n = length (accounts_of (assets w) i)"
    show "hoare (snap w) (if n > 0 then throw ErrRegistrarHasDependents
        else asset_exec (\<lambda>t a. a\<lparr>registrars := tbl_update (live_registrar i)
          (\<lambda>r. r\<lparr>rg_deleted_at := Some t\<rparr>) (registrars a)\<rparr>))
        (\<lambda>_. asset_step registrars_inv w) (asset_step registrars_inv w)"
    proof (cases "n > 0")
      case True
      then show ?thesis by (simp add: hoare_def snap_no_step)
    next
      case False
      with n have "accounts_of (assets w) i = []" by simp
      then show ?thesis
        unfolding if_not_P [OF False]
        by (intro hoare_post [OF snap_assets(3)]) (auto intro: snap_no_step snap_asset_step inv_drop_registrar)
    qed
  qed (auto intro: snap_no_step)
qed

lemma step_CreateAccount [eff_intro]: "keeps (asset_step registrars_inv) (CreateAccount x)"
proof (rule keeps_of_snap)
  fix w
  let ?x = "x\<lparr>ra_credentials := json_or ''{}'' (ra_credentials x)\<rparr>"
  have "hoare (snap w) (bnd (RegistrarStore_GetByID (ra_registrar_id x)) (\<lambda>_. RegistrarStore_CreateAccount ?x))
      (\<lambda>_. asset_step registrars_inv w) (asset_step registrars_inv w)"
    unfolding RegistrarStore_GetByID_def
  proof (rule hoare_step [OF hoare_post [OF snap_assets(2)]])
    fix g
    assume g: "tbl_find (live_registrar (ra_registrar_id x)) (registrars (assets w)) = Some g"
    have g': "g \<in> set (rows (registrars (assets w)))" "live_registrar (ra_registrar_id ?x) g"
      using g by (auto simp: tbl_find_def dest!: find_SomeD)
    show "hoare (snap w) (RegistrarStore_CreateAccount ?x)
        (\<lambda>_. asset_step registrars_inv w) (asset_step registrars_inv w)"
      unfolding RegistrarStore_CreateAccount_def
      by (rule snap_write) (auto simp: Let_def list_ex_iff intro!: inv_new_account [OF _ _ g'])
  qed (auto intro: snap_no_step)
  then show "hoare (snap w) (CreateAccount x) (\<lambda>_. asset_step registrars_inv w) (asset_step registrars_inv w)"
    by (simp add: CreateAccount_def hoare_def snap_no_step)
qed

lemma step_Registrar_service:
  "keeps (asset_step registrars_inv) (Registrar_Create x)" "keeps (asset_step registrars_inv) (Registrar_Update x)"
  "keeps (asset_step registrars_inv) (UpdateAccount y)"
  unfolding Registrar_Create_def Registrar_Update_def UpdateAccount_def duplicate_as_def
  by (intro eff_intro)+

lemma step_sync [eff_intro]: "keeps (asset_step registrars_inv) (sync_domains i ds res)"
proof (induction ds arbitrary: res)
  case (Cons d ds)
  have "keeps (asset_step registrars_inv) (UpdateDomainDates f i reg ex auto)" for f reg ex auto
    unfolding UpdateDomainDates_def Let_def by (intro eff_intro keepsI) (simp add: final_def asset_step_def)
  then show ?case unfolding sync_domains.simps count_synced_def by (intro eff_intro Cons.IH)
qed (simp add: inv.keeps_ret)

text \<open>
  The registry of registrars stays consistent whatever the database does: names of registrars
  are unique, account names are unique per registrar, and every live account belongs to a live
  registrar, because a registrar with live accounts cannot be deleted and an account is only
  created under a live registrar.
\<close>

theorem registrars_inv_kept:
  "keeps (asset_step registrars_inv) (Registrar_Create x) \<and>
   keeps (asset_step registrars_inv) (Registrar_Update x) \<and>
   keeps (asset_step registrars_inv) (RegistrarStore_SoftDelete i) \<and>
   keeps (asset_step registrars_inv) (CreateAccount y) \<and>
   keeps (asset_step registrars_inv) (UpdateAccount y) \<and>
   keeps (asset_step registrars_inv) (SoftDeleteAccount i) \<and>
   keeps (asset_step registrars_inv) (SyncAccount api i)"
proof (intro conjI step_Registrar_service step_RegistrarStore_SoftDelete step_CreateAccount step_SoftDeleteAccount)
  show "keeps (asset_step registrars_inv) (SyncAccount api i)"
    unfolding SyncAccount_def by (intro eff_intro)
qed

section \<open>Provider types\<close>

text \<open>The types for which pkg/provider/dns registers a client (the \<open>init\<close> functions of its files).\<close>

definition registered_dns_types :: "string list" where
  "registered_dns_types = [''alidns'', ''cloudflare'', ''huaweidns'', ''dnspod'']"

text \<open>
  C108: A DNS provider row is only ever created with one of the known types, and two of the lists do not
  agree: the client for Huawei is registered as \<open>huaweidns\<close>, a type the service rejects, so no row can
  ever select it, while four of the known types have no client at all.
\<close>

theorem provider_types_disagree:
  "(case result (Provider_Create inp) w of Inl e \<Rightarrow> True | Inr r \<Rightarrow> pv_provider_type r \<in> set KnownProviderTypes) \<and>
   filter (\<lambda>t. t \<notin> set KnownProviderTypes) registered_dns_types = [''huaweidns''] \<and>
   filter (\<lambda>t. t \<notin> set registered_dns_types) KnownProviderTypes =
     [''route53'', ''godaddy'', ''namecheap'', ''manual'']"
proof (intro conjI)
  have "case result (DNSProviderStore_Create p) w of Inl e \<Rightarrow> True
      | Inr r \<Rightarrow> pv_provider_type r = pv_provider_type p" for p
    unfolding DNSProviderStore_Create_def
    using snap_start [OF snap_asset_stmt, of w] by (fastforce simp: Let_def split: sum.splits if_splits)
  then show "case result (Provider_Create inp) w of Inl e \<Rightarrow> True
      | Inr r \<Rightarrow> pv_provider_type r \<in> set KnownProviderTypes"
    by (fastforce simp: Provider_Create_def split: sum.splits)
qed (simp_all add: registered_dns_types_def KnownProviderTypes_def)

end
