(* ===== verification/Tags.thy ===== *)
theory Tags
  imports Asset_Store Expiry
begin

text \<open>
  internal/tag/service.go over store/postgres/tag.go: tags, and the sets of tags of the domains. The
  foreign key from \<open>domain_tags\<close> to \<open>tags\<close> is enforced here, because deleting a tag cascades.
\<close>

section \<open>The store\<close>

definition hex_digit :: "char \<Rightarrow> bool" where
  "hex_digit c \<longleftrightarrow> CHR ''0'' \<le> c \<and> c \<le> CHR ''9'' \<or> CHR ''a'' \<le> c \<and> c \<le> CHR ''f'' \<or>
     CHR ''A'' \<le> c \<and> c \<le> CHR ''F''"

text \<open>The expression \<open>^#[0-9a-fA-F]\{6\}$\<close>, of the service and of the \<open>CHECK\<close> constraint.\<close>

definition hex_colour :: "string \<Rightarrow> bool" where
  "hex_colour s \<longleftrightarrow> length s = 7 \<and> take 1 s = ''#'' \<and> list_all hex_digit (drop 1 s)"

definition colour_ok :: "string option \<Rightarrow> bool" where
  "colour_ok c \<longleftrightarrow> (case c of None \<Rightarrow> True | Some s \<Rightarrow> hex_colour s)"

definition tag_known :: "assets \<Rightarrow> int \<Rightarrow> bool" where
  "tag_known a i \<longleftrightarrow> list_ex (\<lambda>g. tg_id g = i) (rows (tags a))"

definition TagStore_Create :: "tag_row \<Rightarrow> tag_row op" where
  "TagStore_Create x = asset_stmt (\<lambda>t a.
     if \<not> colour_ok (tg_color x) then (Inl (ErrCheck ''chk_tags_color''), a)
     else if list_ex (\<lambda>g. tg_name g = tg_name x) (rows (tags a)) then (Inl (ErrUnique ''uq_tags_name''), a)
     else let mk = (\<lambda>i. x\<lparr>tg_id := i\<rparr>)
       in (Inr (mk (seq (tags a) + 1)), a\<lparr>tags := tbl_insert mk (tags a)\<rparr>))"

definition TagStore_GetByID :: "int \<Rightarrow> tag_row op" where
  "TagStore_GetByID i = asset_get ErrTagNotFound (\<lambda>a. tbl_get tg_id (tags a) i)"

definition TagStore_List :: "tag_row list op" where
  "TagStore_List = asset_query (\<lambda>a. sort_key tg_name (rows (tags a)))"

definition TagStore_Update :: "tag_row \<Rightarrow> unit op" where
  "TagStore_Update x = asset_stmt (\<lambda>t a.
     if \<not> tag_known a (tg_id x) then (Inr (), a)
     else if \<not> colour_ok (tg_color x) then (Inl (ErrCheck ''chk_tags_color''), a)
     else if list_ex (\<lambda>g. tg_id g \<noteq> tg_id x \<and> tg_name g = tg_name x) (rows (tags a))
     then (Inl (ErrUnique ''uq_tags_name''), a)
     else (Inr (), a\<lparr>tags := tbl_update (\<lambda>g. tg_id g = tg_id x)
        (\<lambda>g. g\<lparr>tg_name := tg_name x, tg_color := tg_color x\<rparr>) (tags a)\<rparr>))"

definition TagStore_Delete :: "int \<Rightarrow> unit op" where
  "TagStore_Delete i = asset_exec (\<lambda>t a. a\<lparr>tags := tbl_delete (\<lambda>g. tg_id g = i) (tags a),
     domain_tags := filter (\<lambda>(d, g). g \<noteq> i) (domain_tags a)\<rparr>)"

definition insert_domain_tag :: "int \<Rightarrow> int \<Rightarrow> unit op" where
  "insert_domain_tag d g = asset_stmt (\<lambda>t a.
     if (d, g) \<in> set (domain_tags a) then (Inl (ErrUnique ''domain_tags_pkey''), a)
     else if \<not> tag_known a g then (Inl (ErrCheck ''domain_tags_tag_id_fkey''), a)
     else (Inr (), a\<lparr>domain_tags := domain_tags a @ [(d, g)]\<rparr>))"

text \<open>Preparing the statement is a call of its own.\<close>

definition SetDomainTags :: "int \<Rightarrow> int list \<Rightarrow> unit op" where
  "SetDomainTags d tagIDs = transaction
     (seq_eff (asset_exec (\<lambda>t a. a\<lparr>domain_tags := filter (\<lambda>(e, g). e \<noteq> d) (domain_tags a)\<rparr>))
       (if length tagIDs > 0
        then seq_eff (stmt (ret ())) (for_each tagIDs (insert_domain_tag d))
        else ret ()))"

definition GetDomainTags :: "int \<Rightarrow> tag_row list op" where
  "GetDomainTags d = asset_query (\<lambda>a.
     sort_key tg_name (filter (\<lambda>g. (d, tg_id g) \<in> set (domain_tags a)) (rows (tags a))))"

definition ListWithCounts :: "(tag_row \<times> int) list op" where
  "ListWithCounts = asset_query (\<lambda>a. map (\<lambda>g.
     (g, int (length (filter (\<lambda>(d, i). i = tg_id g) (domain_tags a))))) (sort_key tg_name (rows (tags a))))"

section \<open>The service\<close>

definition ValidateColor :: "string option \<Rightarrow> go_err + unit" where
  "ValidateColor c = (case c of None \<Rightarrow> Inr ()
     | Some s \<Rightarrow> if s = [] then Inr () else if \<not> hex_colour s then Inl ErrInvalidColor else Inr ())"

text \<open>Every unique violation says ``duplicate key''.\<close>

definition isDuplicate :: "go_err \<Rightarrow> bool" where
  "isDuplicate e \<longleftrightarrow> (case e of ErrUnique k \<Rightarrow> True | _ \<Rightarrow> False)"

definition unless_duplicate :: "'a op \<Rightarrow> 'a op" where
  "unless_duplicate m = bnd (attempt m) (\<lambda>r. case r of
     Inl e \<Rightarrow> throw (if isDuplicate e then ErrDuplicateName else e) | Inr x \<Rightarrow> ret x)"

definition Tag_Create :: "string \<Rightarrow> string option \<Rightarrow> tag_row op" where
  "Tag_Create name0 color =
     (let name = TrimSpace name0 in
      if name = [] then throw ErrEmptyName
      else seq_eff (answer (ValidateColor color))
        (unless_duplicate (TagStore_Create \<lparr>tg_id = 0, tg_name = name, tg_color = color\<rparr>)))"

definition Tag_Update :: "int \<Rightarrow> string \<Rightarrow> string option \<Rightarrow> tag_row op" where
  "Tag_Update i name0 color =
     (let name = TrimSpace name0 in
      if name = [] then throw ErrEmptyName
      else seq_eff (answer (ValidateColor color))
        (bnd (TagStore_GetByID i) (\<lambda>g.
         let g' = g\<lparr>tg_name := name, tg_color := color\<rparr>
         in seq_eff (unless_duplicate (TagStore_Update g')) (ret g'))))"

definition Tag_Delete :: "int \<Rightarrow> unit op" where
  "Tag_Delete i = bnd (TagStore_GetByID i) (\<lambda>_. TagStore_Delete i)"

text \<open>The merged set is walked in the order of a Go map, which is not fixed; nothing depends on it.\<close>

definition add_tags :: "int list \<Rightarrow> int \<Rightarrow> unit op" where
  "add_tags tagIDs d = bnd (GetDomainTags d) (\<lambda>existing.
     SetDomainTags d (remdups (map tg_id existing @ tagIDs)))"

definition BulkAddTags :: "int list \<Rightarrow> int list \<Rightarrow> unit op" where
  "BulkAddTags domainIDs tagIDs = for_each domainIDs (add_tags tagIDs)"

definition remove_tags :: "int list \<Rightarrow> int \<Rightarrow> unit op" where
  "remove_tags tagIDs d = bnd (GetDomainTags d) (\<lambda>existing.
     SetDomainTags d (filter (\<lambda>i. i \<notin> set tagIDs) (map tg_id existing)))"

definition BulkRemoveTags :: "int list \<Rightarrow> int list \<Rightarrow> unit op" where
  "BulkRemoveTags domainIDs tagIDs = for_each domainIDs (remove_tags tagIDs)"

definition Tag_BulkUpdateFields ::
    "int list \<Rightarrow> int option \<Rightarrow> int option \<Rightarrow> bool option \<Rightarrow> int op" where
  "Tag_BulkUpdateFields ids account provider auto =
     (if length ids = 0 then ret 0 else BulkUpdateFields ids account provider auto)"

definition ExportDomains :: "list_filter \<Rightarrow> domain_row list op" where
  "ExportDomains f = ListWithFilter f"

text \<open>The names joined to an enriched row are left out.\<close>

definition ExportDomainsEnriched :: "list_filter \<Rightarrow> domain_row list op" where
  "ExportDomainsEnriched f = ListWithFilter (f\<lparr>lf_limit := 10000\<rparr>)"

section \<open>What the operations do to the sets of tags\<close>

definition tags_inv :: "assets \<Rightarrow> bool" where
  "tags_inv a \<longleftrightarrow> wf_tbl tg_id (tags a) \<and> distinct (map tg_name (rows (tags a))) \<and>
     distinct (domain_tags a) \<and> (\<forall>(d, g) \<in> set (domain_tags a). tag_known a g)"

definition tags_of :: "assets \<Rightarrow> int \<Rightarrow> int set" where
  "tags_of a d = {g. (d, g) \<in> set (domain_tags a)}"

text \<open>\<open>retag d S\<close>: the set of domain \<open>d\<close> becomes \<open>S\<close>, everything else stays.\<close>

definition retag :: "int \<Rightarrow> int set \<Rightarrow> assets \<Rightarrow> assets \<Rightarrow> bool" where
  "retag d S a a' \<longleftrightarrow> (\<exists>gs. distinct gs \<and> set gs = S \<and> list_all (tag_known a) gs \<and>
     a' = a\<lparr>domain_tags := filter (\<lambda>(e, g). e \<noteq> d) (domain_tags a) @ map (Pair d) gs\<rparr>)"

lemma insert_tags_outcome:
  assumes "result (for_each gs (insert_domain_tag d)) w = Inr u"
  shows "assets (final (for_each gs (insert_domain_tag d)) w) =
      (assets w)\<lparr>domain_tags := domain_tags (assets w) @ map (Pair d) gs\<rparr> \<and>
    distinct gs \<and> set (map (Pair d) gs) \<inter> set (domain_tags (assets w)) = {} \<and>
    list_all (tag_known (assets w)) gs"
  using assms
proof (induction gs arbitrary: w)
  case (Cons g gs)
  let ?w = "final (insert_domain_tag d g) w"
  from Cons.prems have ok: "result (insert_domain_tag d g) w = Inr ()"
    "result (for_each gs (insert_domain_tag d)) ?w = Inr u"
    by (auto simp: eff_run split: sum.splits)
  have one: "assets ?w = (assets w)\<lparr>domain_tags := domain_tags (assets w) @ [(d, g)]\<rparr>"
    "(d, g) \<notin> set (domain_tags (assets w))" "tag_known (assets w) g"
    using asset_stmt_Inr [OF ok(1) [unfolded insert_domain_tag_def]]
    by (auto simp: insert_domain_tag_def split: if_splits)
  show ?case
    using Cons.IH [OF ok(2)] ok(1) one by (auto simp: eff_run tag_known_def list_all_iff)
qed simp

lemma SetDomainTags_outcome:
  "case result (SetDomainTags d gs) w of
     Inl e \<Rightarrow> assets (final (SetDomainTags d gs) w) = assets w
   | Inr u \<Rightarrow> retag d (set gs) (assets w) (assets (final (SetDomainTags d gs) w))"
proof (cases "result (SetDomainTags d gs) w")
  case (Inl e)
  then obtain fs where "final (SetDomainTags d gs) w = w\<lparr>faults := fs\<rparr>"
    unfolding SetDomainTags_def using transaction_Inl by blast
  with Inl show ?thesis by simp
next
  case (Inr u)
  let ?clear = "asset_exec (\<lambda>t a. a\<lparr>domain_tags := filter (\<lambda>(e, g). e \<noteq> d) (domain_tags a)\<rparr>)"
  let ?fill = "if length gs > 0 then seq_eff (stmt (ret ())) (for_each gs (insert_domain_tag d)) else ret ()"
  from Inr obtain w1 w2 fs where w1: "w1 = w\<lparr>faults := fs\<rparr>" and run: "result (seq_eff ?clear ?fill) w1 = Inr u"
    "final (seq_eff ?clear ?fill) w1 = w2" and fin: "\<exists>fs'. final (SetDomainTags d gs) w = w2\<lparr>faults := fs'\<rparr>"
    unfolding SetDomainTags_def by (rule transaction_Inr)
  let ?a = "(assets w)\<lparr>domain_tags := filter (\<lambda>(e, g). e \<noteq> d) (domain_tags (assets w))\<rparr>"
  from run(1) obtain v :: unit where clear: "result ?clear w1 = Inr v" and rest1: "result ?fill (final ?clear w1) = Inr u"
    and "final (seq_eff ?clear ?fill) w1 = final ?fill (final ?clear w1)" by (rule seq_InrE)
  with run(2) have rest: "result ?fill (final ?clear w1) = Inr u" "w2 = final ?fill (final ?clear w1)" by simp_all
  have a1: "assets (final ?clear w1) = ?a"
    using asset_exec_Inr [OF clear] w1 by simp
  have "assets w2 = ?a\<lparr>domain_tags := domain_tags ?a @ map (Pair d) gs\<rparr> \<and> distinct gs \<and>
      list_all (tag_known ?a) gs"
  proof (cases gs)
    case Nil
    with rest(2) a1 show ?thesis by simp
  next
    case (Cons g gs')
    define w3 where "w3 = final (stmt (ret ())) (final ?clear w1)"
    have "assets w3 = ?a" using a1 unfolding w3_def by (auto simp: final_stmt split: list.split)
    moreover have fill: "?fill = seq_eff (stmt (ret ())) (for_each gs (insert_domain_tag d))" using Cons by simp
    have "result (for_each gs (insert_domain_tag d)) w3 = Inr u"
      "w2 = final (for_each gs (insert_domain_tag d)) w3"
      using rest unfolding fill w3_def by (auto simp: eff_run split: sum.splits)
    ultimately show ?thesis using insert_tags_outcome [of gs d w3 u] by simp
  qed
  moreover have "tag_known ?a = tag_known (assets w)" by (simp add: tag_known_def fun_eq_iff)
  ultimately have "assets w2 = (assets w)\<lparr>domain_tags :=
      filter (\<lambda>(e, g). e \<noteq> d) (domain_tags (assets w)) @ map (Pair d) gs\<rparr> \<and> distinct gs \<and>
      list_all (tag_known (assets w)) gs" by simp
  then have "retag d (set gs) (assets w) (assets w2)" unfolding retag_def by blast
  with Inr fin show ?thesis by auto
qed

lemma retag_same:
  assumes "retag d S a a'"
  shows "tags_of a' e = (if e = d then S else tags_of a e)" "tag_known a' = tag_known a"
    "tags_inv a \<Longrightarrow> tags_inv a'"
proof -
  obtain gs where gs: "distinct gs" "set gs = S" "list_all (tag_known a) gs"
    "a' = a\<lparr>domain_tags := filter (\<lambda>(e, g). e \<noteq> d) (domain_tags a) @ map (Pair d) gs\<rparr>"
    using assms by (auto simp: retag_def)
  show known: "tag_known a' = tag_known a" by (simp add: gs(4) tag_known_def fun_eq_iff)
  show "tags_of a' e = (if e = d then S else tags_of a e)"
    using gs(2) by (auto simp: gs(4) tags_of_def)
  have "distinct (map (Pair d) gs)" using gs(1) by (simp add: distinct_map inj_on_def)
  then show "tags_inv a'" if "tags_inv a"
    using that gs(3) unfolding tags_inv_def known
    by (auto simp: gs(4) list_all_iff)
qed

text \<open>The tags of a domain as the service reads them are all of its tags.\<close>

lemma listed_tags:
  assumes "tags_inv a"
  shows "tg_id ` set (sort_key tg_name (filter (\<lambda>g. (d, tg_id g) \<in> set (domain_tags a)) (rows (tags a)))) =
    tags_of a d"
  using assms by (fastforce simp: tags_inv_def tags_of_def tag_known_def list_ex_iff image_iff)

text \<open>One round of a bulk operation, for a function \<open>F\<close> of the old set.\<close>

definition retags :: "(int set \<Rightarrow> int set) \<Rightarrow> (int \<Rightarrow> unit op) \<Rightarrow> bool" where
  "retags F f \<longleftrightarrow> (\<forall>w d. tags_inv (assets w) \<longrightarrow> (case result (f d) w of
     Inl e \<Rightarrow> assets (final (f d) w) = assets w
   | Inr u \<Rightarrow> retag d (F (tags_of (assets w) d)) (assets w) (assets (final (f d) w))))"

lemma retags_after_read:
  assumes "\<And>gs. set (k gs) = F (tg_id ` set gs)"
  shows "retags F (\<lambda>d. bnd (GetDomainTags d) (\<lambda>existing. SetDomainTags d (k existing)))"
  unfolding retags_def
proof (intro allI impI)
  fix w :: world and d assume inv: "tags_inv (assets w)"
  let ?w = "final (GetDomainTags d) w"
  have same: "assets ?w = assets w"
    using ro_assets(1) unfolding GetDomainTags_def by (auto simp: keeps_def dest: read_only_fields(1))
  show "case result (bnd (GetDomainTags d) (\<lambda>existing. SetDomainTags d (k existing))) w of
      Inl e \<Rightarrow> assets (final (bnd (GetDomainTags d) (\<lambda>existing. SetDomainTags d (k existing))) w) = assets w
    | Inr u \<Rightarrow> retag d (F (tags_of (assets w) d)) (assets w)
        (assets (final (bnd (GetDomainTags d) (\<lambda>existing. SetDomainTags d (k existing))) w))"
  proof (cases "result (GetDomainTags d) w")
    case (Inl e)
    with same show ?thesis by (simp add: eff_run)
  next
    case (Inr gs)
    then have "gs = sort_key tg_name (filter (\<lambda>g. (d, tg_id g) \<in> set (domain_tags (assets w))) (rows (tags (assets w))))"
      unfolding GetDomainTags_def by (rule asset_query_Inr)
    then have "set (k gs) = F (tags_of (assets w) d)" using assms listed_tags [OF inv] by metis
    with SetDomainTags_outcome [of d "k gs" ?w] same Inr show ?thesis
      by (cases "result (SetDomainTags d (k gs)) ?w") (simp_all add: eff_run)
  qed
qed

lemma retags_loop:
  assumes "retags F f" and "\<And>S. F (F S) = F S" and "tags_inv (assets w)"
  shows "tags_inv (assets (final (for_each ds f) w)) \<and>
    (\<forall>u. result (for_each ds f) w = Inr u \<longrightarrow>
      (\<forall>d \<in> set ds. tags_of (assets (final (for_each ds f) w)) d = F (tags_of (assets w) d))) \<and>
    (\<forall>d. tags_of (assets (final (for_each ds f) w)) d = tags_of (assets w) d \<or>
      d \<in> set ds \<and> tags_of (assets (final (for_each ds f) w)) d = F (tags_of (assets w) d))"
  using assms(3)
proof (induction ds arbitrary: w)
  case (Cons d ds)
  let ?w = "final (f d) w"
  have one: "case result (f d) w of Inl e \<Rightarrow> assets ?w = assets w
      | Inr u \<Rightarrow> retag d (F (tags_of (assets w) d)) (assets w) (assets ?w)"
    using assms(1) Cons.prems unfolding retags_def by blast
  show ?case
  proof (cases "result (f d) w")
    case (Inl e)
    with one Cons.prems show ?thesis by (simp add: eff_run)
  next
    case (Inr u)
    with one have re: "retag d (F (tags_of (assets w) d)) (assets w) (assets ?w)" by simp
    note ih = Cons.IH [OF retag_same(3) [OF re Cons.prems]]
    have run: "result (for_each (d # ds) f) w = result (for_each ds f) ?w"
      "final (for_each (d # ds) f) w = final (for_each ds f) ?w"
      using Inr by (simp_all add: eff_run)
    have now: "tags_of (assets ?w) e = (if e = d then F (tags_of (assets w) d) else tags_of (assets w) e)" for e
      by (rule retag_same(1) [OF re])
    let ?v = "assets (final (for_each ds f) ?w)"
    have after: "tags_of ?v e = tags_of (assets ?w) e \<or> e \<in> set ds \<and> tags_of ?v e = F (tags_of (assets ?w) e)" for e
      using ih by blast
    show ?thesis
      unfolding run
    proof (intro conjI allI impI ballI)
      show "tags_inv ?v" using ih by blast
      show "tags_of ?v e = tags_of (assets w) e \<or>
          e \<in> set (d # ds) \<and> tags_of ?v e = F (tags_of (assets w) e)" for e
        using after [of e] now [of e] assms(2) by (cases "e = d") auto
      show "tags_of ?v e = F (tags_of (assets w) e)"
        if u: "result (for_each ds f) ?w = Inr u" and e: "e \<in> set (d # ds)" for u e
      proof (cases "e \<in> set ds")
        case True
        with ih u have "tags_of ?v e = F (tags_of (assets ?w) e)" by blast
        then show ?thesis using assms(2) by (cases "e = d") (simp_all add: now)
      next
        case False
        with e after [of e] show ?thesis by (simp add: now)
      qed
    qed
  qed
qed simp

text \<open>
  Tags are added and removed in bulk as sets, whatever fails on the way: after a successful call
  every listed domain has its old tags together with (without) the given ones; after a call that
  failed half way each domain has either exactly its old tags or exactly the new set, because each set is
  replaced in a transaction of its own; no other domain changes.
\<close>

theorem bulk_tags_exact:
  assumes "tags_inv (assets w)" and "m = BulkAddTags ds gs \<and> F = (\<lambda>S. S \<union> set gs) \<or>
    m = BulkRemoveTags ds gs \<and> F = (\<lambda>S. S - set gs)"
  shows "(\<forall>u. result m w = Inr u \<longrightarrow>
      (\<forall>d \<in> set ds. tags_of (assets (final m w)) d = F (tags_of (assets w) d))) \<and>
    (\<forall>d. tags_of (assets (final m w)) d = tags_of (assets w) d \<or>
      d \<in> set ds \<and> tags_of (assets (final m w)) d = F (tags_of (assets w) d))"
proof -
  have "retags (\<lambda>S. S \<union> set gs) (add_tags gs)" "retags (\<lambda>S. S - set gs) (remove_tags gs)"
    unfolding add_tags_def [abs_def] remove_tags_def [abs_def]
    by (rule retags_after_read; auto)+
  then obtain f where f: "retags F f" "m = for_each ds f"
    using assms(2) unfolding BulkAddTags_def BulkRemoveTags_def by blast
  have "F (F S) = F S" for S using assms(2) by auto
  from retags_loop [OF f(1) this assms(1)] show ?thesis unfolding f(2) by blast
qed

definition tagged_world :: world where
  "tagged_world = empty_world\<lparr>assets := empty_assets\<lparr>tags := \<lparr>rows = [\<lparr>tg_id = 1, tg_name = ''a'', tg_color = None\<rparr>,
     \<lparr>tg_id = 2, tg_name = ''b'', tg_color = None\<rparr>], seq = 2\<rparr>, domain_tags := [(7, 1)]\<rparr>\<rparr>"

theorem bulk_tags_exact_witness:
  "tags_of (assets (final (BulkAddTags [7, 8] [2]) tagged_world)) 7 = {1, 2} \<and>
   tags_of (assets (final (BulkAddTags [7, 8] [2]) tagged_world)) 9 = {}"
proof -
  have inv: "tags_inv (assets tagged_world)"
    by (simp add: tags_inv_def tagged_world_def wf_tbl_def tag_known_def)
  have set: "tags_of (assets tagged_world) 7 = {1}" "tags_of (assets tagged_world) 9 = {}"
    by (auto simp: tags_of_def tagged_world_def)
  have "fst (BulkAddTags [7, 8] [2] tagged_world) = Inr ()" by code_simp
  then have "result (BulkAddTags [7, 8] [2]) tagged_world = Inr ()" by (simp add: result_def)
  with bulk_tags_exact [OF inv disjI1 [OF conjI [OF refl refl]], of "[7, 8]" "[2]"]
  have "\<forall>d \<in> set [7, 8]. tags_of (assets (final (BulkAddTags [7, 8] [2]) tagged_world)) d =
      tags_of (assets tagged_world) d \<union> set [2]"
    "tags_of (assets (final (BulkAddTags [7, 8] [2]) tagged_world)) 9 = tags_of (assets tagged_world) 9"
    by (blast, force)
  with set show ?thesis by auto
qed

section \<open>Tags are consistent\<close>

lemma tags_inv_insert:
  assumes "tags_inv a" and "tg_name x \<notin> tg_name ` set (rows (tags a))"
  shows "tags_inv (a\<lparr>tags := tbl_insert (\<lambda>i. x\<lparr>tg_id := i\<rparr>) (tags a)\<rparr>)"
proof -
  have "tag_known (a\<lparr>tags := tbl_insert mk (tags a)\<rparr>) g" if "tag_known a g" for mk g
    using that by (auto simp: tag_known_def list_ex_iff rows_insert_iff)
  with assms show ?thesis by (auto simp: tags_inv_def wf_insert distinct_insert)
qed

lemma tags_inv_update:
  assumes "tags_inv a" and "\<And>g. tg_id (f g) = tg_id g" and "\<And>g. tg_name (f g) = n"
    and "\<And>g. g \<in> set (rows (tags a)) \<Longrightarrow> tg_id g \<noteq> i \<Longrightarrow> tg_name g \<noteq> n"
  shows "tags_inv (a\<lparr>tags := tbl_update (\<lambda>g. tg_id g = i) f (tags a)\<rparr>)"
proof -
  let ?t = "tbl_update (\<lambda>g. tg_id g = i) f (tags a)"
  have "distinct (map tg_name (rows ?t))"
    by (rule distinct_tbl_update [where key = tg_id and i = i and n = "\<lambda>_. n"])
      (use assms in \<open>auto simp: tags_inv_def\<close>)
  moreover have "wf_tbl tg_id ?t" using assms(1,2) by (auto simp: tags_inv_def intro: wf_update)
  moreover have "tag_known (a\<lparr>tags := ?t\<rparr>) g" if "tag_known a g" for g
    using that assms(2) unfolding tag_known_def list_ex_iff by (simp add: tbl_update_def) blast
  ultimately show ?thesis using assms(1) by (auto simp: tags_inv_def)
qed

lemma tags_inv_delete:
  assumes "tags_inv a"
  shows "tags_inv (a\<lparr>tags := tbl_delete (\<lambda>g. tg_id g = i) (tags a),
    domain_tags := filter (\<lambda>(d, g). g \<noteq> i) (domain_tags a)\<rparr>)"
proof -
  let ?t = "tbl_delete (\<lambda>g. tg_id g = i) (tags a)"
  have "wf_tbl tg_id ?t" using assms by (simp add: tags_inv_def wf_delete)
  moreover have "distinct (map tg_name (rows ?t))"
    using assms by (simp add: tags_inv_def tbl_delete_def distinct_map_filter)
  ultimately show ?thesis
    using assms by (auto simp: tags_inv_def tag_known_def list_ex_iff tbl_delete_def)
qed

lemma step_tag_statements [eff_intro]:
  "keeps (asset_step tags_inv) (TagStore_Create x)" "keeps (asset_step tags_inv) (TagStore_Update x)"
  "keeps (asset_step tags_inv) (TagStore_Delete i)" "keeps (asset_step tags_inv) (SetDomainTags d gs)"
  "keeps (asset_step tags_inv) (TagStore_GetByID i)" "keeps (asset_step tags_inv) (GetDomainTags d)"
proof -
  show "keeps (asset_step tags_inv) (TagStore_Create x)"
    unfolding TagStore_Create_def
    by (intro step_stmt) (auto simp: Let_def list_ex_iff image_iff eq_commute intro!: tags_inv_insert)
  show "keeps (asset_step tags_inv) (TagStore_Update x)"
    unfolding TagStore_Update_def
    by (intro step_stmt) (auto simp: list_ex_iff intro!: tags_inv_update [where n = "tg_name x"])
  show "keeps (asset_step tags_inv) (TagStore_Delete i)"
    unfolding TagStore_Delete_def by (intro step_exec tags_inv_delete)
  show "keeps (asset_step tags_inv) (SetDomainTags d gs)"
  proof (rule keepsI)
    fix w
    show "asset_step tags_inv w (final (SetDomainTags d gs) w)"
      using SetDomainTags_outcome [of d gs w] retag_same(3)
      by (auto simp: asset_step_def split: sum.splits)
  qed
qed (simp_all add: TagStore_GetByID_def GetDomainTags_def step_query)

text \<open>
  The tables of tags stay consistent under every operation and every failure: names are unique, no
  domain has a tag twice, and every assigned tag exists.
\<close>

lemma tags_inv_kept:
  "keeps (asset_step tags_inv) (Tag_Create n c)" "keeps (asset_step tags_inv) (Tag_Update i n c)"
  "keeps (asset_step tags_inv) (Tag_Delete i)" "keeps (asset_step tags_inv) (SetDomainTags d gs)"
  "keeps (asset_step tags_inv) (BulkAddTags ds gs)" "keeps (asset_step tags_inv) (BulkRemoveTags ds gs)"
  unfolding Tag_Create_def Tag_Update_def Tag_Delete_def BulkAddTags_def BulkRemoveTags_def add_tags_def
    remove_tags_def unless_duplicate_def Let_def
  by (intro eff_intro)+

end
