(* ===== verification/Costs.thy ===== *)
theory Costs
  imports Registrars Expiry
begin

text \<open>
  internal/cost/service.go over store/postgres/cost.go: fee schedules per registrar and top-level domain,
  recorded costs, and the annual cost of a domain computed from them.
\<close>

section \<open>The store\<close>

text \<open>A \<open>DECIMAL(10,2)\<close> column rounds to two places, halves away from zero.\<close>

definition decimal2 :: "rat \<Rightarrow> rat" where
  "decimal2 x = (if x < 0 then - (of_int \<lfloor>- x * 100 + 1/2\<rfloor> / 100) else of_int \<lfloor>x * 100 + 1/2\<rfloor> / 100)"

definition decimal_fits :: "rat \<Rightarrow> bool" where
  "decimal_fits x \<longleftrightarrow> \<bar>decimal2 x\<bar> < 100000000"

definition stored_fees :: "fee_schedule_row \<Rightarrow> fee_schedule_row" where
  "stored_fees f = f\<lparr>fs_registration_fee := decimal2 (fs_registration_fee f),
     fs_renewal_fee := decimal2 (fs_renewal_fee f), fs_transfer_fee := decimal2 (fs_transfer_fee f),
     fs_privacy_fee := decimal2 (fs_privacy_fee f)\<rparr>"

definition fees_fit :: "fee_schedule_row \<Rightarrow> bool" where
  "fees_fit f \<longleftrightarrow> decimal_fits (fs_registration_fee f) \<and> decimal_fits (fs_renewal_fee f) \<and>
     decimal_fits (fs_transfer_fee f) \<and> decimal_fits (fs_privacy_fee f)"

definition CostStore_CreateFeeSchedule :: "fee_schedule_row \<Rightarrow> fee_schedule_row op" where
  "CostStore_CreateFeeSchedule x = asset_stmt (\<lambda>t a.
     if \<not> fees_fit x then (Inl (ErrMsg ''numeric field overflow''), a)
     else if list_ex (\<lambda>f. fs_registrar_id f = fs_registrar_id x \<and> fs_tld f = fs_tld x) (rows (fee_schedules a))
     then (Inl (ErrUnique ''uq_fee_schedule''), a)
     else let mk = (\<lambda>i. (stored_fees x)\<lparr>fs_id := i\<rparr>)
       in (Inr (mk (seq (fee_schedules a) + 1)), a\<lparr>fee_schedules := tbl_insert mk (fee_schedules a)\<rparr>))"

definition CostStore_GetFeeScheduleByID :: "int \<Rightarrow> fee_schedule_row op" where
  "CostStore_GetFeeScheduleByID i = asset_get ErrFeeScheduleNotFound (\<lambda>a. tbl_get fs_id (fee_schedules a) i)"

definition GetFeeSchedule :: "int \<Rightarrow> string \<Rightarrow> fee_schedule_row op" where
  "GetFeeSchedule i tld = asset_get ErrFeeScheduleNotFound (\<lambda>a.
     tbl_find (\<lambda>f. fs_registrar_id f = i \<and> fs_tld f = tld) (fee_schedules a))"

definition CostStore_ListFeeSchedules :: "int option \<Rightarrow> fee_schedule_row list op" where
  "CostStore_ListFeeSchedules r = asset_query (\<lambda>a. case r of
       Some i \<Rightarrow> sort_key fs_tld (tbl_select (\<lambda>f. fs_registrar_id f = i) (fee_schedules a))
     | None \<Rightarrow> sort_key fs_registrar_id (sort_key fs_tld (rows (fee_schedules a))))"

definition CostStore_UpdateFeeSchedule :: "fee_schedule_row \<Rightarrow> unit op" where
  "CostStore_UpdateFeeSchedule x = asset_exec_unless
     (\<lambda>a. tbl_get fs_id (fee_schedules a) (fs_id x) \<noteq> None \<and> \<not> fees_fit x)
     (ErrMsg ''numeric field overflow'')
     (\<lambda>t a. a\<lparr>fee_schedules := tbl_update (\<lambda>f. fs_id f = fs_id x)
        (\<lambda>f. let y = stored_fees x in f\<lparr>fs_registration_fee := fs_registration_fee y,
           fs_renewal_fee := fs_renewal_fee y, fs_transfer_fee := fs_transfer_fee y,
           fs_privacy_fee := fs_privacy_fee y, fs_currency := fs_currency x\<rparr>) (fee_schedules a)\<rparr>)"

definition CostStore_DeleteFeeSchedule :: "int \<Rightarrow> unit op" where
  "CostStore_DeleteFeeSchedule i =
     asset_exec (\<lambda>t a. a\<lparr>fee_schedules := tbl_delete (\<lambda>f. fs_id f = i) (fee_schedules a)\<rparr>)"

definition db_cost_types :: "string list" where
  "db_cost_types = [''registration'', ''renewal'', ''transfer'', ''restore'', ''privacy'', ''other'']"

definition CostStore_CreateCost :: "domain_cost_row \<Rightarrow> domain_cost_row op" where
  "CostStore_CreateCost x = asset_stmt (\<lambda>t a.
     if \<not> decimal_fits (dc_amount x) then (Inl (ErrMsg ''numeric field overflow''), a)
     else if dc_cost_type x \<notin> set db_cost_types then (Inl (ErrCheck ''chk_cost_type''), a)
     else let mk = (\<lambda>i. x\<lparr>dc_id := i, dc_amount := decimal2 (dc_amount x), dc_created_at := t\<rparr>)
       in (Inr (mk (seq (domain_costs a) + 1)), a\<lparr>domain_costs := tbl_insert mk (domain_costs a)\<rparr>))"

definition ListCostsByDomain :: "int \<Rightarrow> domain_cost_row list op" where
  "ListCostsByDomain i = asset_query (\<lambda>a.
     sort_key (\<lambda>c. - dc_created_at c) (tbl_select (\<lambda>c. dc_domain_id c = i) (domain_costs a)))"

section \<open>Totals\<close>

record cost_summary =
  su_group_key :: string
  su_total_cost :: rat
  su_currency :: string
  su_count :: int

text \<open>
  \<open>GROUP BY key, currency ORDER BY total_cost DESC\<close>, over pairs of a key and a priced domain; groups of
  equal total, whose order is not fixed, stay in the order of their first row.
\<close>

definition summarise_costs :: "(string option \<times> domain_row) list \<Rightarrow> cost_summary list" where
  "summarise_costs ds =
     (let groups = remdups (map (\<lambda>(k, d). (k, d_currency d)) ds);
          row = (\<lambda>(k, c). let mine = filter (\<lambda>(k', d). k' = k \<and> d_currency d = c) ds in
            \<lparr>su_group_key = (case k of None \<Rightarrow> ''unknown'' | Some s \<Rightarrow> s),
             su_total_cost = sum_list (map (\<lambda>(k', d). case d_annual_cost d of None \<Rightarrow> 0 | Some x \<Rightarrow> x) mine),
             su_currency = (case c of None \<Rightarrow> ''USD'' | Some s \<Rightarrow> s), su_count = int (length mine)\<rparr>)
      in sort_key (\<lambda>s. - su_total_cost s) (map row groups))"

definition priced_domain :: "domain_row \<Rightarrow> bool" where
  "priced_domain d \<longleftrightarrow> d_deleted_at d = None \<and> d_annual_cost d \<noteq> None"

definition registrar_names :: "assets \<Rightarrow> domain_row \<Rightarrow> (string option \<times> domain_row) list" where
  "registrar_names a d = concat (map (\<lambda>acc.
     map (\<lambda>r. (Some (rg_name r), d)) (filter (\<lambda>r. rg_id r = ra_registrar_id acc) (rows (registrars a))))
     (filter (\<lambda>acc. d_registrar_account_id d = Some (ra_id acc)) (rows (registrar_accounts a))))"

definition GetCostSummaryByRegistrar :: "cost_summary list op" where
  "GetCostSummaryByRegistrar = query (\<lambda>w.
     summarise_costs (concat (map (registrar_names (assets w)) (filter priced_domain (rows (domains w))))))"

definition GetCostSummaryByTLD :: "cost_summary list op" where
  "GetCostSummaryByTLD = query (\<lambda>w.
     summarise_costs (map (\<lambda>d. (d_tld d, d)) (filter priced_domain (rows (domains w)))))"

section \<open>The service\<close>

definition ValidCostTypes :: "string list" where
  "ValidCostTypes = [''registration'', ''renewal'', ''transfer'', ''privacy'', ''other'']"

definition ValidCurrencies :: "string list" where
  "ValidCurrencies = [''USD'', ''EUR'', ''GBP'', ''CNY'', ''TWD'', ''JPY'', ''AUD'', ''CAD'', ''HKD'', ''SGD'',
     ''KRW'', ''INR'']"

definition normalizeTLD :: "string \<Rightarrow> string" where
  "normalizeTLD tld0 = (let tld = ToLower (TrimSpace tld0) in
     if tld \<noteq> [] \<and> \<not> HasPrefix tld ''.'' then ''.'' @ tld else tld)"

definition validateCurrency :: "string \<Rightarrow> go_err + unit" where
  "validateCurrency code = (if ToUpper code \<notin> set ValidCurrencies then Inl ErrInvalidCurrency else Inr ())"

text \<open>The test for ``duplicate key'' holds for every unique violation.\<close>

definition isDuplicateTLD :: "go_err \<Rightarrow> bool" where
  "isDuplicateTLD e \<longleftrightarrow> (case e of ErrUnique k \<Rightarrow> True | _ \<Rightarrow> False)"

definition CreateFeeSchedule :: "fee_schedule_row \<Rightarrow> fee_schedule_row op" where
  "CreateFeeSchedule inp =
     seq_eff (answer (validateCurrency (fs_currency inp)))
     (let tld = normalizeTLD (fs_tld inp) in
      if tld = [] then throw (ErrMsg ''tld is required'')
      else bnd (attempt (CostStore_CreateFeeSchedule (inp\<lparr>fs_tld := tld\<rparr>))) (\<lambda>r. case r of
             Inl e \<Rightarrow> throw (if isDuplicateTLD e then ErrMsg ''fee schedule already exists'' else e)
           | Inr f \<Rightarrow> ret f))"

definition UpdateFeeSchedule :: "int \<Rightarrow> fee_schedule_row \<Rightarrow> fee_schedule_row op" where
  "UpdateFeeSchedule i inp =
     bnd (CostStore_GetFeeScheduleByID i) (\<lambda>f.
     seq_eff (answer (validateCurrency (fs_currency inp)))
     (let f' = f\<lparr>fs_registration_fee := fs_registration_fee inp, fs_renewal_fee := fs_renewal_fee inp,
          fs_transfer_fee := fs_transfer_fee inp, fs_privacy_fee := fs_privacy_fee inp,
          fs_currency := fs_currency inp\<rparr>
      in seq_eff (CostStore_UpdateFeeSchedule f') (ret f')))"

definition DeleteFeeSchedule :: "int \<Rightarrow> unit op" where
  "DeleteFeeSchedule i = bnd (CostStore_GetFeeScheduleByID i) (\<lambda>_. CostStore_DeleteFeeSchedule i)"

definition CreateCost :: "domain_cost_row \<Rightarrow> domain_cost_row op" where
  "CreateCost inp =
     (if dc_cost_type inp \<notin> set ValidCostTypes then throw ErrInvalidCostType
      else seq_eff (answer (validateCurrency (dc_currency inp))) (CostStore_CreateCost inp))"

text \<open>Whatever error the look-up of the account ends with, the price stays.\<close>

definition TryApplyFeeSchedule :: "int \<Rightarrow> unit op" where
  "TryApplyFeeSchedule i =
     bnd (DomainStore_GetByID i) (\<lambda>d.
       if d_fee_fixed d then ret ()
       else (case d_registrar_account_id d of None \<Rightarrow> ret () | Some acc \<Rightarrow>
         (case d_tld d of None \<Rightarrow> ret () | Some tld \<Rightarrow>
           bnd (attempt (GetAccountByID acc)) (\<lambda>r. case r of
             Inl e \<Rightarrow> ret ()
           | Inr account \<Rightarrow>
               bnd (attempt (GetFeeSchedule (ra_registrar_id account) tld)) (\<lambda>r. case r of
                 Inl e \<Rightarrow> if e = ErrFeeScheduleNotFound then ret () else throw e
               | Inr f \<Rightarrow> UpdateAnnualCost i (fs_renewal_fee f) (fs_currency f))))))"

record recalculation =
  rl_updated :: int
  rl_skipped :: int
  rl_failed :: int

definition recalculate_one :: "domain_row \<Rightarrow> recalculation \<Rightarrow> recalculation op" where
  "recalculate_one d n =
     (if d_fee_fixed d then ret (n\<lparr>rl_skipped := rl_skipped n + 1\<rparr>)
      else bnd (attempt (TryApplyFeeSchedule (d_id d))) (\<lambda>r. case r of
             Inl e \<Rightarrow> ret (n\<lparr>rl_failed := rl_failed n + 1\<rparr>)
           | Inr u \<Rightarrow> ret (n\<lparr>rl_updated := rl_updated n + 1\<rparr>)))"

fun recalculate :: "domain_row list \<Rightarrow> recalculation \<Rightarrow> recalculation op" where
  "recalculate [] n = ret n"
| "recalculate (d # ds) n = bnd (recalculate_one d n) (recalculate ds)"

definition RecalculateAllCosts :: "recalculation op" where
  "RecalculateAllCosts = bnd (attempt (ListWithFilter (no_filter 10000))) (\<lambda>r.
     let zero = \<lparr>rl_updated = 0, rl_skipped = 0, rl_failed = 0\<rparr>
     in case r of Inl e \<Rightarrow> ret zero | Inr ds \<Rightarrow> recalculate ds zero)"

definition GetCostSummary :: "string \<Rightarrow> cost_summary list op" where
  "GetCostSummary groupBy =
     (if groupBy = ''registrar'' then GetCostSummaryByRegistrar
      else if groupBy = ''tld'' then GetCostSummaryByTLD
      else throw (ErrMsg ''invalid group_by: must be registrar or tld''))"

section \<open>The price of a domain\<close>

text \<open>What a domain should cost: the renewal fee of its registrar for its top-level domain.\<close>

definition due_fee :: "assets \<Rightarrow> domain_row \<Rightarrow> (rat \<times> string) option" where
  "due_fee a d = (if d_fee_fixed d then None else
     (case (d_registrar_account_id d, d_tld d) of
        (Some i, Some tld) \<Rightarrow>
          (case tbl_find (live_account i) (registrar_accounts a) of None \<Rightarrow> None
           | Some acc \<Rightarrow>
             (case tbl_find (\<lambda>f. fs_registrar_id f = ra_registrar_id acc \<and> fs_tld f = tld) (fee_schedules a) of
                None \<Rightarrow> None | Some f \<Rightarrow> Some (fs_renewal_fee f, fs_currency f)))
      | _ \<Rightarrow> None))"

definition charge :: "int \<Rightarrow> rat \<times> string \<Rightarrow> world \<Rightarrow> world" where
  "charge i fee w = w\<lparr>domains := tbl_update (\<lambda>r. live_domain i r \<and> \<not> d_fee_fixed r)
     (\<lambda>r. r\<lparr>d_annual_cost := Some (fst fee), d_currency := Some (snd fee), d_updated_at := now w\<rparr>) (domains w)\<rparr>"

text \<open>\<open>priced a\<close>: a row is unchanged, or is not fixed and now carries the fee that is due.\<close>

definition priced :: "assets \<Rightarrow> domain_row \<Rightarrow> domain_row \<Rightarrow> bool" where
  "priced a d d' \<longleftrightarrow> d' = d \<or> (\<exists>c cur t. due_fee a d = Some (c, cur) \<and>
     d' = d\<lparr>d_annual_cost := Some c, d_currency := Some cur, d_updated_at := t\<rparr>)"

lemma due_fee_cong:
  "d_fee_fixed d' = d_fee_fixed d \<Longrightarrow> d_registrar_account_id d' = d_registrar_account_id d \<Longrightarrow>
   d_tld d' = d_tld d \<Longrightarrow> due_fee a d' = due_fee a d"
  by (simp add: due_fee_def)

lemma priced_trans: "priced a d d' \<Longrightarrow> priced a d' d'' \<Longrightarrow> priced a d d''"
proof -
  assume one: "priced a d d'" and two: "priced a d' d''"
  have "due_fee a d' = due_fee a d" using one by (auto simp: priced_def intro: due_fee_cong)
  with one two show "priced a d d''" unfolding priced_def by fastforce
qed

text \<open>The look-ups from a known state, when their error is inspected by the code that follows.\<close>

lemma snap_attempt_get:
  "hoare (snap w0) (attempt (asset_get e g)) (\<lambda>r w. (\<forall>x. r = Inr x \<longrightarrow> g (assets w0) = Some x) \<and> snap w0 w) E"
  by (rule hoare_attempt, rule hoare_post [OF snap_assets(2)]) auto

definition charged :: "int \<Rightarrow> world \<Rightarrow> world \<Rightarrow> bool" where
  "charged i w w' \<longleftrightarrow> snap w w' \<or> (\<exists>d fee. tbl_find (live_domain i) (domains w) = Some d \<and>
     due_fee (assets w) d = Some fee \<and> snap (charge i fee w) w')"

lemma charged_snap: "snap w w' \<Longrightarrow> charged i w w'"
  by (simp add: charged_def)

lemma TryApply_outcome: "hoare (snap w) (TryApplyFeeSchedule i) (\<lambda>_. charged i w) (charged i w)"
  unfolding TryApplyFeeSchedule_def DomainStore_GetByID_def
proof (rule hoare_step [OF hoare_post [OF snap_query_one]])
  fix d assume d: "tbl_find (live_domain i) (domains w) = Some d"
  have stop: "hoare (snap w) (ret ()) (\<lambda>_. charged i w) (charged i w)"
    by (simp add: hoare_def charged_snap)
  have price: "hoare (snap w) (bnd (attempt (GetAccountByID acc)) (\<lambda>r. case r of
        Inl e \<Rightarrow> ret ()
      | Inr account \<Rightarrow> bnd (attempt (GetFeeSchedule (ra_registrar_id account) tld)) (\<lambda>r. case r of
          Inl e \<Rightarrow> if e = ErrFeeScheduleNotFound then ret () else throw e
        | Inr f \<Rightarrow> UpdateAnnualCost i (fs_renewal_fee f) (fs_currency f))))
      (\<lambda>_. charged i w) (charged i w)"
    if nf: "\<not> d_fee_fixed d" and acc: "d_registrar_account_id d = Some acc" and tld: "d_tld d = Some tld" for acc tld
    unfolding GetAccountByID_def GetFeeSchedule_def
  proof (rule hoare_step [OF snap_attempt_get])
    fix r :: "go_err + registrar_account_row" assume r: "\<forall>x. r = Inr x \<longrightarrow> tbl_find (live_account acc) (registrar_accounts (assets w)) = Some x"
    show "hoare (snap w) (case r of Inl e \<Rightarrow> ret ()
      | Inr account \<Rightarrow> bnd (attempt (asset_get ErrFeeScheduleNotFound (\<lambda>a. tbl_find
            (\<lambda>f. fs_registrar_id f = ra_registrar_id account \<and> fs_tld f = tld) (fee_schedules a)))) (\<lambda>r. case r of
          Inl e \<Rightarrow> if e = ErrFeeScheduleNotFound then ret () else throw e
        | Inr f \<Rightarrow> UpdateAnnualCost i (fs_renewal_fee f) (fs_currency f)))
      (\<lambda>_. charged i w) (charged i w)"
    proof (cases r)
      case (Inr account)
      have "hoare (snap w) (bnd (attempt (asset_get ErrFeeScheduleNotFound (\<lambda>a. tbl_find
            (\<lambda>f. fs_registrar_id f = ra_registrar_id account \<and> fs_tld f = tld) (fee_schedules a)))) (\<lambda>r. case r of
          Inl e \<Rightarrow> if e = ErrFeeScheduleNotFound then ret () else throw e
        | Inr f \<Rightarrow> UpdateAnnualCost i (fs_renewal_fee f) (fs_currency f)))
        (\<lambda>_. charged i w) (charged i w)"
      proof (rule hoare_step [OF snap_attempt_get])
        fix r' :: "go_err + fee_schedule_row" assume r': "\<forall>f. r' = Inr f \<longrightarrow> tbl_find (\<lambda>f. fs_registrar_id f = ra_registrar_id account \<and>
          fs_tld f = tld) (fee_schedules (assets w)) = Some f"
        show "hoare (snap w) (case r' of Inl e \<Rightarrow> if e = ErrFeeScheduleNotFound then ret () else throw e
            | Inr f \<Rightarrow> UpdateAnnualCost i (fs_renewal_fee f) (fs_currency f)) (\<lambda>_. charged i w) (charged i w)"
        proof (cases r')
          case (Inl e)
          then show ?thesis by (simp add: hoare_def charged_snap)
        next
          case f: (Inr f)
          have due: "due_fee (assets w) d = Some (fs_renewal_fee f, fs_currency f)"
            using nf acc tld r r' Inr f by (simp add: due_fee_def)
          have "hoare (snap w) (exec (charge i (fs_renewal_fee f, fs_currency f))) (\<lambda>_. charged i w) (charged i w)"
            by (rule hoare_post [OF snap_exec])
              (use d due in \<open>auto simp: charged_def charge_def\<close>)
          then show ?thesis unfolding f UpdateAnnualCost_def charge_def [abs_def] by simp
        qed
      qed
      with Inr show ?thesis by simp
    qed (simp add: stop)
  qed
  show "hoare (snap w) (if d_fee_fixed d then ret () else (case d_registrar_account_id d of None \<Rightarrow> ret ()
      | Some acc \<Rightarrow> (case d_tld d of None \<Rightarrow> ret () | Some tld \<Rightarrow>
        bnd (attempt (GetAccountByID acc)) (\<lambda>r. case r of
          Inl e \<Rightarrow> ret ()
        | Inr account \<Rightarrow> bnd (attempt (GetFeeSchedule (ra_registrar_id account) tld)) (\<lambda>r. case r of
            Inl e \<Rightarrow> if e = ErrFeeScheduleNotFound then ret () else throw e
          | Inr f \<Rightarrow> UpdateAnnualCost i (fs_renewal_fee f) (fs_currency f))))))
      (\<lambda>_. charged i w) (charged i w)"
    using stop price by (auto split: option.split)
qed (auto intro: charged_snap)

definition repriced :: "world \<Rightarrow> world \<Rightarrow> bool" where
  "repriced w w' \<longleftrightarrow> assets w' = assets w \<and> (wf_tbl d_id (domains w) \<longrightarrow> wf_tbl d_id (domains w') \<and>
     list_all2 (priced (assets w)) (rows (domains w)) (rows (domains w')))"

lemma priced_refl: "list_all2 (priced a) ds ds"
  by (rule list_all2_refl) (simp add: priced_def)

lemma all_priced_trans:
  "list_all2 (priced a) xs ys \<Longrightarrow> list_all2 (priced a) ys zs \<Longrightarrow> list_all2 (priced a) xs zs"
  using list_all2_trans [of "priced a" "priced a" "priced a" xs ys zs] priced_trans by blast

interpretation costs: store_preorder repriced
  by unfold_locales (auto simp: repriced_def priced_refl intro: all_priced_trans)

lemma charge_repriced:
  assumes "tbl_find (live_domain i) (domains w) = Some d" and "due_fee (assets w) d = Some fee"
  shows "repriced w (charge i fee w)"
proof -
  let ?p = "\<lambda>r. live_domain i r \<and> \<not> d_fee_fixed r"
  have d: "d \<in> set (rows (domains w))" "d_id d = i"
    using assms(1) by (auto simp: tbl_find_def live_domain_def dest!: find_SomeD)
  have "due_fee (assets w) r = Some fee"
    if "wf_tbl d_id (domains w)" "r \<in> set (rows (domains w))" "?p r" for r
  proof -
    have "r = d" using that d by (auto simp: wf_tbl_def distinct_map live_domain_def dest: inj_onD)
    with assms(2) show ?thesis by simp
  qed
  then have "priced (assets w) r (if ?p r then r\<lparr>d_annual_cost := Some (fst fee), d_currency := Some (snd fee),
      d_updated_at := now w\<rparr> else r)" if "wf_tbl d_id (domains w)" "r \<in> set (rows (domains w))" for r
    using that by (cases fee) (auto simp: priced_def)
  then have "list_all2 (priced (assets w)) (rows (domains w)) (rows (domains (charge i fee w)))"
    if "wf_tbl d_id (domains w)"
    using that by (simp add: charge_def tbl_update_def list_all2_map2 list_all2_same)
  then show ?thesis by (auto simp: repriced_def charge_def intro!: wf_update)
qed

lemma costs_TryApply [eff_intro]: "keeps repriced (TryApplyFeeSchedule i)"
proof (rule keepsI)
  fix w
  have "charged i w (final (TryApplyFeeSchedule i) w)"
    using snap_start [OF TryApply_outcome [of w i]] by (simp split: sum.splits)
  then show "repriced w (final (TryApplyFeeSchedule i) w)"
    unfolding charged_def
  proof
    assume "snap w (final (TryApplyFeeSchedule i) w)"
    then show ?thesis using costs.R_faults read_onlyD by metis
  next
    assume "\<exists>d fee. tbl_find (live_domain i) (domains w) = Some d \<and> due_fee (assets w) d = Some fee \<and>
      snap (charge i fee w) (final (TryApplyFeeSchedule i) w)"
    then obtain d fee where "tbl_find (live_domain i) (domains w) = Some d" "due_fee (assets w) d = Some fee"
      and s: "snap (charge i fee w) (final (TryApplyFeeSchedule i) w)" by blast
    then have "repriced w (charge i fee w)" by (intro charge_repriced)
    with read_onlyD [OF s] show ?thesis using costs.R_faults costs.R_trans by metis
  qed
qed

lemma costs_recalculate [eff_intro]: "keeps repriced (recalculate ds n)"
proof (induction ds arbitrary: n)
  case (Cons d ds)
  show ?case unfolding recalculate.simps recalculate_one_def by (intro eff_intro Cons.IH)
qed (simp add: costs.keeps_ret)

lemma costs_Recalculate: "keeps repriced RecalculateAllCosts"
  unfolding RecalculateAllCosts_def ListWithFilter_def Let_def by (intro eff_intro)

definition counted :: "recalculation \<Rightarrow> int" where
  "counted n = rl_updated n + rl_skipped n + rl_failed n"

lemma recalculate_counts: "\<exists>n'. result (recalculate ds n) w = Inr n' \<and> counted n' = counted n + int (length ds)"
proof (induction ds arbitrary: n w)
  case (Cons d ds)
  have "\<exists>n1. result (recalculate_one d n) w = Inr n1 \<and> counted n1 = counted n + 1"
    by (auto simp: recalculate_one_def eff_run counted_def split: sum.split)
  then obtain n1 where "result (recalculate_one d n) w = Inr n1" "counted n1 = counted n + 1" by blast
  with Cons.IH [of n1 "final (recalculate_one d n) w"] show ?case by (auto simp: eff_run)
qed simp

text \<open>
  C31: A recalculation of all costs changes only the price columns of domains whose price is not fixed,
  and there only to the renewal fee that the registrar of the domain's live account charges for its
  top-level domain, whatever fails on the way; and one call looks at 200 domains at most, although the
  code asks for 10000.
\<close>

theorem RecalculateAllCosts_exact:
  assumes "wf_tbl d_id (domains w)"
  shows "list_all2 (priced (assets w)) (rows (domains w)) (rows (domains (final RecalculateAllCosts w))) \<and>
    (\<exists>n. result RecalculateAllCosts w = Inr n \<and> rl_updated n + rl_skipped n + rl_failed n \<le> 200)"
proof
  show "list_all2 (priced (assets w)) (rows (domains w)) (rows (domains (final RecalculateAllCosts w)))"
    using keepsD [OF costs_Recalculate, of w] assms by (simp add: repriced_def)
  show "\<exists>n. result RecalculateAllCosts w = Inr n \<and> rl_updated n + rl_skipped n + rl_failed n \<le> 200"
  proof (cases "result (ListWithFilter (no_filter 10000)) w")
    case (Inl e)
    then show ?thesis by (simp add: RecalculateAllCosts_def eff_run)
  next
    case (Inr ds)
    then have "length ds \<le> 200"
      by (auto simp: ListWithFilter_def clamp_limit_def no_filter_def elim!: query_InrE)
    with Inr recalculate_counts [of ds "\<lparr>rl_updated = 0, rl_skipped = 0, rl_failed = 0\<rparr>"
        "final (ListWithFilter (no_filter 10000)) w"]
    show ?thesis by (auto simp: RecalculateAllCosts_def eff_run counted_def)
  qed
qed

section \<open>An example\<close>

definition cost_domain :: "bool \<Rightarrow> int \<Rightarrow> string \<Rightarrow> domain_row" where
  "cost_domain fixed i fqdn = example_domain\<lparr>d_id := i, d_fqdn := fqdn, d_tld := Some ''.com'',
     d_registrar_account_id := Some 1, d_fee_fixed := fixed, d_annual_cost := Some 5\<rparr>"

definition cost_world :: world where
  "cost_world = empty_world\<lparr>
     domains := \<lparr>rows = [cost_domain False 1 ''a.com'', cost_domain True 2 ''b.com''], seq = 2\<rparr>,
     assets := empty_assets\<lparr>
       registrar_accounts := \<lparr>rows = [\<lparr>ra_id = 1, ra_registrar_id = 3, ra_account_name = ''m'',
         ra_owner_user_id = None, ra_credentials = ''{}'', ra_is_default = True, ra_notes = None,
         ra_deleted_at = None\<rparr>], seq = 1\<rparr>,
       fee_schedules := \<lparr>rows = [\<lparr>fs_id = 1, fs_registrar_id = 3, fs_tld = ''.com'', fs_registration_fee = 9,
         fs_renewal_fee = 12, fs_transfer_fee = 9, fs_privacy_fee = 0, fs_currency = ''USD''\<rparr>], seq = 1\<rparr>\<rparr>\<rparr>"

definition prices :: "world \<Rightarrow> rat option list" where
  "prices w = map d_annual_cost (rows (domains w))"

theorem RecalculateAllCosts_exact_witness:
  "prices (final RecalculateAllCosts cost_world) = [Some 12, Some 5] \<and>
   list_all2 (priced (assets cost_world)) (rows (domains cost_world)) (rows (domains (final RecalculateAllCosts cost_world)))"
proof
  show "prices (final RecalculateAllCosts cost_world) = [Some 12, Some 5]" by code_simp
  have "wf_tbl d_id (domains cost_world)" by (simp add: cost_world_def cost_domain_def wf_tbl_def)
  from RecalculateAllCosts_exact [OF this]
  show "list_all2 (priced (assets cost_world)) (rows (domains cost_world))
      (rows (domains (final RecalculateAllCosts cost_world)))" by blast
qed

end
