(* ===== verification/Certificates.thy ===== *)
theory Certificates
  imports Asset_Store Expiry
begin

text \<open>
  internal/ssl/service.go and task.go over store/postgres/ssl\_certificate.go: certificates of the domains
  and the checks that read them from the servers. The TLS connection is a parameter: from the host to an
  error text or issuer, serial number and dates of the leaf certificate.
\<close>

section \<open>The store\<close>

definition live_certificate :: "int \<Rightarrow> certificate_row \<Rightarrow> bool" where
  "live_certificate i r \<longleftrightarrow> ce_id r = i \<and> ce_deleted_at r = None"

definition CertificateStore_Create :: "certificate_row \<Rightarrow> certificate_row op" where
  "CertificateStore_Create x = asset_stmt (\<lambda>t a.
     if ce_status x \<notin> {''active'', ''expiring'', ''expired'', ''revoked'', ''unknown''}
     then (Inl (ErrCheck ''chk_ssl_status''), a)
     else let mk = (\<lambda>i. x\<lparr>ce_id := i, ce_deleted_at := None\<rparr>)
       in (Inr (mk (seq (certificates a) + 1)), a\<lparr>certificates := tbl_insert mk (certificates a)\<rparr>))"

definition CertificateStore_GetByID :: "int \<Rightarrow> certificate_row op" where
  "CertificateStore_GetByID i = asset_get ErrSSLCertNotFound (\<lambda>a. tbl_find (live_certificate i) (certificates a))"

definition CertificateStore_ListByDomain :: "int \<Rightarrow> certificate_row list op" where
  "CertificateStore_ListByDomain i = asset_query (\<lambda>a. sort_key (\<lambda>r. - ce_expires_at r)
     (tbl_select (\<lambda>r. ce_domain_id r = i \<and> ce_deleted_at r = None) (certificates a)))"

definition CertificateStore_Upsert :: "certificate_row \<Rightarrow> certificate_row op" where
  "CertificateStore_Upsert x = on_conflict ''ssl_certificates'' [''domain_id'', ''serial_number'']
     (\<lambda>t a.
       let same = (\<lambda>r. ce_domain_id r = ce_domain_id x \<and> ce_deleted_at r = None \<and>
             ce_serial_number x \<noteq> None \<and> ce_serial_number r = ce_serial_number x);
           upd = (\<lambda>r. r\<lparr>ce_issuer := ce_issuer x, ce_expires_at := ce_expires_at x, ce_status := ce_status x,
             ce_last_check_at := ce_last_check_at x\<rparr>);
           mk = (\<lambda>i. x\<lparr>ce_id := i, ce_deleted_at := None\<rparr>)
       in case tbl_find same (certificates a) of
            Some r \<Rightarrow> (Inr (upd r), a\<lparr>certificates := tbl_update same upd (certificates a)\<rparr>)
          | None \<Rightarrow> (Inr (mk (seq (certificates a) + 1)),
              a\<lparr>certificates := tbl_insert mk (certificates a)\<rparr>))"

definition CertificateStore_UpdateStatus :: "int \<Rightarrow> string \<Rightarrow> int \<Rightarrow> unit op" where
  "CertificateStore_UpdateStatus i status lastCheckAt = asset_exec_unless
     (\<lambda>a. tbl_find (live_certificate i) (certificates a) \<noteq> None \<and>
        status \<notin> {''active'', ''expiring'', ''expired'', ''revoked'', ''unknown''}) (ErrCheck ''chk_ssl_status'')
     (\<lambda>t a. a\<lparr>certificates := tbl_update (live_certificate i)
        (\<lambda>r. r\<lparr>ce_status := status, ce_last_check_at := Some lastCheckAt\<rparr>) (certificates a)\<rparr>)"

definition CertificateStore_ListExpiring :: "int \<Rightarrow> certificate_row list op" where
  "CertificateStore_ListExpiring days = query (\<lambda>w. sort_key ce_expires_at (tbl_select
     (\<lambda>r. ce_deleted_at r = None \<and> ce_expires_at r \<le> now w + days * 86400 \<and> ce_status r \<noteq> ''revoked'')
     (certificates (assets w))))"

definition CertificateStore_SoftDelete :: "int \<Rightarrow> unit op" where
  "CertificateStore_SoftDelete i = asset_exec (\<lambda>t a. a\<lparr>certificates := tbl_update (live_certificate i)
     (\<lambda>r. r\<lparr>ce_deleted_at := Some t\<rparr>) (certificates a)\<rparr>)"

section \<open>The service\<close>

definition ExpiryThreshold30d :: int where
  "ExpiryThreshold30d = 30 * 24 * 3600"

definition computeSSLStatusAt :: "int \<Rightarrow> int \<Rightarrow> string" where
  "computeSSLStatusAt expiresAt t =
     (if \<not> t < expiresAt then ''expired''
      else if expiresAt - t \<le> ExpiryThreshold30d then ''expiring''
      else ''active'')"

definition Certificate_Create :: "certificate_row \<Rightarrow> certificate_row op" where
  "Certificate_Create inp = bnd (gets now) (\<lambda>t. CertificateStore_Create
     (inp\<lparr>ce_status := computeSSLStatusAt (ce_expires_at inp) t, ce_last_check_at := Some t\<rparr>))"

definition Certificate_ListExpiring :: "int \<Rightarrow> certificate_row list op" where
  "Certificate_ListExpiring days0 = (let days = (if days0 \<le> 0 then 30 else days0) in
     CertificateStore_ListExpiring days)"

definition Certificate_Delete :: "int \<Rightarrow> unit op" where
  "Certificate_Delete i = bnd (CertificateStore_GetByID i) (\<lambda>_. CertificateStore_SoftDelete i)"

record cert_info =
  nf_issuer :: string
  nf_serial :: string
  nf_issued_at :: int
  nf_expires_at :: int

type_synonym tls_dial = "string \<Rightarrow> string + cert_info"

definition trim_dots :: "string \<Rightarrow> string" where
  "trim_dots s = rev (dropWhile (\<lambda>c. c = CHR ''.'') (rev s))"

definition CheckExpiry :: "tls_dial \<Rightarrow> int \<Rightarrow> string \<Rightarrow> certificate_row op" where
  "CheckExpiry dial domainID fqdn = (case dial (trim_dots fqdn) of
       Inl e \<Rightarrow> throw ErrCheckFailed
     | Inr info \<Rightarrow> bnd (gets now) (\<lambda>t. CertificateStore_Upsert
         \<lparr>ce_id = 0, ce_domain_id = domainID, ce_issuer = Some (nf_issuer info), ce_cert_type = Some ''dv'',
          ce_serial_number = Some (nf_serial info), ce_issued_at = Some (nf_issued_at info),
          ce_expires_at = nf_expires_at info, ce_auto_renew = False,
          ce_status = computeSSLStatusAt (nf_expires_at info) t, ce_last_check_at = Some t,
          ce_notes = None, ce_deleted_at = None\<rparr>))"

definition check_one :: "tls_dial \<Rightarrow> domain_row \<Rightarrow> bool list op" where
  "check_one dial d = bnd (attempt (CheckExpiry dial (d_id d) (d_fqdn d))) (\<lambda>r.
     ret [case r of Inl e \<Rightarrow> False | Inr c \<Rightarrow> True])"

text \<open>How many checks succeeded and how many failed.\<close>

definition CheckAllActive :: "tls_dial \<Rightarrow> (int \<times> int) op" where
  "CheckAllActive dial =
     bnd (attempt (ListWithFilter ((no_filter 10000)\<lparr>lf_lifecycle_state := Some ''active''\<rparr>))) (\<lambda>r. case r of
       Inl e \<Rightarrow> ret (0, 0)
     | Inr ds \<Rightarrow> bnd (collect ds (check_one dial)) (\<lambda>bs.
         ret (int (length (filter (\<lambda>b. b) bs)), int (length (filter (\<lambda>b. \<not> b) bs)))))"

definition HandleCheckExpiry :: "tls_dial \<Rightarrow> int \<Rightarrow> string \<Rightarrow> unit op" where
  "HandleCheckExpiry dial domainID fqdn =
     (if domainID = 0 \<or> fqdn = [] then throw (ErrMsg ''invalid payload: domain_id and fqdn are required'')
      else ignore (CheckExpiry dial domainID fqdn))"

definition HandleCheckAllActive :: "tls_dial \<Rightarrow> unit op" where
  "HandleCheckAllActive dial = bnd (CheckAllActive dial) (\<lambda>_. ret ())"

section \<open>The status of a certificate\<close>

text \<open>
  A certificate is expired from the second it expires, expiring in the 30 days before, active
  earlier; and with time the status only moves in that direction.
\<close>

theorem ssl_status_bands:
  "(computeSSLStatusAt e t = ''expired'' \<longleftrightarrow> e \<le> t) \<and>
   (computeSSLStatusAt e t = ''expiring'' \<longleftrightarrow> t < e \<and> e \<le> t + 2592000) \<and>
   (computeSSLStatusAt e t = ''active'' \<longleftrightarrow> t + 2592000 < e) \<and>
   map (computeSSLStatusAt e) [e - 2592001, e - 2592000, e - 1, e] = [''active'', ''expiring'', ''expiring'', ''expired'']"
  by (auto simp: computeSSLStatusAt_def ExpiryThreshold30d_def)

section \<open>Checks never store anything\<close>

text \<open>The upsert names columns over which no migration creates a unique index.\<close>

lemma Upsert_never:
  "\<exists>e. result (CertificateStore_Upsert x) w = Inl e" "keeps read_only (CertificateStore_Upsert x)"
proof -
  have key: "(''ssl_certificates'', [''domain_id'', ''serial_number'']) \<notin> set unique_keys"
    by (simp add: unique_keys_def)
  show "\<exists>e. result (CertificateStore_Upsert x) w = Inl e"
    unfolding CertificateStore_Upsert_def on_conflict_def if_not_P [OF key] asset_stmt_def
    by (cases "faults w") (simp_all add: result_def stmt_def)
  show "keeps read_only (CertificateStore_Upsert x)"
    unfolding CertificateStore_Upsert_def on_conflict_def if_not_P [OF key] asset_stmt_def
    by (intro eff_intro) (simp add: keeps_def final_def ro.R_refl)
qed

lemma CheckExpiry_never:
  "\<exists>e. result (CheckExpiry dial i fqdn) w = Inl e" "keeps read_only (CheckExpiry dial i fqdn)"
  using Upsert_never unfolding CheckExpiry_def
  by (auto simp: eff_run split: sum.split intro!: eff_intro)

lemma check_one_False: "result (check_one dial d) w = Inr [False]"
  using CheckExpiry_never(1) [of dial "d_id d" "d_fqdn d" w] by (auto simp: check_one_def eff_run)

lemma collect_checks: "result (collect ds (check_one dial)) w = Inr (replicate (length ds) False)"
  by (induction ds arbitrary: w) (simp_all add: eff_run check_one_False)

text \<open>
  C111: No check of a certificate ever succeeds or stores anything, whatever the server presents and
  whatever the database holds: the upsert has \<open>ON CONFLICT\<close> on columns without a unique index, which
  PostgreSQL rejects, so a batch counts every domain as failed.
\<close>

theorem certificate_checks_never_store:
  "(\<exists>e. result (CheckExpiry dial i fqdn) w = Inl e) \<and>
   (case result (CheckAllActive dial) w of Inl e \<Rightarrow> True | Inr (checked, failed) \<Rightarrow> checked = 0) \<and>
   assets (final (HandleCheckAllActive dial) w) = assets w"
proof (intro conjI)
  have "keeps read_only (CheckAllActive dial)"
    unfolding CheckAllActive_def ListWithFilter_def check_one_def
    by (intro eff_intro CheckExpiry_never(2))
  then have "keeps read_only (HandleCheckAllActive dial)"
    unfolding HandleCheckAllActive_def by (intro eff_intro)
  then show "assets (final (HandleCheckAllActive dial) w) = assets w"
    by (auto simp: keeps_def dest: read_only_fields(1))
  show "case result (CheckAllActive dial) w of Inl e \<Rightarrow> True | Inr (checked, failed) \<Rightarrow> checked = 0"
    by (simp add: CheckAllActive_def eff_run collect_checks split: sum.split)
qed (rule CheckExpiry_never(1))

end
