(* ===== verification/Templates.thy ===== *)
theory Templates
  imports Asset_Store Release_Service
begin

text \<open>
  internal/template/service.go over store/postgres/template.go: templates and their versions. The foreign
  keys of templates and versions are enforced here. A map of default variables is the list of its
  entries, name and JSON text of the value; the hash is a parameter. The clock of the model counts seconds, so the
  milliseconds that go into a label are a parameter too.
\<close>

section \<open>JSON objects\<close>

text \<open>
  \<open>json.Marshal\<close> of a map: keys in ascending order, quoted with the escapes of encoding/json, on
  ASCII. Values that came out of a JSON decoder always marshal.
\<close>

definition hex_of :: "nat \<Rightarrow> char" where
  "hex_of n = (if n < 10 then char_of (48 + n) else char_of (87 + n))"

definition json_escape :: "char \<Rightarrow> string" where
  "json_escape c =
     (if c = CHR 0x22 then [CHR 0x5C, CHR 0x22]
      else if c = CHR 0x5C then [CHR 0x5C, CHR 0x5C]
      else if c = CHR 0x08 then [CHR 0x5C, CHR ''b'']
      else if c = CHR 0x0C then [CHR 0x5C, CHR ''f'']
      else if c = CHR 0x0A then [CHR 0x5C, CHR ''n'']
      else if c = CHR 0x0D then [CHR 0x5C, CHR ''r'']
      else if c = CHR 0x09 then [CHR 0x5C, CHR ''t'']
      else if (of_char c :: nat) < 32 \<or> c = CHR ''<'' \<or> c = CHR ''>'' \<or> c = CHR ''&''
      then [CHR 0x5C, CHR ''u'', CHR ''0'', CHR ''0'', hex_of (of_char c div 16), hex_of (of_char c mod 16)]
      else [c])"

definition json_quote :: "string \<Rightarrow> string" where
  "json_quote s = [CHR 0x22] @ concat (map json_escape s) @ [CHR 0x22]"

fun comma_separated :: "string list \<Rightarrow> string" where
  "comma_separated [] = []"
| "comma_separated [x] = x"
| "comma_separated (x # y # ys) = x @ '','' @ comma_separated (y # ys)"

definition json_object_text :: "(string \<times> string) list \<Rightarrow> string" where
  "json_object_text vs = ''{'' @
     comma_separated (map (\<lambda>(k, v). json_quote k @ '':'' @ v) (sort_key fst vs)) @ ''}''"

section \<open>The store\<close>

definition page_limit :: "int \<Rightarrow> int" where
  "page_limit l = (let m = (if l \<le> 0 then 20 else l) in if m > 100 then 100 else m)"

definition template_kinds :: "string list" where
  "template_kinds = [''html'', ''nginx'', ''full'']"

definition live_template :: "int \<Rightarrow> template_row \<Rightarrow> bool" where
  "live_template i t \<longleftrightarrow> tp_id t = i \<and> tp_deleted_at t = None"

text \<open>The unique constraint counts deleted templates, too.\<close>

definition template_name_taken :: "int \<Rightarrow> int \<Rightarrow> string \<Rightarrow> assets \<Rightarrow> bool" where
  "template_name_taken own p n a \<longleftrightarrow>
     list_ex (\<lambda>t. tp_id t \<noteq> own \<and> tp_project_id t = p \<and> tp_name t = n) (rows (templates a))"

definition TemplateStore_Create :: "template_row \<Rightarrow> template_row op" where
  "TemplateStore_Create x = insert_row templates templates_update
     (\<lambda>a. if tp_kind x \<notin> set template_kinds then Some (ErrCheck ''chk_templates_kind'')
        else if list_ex (\<lambda>t. tp_project_id t = tp_project_id x \<and> tp_name t = tp_name x) (rows (templates a))
        then Some (ErrUnique ''uq_templates_project_name'')
        else if \<not> list_ex (\<lambda>p. pj_id p = tp_project_id x) (rows (projects a))
        then Some (ErrCheck ''templates_project_id_fkey'')
        else None)
     (\<lambda>t i. x\<lparr>tp_id := i, tp_deleted_at := None\<rparr>)"

abbreviation ErrTemplateNotFound :: go_err where
  "ErrTemplateNotFound \<equiv> ErrSentinel ''template not found''"

abbreviation ErrVersionImmutable :: go_err where
  "ErrVersionImmutable \<equiv> ErrSentinel ''template version is published and immutable''"

definition TemplateStore_GetByID :: "int \<Rightarrow> template_row op" where
  "TemplateStore_GetByID i = asset_get ErrTemplateNotFound (\<lambda>a. tbl_find (live_template i) (templates a))"

definition TemplateStore_ListByProject :: "int \<Rightarrow> int \<Rightarrow> int \<Rightarrow> template_row list op" where
  "TemplateStore_ListByProject p cursor limit = asset_query (\<lambda>a.
     take (nat (page_limit limit)) (sort_key tp_id
       (tbl_select (\<lambda>t. tp_project_id t = p \<and> tp_deleted_at t = None \<and> tp_id t > cursor) (templates a))))"

definition CountByProject :: "int \<Rightarrow> int op" where
  "CountByProject p = asset_query (\<lambda>a. int (length
     (tbl_select (\<lambda>t. tp_project_id t = p \<and> tp_deleted_at t = None) (templates a))))"

definition TemplateStore_Update :: "int \<Rightarrow> string \<Rightarrow> string option \<Rightarrow> template_row op" where
  "TemplateStore_Update i name description = update_row templates templates_update
     (\<lambda>a t. if template_name_taken i (tp_project_id t) name a
        then Some (ErrUnique ''uq_templates_project_name'') else None)
     ErrTemplateNotFound (live_template i) (\<lambda>n t. t\<lparr>tp_name := name, tp_description := description\<rparr>)"

definition TemplateStore_SoftDelete :: "int \<Rightarrow> template_row op" where
  "TemplateStore_SoftDelete i = update_row templates templates_update (\<lambda>a t. None)
     ErrTemplateNotFound (live_template i) (\<lambda>n t. t\<lparr>tp_deleted_at := Some n\<rparr>)"

text \<open>Versions live in the table the builder and the release service read.\<close>

definition fresh_version :: "template_version_row \<Rightarrow> int \<Rightarrow> int \<Rightarrow> template_version_row" where
  "fresh_version v n i = v\<lparr>tv_id := i, tv_published_at := None, tv_published_by := None, tv_created_at := n\<rparr>"

definition CreateVersion :: "template_version_row \<Rightarrow> template_version_row op" where
  "CreateVersion v = stmt (\<lambda>w.
     if list_ex (\<lambda>u. tv_template_id u = tv_template_id v \<and> tv_version_label u = tv_version_label v)
          (rows (template_versions w))
     then (Inl (ErrUnique ''uq_template_versions_label''), w)
     else if \<not> list_ex (\<lambda>t. tp_id t = tv_template_id v) (rows (templates (assets w)))
     then (Inl (ErrCheck ''template_versions_template_id_fkey''), w)
     else (Inr (fresh_version v (now w) (seq (template_versions w) + 1)),
           w\<lparr>template_versions := tbl_insert (fresh_version v (now w)) (template_versions w)\<rparr>))"

definition ListVersions :: "int \<Rightarrow> template_version_row list op" where
  "ListVersions i = query (\<lambda>w.
     sort_key (\<lambda>v. - tv_created_at v) (tbl_select (\<lambda>v. tv_template_id v = i) (template_versions w)))"

definition unpublished :: "int \<Rightarrow> template_version_row \<Rightarrow> bool" where
  "unpublished i v \<longleftrightarrow> tv_id v = i \<and> tv_published_at v = None"

text \<open>\<open>UPDATE ... WHERE id = i AND published_at IS NULL RETURNING\<close>, of both methods below.\<close>

definition update_unpublished ::
    "int \<Rightarrow> (int \<Rightarrow> template_version_row \<Rightarrow> template_version_row) \<Rightarrow> template_version_row op" where
  "update_unpublished i f = stmt (\<lambda>w. case tbl_find (unpublished i) (template_versions w) of
       None \<Rightarrow> (Inl ErrVersionImmutable, w)
     | Some v \<Rightarrow> (Inr (f (now w) v),
         w\<lparr>template_versions := tbl_update (unpublished i) (f (now w)) (template_versions w)\<rparr>))"

definition Publish :: "int \<Rightarrow> int \<Rightarrow> template_version_row op" where
  "Publish i by = bnd (GetVersion i) (\<lambda>v.
     if tv_published_at v \<noteq> None then throw ErrVersionImmutable
     else update_unpublished i (\<lambda>n v. v\<lparr>tv_published_at := Some n, tv_published_by := Some by\<rparr>))"

definition TemplateStore_UpdateVersion ::
    "int \<Rightarrow> string option \<Rightarrow> string option \<Rightarrow> variables \<Rightarrow> string \<Rightarrow> template_version_row op" where
  "TemplateStore_UpdateVersion i html nginx vars checksum =
     bnd (GetVersion i) (\<lambda>v. if tv_published_at v \<noteq> None then throw ErrVersionImmutable
       else update_unpublished i (\<lambda>n v. v\<lparr>tv_content_html := html, tv_content_nginx := nginx,
         tv_default_variables := Some vars, tv_checksum := checksum\<rparr>))"

section \<open>The service\<close>

definition Template_Create :: "int \<Rightarrow> string \<Rightarrow> string option \<Rightarrow> string \<Rightarrow> template_row op" where
  "Template_Create p name description kind = TemplateStore_Create \<lparr>tp_id = 0, tp_project_id = p,
     tp_name = name, tp_description = description, tp_kind = (if kind = [] then ''full'' else kind),
     tp_deleted_at = None\<rparr>"

definition next_cursor :: "('r \<Rightarrow> int) \<Rightarrow> 'r list \<Rightarrow> int" where
  "next_cursor key items = (if length items > 0 then key (last items) else 0)"

definition Template_List :: "int \<Rightarrow> int \<Rightarrow> int \<Rightarrow> (template_row list \<times> int \<times> int) op" where
  "Template_List p cursor limit =
     bnd (TemplateStore_ListByProject p cursor limit) (\<lambda>items.
     bnd (CountByProject p) (\<lambda>total. ret (items, total, next_cursor tp_id items)))"

definition variables_json :: "variables \<Rightarrow> string" where
  "variables_json vars = (if length vars > 0 then json_object_text vars else ''{}'')"

definition opt_text :: "string option \<Rightarrow> string" where
  "opt_text s = (case s of None \<Rightarrow> [] | Some t \<Rightarrow> t)"

definition computeVersionChecksum ::
    "(string \<Rightarrow> string) \<Rightarrow> string option \<Rightarrow> string option \<Rightarrow> string \<Rightarrow> string" where
  "computeVersionChecksum sha html nginx js = sha (opt_text html @ ''|'' @ opt_text nginx @ ''|'' @ js)"

record publish_input =
  pb_template_id :: int
  pb_content_html :: "string option"
  pb_content_nginx :: "string option"
  pb_default_variables :: variables
  pb_published_by :: int

definition version_of_input ::
    "(string \<Rightarrow> string) \<Rightarrow> publish_input \<Rightarrow> string \<Rightarrow> template_version_row" where
  "version_of_input sha inp label = \<lparr>tv_id = 0, tv_template_id = pb_template_id inp,
     tv_content_html = pb_content_html inp, tv_content_nginx = pb_content_nginx inp,
     tv_default_variables = Some (pb_default_variables inp), tv_published_at = None,
     tv_version_label = label,
     tv_checksum = computeVersionChecksum sha (pb_content_html inp) (pb_content_nginx inp)
       (variables_json (pb_default_variables inp)),
     tv_published_by = None, tv_created_at = 0, tv_created_by = Some (pb_published_by inp)\<rparr>"

definition PublishVersion ::
    "(string \<Rightarrow> string) \<Rightarrow> int \<Rightarrow> publish_input \<Rightarrow> template_version_row op" where
  "PublishVersion sha ms inp =
     bnd (gets now) (\<lambda>t.
     bnd (CreateVersion (version_of_input sha inp (''v'' @ show_int (1000 * t + ms)))) (\<lambda>created.
     Publish (tv_id created) (pb_published_by inp)))"

definition UpdateVersion ::
    "(string \<Rightarrow> string) \<Rightarrow> int \<Rightarrow> string option \<Rightarrow> string option \<Rightarrow> variables \<Rightarrow> template_version_row op" where
  "UpdateVersion sha i html nginx vars = TemplateStore_UpdateVersion i html nginx vars
     (computeVersionChecksum sha html nginx (variables_json vars))"

section \<open>Published versions\<close>

text \<open>
  \<open>ver_step\<close>: a look-up that finds a published version finds the same row later, and if every
  release belongs to a published version, that stays so.
\<close>

definition published_version :: "world \<Rightarrow> int \<Rightarrow> template_version_row \<Rightarrow> bool" where
  "published_version w i v \<longleftrightarrow>
     tbl_get tv_id (template_versions w) i = Some v \<and> tv_published_at v \<noteq> None"

definition built_from_published :: "world \<Rightarrow> bool" where
  "built_from_published w \<longleftrightarrow>
     (\<forall>i \<in> r_template_version_id ` set (rows (releases w)). \<exists>v. published_version w i v)"

definition ver_step :: "world \<Rightarrow> world \<Rightarrow> bool" where
  "ver_step w w' \<longleftrightarrow> (\<forall>i v. published_version w i v \<longrightarrow> published_version w' i v) \<and>
     (built_from_published w \<longrightarrow> built_from_published w')"

interpretation vers: store_preorder ver_step
  by unfold_locales (auto simp: ver_step_def built_from_published_def published_version_def)

lemma ver_releases:
  assumes "template_versions w' = template_versions w"
    and "r_template_version_id ` set (rows (releases w')) \<subseteq> r_template_version_id ` set (rows (releases w)) \<union>
      {i. \<exists>v. published_version w i v}"
  shows "ver_step w w'"
proof -
  have "published_version w' = published_version w"
    by (simp add: fun_eq_iff published_version_def assms(1))
  then show ?thesis using assms(2) by (auto simp: ver_step_def built_from_published_def)
qed

lemma ver_other:
  assumes "\<And>w. template_versions (f w) = template_versions w" and "\<And>w. releases (f w) = releases w"
  shows "ver_step w (f w)"
  using assms by (intro ver_releases) simp_all

lemma ver_versions:
  assumes "\<And>i v. published_version w i v \<Longrightarrow> tbl_get tv_id t i = Some v"
  shows "ver_step w (w\<lparr>template_versions := t\<rparr>)"
proof -
  have "published_version (w\<lparr>template_versions := t\<rparr>) i v" if "published_version w i v" for i v
    using that assms [OF that] by (simp add: published_version_def)
  then show ?thesis by (fastforce simp: ver_step_def built_from_published_def)
qed

lemma ver_insert: "ver_step w (w\<lparr>template_versions := tbl_insert mk (template_versions w)\<rparr>)"
  by (rule ver_versions)
    (simp add: published_version_def tbl_get_def tbl_find_def tbl_insert_def find_append)

lemma ver_update:
  assumes "\<And>v. tv_id (f v) = tv_id v"
  shows "ver_step w (w\<lparr>template_versions := tbl_update (unpublished j) f (template_versions w)\<rparr>)"
  using assms by (intro ver_versions) (auto simp: published_version_def tbl_get_update unpublished_def)

lemma ver_CreateVersion [eff_intro]: "keeps ver_step (CreateVersion v)"
  unfolding CreateVersion_def
  by (intro eff_intro keepsI) (simp add: final_def ver_insert vers.R_refl)

lemma ver_update_unpublished:
  assumes "\<And>n v. tv_id (f n v) = tv_id v"
  shows "keeps ver_step (update_unpublished i f)"
  unfolding update_unpublished_def
  by (intro eff_intro keepsI) (simp add: final_def ver_update assms vers.R_refl split: option.split)

lemma ver_GetVersion [eff_intro]: "keeps ver_step (GetVersion i)"
  unfolding GetVersion_def by (intro eff_intro)

lemma ver_Publish [eff_intro]: "keeps ver_step (Publish i by)"
  unfolding Publish_def by (intro eff_intro ver_update_unpublished) simp

lemma ver_PublishVersion [eff_intro]: "keeps ver_step (PublishVersion sha ms inp)"
  unfolding PublishVersion_def by (intro eff_intro)

lemma ver_UpdateVersion [eff_intro]:
  "keeps ver_step (TemplateStore_UpdateVersion i html nginx vars ck)"
  "keeps ver_step (UpdateVersion sha i html nginx vars)"
  unfolding UpdateVersion_def TemplateStore_UpdateVersion_def
  by (intro eff_intro ver_update_unpublished; simp)+

text \<open>A release row changes neither its version nor its key, and a new one has a published version.\<close>

lemma ver_update_releases:
  assumes "\<And>r. r_template_version_id (f r) = r_template_version_id r"
  shows "ver_step w (w\<lparr>releases := tbl_update p f (releases w)\<rparr>)"
  by (rule ver_releases) (auto simp: tbl_update_def assms)

interpretation ver_rel: release_preorder ver_step
proof unfold_locales
  fix i f t rs b
  show "keeps ver_step (TransitionRelease i f t rs b)"
    unfolding TransitionRelease_def ReleaseStore_TransitionTx_def updateReleaseStatusTx_def
      insertReleaseStateHistoryTx_def
    by (intro eff_intro vers.keeps_exec ver_other ver_update_releases; simp)
next
  fix i and upd :: "int \<Rightarrow> release_row \<Rightarrow> release_row"
  assume "\<And>n r. r_template_version_id (upd n r) = r_template_version_id r"
  then show "keeps ver_step (update_release i upd)"
    unfolding update_release_def by (intro vers.keeps_exec ver_update_releases)
qed (rule ver_other; simp)+

definition at_version :: "world \<Rightarrow> int \<Rightarrow> world \<Rightarrow> bool" where
  "at_version w0 i w \<longleftrightarrow> ver_step w0 w \<and> (\<exists>v. published_version w i v)"

lemma at_version_frame:
  assumes "keeps ver_step m"
  shows "hoare (at_version w0 i) m (\<lambda>_. at_version w0 i) (at_version w0 i)"
proof (rule hoare_frame [OF assms])
  fix w w'
  assume step: "ver_step w w'" and at: "at_version w0 i w"
  from at have "ver_step w0 w" by (simp add: at_version_def)
  then have "ver_step w0 w'" using step by (rule vers.R_trans)
  with step at show "at_version w0 i w'" by (auto simp: at_version_def ver_step_def)
qed

lemma at_version_faults: "at_version w0 i w \<Longrightarrow> at_version w0 i (w\<lparr>faults := fs\<rparr>)"
  using vers.R_trans [OF _ vers.R_faults] by (auto simp: at_version_def published_version_def)

lemma at_new_release:
  assumes "at_version w0 (r_template_version_id r) w"
  shows "at_version w0 (r_template_version_id r) (w\<lparr>releases := tbl_insert (new_release r t) (releases w)\<rparr>)"
proof -
  let ?w' = "w\<lparr>releases := tbl_insert (new_release r t) (releases w)\<rparr>"
  have "ver_step w ?w'"
    using assms by (intro ver_releases) (auto simp: tbl_insert_def new_release_def at_version_def)
  with assms vers.R_trans [of w0 w ?w'] show ?thesis
    by (auto simp: at_version_def published_version_def)
qed

lemma hoare_inv: "(\<And>w. P w \<Longrightarrow> P (final m w)) \<Longrightarrow> hoare P m (\<lambda>_. P) P"
  by (simp add: hoare_def split: sum.split)

lemma ver_ReleaseStore_Create:
  assumes "r_template_version_id r = i"
  shows "hoare (at_version w0 i) (ReleaseStore_Create r) (\<lambda>_. at_version w0 i) (at_version w0 i)"
  unfolding ReleaseStore_Create_def
  by (intro hoare_stmt hoare_inv at_version_faults)
    (auto simp: final_def at_new_release [of w0 r, unfolded assms])

lemma ver_initial_history [eff_intro]: "keeps ver_step (insertInitialReleaseHistory i b)"
  unfolding insertInitialReleaseHistory_def by (intro eff_intro vers.keeps_exec ver_other; simp)

lemma read_only_versions: "read_only w w' \<Longrightarrow> template_versions w' = template_versions w"
  unfolding read_only_def by (metis world.select_convs(18) world.surjective world.update_convs(2))

lemma ver_Create [eff_intro]: "keeps ver_step (Create sha inp)"
proof (rule keepsI)
  fix w0
  let ?i = "ci_template_version_id inp"
  let ?E = "\<lambda>w. ver_step w0 w"
  have weak: "hoare (at_version w0 ?i) m (\<lambda>_. ?E) ?E" if "keeps ver_step m" for m :: "release_row op"
    by (rule hoare_post [OF at_version_frame [OF that]]) (simp_all add: at_version_def)
  have "hoare (\<lambda>w. ver_step w0 w) (GetVersion ?i)
      (\<lambda>v w. ver_step w0 w \<and> (tv_published_at v \<noteq> None \<longrightarrow> at_version w0 ?i w)) ?E"
  proof (rule hoareI)
    fix w assume w: "ver_step w0 w"
    have fin: "ver_step w0 (final (GetVersion ?i) w)"
      using w keepsD [OF ver_GetVersion, of w ?i] by (rule vers.R_trans)
    show "case result (GetVersion ?i) w of Inl e \<Rightarrow> ?E (final (GetVersion ?i) w)
        | Inr v \<Rightarrow> ver_step w0 (final (GetVersion ?i) w) \<and>
            (tv_published_at v \<noteq> None \<longrightarrow> at_version w0 ?i (final (GetVersion ?i) w))"
    proof (cases "result (GetVersion ?i) w")
      case (Inl e)
      with fin show ?thesis by simp
    next
      case (Inr v)
      have "tbl_get tv_id (template_versions (final (GetVersion ?i) w)) ?i = Some v"
        using snap_start [OF snap_query_one [of "\<lambda>w. tbl_find (\<lambda>v. tv_id v = ?i) (template_versions w)" w
            ErrTemplateVersionNotFound]] Inr read_only_versions [of w "final (GetVersion ?i) w"]
        by (simp add: GetVersion_def tbl_get_def)
      with fin Inr show ?thesis by (auto simp: at_version_def published_version_def)
    qed
  qed
  then have "hoare (\<lambda>w. ver_step w0 w) (Create sha inp) (\<lambda>_. ?E) ?E"
    unfolding Create_def
  proof (rule hoare_bnd)
    fix v
    let ?at = "at_version w0 ?i"
    have scope: "hoare ?at (resolve_scope inp) (\<lambda>_. ?at) ?E"
      by (rule hoare_post [OF at_version_frame]) (auto simp: at_version_def intro: eff_intro)
    have clock: "hoare ?at (gets now) (\<lambda>_. ?at) ?E"
      by (rule hoare_post [OF at_version_frame]) (auto simp: at_version_def intro: eff_intro)
    have row: "hoare ?at (ReleaseStore_Create (release_of_input sha inp t)) (\<lambda>_. ?at) ?E" for t
      by (rule hoare_post [OF ver_ReleaseStore_Create]) (simp_all add: release_of_input_def at_version_def)
    have stop: "hoare ?at (throw e) (\<lambda>_. ?E) ?E" for e :: go_err
      by (rule hoare_throw) (simp add: at_version_def)
    show "hoare (\<lambda>w. ?E w \<and> (tv_published_at v \<noteq> None \<longrightarrow> ?at w))
        (if tv_published_at v = None then throw ErrTemplateNotPublished
         else bnd (resolve_scope inp) (\<lambda>domainIDs.
           if length domainIDs = 0 then throw ErrNoDomainsInScope
           else bnd (gets now) (\<lambda>t.
             bnd (ReleaseStore_Create (release_of_input sha inp t)) (\<lambda>rel.
               seq_eff (for_each domainIDs (\<lambda>did. ignore (CreateScope (r_id rel) did None)))
              (seq_eff (ignore (transaction (insertInitialReleaseHistory (r_id rel)
                          (triggeredByStr (ci_created_by inp)))))
              (seq_eff (ignore (enqueue (PlanJob (r_id rel) domainIDs
                          (or_default (ci_shard_strategy inp) ''by_host_group'')) 3 120 ''release'' 0))
              (ret rel))))))) (\<lambda>_. ?E) ?E"
    proof (cases "tv_published_at v = None")
      case True
      then show ?thesis by (simp add: hoare_def)
    next
      case False
      show ?thesis
        unfolding if_not_P [OF False]
        by (rule hoare_pre [where P = ?at], (rule hoare_bnd [OF scope] hoare_if stop hoare_bnd [OF clock]
              hoare_bnd [OF row] weak eff_intro)+)
          (use False in simp_all)
    qed
  qed
  from hoareD [OF this, of w0] show "ver_step w0 (final (Create sha inp) w0)"
    by (simp add: vers.R_refl split: sum.splits)
qed

section \<open>Publishing\<close>

text \<open>The version that a publication inserts, and what it becomes.\<close>

definition draft_of :: "(string \<Rightarrow> string) \<Rightarrow> int \<Rightarrow> publish_input \<Rightarrow> world \<Rightarrow> template_version_row" where
  "draft_of sha ms inp w = fresh_version
     (version_of_input sha inp (''v'' @ show_int (1000 * now w + ms))) (now w) (seq (template_versions w) + 1)"

definition publication_of :: "(string \<Rightarrow> string) \<Rightarrow> int \<Rightarrow> publish_input \<Rightarrow> world \<Rightarrow> template_version_row" where
  "publication_of sha ms inp w = (draft_of sha ms inp w)
     \<lparr>tv_published_at := Some (now w), tv_published_by := Some (pb_published_by inp)\<rparr>"

definition with_version :: "world \<Rightarrow> template_version_row \<Rightarrow> world" where
  "with_version w v = w\<lparr>template_versions := tbl_insert (\<lambda>i. v) (template_versions w)\<rparr>"

lemma snap_CreateVersion:
  assumes "fresh_version v (now w) (seq (template_versions w) + 1) = d"
  shows "hoare (snap w) (CreateVersion v) (\<lambda>x w'. x = d \<and> snap (with_version w d) w') (snap w)"
  unfolding CreateVersion_def
  by (rule hoare_post [OF snap_stmt])
    (auto simp: result_def final_def with_version_def tbl_insert_def assms split: if_splits)

lemma find_draft:
  assumes "wf_tbl tv_id t" and "tv_id d = seq t + 1"
  shows "tbl_find (\<lambda>v. tv_id v = tv_id d) (tbl_insert (\<lambda>i. d) t) = Some d"
    and "tv_published_at d = None \<Longrightarrow> tbl_find (unpublished (tv_id d)) (tbl_insert (\<lambda>i. d) t) = Some d"
    and "tv_published_at d = None \<Longrightarrow> tbl_update (unpublished (tv_id d)) f (tbl_insert (\<lambda>i. d) t) =
      tbl_insert (\<lambda>i. f d) t"
proof -
  have old: "tv_id v \<noteq> seq t + 1" if "v \<in> set (rows t)" for v
    using assms(1) that by (auto simp: wf_tbl_def)
  then have "find (\<lambda>v. tv_id v = tv_id d) (rows t) = None" "find (unpublished (tv_id d)) (rows t) = None"
    by (auto simp: find_None_iff unpublished_def assms(2))
  then show "tbl_find (\<lambda>v. tv_id v = tv_id d) (tbl_insert (\<lambda>i. d) t) = Some d"
    "tv_published_at d = None \<Longrightarrow> tbl_find (unpublished (tv_id d)) (tbl_insert (\<lambda>i. d) t) = Some d"
    by (simp_all add: tbl_defs find_append unpublished_def)
  show "tbl_update (unpublished (tv_id d)) f (tbl_insert (\<lambda>i. d) t) = tbl_insert (\<lambda>i. f d) t"
    if "tv_published_at d = None"
  proof -
    have "map (\<lambda>r. if unpublished (tv_id d) r then f r else r) (rows t) = rows t"
      using old by (auto simp: unpublished_def assms(2) intro!: map_idI)
    then show ?thesis using that by (cases t) (simp add: tbl_defs unpublished_def)
  qed
qed

lemma snap_Publish_draft:
  assumes "wf_tbl tv_id (template_versions w)" and "tv_id d = seq (template_versions w) + 1"
    and "tv_published_at d = None"
  shows "hoare (snap (with_version w d)) (Publish (tv_id d) by)
    (\<lambda>x w'. x = d\<lparr>tv_published_at := Some (now w), tv_published_by := Some by\<rparr> \<and> snap (with_version w x) w')
    (snap (with_version w d))"
  unfolding Publish_def GetVersion_def
proof (rule hoare_step [OF snap_query_one])
  fix v
  assume "tbl_find (\<lambda>v. tv_id v = tv_id d) (template_versions (with_version w d)) = Some v"
  then have v: "v = d" using find_draft(1) [OF assms(1,2)] by (simp add: with_version_def)
  show "hoare (snap (with_version w d)) (if tv_published_at v \<noteq> None then throw ErrVersionImmutable
      else update_unpublished (tv_id d) (\<lambda>n v. v\<lparr>tv_published_at := Some n, tv_published_by := Some by\<rparr>))
    (\<lambda>x w'. x = d\<lparr>tv_published_at := Some (now w), tv_published_by := Some by\<rparr> \<and> snap (with_version w x) w')
    (snap (with_version w d))"
    unfolding v update_unpublished_def using assms(3)
    by (auto intro!: hoare_post [OF snap_stmt]
        simp: with_version_def result_def final_def find_draft [OF assms(1,2)])
qed (simp_all add: with_version_def)

text \<open>
  C33: Publishing a version appends one row and touches no other. If it succeeds, the row is published and
  carries the content, the label and the checksum of the input; if it fails, either nothing has changed or
  the same row is there, unpublished, because the two statements are not one transaction.
\<close>

theorem PublishVersion_outcome:
  assumes "wf_tbl tv_id (template_versions w)"
  shows "case result (PublishVersion sha ms inp) w of
      Inr v \<Rightarrow> v = publication_of sha ms inp w \<and>
        rows (template_versions (final (PublishVersion sha ms inp) w)) = rows (template_versions w) @ [v]
    | Inl e \<Rightarrow> rows (template_versions (final (PublishVersion sha ms inp) w)) \<in>
        {rows (template_versions w), rows (template_versions w) @ [draft_of sha ms inp w]}"
proof -
  let ?d = "draft_of sha ms inp w"
  let ?E = "\<lambda>w'. snap w w' \<or> snap (with_version w ?d) w'"
  have "hoare (snap w) (PublishVersion sha ms inp)
      (\<lambda>v w'. v = publication_of sha ms inp w \<and> snap (with_version w v) w') ?E"
    unfolding PublishVersion_def
  proof (rule hoare_step)
    show "hoare (snap w) (gets now) (\<lambda>t w'. t = now w \<and> snap w w') ?E"
      by (auto simp: hoare_def dest: read_only_fields)
  next
    fix t assume t: "t = now w"
    have draft: "fresh_version (version_of_input sha inp (''v'' @ show_int (1000 * t + ms))) (now w)
        (seq (template_versions w) + 1) = ?d"
      by (simp add: draft_of_def t)
    have "hoare (snap (with_version w ?d)) (Publish (tv_id c) (pb_published_by inp))
        (\<lambda>v w'. v = publication_of sha ms inp w \<and> snap (with_version w v) w') ?E" if "c = ?d" for c
      unfolding that
      by (rule hoare_post [OF snap_Publish_draft [OF assms]])
        (auto simp: publication_of_def draft_of_def fresh_version_def)
    then show "hoare (snap w) (bnd (CreateVersion (version_of_input sha inp (''v'' @ show_int (1000 * t + ms))))
        (\<lambda>created. Publish (tv_id created) (pb_published_by inp)))
        (\<lambda>v w'. v = publication_of sha ms inp w \<and> snap (with_version w v) w') ?E"
      by (intro hoare_step [OF hoare_post [OF snap_CreateVersion [OF draft]]]) auto
  qed
  from snap_start [OF this] show ?thesis
    by (auto simp: with_version_def tbl_insert_def dest!: read_only_versions split: sum.splits)
qed

definition publish_world :: world where
  "publish_world = empty_world\<lparr>assets := empty_assets\<lparr>templates := \<lparr>rows = [\<lparr>tp_id = 1, tp_project_id = 1,
     tp_name = ''site'', tp_description = None, tp_kind = ''full'', tp_deleted_at = None\<rparr>], seq = 1\<rparr>\<rparr>\<rparr>"

definition publish_sample :: publish_input where
  "publish_sample = \<lparr>pb_template_id = 1, pb_content_html = Some ''x'', pb_content_nginx = None,
     pb_default_variables = [(''b'', ''2''), (''a'', ''1'')], pb_published_by = 1\<rparr>"

theorem PublishVersion_outcome_witness:
  "\<exists>v. result (PublishVersion (\<lambda>s. s) 5 publish_sample) publish_world = Inr v \<and> tv_version_label v = ''v5'' \<and>
     rows (template_versions (final (PublishVersion (\<lambda>s. s) 5 publish_sample) publish_world)) = [v]"
proof -
  have "\<not> isl (result (PublishVersion (\<lambda>s. s) 5 publish_sample) publish_world)" by code_simp
  then obtain v where v: "result (PublishVersion (\<lambda>s. s) 5 publish_sample) publish_world = Inr v"
    by (cases "result (PublishVersion (\<lambda>s. s) 5 publish_sample) publish_world") auto
  have "wf_tbl tv_id (template_versions publish_world)" "template_versions publish_world = empty_tbl"
    by (simp_all add: publish_world_def empty_world_def wf_empty)
  with PublishVersion_outcome [of publish_world "\<lambda>s. s" 5 publish_sample] v
  have "v = publication_of (\<lambda>s. s) 5 publish_sample publish_world"
    "rows (template_versions (final (PublishVersion (\<lambda>s. s) 5 publish_sample) publish_world)) = [v]"
    by (simp_all add: empty_tbl_def)
  moreover have "tv_version_label (publication_of (\<lambda>s. s) 5 publish_sample publish_world) = ''v5''" by code_simp
  ultimately show ?thesis using v by auto
qed

text \<open>
  The checksum does not identify the content: moving text over the separator does not change it, whatever
  the hash.
\<close>

theorem version_checksum_collides:
  "computeVersionChecksum sha (Some (a @ ''|'' @ b)) (Some c) js =
   computeVersionChecksum sha (Some a) (Some (b @ ''|'' @ c)) js"
  by (simp add: computeVersionChecksum_def opt_text_def)

end
