(* ===== verification/Projects.thy ===== *)
theory Projects
  imports Templates
begin

text \<open>
  internal/project/service.go over store/postgres/project.go. Unique constraints count deleted projects;
  the look-up by slug before an insert does not.
\<close>

section \<open>Slugs\<close>

definition lower_alnum :: "char \<Rightarrow> bool" where
  "lower_alnum c \<longleftrightarrow> CHR ''a'' \<le> c \<and> c \<le> CHR ''z'' \<or> is_digit c"

text \<open>The expression \<open>^[a-z0-9][a-z0-9-]\{1,98\}[a-z0-9]$\<close>, of the service and of the \<open>CHECK\<close> constraint.\<close>

definition slugPattern :: "string \<Rightarrow> bool" where
  "slugPattern s \<longleftrightarrow> 3 \<le> length s \<and> length s \<le> 100 \<and> lower_alnum (hd s) \<and> lower_alnum (last s) \<and>
     list_all (\<lambda>c. lower_alnum c \<or> c = CHR ''-'') (butlast (tl s))"

section \<open>The store\<close>

abbreviation ErrProjectNotFound :: go_err where
  "ErrProjectNotFound \<equiv> ErrSentinel ''project not found''"

definition live_project :: "int \<Rightarrow> project_row \<Rightarrow> bool" where
  "live_project i p \<longleftrightarrow> pj_id p = i \<and> pj_deleted_at p = None"

definition project_conflict :: "int \<Rightarrow> string \<Rightarrow> string \<Rightarrow> assets \<Rightarrow> go_err option" where
  "project_conflict own name slug a =
     (if \<not> slugPattern slug then Some (ErrCheck ''chk_projects_slug'')
      else if list_ex (\<lambda>q. pj_id q \<noteq> own \<and> pj_name q = name) (rows (projects a))
      then Some (ErrUnique ''uq_projects_name'')
      else if list_ex (\<lambda>q. pj_id q \<noteq> own \<and> pj_slug q = slug) (rows (projects a))
      then Some (ErrUnique ''uq_projects_slug'')
      else None)"

definition ProjectStore_Create :: "project_row \<Rightarrow> project_row op" where
  "ProjectStore_Create x = insert_row projects projects_update
     (\<lambda>a. project_conflict (seq (projects a) + 1) (pj_name x) (pj_slug x) a)
     (\<lambda>n i. x\<lparr>pj_id := i, pj_deleted_at := None\<rparr>)"

definition ProjectStore_GetByID :: "int \<Rightarrow> project_row op" where
  "ProjectStore_GetByID i = asset_get ErrProjectNotFound (\<lambda>a. tbl_find (live_project i) (projects a))"

definition GetBySlug :: "string \<Rightarrow> project_row op" where
  "GetBySlug slug = asset_get ErrProjectNotFound
     (\<lambda>a. tbl_find (\<lambda>p. pj_slug p = slug \<and> pj_deleted_at p = None) (projects a))"

definition ProjectStore_List :: "int \<Rightarrow> int \<Rightarrow> project_row list op" where
  "ProjectStore_List cursor limit = asset_query (\<lambda>a. take (nat (page_limit limit)) (sort_key pj_id
     (tbl_select (\<lambda>p. pj_deleted_at p = None \<and> pj_id p > cursor) (projects a))))"

definition ProjectStore_Update :: "int \<Rightarrow> string \<Rightarrow> string \<Rightarrow> string option \<Rightarrow> bool \<Rightarrow> project_row op" where
  "ProjectStore_Update i name slug description is_prod = update_row projects projects_update
     (\<lambda>a p. project_conflict i name slug a) ErrProjectNotFound (live_project i)
     (\<lambda>n p. p\<lparr>pj_name := name, pj_slug := slug, pj_description := description, pj_is_prod := is_prod\<rparr>)"

definition ProjectStore_SoftDelete :: "int \<Rightarrow> project_row op" where
  "ProjectStore_SoftDelete i = update_row projects projects_update (\<lambda>a p. None)
     ErrProjectNotFound (live_project i) (\<lambda>n p. p\<lparr>pj_deleted_at := Some n\<rparr>)"

definition ProjectStore_Count :: "int op" where
  "ProjectStore_Count = asset_query (\<lambda>a. int (length (tbl_select (\<lambda>p. pj_deleted_at p = None) (projects a))))"

section \<open>The service\<close>

abbreviation ErrDuplicateSlug :: go_err where
  "ErrDuplicateSlug \<equiv> ErrSentinel ''project slug already exists''"

abbreviation ErrDuplicateProjectName :: go_err where
  "ErrDuplicateProjectName \<equiv> ErrSentinel ''project name already exists''"

abbreviation ErrInvalidSlug :: go_err where
  "ErrInvalidSlug \<equiv> ErrSentinel ''invalid project slug''"

definition project_error :: "go_err \<Rightarrow> go_err" where
  "project_error e = (if e = ErrUnique ''uq_projects_name'' then ErrDuplicateProjectName
     else if e = ErrUnique ''uq_projects_slug'' then ErrDuplicateSlug else e)"

definition Project_Create :: "project_row \<Rightarrow> project_row op" where
  "Project_Create inp =
     (if \<not> slugPattern (pj_slug inp) then throw ErrInvalidSlug
      else bnd (attempt (GetBySlug (pj_slug inp))) (\<lambda>found. case found of
          Inr p \<Rightarrow> throw ErrDuplicateSlug
        | Inl e \<Rightarrow> if e \<noteq> ErrProjectNotFound then throw e
            else bnd (attempt (ProjectStore_Create inp)) (\<lambda>r. case r of
                Inl e \<Rightarrow> throw (project_error e)
              | Inr p \<Rightarrow> ret p)))"

definition Project_List :: "int \<Rightarrow> int \<Rightarrow> (project_row list \<times> int \<times> int) op" where
  "Project_List cursor limit =
     bnd (ProjectStore_List cursor limit) (\<lambda>items.
     bnd ProjectStore_Count (\<lambda>total. ret (items, total, next_cursor pj_id items)))"

definition Project_Update :: "int \<Rightarrow> string \<Rightarrow> string \<Rightarrow> string option \<Rightarrow> bool \<Rightarrow> project_row op" where
  "Project_Update i name slug description is_prod =
     (if \<not> slugPattern slug then throw ErrInvalidSlug
      else ProjectStore_Update i name slug description is_prod)"

definition Project_Delete :: "int \<Rightarrow> unit op" where
  "Project_Delete i = seq_eff (ProjectStore_SoftDelete i) (ret ())"

section \<open>Projects and templates stay consistent\<close>

definition catalogue_inv :: "assets \<Rightarrow> bool" where
  "catalogue_inv a \<longleftrightarrow>
     wf_tbl pj_id (projects a) \<and> distinct (map pj_name (rows (projects a))) \<and>
     distinct (map pj_slug (rows (projects a))) \<and> (\<forall>p \<in> set (rows (projects a)). slugPattern (pj_slug p)) \<and>
     wf_tbl tp_id (templates a) \<and>
     distinct (map (\<lambda>t. (tp_project_id t, tp_name t)) (rows (templates a))) \<and>
     (\<forall>t \<in> set (rows (templates a)). tp_project_id t \<in> pj_id ` set (rows (projects a)))"

lemma inv_project_insert:
  assumes "catalogue_inv a" and "project_conflict (seq (projects a) + 1) (pj_name x) (pj_slug x) a = None"
  shows "catalogue_inv (projects_update (tbl_insert (\<lambda>i. x\<lparr>pj_id := i, pj_deleted_at := None\<rparr>)) a)"
proof -
  have fresh: "pj_id q \<noteq> seq (projects a) + 1" if "q \<in> set (rows (projects a))" for q
    using assms(1) that by (force simp: catalogue_inv_def wf_tbl_def)
  then have new: "pj_name x \<notin> pj_name ` set (rows (projects a))" "pj_slug x \<notin> pj_slug ` set (rows (projects a))"
    "slugPattern (pj_slug x)"
    using assms(2) by (auto simp: project_conflict_def list_ex_iff split: if_splits)
  with assms(1) show ?thesis
    by (auto simp: catalogue_inv_def rows_insert_iff intro!: wf_insert distinct_insert)
qed

lemma inv_project_update:
  assumes "catalogue_inv a" and "project_conflict i name slug a = None"
    and "\<And>p. pj_id (f p) = pj_id p" and "\<And>p. pj_name (f p) = name" and "\<And>p. pj_slug (f p) = slug"
  shows "catalogue_inv (projects_update (tbl_update (live_project i) f) a)"
proof -
  let ?t = "tbl_update (live_project i) f (projects a)"
  have other: "pj_name q \<noteq> name \<and> pj_slug q \<noteq> slug" if "q \<in> set (rows (projects a))" "pj_id q \<noteq> i" for q
    using assms(2) that by (auto simp: project_conflict_def list_ex_iff split: if_splits)
  have "distinct (map pj_name (rows ?t))"
    by (rule distinct_tbl_update [where key = pj_id and i = i and n = "\<lambda>p. name"])
      (use assms other in \<open>auto simp: catalogue_inv_def live_project_def\<close>)
  moreover have "distinct (map pj_slug (rows ?t))"
    by (rule distinct_tbl_update [where key = pj_id and i = i and n = "\<lambda>p. slug"])
      (use assms other in \<open>auto simp: catalogue_inv_def live_project_def\<close>)
  moreover have "wf_tbl pj_id ?t" using assms(1,3) by (auto simp: catalogue_inv_def intro: wf_update)
  moreover have "pj_id ` set (rows ?t) = pj_id ` set (rows (projects a))"
    using assms(3) by (rule image_rows_update)
  moreover have "slugPattern (pj_slug p)" if "p \<in> set (rows ?t)" for p
    using that assms(1,2,5) by (auto simp: catalogue_inv_def rows_update_iff project_conflict_def split: if_splits)
  ultimately show ?thesis using assms(1) by (simp add: catalogue_inv_def)
qed

lemma inv_project_delete:
  assumes "catalogue_inv a"
  shows "catalogue_inv (projects_update (tbl_update (live_project i) (\<lambda>p. p\<lparr>pj_deleted_at := Some n\<rparr>)) a)"
proof -
  let ?f = "\<lambda>p. p\<lparr>pj_deleted_at := Some n\<rparr>"
  have "map pj_name (rows (tbl_update (live_project i) ?f (projects a))) = map pj_name (rows (projects a))"
    "map pj_slug (rows (tbl_update (live_project i) ?f (projects a))) = map pj_slug (rows (projects a))"
    "pj_id ` set (rows (tbl_update (live_project i) ?f (projects a))) = pj_id ` set (rows (projects a))"
    by (rule map_rows_update image_rows_update; simp)+
  moreover have "wf_tbl pj_id (tbl_update (live_project i) ?f (projects a))"
    using assms by (auto simp: catalogue_inv_def intro: wf_update)
  moreover have "slugPattern (pj_slug p)" if "p \<in> set (rows (tbl_update (live_project i) ?f (projects a)))" for p
    using that assms by (auto simp: catalogue_inv_def rows_update_iff split: if_splits)
  ultimately show ?thesis using assms by (simp add: catalogue_inv_def)
qed

lemma inv_template_insert:
  assumes "catalogue_inv a" and "(tp_project_id x, tp_name x) \<notin>
      (\<lambda>t. (tp_project_id t, tp_name t)) ` set (rows (templates a))"
    and "tp_project_id x \<in> pj_id ` set (rows (projects a))"
  shows "catalogue_inv (templates_update (tbl_insert (\<lambda>i. x\<lparr>tp_id := i, tp_deleted_at := None\<rparr>)) a)"
  using assms by (auto simp: catalogue_inv_def rows_insert_iff intro!: wf_insert distinct_insert)

lemma inv_template_update:
  assumes "catalogue_inv a"
    and "\<And>t. tp_id (f t) = tp_id t" and "\<And>t. tp_project_id (f t) = tp_project_id t"
    and "\<And>t s. t \<in> set (rows (templates a)) \<Longrightarrow> live_template i t \<Longrightarrow> s \<in> set (rows (templates a)) \<Longrightarrow> tp_id s \<noteq> i \<Longrightarrow>
      (tp_project_id s, tp_name s) \<noteq> (tp_project_id t, tp_name (f t))"
  shows "catalogue_inv (templates_update (tbl_update (live_template i) f) a)"
proof -
  let ?t = "tbl_update (live_template i) f (templates a)"
  have "distinct (map (\<lambda>t. (tp_project_id t, tp_name t)) (rows ?t))"
    by (rule distinct_tbl_update [where key = tp_id and i = i and n = "\<lambda>t. (tp_project_id t, tp_name (f t))"])
      (use assms in \<open>auto simp: catalogue_inv_def live_template_def\<close>)
  moreover have "wf_tbl tp_id ?t" using assms(1,2) by (auto simp: catalogue_inv_def intro: wf_update)
  moreover have "tp_project_id s \<in> pj_id ` set (rows (projects a))" if "s \<in> set (rows ?t)" for s
    using that assms(1,3) by (fastforce simp: catalogue_inv_def rows_update_iff split: if_splits)
  ultimately show ?thesis using assms(1) by (simp add: catalogue_inv_def)
qed

lemma step_project_stmts [eff_intro]:
  "keeps (asset_step catalogue_inv) (ProjectStore_Create x)"
  "keeps (asset_step catalogue_inv) (ProjectStore_Update i name slug description is_prod)"
  "keeps (asset_step catalogue_inv) (ProjectStore_SoftDelete i)"
  unfolding ProjectStore_Create_def ProjectStore_Update_def ProjectStore_SoftDelete_def
  by (intro step_insert_row step_update_row inv_project_insert inv_project_update inv_project_delete; simp)+

lemma step_TemplateStore_Create [eff_intro]: "keeps (asset_step catalogue_inv) (TemplateStore_Create t)"
  unfolding TemplateStore_Create_def
  by (intro step_insert_row inv_template_insert) (force simp: list_ex_iff split: if_splits)+

lemma step_TemplateStore_Update [eff_intro]:
  "keeps (asset_step catalogue_inv) (TemplateStore_Update i name description)"
  unfolding TemplateStore_Update_def
proof (intro step_update_row inv_template_update)
  fix n :: int and a :: assets and r t s :: template_row
  assume free: "(if template_name_taken i (tp_project_id r) name a then Some (ErrUnique ''uq_templates_project_name'')
      else None) = None" and r: "r \<in> set (rows (templates a))" "live_template i r"
    and t: "t \<in> set (rows (templates a))" "live_template i t"
    and s: "s \<in> set (rows (templates a))" "tp_id s \<noteq> i" and inv: "catalogue_inv a"
  have "r = t"
    using inv r t by (auto simp: catalogue_inv_def wf_tbl_def live_template_def distinct_map dest: inj_onD)
  with free s show "(tp_project_id s, tp_name s) \<noteq>
      (tp_project_id t, tp_name (t\<lparr>tp_name := name, tp_description := description\<rparr>))"
    by (auto simp: template_name_taken_def list_ex_iff split: if_splits)
qed simp_all

lemma step_TemplateStore_SoftDelete [eff_intro]: "keeps (asset_step catalogue_inv) (TemplateStore_SoftDelete i)"
  unfolding TemplateStore_SoftDelete_def
proof (intro step_update_row inv_template_update)
  fix n :: int and a :: assets and t s :: template_row
  assume "catalogue_inv a" "t \<in> set (rows (templates a))" "live_template i t"
    "s \<in> set (rows (templates a))" "tp_id s \<noteq> i"
  then show "(tp_project_id s, tp_name s) \<noteq> (tp_project_id t, tp_name (t\<lparr>tp_deleted_at := Some n\<rparr>))"
    by (auto simp: catalogue_inv_def live_template_def distinct_map dest: inj_onD)
qed simp_all


end
