(* ===== verification/Record_Templates.thy ===== *)
theory Record_Templates
  imports Asset_Store
begin

text \<open>
  internal/dnstemplate/service.go over store/postgres/dns\_template.go: templates of DNS records with
  \<open>{{variable}}\<close> placeholders. The JSON columns hold what the service marshals into them; a Go map of
  variables is the list of its entries.
\<close>

section \<open>Placeholders\<close>

text \<open>
  The expression \<open>\{\{([a-zA-Z\_][a-zA-Z0-9\_]*)\}\}\<close>: a match at the start of a text, and the
  leftmost non-overlapping matches of a text as its pieces.
\<close>

definition is_letter :: "char \<Rightarrow> bool" where
  "is_letter c \<longleftrightarrow> list_ex (\<lambda>(first, last). first \<le> of_char c \<and> of_char c \<le> last) [(97 :: nat, 122 :: nat), (65, 90), (95, 95)]"

definition is_word :: "char \<Rightarrow> bool" where
  "is_word c \<longleftrightarrow> is_letter c \<or> is_digit c"

definition var_name :: "string \<Rightarrow> bool" where
  "var_name n \<longleftrightarrow> n \<noteq> [] \<and> is_letter (hd n) \<and> list_all is_word n"

definition varPattern :: "string \<Rightarrow> (string \<times> string) option" where
  "varPattern s =
     (let n = takeWhile is_word (drop 2 s); r = dropWhile is_word (drop 2 s) in
      if take 2 s = ''{{'' \<and> var_name n \<and> take 2 r = ''}}'' then Some (n, drop 2 r) else None)"

datatype piece = Lit char | Var string

lemma varPattern_shorter: "varPattern s = Some (n, r) \<Longrightarrow> length r < length s"
proof -
  assume s: "varPattern s = Some (n, r)"
  then have "r = drop 2 (dropWhile is_word (drop 2 s))" "s \<noteq> []"
    by (auto simp: varPattern_def Let_def split: if_splits)
  moreover have "length (dropWhile is_word (drop 2 s)) \<le> length (drop 2 s)" by (rule length_dropWhile_le)
  ultimately show ?thesis by (cases s) auto
qed

function pieces :: "string \<Rightarrow> piece list" where
  "pieces [] = []"
| "pieces (c # cs) = (case varPattern (c # cs) of
     Some (n, r) \<Rightarrow> Var n # pieces r
   | None \<Rightarrow> Lit c # pieces cs)"
  by pat_completeness auto
termination by (relation "measure length") (auto dest: varPattern_shorter)

definition FindAllStringSubmatch :: "string \<Rightarrow> string list" where
  "FindAllStringSubmatch s = concat (map (\<lambda>p. case p of Lit c \<Rightarrow> [] | Var n \<Rightarrow> [n]) (pieces s))"

definition ReplaceAllStringFunc :: "string \<Rightarrow> (string \<Rightarrow> string) \<Rightarrow> string" where
  "ReplaceAllStringFunc s f =
     concat (map (\<lambda>p. case p of Lit c \<Rightarrow> [c] | Var n \<Rightarrow> f (''{{'' @ n @ ''}}'')) (pieces s))"

section \<open>The store\<close>

abbreviation ErrDNSTemplateNotFound :: go_err where
  "ErrDNSTemplateNotFound \<equiv> ErrSentinel ''dns record template not found''"

definition DNSTemplateStore_Create ::
    "string \<Rightarrow> string option \<Rightarrow> template_record list \<Rightarrow> variables \<Rightarrow> record_template_row op" where
  "DNSTemplateStore_Create name description recs vars = insert_row record_templates record_templates_update
     (\<lambda>a. if list_ex (\<lambda>t. rt_name t = name) (rows (record_templates a))
        then Some (ErrUnique ''uq_dns_record_templates_name'') else None)
     (\<lambda>n i. \<lparr>rt_id = i, rt_name = name, rt_description = description, rt_records = recs, rt_variables = vars\<rparr>)"

definition DNSTemplateStore_GetByID :: "int \<Rightarrow> record_template_row op" where
  "DNSTemplateStore_GetByID i =
     asset_get ErrDNSTemplateNotFound (\<lambda>a. tbl_find (\<lambda>t. rt_id t = i) (record_templates a))"

definition DNSTemplateStore_List :: "record_template_row list op" where
  "DNSTemplateStore_List = asset_query (\<lambda>a. sort_key rt_name (rows (record_templates a)))"

definition DNSTemplateStore_Update ::
    "int \<Rightarrow> string \<Rightarrow> string option \<Rightarrow> template_record list \<Rightarrow> variables \<Rightarrow> record_template_row op" where
  "DNSTemplateStore_Update i name description recs vars = update_row record_templates record_templates_update
     (\<lambda>a t. if list_ex (\<lambda>u. rt_id u \<noteq> i \<and> rt_name u = name) (rows (record_templates a))
        then Some (ErrUnique ''uq_dns_record_templates_name'') else None)
     ErrDNSTemplateNotFound (\<lambda>t. rt_id t = i)
     (\<lambda>n t. t\<lparr>rt_name := name, rt_description := description, rt_records := recs, rt_variables := vars\<rparr>)"

definition DNSTemplateStore_Delete :: "int \<Rightarrow> unit op" where
  "DNSTemplateStore_Delete i = asset_stmt (\<lambda>n a.
     if tbl_find (\<lambda>t. rt_id t = i) (record_templates a) = None then (Inl ErrDNSTemplateNotFound, a)
     else (Inr (), a\<lparr>record_templates := tbl_delete (\<lambda>t. rt_id t = i) (record_templates a)\<rparr>))"

section \<open>Rendering\<close>

record rendered_record =
  rd_name :: string
  rd_type :: string
  rd_content :: string
  rd_ttl :: int
  rd_priority :: int

definition put_new :: "string \<Rightarrow> variables \<Rightarrow> variables" where
  "put_new n seen = (if n \<in> fst ` set seen then seen else seen @ [(n, [])])"

definition ExtractVariables :: "template_record list \<Rightarrow> variables" where
  "ExtractVariables records = fold (\<lambda>r seen.
     fold put_new (FindAllStringSubmatch (tr_content r)) (fold put_new (FindAllStringSubmatch (tr_name r)) seen))
     records []"

text \<open>The two braces on each side are cut off the match.\<close>

definition substitute :: "string \<Rightarrow> variables \<Rightarrow> string" where
  "substitute s vars = ReplaceAllStringFunc s (\<lambda>m.
     case map_of vars (take (length m - 4) (drop 2 m)) of Some v \<Rightarrow> v | None \<Rightarrow> m)"

abbreviation ErrMissingVariable :: go_err where
  "ErrMissingVariable \<equiv> ErrSentinel ''missing required variable''"

definition renderRecords :: "template_record list \<Rightarrow> variables \<Rightarrow> go_err + rendered_record list" where
  "renderRecords records vars =
     (let missing = filter (\<lambda>k. map_of vars k = None) (map fst (ExtractVariables records)) in
      if length missing > 0 then Inl ErrMissingVariable
      else Inr (map (\<lambda>r. \<lparr>rd_name = substitute (tr_name r) vars, rd_type = ToUpper (tr_type r),
        rd_content = substitute (tr_content r) vars, rd_ttl = tr_ttl r, rd_priority = tr_priority r\<rparr>) records))"

section \<open>The service\<close>

abbreviation ErrNoDNSTemplate :: go_err where
  "ErrNoDNSTemplate \<equiv> ErrSentinel ''dns template not found''"

abbreviation ErrInvalidTemplate :: go_err where
  "ErrInvalidTemplate \<equiv> ErrSentinel ''invalid template''"

definition not_found_as :: "go_err \<Rightarrow> go_err \<Rightarrow> 'a op \<Rightarrow> 'a op" where
  "not_found_as e e' m = bnd (attempt m) (\<lambda>r. case r of
     Inl x \<Rightarrow> throw (if x = e then e' else x) | Inr y \<Rightarrow> ret y)"

text \<open>\<open>None\<close>: no variables in the request.\<close>

definition DNSTemplate_Create ::
    "string \<Rightarrow> string option \<Rightarrow> template_record list \<Rightarrow> variables option \<Rightarrow> record_template_row op" where
  "DNSTemplate_Create name description records vars =
     (if TrimSpace name = [] then throw ErrInvalidTemplate
      else DNSTemplateStore_Create name description records
        (case vars of None \<Rightarrow> ExtractVariables records | Some vs \<Rightarrow> vs))"

definition DNSTemplate_Get :: "int \<Rightarrow> record_template_row op" where
  "DNSTemplate_Get i = not_found_as ErrDNSTemplateNotFound ErrNoDNSTemplate (DNSTemplateStore_GetByID i)"

definition DNSTemplate_Update ::
    "int \<Rightarrow> string \<Rightarrow> string option \<Rightarrow> template_record list \<Rightarrow> variables option \<Rightarrow> record_template_row op" where
  "DNSTemplate_Update i name description records vars =
     (if TrimSpace name = [] then throw ErrInvalidTemplate
      else not_found_as ErrDNSTemplateNotFound ErrNoDNSTemplate
        (DNSTemplateStore_Update i name description records
           (case vars of None \<Rightarrow> ExtractVariables records | Some vs \<Rightarrow> vs)))"

definition DNSTemplate_Delete :: "int \<Rightarrow> unit op" where
  "DNSTemplate_Delete i = not_found_as ErrDNSTemplateNotFound ErrNoDNSTemplate (DNSTemplateStore_Delete i)"

definition ApplyTemplate :: "int \<Rightarrow> variables \<Rightarrow> rendered_record list op" where
  "ApplyTemplate i provided = bnd (DNSTemplate_Get i) (\<lambda>t. answer (renderRecords (rt_records t) provided))"

section \<open>Leftmost matches\<close>

text \<open>
  The declarative reading of the pieces: they put together give the text, the names are names, and
  no placeholder starts at a character that is kept.
\<close>

fun unparse :: "piece list \<Rightarrow> string" where
  "unparse [] = []"
| "unparse (Lit c # ps) = c # unparse ps"
| "unparse (Var n # ps) = ''{{'' @ n @ ''}}'' @ unparse ps"

definition placeholder_at :: "string \<Rightarrow> bool" where
  "placeholder_at s \<longleftrightarrow> (\<exists>n r. var_name n \<and> s = ''{{'' @ n @ ''}}'' @ r)"

fun leftmost :: "piece list \<Rightarrow> bool" where
  "leftmost [] \<longleftrightarrow> True"
| "leftmost (Lit c # ps) \<longleftrightarrow> \<not> placeholder_at (c # unparse ps) \<and> leftmost ps"
| "leftmost (Var n # ps) \<longleftrightarrow> var_name n \<and> leftmost ps"

lemma brace_no_word: "\<not> is_word (CHR ''}'')"
  by (simp add: is_word_def is_letter_def is_digit_def)

lemma varPattern_iff: "varPattern s = Some (n, r) \<longleftrightarrow> var_name n \<and> s = ''{{'' @ n @ ''}}'' @ r"
proof
  assume "varPattern s = Some (n, r)"
  then have s: "take 2 s = ''{{''" "n = takeWhile is_word (drop 2 s)" "var_name n"
    "take 2 (dropWhile is_word (drop 2 s)) = ''}}''" "r = drop 2 (dropWhile is_word (drop 2 s))"
    by (auto simp: varPattern_def Let_def split: if_splits)
  have "s = ''{{'' @ drop 2 s" using s(1) by (metis append_take_drop_id)
  moreover have "drop 2 s = n @ dropWhile is_word (drop 2 s)" using s(2) by simp
  moreover have "dropWhile is_word (drop 2 s) = ''}}'' @ r" using s(4,5) by (metis append_take_drop_id)
  ultimately show "var_name n \<and> s = ''{{'' @ n @ ''}}'' @ r" using s(3) by metis
next
  assume n: "var_name n \<and> s = ''{{'' @ n @ ''}}'' @ r"
  then have "list_all is_word n" by (simp add: var_name_def)
  then have "takeWhile is_word (n @ ''}}'' @ r) = n" "dropWhile is_word (n @ ''}}'' @ r) = ''}}'' @ r"
    using brace_no_word by (induction n) simp_all
  with n show "varPattern s = Some (n, r)" by (simp add: varPattern_def)
qed

lemma varPattern_None: "varPattern s = None \<longleftrightarrow> \<not> placeholder_at s"
  using varPattern_iff [of s] by (cases "varPattern s") (auto simp: placeholder_at_def)

lemma unparse_pieces: "unparse (pieces s) = s \<and> leftmost (pieces s)"
proof (induction s rule: pieces.induct)
  case (2 c cs)
  show ?case
  proof (cases "varPattern (c # cs)")
    case None
    then have "\<not> placeholder_at (c # cs)" by (simp add: varPattern_None)
    with 2(1) [OF None] None show ?thesis by simp
  next
    case (Some m)
    obtain n r where m: "m = (n, r)" by (cases m)
    with Some have "var_name n" "c # cs = ''{{'' @ n @ ''}}'' @ r" by (simp_all add: varPattern_iff)
    with 2 Some m show ?thesis by simp
  qed
qed simp

lemma pieces_unparse: "leftmost ps \<Longrightarrow> pieces (unparse ps) = ps"
proof (induction ps rule: unparse.induct)
  case (2 c ps)
  then have "varPattern (c # unparse ps) = None" by (simp add: varPattern_None)
  with 2 show ?case by simp
next
  case (3 n ps)
  then have "varPattern (''{{'' @ n @ ''}}'' @ unparse ps) = Some (n, unparse ps)"
    by (simp only: varPattern_iff) simp
  with 3 show ?case by simp
qed simp

lemma pieces_iff: "ps = pieces s \<longleftrightarrow> unparse ps = s \<and> leftmost ps"
  using unparse_pieces pieces_unparse by metis

section \<open>What rendering does\<close>

definition names_in :: "piece list \<Rightarrow> string set" where
  "names_in ps = {n. Var n \<in> set ps}"

definition fill :: "variables \<Rightarrow> piece list \<Rightarrow> string" where
  "fill vars ps = concat (map (\<lambda>p. case p of Lit c \<Rightarrow> [c] | Var n \<Rightarrow> (case map_of vars n of
     Some v \<Rightarrow> v | None \<Rightarrow> ''{{'' @ n @ ''}}'')) ps)"

lemma substitute_fill: "substitute s vars = fill vars (pieces s)"
  by (simp add: substitute_def ReplaceAllStringFunc_def fill_def cong: piece.case_cong)

lemma find_all_names: "set (FindAllStringSubmatch s) = names_in (pieces s)"
  by (force simp: FindAllStringSubmatch_def names_in_def split: piece.splits)

lemma put_new_keys: "fst ` set (put_new n seen) = insert n (fst ` set seen)"
  by (auto simp: put_new_def)

lemma put_all_new_keys: "fst ` set (fold put_new ns seen) = set ns \<union> fst ` set seen"
  by (induction ns arbitrary: seen) (auto simp: put_new_keys)

lemma extract_keys:
  "fst ` set (ExtractVariables rs) =
     (\<Union>r \<in> set rs. names_in (pieces (tr_name r)) \<union> names_in (pieces (tr_content r)))"
proof -
  have "fst ` set (fold (\<lambda>r seen. fold put_new (FindAllStringSubmatch (tr_content r))
      (fold put_new (FindAllStringSubmatch (tr_name r)) seen)) rs seen) =
    (\<Union>r \<in> set rs. names_in (pieces (tr_name r)) \<union> names_in (pieces (tr_content r))) \<union> fst ` set seen" for seen
    by (induction rs arbitrary: seen) (auto simp: put_all_new_keys find_all_names)
  then show ?thesis by (simp add: ExtractVariables_def)
qed

definition decomposed :: "template_record \<Rightarrow> piece list \<times> piece list \<Rightarrow> bool" where
  "decomposed r pq \<longleftrightarrow> unparse (fst pq) = tr_name r \<and> leftmost (fst pq) \<and>
     unparse (snd pq) = tr_content r \<and> leftmost (snd pq)"

lemma decomposed_iff: "decomposed r pq \<longleftrightarrow> pq = (pieces (tr_name r), pieces (tr_content r))"
  by (cases pq) (auto simp: decomposed_def pieces_iff)

definition all_bound :: "variables \<Rightarrow> piece list \<times> piece list \<Rightarrow> bool" where
  "all_bound vars pq \<longleftrightarrow> names_in (fst pq) \<union> names_in (snd pq) \<subseteq> fst ` set vars"

text \<open>
  C34: Rendering is substitution. Cut the name and the content of every record into characters and the
  leftmost placeholders: rendering fails exactly if some placeholder has no value, and otherwise puts
  the values in place of the placeholders and keeps every other character, without looking again at what
  it has put in.
\<close>

theorem renderRecords_exact:
  assumes "list_all2 decomposed rs pqs"
  shows "renderRecords rs vars =
    (if list_all (all_bound vars) pqs
     then Inr (map2 (\<lambda>r (p, q). \<lparr>rd_name = fill vars p, rd_type = ToUpper (tr_type r),
       rd_content = fill vars q, rd_ttl = tr_ttl r, rd_priority = tr_priority r\<rparr>) rs pqs)
     else Inl ErrMissingVariable)"
proof -
  have pqs: "pqs = map (\<lambda>r. (pieces (tr_name r), pieces (tr_content r))) rs"
    using assms by (induction rule: list_all2_induct) (simp_all add: decomposed_iff)
  have "filter (\<lambda>k. map_of vars k = None) (map fst (ExtractVariables rs)) = [] \<longleftrightarrow>
      fst ` set (ExtractVariables rs) \<subseteq> fst ` set vars"
    by (auto simp: filter_empty_conv map_of_eq_None_iff)
  also have "\<dots> \<longleftrightarrow> list_all (all_bound vars) pqs"
    by (auto simp: extract_keys pqs all_bound_def list_all_iff)
  finally have missing: "filter (\<lambda>k. map_of vars k = None) (map fst (ExtractVariables rs)) = [] \<longleftrightarrow>
      list_all (all_bound vars) pqs" .
  have "map2 (\<lambda>r (p, q). \<lparr>rd_name = fill vars p, rd_type = ToUpper (tr_type r),
       rd_content = fill vars q, rd_ttl = tr_ttl r, rd_priority = tr_priority r\<rparr>) rs pqs =
     map (\<lambda>r. \<lparr>rd_name = substitute (tr_name r) vars, rd_type = ToUpper (tr_type r),
       rd_content = substitute (tr_content r) vars, rd_ttl = tr_ttl r, rd_priority = tr_priority r\<rparr>) rs"
    unfolding pqs by (simp add: map2_map_map [of _ "\<lambda>r. r", simplified] substitute_fill)
  with missing show ?thesis by (auto simp: renderRecords_def Let_def)
qed

theorem renderRecords_exact_witness:
  "renderRecords [\<lparr>tr_name = ''{{{host}}'', tr_type = ''a'', tr_content = ''{{ip}}'', tr_ttl = 300,
       tr_priority = 0\<rparr>] [(''ip'', ''{{host}}''), (''host'', ''www'')] =
     Inr [\<lparr>rd_name = ''{www'', rd_type = ''A'', rd_content = ''{{host}}'', rd_ttl = 300, rd_priority = 0\<rparr>]"
proof -
  let ?rs = "[\<lparr>tr_name = ''{{{host}}'', tr_type = ''a'', tr_content = ''{{ip}}'', tr_ttl = 300, tr_priority = 0\<rparr>]"
  let ?pqs = "[([Lit (CHR ''{''), Var ''host''], [Var ''ip''])]"
  have "pieces ''{{{host}}'' = [Lit (CHR ''{''), Var ''host'']" "pieces ''{{ip}}'' = [Var ''ip'']"
    by code_simp+
  then have "list_all2 decomposed ?rs ?pqs" by (simp add: decomposed_iff)
  moreover have "all_bound [(''ip'', ''{{host}}''), (''host'', ''www'')] ([Lit (CHR ''{''), Var ''host''], [Var ''ip''])"
    by (auto simp: all_bound_def names_in_def)
  moreover have "ToUpper ''a'' = ''A''" by code_simp
  ultimately show ?thesis
    using renderRecords_exact [of ?rs ?pqs "[(''ip'', ''{{host}}''), (''host'', ''www'')]"]
    by (simp add: fill_def)
qed

end
