(* ===== verification/Cdn.thy ===== *)
theory Cdn
  imports Asset_Store
begin

text \<open>
  internal/cdn/service.go and internal/cdndomain/service.go over store/postgres/cdn.go and cdn\_binding.go:
  CDN providers with their accounts, and the binding of domains to accounts. The client of a CDN is a
  parameter, the answers of its methods, from the type of the provider and the credentials of the account. The
  sentinel errors of the store and those of the service that stand for them are one error here.
\<close>

section \<open>Errors\<close>

abbreviation ErrCDNProviderNotFound :: go_err where
  "ErrCDNProviderNotFound \<equiv> ErrSentinel ''cdn provider not found''"

abbreviation ErrCDNAccountNotFound :: go_err where
  "ErrCDNAccountNotFound \<equiv> ErrSentinel ''cdn account not found''"

abbreviation ErrCDNProviderHasDependents :: go_err where
  "ErrCDNProviderHasDependents \<equiv> ErrSentinel ''cdn provider has dependent accounts or domains''"

abbreviation ErrCDNAccountHasDependents :: go_err where
  "ErrCDNAccountHasDependents \<equiv> ErrSentinel ''cdn account is assigned to one or more domains''"

abbreviation ErrCDNProviderDuplicate :: go_err where
  "ErrCDNProviderDuplicate \<equiv> ErrSentinel ''cdn provider with this type and name already exists''"

abbreviation ErrCDNAccountDuplicate :: go_err where
  "ErrCDNAccountDuplicate \<equiv> ErrSentinel ''cdn account name already exists for this provider''"

abbreviation ErrCDNBindingNotFound :: go_err where
  "ErrCDNBindingNotFound \<equiv> ErrSentinel ''cdn binding not found''"

abbreviation ErrCDNBindingAlreadyExists :: go_err where
  "ErrCDNBindingAlreadyExists \<equiv> ErrSentinel ''cdn binding already exists for this domain and account''"

abbreviation ErrCDNDomainAlreadyExists :: go_err where
  "ErrCDNDomainAlreadyExists \<equiv> ErrSentinel ''cdn domain already exists''"

abbreviation ErrCDNDomainNotFound :: go_err where
  "ErrCDNDomainNotFound \<equiv> ErrSentinel ''cdn domain not found''"

section \<open>Providers and accounts: the store\<close>

definition live_cdn_provider :: "int \<Rightarrow> cdn_provider_row \<Rightarrow> bool" where
  "live_cdn_provider i r \<longleftrightarrow> cp_id r = i \<and> cp_deleted_at r = None"

definition live_cdn_account :: "int \<Rightarrow> cdn_account_row \<Rightarrow> bool" where
  "live_cdn_account i r \<longleftrightarrow> cn_id r = i \<and> cn_deleted_at r = None"

text \<open>The unique constraints count deleted rows. \<open>own\<close>: the row that is written.\<close>

definition cdn_provider_conflict :: "int \<Rightarrow> string \<Rightarrow> string \<Rightarrow> assets \<Rightarrow> go_err option" where
  "cdn_provider_conflict own ty n a =
     (if list_ex (\<lambda>r. cp_id r \<noteq> own \<and> cp_provider_type r = ty \<and> cp_name r = n) (rows (cdn_providers a))
      then Some ErrCDNProviderDuplicate else None)"

definition cdn_account_conflict :: "int \<Rightarrow> int \<Rightarrow> string \<Rightarrow> assets \<Rightarrow> go_err option" where
  "cdn_account_conflict own p n a =
     (if list_ex (\<lambda>r. cn_id r \<noteq> own \<and> cn_cdn_provider_id r = p \<and> cn_account_name r = n) (rows (cdn_accounts a))
      then Some ErrCDNAccountDuplicate else None)"

definition CDNStore_CreateProvider :: "cdn_provider_row \<Rightarrow> cdn_provider_row op" where
  "CDNStore_CreateProvider p = insert_row cdn_providers cdn_providers_update
     (\<lambda>a. cdn_provider_conflict (seq (cdn_providers a) + 1) (cp_provider_type p) (cp_name p) a)
     (\<lambda>t i. p\<lparr>cp_id := i, cp_deleted_at := None\<rparr>)"

definition CDNStore_GetProviderByID :: "int \<Rightarrow> cdn_provider_row op" where
  "CDNStore_GetProviderByID i =
     asset_get ErrCDNProviderNotFound (\<lambda>a. tbl_find (live_cdn_provider i) (cdn_providers a))"

definition CDNStore_ListProviders :: "cdn_provider_row list op" where
  "CDNStore_ListProviders = asset_query (\<lambda>a.
     sort_key cp_name (tbl_select (\<lambda>r. cp_deleted_at r = None) (cdn_providers a)))"

definition CDNStore_UpdateProvider :: "cdn_provider_row \<Rightarrow> cdn_provider_row op" where
  "CDNStore_UpdateProvider p = update_row cdn_providers cdn_providers_update
     (\<lambda>a r. cdn_provider_conflict (cp_id p) (cp_provider_type p) (cp_name p) a)
     ErrCDNProviderNotFound (live_cdn_provider (cp_id p))
     (\<lambda>t r. r\<lparr>cp_name := cp_name p, cp_provider_type := cp_provider_type p, cp_description := cp_description p\<rparr>)"

definition live_accounts_of :: "int \<Rightarrow> assets \<Rightarrow> cdn_account_row list" where
  "live_accounts_of i a = tbl_select (\<lambda>r. cn_cdn_provider_id r = i \<and> cn_deleted_at r = None) (cdn_accounts a)"

definition CountAccountsByProvider :: "int \<Rightarrow> int op" where
  "CountAccountsByProvider i = asset_query (\<lambda>a. int (length (live_accounts_of i a)))"

definition CDNStore_SoftDeleteProvider :: "int \<Rightarrow> unit op" where
  "CDNStore_SoftDeleteProvider i = bnd (CountAccountsByProvider i) (\<lambda>n.
     if n > 0 then throw ErrCDNProviderHasDependents
     else seq_eff (update_row cdn_providers cdn_providers_update (\<lambda>a r. None) ErrCDNProviderNotFound
         (live_cdn_provider i) (\<lambda>t r. r\<lparr>cp_deleted_at := Some t\<rparr>))
       (ret ()))"

definition CDNStore_CreateAccount :: "cdn_account_row \<Rightarrow> cdn_account_row op" where
  "CDNStore_CreateAccount x = insert_row cdn_accounts cdn_accounts_update
     (\<lambda>a. cdn_account_conflict (seq (cdn_accounts a) + 1) (cn_cdn_provider_id x) (cn_account_name x) a)
     (\<lambda>t i. x\<lparr>cn_id := i, cn_deleted_at := None\<rparr>)"

definition CDNStore_GetAccountByID :: "int \<Rightarrow> cdn_account_row op" where
  "CDNStore_GetAccountByID i =
     asset_get ErrCDNAccountNotFound (\<lambda>a. tbl_find (live_cdn_account i) (cdn_accounts a))"

definition CDNStore_ListAccountsByProvider :: "int \<Rightarrow> cdn_account_row list op" where
  "CDNStore_ListAccountsByProvider i = asset_query (\<lambda>a. sort_key cn_account_name (live_accounts_of i a))"

definition CDNStore_ListAllAccounts :: "cdn_account_row list op" where
  "CDNStore_ListAllAccounts = asset_query (\<lambda>a. sort_key cn_cdn_provider_id (sort_key cn_account_name
     (tbl_select (\<lambda>r. cn_deleted_at r = None \<and> cn_enabled r) (cdn_accounts a))))"

definition CDNStore_UpdateAccount :: "cdn_account_row \<Rightarrow> cdn_account_row op" where
  "CDNStore_UpdateAccount x = update_row cdn_accounts cdn_accounts_update
     (\<lambda>a r. cdn_account_conflict (cn_id x) (cn_cdn_provider_id r) (cn_account_name x) a)
     ErrCDNAccountNotFound (live_cdn_account (cn_id x))
     (\<lambda>t r. r\<lparr>cn_account_name := cn_account_name x, cn_credentials := cn_credentials x, cn_notes := cn_notes x,
        cn_enabled := cn_enabled x\<rparr>)"

definition CountDomainsByAccount :: "int \<Rightarrow> int op" where
  "CountDomainsByAccount i = query (\<lambda>w. int (length
     (tbl_select (\<lambda>d. d_cdn_account_id d = Some i \<and> d_deleted_at d = None) (domains w))))"

definition CDNStore_SoftDeleteAccount :: "int \<Rightarrow> unit op" where
  "CDNStore_SoftDeleteAccount i = bnd (CountDomainsByAccount i) (\<lambda>n.
     if n > 0 then throw ErrCDNAccountHasDependents
     else seq_eff (update_row cdn_accounts cdn_accounts_update (\<lambda>a r. None) ErrCDNAccountNotFound
         (live_cdn_account i) (\<lambda>t r. r\<lparr>cn_deleted_at := Some t\<rparr>))
       (ret ()))"

section \<open>Providers and accounts: the service\<close>

definition allowedProviderTypes :: "string list" where
  "allowedProviderTypes = [''cloudflare'', ''juhe'', ''wangsu'', ''baishan'', ''tencent_cdn'', ''huawei_cdn'',
     ''aliyun_cdn'', ''fastly'', ''other'']"

text \<open>The checks of \<open>CreateProvider\<close> and \<open>UpdateProvider\<close>.\<close>

definition check_cdn_provider :: "cdn_provider_row \<Rightarrow> cdn_provider_row op" where
  "check_cdn_provider p =
     (if TrimSpace (cp_name p) = [] then throw (ErrMsg ''cdn provider name is required'')
      else if cp_provider_type p \<notin> set allowedProviderTypes then throw (ErrMsg ''unsupported provider_type'')
      else ret (p\<lparr>cp_name := TrimSpace (cp_name p)\<rparr>))"

definition CreateCDNProvider :: "cdn_provider_row \<Rightarrow> cdn_provider_row op" where
  "CreateCDNProvider inp = bnd (check_cdn_provider inp) CDNStore_CreateProvider"

definition UpdateCDNProvider :: "cdn_provider_row \<Rightarrow> cdn_provider_row op" where
  "UpdateCDNProvider inp = bnd (check_cdn_provider inp) CDNStore_UpdateProvider"

definition default_credentials :: "string \<Rightarrow> string" where
  "default_credentials c = (if length c = 0 then ''{}'' else c)"

definition CreateCDNAccount :: "cdn_account_row \<Rightarrow> cdn_account_row op" where
  "CreateCDNAccount inp =
     (if TrimSpace (cn_account_name inp) = [] then throw (ErrMsg ''cdn account name is required'')
      else seq_eff (CDNStore_GetProviderByID (cn_cdn_provider_id inp))
        (CDNStore_CreateAccount (inp\<lparr>cn_account_name := TrimSpace (cn_account_name inp),
           cn_credentials := default_credentials (cn_credentials inp)\<rparr>)))"

text \<open>An update without credentials replaces the stored ones by the empty object.\<close>

definition UpdateCDNAccount :: "cdn_account_row \<Rightarrow> cdn_account_row op" where
  "UpdateCDNAccount inp =
     (if TrimSpace (cn_account_name inp) = [] then throw (ErrMsg ''cdn account name is required'')
      else CDNStore_UpdateAccount (inp\<lparr>cn_account_name := TrimSpace (cn_account_name inp),
        cn_credentials := default_credentials (cn_credentials inp)\<rparr>))"

section \<open>Bindings: the store\<close>

definition live_binding :: "int \<Rightarrow> cdn_binding_row \<Rightarrow> bool" where
  "live_binding i b \<longleftrightarrow> cb_id b = i \<and> cb_deleted_at b = None"

definition binds :: "int \<Rightarrow> int \<Rightarrow> cdn_binding_row \<Rightarrow> bool" where
  "binds d i b \<longleftrightarrow> cb_domain_id b = d \<and> cb_cdn_account_id b = i \<and> cb_deleted_at b = None"

text \<open>The partial unique index \<open>uq\_active\_domain\_cdn\_binding\<close>.\<close>

definition CreateBinding :: "cdn_binding_row \<Rightarrow> cdn_binding_row op" where
  "CreateBinding b = insert_row cdn_bindings cdn_bindings_update
     (\<lambda>a. if list_ex (binds (cb_domain_id b) (cb_cdn_account_id b)) (rows (cdn_bindings a))
        then Some ErrCDNBindingAlreadyExists else None)
     (\<lambda>t i. b\<lparr>cb_id := i, cb_created_at := t, cb_deleted_at := None\<rparr>)"

definition GetBindingByID :: "int \<Rightarrow> cdn_binding_row op" where
  "GetBindingByID i = asset_get ErrCDNBindingNotFound (\<lambda>a. tbl_find (live_binding i) (cdn_bindings a))"

definition GetBindingByDomainAndAccount :: "int \<Rightarrow> int \<Rightarrow> cdn_binding_row op" where
  "GetBindingByDomainAndAccount d i =
     asset_get ErrCDNBindingNotFound (\<lambda>a. tbl_find (binds d i) (cdn_bindings a))"

definition ListBindingsByDomain :: "int \<Rightarrow> cdn_binding_row list op" where
  "ListBindingsByDomain d = asset_query (\<lambda>a. sort_key cb_created_at
     (tbl_select (\<lambda>b. cb_domain_id b = d \<and> cb_deleted_at b = None) (cdn_bindings a)))"

definition given_text :: "string \<Rightarrow> string option" where
  "given_text s = (if s \<noteq> [] then Some s else None)"

definition UpdateBindingStatus :: "int \<Rightarrow> string \<Rightarrow> string \<Rightarrow> cdn_binding_row op" where
  "UpdateBindingStatus i status cname = update_row cdn_bindings cdn_bindings_update (\<lambda>a b. None)
     ErrCDNBindingNotFound (live_binding i) (\<lambda>t b. b\<lparr>cb_status := status, cb_cname := given_text cname\<rparr>)"

definition SoftDeleteBinding :: "int \<Rightarrow> unit op" where
  "SoftDeleteBinding i = seq_eff (update_row cdn_bindings cdn_bindings_update (\<lambda>a b. None)
     ErrCDNBindingNotFound (live_binding i) (\<lambda>t b. b\<lparr>cb_deleted_at := Some t\<rparr>)) (ret ())"

text \<open>Configurations: one row per binding and type. A missing configuration is the empty object.\<close>

definition is_config :: "int \<Rightarrow> string \<Rightarrow> cdn_config_row \<Rightarrow> bool" where
  "is_config b ty c \<longleftrightarrow> cg_binding_id c = b \<and> cg_config_type c = ty"

definition UpsertConfig :: "int \<Rightarrow> string \<Rightarrow> string option \<Rightarrow> cdn_config_row op" where
  "UpsertConfig b ty config =
     (let js = (case config of None \<Rightarrow> ''{}'' | Some c \<Rightarrow> c) in
      on_conflict ''cdn_domain_configs'' [''binding_id'', ''config_type''] (\<lambda>t a.
        case tbl_find (is_config b ty) (cdn_configs a) of
          Some c \<Rightarrow> (Inr (c\<lparr>cg_config := js, cg_synced_at := Some t\<rparr>),
            a\<lparr>cdn_configs := tbl_update (is_config b ty)
              (\<lambda>c. c\<lparr>cg_config := js, cg_synced_at := Some t\<rparr>) (cdn_configs a)\<rparr>)
        | None \<Rightarrow>
            (let mk = (\<lambda>i. \<lparr>cg_id = i, cg_binding_id = b, cg_config_type = ty, cg_config = js, cg_synced_at = Some t\<rparr>)
             in (Inr (mk (seq (cdn_configs a) + 1)), a\<lparr>cdn_configs := tbl_insert mk (cdn_configs a)\<rparr>))))"

definition GetConfig :: "int \<Rightarrow> string \<Rightarrow> cdn_config_row op" where
  "GetConfig b ty = asset_get (ErrSentinel ''cdn domain config not found'')
     (\<lambda>a. tbl_find (is_config b ty) (cdn_configs a))"

definition ListConfigs :: "int \<Rightarrow> cdn_config_row list op" where
  "ListConfigs b = asset_query (\<lambda>a.
     sort_key cg_config_type (tbl_select (\<lambda>c. cg_binding_id c = b) (cdn_configs a)))"

text \<open>Content tasks.\<close>

definition CreateContentTask :: "cdn_task_row \<Rightarrow> cdn_task_row op" where
  "CreateContentTask x = insert_row cdn_tasks cdn_tasks_update (\<lambda>a. None)
     (\<lambda>t i. x\<lparr>cw_id := i, cw_created_at := t, cw_completed_at := None\<rparr>)"

abbreviation ErrCDNContentTaskNotFound :: go_err where
  "ErrCDNContentTaskNotFound \<equiv> ErrSentinel ''cdn content task not found''"

definition GetContentTaskByID :: "int \<Rightarrow> cdn_task_row op" where
  "GetContentTaskByID i = asset_get ErrCDNContentTaskNotFound (\<lambda>a. tbl_find (\<lambda>x. cw_id x = i) (cdn_tasks a))"

definition UpdateContentTaskStatus :: "int \<Rightarrow> string \<Rightarrow> string option \<Rightarrow> cdn_task_row op" where
  "UpdateContentTaskStatus i status ptid = update_row cdn_tasks cdn_tasks_update (\<lambda>a x. None)
     ErrCDNContentTaskNotFound (\<lambda>x. cw_id x = i)
     (\<lambda>t x. x\<lparr>cw_status := status,
        cw_provider_task_id := (case ptid of None \<Rightarrow> cw_provider_task_id x | Some p \<Rightarrow> Some p),
        cw_completed_at := (if status = ''done'' \<or> status = ''failed'' then Some t else None)\<rparr>)"

definition ListContentTasksByBinding :: "int \<Rightarrow> cdn_task_row list op" where
  "ListContentTasksByBinding b = asset_query (\<lambda>a.
     sort_key (\<lambda>x. - cw_created_at x) (tbl_select (\<lambda>x. cw_binding_id x = b) (cdn_tasks a)))"

section \<open>Bindings: the service\<close>

record cdn_domain =
  kd_domain :: string
  kd_cname :: string
  kd_status :: string
  kd_business_type :: string

text \<open>The methods the service calls; the request of \<open>AddDomain\<close> carries no origin.\<close>

record cdn_client =
  kc_AddDomain :: "string \<Rightarrow> string \<Rightarrow> go_err + cdn_domain"
  kc_RemoveDomain :: "string \<Rightarrow> go_err + unit"
  kc_GetDomain :: "string \<Rightarrow> go_err + cdn_domain"

type_synonym cdn_clients = "string \<Rightarrow> string \<Rightarrow> go_err + cdn_client"

definition resolve_cdn :: "cdn_clients \<Rightarrow> int \<Rightarrow> (cdn_client \<times> cdn_account_row) op" where
  "resolve_cdn cl i =
     bnd (CDNStore_GetAccountByID i) (\<lambda>account.
     bnd (CDNStore_GetProviderByID (cn_cdn_provider_id account)) (\<lambda>parent.
     bnd (answer (cl (cp_provider_type parent) (cn_credentials account))) (\<lambda>p. ret (p, account))))"

definition add_domain :: "cdn_client \<Rightarrow> string \<Rightarrow> string \<Rightarrow> go_err + cdn_domain" where
  "add_domain p fqdn business = (case kc_AddDomain p fqdn business of
       Inr x \<Rightarrow> Inr x
     | Inl e \<Rightarrow> if e = ErrCDNDomainAlreadyExists then kc_GetDomain p fqdn else Inl e)"

definition binding_of :: "int \<Rightarrow> int \<Rightarrow> string \<Rightarrow> cdn_domain \<Rightarrow> cdn_binding_row" where
  "binding_of d i business x = \<lparr>cb_id = 0, cb_domain_id = d, cb_cdn_account_id = i,
     cb_cname = given_text (kd_cname x), cb_business_type = business, cb_status = kd_status x,
     cb_created_at = 0, cb_deleted_at = None\<rparr>"

definition or_web :: "string \<Rightarrow> string" where
  "or_web business = (if business = [] then ''web'' else business)"

definition CDN_BindDomain :: "cdn_clients \<Rightarrow> domain_row \<Rightarrow> int \<Rightarrow> string \<Rightarrow> cdn_binding_row op" where
  "CDN_BindDomain cl d i business0 =
     (let business = or_web business0 in
      bnd (resolve_cdn cl i) (\<lambda>(p, account).
      bnd (answer (add_domain p (d_fqdn d) business)) (\<lambda>x.
      CreateBinding (binding_of (d_id d) (cn_id account) business x))))"

definition CDN_UnbindDomain :: "cdn_clients \<Rightarrow> domain_row \<Rightarrow> int \<Rightarrow> unit op" where
  "CDN_UnbindDomain cl d i =
     bnd (GetBindingByID i) (\<lambda>b.
       if cb_domain_id b \<noteq> d_id d then throw ErrCDNBindingNotFound
       else bnd (resolve_cdn cl (cb_cdn_account_id b)) (\<lambda>(p, account).
         seq_eff (answer (case kc_RemoveDomain p (d_fqdn d) of
             Inl e \<Rightarrow> if e \<noteq> ErrCDNDomainNotFound then Inl e else Inr ()
           | Inr u \<Rightarrow> Inr ()))
         (SoftDeleteBinding i)))"

definition RefreshStatus :: "cdn_clients \<Rightarrow> domain_row \<Rightarrow> int \<Rightarrow> cdn_binding_row op" where
  "RefreshStatus cl d i =
     bnd (GetBindingByID i) (\<lambda>b.
       if cb_domain_id b \<noteq> d_id d then throw ErrCDNBindingNotFound
       else bnd (resolve_cdn cl (cb_cdn_account_id b)) (\<lambda>(p, account).
         bnd (answer (case kc_GetDomain p (d_fqdn d) of
             Inl e \<Rightarrow> if e = ErrCDNDomainNotFound
               then Inr \<lparr>kd_domain = [], kd_cname = [], kd_status = ''offline'', kd_business_type = []\<rparr>
               else Inl e
           | Inr x \<Rightarrow> Inr x)) (\<lambda>x.
         UpdateBindingStatus i (kd_status x) (kd_cname x))))"

section \<open>The tables stay consistent\<close>

text \<open>Live bindings are identified by domain and account, deleted ones by their key.\<close>

definition binding_key :: "cdn_binding_row \<Rightarrow> (int \<times> int) + int" where
  "binding_key b = (if cb_deleted_at b = None then Inl (cb_domain_id b, cb_cdn_account_id b) else Inr (cb_id b))"

definition cdn_inv :: "assets \<Rightarrow> bool" where
  "cdn_inv a \<longleftrightarrow>
     wf_tbl cp_id (cdn_providers a) \<and> distinct (map (\<lambda>r. (cp_provider_type r, cp_name r)) (rows (cdn_providers a))) \<and>
     wf_tbl cn_id (cdn_accounts a) \<and>
     distinct (map (\<lambda>r. (cn_cdn_provider_id r, cn_account_name r)) (rows (cdn_accounts a))) \<and>
     (\<forall>r \<in> set (rows (cdn_accounts a)). cn_deleted_at r = None \<longrightarrow>
        (\<exists>p \<in> set (rows (cdn_providers a)). live_cdn_provider (cn_cdn_provider_id r) p)) \<and>
     wf_tbl cb_id (cdn_bindings a) \<and> distinct (map binding_key (rows (cdn_bindings a))) \<and>
     distinct (map (\<lambda>c. (cg_binding_id c, cg_config_type c)) (rows (cdn_configs a)))"

lemma cdn_fresh:
  assumes "wf_tbl key t" and "r \<in> set (rows t)"
  shows "key r \<noteq> seq t + 1"
  using assms by (force simp: wf_tbl_def)

lemma inv_cdn_provider_insert:
  assumes "cdn_inv a" and "cdn_provider_conflict (seq (cdn_providers a) + 1) (cp_provider_type p) (cp_name p) a = None"
  shows "cdn_inv (cdn_providers_update (tbl_insert (\<lambda>i. p\<lparr>cp_id := i, cp_deleted_at := None\<rparr>)) a)"
proof -
  have "(cp_provider_type p, cp_name p) \<notin> (\<lambda>r. (cp_provider_type r, cp_name r)) ` set (rows (cdn_providers a))"
    using assms cdn_fresh [of cp_id "cdn_providers a"]
    by (auto simp: cdn_inv_def cdn_provider_conflict_def list_ex_iff split: if_splits)
  moreover have "\<exists>q \<in> set (rows (tbl_insert mk (cdn_providers a))). P q"
    if "\<exists>q \<in> set (rows (cdn_providers a)). P q" for P mk
    using that by (auto simp: rows_insert_iff)
  ultimately show ?thesis using assms(1) by (simp add: cdn_inv_def wf_insert distinct_insert)
qed

lemma inv_cdn_provider_update:
  assumes "cdn_inv a" and "\<And>r. cp_id (f r) = cp_id r" and "\<And>r. cp_deleted_at (f r) = cp_deleted_at r"
    and "\<And>r. (cp_provider_type (f r), cp_name (f r)) = n"
    and "\<And>s. s \<in> set (rows (cdn_providers a)) \<Longrightarrow> cp_id s \<noteq> i \<Longrightarrow> (cp_provider_type s, cp_name s) \<noteq> n"
  shows "cdn_inv (cdn_providers_update (tbl_update (live_cdn_provider i) f) a)"
proof -
  let ?t = "tbl_update (live_cdn_provider i) f (cdn_providers a)"
  have "distinct (map (\<lambda>r. (cp_provider_type r, cp_name r)) (rows ?t))"
    by (rule distinct_tbl_update [where key = cp_id and i = i and n = "\<lambda>r. n"])
      (use assms in \<open>auto simp: cdn_inv_def live_cdn_provider_def\<close>)
  moreover have "wf_tbl cp_id ?t" using assms(1,2) by (auto simp: cdn_inv_def intro: wf_update)
  moreover have "\<exists>q \<in> set (rows ?t). live_cdn_provider j q"
    if "q \<in> set (rows (cdn_providers a))" "live_cdn_provider j q" for q j
  proof (rule bexI [of _ "if live_cdn_provider i q then f q else q"])
    show "live_cdn_provider j (if live_cdn_provider i q then f q else q)"
      using that(2) assms(2,3) by (simp add: live_cdn_provider_def)
    show "(if live_cdn_provider i q then f q else q) \<in> set (rows ?t)"
      using that(1) unfolding rows_update_iff by blast
  qed
  ultimately show ?thesis using assms(1) by (fastforce simp: cdn_inv_def)
qed

lemma inv_cdn_provider_delete:
  assumes "cdn_inv a" and "live_accounts_of i a = []"
  shows "cdn_inv (cdn_providers_update (tbl_update (live_cdn_provider i) (\<lambda>r. r\<lparr>cp_deleted_at := Some t\<rparr>)) a)"
proof -
  let ?f = "\<lambda>r. r\<lparr>cp_deleted_at := Some t\<rparr>"
  let ?t = "tbl_update (live_cdn_provider i) ?f (cdn_providers a)"
  have same: "map (\<lambda>r. (cp_provider_type r, cp_name r)) (rows ?t) =
      map (\<lambda>r. (cp_provider_type r, cp_name r)) (rows (cdn_providers a))"
    by (simp add: tbl_update_def)
  have wf: "wf_tbl cp_id ?t" using assms(1) by (auto simp: cdn_inv_def intro: wf_update)
  have live: "\<exists>q \<in> set (rows ?t). live_cdn_provider (cn_cdn_provider_id r) q"
    if r: "r \<in> set (rows (cdn_accounts a))" "cn_deleted_at r = None" for r
  proof -
    have "cn_cdn_provider_id r \<noteq> i"
      using assms(2) r by (auto simp: live_accounts_of_def tbl_select_def filter_empty_conv)
    moreover obtain q where q: "q \<in> set (rows (cdn_providers a))" "live_cdn_provider (cn_cdn_provider_id r) q"
      using assms(1) r by (auto simp: cdn_inv_def)
    ultimately have "\<not> live_cdn_provider i q" by (simp add: live_cdn_provider_def)
    with q show ?thesis by (auto simp: rows_update_iff intro!: bexI [of _ q])
  qed
  show ?thesis using assms(1) wf live by (simp add: cdn_inv_def same)
qed

lemma inv_cdn_account_insert:
  assumes "cdn_inv a" and "q \<in> set (rows (cdn_providers a))" and "live_cdn_provider (cn_cdn_provider_id x) q"
    and "cdn_account_conflict (seq (cdn_accounts a) + 1) (cn_cdn_provider_id x) (cn_account_name x) a = None"
  shows "cdn_inv (cdn_accounts_update (tbl_insert (\<lambda>i. x\<lparr>cn_id := i, cn_deleted_at := None\<rparr>)) a)"
proof -
  have "(cn_cdn_provider_id x, cn_account_name x) \<notin>
      (\<lambda>r. (cn_cdn_provider_id r, cn_account_name r)) ` set (rows (cdn_accounts a))"
    using assms(1,4) cdn_fresh [of cn_id "cdn_accounts a"]
    by (auto simp: cdn_inv_def cdn_account_conflict_def list_ex_iff split: if_splits)
  moreover have "\<exists>q \<in> set (rows (cdn_providers a)). live_cdn_provider (cn_cdn_provider_id x) q"
    using assms(2,3) by blast
  ultimately show ?thesis
    using assms(1) by (simp add: cdn_inv_def wf_insert distinct_insert) (force simp: rows_insert_iff)
qed

lemma inv_cdn_account_update:
  assumes "cdn_inv a" and "\<And>r. cn_id (f r) = cn_id r" and "\<And>r. cn_cdn_provider_id (f r) = cn_cdn_provider_id r"
    and "\<And>r. cn_deleted_at (f r) = None \<Longrightarrow> cn_deleted_at r = None"
    and "\<And>r s. r \<in> set (rows (cdn_accounts a)) \<Longrightarrow> live_cdn_account i r \<Longrightarrow> s \<in> set (rows (cdn_accounts a)) \<Longrightarrow>
      cn_id s \<noteq> i \<Longrightarrow> (cn_cdn_provider_id s, cn_account_name s) \<noteq> (cn_cdn_provider_id r, cn_account_name (f r))"
  shows "cdn_inv (cdn_accounts_update (tbl_update (live_cdn_account i) f) a)"
proof -
  let ?t = "tbl_update (live_cdn_account i) f (cdn_accounts a)"
  have "distinct (map (\<lambda>r. (cn_cdn_provider_id r, cn_account_name r)) (rows ?t))"
    by (rule distinct_tbl_update [where key = cn_id and i = i
          and n = "\<lambda>r. (cn_cdn_provider_id r, cn_account_name (f r))"])
      (use assms in \<open>auto simp: cdn_inv_def live_cdn_account_def\<close>)
  moreover have "wf_tbl cn_id ?t" using assms(1,2) by (auto simp: cdn_inv_def intro: wf_update)
  moreover have "\<exists>q \<in> set (rows (cdn_providers a)). live_cdn_provider (cn_cdn_provider_id y) q"
    if y: "y \<in> set (rows ?t)" "cn_deleted_at y = None" for y
  proof -
    obtain r where r: "r \<in> set (rows (cdn_accounts a))" "y = (if live_cdn_account i r then f r else r)"
      using y(1) unfolding rows_update_iff by blast
    then have "cn_cdn_provider_id y = cn_cdn_provider_id r" "cn_deleted_at r = None"
      using assms(3,4) y(2) by (auto split: if_splits)
    with r(1) assms(1) show ?thesis by (simp add: cdn_inv_def)
  qed
  ultimately show ?thesis using assms(1) by (simp add: cdn_inv_def)
qed

lemma inv_cdn_bindings:
  assumes "cdn_inv a" and "wf_tbl cb_id t" and "distinct (map binding_key (rows t))"
  shows "cdn_inv (a\<lparr>cdn_bindings := t\<rparr>)"
  using assms by (simp add: cdn_inv_def)

lemma inv_binding_insert:
  assumes "cdn_inv a" and "\<not> list_ex (binds (cb_domain_id b) (cb_cdn_account_id b)) (rows (cdn_bindings a))"
  shows "cdn_inv (cdn_bindings_update (tbl_insert (\<lambda>i. b\<lparr>cb_id := i, cb_created_at := t, cb_deleted_at := None\<rparr>)) a)"
proof -
  have "binding_key (b\<lparr>cb_id := i, cb_created_at := t, cb_deleted_at := None\<rparr>) \<notin>
      binding_key ` set (rows (cdn_bindings a))" for i
    using assms(2) by (auto simp: binding_key_def list_ex_iff binds_def split: if_splits)
  with assms(1) show ?thesis by (simp add: cdn_inv_def wf_insert distinct_insert)
qed

lemma inv_binding_update:
  assumes "cdn_inv a" and "\<And>b. cb_id (f b) = cb_id b" and "\<And>b. binding_key (f b) \<in> {binding_key b, Inr (cb_id b)}"
  shows "cdn_inv (cdn_bindings_update (tbl_update (live_binding i) f) a)"
proof -
  have "distinct (map binding_key (rows (tbl_update (live_binding i) f (cdn_bindings a))))"
  proof (rule distinct_tbl_update [where key = cb_id and i = i and n = "\<lambda>b. Inr i"])
    show "binding_key (f r) = binding_key r \<or> binding_key (f r) = Inr i" if "live_binding i r" for r
      using assms(3) [of r] that by (auto simp: live_binding_def)
    show "binding_key s \<noteq> Inr i" if "cb_id s \<noteq> i" for s using that by (simp add: binding_key_def)
  qed (use assms(1) in \<open>auto simp: cdn_inv_def live_binding_def\<close>)
  moreover have "wf_tbl cb_id (tbl_update (live_binding i) f (cdn_bindings a))"
    using assms(1,2) by (auto simp: cdn_inv_def intro: wf_update)
  ultimately show ?thesis using assms(1) by (simp add: cdn_inv_def)
qed

lemma step_cdn_providers [eff_intro]:
  "keeps (asset_step cdn_inv) (CDNStore_CreateProvider p)" "keeps (asset_step cdn_inv) (CDNStore_UpdateProvider p)"
proof -
  show "keeps (asset_step cdn_inv) (CDNStore_CreateProvider p)"
    unfolding CDNStore_CreateProvider_def by (intro step_insert_row inv_cdn_provider_insert)
  show "keeps (asset_step cdn_inv) (CDNStore_UpdateProvider p)"
    unfolding CDNStore_UpdateProvider_def
    by (intro step_update_row inv_cdn_provider_update [where n = "(cp_provider_type p, cp_name p)"])
      (auto simp: cdn_provider_conflict_def list_ex_iff split: if_splits)
qed

lemma step_cdn_lookups [eff_intro]:
  "keeps (asset_step cdn_inv) (CDNStore_GetProviderByID i)" "keeps (asset_step cdn_inv) (CDNStore_GetAccountByID i)"
  "keeps (asset_step cdn_inv) (GetBindingByID i)" "keeps (asset_step cdn_inv) (CountDomainsByAccount i)"
  "keeps (asset_step cdn_inv) (resolve_cdn cl i)"
  unfolding resolve_cdn_def CDNStore_GetProviderByID_def CDNStore_GetAccountByID_def GetBindingByID_def
    CountDomainsByAccount_def
  by (intro eff_intro)+

lemma step_cdn_provider_delete [eff_intro]: "keeps (asset_step cdn_inv) (CDNStore_SoftDeleteProvider i)"
proof (rule keeps_of_snap)
  fix w
  show "hoare (snap w) (CDNStore_SoftDeleteProvider i) (\<lambda>_. asset_step cdn_inv w) (asset_step cdn_inv w)"
    unfolding CDNStore_SoftDeleteProvider_def CountAccountsByProvider_def
  proof (rule hoare_step [OF hoare_post [OF snap_assets(1)]])
    fix n :: int
    assume n: "n = int (length (live_accounts_of i (assets w)))"
    show "hoare (snap w) (if n > 0 then throw ErrCDNProviderHasDependents
        else seq_eff (update_row cdn_providers cdn_providers_update (\<lambda>a r. None) ErrCDNProviderNotFound
          (live_cdn_provider i) (\<lambda>t r. r\<lparr>cp_deleted_at := Some t\<rparr>)) (ret ()))
        (\<lambda>_. asset_step cdn_inv w) (asset_step cdn_inv w)"
    proof (cases "n > 0")
      case True
      then show ?thesis by (simp add: hoare_def snap_no_step)
    next
      case False
      with n have none: "live_accounts_of i (assets w) = []" by simp
      show ?thesis
        unfolding if_not_P [OF False]
        by (rule hoare_stepU [OF hoare_post [OF snap_update_row]])
          (auto simp: hoare_def intro: snap_no_step snap_asset_step inv_cdn_provider_delete none)
    qed
  qed (auto intro: snap_no_step)
qed

lemma step_cdn_account_create [eff_intro]: "keeps (asset_step cdn_inv) (CreateCDNAccount x)"
proof (rule keeps_of_snap)
  fix w
  let ?x = "x\<lparr>cn_account_name := TrimSpace (cn_account_name x), cn_credentials := default_credentials (cn_credentials x)\<rparr>"
  have "hoare (snap w) (seq_eff (CDNStore_GetProviderByID (cn_cdn_provider_id x)) (CDNStore_CreateAccount ?x))
      (\<lambda>_. asset_step cdn_inv w) (asset_step cdn_inv w)"
    unfolding CDNStore_GetProviderByID_def
  proof (rule hoare_stepU [OF hoare_post [OF snap_assets(2)]])
    fix q
    assume "tbl_find (live_cdn_provider (cn_cdn_provider_id x)) (cdn_providers (assets w)) = Some q"
    then have q: "q \<in> set (rows (cdn_providers (assets w)))" "live_cdn_provider (cn_cdn_provider_id ?x) q"
      by (auto simp: tbl_find_def dest!: find_SomeD)
    show "hoare (snap w) (CDNStore_CreateAccount ?x) (\<lambda>_. asset_step cdn_inv w) (asset_step cdn_inv w)"
      unfolding CDNStore_CreateAccount_def
      by (rule hoare_post [OF snap_insert_row])
        (elim conjE, erule snap_asset_step, erule inv_cdn_account_insert [OF _ q], assumption, erule snap_no_step)
  qed (auto intro: snap_no_step)
  then show "hoare (snap w) (CreateCDNAccount x) (\<lambda>_. asset_step cdn_inv w) (asset_step cdn_inv w)"
    by (simp add: CreateCDNAccount_def hoare_def snap_no_step)
qed

lemma step_cdn_account_update [eff_intro]: "keeps (asset_step cdn_inv) (CDNStore_UpdateAccount x)"
  unfolding CDNStore_UpdateAccount_def
proof (intro step_update_row inv_cdn_account_update)
  fix t :: int and a :: assets and y r s :: cdn_account_row
  assume free: "cdn_account_conflict (cn_id x) (cn_cdn_provider_id y) (cn_account_name x) a = None"
    and y: "y \<in> set (rows (cdn_accounts a))" "live_cdn_account (cn_id x) y"
    and r: "r \<in> set (rows (cdn_accounts a))" "live_cdn_account (cn_id x) r"
    and s: "s \<in> set (rows (cdn_accounts a))" "cn_id s \<noteq> cn_id x" and inv: "cdn_inv a"
  have "inj_on cn_id (set (rows (cdn_accounts a)))"
    using inv by (simp add: cdn_inv_def wf_tbl_def distinct_map)
  moreover have "cn_id y = cn_id r" using y(2) r(2) by (simp add: live_cdn_account_def)
  ultimately have "y = r" using y(1) r(1) by (rule inj_onD)
  with free s show "(cn_cdn_provider_id s, cn_account_name s) \<noteq>
      (cn_cdn_provider_id r, cn_account_name (r\<lparr>cn_account_name := cn_account_name x,
        cn_credentials := cn_credentials x, cn_notes := cn_notes x, cn_enabled := cn_enabled x\<rparr>))"
    by (auto simp: cdn_account_conflict_def list_ex_iff split: if_splits)
qed simp_all

lemma step_cdn_account_delete [eff_intro]: "keeps (asset_step cdn_inv) (CDNStore_SoftDeleteAccount i)"
proof -
  have "cdn_inv (cdn_accounts_update (tbl_update (live_cdn_account i) (\<lambda>r. r\<lparr>cn_deleted_at := Some t\<rparr>)) a)"
    if "cdn_inv a" for t a
    using that
  proof (rule inv_cdn_account_update)
    fix r s
    assume "r \<in> set (rows (cdn_accounts a))" "live_cdn_account i r" "s \<in> set (rows (cdn_accounts a))" "cn_id s \<noteq> i"
    with that show "(cn_cdn_provider_id s, cn_account_name s) \<noteq>
        (cn_cdn_provider_id r, cn_account_name (r\<lparr>cn_deleted_at := Some t\<rparr>))"
      by (auto simp: cdn_inv_def live_cdn_account_def distinct_map dest: inj_onD)
  qed simp_all
  then show ?thesis unfolding CDNStore_SoftDeleteAccount_def by (intro eff_intro step_update_row)
qed

lemma step_cdn_bindings [eff_intro]:
  "keeps (asset_step cdn_inv) (CreateBinding b)" "keeps (asset_step cdn_inv) (UpdateBindingStatus i st cname)"
  "keeps (asset_step cdn_inv) (SoftDeleteBinding i)"
proof -
  show "keeps (asset_step cdn_inv) (CreateBinding b)"
    unfolding CreateBinding_def by (intro step_insert_row inv_binding_insert) (auto split: if_splits)
  show "keeps (asset_step cdn_inv) (UpdateBindingStatus i st cname)"
    unfolding UpdateBindingStatus_def
    by (intro step_update_row inv_binding_update) (auto simp: binding_key_def)
  show "keeps (asset_step cdn_inv) (SoftDeleteBinding i)"
    unfolding SoftDeleteBinding_def
    by (intro eff_intro step_update_row inv_binding_update) (auto simp: binding_key_def)
qed

lemma step_UpsertConfig [eff_intro]: "keeps (asset_step cdn_inv) (UpsertConfig b ty config)"
proof -
  let ?key = "\<lambda>c. (cg_binding_id c, cg_config_type c)"
  have same: "map ?key (rows (tbl_update (is_config b ty) (\<lambda>c. c\<lparr>cg_config := js, cg_synced_at := s\<rparr>) t)) =
      map ?key (rows t)" for js s t
    by (rule map_rows_update) simp
  have new: "(b, ty) \<notin> ?key ` set (rows t)" if "tbl_find (is_config b ty) t = None" for t
    using that by (auto simp: find_None_live is_config_def)
  have inv: "cdn_inv (a\<lparr>cdn_configs := t\<rparr>)" if "cdn_inv a" "distinct (map ?key (rows t))" for a t
    using that by (simp add: cdn_inv_def)
  have old: "distinct (map ?key (rows (cdn_configs a)))" if "cdn_inv a" for a
    using that by (simp add: cdn_inv_def)
  have "cdn_inv (snd (case tbl_find (is_config b ty) (cdn_configs a) of
      Some c \<Rightarrow> (Inr (c\<lparr>cg_config := js, cg_synced_at := Some t\<rparr>) :: go_err + cdn_config_row,
        a\<lparr>cdn_configs := tbl_update (is_config b ty)
          (\<lambda>c. c\<lparr>cg_config := js, cg_synced_at := Some t\<rparr>) (cdn_configs a)\<rparr>)
    | None \<Rightarrow> (let mk = (\<lambda>i. \<lparr>cg_id = i, cg_binding_id = b, cg_config_type = ty, cg_config = js, cg_synced_at = Some t\<rparr>)
        in (Inr (mk (seq (cdn_configs a) + 1)), a\<lparr>cdn_configs := tbl_insert mk (cdn_configs a)\<rparr>))))"
    if "cdn_inv a" for js t a
    using inv [OF that] old [OF that] new [of "cdn_configs a"]
    by (cases "tbl_find (is_config b ty) (cdn_configs a)") (simp_all add: Let_def same distinct_insert)
  then show ?thesis
    unfolding UpsertConfig_def Let_def on_conflict_def by (intro step_stmt) simp
qed

text \<open>
  C36: The CDN tables stay consistent whatever the database and the CDN answer: providers are unique by type
  and name, accounts by provider and name, every live account belongs to a live provider, a domain has at most
  one live binding per account, and a binding at most one configuration of a type.
\<close>

theorem cdn_inv_kept:
  "keeps (asset_step cdn_inv) (CreateCDNProvider p) \<and> keeps (asset_step cdn_inv) (UpdateCDNProvider p) \<and>
   keeps (asset_step cdn_inv) (CDNStore_SoftDeleteProvider i) \<and> keeps (asset_step cdn_inv) (CreateCDNAccount x) \<and>
   keeps (asset_step cdn_inv) (UpdateCDNAccount x) \<and> keeps (asset_step cdn_inv) (CDNStore_SoftDeleteAccount i) \<and>
   keeps (asset_step cdn_inv) (CDN_BindDomain cl d i business) \<and> keeps (asset_step cdn_inv) (CDN_UnbindDomain cl d i) \<and>
   keeps (asset_step cdn_inv) (RefreshStatus cl d i) \<and> keeps (asset_step cdn_inv) (UpsertConfig b ty config)"
  unfolding CreateCDNProvider_def UpdateCDNProvider_def check_cdn_provider_def UpdateCDNAccount_def CDN_BindDomain_def
    CDN_UnbindDomain_def RefreshStatus_def Let_def
  by (intro conjI eff_intro)

section \<open>What a binding is\<close>

text \<open>What the CDN says about a domain that is to be bound.\<close>

definition cdn_answer :: "cdn_clients \<Rightarrow> assets \<Rightarrow> domain_row \<Rightarrow> int \<Rightarrow> string \<Rightarrow> go_err + cdn_domain" where
  "cdn_answer cl a d i business = (case tbl_find (live_cdn_account i) (cdn_accounts a) of
       None \<Rightarrow> Inl ErrCDNAccountNotFound
     | Some x \<Rightarrow> (case tbl_find (live_cdn_provider (cn_cdn_provider_id x)) (cdn_providers a) of
           None \<Rightarrow> Inl ErrCDNProviderNotFound
         | Some p \<Rightarrow> (case cl (cp_provider_type p) (cn_credentials x) of
               Inl e \<Rightarrow> Inl e
             | Inr k \<Rightarrow> add_domain k (d_fqdn d) (or_web business))))"

lemma cdn_bindings_update_const: "cdn_bindings_update f a = a\<lparr>cdn_bindings := f (cdn_bindings a)\<rparr>"
  by (cases a) simp

definition resolved :: "cdn_clients \<Rightarrow> assets \<Rightarrow> domain_row \<Rightarrow> int \<Rightarrow> string \<Rightarrow> cdn_client \<times> cdn_account_row \<Rightarrow> bool" where
  "resolved cl a d i business r \<longleftrightarrow> cn_id (snd r) = i \<and>
     cdn_answer cl a d i business = add_domain (fst r) (d_fqdn d) (or_web business)"

lemma snap_resolve_cdn:
  "hoare (snap w) (resolve_cdn cl i) (\<lambda>r w'. resolved cl (assets w) d i business r \<and> snap w w') (snap w)"
  unfolding resolve_cdn_def CDNStore_GetAccountByID_def CDNStore_GetProviderByID_def
proof (rule hoare_step [OF snap_assets(2)], rule hoare_step [OF snap_assets(2)], rule hoare_step [OF snap_answer])
  fix x q k
  assume x: "tbl_find (live_cdn_account i) (cdn_accounts (assets w)) = Some x"
    and q: "tbl_find (live_cdn_provider (cn_cdn_provider_id x)) (cdn_providers (assets w)) = Some q"
    and k: "cl (cp_provider_type q) (cn_credentials x) = Inr k"
  have "cn_id x = i" using x by (auto simp: tbl_find_def live_cdn_account_def dest!: find_SomeD)
  with x q k show "hoare (snap w) (ret (k, x)) (\<lambda>r w'. resolved cl (assets w) d i business r \<and> snap w w') (snap w)"
    by (simp add: hoare_def resolved_def cdn_answer_def)
qed

lemma BindDomain_outcome:
  "case result (CDN_BindDomain cl d i business) w of
     Inr b \<Rightarrow> (\<not> list_ex (binds (d_id d) i) (rows (cdn_bindings (assets w))) \<and>
       (\<exists>x. cdn_answer cl (assets w) d i business = Inr x \<and>
         b = (binding_of (d_id d) i (or_web business) x)
           \<lparr>cb_id := seq (cdn_bindings (assets w)) + 1, cb_created_at := now w\<rparr>)) \<and>
       snap (w\<lparr>assets := (assets w)\<lparr>cdn_bindings := tbl_insert (\<lambda>i. b) (cdn_bindings (assets w))\<rparr>\<rparr>)
         (final (CDN_BindDomain cl d i business) w)
   | Inl e \<Rightarrow> snap w (final (CDN_BindDomain cl d i business) w)"
proof -
  have "hoare (snap w) (CDN_BindDomain cl d i business) (\<lambda>b w'.
      (\<not> list_ex (binds (d_id d) i) (rows (cdn_bindings (assets w))) \<and>
       (\<exists>x. cdn_answer cl (assets w) d i business = Inr x \<and>
         b = (binding_of (d_id d) i (or_web business) x)
           \<lparr>cb_id := seq (cdn_bindings (assets w)) + 1, cb_created_at := now w\<rparr>)) \<and>
      snap (w\<lparr>assets := (assets w)\<lparr>cdn_bindings := tbl_insert (\<lambda>i. b) (cdn_bindings (assets w))\<rparr>\<rparr>) w') (snap w)"
    unfolding CDN_BindDomain_def Let_def
  proof (rule hoare_step [OF snap_resolve_cdn [of w cl i d business]], unfold case_prod_beta,
      rule hoare_step [OF snap_answer])
    fix r x
    assume r: "resolved cl (assets w) d i business r"
      and x: "add_domain (fst r) (d_fqdn d) (or_web business) = Inr x"
    let ?b = "binding_of (d_id d) (cn_id (snd r)) (or_web business) x"
    show "hoare (snap w) (CreateBinding ?b) (\<lambda>b w'.
      (\<not> list_ex (binds (d_id d) i) (rows (cdn_bindings (assets w))) \<and>
       (\<exists>x. cdn_answer cl (assets w) d i business = Inr x \<and>
         b = (binding_of (d_id d) i (or_web business) x)
           \<lparr>cb_id := seq (cdn_bindings (assets w)) + 1, cb_created_at := now w\<rparr>)) \<and>
      snap (w\<lparr>assets := (assets w)\<lparr>cdn_bindings := tbl_insert (\<lambda>i. b) (cdn_bindings (assets w))\<rparr>\<rparr>) w') (snap w)"
      unfolding CreateBinding_def
    proof (rule hoare_post [OF snap_insert_row])
      fix b w'
      assume ins: "((if list_ex (binds (cb_domain_id ?b) (cb_cdn_account_id ?b)) (rows (cdn_bindings (assets w)))
            then Some ErrCDNBindingAlreadyExists else None) = None \<and>
          b = ?b\<lparr>cb_id := seq (cdn_bindings (assets w)) + 1, cb_created_at := now w, cb_deleted_at := None\<rparr>) \<and>
        snap (w\<lparr>assets := cdn_bindings_update (tbl_insert
          (\<lambda>i. ?b\<lparr>cb_id := i, cb_created_at := now w, cb_deleted_at := None\<rparr>)) (assets w)\<rparr>) w'"
      have "tbl_insert (\<lambda>i. ?b\<lparr>cb_id := i, cb_created_at := now w, cb_deleted_at := None\<rparr>) (cdn_bindings (assets w)) =
          tbl_insert (\<lambda>i. b) (cdn_bindings (assets w))"
        using ins by (simp add: tbl_insert_def)
      with ins [unfolded cdn_bindings_update_const [of "tbl_insert f" for f]] r x show "(\<not> list_ex (binds (d_id d) i) (rows (cdn_bindings (assets w))) \<and>
          (\<exists>x. cdn_answer cl (assets w) d i business = Inr x \<and>
            b = (binding_of (d_id d) i (or_web business) x)
              \<lparr>cb_id := seq (cdn_bindings (assets w)) + 1, cb_created_at := now w\<rparr>)) \<and>
        snap (w\<lparr>assets := (assets w)\<lparr>cdn_bindings := tbl_insert (\<lambda>i. b) (cdn_bindings (assets w))\<rparr>\<rparr>) w'"
        by (simp add: resolved_def binding_of_def split: if_splits)
    qed
  qed
  from snap_start [OF this] show ?thesis .
qed


section \<open>Accounts that disappear\<close>

lemma calm_asset_ops:
  "keeps calm_step (asset_get e g)" "keeps calm_step (asset_stmt m)" "keeps calm_step (answer r)"
proof -
  show "keeps calm_step (asset_stmt m)" for m :: "int \<Rightarrow> assets \<Rightarrow> (go_err + 'b) \<times> assets"
    by (rule keepsI) (simp add: calm_step_def)
  show "keeps calm_step (asset_get e g)" by (rule keepsI) (simp add: calm_step_def)
  show "keeps calm_step (answer r)" by (rule keepsI) (simp add: calm_step_def)
qed

lemma calm_CDN_BindDomain: "keeps calm_step (CDN_BindDomain cl d i business)"
  unfolding CDN_BindDomain_def resolve_cdn_def CDNStore_GetAccountByID_def CDNStore_GetProviderByID_def
    CreateBinding_def insert_row_def Let_def
  by (intro eff_intro calm_asset_ops)

lemma bound_account_known:
  assumes "cdn_answer cl a d i business = Inr x"
  shows "tbl_find (live_cdn_account i) (cdn_accounts a) \<noteq> None"
  using assms by (auto simp: cdn_answer_def split: option.splits)

text \<open>
  Deleting an account strands the bindings to it: the check before the deletion looks at a column of the
  domains that binding does not write, so an account with a live binding can be deleted, and from then on
  the binding can neither be removed nor refreshed, and its row stays live.
\<close>

theorem deleted_account_strands_bindings:
  assumes "faults w = []" and "wf_tbl cb_id (cdn_bindings (assets w))"
    and "result (CDN_BindDomain cl d i business) w = Inr b"
    and "list_all (\<lambda>d. d_cdn_account_id d \<noteq> Some i) (rows (domains w))"
    and "w1 = final (CDN_BindDomain cl d i business) w" and "w2 = final (CDNStore_SoftDeleteAccount i) w1"
  shows "result (CDNStore_SoftDeleteAccount i) w1 = Inr () \<and>
    result (CDN_UnbindDomain cl d (cb_id b)) w2 = Inl ErrCDNAccountNotFound \<and>
    result (RefreshStatus cl d (cb_id b)) w2 = Inl ErrCDNAccountNotFound \<and>
    tbl_find (live_binding (cb_id b)) (cdn_bindings (assets w2)) = Some b"
proof -
  from BindDomain_outcome [where cl = cl and d = d and i = i and business = business and w = w] assms(3,5) obtain x where
    x: "cdn_answer cl (assets w) d i business = Inr x"
    and b: "b = (binding_of (d_id d) i (or_web business) x)
      \<lparr>cb_id := seq (cdn_bindings (assets w)) + 1, cb_created_at := now w\<rparr>"
    and w1: "read_only (w\<lparr>assets := (assets w)\<lparr>cdn_bindings := tbl_insert (\<lambda>i. b) (cdn_bindings (assets w))\<rparr>\<rparr>) w1"
    by auto
  have calm: "faults w1 = []"
    using keepsD [OF calm_CDN_BindDomain, of w cl d i business] assms(1,5) by (simp add: calm_step_def)
  have tables: "domains w1 = domains w"
    "assets w1 = (assets w)\<lparr>cdn_bindings := tbl_insert (\<lambda>i. b) (cdn_bindings (assets w))\<rparr>"
    using read_only_fields [OF w1] by simp_all
  obtain a where a: "tbl_find (live_cdn_account i) (cdn_accounts (assets w)) = Some a"
    using bound_account_known [OF x] by blast
  have unused: "tbl_select (\<lambda>d. d_cdn_account_id d = Some i \<and> d_deleted_at d = None) (domains w) = []"
    using assms(4) by (auto simp: tbl_select_def list_all_iff filter_empty_conv)
  let ?t = "tbl_update (live_cdn_account i) (\<lambda>r. r\<lparr>cn_deleted_at := Some (now w1)\<rparr>) (cdn_accounts (assets w))"
  have del: "result (CDNStore_SoftDeleteAccount i) w1 = Inr ()"
    "w2 = w1\<lparr>assets := cdn_accounts_update (tbl_update (live_cdn_account i)
      (\<lambda>r. r\<lparr>cn_deleted_at := Some (now w1)\<rparr>)) (assets w1)\<rparr>"
    using calm a unused
    by (simp_all add: assms(6) CDNStore_SoftDeleteAccount_def CountDomainsByAccount_def update_row_def eff_run tables)
  have gone: "tbl_find (live_cdn_account i) ?t = None"
    unfolding find_None_live
  proof
    fix r assume "r \<in> set (rows ?t)"
    then obtain s where "r = (if live_cdn_account i s then s\<lparr>cn_deleted_at := Some (now w1)\<rparr> else s)"
      unfolding rows_update_iff by blast
    then show "\<not> live_cdn_account i r" by (simp add: live_cdn_account_def)
  qed
  have key: "cb_id b = seq (cdn_bindings (assets w)) + 1" by (simp add: b)
  have "find (live_binding (cb_id b)) (rows (cdn_bindings (assets w))) = None"
    using cdn_fresh [OF assms(2)] by (auto simp: find_None_iff live_binding_def key)
  then have found: "tbl_find (live_binding (cb_id b)) (tbl_insert (\<lambda>i. b) (cdn_bindings (assets w))) = Some b"
    by (simp add: tbl_find_def tbl_insert_def find_append live_binding_def) (simp add: b binding_of_def)
  have b': "cb_domain_id b = d_id d" "cb_cdn_account_id b = i" by (simp_all add: b binding_of_def)
  have w2: "faults w2 = []" "cdn_accounts (assets w2) = ?t"
    "cdn_bindings (assets w2) = tbl_insert (\<lambda>i. b) (cdn_bindings (assets w))"
    using calm by (simp_all add: del(2) tables)
  show ?thesis
    using del(1) w2 gone found b'
    by (simp add: CDN_UnbindDomain_def RefreshStatus_def resolve_cdn_def GetBindingByID_def
        CDNStore_GetAccountByID_def eff_run)
qed

text \<open>Domain 1 is bound to account 1 of a Cloudflare provider.\<close>

definition cdn_world :: world where
  "cdn_world = empty_world\<lparr>assets := empty_assets\<lparr>
     cdn_providers := \<lparr>rows = [\<lparr>cp_id = 1, cp_name = ''cf'', cp_provider_type = ''cloudflare'', cp_description = None,
       cp_deleted_at = None\<rparr>], seq = 1\<rparr>,
     cdn_accounts := \<lparr>rows = [\<lparr>cn_id = 1, cn_cdn_provider_id = 1, cn_account_name = ''main'', cn_credentials = ''{}'',
       cn_notes = None, cn_enabled = True, cn_created_by = None, cn_deleted_at = None\<rparr>], seq = 1\<rparr>\<rparr>\<rparr>"

definition cdn_accepting :: cdn_clients where
  "cdn_accepting ty cr = Inr \<lparr>kc_AddDomain = (\<lambda>n b. Inr \<lparr>kd_domain = n, kd_cname = n @ ''.cdn'',
     kd_status = ''online'', kd_business_type = b\<rparr>), kc_RemoveDomain = (\<lambda>n. Inr ()),
     kc_GetDomain = (\<lambda>n. Inl ErrCDNDomainNotFound)\<rparr>"

theorem deleted_account_strands_bindings_witness:
  "\<exists>b. result (CDN_BindDomain cdn_accepting d 1 []) cdn_world = Inr b \<and>
     result (CDN_UnbindDomain cdn_accepting d (cb_id b)) (final (CDNStore_SoftDeleteAccount 1)
       (final (CDN_BindDomain cdn_accepting d 1 []) cdn_world)) = Inl ErrCDNAccountNotFound"
proof -
  have facts: "faults cdn_world = []" "cdn_bindings (assets cdn_world) = empty_tbl"
    "list_all (\<lambda>d. d_cdn_account_id d \<noteq> Some 1) (rows (domains cdn_world))"
    "tbl_find (live_cdn_account 1) (cdn_accounts (assets cdn_world)) = Some \<lparr>cn_id = 1, cn_cdn_provider_id = 1,
       cn_account_name = ''main'', cn_credentials = ''{}'', cn_notes = None, cn_enabled = True, cn_created_by = None,
       cn_deleted_at = None\<rparr>"
    "tbl_find (live_cdn_provider 1) (cdn_providers (assets cdn_world)) = Some \<lparr>cp_id = 1, cp_name = ''cf'',
       cp_provider_type = ''cloudflare'', cp_description = None, cp_deleted_at = None\<rparr>"
    by (simp_all add: cdn_world_def empty_world_def empty_assets_def empty_tbl_def tbl_find_def
        live_cdn_account_def live_cdn_provider_def)
  then have "\<exists>b. result (CDN_BindDomain cdn_accepting d 1 []) cdn_world = Inr b"
    by (simp add: CDN_BindDomain_def resolve_cdn_def CDNStore_GetAccountByID_def CDNStore_GetProviderByID_def
        CreateBinding_def insert_row_def cdn_accepting_def add_domain_def empty_tbl_def eff_run Let_def)
  then obtain b where b: "result (CDN_BindDomain cdn_accepting d 1 []) cdn_world = Inr b" by blast
  have "wf_tbl cb_id (cdn_bindings (assets cdn_world))" by (simp add: facts(2) wf_empty)
  from deleted_account_strands_bindings [OF facts(1) this b facts(3) refl refl] b show ?thesis by auto
qed

end
