(* ===== verification/Asset_Services.thy ===== *)
theory Asset_Services
  imports Dns_Delegation Dns_Drift Status_Page Registrars Tags Costs Certificates Importer Projects Record_Templates Cdn
begin

text \<open>
  The asset services as one interface to the platform: their requests, their queued jobs, and the
  locale of a preorder they all keep. The external parties they talk to are one record.
\<close>

section \<open>External parties\<close>

record outside_services =
  os_clients :: clients
  os_lookup_ns :: "string \<Rightarrow> string list option"
  os_exchange :: exchange
  os_nameserver :: string
  os_notify_ns :: "ns_message \<Rightarrow> bool"
  os_notify_drift :: "drift_result \<Rightarrow> bool"
  os_zone :: "string \<Rightarrow> int option"
  os_network :: network
  os_hash :: "string \<Rightarrow> go_err + string"
  os_registrar_api :: registrar_api
  os_tls_dial :: tls_dial
  os_cdn :: cdn_clients
  os_sha :: "string \<Rightarrow> string"
  os_ms :: int

section \<open>Requests\<close>

text \<open>Of projects, templates and CDN accounts.\<close>

datatype (plugins only: code size) catalogue_request =
    AddProject project_row | ChangeProject int string string "string option" bool | DropProject int
  | AddTemplate int string "string option" string | ChangeTemplate int string "string option" | DropTemplate int
  | PublishTemplate publish_input | ChangeVersion int "string option" "string option" variables
  | AddRecordTemplate string "string option" "template_record list" "variables option"
  | ChangeRecordTemplate int string "string option" "template_record list" "variables option"
  | DropRecordTemplate int
  | AddCDNProvider cdn_provider_row | ChangeCDNProvider cdn_provider_row | DropCDNProvider int
  | AddCDNAccount cdn_account_row | ChangeCDNAccount cdn_account_row | DropCDNAccount int
  | BindCDN domain_row int string | UnbindCDN domain_row int | RefreshCDN domain_row int
  | PutCDNConfig int string "string option" | AddContentTask cdn_task_row
  | FinishContentTask int string "string option"

definition serve_catalogue :: "outside_services \<Rightarrow> catalogue_request \<Rightarrow> unit op" where
  "serve_catalogue x r = (case r of
       AddProject p \<Rightarrow> ignore (Project_Create p)
     | ChangeProject i n sl ds live \<Rightarrow> ignore (Project_Update i n sl ds live)
     | DropProject i \<Rightarrow> ignore (Project_Delete i)
     | AddTemplate p n ds k \<Rightarrow> ignore (Template_Create p n ds k)
     | ChangeTemplate i n ds \<Rightarrow> ignore (TemplateStore_Update i n ds)
     | DropTemplate i \<Rightarrow> ignore (TemplateStore_SoftDelete i)
     | PublishTemplate inp \<Rightarrow> ignore (PublishVersion (os_sha x) (os_ms x) inp)
     | ChangeVersion i html nginx vars \<Rightarrow> ignore (UpdateVersion (os_sha x) i html nginx vars)
     | AddRecordTemplate n ds rs vars \<Rightarrow> ignore (DNSTemplate_Create n ds rs vars)
     | ChangeRecordTemplate i n ds rs vars \<Rightarrow> ignore (DNSTemplate_Update i n ds rs vars)
     | DropRecordTemplate i \<Rightarrow> ignore (DNSTemplate_Delete i)
     | AddCDNProvider p \<Rightarrow> ignore (CreateCDNProvider p)
     | ChangeCDNProvider p \<Rightarrow> ignore (UpdateCDNProvider p)
     | DropCDNProvider i \<Rightarrow> ignore (CDNStore_SoftDeleteProvider i)
     | AddCDNAccount a \<Rightarrow> ignore (CreateCDNAccount a)
     | ChangeCDNAccount a \<Rightarrow> ignore (UpdateCDNAccount a)
     | DropCDNAccount i \<Rightarrow> ignore (CDNStore_SoftDeleteAccount i)
     | BindCDN d i ty \<Rightarrow> ignore (CDN_BindDomain (os_cdn x) d i ty)
     | UnbindCDN d i \<Rightarrow> ignore (CDN_UnbindDomain (os_cdn x) d i)
     | RefreshCDN d i \<Rightarrow> ignore (RefreshStatus (os_cdn x) d i)
     | PutCDNConfig b ty c \<Rightarrow> ignore (UpsertConfig b ty c)
     | AddContentTask t \<Rightarrow> ignore (CreateContentTask t)
     | FinishContentTask i st pid \<Rightarrow> ignore (UpdateContentTaskStatus i st pid))"

datatype (plugins only: code size) asset_request =
    AddProvider dns_provider_row | ChangeProvider dns_provider_row "provider_config option" | DropProvider int
  | AddRecord domain_row record_input | ChangeRecord domain_row int record_input | DropRecord domain_row int
  | DropRecords domain_row "int list" | SyncRecords domain_row
  | RemoteAdd domain_row record_input | RemoteChange domain_row string record_input | RemoteDrop domain_row string
  | BindDomain domain_row int | UnbindDomain domain_row | CheckAllNS | CheckAllDrift
  | AddWindow window_input | ChangeWindow int window_input | DropWindow int
  | AddTarget int string int | DropTarget int int
  | AddPage page_input | ChangePage int page_input | DropPage int
  | AddGroup int string int | ChangeGroup page_group_row | DropGroup int int
  | PutMonitor int int "string option" int | DropMonitor int int
  | OpenIncident int string "string option" string bool "int option" | ChangeIncident page_incident_row
  | DropIncident int int
  | AddPolicy probe_policy_row | ChangePolicy probe_policy_row | DropPolicy int | ScheduleProbes
  | AddRegistrar registrar_row | ChangeRegistrar registrar_row | DropRegistrar int
  | AddAccount registrar_account_row | ChangeAccount registrar_account_row | DropAccount int | PullAccount int
  | AddTag string "string option" | ChangeTag int string "string option" | DropTag int
  | PutTags int "int list" | BulkTag "int list" "int list" | BulkUntag "int list" "int list"
  | AddFees fee_schedule_row | ChangeFees int fee_schedule_row | DropFees int | AddCost domain_cost_row
  | Reprice int | RepriceAll
  | AddCertificate certificate_row | DropCertificate int | ProbeCertificate int string | ProbeAllCertificates
  | StartImport create_job_input
  | OnCatalogue catalogue_request

definition serve_asset :: "outside_services \<Rightarrow> asset_request \<Rightarrow> unit op" where
  "serve_asset x r = (case r of
       AddProvider p \<Rightarrow> ignore (Provider_Create p)
     | ChangeProvider p c \<Rightarrow> ignore (Provider_Update p c)
     | DropProvider i \<Rightarrow> ignore (DNSProviderStore_SoftDelete i)
     | AddRecord d inp \<Rightarrow> ignore (SyncService_CreateRecord (os_clients x) d inp)
     | ChangeRecord d i inp \<Rightarrow> ignore (SyncService_UpdateRecord (os_clients x) d i inp)
     | DropRecord d i \<Rightarrow> ignore (SyncService_DeleteRecord (os_clients x) d i)
     | DropRecords d is \<Rightarrow> ignore (BatchDelete (os_clients x) d is)
     | SyncRecords d \<Rightarrow> ignore (Sync (os_clients x) d)
     | RemoteAdd d inp \<Rightarrow> ignore (Service_CreateRecord (os_clients x) d inp)
     | RemoteChange d i inp \<Rightarrow> ignore (Service_UpdateRecord (os_clients x) d i inp)
     | RemoteDrop d i \<Rightarrow> ignore (Service_DeleteRecord (os_clients x) d i)
     | BindDomain d i \<Rightarrow> ignore (BindDNSProvider (os_clients x) d i)
     | UnbindDomain d \<Rightarrow> ignore (UnbindDNSProvider d)
     | CheckAllNS \<Rightarrow> ignore (HandleNSCheckAll (os_clients x))
     | CheckAllDrift \<Rightarrow> ignore HandleDriftCheckAll
     | AddWindow wi \<Rightarrow> ignore (Maintenance_Create wi)
     | ChangeWindow i wi \<Rightarrow> ignore (Maintenance_Update i wi)
     | DropWindow i \<Rightarrow> ignore (Maintenance_Delete i)
     | AddTarget i ty t \<Rightarrow> ignore (Maintenance_AddTarget i ty t)
     | DropTarget i t \<Rightarrow> ignore (Maintenance_RemoveTarget i t)
     | AddPage inp \<Rightarrow> ignore (CreatePage (os_hash x) inp)
     | ChangePage i inp \<Rightarrow> ignore (UpdatePage (os_hash x) i inp)
     | DropPage i \<Rightarrow> ignore (StatusPageStore_DeletePage i)
     | AddGroup p n so \<Rightarrow> ignore (CreateGroup p n so)
     | ChangeGroup g \<Rightarrow> ignore (UpdateGroup g)
     | DropGroup p g \<Rightarrow> ignore (DeleteGroup p g)
     | PutMonitor g d n so \<Rightarrow> ignore (AddMonitor g d n so)
     | DropMonitor g m \<Rightarrow> ignore (RemoveMonitor g m)
     | OpenIncident p ti c sv pin u \<Rightarrow> ignore (CreateIncident p ti c sv pin u)
     | ChangeIncident inc \<Rightarrow> ignore (UpdateIncident inc)
     | DropIncident p i \<Rightarrow> ignore (DeleteIncident p i)
     | AddPolicy p \<Rightarrow> ignore (CreatePolicy p)
     | ChangePolicy p \<Rightarrow> ignore (UpdatePolicy p)
     | DropPolicy i \<Rightarrow> ignore (DeletePolicy i)
     | ScheduleProbes \<Rightarrow> ignore ScheduleAll
     | AddRegistrar r \<Rightarrow> ignore (Registrar_Create r)
     | ChangeRegistrar r \<Rightarrow> ignore (Registrar_Update r)
     | DropRegistrar i \<Rightarrow> ignore (RegistrarStore_SoftDelete i)
     | AddAccount a \<Rightarrow> ignore (CreateAccount a)
     | ChangeAccount a \<Rightarrow> ignore (UpdateAccount a)
     | DropAccount i \<Rightarrow> ignore (SoftDeleteAccount i)
     | PullAccount i \<Rightarrow> ignore (SyncAccount (os_registrar_api x) i)
     | AddTag n c \<Rightarrow> ignore (Tag_Create n c)
     | ChangeTag i n c \<Rightarrow> ignore (Tag_Update i n c)
     | DropTag i \<Rightarrow> ignore (Tag_Delete i)
     | PutTags d gs \<Rightarrow> ignore (SetDomainTags d gs)
     | BulkTag ds gs \<Rightarrow> ignore (BulkAddTags ds gs)
     | BulkUntag ds gs \<Rightarrow> ignore (BulkRemoveTags ds gs)
     | AddFees f \<Rightarrow> ignore (CreateFeeSchedule f)
     | ChangeFees i f \<Rightarrow> ignore (UpdateFeeSchedule i f)
     | DropFees i \<Rightarrow> ignore (DeleteFeeSchedule i)
     | AddCost c \<Rightarrow> ignore (CreateCost c)
     | Reprice i \<Rightarrow> ignore (TryApplyFeeSchedule i)
     | RepriceAll \<Rightarrow> ignore RecalculateAllCosts
     | AddCertificate c \<Rightarrow> ignore (Certificate_Create c)
     | DropCertificate i \<Rightarrow> ignore (Certificate_Delete i)
     | ProbeCertificate i n \<Rightarrow> ignore (HandleCheckExpiry (os_tls_dial x) i n)
     | ProbeAllCertificates \<Rightarrow> ignore (HandleCheckAllActive (os_tls_dial x))
     | StartImport inp \<Rightarrow> ignore (CreateJob inp)
     | OnCatalogue cr \<Rightarrow> ignore (serve_catalogue x cr))"

text \<open>The handlers of the queued jobs of these services (cmd/worker/main.go).\<close>

definition run_asset_job :: "outside_services \<Rightarrow> job \<Rightarrow> unit op" where
  "run_asset_job x j = (case j of
       ImportJob i \<Rightarrow> HandleDomainImport i
     | DriftCheckJob i fqdn pid \<Rightarrow>
         ignore (HandleDriftCheck (os_clients x) (os_exchange x) (os_nameserver x) (os_notify_drift x) i pid)
     | DriftCheckAllJob \<Rightarrow> HandleDriftCheckAll
     | NSCheckJob i fqdn pid expected \<Rightarrow>
         ignore (HandleNSCheck (os_lookup_ns x) (os_notify_ns x) i fqdn expected)
     | ProbeRunJob tier p \<Rightarrow> HandleProbeRun (os_network x) tier p
     | _ \<Rightarrow> ret ())"

section \<open>Preorders the services keep\<close>

text \<open>
  A preorder that does not look at the asset tables and tolerates what these services do to the rest of
  the world: the columns of a domain that belong to them, new jobs, registered domains.
\<close>

locale asset_preorder = asset_blind R for R :: "world \<Rightarrow> world \<Rightarrow> bool" +
  assumes A_columns [eff_intro]: "keeps R (UpdateNSDelegation i st ns)" "keeps R (SetNSDelegationPending i)"
      "keeps R (UpdateLastDriftAt i)" "keeps R (UpdateLastSyncAt i)" "keeps R (UpdateAssetFields d)"
      "keeps R (UpdateDomainDates fqdn acc reg ex auto)" "keeps R (UpdateAnnualCost i c cur)"
    and A_register [eff_intro]: "keeps R (Register ri)"
    and A_queue: "R w (w\<lparr>task_queue := q\<rparr>)"
    and A_versions [eff_intro]: "keeps R (CreateVersion tv)" "keeps R (Publish i by)"
      "keeps R (TemplateStore_UpdateVersion i html nginx vars ck)"
begin

lemma k_enqueue [eff_intro]: "keeps R (enqueue j r t q d)"
  by (intro keeps_enqueue A_queue)

lemma k_domain_reads [eff_intro]: "keeps R (DomainStore_GetByID i)" "keeps R (ListWithFilter f)"
  unfolding DomainStore_GetByID_def ListWithFilter_def by (intro eff_intro)+

lemma k_providers [eff_intro]:
  "keeps R (DNSProviderStore_Create p)" "keeps R (DNSProviderStore_GetByID i)" "keeps R (DNSProviderStore_Update p)"
  "keeps R (DNSProviderStore_SoftDelete i)" "keeps R (client_of cl p)" "keeps R (resolveSync cl d)"
  "keeps R (resolveProvider cl d)" "keeps R (Provider_Create p)" "keeps R (Provider_Update p cfg)"
  unfolding DNSProviderStore_Create_def DNSProviderStore_GetByID_def DNSProviderStore_Update_def
    DNSProviderStore_SoftDelete_def CountDomains_def client_of_def resolveSync_def resolveProvider_def
    Provider_Create_def Provider_Update_def
  by (intro eff_intro)+

lemma k_records [eff_intro]:
  "keeps R (Service_CreateRecord cl d inp)" "keeps R (Service_UpdateRecord cl d rid inp)"
  "keeps R (Service_DeleteRecord cl d rid)" "keeps R (SyncService_CreateRecord cl d inp)"
  "keeps R (SyncService_UpdateRecord cl d lid inp)" "keeps R (SyncService_DeleteRecord cl d lid)"
  "keeps R (BatchDelete cl d lids)" "keeps R (Sync cl d)"
  unfolding Service_CreateRecord_def Service_UpdateRecord_def Service_DeleteRecord_def
    SyncService_CreateRecord_def SyncService_UpdateRecord_def SyncService_DeleteRecord_def BatchDelete_def
    Sync_def sync_record_def batch_ids_def batch_drop_def DNSRecordStore_Create_def DNSRecordStore_GetByID_def
    DNSRecordStore_Update_def DNSRecordStore_SoftDelete_def UpsertByProviderID_def on_conflict_def
    DeleteByProviderIDs_def Let_def
  by (intro eff_intro)+

lemma k_delegation [eff_intro]:
  "keeps R (BindDNSProvider cl d i)" "keeps R (UnbindDNSProvider d)" "keeps R (HandleNSCheckAll cl)"
  "keeps R (HandleNSCheck ns send i fqdn expected)"
  unfolding BindDNSProvider_def UnbindDNSProvider_def HandleNSCheckAll_def ListWithPendingNS_def enqueue_ns_check_def
    HandleNSCheck_def trySetMismatchStart_def trySetMismatchAlerted_def mismatchAge_def clearMismatchAlerted_def
    send_mismatch_def Let_def
  by (intro eff_intro)+

lemma k_drift [eff_intro]:
  "keeps R HandleDriftCheckAll" "keeps R (HandleDriftCheck cl ex server sendd i pid)"
  unfolding HandleDriftCheckAll_def ListActiveWithDNSProvider_def enqueue_drift_check_def HandleDriftCheck_def
    trySetAlerted_def clearAlerted_def Let_def
  by (intro eff_intro)+

lemma k_maintenance [eff_intro]:
  "keeps R (Maintenance_Create wi)" "keeps R (Maintenance_Update i wi)" "keeps R (Maintenance_Delete i)"
  "keeps R (Maintenance_AddTarget i ty t)" "keeps R (Maintenance_RemoveTarget i t)"
  unfolding Maintenance_Create_def Maintenance_Update_def Maintenance_Delete_def Maintenance_AddTarget_def
    Maintenance_RemoveTarget_def MaintenanceStore_Create_def MaintenanceStore_Update_def
    MaintenanceStore_Delete_def MaintenanceStore_Get_def MaintenanceStore_AddTarget_def
    MaintenanceStore_RemoveTarget_def on_conflict_def Let_def
  by (intro eff_intro)+

lemma k_pages [eff_intro]:
  "keeps R (CreatePage hash inp)" "keeps R (UpdatePage hash i inp)" "keeps R (StatusPageStore_DeletePage i)"
  "keeps R (CreateGroup p n so)" "keeps R (UpdateGroup g)" "keeps R (DeleteGroup p gi)"
  "keeps R (AddMonitor gi di dn so)" "keeps R (RemoveMonitor gi mi)"
  "keeps R (CreateIncident p ti c sv pin u)" "keeps R (UpdateIncident inc)" "keeps R (DeleteIncident p i)"
  unfolding CreatePage_def UpdatePage_def StatusPageStore_DeletePage_def CreateGroup_def UpdateGroup_def
    DeleteGroup_def AddMonitor_def RemoveMonitor_def CreateIncident_def UpdateIncident_def DeleteIncident_def
    StatusPageStore_CreatePage_def StatusPageStore_UpdatePage_def StatusPageStore_GetPage_def on_conflict_def Let_def
  by (intro eff_intro)+

lemma k_probes [eff_intro]:
  "keeps R (CreatePolicy pp)" "keeps R (UpdatePolicy pp)" "keeps R (DeletePolicy i)" "keeps R ScheduleAll"
  "keeps R (HandleProbeRun net tier p)"
  unfolding CreatePolicy_def UpdatePolicy_def DeletePolicy_def ScheduleAll_def schedule_policy_def
    createAndEnqueue_def ListPolicies_def DomainStore_ListActive_def ProbeStore_CreateTask_def HandleProbeRun_def
    HandleL1_run_def HandleL2_run_def HandleL3_run_def run_task_def ProbeStore_ClaimTask_def Probe_SaveResult_def
    ProbeStore_SaveResult_def ProbeStore_CompleteTask_def fireProbeAlert_def EnqueueFire_def Let_def
  by (intro eff_intro)+

lemma k_registrars [eff_intro]:
  "keeps R (Registrar_Create g)" "keeps R (Registrar_Update g)" "keeps R (RegistrarStore_SoftDelete i)"
  "keeps R (CreateAccount acc)" "keeps R (UpdateAccount acc)" "keeps R (SoftDeleteAccount i)"
  "keeps R (GetAccountByID i)"
  unfolding Registrar_Create_def Registrar_Update_def RegistrarStore_SoftDelete_def CreateAccount_def
    UpdateAccount_def SoftDeleteAccount_def RegistrarStore_Create_def RegistrarStore_Update_def
    RegistrarStore_GetByID_def RegistrarStore_CreateAccount_def RegistrarStore_UpdateAccount_def GetAccountByID_def
    duplicate_as_def
  by (intro eff_intro)+

lemma k_sync_domains: "keeps R (sync_domains i ds res)"
proof (induction ds arbitrary: res)
  case (Cons d ds)
  show ?case unfolding sync_domains.simps count_synced_def by (intro eff_intro Cons.IH)
qed (simp add: keeps_ret)

lemma k_SyncAccount [eff_intro]: "keeps R (SyncAccount api i)"
  unfolding SyncAccount_def RegistrarStore_GetByID_def by (intro eff_intro k_sync_domains)

lemma k_tags [eff_intro]:
  "keeps R (Tag_Create n c)" "keeps R (Tag_Update i n c)" "keeps R (Tag_Delete i)" "keeps R (SetDomainTags di gs)"
  "keeps R (BulkAddTags ds gs)" "keeps R (BulkRemoveTags ds gs)"
  unfolding Tag_Create_def Tag_Update_def Tag_Delete_def SetDomainTags_def BulkAddTags_def BulkRemoveTags_def
    add_tags_def remove_tags_def GetDomainTags_def insert_domain_tag_def unless_duplicate_def TagStore_Create_def
    TagStore_GetByID_def TagStore_Update_def TagStore_Delete_def Let_def
  by (intro eff_intro)+

lemma k_costs [eff_intro]:
  "keeps R (CreateFeeSchedule f)" "keeps R (UpdateFeeSchedule i f)" "keeps R (DeleteFeeSchedule i)"
  "keeps R (CreateCost dc)" "keeps R (TryApplyFeeSchedule i)"
  unfolding CreateFeeSchedule_def UpdateFeeSchedule_def DeleteFeeSchedule_def CreateCost_def TryApplyFeeSchedule_def
    CostStore_CreateFeeSchedule_def CostStore_GetFeeScheduleByID_def CostStore_UpdateFeeSchedule_def
    CostStore_DeleteFeeSchedule_def CostStore_CreateCost_def GetFeeSchedule_def Let_def
  by (intro eff_intro)+

lemma k_recalculate: "keeps R (recalculate ds n)"
proof (induction ds arbitrary: n)
  case (Cons d ds)
  show ?case unfolding recalculate.simps recalculate_one_def by (intro eff_intro Cons.IH)
qed (simp add: keeps_ret)

lemma k_RecalculateAllCosts [eff_intro]: "keeps R RecalculateAllCosts"
  unfolding RecalculateAllCosts_def Let_def by (intro eff_intro k_recalculate)

lemma k_certificates [eff_intro]:
  "keeps R (Certificate_Create ce)" "keeps R (Certificate_Delete i)" "keeps R (HandleCheckExpiry dial i fqdn)"
  "keeps R (HandleCheckAllActive dial)"
  unfolding Certificate_Create_def Certificate_Delete_def HandleCheckExpiry_def HandleCheckAllActive_def
    CheckAllActive_def check_one_def CheckExpiry_def CertificateStore_Create_def CertificateStore_GetByID_def
    CertificateStore_SoftDelete_def CertificateStore_Upsert_def on_conflict_def
  by (intro eff_intro)+

lemma k_job_writes [eff_intro]:
  "keeps R (update_job i f)" "keeps R (MarkStarted i)" "keeps R (UpdateProgress i x y z)"
  "keeps R (MarkCompleted i st x y z det)"
  unfolding MarkStarted_def UpdateProgress_def MarkCompleted_def update_job_def by (intro eff_intro)+

lemma k_import_rows: "keeps R (import_rows job existing li rs n)"
proof (induction rs arbitrary: li n)
  case (Cons row rs)
  show ?case unfolding import_rows.simps import_row_def Let_def by (intro eff_intro Cons.IH)
qed (simp add: keeps_ret)

lemma k_imports [eff_intro]: "keeps R (CreateJob inp)" "keeps R (HandleDomainImport i)"
  unfolding CreateJob_def HandleDomainImport_def ProcessImportPayload_def ImportJobStore_Create_def
    ImportJobStore_Get_def ExistingFQDNs_def Let_def
  by (intro eff_intro k_import_rows)+

lemma k_projects [eff_intro]:
  "keeps R (Project_Create p)" "keeps R (Project_Update i n sl ds live)" "keeps R (Project_Delete i)"
  unfolding Project_Create_def Project_Update_def Project_Delete_def ProjectStore_Create_def ProjectStore_Update_def
    ProjectStore_SoftDelete_def GetBySlug_def
  by (intro eff_intro)+

lemma k_templates [eff_intro]:
  "keeps R (Template_Create i n ds k)" "keeps R (TemplateStore_Update i n ds)" "keeps R (TemplateStore_SoftDelete i)"
  "keeps R (PublishVersion sha ms inp)" "keeps R (UpdateVersion sha i html nginx vars)"
  unfolding Template_Create_def TemplateStore_Create_def TemplateStore_Update_def TemplateStore_SoftDelete_def
    PublishVersion_def UpdateVersion_def
  by (intro eff_intro)+

lemma k_record_templates [eff_intro]:
  "keeps R (DNSTemplate_Create n ds rs vs)" "keeps R (DNSTemplate_Update i n ds rs vs)" "keeps R (DNSTemplate_Delete i)"
  unfolding DNSTemplate_Create_def DNSTemplate_Update_def DNSTemplate_Delete_def DNSTemplateStore_Create_def
    DNSTemplateStore_Update_def DNSTemplateStore_Delete_def not_found_as_def
  by (intro eff_intro)+

lemma k_cdn_accounts [eff_intro]:
  "keeps R (CreateCDNProvider cp)" "keeps R (UpdateCDNProvider cp)" "keeps R (CDNStore_SoftDeleteProvider i)"
  "keeps R (CreateCDNAccount ca)" "keeps R (UpdateCDNAccount ca)" "keeps R (CDNStore_SoftDeleteAccount i)"
  unfolding CreateCDNProvider_def UpdateCDNProvider_def check_cdn_provider_def CDNStore_SoftDeleteProvider_def
    CreateCDNAccount_def UpdateCDNAccount_def CDNStore_SoftDeleteAccount_def CDNStore_CreateProvider_def
    CDNStore_UpdateProvider_def CountAccountsByProvider_def CDNStore_GetProviderByID_def CDNStore_CreateAccount_def
    CDNStore_UpdateAccount_def CountDomainsByAccount_def
  by (intro eff_intro)+

lemma k_cdn_bindings [eff_intro]:
  "keeps R (CDN_BindDomain cc d i ty)" "keeps R (CDN_UnbindDomain cc d i)" "keeps R (RefreshStatus cc d i)"
  "keeps R (UpsertConfig i ty js)" "keeps R (CreateContentTask ct)" "keeps R (UpdateContentTaskStatus i st pid)"
  unfolding CDN_BindDomain_def CDN_UnbindDomain_def RefreshStatus_def UpsertConfig_def CreateContentTask_def
    UpdateContentTaskStatus_def resolve_cdn_def CDNStore_GetAccountByID_def CDNStore_GetProviderByID_def
    CreateBinding_def GetBindingByID_def UpdateBindingStatus_def SoftDeleteBinding_def on_conflict_def Let_def
  by (intro eff_intro)+

lemma k_serve_catalogue [eff_intro]: "keeps R (serve_catalogue x cr)"
  unfolding serve_catalogue_def
  by (cases cr) (simp_all add: keeps_ignore k_projects k_templates k_record_templates k_cdn_accounts k_cdn_bindings)

lemma k_serve_asset [eff_intro]: "keeps R (serve_asset x r)"
  unfolding serve_asset_def
  by (cases r) (simp_all add: keeps_ignore k_providers k_records k_delegation k_drift k_maintenance k_pages
      k_probes k_registrars k_SyncAccount k_tags k_costs k_RecalculateAllCosts k_certificates k_imports k_serve_catalogue)

lemma k_run_asset_job [eff_intro]: "keeps R (run_asset_job x j)"
  unfolding run_asset_job_def
  by (cases j) (simp_all add: keeps_ignore keeps_ret k_drift k_delegation k_probes k_imports)

end

end
