(* ===== verification/Platform.thy ===== *)
theory Platform
  imports Artifact Gfw_Service Expiry Access Asset_Services
begin

text \<open>
  The control plane as one system: every service call, every queued job and everything the
  environment may do between two calls (time, outages, rows other services own) as the steps
  of a transition system on \<open>world\<close>. The invariants of the components hold in every reachable
  state because each component's preorder is interpreted on the others' methods.
\<close>

section \<open>Preorders and the build service\<close>

text \<open>A preorder the release service keeps and that does not look at artifacts.\<close>

locale build_preorder = release_preorder +
  assumes R_artifacts: "R w (w\<lparr>artifacts := x7\<rparr>)"
begin

lemma k_artifact_writes [eff_intro]:
  "keeps R (ArtifactStore_Create a)" "keeps R (SetReleaseID i rel)" "keeps R (MarkSigned i sg)"
  unfolding ArtifactStore_Create_def SetReleaseID_def checkNotSigned_def MarkSigned_def Let_def
  by (intro eff_intro keeps_exec keepsI R_artifacts; simp add: final_def R_artifacts R_refl)+

lemma k_Build [eff_intro]: "keeps R (Build sha mac render upload req)"
  unfolding Build_def publish_build_def Let_def by (intro eff_intro)

lemma k_render_input_of [eff_intro]: "keeps R (render_input_of defaults i)"
  unfolding render_input_of_def GetVariables_def Let_def by (intro eff_intro)

lemma k_HandleBuild [eff_intro]:
  "keeps R (HandleBuild sha mac render upload p slug v rel by ids)"
  unfolding HandleBuild_def by (intro eff_intro)

end

text \<open>A preorder that does not look at anything the release service writes.\<close>

locale release_blind = store_preorder R for R :: "world \<Rightarrow> world \<Rightarrow> bool" +
  assumes B_releases: "R w (w\<lparr>releases := x1\<rparr>)" and B_history: "R w (w\<lparr>release_history := x2\<rparr>)"
    and B_scopes: "R w (w\<lparr>scopes := x3\<rparr>)" and B_shards: "R w (w\<lparr>shards := x4\<rparr>)"
    and B_domain_tasks: "R w (w\<lparr>domain_tasks := x5\<rparr>)" and B_rollbacks: "R w (w\<lparr>rollbacks := x6\<rparr>)"
    and B_agent_tasks: "R w (w\<lparr>agent_tasks := x7\<rparr>)" and B_task_queue: "R w (w\<lparr>task_queue := x8\<rparr>)"
    and B_artifacts: "R w (w\<lparr>artifacts := x9\<rparr>)"
begin

lemma b_transition: "keeps R (TransitionRelease i f t rs b)"
  unfolding TransitionRelease_def ReleaseStore_TransitionTx_def updateReleaseStatusTx_def
    insertReleaseStateHistoryTx_def
  by (intro eff_intro keeps_exec B_releases B_history)

lemma b_update: "keeps R (update_release i upd)"
  unfolding update_release_def by (intro keeps_exec B_releases)

lemma b_create [eff_intro]: "keeps R (ReleaseStore_Create r)" "keeps R (insertInitialReleaseHistory i b)"
  unfolding ReleaseStore_Create_def insertInitialReleaseHistory_def
  by (intro eff_intro keeps_exec keepsI B_history; simp add: final_def B_releases R_refl)+

end

sublocale release_blind \<subseteq> build_preorder
  by unfold_locales (rule B_scopes B_shards B_domain_tasks B_rollbacks B_agent_tasks B_task_queue
      B_artifacts b_transition b_update)+

context release_blind
begin

lemma k_Create [eff_intro]: "keeps R (Create sha inp)"
  unfolding Create_def by (intro eff_intro)

end

section \<open>Each component's preorder on the other components\<close>

lemma lc_other:
  assumes "\<And>w. domains (f w) = domains w" and "\<And>w. domain_history (f w) = domain_history w"
  shows "lc_step w (f w)"
  using assms by (simp add: lc_step_def lc_defs moves_refl)

interpretation ag_lc: agent_blind lc_step
  by unfold_locales (rule lc_other; simp)+

interpretation rel_lc: release_blind lc_step
  by unfold_locales (rule lc_other; simp)+

interpretation rel_ag: release_blind ag_step
  by unfold_locales (rule ag_other; simp)+

interpretation lc_rel: domain_blind rel_step
  by unfold_locales (rule rel_other; simp)+

interpretation ag_rel: agent_blind rel_step
  by unfold_locales (rule rel_other; simp)+

interpretation rel_rel: build_preorder rel_step
  by unfold_locales (rule rel_other; simp)

interpretation lc_art: domain_blind art_step
  by unfold_locales (rule art_other; simp)+

interpretation ag_art: agent_blind art_step
  by unfold_locales (rule art_other; simp)+

lemma art_Create [eff_intro]: "keeps art_step (Create sha inp)"
proof -
  have "keeps art_step (ReleaseStore_Create r)" "keeps art_step (insertInitialReleaseHistory i b)" for r i b
    unfolding ReleaseStore_Create_def insertInitialReleaseHistory_def
    by (intro eff_intro arts.keeps_exec keepsI art_other; simp add: final_def art_step_def)+
  then show ?thesis unfolding Create_def by (intro eff_intro)
qed

section \<open>Monitoring\<close>

text \<open>
  The interface of a preorder that the alert engine and the dispatcher keep, that does not
  look at the tables of the monitoring components, and that tolerates the blocking columns and
  the expiry band of a domain.
\<close>

locale monitor_preorder = store_preorder R for R :: "world \<Rightarrow> world \<Rightarrow> bool" +
  assumes alert_calls [eff_intro]: "keeps R (Fire ev)" "keeps R (ResolveByDedupKey k)"
      "keeps R (HandleNotifySend send c i sv)" "keeps R (AlertStore_Resolve i)" "keeps R (Acknowledge i u)"
      "keeps R (CreateRule r)" "keeps R (UpdateRule r)" "keeps R (DeleteRule i)"
      "keeps R (CreateChannel ch)" "keeps R (UpdateChannel ch)" "keeps R (DeleteChannel i)"
    and domain_columns [eff_intro]: "keeps R (UpdateDomainBlockingStatus d st ty si cf)"
      "keeps R (UpdateExpiryStatus i es)"
    and M_nodes: "R w (w\<lparr>gfw_probe_nodes := x1\<rparr>)" and M_assignments: "R w (w\<lparr>gfw_check_assignments := x2\<rparr>)"
    and M_measurements: "R w (w\<lparr>gfw_measurements := x3\<rparr>)" and M_bogons: "R w (w\<lparr>gfw_bogon_ips := x4\<rparr>)"
    and M_verdicts: "R w (w\<lparr>gfw_verdicts := x5\<rparr>)" and M_confidence: "R w (w\<lparr>gfw_confidence := x6\<rparr>)"
    and M_permissions: "R w (w\<lparr>domain_permissions := x7\<rparr>)" and M_roles: "R w (w\<lparr>user_roles := x8\<rparr>)"
    and M_queue: "R w (w\<lparr>task_queue := x9\<rparr>)"
begin

lemma k_node_store [eff_intro]:
  "keeps R (NodeStore_Register n m)" "keeps R (NodeStore_Heartbeat i v js)" "keeps R (MarkOfflineStale t)"
  unfolding NodeStore_Register_def NodeStore_Heartbeat_def MarkOfflineStale_def Let_def
  by (intro keeps_stmt keepsI; simp add: final_def M_nodes R_refl)+

lemma k_nodes [eff_intro]:
  "keeps R (Node_Register rq)" "keeps R (Node_Heartbeat nb)" "keeps R MarkStaleOffline"
  unfolding Node_Register_def Node_Heartbeat_def MarkStaleOffline_def Let_def by (intro eff_intro)+

lemma k_assignments [eff_intro]: "keeps R (UpsertAssignment a)" "keeps R (DeleteAssignment d)"
  unfolding UpsertAssignment_def DeleteAssignment_def
  by (intro keeps_exec keeps_exec_unless M_assignments)+

lemma k_measurements [eff_intro]: "keeps R (StoreMeasurements n ms)"
  unfolding StoreMeasurements_def InsertMeasurements_def GetByNodeID_def
  by (intro eff_intro keeps_exec_unless M_measurements)

lemma k_bogons [eff_intro]: "keeps R (AddBogonIP ip note)" "keeps R (DeleteBogonIP ip)"
proof -
  have "R w (if b then w else w\<lparr>gfw_bogon_ips := x\<rparr>)" for w b x by (simp add: M_bogons R_refl)
  then show "keeps R (AddBogonIP ip note)" "keeps R (DeleteBogonIP ip)"
    unfolding AddBogonIP_def InsertBogonIP_def DeleteBogonIP_def
    by (intro eff_intro keeps_exec keeps_exec_unless M_bogons; assumption)+
qed

lemma k_pipeline [eff_intro]: "keeps R (AnalyzeAndStore asn alerting d)"
  unfolding AnalyzeAndStore_def LatestMeasurementPair_def Redis_Record_def Redis_load_def Redis_save_def
    persistVerdict_def InsertVerdict_def EvaluateAndAlert_def Resolve_def Let_def
  by (intro eff_intro keeps_exec keeps_exec_unless M_verdicts M_confidence)

lemma k_alert_jobs [eff_intro]: "keeps R (HandleAlertFire p)" "keeps R (EnqueueFire p)"
  unfolding HandleAlertFire_def EnqueueFire_def by (intro eff_intro keeps_enqueue M_queue)+

lemma k_expiry [eff_intro]: "keeps R HandleExpiryCheck"
  unfolding HandleExpiryCheck_def CheckAllExpiry_def ListWithFilter_def check_domain_def by (intro eff_intro)

lemma k_permissions [eff_intro]:
  "keeps R (GrantPermission d u l g)" "keeps R (RevokePermission d u)" "keeps R (GrantRole ks u r)"
  "keeps R (RevokeRole u r)"
proof -
  have "R w (if b then w\<lparr>user_roles := x\<rparr> else w)" for w b x by (simp add: M_roles R_refl)
  then show "keeps R (GrantPermission d u l g)" "keeps R (RevokePermission d u)" "keeps R (GrantRole ks u r)"
    "keeps R (RevokeRole u r)"
    unfolding GrantPermission_def RevokePermission_def Permission_Upsert_def Permission_Delete_def
      GrantRole_def RevokeRole_def
    by (intro eff_intro keeps_exec keeps_exec_unless M_permissions M_roles; assumption)+
qed

end

text \<open>The state machines and the artifacts are blind to alerts and to the monitoring tables.\<close>

interpretation lc_alerts: alert_blind lc_step
  by unfold_locales (rule lc_other; simp)+

interpretation ag_alerts: alert_blind ag_step
  by unfold_locales (rule ag_other; simp)+

interpretation rel_alerts: alert_blind rel_step
  by unfold_locales (rule rel_other; simp)+

interpretation art_alerts: alert_blind art_step
  by unfold_locales (rule art_other; simp)+

context domain_blind
begin

lemma k_blocking [eff_intro]: "keeps R (UpdateDomainBlockingStatus d st ty si cf)"
  unfolding UpdateDomainBlockingStatus_def by (intro keeps_exec R_domains)

end

lemma lc_blocking [eff_intro]: "keeps lc_step (UpdateDomainBlockingStatus d st ty si cf)"
  unfolding UpdateDomainBlockingStatus_def by (intro lc.keeps_exec lc_update_frame) simp_all

interpretation mlc: monitor_preorder lc_step
  by unfold_locales (intro eff_intro | rule lc_other; simp)+

interpretation mag: monitor_preorder ag_step
  by unfold_locales (intro eff_intro | rule ag_other; simp)+

interpretation mrel: monitor_preorder rel_step
  by unfold_locales (intro eff_intro | rule rel_other; simp)+

interpretation mart: monitor_preorder art_step
  by unfold_locales (intro eff_intro | rule art_other; simp)+

text \<open>The dedup contract of alerts does not look at any other component.\<close>

interpretation al_domains: domain_blind al_step
  by unfold_locales (rule al_other; simp)+

interpretation al_agents: agent_blind al_step
  by unfold_locales (rule al_other; simp)+

interpretation al_releases: release_blind al_step
  by unfold_locales (rule al_other; simp)+

interpretation mal: monitor_preorder al_step
  by unfold_locales (intro eff_intro al_channels | rule al_other; simp)+

section \<open>Asset services\<close>

text \<open>The columns of a domain that the asset services write.\<close>

lemmas asset_columns = UpdateNSDelegation_def SetNSDelegationPending_def UpdateLastDriftAt_def UpdateLastSyncAt_def
  UpdateDomainDates_def

context domain_blind
begin

lemma k_asset_columns [eff_intro]:
  "keeps R (UpdateNSDelegation i st ns)" "keeps R (SetNSDelegationPending i)" "keeps R (UpdateLastDriftAt i)"
  "keeps R (UpdateLastSyncAt i)" "keeps R (UpdateDomainDates fqdn acc reg ex auto)"
  unfolding asset_columns Let_def
  by (intro eff_intro keeps_exec R_domains keepsI; simp add: final_def R_domains)+

end

lemma lc_asset_columns [eff_intro]:
  "keeps lc_step (UpdateNSDelegation i st ns)" "keeps lc_step (SetNSDelegationPending i)"
  "keeps lc_step (UpdateLastDriftAt i)" "keeps lc_step (UpdateLastSyncAt i)"
  "keeps lc_step (UpdateDomainDates fqdn acc reg ex auto)"
proof -
  show "keeps lc_step (UpdateNSDelegation i st ns)" "keeps lc_step (SetNSDelegationPending i)"
    "keeps lc_step (UpdateLastDriftAt i)" "keeps lc_step (UpdateLastSyncAt i)"
    unfolding asset_columns by (intro lc.keeps_exec lc_update_frame; simp)+
  show "keeps lc_step (UpdateDomainDates fqdn acc reg ex auto)"
    unfolding asset_columns Let_def
    by (intro eff_intro keepsI, unfold final_def snd_conv, rule lc_update_frame) simp_all
qed

text \<open>A preorder that does not look at template versions.\<close>

locale version_blind = store_preorder R for R :: "world \<Rightarrow> world \<Rightarrow> bool" +
  assumes V_versions: "R w (w\<lparr>template_versions := x\<rparr>)"
begin

lemma k_update_unpublished: "keeps R (update_unpublished i f)"
  unfolding update_unpublished_def
  by (intro eff_intro keepsI) (simp add: final_def V_versions R_refl split: option.split)

lemma k_versions [eff_intro]:
  "keeps R (CreateVersion tv)" "keeps R (Publish i by)" "keeps R (TemplateStore_UpdateVersion i html nginx vars ck)"
proof -
  show "keeps R (CreateVersion tv)"
    unfolding CreateVersion_def by (intro eff_intro keepsI) (simp add: final_def V_versions R_refl)
  show "keeps R (Publish i by)" "keeps R (TemplateStore_UpdateVersion i html nginx vars ck)"
    unfolding Publish_def TemplateStore_UpdateVersion_def GetVersion_def by (intro eff_intro k_update_unpublished)+
qed

end

interpretation vlc: version_blind lc_step
  by unfold_locales (rule lc_other; simp)

interpretation vag: version_blind ag_step
  by unfold_locales (rule ag_other; simp)

interpretation vrel: version_blind rel_step
  by unfold_locales (rule rel_other; simp)

interpretation vart: version_blind art_step
  by unfold_locales (rule art_other; simp)

interpretation val: version_blind al_step
  by unfold_locales (rule al_other; simp)

interpretation alc: asset_preorder lc_step
  by unfold_locales (intro eff_intro | rule lc_other; simp)+

interpretation aag: asset_preorder ag_step
  by unfold_locales (intro eff_intro | rule ag_other; simp)+

interpretation arel: asset_preorder rel_step
  by unfold_locales (intro eff_intro | rule rel_other; simp)+

interpretation aart: asset_preorder art_step
  by unfold_locales (intro eff_intro | rule art_other; simp)+

interpretation aal: asset_preorder al_step
  by unfold_locales (intro eff_intro | rule al_other; simp)+

text \<open>The contract of published versions looks at the releases and the versions only.\<close>

interpretation ver_domains: domain_blind ver_step
  by unfold_locales (rule ver_other; simp)+

interpretation ver_agents: agent_blind ver_step
  by unfold_locales (rule ver_other; simp)+

interpretation ver_alerts: alert_blind ver_step
  by unfold_locales (rule ver_other; simp)+

interpretation ver_build: build_preorder ver_step
  by unfold_locales (rule ver_other; simp)

interpretation mver: monitor_preorder ver_step
  by unfold_locales (intro eff_intro | rule ver_other; simp)+

interpretation aver: asset_preorder ver_step
  by unfold_locales (intro eff_intro | rule ver_other; simp)+

section \<open>Requests\<close>

text \<open>The external services the control plane is configured with.\<close>

record services =
  s_sha :: "string \<Rightarrow> string"
  s_mac :: "string \<Rightarrow> string"
  s_render :: renderer
  s_upload :: "string \<Rightarrow> string"
  s_presign :: "string \<Rightarrow> int \<Rightarrow> string"
  s_send :: sender
  s_asn :: "(string \<Rightarrow> string) option"
  s_roles :: "string list"
  s_outside :: outside_services

datatype (plugins only: code size) request =
    RegisterDomain register_input
  | MoveDomain int string string string string
  | UpdateDomain update_asset_input
  | BulkUpdateDomains "int list" "int option" "int option" "bool option"
  | StartTransfer int "string option" | FinishTransfer int | AbortTransfer int
  | RegisterAgent string register_request
  | MoveAgent int string string string string
  | Beat heartbeat_request | Poll string | Claim string | Report task_report | HealthCheck
  | SetConcurrency int int int int
  | CreateRelease create_input
  | PauseRelease int string string | ResumeRelease int string
  | CancelRelease int string string | RollbackRelease int string string
  | LinkArtifact int int | SignArtifact int string
  | QueueAlert alert_fire_payload | ResolveAlert int | AcknowledgeAlert int int
  | AddRule rule_row | ChangeRule rule_row | DropRule int
  | AddChannel channel_row | ChangeChannel channel_row | DropChannel int
  | JoinNode node_register_request | BeatNode node_heartbeat_request | StaleNodes
  | Assign check_assignment_row | Unassign int
  | SubmitMeasurements string "measurement list" | AddBogon string string | DropBogon string
  | Analyze int | CheckExpiry
  | GrantDomain int int string int | RevokeDomain int int | GiveRole int string | TakeRole int string
  | OnAssets asset_request
  | RunJob job

text \<open>
  The handlers of queued jobs: the build job goes to the artifact component, the alert jobs to
  the alert engine and the dispatcher, the jobs of the asset services to their handlers, the others to
  the release service.
\<close>

definition run_job :: "services \<Rightarrow> job \<Rightarrow> unit op" where
  "run_job s j = (case j of
       BuildJob p slug v rel by ids \<Rightarrow>
         HandleBuild (s_sha s) (s_mac s) (s_render s) (s_upload s) p slug v rel by ids
     | AlertFireJob p \<Rightarrow> HandleAlertFire p
     | NotifySendJob c i sev \<Rightarrow> HandleNotifySend (s_send s) c i sev
     | ImportJob i \<Rightarrow> run_asset_job (s_outside s) j
     | DriftCheckJob i n pid \<Rightarrow> run_asset_job (s_outside s) j
     | DriftCheckAllJob \<Rightarrow> run_asset_job (s_outside s) j
     | NSCheckJob i n pid ns \<Rightarrow> run_asset_job (s_outside s) j
     | ProbeRunJob tier p \<Rightarrow> run_asset_job (s_outside s) j
     | _ \<Rightarrow> process_release_job (s_presign s) j)"

definition serve :: "services \<Rightarrow> request \<Rightarrow> unit op" where
  "serve s r = (case r of
       RegisterDomain inp \<Rightarrow> ignore (Register inp)
     | MoveDomain i f t rs b \<Rightarrow> ignore (Transition i f t rs b)
     | UpdateDomain inp \<Rightarrow> ignore (UpdateAsset inp)
     | BulkUpdateDomains ids reg dns auto \<Rightarrow> ignore (BulkUpdateFields ids reg dns auto)
     | StartTransfer i g \<Rightarrow> ignore (InitiateTransfer i g)
     | FinishTransfer i \<Rightarrow> ignore (CompleteTransfer i)
     | AbortTransfer i \<Rightarrow> ignore (CancelTransfer i)
     | RegisterAgent u rq \<Rightarrow> ignore (Agent_Register u rq)
     | MoveAgent i f t rs b \<Rightarrow> ignore (TransitionAgent i f t rs b)
     | Beat hq \<Rightarrow> ignore (Heartbeat hq)
     | Poll a \<Rightarrow> ignore (PullNextTask a)
     | Claim tid \<Rightarrow> ignore (ClaimTask tid)
     | Report tr \<Rightarrow> ignore (ReportTask tr)
     | HealthCheck \<Rightarrow> ignore CheckStaleAgents
     | SetConcurrency i m bs ws \<Rightarrow> ignore (UpdateConcurrency i m bs ws)
     | CreateRelease inp \<Rightarrow> ignore (Create (s_sha s) inp)
     | PauseRelease i rs b \<Rightarrow> ignore (Pause i rs b)
     | ResumeRelease i b \<Rightarrow> ignore (Resume i b)
     | CancelRelease i rs b \<Rightarrow> ignore (Cancel i rs b)
     | RollbackRelease i rs b \<Rightarrow> ignore (Rollback i rs b)
     | LinkArtifact i rel \<Rightarrow> ignore (SetReleaseID i rel)
     | SignArtifact i sg \<Rightarrow> ignore (MarkSigned i sg)
     | QueueAlert p \<Rightarrow> ignore (EnqueueFire p)
     | ResolveAlert i \<Rightarrow> ignore (AlertStore_Resolve i)
     | AcknowledgeAlert i u \<Rightarrow> ignore (Acknowledge i u)
     | AddRule r \<Rightarrow> ignore (CreateRule r) | ChangeRule r \<Rightarrow> ignore (UpdateRule r)
     | DropRule i \<Rightarrow> ignore (DeleteRule i)
     | AddChannel c \<Rightarrow> ignore (CreateChannel c) | ChangeChannel c \<Rightarrow> ignore (UpdateChannel c)
     | DropChannel i \<Rightarrow> ignore (DeleteChannel i)
     | JoinNode nq \<Rightarrow> ignore (Node_Register nq) | BeatNode nb \<Rightarrow> ignore (Node_Heartbeat nb)
     | StaleNodes \<Rightarrow> ignore MarkStaleOffline
     | Assign a \<Rightarrow> ignore (UpsertAssignment a) | Unassign d \<Rightarrow> ignore (DeleteAssignment d)
     | SubmitMeasurements n ms \<Rightarrow> ignore (StoreMeasurements n ms)
     | AddBogon ip note \<Rightarrow> ignore (AddBogonIP ip note) | DropBogon ip \<Rightarrow> ignore (DeleteBogonIP ip)
     | Analyze d \<Rightarrow> ignore (AnalyzeAndStore (s_asn s) True d)
     | CheckExpiry \<Rightarrow> ignore HandleExpiryCheck
     | GrantDomain d u l g \<Rightarrow> ignore (GrantPermission d u l g)
     | RevokeDomain d u \<Rightarrow> ignore (RevokePermission d u)
     | GiveRole u r \<Rightarrow> ignore (GrantRole (s_roles s) u r) | TakeRole u r \<Rightarrow> ignore (RevokeRole u r)
     | OnAssets ar \<Rightarrow> ignore (serve_asset (s_outside s) ar)
     | RunJob j \<Rightarrow> ignore (run_job s j))"

section \<open>Steps\<close>

text \<open>
  A step serves a request (a job only if it is in the queue, but possibly more than once: the
  queue delivers at least once), lets time pass, changes which calls will fail, acknowledges
  a job, or changes the rows of services outside this model (variables, host groups).
\<close>

inductive platform_step :: "services \<Rightarrow> world \<Rightarrow> world \<Rightarrow> bool" for s where
  serve_request: "(\<And>j. r = RunJob j \<Longrightarrow> j \<in> q_job ` set (task_queue w)) \<Longrightarrow>
     platform_step s w (final (serve s r) w)"
| time_passes: "now w \<le> t \<Longrightarrow> platform_step s w (w\<lparr>now := t\<rparr>)"
| outage: "platform_step s w (w\<lparr>faults := fs\<rparr>)"
| job_done: "platform_step s w (w\<lparr>task_queue := remove1 q (task_queue w)\<rparr>)"
| variables: "platform_step s w (w\<lparr>domain_vars := vs\<rparr>)"
| groups: "platform_step s w (w\<lparr>host_groups := hgs\<rparr>)"

inductive_cases platform_stepE: "platform_step s w w'"

definition runs_to :: "services \<Rightarrow> world \<Rightarrow> world \<Rightarrow> bool" where
  "runs_to s = (platform_step s)\<^sup>*\<^sup>*"

definition reachable :: "services \<Rightarrow> world \<Rightarrow> bool" where
  "reachable s w \<longleftrightarrow> runs_to s empty_world w"

text \<open>The interface of a relation that every step of the platform keeps.\<close>

locale platform_preorder = monitor_preorder R + asset_preorder R for R :: "world \<Rightarrow> world \<Rightarrow> bool" +
  assumes domain_calls: "keeps R (Register ri)" "keeps R (Transition i f t rs b)" "keeps R (UpdateAsset ui)"
      "keeps R (BulkUpdateFields ids reg dns auto)" "keeps R (InitiateTransfer i g)"
      "keeps R (CompleteTransfer i)" "keeps R (CancelTransfer i)"
    and agent_calls: "keeps R (Agent_Register u rq)" "keeps R (TransitionAgent i f t rs b)"
      "keeps R (Heartbeat hq)" "keeps R (PullNextTask aid)" "keeps R (ClaimTask tid)"
      "keeps R (ReportTask tr)" "keeps R CheckStaleAgents" "keeps R (UpdateConcurrency i m bs ws)"
    and release_calls: "keeps R (Create sha ci)" "keeps R (Pause i rs b)" "keeps R (Resume i b)"
      "keeps R (Cancel i rs b)" "keeps R (Rollback i rs b)" "keeps R (process_release_job ps j)"
    and artifact_calls: "keeps R (SetReleaseID i rel)" "keeps R (MarkSigned i sg)"
      "keeps R (HandleBuild sha mac render upload p slug v ro by dids)"
    and environment: "now w \<le> n \<Longrightarrow> R w (w\<lparr>now := n\<rparr>)"
      "R w (w\<lparr>domain_vars := dv\<rparr>)" "R w (w\<lparr>host_groups := hg\<rparr>)"
begin

lemmas monitor_calls = alert_calls k_nodes k_assignments k_measurements k_bogons k_pipeline k_alert_jobs
  k_expiry k_permissions

lemma keeps_run_job: "keeps R (run_job s j)"
  unfolding run_job_def by (cases j) (simp_all add: artifact_calls release_calls monitor_calls k_run_asset_job)

lemma keeps_serve: "keeps R (serve s r)"
  unfolding serve_def
  by (cases r) (simp_all add: keeps_ignore domain_calls agent_calls release_calls artifact_calls
      monitor_calls k_serve_asset keeps_run_job)

lemma step_keeps: "platform_step s w w' \<Longrightarrow> R w w'"
  by (erule platform_stepE) (auto simp: keepsD keeps_serve environment M_queue R_faults)

lemma run_keeps: "runs_to s w w' \<Longrightarrow> R w w'"
  unfolding runs_to_def
  by (induction rule: rtranclp_induct) (auto intro: R_refl R_trans step_keeps)

end

text \<open>The audit invariants, the legality of moves and the immutability of artifacts.\<close>

interpretation plc: platform_preorder lc_step
  by unfold_locales (intro eff_intro | rule lc_other; simp)+

interpretation pag: platform_preorder ag_step
  by unfold_locales (intro eff_intro | rule ag_other; simp)+

interpretation prel: platform_preorder rel_step
  by unfold_locales (intro eff_intro | rule rel_other; simp)+

interpretation part: platform_preorder art_step
  by unfold_locales (intro eff_intro | rule art_other; simp)+

lemma al_clock: "now w \<le> n \<Longrightarrow> al_step w (w\<lparr>now := n\<rparr>)"
  unfolding al_step_def alert_inv_def by (auto intro: order_trans)

interpretation pal: platform_preorder al_step
  by unfold_locales (intro eff_intro | (rule al_clock, assumption) | rule al_other; simp)+

interpretation pver: platform_preorder ver_step
  by unfold_locales (intro eff_intro | rule ver_other; simp)+

section \<open>Reachable worlds\<close>

lemma reachable_init: "reachable s empty_world"
  by (simp add: reachable_def runs_to_def)

lemma reachable_step: "reachable s w \<Longrightarrow> platform_step s w w' \<Longrightarrow> reachable s w'"
  unfolding reachable_def runs_to_def by (rule rtranclp.rtrancl_into_rtrancl)

lemma runs_to_refl: "runs_to s w w"
  by (simp add: runs_to_def)

lemma runs_to_step: "runs_to s w w' \<Longrightarrow> platform_step s w' w'' \<Longrightarrow> runs_to s w w''"
  unfolding runs_to_def by (rule rtranclp.rtrancl_into_rtrancl)

lemma reachable_runs: "reachable s w \<Longrightarrow> runs_to s w w' \<Longrightarrow> reachable s w'"
  unfolding reachable_def runs_to_def by (rule rtranclp_trans)

lemma audit_trail_empty: "audit_trail g start (\<lambda>i. None) []"
  by (simp add: audit_trail_def audit_at_def)

lemma tbl_get_empty: "tbl_get key empty_tbl = (\<lambda>i. None)"
  by (simp add: fun_eq_iff tbl_get_def tbl_find_def empty_tbl_def)

lemma rows_empty [simp]: "rows empty_tbl = []"
  by (simp add: empty_tbl_def)

lemma init_invs: "lifecycle_inv empty_world" "agent_inv empty_world" "release_inv empty_world"
  by (simp_all add: lc_defs ag_defs rel_defs empty_world_def audit_trail_empty wf_empty tbl_get_empty)

lemma init_alerts: "alert_inv empty_world"
  by (simp add: alert_inv_def empty_world_def)

lemma reachable_alert_inv: "reachable s w \<Longrightarrow> alert_inv w"
  using init_alerts pal.run_keeps by (auto simp: reachable_def al_step_def)

lemma reachable_invs:
  assumes "reachable s w"
  shows "lifecycle_inv w" "agent_inv w" "release_inv w"
  using assms init_invs plc.run_keeps pag.run_keeps prel.run_keeps
  by (auto simp: reachable_def lc_step_def ag_step_def rel_step_def)

text \<open>
  C1: In every reachable world, under every sequence of calls, jobs and outages, the three
  audit trails are complete and legal: for every domain, agent and release the history rows
  in order lead from the initial state along edges of the transition graph to the state the
  row carries now, and no history exists for rows that do not.
\<close>

theorem reachable_audit_trails:
  assumes "reachable s w"
  shows "audit_trail validLifecycleTransitions ''requested'' (dom_status w) (dom_hist w) \<and>
    audit_trail validAgentTransitions ''registered'' (ag_status w) (rows (agent_history w)) \<and>
    audit_trail validReleaseTransitions ''pending'' (rel_status w) (rows (release_history w))"
  using reachable_invs [OF assms] by (simp add: lifecycle_inv_def agent_inv_def release_inv_def)

text \<open>
  The natural keys stay unique in every reachable world: no two domains share a name
  (deleted ones included), no two agents an agent id, no two releases a release id.
\<close>

theorem reachable_unique_names:
  assumes "reachable s w"
  shows "distinct (map d_fqdn (rows (domains w))) \<and> distinct (map a_agent_id (rows (agents w))) \<and>
    distinct (map r_release_id (rows (releases w)))"
  using reachable_invs [OF assms]
  by (simp add: lifecycle_inv_def dom_wf_def agent_inv_def ag_wf_def release_inv_def rel_wf_def)


lemma states_closed:
  assumes "(start, t) \<in> (edge_rel g)\<^sup>*" and "start \<in> set qs"
    and "list_all (\<lambda>(s, ts). list_all (\<lambda>t. t \<in> set qs) ts) g"
  shows "t \<in> set qs"
  using assms
proof (induction rule: rtrancl_induct)
  case (step u v)
  then show ?case by (auto simp: edge_rel_def has_edge_iff list_all_iff dest!: map_of_SomeD)
qed

lemma audited_state_known:
  assumes "audit_trail g start st hs" and "st i = Some t" and "start \<in> set qs"
    and "list_all (\<lambda>(s, ts). list_all (\<lambda>t. t \<in> set qs) ts) g"
  shows "t \<in> set qs"
  using audit_trail_reaches [OF assms(1,2)] assms(3,4) by (rule states_closed)

lemma graphs_closed:
  "''requested'' \<in> set AllLifecycleStates"
  "list_all (\<lambda>(s, ts). list_all (\<lambda>t. t \<in> set AllLifecycleStates) ts) validLifecycleTransitions"
  "''registered'' \<in> set AllAgentStates"
  "list_all (\<lambda>(s, ts). list_all (\<lambda>t. t \<in> set AllAgentStates) ts) validAgentTransitions"
  "''pending'' \<in> set AllReleaseStates"
  "list_all (\<lambda>(s, ts). list_all (\<lambda>t. t \<in> set AllReleaseStates) ts) validReleaseTransitions"
  by (simp_all add: graph_defs AllLifecycleStates_def AllAgentStates_def AllReleaseStates_def)

text \<open>
  C15: No entity is ever in an undocumented state: in every reachable world each domain,
  agent and release carries one of the states the code enumerates.
\<close>

theorem reachable_states_known:
  assumes "reachable s w"
  shows "(dom_status w i = Some t \<longrightarrow> t \<in> set AllLifecycleStates) \<and>
    (ag_status w i = Some t \<longrightarrow> t \<in> set AllAgentStates) \<and>
    (rel_status w i = Some t \<longrightarrow> t \<in> set AllReleaseStates)"
proof -
  note inv = reachable_invs [OF assms]
  have "dom_status w i = Some t \<longrightarrow> t \<in> set AllLifecycleStates"
    using inv(1) audited_state_known [OF _ _ graphs_closed(1,2)] by (auto simp: lifecycle_inv_def)
  moreover have "ag_status w i = Some t \<longrightarrow> t \<in> set AllAgentStates"
    using inv(2) audited_state_known [OF _ _ graphs_closed(3,4)] by (auto simp: agent_inv_def)
  moreover have "rel_status w i = Some t \<longrightarrow> t \<in> set AllReleaseStates"
    using inv(3) audited_state_known [OF _ _ graphs_closed(5,6)] by (auto simp: release_inv_def)
  ultimately show ?thesis by blast
qed

text \<open>
  C3: Final states are final: whatever happens after, a release that has succeeded, was rolled
  back or cancelled keeps that state, and a retired domain stays retired.
\<close>

theorem terminal_states_final:
  assumes "reachable s w" and "runs_to s w w'"
  shows "(rel_status w i = Some t \<and> t \<in> set TerminalReleaseStates \<longrightarrow> rel_status w' i = Some t) \<and>
    (dom_status w i = Some ''retired'' \<longrightarrow> dom_status w' i = Some ''retired'')"
proof -
  have "moves validReleaseTransitions (rel_status w) (rel_status w')"
    "moves validLifecycleTransitions (dom_status w) (dom_status w')"
    using prel.run_keeps [OF assms(2)] plc.run_keeps [OF assms(2)] reachable_invs [OF assms(1)]
    by (simp_all add: rel_step_def lc_step_def)
  then show ?thesis
    by (auto simp: TerminalReleaseStates_def validReleaseTransitions_def validLifecycleTransitions_def
        intro: moves_terminal)
qed

text \<open>
  C12: Signed artifacts are immutable: along every run each artifact row that has been signed
  is still there, unchanged in every column.
\<close>

theorem signed_artifacts_immutable:
  assumes "runs_to s w w'" and "a \<in> set (rows (artifacts w))" and "af_signed_at a \<noteq> None"
  shows "a \<in> set (rows (artifacts w'))"
  using part.run_keeps [OF assms(1)] assms(2,3) by (simp add: art_step_def)

text \<open>
  C13: Published template versions are immutable: along every run a look-up that finds a published
  version finds the same row for ever after, content, checksum and label included.
\<close>

theorem published_versions_immutable:
  assumes "runs_to s w w'" and "published_version w i v"
  shows "published_version w' i v"
  using pver.run_keeps [OF assms(1)] assms(2) by (simp add: ver_step_def)

text \<open>
  C14: Every release of every reachable world belongs to a published version, which is the version every
  build of the release renders.
\<close>

theorem releases_built_from_published:
  assumes "reachable s w" and "r \<in> set (rows (releases w))"
  shows "\<exists>v. published_version w (r_template_version_id r) v"
proof -
  have "built_from_published empty_world"
    by (simp add: built_from_published_def empty_world_def)
  then have "built_from_published w"
    using assms(1) pver.run_keeps [of s empty_world w] by (simp add: reachable_def ver_step_def)
  then show ?thesis using assms(2) by (simp add: built_from_published_def)
qed

end
