(* ===== verification/Job_Chains.thy ===== *)
theory Job_Chains
  imports Finalization Platform
begin

text \<open>
  Which jobs the release jobs put into the queue, and that every chain of jobs, each queued
  by the run of the one before it, comes to an end.
\<close>

section \<open>What an operation may queue\<close>

definition queues :: "(job \<Rightarrow> bool) \<Rightarrow> world \<Rightarrow> world \<Rightarrow> bool" where
  "queues P w w' \<longleftrightarrow> (\<exists>new. task_queue w' = task_queue w @ new \<and> list_all (\<lambda>q. P (q_job q)) new)"

definition queued_by :: "unit op \<Rightarrow> world \<Rightarrow> job list" where
  "queued_by m w = map q_job (drop (length (task_queue w)) (task_queue (final m w)))"

lemma queued_by_queues: "queues P w (final m w) \<Longrightarrow> j \<in> set (queued_by m w) \<Longrightarrow> P j"
  by (auto simp: queues_def queued_by_def list_all_iff)

lemma queues_same: "task_queue w' = task_queue w \<Longrightarrow> queues P w w'"
  by (simp add: queues_def)

interpretation jobs: store_preorder "queues P" for P
proof unfold_locales
  fix u v w :: world assume "queues P u v" "queues P v w"
  then show "queues P u w" unfolding queues_def by (metis append_assoc list_all_append)
qed (simp_all add: queues_same)

lemma queues_exec: "(\<And>w. task_queue (f w) = task_queue w) \<Longrightarrow> keeps (queues P) (exec f)"
  by (rule jobs.keeps_exec) (rule queues_same)

lemma queues_exec_unless: "(\<And>w. task_queue (f w) = task_queue w) \<Longrightarrow> keeps (queues P) (exec_unless p e f)"
  by (rule jobs.keeps_exec_unless) (rule queues_same)

lemma queues_stmt: "(\<And>w. task_queue (final m w) = task_queue w) \<Longrightarrow> keeps (queues P) (stmt m)"
  by (rule jobs.keeps_stmt) (simp add: keeps_def queues_same)

lemma queues_enqueue [eff_intro]: "P j \<Longrightarrow> keeps (queues P) (enqueue j r t q d)"
  unfolding enqueue_def by (rule jobs.keeps_exec) (simp add: queues_def)

section \<open>The statements of the release tables queue nothing\<close>

lemma quiet_statements [eff_intro]:
  "keeps (queues P) (ReleaseStore_GetByID i)" "keeps (queues P) (ListScopes i)"
  "keeps (queues P) (ListShards i)" "keeps (queues P) (GetShardByID i)"
  "keeps (queues P) (GetNextPendingShard i k)" "keeps (queues P) (UpdateShardStatus i st)"
  "keeps (queues P) (UpdateShardCounts i a b)" "keeps (queues P) (SetArtifactID i k)"
  "keeps (queues P) (SetTotals i a b)" "keeps (queues P) (SetStartedAt i)" "keeps (queues P) (SetEndedAt i)"
  "keeps (queues P) (IncrementSuccessBy i k)" "keeps (queues P) (IncrementFailureBy i k)"
  "keeps (queues P) (RollbackStore_Complete k ok)" "keeps (queues P) (CreateBatch ts)"
  "keeps (queues P) (DomainTask_UpdateStatus i st reason)" "keeps (queues P) (ListByShard i)"
  "keeps (queues P) (DomainTask_ListByRelease i)" "keeps (queues P) (ArtifactStore_GetByID i)"
  "keeps (queues P) (GetVersion i)" "keeps (queues P) (GetAgentTaskStatsByShard i)"
  "keeps (queues P) (GetAgentTaskStatsByRelease i)" "keeps (queues P) (ListAgentTasksByRelease i)"
  "keeps (queues P) ListOnlineAgents" "keeps (queues P) (ListOnlineByHostGroup i)"
  "keeps (queues P) (HostGroupStore_GetByID i)" "keeps (queues P) (DomainStore_GetByID i)"
  "keeps (queues P) (GetVariables i)"
  unfolding ReleaseStore_GetByID_def ListScopes_def ListShards_def GetShardByID_def GetNextPendingShard_def
    UpdateShardStatus_def UpdateShardCounts_def SetArtifactID_def SetTotals_def SetStartedAt_def SetEndedAt_def
    IncrementSuccessBy_def IncrementFailureBy_def update_release_def RollbackStore_Complete_def CreateBatch_def
    DomainTask_UpdateStatus_def ListByShard_def DomainTask_ListByRelease_def ArtifactStore_GetByID_def
    GetVersion_def GetAgentTaskStatsByShard_def GetAgentTaskStatsByRelease_def ListAgentTasksByRelease_def
    ListOnlineAgents_def ListOnlineByHostGroup_def HostGroupStore_GetByID_def DomainStore_GetByID_def
    GetVariables_def
  by (intro eff_intro queues_exec queues_exec_unless queues_stmt; simp)+

lemma quiet_inserts [eff_intro]:
  "keeps (queues P) (CreateShard rel idx canary n)" "keeps (queues P) (CreateAgentTask t)"
  "keeps (queues P) (ArtifactStore_Create a)"
  unfolding CreateShard_def CreateAgentTask_def ArtifactStore_Create_def
  by (intro queues_stmt queues_exec_unless; simp add: final_def)+

lemma quiet_transition [eff_intro]: "keeps (queues P) (TransitionRelease i f t rs b)"
  unfolding TransitionRelease_def ReleaseStore_TransitionTx_def updateReleaseStatusTx_def
    insertReleaseStateHistoryTx_def
  by (intro eff_intro queues_exec; simp)

lemma quiet_loops [eff_intro]:
  "keeps (queues P) (count_release i s)" "keeps (queues P) (mark_shards shs st)"
  "keeps (queues P) (count_shards shs s)" "keeps (queues P) (complete_record k ok)"
  "keeps (queues P) (all_shards i)"
  unfolding count_release_def mark_shards_def count_shards_def complete_record_def all_shards_def
  by (intro eff_intro)+

section \<open>What each release job queues\<close>

lemma Plan_queues:
  "keeps (queues (\<lambda>j. \<exists>p slug v rel by ids. j = BuildJob p slug v rel by ids)) (Plan i strategy)"
  unfolding Plan_def Let_def fail_plan_def plan_input_def create_planned_shard_def
  by (intro eff_intro) blast

lemma MarkReady_queues: "keeps (queues (\<lambda>j. \<exists>s. j = DispatchJob i s)) (MarkReady i art)"
  unfolding MarkReady_def by (intro eff_intro) blast

lemma HandleBuild_queues:
  "keeps (queues (\<lambda>j. \<exists>i s. j = DispatchJob i s)) (HandleBuild sha mac render upload p slug v rel by ids)"
proof -
  have ready: "keeps (queues (\<lambda>j. \<exists>i s. j = DispatchJob i s)) (MarkReady i art)" for i art
    unfolding MarkReady_def by (intro eff_intro) blast
  have "keeps (queues P) (stmt (ret z))" for P and z :: 'z
    by (intro eff_intro)
  then show ?thesis
    unfolding HandleBuild_def Build_def publish_build_def render_input_of_def Let_def
    by (intro eff_intro ready)
qed

lemma fetch_groups_quiet [eff_intro]: "keeps (queues P) (fetch_groups hgs gs)"
  by (induction hgs gs rule: fetch_groups.induct) (auto intro!: eff_intro)

lemma dispatch_items_quiet [eff_intro]: "keeps (queues P) (dispatch_items rel art url m sh)"
  unfolding dispatch_items_def dispatch_task_def select_agent_def persist_task_def Let_def
  by (intro eff_intro)

lemma DispatchShard_queues:
  "keeps (queues (\<lambda>j. j = FinalizeJob i sh 0 False 0)) (DispatchShard presign i sh)"
  unfolding DispatchShard_def start_dispatch_def by (intro eff_intro) simp

lemma ExecuteRollback_queues:
  "keeps (queues (\<lambda>j. j = FinalizeJob i 0 0 True rec)) (ExecuteRollback i art by rec)"
  unfolding ExecuteRollback_def rollback_agents_def Let_def by (intro eff_intro) simp

text \<open>With the database answering, a shard that is done queues the next pending one of a higher index only.\<close>

lemma advance_queues:
  assumes "shard_ready i sh st nx w"
  shows "queues (\<lambda>j. \<exists>m. nx = Some m \<and> j = DispatchJob i (sh_id m)) w (final (advance_release i sh) w)"
proof -
  have w: "faults w = []" and nx: "next_shard i sh w = nx"
    using assms by (simp_all add: shard_ready_def at_st_def)
  let ?k = "case nx of Some m \<Rightarrow> ignore (enqueue (DispatchJob i (sh_id m)) 3 120 ''release'' 0)
     | None \<Rightarrow> seq_eff (TransitionRelease i ''executing'' ''succeeded'' ''all shards completed'' ''system'')
                (ignore (SetEndedAt i))"
  have run: "final (advance_release i sh) w = final ?k w"
    using w nx by (auto simp: advance_release_def GetShardByID_def GetNextPendingShard_def eff_run
        next_shard_def shard_index_def tbl_get_def split: option.splits)
  have "keeps (queues (\<lambda>j. \<exists>m. nx = Some m \<and> j = DispatchJob i (sh_id m))) ?k"
    by (intro eff_intro) simp
  from keepsD [OF this, of w] show ?thesis unfolding run .
qed

lemma finalize_shard_queues:
  assumes "shard_ready i sh st nx w"
  shows "queues (\<lambda>j. \<exists>m. nx = Some m \<and> j = DispatchJob i (sh_id m)) w (final (finalize_shard i sh s n) w)"
    (is "queues ?P w _")
proof -
  let ?w1 = "final (UpdateShardCounts sh (st_succeeded s) (st_failed s + st_timeout s)) w"
  let ?w2 = "final (count_release i s) ?w1"
  let ?w3 = "final (UpdateShardStatus sh ''succeeded'') ?w2"
  have quiet: "keeps (queues P) (UpdateShardCounts sh a b)" "keeps (queues P) (count_release i s)"
    "keeps (queues P) (UpdateShardStatus sh st')" for P a b st' by (intro eff_intro)+
  have w2: "queues ?P w ?w2"
    by (rule jobs.R_trans [OF keepsD [OF quiet(1)] keepsD [OF quiet(2)]])
  have counted: "result (count_release i s) ?w1 = Inr ()" by (simp add: count_release_def eff_run)
  show ?thesis
  proof (cases "has_failed s n")
    case True
    let ?k = "seq_eff (ignore (UpdateShardStatus sh ''failed''))
         (seq_eff (TransitionRelease i ''executing'' ''failed'' (shard_reason sh s n) ''system'')
            (ignore (SetEndedAt i)))"
    have "keeps (queues ?P) ?k" by (intro eff_intro)
    then have "queues ?P ?w2 (final ?k ?w2)" by (rule keepsD)
    moreover have run: "final (finalize_shard i sh s n) w = final ?k ?w2"
      using True counted by (simp add: finalize_shard_def eff_run)
    ultimately show ?thesis unfolding run by (intro jobs.R_trans [OF w2])
  next
    case False
    have "shard_ready i sh st nx ?w3" by (intro shard_ready_ops assms)
    then have "queues ?P ?w3 (final (advance_release i sh) ?w3)" by (rule advance_queues)
    moreover have w3: "queues ?P w ?w3" by (rule jobs.R_trans [OF w2 keepsD [OF quiet(3)]])
    moreover have run: "final (finalize_shard i sh s n) w = final (advance_release i sh) ?w3"
      using False counted by (simp add: finalize_shard_def eff_run)
    ultimately show ?thesis unfolding run by (intro jobs.R_trans [OF w3])
  qed
qed

lemma finalize_others_queue_nothing [eff_intro]:
  "keeps (queues P) (finalize_rollback i s n rec)" "keeps (queues P) (finalize_legacy i s n)"
  unfolding finalize_rollback_def finalize_legacy_def by (intro eff_intro)+

lemma Finalize_queues:
  assumes "faults w = []" and "rel_wf w" and "wf_tbl sh_id (shards w)"
  shows "queues (\<lambda>j. n < 360 \<and> j = FinalizeJob i sh (n + 1) rb rec \<or>
     (\<exists>m. next_shard i sh w = Some m \<and> j = DispatchJob i (sh_id m))) w (final (Finalize i sh n rb rec) w)"
    (is "queues ?P w _")
proof -
  have ready: "shard_ready i sh (rel_status w) (next_shard i sh w) w"
    using assms by (simp add: shard_ready_def at_st_def)
  let ?go = "\<lambda>s. if in_progress s > 0 \<and> n < maxFinalizeRetries
         then ignore (enqueue (FinalizeJob i sh (n + 1) rb rec) 0 60 (if rb then ''critical'' else ''release'') 10)
         else if rb then finalize_rollback i s n rec
         else if sh > 0 then finalize_shard i sh s n
         else finalize_legacy i s n"
  have go: "queues ?P w (final (?go s) w)" for s
  proof (cases "\<not> rb \<and> sh > 0 \<and> \<not> (in_progress s > 0 \<and> n < maxFinalizeRetries)")
    case True
    then have "final (?go s) w = final (finalize_shard i sh s n) w" by auto
    with finalize_shard_queues [OF ready, of s n] show ?thesis
      by (auto simp: queues_def list_all_iff)
  next
    case False
    have "keeps (queues ?P) (ignore (enqueue (FinalizeJob i sh (n + 1) rb rec) 0 60
        (if rb then ''critical'' else ''release'') 10))" if "n < maxFinalizeRetries"
      using that by (intro eff_intro) (simp add: maxFinalizeRetries_def)
    moreover have "keeps (queues ?P) (finalize_rollback i s n rec)" "keeps (queues ?P) (finalize_legacy i s n)"
      by (intro eff_intro)+
    ultimately have "keeps (queues ?P) (?go s)" using False by auto
    then show ?thesis by (rule keepsD)
  qed
  let ?s = "stats_of (if \<not> rb \<and> sh > 0 then shard_tasks sh w else release_tasks i w)"
  have "final (Finalize i sh n rb rec) w = w \<or> (\<exists>s. final (Finalize i sh n rb rec) w = final (?go s) w)"
  proof (cases "tbl_find (is_release i) (releases w)")
    case None
    then show ?thesis using assms(1) by (simp add: Finalize_def ReleaseStore_GetByID_def eff_run)
  next
    case (Some r)
    show ?thesis
    proof (cases "r_status r \<noteq> (if rb then ''rolling_back'' else ''executing'')")
      case True
      with Some assms(1) show ?thesis by (simp add: Finalize_def ReleaseStore_GetByID_def eff_run)
    next
      case False
      with Some assms(1) have "final (Finalize i sh n rb rec) w = final (?go ?s) w"
        by (simp add: Finalize_def ReleaseStore_GetByID_def GetAgentTaskStatsByShard_def
            GetAgentTaskStatsByRelease_def eff_run)
      then show ?thesis by blast
    qed
  qed
  then show ?thesis
  proof (elim disjE exE)
    assume run: "final (Finalize i sh n rb rec) w = w"
    show ?thesis unfolding run by (rule queues_same) (rule refl)
  next
    fix s assume run: "final (Finalize i sh n rb rec) w = final (?go s) w"
    show ?thesis unfolding run by (rule go)
  qed
qed

section \<open>Chains of jobs end\<close>

text \<open>
  The rank of a release job: its stage, then how far its shard is from the last index, then dispatch
  before poll, then the polls that are left.
\<close>

definition stage :: "job \<Rightarrow> nat" where
  "stage j = (case j of PlanJob rel ids strategy \<Rightarrow> 3 | BuildJob p slug v rel by ids \<Rightarrow> 2
     | RollbackJob rel art by rec \<Rightarrow> 1 | _ \<Rightarrow> 0)"

definition shards_left :: "(int \<Rightarrow> int) \<Rightarrow> int \<Rightarrow> job \<Rightarrow> nat" where
  "shards_left ix N j = (case j of DispatchJob rel sh \<Rightarrow> nat (N + 1 - ix sh)
     | FinalizeJob rel sh n rb rec \<Rightarrow> nat (N + 1 - ix sh) | _ \<Rightarrow> 0)"

definition undispatched :: "job \<Rightarrow> nat" where
  "undispatched j = (case j of DispatchJob rel sh \<Rightarrow> 1 | _ \<Rightarrow> 0)"

definition polls_left :: "job \<Rightarrow> nat" where
  "polls_left j = (case j of FinalizeJob rel sh n rb rec \<Rightarrow> nat (360 - n) | _ \<Rightarrow> 0)"

definition is_release_job :: "job \<Rightarrow> bool" where
  "is_release_job j \<longleftrightarrow> (case j of PlanJob rel ids strategy \<Rightarrow> True | BuildJob p slug v rel by ids \<Rightarrow> True
     | RollbackJob rel art by rec \<Rightarrow> True | DispatchJob rel sh \<Rightarrow> True
     | FinalizeJob rel sh n rb rec \<Rightarrow> True | _ \<Rightarrow> False)"

text \<open>A world with the database up and shards of the given indices, at most \<open>N\<close>.\<close>

definition planned :: "(int \<Rightarrow> int) \<Rightarrow> int \<Rightarrow> world \<Rightarrow> bool" where
  "planned ix N w \<longleftrightarrow> faults w = [] \<and> rel_wf w \<and> wf_tbl sh_id (shards w) \<and>
     (\<forall>sh. shard_index sh w = ix sh) \<and> list_all (\<lambda>r. sh_index r \<le> N) (rows (shards w))"

lemma next_shard_index:
  assumes "planned ix N w" and "next_shard i sh w = Some m"
  shows "ix sh < ix (sh_id m)" and "ix (sh_id m) \<le> N"
proof -
  let ?later = "tbl_select (\<lambda>s. sh_release_id s = i \<and> sh_index s > shard_index sh w \<and>
      sh_status s = ''pending'') (shards w)"
  have "m \<in> set (sort_key sh_index ?later)"
    using assms(2) by (auto simp: next_shard_def next_pending_shard_def simp del: set_sort split: list.splits)
  then have "m \<in> set ?later" by (simp only: set_sort)
  then have m: "m \<in> set (rows (shards w))" "sh_index m > shard_index sh w"
    by (auto simp: tbl_select_def)
  have "shard_index (sh_id m) w = sh_index m"
    using tbl_get_mem [of sh_id "shards w" m] assms(1) m(1) by (simp add: planned_def shard_index_def)
  with m assms(1) show "ix sh < ix (sh_id m)" "ix (sh_id m) \<le> N"
    by (auto simp: planned_def list_all_iff)
qed

lemma release_job_ranks:
  assumes "planned ix N w" and "is_release_job j" and "k \<in> set (queued_by (run_job s j) w)"
  shows "(k, j) \<in> measures [stage, shards_left ix N, undispatched, polls_left]"
proof (cases j)
  case (FinalizeJob i sh n rb rec)
  then have "queues (\<lambda>j. n < 360 \<and> j = FinalizeJob i sh (n + 1) rb rec \<or>
     (\<exists>m. next_shard i sh w = Some m \<and> j = DispatchJob i (sh_id m))) w (final (run_job s j) w)"
    using Finalize_queues assms(1) by (simp add: run_job_def process_release_job_def planned_def)
  from queued_by_queues [OF this assms(3)] show ?thesis
  proof (elim disjE exE conjE)
    assume "n < 360" "k = FinalizeJob i sh (n + 1) rb rec"
    with FinalizeJob show ?thesis
      by (simp add: stage_def shards_left_def undispatched_def polls_left_def)
  next
    fix m assume "next_shard i sh w = Some m" and k: "k = DispatchJob i (sh_id m)"
    note later = next_shard_index [OF assms(1) this(1)]
    then have "nat (N + 1 - ix (sh_id m)) < nat (N + 1 - ix sh)" by linarith
    with FinalizeJob k show ?thesis by (simp add: stage_def shards_left_def)
  qed
next
  case (PlanJob i ids strategy)
  then have "keeps (queues (\<lambda>j. \<exists>p slug v rel by ids. j = BuildJob p slug v rel by ids)) (run_job s j)"
    using Plan_queues by (simp add: run_job_def process_release_job_def)
  from queued_by_queues [OF keepsD [OF this] assms(3)] PlanJob show ?thesis
    by (auto simp: stage_def)
next
  case (BuildJob p slug v rel b ids)
  then have "keeps (queues (\<lambda>j. \<exists>i sh. j = DispatchJob i sh)) (run_job s j)"
    using HandleBuild_queues by (simp add: run_job_def)
  from queued_by_queues [OF keepsD [OF this] assms(3)] BuildJob show ?thesis
    by (auto simp: stage_def)
next
  case (DispatchJob i sh)
  then have "keeps (queues (\<lambda>j. j = FinalizeJob i sh 0 False 0)) (run_job s j)"
    using DispatchShard_queues by (simp add: run_job_def process_release_job_def)
  from queued_by_queues [OF keepsD [OF this] assms(3)] DispatchJob show ?thesis
    by (auto simp: stage_def shards_left_def undispatched_def)
next
  case (RollbackJob i art b rec)
  then have "keeps (queues (\<lambda>j. j = FinalizeJob i 0 0 True rec)) (run_job s j)"
    using ExecuteRollback_queues by (simp add: run_job_def process_release_job_def)
  from queued_by_queues [OF keepsD [OF this] assms(3)] RollbackJob show ?thesis
    by (auto simp: stage_def)
qed (use assms(2) in \<open>simp_all add: is_release_job_def\<close>)


end
