(* ===== verification/Agent_Pipeline.thy ===== *)
theory Agent_Pipeline
  imports Artifact
begin

text \<open>
  cmd/agent: the task pipeline of the pull agent (handler.go, safety.go and the download of
  pull.go) on a model of its host. \<open>host\<close> holds the regular files under their full path, the
  snapshot directories created so far, and how often nginx was reloaded. What lies outside
  the program is the record \<open>outside\<close>: the answers of the object store and of the local web
  server, the outcome of the two nginx commands, which paths can be written, and measured
  durations. The HMAC takes the key and the data.

  Paths are clean: no component is empty, \<open>.\<close> or \<open>..\<close>, so \<open>filepath.Join\<close> puts a slash between
  its arguments. The staging directory of a task starts empty and belongs to that task.
\<close>

section \<open>The host\<close>

record host =
  files :: directory
  snapshots :: "string list"
  reloads :: nat

record outside =
  o_get :: "string \<Rightarrow> string option"
  o_head :: "string \<Rightarrow> int option"
  o_nginx_test :: "string option"
  o_nginx_reload :: "string option"
  o_writable :: "string \<Rightarrow> bool"
  o_ms :: "string \<Rightarrow> int"

type_synonym 'a hop = "(host, string, 'a) eff"

record agent_config =
  cfg_deploy_path :: string
  cfg_nginx_path :: string
  cfg_signing_key :: string

definition path_join :: "string \<Rightarrow> string \<Rightarrow> string" where
  "path_join a b = a @ ''/'' @ b"

text \<open>\<open>filepath.Rel\<close> for a file below a directory.\<close>

definition rel_path :: "string \<Rightarrow> string \<Rightarrow> string option" where
  "rel_path dir p = (let pre = dir @ ''/'' in
     if length pre < length p \<and> take (length pre) p = pre then Some (drop (length pre) p) else None)"

text \<open>The regular files below a directory, as \<open>filepath.Walk\<close> visits them.\<close>

definition files_below :: "string \<Rightarrow> host \<Rightarrow> directory" where
  "files_below dir h = List.map_filter (\<lambda>(p, c). map_option (\<lambda>r. (r, c)) (rel_path dir p)) (files h)"

definition write_file :: "outside \<Rightarrow> string \<Rightarrow> string \<Rightarrow> unit hop" where
  "write_file out p c = (\<lambda>h. if o_writable out p then (Inr (), h\<lparr>files := put p c (files h)\<rparr>)
     else (Inl (''cannot write '' @ p), h))"

section \<open>Download and verification\<close>

fun download_files ::
    "outside \<Rightarrow> string \<Rightarrow> manifest_file list \<Rightarrow> directory \<Rightarrow> string + directory" where
  "download_files out url [] dir = Inr dir"
| "download_files out url (mf # mfs) dir = (case o_get out (url @ ''/'' @ mf_path mf) of
      None \<Rightarrow> Inl (''download '' @ mf_path mf)
    | Some body \<Rightarrow> download_files out url mfs (put (mf_path mf) body dir))"

definition downloadArtifact :: "outside \<Rightarrow> string \<Rightarrow> manifest \<Rightarrow> string + directory" where
  "downloadArtifact out url m = download_files out url (m_files m) []"

definition verifyArtifactChecksum ::
    "(string \<Rightarrow> string) \<Rightarrow> directory \<Rightarrow> manifest \<Rightarrow> string option" where
  "verifyArtifactChecksum sha dir m =
     (let checksum = fst (ComputeDirectoryChecksum sha dir) in
      if checksum \<noteq> m_checksum m
      then Some (''checksum mismatch: expected '' @ m_checksum m @ '', got '' @ checksum) else None)"

definition verifyArtifactSignature ::
    "(string \<Rightarrow> string \<Rightarrow> string) \<Rightarrow> manifest \<Rightarrow> string \<Rightarrow> string option" where
  "verifyArtifactSignature hmac m secret =
     (if secret = [] then None
      else if hmac secret (m_checksum m) \<noteq> m_signature m then Some ''signature mismatch'' else None)"

section \<open>Writing, snapshot, restore\<close>

definition deploy_target :: "string \<Rightarrow> string \<Rightarrow> string \<Rightarrow> string" where
  "deploy_target deployPath nginxPath p =
     (if length p > 5 \<and> take 5 p = ''html/'' then path_join deployPath (drop 5 p)
      else if length p > 6 \<and> take 6 p = ''nginx/'' then path_join nginxPath (drop 6 p)
      else path_join deployPath p)"

definition writeArtifactFiles ::
    "outside \<Rightarrow> directory \<Rightarrow> string \<Rightarrow> string \<Rightarrow> manifest \<Rightarrow> unit hop" where
  "writeArtifactFiles out staging deployPath nginxPath m = for_each (m_files m) (\<lambda>mf.
     case map_of staging (mf_path mf) of
       None \<Rightarrow> throw (''copy '' @ mf_path mf)
     | Some c \<Rightarrow> write_file out (deploy_target deployPath nginxPath (mf_path mf)) c)"

definition snapshot_dir :: "string \<Rightarrow> string \<Rightarrow> string" where
  "snapshot_dir deployPath rid = path_join (path_join deployPath ''.previous'') rid"

definition in_previous :: "string \<Rightarrow> bool" where
  "in_previous r \<longleftrightarrow> r = ''.previous'' \<or> take 10 r = ''.previous/''"

definition snapshotPrevious :: "outside \<Rightarrow> string \<Rightarrow> string \<Rightarrow> unit hop" where
  "snapshotPrevious out deployPath rid =
     (let prevDir = snapshot_dir deployPath rid in
      seq_eff (modify (\<lambda>h. h\<lparr>snapshots := prevDir # snapshots h\<rparr>))
     (bnd (gets (files_below deployPath)) (\<lambda>fs.
        for_each (filter (\<lambda>rc. \<not> in_previous (fst rc)) fs)
          (\<lambda>rc. write_file out (path_join prevDir (fst rc)) (snd rc)))))"

definition restoreFromSnapshot :: "outside \<Rightarrow> string \<Rightarrow> string \<Rightarrow> unit hop" where
  "restoreFromSnapshot out deployPath rid =
     (let dir = snapshot_dir deployPath rid in
      bnd (gets snapshots) (\<lambda>ds.
        if dir \<notin> set ds then throw (''snapshot not found for release '' @ rid)
        else bnd (gets (files_below dir)) (\<lambda>fs.
          for_each fs (\<lambda>rc. write_file out (path_join deployPath (fst rc)) (snd rc)))))"

definition runNginxTest :: "outside \<Rightarrow> unit hop" where
  "runNginxTest out = (case o_nginx_test out of None \<Rightarrow> ret () | Some e \<Rightarrow> throw e)"

definition runNginxReload :: "outside \<Rightarrow> unit hop" where
  "runNginxReload out = (case o_nginx_reload out of
       None \<Rightarrow> modify (\<lambda>h. h\<lparr>reloads := reloads h + 1\<rparr>) | Some e \<Rightarrow> throw e)"

definition localVerify :: "outside \<Rightarrow> verify_config \<Rightarrow> unit hop" where
  "localVerify out cfg =
     (if v_url cfg = [] then ret ()
      else let expected = (if v_status_code cfg = 0 then 200 else v_status_code cfg) in
        case o_head out (v_url cfg) of
          None \<Rightarrow> throw ''verify request''
        | Some st \<Rightarrow> if st \<noteq> expected
            then throw (''verify: expected status '' @ show_int expected @ '', got '' @ show_int st)
            else ret ())"

section \<open>The pipeline\<close>

definition phase_report_of :: "outside \<Rightarrow> string \<Rightarrow> string + 'a \<Rightarrow> phase_report" where
  "phase_report_of out name r = (case r of
       Inl e \<Rightarrow> \<lparr>p_phase = name, p_status = ''failed'', p_duration_ms = o_ms out name, p_detail = e\<rparr>
     | Inr _ \<Rightarrow> \<lparr>p_phase = name, p_status = ''succeeded'', p_duration_ms = o_ms out name, p_detail = []\<rparr>)"

definition note_phase :: "string \<Rightarrow> string \<Rightarrow> string \<Rightarrow> phase_report" where
  "note_phase name status detail =
     \<lparr>p_phase = name, p_status = status, p_duration_ms = 0, p_detail = detail\<rparr>"

definition task_report_of ::
    "outside \<Rightarrow> task_envelope \<Rightarrow> string \<Rightarrow> phase_report list \<Rightarrow> string \<Rightarrow> task_report" where
  "task_report_of out env status phases err = \<lparr>tr_task_id = e_task_id env, tr_status = status,
     tr_phases = phases, tr_duration_ms = o_ms out ''total'', tr_error = err\<rparr>"

definition failReport :: "outside \<Rightarrow> task_envelope \<Rightarrow> phase_report list \<Rightarrow> string \<Rightarrow> task_report hop" where
  "failReport out env phases err = ret (task_report_of out env ''failed'' phases err)"

text \<open>\<open>runPhase\<close>, the report appended, and the early return of a failed phase.\<close>

definition runPhase ::
    "outside \<Rightarrow> task_envelope \<Rightarrow> string \<Rightarrow> 'a hop \<Rightarrow> phase_report list \<Rightarrow>
     ('a \<Rightarrow> phase_report list \<Rightarrow> task_report hop) \<Rightarrow> task_report hop" where
  "runPhase out env name m phases k = bnd (attempt m) (\<lambda>r.
     let phases' = phases @ [phase_report_of out name r] in
     case r of Inl e \<Rightarrow> failReport out env phases' e | Inr a \<Rightarrow> k a phases')"

definition of_sum :: "string + 'a \<Rightarrow> 'a hop" where
  "of_sum r = (case r of Inl e \<Rightarrow> throw e | Inr a \<Rightarrow> ret a)"

definition of_error :: "string option \<Rightarrow> unit hop" where
  "of_error r = (case r of Some e \<Rightarrow> throw e | None \<Rightarrow> ret ())"

definition has_nginx :: "task_envelope \<Rightarrow> bool" where
  "has_nginx env \<longleftrightarrow> e_type env = ''deploy_nginx'' \<or> e_type env = ''deploy_full''"

definition verify_phase ::
    "outside \<Rightarrow> task_envelope \<Rightarrow> phase_report list \<Rightarrow> task_report hop" where
  "verify_phase out env phases =
     (if v_enabled (e_verify env)
      then runPhase out env ''local_verify'' (localVerify out (e_verify env)) phases
             (\<lambda>_ ps. ret (task_report_of out env ''succeeded'' ps []))
      else ret (task_report_of out env ''succeeded''
             (phases @ [note_phase ''local_verify'' ''skipped'' []]) []))"

definition reload_phase ::
    "outside \<Rightarrow> task_envelope \<Rightarrow> phase_report list \<Rightarrow> task_report hop" where
  "reload_phase out env phases =
     (if has_nginx env \<and> e_allow_reload env \<and> \<not> e_defer_reload env
      then runPhase out env ''reload'' (runNginxReload out) phases (\<lambda>_. verify_phase out env)
      else verify_phase out env (phases @ [note_phase ''reload'' ''skipped''
             (if has_nginx env \<and> e_allow_reload env \<and> e_defer_reload env
              then ''deferred (batch reload pending)'' else ''skipped'')]))"

definition snapshot_phase ::
    "outside \<Rightarrow> task_envelope \<Rightarrow> string \<Rightarrow> phase_report list \<Rightarrow> task_report hop" where
  "snapshot_phase out env deployPath phases =
     bnd (attempt (snapshotPrevious out deployPath (e_release_id env))) (\<lambda>r.
       reload_phase out env (phases @ [phase_report_of out ''snapshot'' r,
         note_phase ''swap'' ''succeeded'' ''inline with write phase'']))"

definition nginx_test_phase ::
    "outside \<Rightarrow> task_envelope \<Rightarrow> string \<Rightarrow> phase_report list \<Rightarrow> task_report hop" where
  "nginx_test_phase out env deployPath phases =
     (if has_nginx env
      then runPhase out env ''nginx_test'' (runNginxTest out) phases (\<lambda>_. snapshot_phase out env deployPath)
      else snapshot_phase out env deployPath (phases @ [note_phase ''nginx_test'' ''skipped'' []]))"

definition pick_path :: "string \<Rightarrow> string \<Rightarrow> string" where
  "pick_path p d = (if p = [] then d else p)"

definition deploy_task ::
    "outside \<Rightarrow> (string \<Rightarrow> string) \<Rightarrow> (string \<Rightarrow> string \<Rightarrow> string) \<Rightarrow> agent_config \<Rightarrow> task_envelope \<Rightarrow>
     task_report hop" where
  "deploy_task out sha hmac cfg env =
     (let deployPath = pick_path (e_deploy_path env) (cfg_deploy_path cfg);
          nginxPath = pick_path (e_nginx_path env) (cfg_nginx_path cfg);
          m = e_manifest env
      in runPhase out env ''download'' (of_sum (downloadArtifact out (e_artifact_url env) m)) [] (\<lambda>staging ps.
         runPhase out env ''verify_checksum'' (of_error (verifyArtifactChecksum sha staging m)) ps (\<lambda>_ ps.
         runPhase out env ''verify_signature''
           (of_error (verifyArtifactSignature hmac m (cfg_signing_key cfg))) ps (\<lambda>_ ps.
         runPhase out env ''write'' (writeArtifactFiles out staging deployPath nginxPath m) ps (\<lambda>_ ps.
         nginx_test_phase out env deployPath ps)))))"

definition rollback_reload_phase ::
    "outside \<Rightarrow> task_envelope \<Rightarrow> phase_report list \<Rightarrow> task_report hop" where
  "rollback_reload_phase out env phases =
     (if has_nginx env \<and> e_allow_reload env
      then runPhase out env ''reload'' (runNginxReload out) phases (\<lambda>_. verify_phase out env)
      else verify_phase out env (phases @ [note_phase ''reload'' ''skipped'' []]))"

definition handleRollback ::
    "outside \<Rightarrow> agent_config \<Rightarrow> task_envelope \<Rightarrow> task_report hop" where
  "handleRollback out cfg env =
     (let deployPath = pick_path (e_deploy_path env) (cfg_deploy_path cfg);
          nginxPath = pick_path (e_nginx_path env) (cfg_nginx_path cfg)
      in if e_target_release_id env = []
         then failReport out env [] ''rollback task missing target_release_id''
         else runPhase out env ''restore''
                (restoreFromSnapshot out deployPath (e_target_release_id env)) [] (\<lambda>_ ps.
              if has_nginx env \<and> nginxPath \<noteq> []
              then runPhase out env ''nginx_test'' (runNginxTest out) ps (\<lambda>_. rollback_reload_phase out env)
              else rollback_reload_phase out env (ps @ [note_phase ''nginx_test'' ''skipped'' []])))"

definition handleTask ::
    "outside \<Rightarrow> (string \<Rightarrow> string) \<Rightarrow> (string \<Rightarrow> string \<Rightarrow> string) \<Rightarrow> agent_config \<Rightarrow> task_envelope \<Rightarrow>
     task_report hop" where
  "handleTask out sha hmac cfg env =
     (if e_type env = ''rollback'' then handleRollback out cfg env
      else deploy_task out sha hmac cfg env)"

section \<open>Running phases\<close>

lemma runPhase_run:
  "result (runPhase out env name m ps k) h = (case result m h of
     Inl e \<Rightarrow> Inr (task_report_of out env ''failed'' (ps @ [phase_report_of out name (result m h)]) e)
   | Inr a \<Rightarrow> result (k a (ps @ [phase_report_of out name (result m h)])) (final m h))"
  "final (runPhase out env name m ps k) h = (case result m h of
     Inl e \<Rightarrow> final m h
   | Inr a \<Rightarrow> final (k a (ps @ [phase_report_of out name (result m h)])) (final m h))"
  by (simp_all add: runPhase_def eff_run Let_def failReport_def split: sum.splits)

lemma pure_phases [simp]:
  "result (of_sum r) h = r" "final (of_sum r) h = h"
  "result (of_error e) h = (case e of None \<Rightarrow> Inr () | Some x \<Rightarrow> Inl x)" "final (of_error e) h = h"
  by (auto simp: of_sum_def of_error_def split: sum.splits option.splits)

text \<open>A report of success comes only through phases that succeeded.\<close>

lemma runPhase_succeededE:
  assumes "result (runPhase out env name m ps k) h = Inr r" and "tr_status r = ''succeeded''"
  obtains a ps' where "result m h = Inr a" and "result (k a ps') (final m h) = Inr r"
    and "final (runPhase out env name m ps k) h = final (k a ps') (final m h)"
  using assms by (auto simp: runPhase_run task_report_of_def split: sum.splits)

section \<open>Reports\<close>

text \<open>
  \<open>reports P m\<close>: the phase \<open>m\<close> always returns a report, and it satisfies \<open>P\<close>.
\<close>

definition reports :: "(task_report \<Rightarrow> bool) \<Rightarrow> task_report hop \<Rightarrow> bool" where
  "reports P m \<longleftrightarrow> (\<forall>h. \<exists>r. result m h = Inr r \<and> P r)"

lemma reports_ret: "P r \<Longrightarrow> reports P (ret r)"
  by (simp add: reports_def)

lemma reports_bnd_attempt:
  assumes "\<And>r. reports P (k r)"
  shows "reports P (bnd (attempt m) k)"
  using assms by (simp add: reports_def eff_run)

text \<open>A failed phase is followed only by a failed report, the snapshot apart.\<close>

definition clean :: "phase_report list \<Rightarrow> bool" where
  "clean ps \<longleftrightarrow> (\<forall>p \<in> set ps. p_status p = ''failed'' \<longrightarrow> p_phase p = ''snapshot'')"

definition sound_report :: "task_envelope \<Rightarrow> task_report \<Rightarrow> bool" where
  "sound_report env r \<longleftrightarrow> tr_task_id r = e_task_id env \<and>
     (tr_status r = ''succeeded'' \<and> clean (tr_phases r) \<or> tr_status r = ''failed'')"

lemma sound_fail: "reports (sound_report env) (failReport out env ps e)"
  by (simp add: failReport_def task_report_of_def sound_report_def reports_def)

lemma sound_runPhase:
  assumes "clean ps" and "\<And>a ps'. clean ps' \<Longrightarrow> reports (sound_report env) (k a ps')"
  shows "reports (sound_report env) (runPhase out env name m ps k)"
  unfolding runPhase_def Let_def
proof (rule reports_bnd_attempt)
  fix r :: "string + 'a"
  have "clean (ps @ [phase_report_of out name r])" if "r = Inr a" for a
    using assms(1) that by (simp add: clean_def phase_report_of_def)
  then show "reports (sound_report env) (case r of Inl e \<Rightarrow>
      failReport out env (ps @ [phase_report_of out name r]) e
    | Inr a \<Rightarrow> k a (ps @ [phase_report_of out name r]))"
    using assms(2) by (cases r) (auto intro: sound_fail)
qed

lemma clean_note: "clean ps \<Longrightarrow> st \<noteq> ''failed'' \<Longrightarrow> clean (ps @ [note_phase n st d])"
  by (simp add: clean_def note_phase_def)

lemma sound_verify: "clean ps \<Longrightarrow> reports (sound_report env) (verify_phase out env ps)"
  unfolding verify_phase_def
  by (auto intro!: sound_runPhase reports_ret simp: sound_report_def task_report_of_def clean_note)

lemma sound_reload: "clean ps \<Longrightarrow> reports (sound_report env) (reload_phase out env ps)"
  unfolding reload_phase_def by (auto intro!: sound_runPhase sound_verify clean_note)

lemma sound_snapshot: "clean ps \<Longrightarrow> reports (sound_report env) (snapshot_phase out env d ps)"
  unfolding snapshot_phase_def
  by (intro reports_bnd_attempt sound_reload)
    (auto simp: clean_def note_phase_def phase_report_of_def split: sum.splits)

lemma sound_nginx_test: "clean ps \<Longrightarrow> reports (sound_report env) (nginx_test_phase out env d ps)"
  unfolding nginx_test_phase_def by (auto intro!: sound_runPhase sound_snapshot clean_note)

lemma clean_Nil: "clean []"
  by (simp add: clean_def)

lemma sound_deploy: "reports (sound_report env) (deploy_task out sha hmac cfg env)"
  unfolding deploy_task_def Let_def by (intro sound_runPhase sound_nginx_test clean_Nil)

lemma sound_rollback_reload: "clean ps \<Longrightarrow> reports (sound_report env) (rollback_reload_phase out env ps)"
  unfolding rollback_reload_phase_def by (auto intro!: sound_runPhase sound_verify clean_note)

lemma sound_rollback: "reports (sound_report env) (handleRollback out cfg env)"
  unfolding handleRollback_def Let_def
  by (auto intro!: sound_fail sound_runPhase sound_rollback_reload clean_note clean_Nil)

text \<open>
  Every task ends in a report: whatever the envelope and the outside world, the pipeline
  returns a report for that task with status succeeded or failed, and it is succeeded only
  if no phase failed except possibly the snapshot.
\<close>

theorem handleTask_reports:
  "\<exists>r. result (handleTask out sha hmac cfg env) h = Inr r \<and> tr_task_id r = e_task_id env \<and>
     (tr_status r = ''succeeded'' \<and>
        (\<forall>p \<in> set (tr_phases r). p_status p = ''failed'' \<longrightarrow> p_phase p = ''snapshot'') \<or>
      tr_status r = ''failed'')"
  using sound_deploy [of env out sha hmac cfg] sound_rollback [of env out cfg]
  by (auto simp: handleTask_def reports_def sound_report_def clean_def)

text \<open>A host with an unreachable object store, and a task whose download fails.\<close>

definition dark :: outside where
  "dark = \<lparr>o_get = \<lambda>_. None, o_head = \<lambda>_. None, o_nginx_test = None, o_nginx_reload = None,
     o_writable = \<lambda>_. True, o_ms = \<lambda>_. 0\<rparr>"

definition one_file :: manifest where
  "one_file = zero_manifest\<lparr>m_files := [\<lparr>mf_path = ''html/a/index.html'', mf_checksum = ''new'',
     mf_size = 3\<rparr>]\<rparr>"

definition some_config :: agent_config where
  "some_config = \<lparr>cfg_deploy_path = ''/var/www'', cfg_nginx_path = ''/etc/nginx/conf.d'',
     cfg_signing_key = ''k''\<rparr>"

definition bare_host :: host where
  "bare_host = \<lparr>files = [], snapshots = [], reloads = 0\<rparr>"

theorem handleTask_reports_witness:
  "\<exists>r. result (handleTask dark id (\<lambda>_ x. x) some_config (deploy_envelope ''r'' ''u'' one_file ''a'')) bare_host
     = Inr r \<and> tr_status r = ''failed''"
proof -
  have "result (handleTask dark id (\<lambda>_ x. x) some_config (deploy_envelope ''r'' ''u'' one_file ''a'')) bare_host
      \<noteq> Inr r" if "tr_status r = ''succeeded''" for r
    using that by (auto simp: handleTask_def deploy_task_def deploy_envelope_def runPhase_run Let_def
        downloadArtifact_def one_file_def dark_def task_report_of_def)
  with handleTask_reports [of dark id "\<lambda>_ x. x" some_config "deploy_envelope ''r'' ''u'' one_file ''a''" bare_host]
  show ?thesis by blast
qed

section \<open>What a deployment leaves on the host\<close>

definition content :: "host \<Rightarrow> string \<Rightarrow> string option" where
  "content h = map_of (files h)"

text \<open>Relations between the host before and after, carried through phases like the store's.\<close>

definition frame :: "(string \<Rightarrow> bool) \<Rightarrow> host \<Rightarrow> host \<Rightarrow> bool" where
  "frame S h h' \<longleftrightarrow> (\<forall>p. \<not> S p \<longrightarrow> content h' p = content h p)"

interpretation fr: effect_preorder "frame S" for S
  by unfold_locales (auto simp: frame_def)

definition same_reloads :: "host \<Rightarrow> host \<Rightarrow> bool" where
  "same_reloads h h' \<longleftrightarrow> reloads h' = reloads h"

interpretation sr: effect_preorder same_reloads
  by unfold_locales (auto simp: same_reloads_def)

locale phase_frame = effect_preorder R for R :: "host \<Rightarrow> host \<Rightarrow> bool"
begin

lemma keeps_runPhase:
  "keeps R m \<Longrightarrow> (\<And>a ps. keeps R (k a ps)) \<Longrightarrow> keeps R (runPhase out env name m ps k)"
  unfolding runPhase_def failReport_def Let_def
  by (intro keeps_bnd keeps_attempt) (auto intro: keeps_ret split: sum.split)

lemma keeps_verify: "keeps R (verify_phase out env ps)"
  unfolding verify_phase_def localVerify_def Let_def
  by (auto intro!: keeps_runPhase intro: keeps_ret keeps_throw split: option.split)

lemma keeps_pure [simp]: "keeps R (of_sum r)" "keeps R (of_error e)"
  unfolding of_sum_def of_error_def
  by (auto intro: keeps_ret keeps_throw split: sum.split option.split)

lemma keeps_nginx_test: "keeps R (runNginxTest out)"
  unfolding runNginxTest_def by (auto intro: keeps_ret keeps_throw split: option.split)

end

interpretation fr: phase_frame "frame S" for S ..

interpretation sr: phase_frame same_reloads ..

lemma write_file_run:
  "result (write_file out p c) h =
     (if o_writable out p then Inr () else Inl (''cannot write '' @ p))"
  "content (final (write_file out p c) h) =
     (if o_writable out p then (content h)(p \<mapsto> c) else content h)"
  "reloads (final (write_file out p c) h) = reloads h"
  "snapshots (final (write_file out p c) h) = snapshots h"
  by (simp_all add: write_file_def result_def final_def content_def map_of_put)

lemma frame_write_file: "S p \<Longrightarrow> keeps (frame S) (write_file out p c)"
  by (rule keepsI) (auto simp: frame_def write_file_run)

lemma frame_modify: "(\<And>h. files (f h) = files h) \<Longrightarrow> keeps (frame S) (modify f)"
  by (rule keepsI) (simp add: frame_def content_def)

lemma prefix_split:
  "length pre < length p \<and> take (length pre) p = pre \<longleftrightarrow>
   p = pre @ drop (length pre) p \<and> drop (length pre) p \<noteq> []"
  by (metis append_eq_conv_conj append_take_drop_id drop_eq_Nil linorder_not_le)

lemma rel_path_iff: "rel_path d p = Some r \<longleftrightarrow> p = path_join d r \<and> r \<noteq> []"
  unfolding rel_path_def Let_def prefix_split path_join_def by (auto split: if_splits)

definition below :: "string \<Rightarrow> string \<Rightarrow> bool" where
  "below d p \<longleftrightarrow> rel_path d p \<noteq> None"

lemma below_join: "r \<noteq> [] \<Longrightarrow> below d (path_join d r)"
  using rel_path_iff [of d "path_join d r" r] by (simp add: below_def)

lemma files_below_mem:
  "(r, c) \<in> set (files_below d h) \<longleftrightarrow> (path_join d r, c) \<in> set (files h) \<and> r \<noteq> []"
proof -
  have "(r, c) \<in> set (files_below d h) \<longleftrightarrow> (\<exists>p. (p, c) \<in> set (files h) \<and> rel_path d p = Some r)"
    by (force simp: files_below_def List.map_filter_def)
  then show ?thesis by (auto simp: rel_path_iff)
qed

lemma keeps_bnd_gets: "(\<And>h. keeps R (k (f h))) \<Longrightarrow> keeps R (bnd (gets f) k)"
  by (simp add: keeps_def eff_run)

lemma frame_snapshot: "keeps (frame (below (snapshot_dir d rid))) (snapshotPrevious out d rid)"
  unfolding snapshotPrevious_def Let_def
  by (intro fr.keeps_seq frame_modify keeps_bnd_gets fr.keeps_for_each frame_write_file)
    (auto simp: files_below_mem intro: below_join)

lemma frame_reload: "keeps (frame S) (runNginxReload out)"
  unfolding runNginxReload_def by (auto intro: frame_modify fr.keeps_throw split: option.split)

lemma frame_after_write:
  "keeps (frame (below (snapshot_dir d (e_release_id env)))) (nginx_test_phase out env d ps)"
  unfolding nginx_test_phase_def snapshot_phase_def reload_phase_def
  by (auto intro!: fr.keeps_runPhase fr.keeps_nginx_test fr.keeps_bnd fr.keeps_attempt
      frame_snapshot frame_reload fr.keeps_verify)

text \<open>The write phase, when it succeeds, puts every listed file at its target.\<close>

lemma writeArtifactFiles_Inr:
  assumes "result (writeArtifactFiles out staging d n m) h = Inr ()"
    and "distinct (map (deploy_target d n \<circ> mf_path) (m_files m))"
  shows "mf \<in> set (m_files m) \<Longrightarrow> map_of staging (mf_path mf) \<noteq> None \<and>
      content (final (writeArtifactFiles out staging d n m) h) (deploy_target d n (mf_path mf)) =
        map_of staging (mf_path mf)"
    and "p \<notin> (deploy_target d n \<circ> mf_path) ` set (m_files m) \<Longrightarrow>
      content (final (writeArtifactFiles out staging d n m) h) p = content h p"
proof -
  let ?body = "\<lambda>mf. case map_of staging (mf_path mf) of None \<Rightarrow> throw (''copy '' @ mf_path mf)
     | Some c \<Rightarrow> write_file out (deploy_target d n (mf_path mf)) c"
  let ?t = "deploy_target d n \<circ> mf_path"
  have "(\<forall>mf \<in> set mfs. map_of staging (mf_path mf) \<noteq> None \<and>
          content (final (for_each mfs ?body) h) (?t mf) = map_of staging (mf_path mf)) \<and>
        (\<forall>p. p \<notin> ?t ` set mfs \<longrightarrow> content (final (for_each mfs ?body) h) p = content h p)"
    if "result (for_each mfs ?body) h = Inr ()" and "distinct (map ?t mfs)" for mfs
    using that
  proof (induction mfs arbitrary: h)
    case (Cons mf mfs)
    from Cons.prems(1) obtain c where c: "map_of staging (mf_path mf) = Some c" "o_writable out (?t mf)"
      by (auto simp: eff_run write_file_run split: option.splits sum.splits if_splits)
    let ?h = "final (write_file out (?t mf) c) h"
    have "result (for_each mfs ?body) ?h = Inr ()"
      using Cons.prems(1) c by (simp add: eff_run write_file_run)
    note IH = Cons.IH [OF this] and run = c write_file_run [of out "?t mf" c h]
    have fin: "final (for_each (mf # mfs) ?body) h = final (for_each mfs ?body) ?h"
      using run by (simp add: eff_run)
    have "?t mf \<notin> ?t ` set mfs" using Cons.prems(2) by (auto simp: image_iff)
    with IH Cons.prems(2) run show ?case
      unfolding fin by (auto simp: image_iff)
  qed simp
  with assms show "mf \<in> set (m_files m) \<Longrightarrow> map_of staging (mf_path mf) \<noteq> None \<and>
      content (final (writeArtifactFiles out staging d n m) h) (deploy_target d n (mf_path mf)) =
        map_of staging (mf_path mf)"
    and "p \<notin> (deploy_target d n \<circ> mf_path) ` set (m_files m) \<Longrightarrow>
      content (final (writeArtifactFiles out staging d n m) h) p = content h p"
    unfolding writeArtifactFiles_def by auto
qed


definition serving :: "string \<Rightarrow> outside" where
  "serving body = dark\<lparr>o_get := \<lambda>_. Some body, o_head := \<lambda>_. Some 200\<rparr>"


lemma deploy_succeededE:
  assumes "e_type env \<noteq> ''rollback''" and "result (handleTask out sha hmac cfg env) h = Inr r"
    and "tr_status r = ''succeeded''"
  obtains staging ps where
    "downloadArtifact out (e_artifact_url env) (e_manifest env) = Inr staging"
    "fst (ComputeDirectoryChecksum sha staging) = m_checksum (e_manifest env)"
    "result (writeArtifactFiles out staging (pick_path (e_deploy_path env) (cfg_deploy_path cfg))
       (pick_path (e_nginx_path env) (cfg_nginx_path cfg)) (e_manifest env)) h = Inr ()"
    "final (handleTask out sha hmac cfg env) h =
       final (nginx_test_phase out env (pick_path (e_deploy_path env) (cfg_deploy_path cfg)) ps)
         (final (writeArtifactFiles out staging (pick_path (e_deploy_path env) (cfg_deploy_path cfg))
            (pick_path (e_nginx_path env) (cfg_nginx_path cfg)) (e_manifest env)) h)"
proof -
  have ht: "handleTask out sha hmac cfg env = deploy_task out sha hmac cfg env"
    using assms(1) by (simp add: handleTask_def)
  let ?m = "e_manifest env" and ?d = "pick_path (e_deploy_path env) (cfg_deploy_path cfg)"
    and ?n = "pick_path (e_nginx_path env) (cfg_nginx_path cfg)"
  obtain staging where 1: "downloadArtifact out (e_artifact_url env) ?m = Inr staging"
    using assms(2,3) unfolding ht deploy_task_def Let_def
    by (auto simp: runPhase_run task_report_of_def split: sum.splits)
  have 2: "fst (ComputeDirectoryChecksum sha staging) = m_checksum ?m"
    "verifyArtifactSignature hmac ?m (cfg_signing_key cfg) = None"
    "result (writeArtifactFiles out staging ?d ?n ?m) h = Inr ()"
    using assms(2,3) 1 unfolding ht deploy_task_def Let_def
    by (auto simp: runPhase_run task_report_of_def verifyArtifactChecksum_def Let_def
        split: sum.splits option.splits if_splits)
  show ?thesis
    by (rule that [OF 1 2(1,3)])
      (simp add: ht deploy_task_def runPhase_run 1 2 verifyArtifactChecksum_def Let_def)
qed

lemma distinct_download:
  "downloadArtifact out url m = Inr dir \<Longrightarrow> distinct (map fst dir)"
proof -
  have "distinct (map fst dir0) \<Longrightarrow> download_files out url mfs dir0 = Inr dir \<Longrightarrow>
      distinct (map fst dir)" for mfs dir0
    by (induction mfs arbitrary: dir0) (simp_all split: option.splits, metis distinct_put)
  from this [of "[]"] show "downloadArtifact out url m = Inr dir \<Longrightarrow> distinct (map fst dir)"
    unfolding downloadArtifact_def by simp
qed

text \<open>
  C16: End-to-end integrity: let \<open>published\<close> be the directory whose checksum the manifest
  carries and let the hash have no collision among the bytes hashed for it and for the
  download. If the agent reports success, every file of the manifest lies at its target
  with exactly the published content (targets distinct and outside the snapshot directory).
\<close>

theorem deployed_files_authentic:
  fixes env :: task_envelope and cfg :: agent_config
  defines "d \<equiv> pick_path (e_deploy_path env) (cfg_deploy_path cfg)"
    and "n \<equiv> pick_path (e_nginx_path env) (cfg_nginx_path cfg)"
  assumes "e_type env \<noteq> ''rollback''"
    and "result (handleTask out sha hmac cfg env) h = Inr r" and "tr_status r = ''succeeded''"
    and "m_checksum (e_manifest env) = fst (ComputeDirectoryChecksum sha published)"
    and "distinct (map fst published)" and "list_all line_free (dir_entries sha published)"
    and "downloadArtifact out (e_artifact_url env) (e_manifest env) = Inr staging"
    and "list_all line_free (dir_entries sha staging)"
    and "inj_on sha (hashed_bytes sha published \<union> hashed_bytes sha staging)"
    and "distinct (map (deploy_target d n \<circ> mf_path) (m_files (e_manifest env)))"
    and "mf \<in> set (m_files (e_manifest env))" and "\<not> skipped_name (mf_path mf)"
    and "\<not> below (snapshot_dir d (e_release_id env)) (deploy_target d n (mf_path mf))"
  shows "map_of published (mf_path mf) \<noteq> None \<and>
    content (final (handleTask out sha hmac cfg env) h) (deploy_target d n (mf_path mf)) =
      map_of published (mf_path mf)"
proof -
  obtain staging' ps where st: "downloadArtifact out (e_artifact_url env) (e_manifest env) = Inr staging'"
    and cs: "fst (ComputeDirectoryChecksum sha staging') = m_checksum (e_manifest env)"
    and wr: "result (writeArtifactFiles out staging' d n (e_manifest env)) h = Inr ()"
    and fin: "final (handleTask out sha hmac cfg env) h = final (nginx_test_phase out env d ps)
        (final (writeArtifactFiles out staging' d n (e_manifest env)) h)"
    unfolding d_def n_def by (rule deploy_succeededE [OF assms(3-5)])
  have eq: "staging' = staging" using st assms(9) by simp
  have "map_of staging (mf_path mf) = map_of published (mf_path mf)"
    by (rule checksum_determines_files [where sha = sha])
      (use assms eq cs distinct_download in \<open>simp_all add: Un_commute\<close>)
  moreover have "content (final (handleTask out sha hmac cfg env) h) (deploy_target d n (mf_path mf)) =
      content (final (writeArtifactFiles out staging d n (e_manifest env)) h) (deploy_target d n (mf_path mf))"
    using keepsD [OF frame_after_write [of d env out ps]] assms(15) fin eq by (simp add: frame_def)
  ultimately show ?thesis
    using writeArtifactFiles_Inr(1) [OF wr assms(12,13)] eq by simp
qed

text \<open>A published page and the manifest that a build with the identity as hash gives it.\<close>

definition site_page :: directory where
  "site_page = [(''html/a/index.html'', ''new'')]"

definition page_manifest :: manifest where
  "page_manifest = one_file\<lparr>m_checksum := fst (ComputeDirectoryChecksum id site_page),
     m_signature := fst (ComputeDirectoryChecksum id site_page)\<rparr>"

definition page_task :: task_envelope where
  "page_task = deploy_envelope ''r'' ''u'' page_manifest ''a''"

definition old_host :: host where
  "old_host = \<lparr>files = [(''/var/www/a/index.html'', ''old'')], snapshots = [], reloads = 0\<rparr>"

abbreviation deploy_page :: "task_report hop" where
  "deploy_page \<equiv> handleTask (serving ''new'') id (\<lambda>_ x. x) some_config page_task"

lemmas page_defs = page_task_def deploy_envelope_def page_manifest_def one_file_def zero_manifest_def
  serving_def dark_def some_config_def old_host_def site_page_def pick_path_def

lemma page_checksum:
  "dir_entries id site_page = [\<lparr>mf_path = ''html/a/index.html'', mf_checksum = ''new'', mf_size = 3\<rparr>]"
  by (simp add: dir_entries_def hash_entry_def skipped_name_def site_page_def)

lemma page_download: "downloadArtifact (serving ''new'') ''u'' page_manifest = Inr site_page"
  by (simp add: downloadArtifact_def page_defs)

lemma page_target:
  "deploy_target ''/var/www'' n ''html/a/index.html'' = ''/var/www/a/index.html''"
  by (simp add: deploy_target_def path_join_def)

lemma page_fields:
  "e_type page_task = ''deploy_html''" "e_artifact_url page_task = ''u''"
  "e_manifest page_task = page_manifest" "cfg_signing_key some_config = ''k''"
  "e_release_id page_task = ''r''" "pick_path (e_deploy_path page_task) x = ''/var/www''"
  "pick_path (e_nginx_path page_task) x = ''/etc/nginx/conf.d''"
  "e_verify page_task = \<lparr>v_enabled = True, v_url = ''http://localhost'', v_status_code = 200,
     v_timeout_ms = 5000\<rparr>" "o_head (serving ''new'') u = Some 200"
  "m_files page_manifest = [\<lparr>mf_path = ''html/a/index.html'', mf_checksum = ''new'', mf_size = 3\<rparr>]"
  "m_checksum page_manifest = fst (ComputeDirectoryChecksum id site_page)"
  by (simp_all add: page_defs)

lemma page_deploys: "\<exists>r. result deploy_page old_host = Inr r \<and> tr_status r = ''succeeded''"
proof -
  have 1: "verifyArtifactChecksum id site_page page_manifest = None"
    "verifyArtifactSignature (\<lambda>_ x. x) page_manifest ''k'' = None"
    by (simp_all add: verifyArtifactChecksum_def verifyArtifactSignature_def page_manifest_def)
  have 2: "result (writeArtifactFiles (serving ''new'') site_page d n page_manifest) h = Inr ()" for d n h
    by (simp add: writeArtifactFiles_def page_defs eff_run write_file_run)
  show ?thesis
    by (simp add: handleTask_def deploy_task_def Let_def runPhase_run page_fields page_download 1 2
        nginx_test_phase_def has_nginx_def snapshot_phase_def reload_phase_def verify_phase_def
        localVerify_def eff_run task_report_of_def)
qed

theorem deployed_files_authentic_witness:
  "content (final deploy_page old_host) ''/var/www/a/index.html'' = Some ''new''"
proof -
  obtain r where r: "result deploy_page old_host = Inr r" "tr_status r = ''succeeded''"
    using page_deploys by blast
  have "map_of site_page ''html/a/index.html'' \<noteq> None \<and>
      content (final deploy_page old_host) (deploy_target ''/var/www'' ''/etc/nginx/conf.d'' ''html/a/index.html'') =
        map_of site_page ''html/a/index.html''"
    using deployed_files_authentic [where env = page_task and cfg = some_config and published = site_page
        and staging = site_page and mf = "\<lparr>mf_path = ''html/a/index.html'', mf_checksum = ''new'', mf_size = 3\<rparr>",
        OF _ r]
    by (simp add: page_fields page_checksum page_download page_target line_free_def skipped_name_def
        below_def rel_path_def snapshot_dir_def path_join_def site_page_def [THEN arg_cong, of "map fst"])
  then show ?thesis by (simp add: page_target site_page_def)
qed

section \<open>Rollback and reloads\<close>

text \<open>
  The copies below a snapshot directory agree with the deployed files. The snapshot phase
  establishes this for the files as they are after the write phase.
\<close>

definition snapshot_current :: "string \<Rightarrow> string \<Rightarrow> host \<Rightarrow> bool" where
  "snapshot_current d rid h \<longleftrightarrow> distinct (map fst (files h)) \<and>
     (\<forall>r c. r \<noteq> [] \<and> content h (path_join (snapshot_dir d rid) r) = Some c \<longrightarrow>
        \<not> in_previous r \<and> content h (path_join d r) = Some c)"

lemma snapshot_current_files:
  "files h' = files h \<Longrightarrow> snapshot_current d rid h' = snapshot_current d rid h"
  by (simp only: snapshot_current_def content_def)

lemma write_file_distinct:
  "distinct (map fst (files h)) \<Longrightarrow> distinct (map fst (files (final (write_file out p c) h)))"
  by (simp add: write_file_def final_def distinct_put)

lemma path_join_snapshot:
  "path_join (snapshot_dir d rid) r = path_join d s \<Longrightarrow> in_previous s"
  by (auto simp: snapshot_dir_def path_join_def in_previous_def)

lemma path_join_inj: "path_join d r = path_join d s \<longleftrightarrow> r = s"
  by (simp add: path_join_def)

lemma snapshot_write_current:
  assumes "snapshot_current d rid h" and "content h (path_join d r) = Some c" and "\<not> in_previous r"
  shows "snapshot_current d rid (final (write_file out (path_join (snapshot_dir d rid) r) c) h)"
    and "\<not> in_previous s \<Longrightarrow>
      content (final (write_file out (path_join (snapshot_dir d rid) r) c) h) (path_join d s) =
      content h (path_join d s)"
proof -
  let ?h = "final (write_file out (path_join (snapshot_dir d rid) r) c) h"
  show keep: "content ?h (path_join d s) = content h (path_join d s)" if "\<not> in_previous s" for s
    using path_join_snapshot [of d rid r s] that by (auto simp: write_file_run)
  have "\<not> in_previous s \<and> content ?h (path_join d s) = Some x"
    if "s \<noteq> []" "content ?h (path_join (snapshot_dir d rid) s) = Some x" for s x
  proof (cases "s = r \<and> o_writable out (path_join (snapshot_dir d rid) r)")
    case True
    then show ?thesis using that assms(2,3) keep [of r] by (simp add: write_file_run)
  next
    case False
    then have "content h (path_join (snapshot_dir d rid) s) = Some x"
      using that by (auto simp: write_file_run path_join_inj split: if_splits)
    then show ?thesis using that(1) assms(1) keep [of s] by (auto simp: snapshot_current_def)
  qed
  then show "snapshot_current d rid ?h"
    using assms(1) by (simp add: snapshot_current_def write_file_distinct)
qed

lemma snapshot_makes_current:
  assumes "snapshot_current d rid h"
  shows "snapshot_current d rid (final (snapshotPrevious out d rid) h)"
proof -
  let ?w = "\<lambda>rc. write_file out (path_join (snapshot_dir d rid) (fst rc)) (snd rc)"
  have "snapshot_current d rid (final (for_each fs ?w) h)"
    if "snapshot_current d rid h"
      and "\<forall>rc \<in> set fs. \<not> in_previous (fst rc) \<and> content h (path_join d (fst rc)) = Some (snd rc)"
    for fs h
    using that
  proof (induction fs arbitrary: h)
    case (Cons rc fs)
    have "snapshot_current d rid (final (?w rc) h)"
      and "\<forall>rc' \<in> set fs. \<not> in_previous (fst rc') \<and>
        content (final (?w rc) h) (path_join d (fst rc')) = Some (snd rc')"
      using Cons.prems snapshot_write_current [where out = out and r = "fst rc" and c = "snd rc"
          and d = d and rid = rid and h = h] by simp_all
    with Cons.IH show ?case by (simp add: eff_run split: sum.split)
  qed simp
  moreover let ?h = "h\<lparr>snapshots := snapshot_dir d rid # snapshots h\<rparr>"
  have "snapshot_current d rid ?h" "distinct (map fst (files ?h))"
    using assms snapshot_current_files [of ?h h d rid] by (simp_all add: snapshot_current_def)
  ultimately show ?thesis
    by (auto simp: snapshotPrevious_def Let_def eff_run files_below_mem content_def)
qed

text \<open>Restoring from such a snapshot rewrites every file with what it already holds.\<close>

lemma restore_noop:
  assumes "snapshot_current d rid h"
  shows "content (final (restoreFromSnapshot out d rid) h) = content h"
proof -
  let ?w = "\<lambda>rc. write_file out (path_join d (fst rc)) (snd rc)"
  have "content (final (for_each fs ?w) h) = content h"
    if "\<forall>rc \<in> set fs. content h (path_join d (fst rc)) = Some (snd rc)" for fs h
    using that
  proof (induction fs arbitrary: h)
    case (Cons rc fs)
    have "content (final (?w rc) h) = content h"
      using Cons.prems by (auto simp: write_file_run)
    with Cons show ?case by (simp add: eff_run split: sum.split)
  qed simp
  moreover have "\<forall>rc \<in> set (files_below (snapshot_dir d rid) h).
      content h (path_join d (fst rc)) = Some (snd rc)"
    using assms by (auto simp: files_below_mem snapshot_current_def content_def)
  ultimately show ?thesis
    by (simp add: restoreFromSnapshot_def eff_run Let_def)
qed

interpretation sc: phase_frame "\<lambda>h h'. snapshot_current d rid h \<longrightarrow> snapshot_current d rid h'" for d rid
  by unfold_locales auto

lemma current_after_write:
  "keeps (\<lambda>h h'. snapshot_current d (e_release_id env) h \<longrightarrow> snapshot_current d (e_release_id env) h')
     (nginx_test_phase out env d ps)"
  (is "keeps ?R _")
proof -
  have "keeps ?R (snapshotPrevious out d (e_release_id env))"
    by (rule keepsI) (simp add: snapshot_makes_current)
  moreover have "keeps ?R (runNginxReload out)"
    using snapshot_current_files [of "h\<lparr>reloads := reloads h + 1\<rparr>" h d "e_release_id env" for h]
    by (simp add: keeps_def runNginxReload_def split: option.split)
  ultimately show ?thesis
    unfolding nginx_test_phase_def snapshot_phase_def reload_phase_def
    by (auto intro!: sc.keeps_runPhase sc.keeps_nginx_test sc.keeps_bnd sc.keeps_attempt sc.keeps_verify)
qed

definition no_snapshot :: "string \<Rightarrow> host \<Rightarrow> bool" where
  "no_snapshot dir h \<longleftrightarrow> distinct (map fst (files h)) \<and> (\<forall>p \<in> paths (files h). \<not> below dir p)"

lemma no_snapshot_write:
  assumes "no_snapshot dir h" and "\<not> below dir p"
  shows "no_snapshot dir (final (write_file out p c) h)"
  using assms by (simp add: no_snapshot_def write_file_def final_def distinct_put paths_put)

lemma no_snapshot_writes:
  assumes "no_snapshot dir h" and "\<forall>mf \<in> set (m_files m). \<not> below dir (deploy_target d n (mf_path mf))"
  shows "no_snapshot dir (final (writeArtifactFiles out staging d n m) h)"
proof -
  have "no_snapshot dir (final (for_each mfs (\<lambda>mf. case map_of staging (mf_path mf) of
       None \<Rightarrow> throw (''copy '' @ mf_path mf)
     | Some c \<Rightarrow> write_file out (deploy_target d n (mf_path mf)) c)) h)"
    if "no_snapshot dir h" and "\<forall>mf \<in> set mfs. \<not> below dir (deploy_target d n (mf_path mf))" for mfs h
    using that
    by (induction mfs arbitrary: h) (auto simp: eff_run no_snapshot_write split: option.split sum.split)
  with assms show ?thesis by (simp add: writeArtifactFiles_def)
qed

lemma no_snapshot_current: "no_snapshot (snapshot_dir d rid) h \<Longrightarrow> snapshot_current d rid h"
  by (force simp: no_snapshot_def snapshot_current_def content_def paths_def dest: map_of_SomeD below_join)

lemma deploy_snapshot_current:
  fixes env :: task_envelope and cfg :: agent_config
  defines "d \<equiv> pick_path (e_deploy_path env) (cfg_deploy_path cfg)"
    and "n \<equiv> pick_path (e_nginx_path env) (cfg_nginx_path cfg)"
  assumes "no_snapshot (snapshot_dir d (e_release_id env)) h"
    and "\<forall>mf \<in> set (m_files (e_manifest env)).
      \<not> below (snapshot_dir d (e_release_id env)) (deploy_target d n (mf_path mf))"
  shows "snapshot_current d (e_release_id env) (final (deploy_task out sha hmac cfg env) h)"
proof -
  have h: "snapshot_current d (e_release_id env) h"
    using assms(3) by (rule no_snapshot_current)
  have w: "snapshot_current d (e_release_id env)
      (final (writeArtifactFiles out staging d n (e_manifest env)) h)" for staging
    by (intro no_snapshot_current no_snapshot_writes assms(3,4))
  from w have "snapshot_current d (e_release_id env) (final (nginx_test_phase out env d ps)
      (final (writeArtifactFiles out staging d n (e_manifest env)) h))" for staging ps
    using keepsD [OF current_after_write] by blast
  with h w show ?thesis
    by (simp add: deploy_task_def Let_def runPhase_run d_def [symmetric] n_def [symmetric]
        split: sum.split option.split)
qed

lemma frame_rollback_tail:
  "keeps (frame S) (rollback_reload_phase out env ps)"
  unfolding rollback_reload_phase_def
  by (auto intro!: fr.keeps_runPhase frame_reload fr.keeps_verify)

lemma rollback_content:
  assumes "content (final (restoreFromSnapshot out (pick_path (e_deploy_path rb) (cfg_deploy_path cfg))
      (e_target_release_id rb)) h) = content h"
  shows "content (final (handleRollback out cfg rb) h) = content h"
proof -
  let ?h = "final (restoreFromSnapshot out (pick_path (e_deploy_path rb) (cfg_deploy_path cfg))
      (e_target_release_id rb)) h"
  have "content (final (rollback_reload_phase out rb ps) h') = content h'" for ps h'
    using keepsD [OF frame_rollback_tail [of "\<lambda>_. False"]] by (auto simp: frame_def)
  moreover have "final (runNginxTest out) h' = h'" for h'
    by (simp add: runNginxTest_def split: option.split)
  ultimately show ?thesis
    using assms by (simp add: handleRollback_def Let_def runPhase_run failReport_def split: sum.split)
qed

text \<open>
  C17: A rollback to the release just deployed changes no file: the snapshot a deployment leaves
  is taken after its write phase, so it holds the new files, and restoring from it rewrites
  each file with what it already holds, whatever phases of the deployment fail.
\<close>

theorem rollback_changes_no_file:
  fixes env :: task_envelope and cfg :: agent_config
  defines "d \<equiv> pick_path (e_deploy_path env) (cfg_deploy_path cfg)"
    and "n \<equiv> pick_path (e_nginx_path env) (cfg_nginx_path cfg)"
  assumes "e_type env \<noteq> ''rollback''" and "e_type rb = ''rollback''"
    and "e_target_release_id rb = e_release_id env"
    and "pick_path (e_deploy_path rb) (cfg_deploy_path cfg) = d"
    and "no_snapshot (snapshot_dir d (e_release_id env)) h"
    and "\<forall>mf \<in> set (m_files (e_manifest env)).
      \<not> below (snapshot_dir d (e_release_id env)) (deploy_target d n (mf_path mf))"
  shows "content (final (handleTask out' sha hmac cfg rb) (final (handleTask out sha hmac cfg env) h)) =
    content (final (handleTask out sha hmac cfg env) h)"
proof -
  have "snapshot_current d (e_release_id env) (final (deploy_task out sha hmac cfg env) h)"
    unfolding d_def by (rule deploy_snapshot_current) (use assms in \<open>simp_all add: d_def n_def\<close>)
  then show ?thesis
    using assms by (simp add: handleTask_def rollback_content restore_noop)
qed

theorem rollback_changes_no_file_witness:
  "content old_host ''/var/www/a/index.html'' = Some ''old'' \<and>
   content (final (handleTask (serving ''new'') id (\<lambda>_ x. x) some_config (rollback_envelope ''r''))
     (final deploy_page old_host)) ''/var/www/a/index.html'' = Some ''new''"
proof -
  obtain r where r: "result deploy_page old_host = Inr r" "tr_status r = ''succeeded''"
    using page_deploys by blast
  obtain staging ps where "downloadArtifact (serving ''new'') ''u'' page_manifest = Inr staging"
    and wr: "result (writeArtifactFiles (serving ''new'') staging ''/var/www'' ''/etc/nginx/conf.d'' page_manifest) old_host = Inr ()"
    and fin: "final deploy_page old_host = final (nginx_test_phase (serving ''new'') page_task ''/var/www'' ps)
      (final (writeArtifactFiles (serving ''new'') staging ''/var/www'' ''/etc/nginx/conf.d'' page_manifest) old_host)"
    by (rule deploy_succeededE [OF _ r]) (simp_all add: page_fields)
  then have st: "staging = site_page" by (simp add: page_download)
  have out: "\<not> below (snapshot_dir ''/var/www'' ''r'') ''/var/www/a/index.html''"
    by (simp add: below_def rel_path_def snapshot_dir_def path_join_def)
  have "content (final deploy_page old_host) ''/var/www/a/index.html'' = Some ''new''"
    using keepsD [OF frame_after_write [of "''/var/www''" page_task "serving ''new''" ps]] out
      writeArtifactFiles_Inr(1) [OF wr [unfolded st]] fin
    by (simp add: frame_def page_fields page_target st site_page_def)
  moreover have "content (final (handleTask (serving ''new'') id (\<lambda>_ x. x) some_config (rollback_envelope ''r''))
      (final deploy_page old_host)) = content (final deploy_page old_host)"
    by (rule rollback_changes_no_file)
      (use out in \<open>simp_all add: page_fields rollback_envelope_def page_target no_snapshot_def old_host_def
        paths_def\<close>, simp add: pick_path_def some_config_def)
  ultimately show ?thesis by (simp add: content_def old_host_def)
qed

section \<open>No dispatched task reloads nginx\<close>

lemma reloads_write_file: "keeps same_reloads (write_file out p c)"
  by (simp add: keeps_def same_reloads_def write_file_run)

lemma reloads_snapshot: "keeps same_reloads (snapshotPrevious out d rid)"
  unfolding snapshotPrevious_def Let_def
  by (intro sr.keeps_seq keeps_bnd_gets sr.keeps_for_each reloads_write_file)
    (simp add: keeps_def same_reloads_def)

lemma reloads_restore: "keeps same_reloads (restoreFromSnapshot out d rid)"
  unfolding restoreFromSnapshot_def Let_def
  by (auto intro!: keeps_bnd_gets sr.keeps_for_each reloads_write_file intro: sr.keeps_throw)

lemma reloads_writeArtifactFiles: "keeps same_reloads (writeArtifactFiles out staging d n m)"
  unfolding writeArtifactFiles_def
  by (intro sr.keeps_for_each) (auto intro: reloads_write_file sr.keeps_throw split: option.split)

lemmas reloads_phases = sr.keeps_runPhase sr.keeps_verify sr.keeps_nginx_test sr.keeps_bnd
  sr.keeps_attempt reloads_snapshot reloads_restore reloads_writeArtifactFiles

lemma reloads_deploy: "\<not> has_nginx env \<Longrightarrow> keeps same_reloads (deploy_task out sha hmac cfg env)"
  unfolding deploy_task_def Let_def nginx_test_phase_def snapshot_phase_def reload_phase_def
  by (auto intro!: reloads_phases)

lemma reloads_rollback: "e_type env = ''rollback'' \<Longrightarrow> keeps same_reloads (handleRollback out cfg env)"
  unfolding handleRollback_def Let_def rollback_reload_phase_def has_nginx_def failReport_def
  by (auto intro!: reloads_phases intro: sr.keeps_ret)

text \<open>
  nginx is never reloaded by what the control plane sends: both envelopes it can create, the
  deployment one (with any task id and reload flag) and the rollback one, leave the number
  of reloads of the host unchanged, whatever the artifact contains.
\<close>

theorem dispatched_task_never_reloads:
  "reloads (final (handleTask out sha hmac cfg ((deploy_envelope relID url m fqdn)
      \<lparr>e_task_id := tid, e_defer_reload := defer_reload\<rparr>)) h) = reloads h \<and>
   reloads (final (handleTask out sha hmac cfg ((rollback_envelope relID)\<lparr>e_task_id := tid\<rparr>)) h) =
     reloads h"
  using keepsD [OF reloads_deploy] keepsD [OF reloads_rollback]
  by (simp add: handleTask_def deploy_envelope_def rollback_envelope_def has_nginx_def same_reloads_def)

end
