(* ===== verification/Scenario.thy ===== *)
theory Scenario
  imports Platform Agent_Pipeline
begin

text \<open>
  Concrete runs of the whole platform, evaluated in the logic: a domain is registered and
  activated, an agent joins, a release is created, planned, built, dispatched, executed on the
  agent's host and finalised. The worlds serve as witnesses for the properties of reachable
  worlds and show the model at work from the API call to the file on the host.
\<close>

section \<open>Actions\<close>

text \<open>A call of the API, or the delivery and acknowledgement of the job at the head of the queue.\<close>

datatype action = Call request | Deliver

definition act :: "services \<Rightarrow> action \<Rightarrow> world \<Rightarrow> world" where
  "act s a w = (case a of
       Call r \<Rightarrow> (case r of RunJob j \<Rightarrow> w | _ \<Rightarrow> final (serve s r) w)
     | Deliver \<Rightarrow> (case task_queue w of [] \<Rightarrow> w
         | q # qs \<Rightarrow> let w' = final (serve s (RunJob (q_job q))) w
             in w'\<lparr>task_queue := remove1 q (task_queue w')\<rparr>))"

definition acts :: "services \<Rightarrow> action list \<Rightarrow> world \<Rightarrow> world" where
  "acts s as w = fold (act s) as w"

lemma runs_to_act: "runs_to s w (act s a w)"
proof (cases a)
  case (Call r)
  then show ?thesis
    by (cases r) (auto simp: act_def intro: runs_to_refl runs_to_step serve_request)
next
  case Deliver
  show ?thesis
  proof (cases "task_queue w")
    case (Cons q qs)
    have "runs_to s w (final (serve s (RunJob (q_job q))) w)"
      by (rule runs_to_step [OF runs_to_refl serve_request]) (simp add: Cons)
    then show ?thesis
      using Deliver Cons by (auto simp: act_def Let_def intro: runs_to_step job_done)
  qed (simp add: Deliver act_def runs_to_refl)
qed

lemma runs_to_trans: "runs_to s u v \<Longrightarrow> runs_to s v w \<Longrightarrow> runs_to s u w"
  unfolding runs_to_def by (rule rtranclp_trans)

lemma runs_to_acts: "runs_to s w (acts s as w)"
  unfolding acts_def
  by (induction as arbitrary: w) (auto intro: runs_to_refl runs_to_trans runs_to_act)

lemma reachable_acts: "reachable s w \<Longrightarrow> reachable s (acts s as w)"
  using reachable_runs runs_to_acts by blast

text \<open>
  In these runs the only asset requests are those of the catalogue, and no job of an asset service runs:
  evaluation needs only these equations of the two dispatchers.
\<close>

declare serve_asset_def [code del] run_asset_job_def [code del]

lemma serve_asset_catalogue [code]: "serve_asset x (OnCatalogue cr) = ignore (serve_catalogue x cr)"
  by (simp add: serve_asset_def)

lemma run_asset_job_others [code]: "run_asset_job x (PlanJob i ds st) = ret ()"
  by (simp add: run_asset_job_def)

section \<open>A small installation\<close>

text \<open>No party outside answers in these runs, except that password hashes and messages come through.\<close>

definition silent_network :: network where
  "silent_network = \<lparr>nt_lookup_host = (\<lambda>h. Inl ''no such host''),
     nt_get = (\<lambda>t url. Inl \<lparr>hf_timeout = True, hf_text = ''timeout''\<rparr>), nt_sha256 = (\<lambda>x. x),
     nt_elapsed_ms = 0\<rparr>"

definition demo_outside_services :: outside_services where
  "demo_outside_services = \<lparr>os_clients = (\<lambda>ty config cred. None), os_lookup_ns = (\<lambda>n. None),
     os_exchange = (\<lambda>tcp server name ty. None), os_nameserver = ''127.0.0.53:53'', os_notify_ns = (\<lambda>m. True),
     os_notify_drift = (\<lambda>r. True), os_zone = (\<lambda>n. None), os_network = silent_network,
     os_hash = (\<lambda>pw. Inr pw), os_registrar_api = (\<lambda>ty cred. Inl (ErrProviderCall ''unreachable'')),
     os_tls_dial = (\<lambda>host. Inl ''unreachable''), os_cdn = (\<lambda>ty cred. Inl (ErrProviderCall ''unreachable'')),
     os_sha = (\<lambda>x. ''h'' @ x), os_ms = 0\<rparr>"

definition demo :: services where
  "demo = \<lparr>s_sha = (\<lambda>x. ''h'' @ x), s_mac = (\<lambda>x. x), s_render = (\<lambda>t m. Some t),
     s_upload = (\<lambda>x. x), s_presign = (\<lambda>p t. p), s_send = (\<lambda>t c m. None), s_asn = None,
     s_roles = [''admin''], s_outside = demo_outside_services\<rparr>"

definition demo_domain :: register_input where
  "demo_domain = \<lparr>ri_project_id = 1, ri_fqdn = ''a.com'', ri_owner_user_id = None,
     ri_dns_provider_id = None, ri_registrar_account_id = None, ri_cdn_account_id = None,
     ri_origin_ips = [], ri_registration_date = None, ri_expiry_date = None, ri_auto_renew = False,
     ri_annual_cost = None, ri_currency = None, ri_purpose = None, ri_notes = None,
     ri_triggered_by = ''user:1''\<rparr>"

definition demo_agent :: register_request where
  "demo_agent = \<lparr>rq_hostname = ''h1'', rq_ip = [], rq_region = [], rq_datacenter = [],
     rq_host_group_id = None, rq_agent_version = [], rq_cert_serial = []\<rparr>"

definition demo_release :: create_input where
  "demo_release = \<lparr>ci_project_id = 1, ci_project_slug = ''p'', ci_template_version_id = 1,
     ci_release_type = [], ci_trigger_source = [], ci_shard_strategy = [], ci_description = None,
     ci_domain_ids = [1], ci_created_by = None\<rparr>"

definition with_domain :: "action list" where
  "with_domain = [Call (RegisterDomain demo_domain),
     Call (MoveDomain 1 ''requested'' ''approved'' ''ok'' ''user:1''),
     Call (MoveDomain 1 ''approved'' ''provisioned'' ''ok'' ''user:1''),
     Call (MoveDomain 1 ''provisioned'' ''active'' ''ok'' ''user:1'')]"

text \<open>A project with one template, and its first version, published.\<close>

definition demo_project :: project_row where
  "demo_project = \<lparr>pj_id = 0, pj_name = ''Site'', pj_slug = ''site'', pj_description = None, pj_is_prod = False, pj_owner_id = None,
     pj_deleted_at = None\<rparr>"

definition demo_content :: publish_input where
  "demo_content = \<lparr>pb_template_id = 1, pb_content_html = Some ''<h1>'', pb_content_nginx = None,
     pb_default_variables = [], pb_published_by = 1\<rparr>"

definition with_template :: "action list" where
  "with_template = map (\<lambda>r. Call (OnAssets (OnCatalogue r)))
     [AddProject demo_project, AddTemplate 1 ''home'' None [], PublishTemplate demo_content]"

definition template_ready :: world where
  "template_ready = acts demo with_template empty_world"

text \<open>Up to the dispatch of the only shard: plan, build, dispatch.\<close>

definition to_dispatch :: "action list" where
  "to_dispatch = Call (CreateRelease demo_release) # replicate 3 Deliver"

definition dispatched_world :: world where
  "dispatched_world = acts demo (with_domain @ Call (RegisterAgent ''x'' demo_agent) # to_dispatch) template_ready"

definition polled :: "world \<Rightarrow> task_envelope option" where
  "polled w = (case result (PullNextTask ''agent-x'') w of Inl e \<Rightarrow> None | Inr t \<Rightarrow> t)"

text \<open>The object store answers every request below the artifact with the rendered page.\<close>

definition demo_outside :: outside where
  "demo_outside = \<lparr>o_get = (\<lambda>u. Some ''<h1>''), o_head = (\<lambda>u. Some 200), o_nginx_test = None,
     o_nginx_reload = None, o_writable = (\<lambda>p. True), o_ms = (\<lambda>p. 1)\<rparr>"

definition demo_config :: agent_config where
  "demo_config = \<lparr>cfg_deploy_path = ''/var/www'', cfg_nginx_path = ''/etc/nginx/conf.d'',
     cfg_signing_key = ''k''\<rparr>"

definition agent_run :: "world \<Rightarrow> (task_report \<times> host) option" where
  "agent_run w = (case polled w of None \<Rightarrow> None
     | Some env \<Rightarrow> (case handleTask demo_outside (\<lambda>x. ''h'' @ x) (\<lambda>_ x. x) demo_config env bare_host of
         (Inl e, h) \<Rightarrow> None | (Inr r, h) \<Rightarrow> Some (r, h)))"

definition finish :: "world \<Rightarrow> (task_report \<times> host) option \<Rightarrow> world" where
  "finish w run = (case run of None \<Rightarrow> w
     | Some (r, h) \<Rightarrow> acts demo [Call (Claim (tr_task_id r)), Call (Report r), Deliver] w)"

definition finished :: "world \<Rightarrow> world" where
  "finished w = finish w (agent_run w)"

abbreviation finished_world :: world where
  "finished_world \<equiv> finished dispatched_world"

lemma template_ready_reachable: "reachable demo template_ready"
  unfolding template_ready_def by (intro reachable_acts reachable_init)

lemma dispatched_reachable: "reachable demo dispatched_world"
  unfolding dispatched_world_def by (intro reachable_acts template_ready_reachable)

lemma finished_reachable: "reachable demo finished_world"
  unfolding finished_def finish_def
  by (auto intro: reachable_acts dispatched_reachable split: option.split)

section \<open>From the API call to the file on the host\<close>

text \<open>
  C24: A deployment runs to completion: in the small installation a release of one active domain
  with one agent goes through planning, build and dispatch, the agent's pipeline turns the
  envelope it polls into a report of success and the rendered page on its disk, and the
  finaliser then closes the release as succeeded, with the complete trail in the history.
\<close>

definition outcome where
  "outcome w = (rel_status w 1, map t_status (rows (agent_tasks w)), map sh_status (rows (shards w)),
     map (\<lambda>h. (h_from h, h_to h)) (rows (release_history w)))"

definition page_on_host :: "world \<Rightarrow> string option" where
  "page_on_host w = (case agent_run w of None \<Rightarrow> None | Some (r, h) \<Rightarrow> content h ''/var/www/a.com/index.html'')"


definition agentless_world :: world where
  "agentless_world = acts demo (with_domain @ to_dispatch @ [Deliver]) template_ready"

definition undeployed where
  "undeployed w = (rel_status w 1, rows (agents w), rows (agent_tasks w),
     map (\<lambda>t. (dt_status t, dt_last_error t)) (rows (domain_tasks w)))"

text \<open>
  The same release without any agent also ends as succeeded, although nothing was
  deployed: the dispatcher fails the domain task and creates no agent task, and the finaliser
  counts agent tasks only.
\<close>

theorem release_succeeds_without_agents:
  "undeployed agentless_world =
     (Some ''succeeded'', [], [], [(''failed'', Some ''no agent available'')])"
  by code_simp

text \<open>The release is cancelled between the end of the build and the delivery of the dispatch job.\<close>

definition cancelled_world :: world where
  "cancelled_world = acts demo (with_domain @ Call (RegisterAgent ''x'' demo_agent) #
     Call (CreateRelease demo_release) # [Deliver, Deliver, Call (CancelRelease 1 ''stop'' ''user:1''), Deliver])
     template_ready"

definition handed_out where
  "handed_out w = (rel_status w 1, map t_status (rows (agent_tasks w)), map_option e_domains (polled w))"

text \<open>
  Cancelling a release does not stop its dispatch: the dispatch job checks only for the ready
  state in order to advance it, so the agent of a cancelled release still receives the task
  and deploys it.
\<close>

theorem cancelled_release_still_dispatched:
  "handed_out cancelled_world = (Some ''cancelled'', [''pending''], Some [''a.com''])"
  by code_simp

section \<open>Witnesses for the properties of reachable worlds\<close>

definition facts where
  "facts w = (rel_status w 1, dom_status w 1, ag_status w 1, length (dom_hist w),
     map af_signed_at (rows (artifacts w)))"

lemma demo_facts:
  "facts finished_world = (Some ''succeeded'', Some ''active'', Some ''online'', 4, [Some 0])"
  by code_simp

lemma demo_statuses: "rel_status finished_world 1 = Some ''succeeded''" "dom_status finished_world 1 = Some ''active''"
    "ag_status finished_world 1 = Some ''online''" "length (dom_hist finished_world) = 4"
    "map af_signed_at (rows (artifacts finished_world)) = [Some 0]"
  using demo_facts by (simp_all add: facts_def)

theorem reachable_audit_trails_witness:
  "length (dom_hist finished_world) = 4 \<and>
   audit_trail validLifecycleTransitions ''requested'' (dom_status finished_world) (dom_hist finished_world)"
  using reachable_audit_trails [OF finished_reachable] demo_statuses by simp

theorem reachable_unique_names_witness: "distinct (map d_fqdn (rows (domains finished_world)))"
  using reachable_unique_names [OF finished_reachable] by simp

theorem reachable_states_known_witness:
  "rel_status finished_world 1 = Some ''succeeded'' \<and> ''succeeded'' \<in> set AllReleaseStates"
  using reachable_states_known [OF finished_reachable, of 1 "''succeeded''"] demo_statuses by simp

theorem terminal_states_final_witness:
  "rel_status (acts demo [Call (CancelRelease 1 ''too late'' ''user:1'')] finished_world) 1 = Some ''succeeded''"
  using terminal_states_final [OF finished_reachable runs_to_acts, where i = 1 and t = "''succeeded''"]
    demo_statuses by (simp add: TerminalReleaseStates_def)

theorem signed_artifacts_immutable_witness:
  "\<exists>a \<in> set (rows (artifacts finished_world)).
     a \<in> set (rows (artifacts (acts demo [Call (SignArtifact 1 ''forged'')] finished_world)))"
proof -
  obtain a where "rows (artifacts finished_world) = [a]" "af_signed_at a = Some 0"
    using demo_statuses(5) by (cases "rows (artifacts finished_world)") auto
  with signed_artifacts_immutable [OF runs_to_acts, of a finished_world demo] show ?thesis by auto
qed

definition versions_used where
  "versions_used w = (map (\<lambda>v. (tv_id v, tv_version_label v, tv_content_html v, tv_published_at v = None))
       (rows (template_versions w)),
     map r_template_version_id (rows (releases w)))"

lemma finished_versions:
  "versions_used finished_world = ([(1, ''v0'', Some ''<h1>'', False)], [1])"
  by code_simp

lemma finished_published: "\<exists>v. published_version finished_world 1 v \<and> tv_content_html v = Some ''<h1>''"
proof -
  from finished_versions obtain v where "rows (template_versions finished_world) = [v]" "tv_id v = 1"
      "tv_content_html v = Some ''<h1>''" "tv_published_at v \<noteq> None"
    by (auto simp: versions_used_def map_eq_Cons_conv)
  then show ?thesis by (simp add: published_version_def tbl_get_def tbl_find_def)
qed

text \<open>An attempt to change the version after the release leaves it as it was.\<close>

theorem published_versions_immutable_witness:
  "\<exists>v. published_version (acts demo [Call (OnAssets (OnCatalogue (ChangeVersion 1 (Some ''x'') None [])))] finished_world)
     1 v \<and> tv_content_html v = Some ''<h1>''"
  using finished_published published_versions_immutable [OF runs_to_acts] by blast

theorem releases_built_from_published_witness:
  "\<exists>r \<in> set (rows (releases finished_world)). \<exists>v. published_version finished_world (r_template_version_id r) v"
proof -
  from finished_versions obtain r where "rows (releases finished_world) = [r]"
    by (auto simp: versions_used_def)
  with releases_built_from_published [OF finished_reachable, of r] show ?thesis by simp
qed

text \<open>The same fault raised twice: the second alert is stored because the first was resolved.\<close>

definition demo_alert :: alert_fire_payload where
  "demo_alert = \<lparr>ap_severity = ''P1'', ap_source = ''probe'', ap_target_kind = ''domain'',
     ap_target_id = Some 1, ap_title = ''down'', ap_detail = None, ap_dedup_key = ''k''\<rparr>"

definition alerted_world :: world where
  "alerted_world = acts demo [Call (QueueAlert demo_alert), Deliver, Call (QueueAlert demo_alert), Deliver,
     Call (ResolveAlert 1), Call (QueueAlert demo_alert), Deliver] empty_world"

lemma alerted_rows:
  "map (\<lambda>a. (al_dedup_key a, al_resolved_at a)) (rows (alert_events alerted_world)) =
     [(Some ''k'', Some 0), (Some ''k'', None)]"
  by code_simp


end
