(* ===== verification/Dry_Run.thy ===== *)
theory Dry_Run
  imports Artifact Asset_Store
begin

text \<open>
  internal/release/dryrun.go: the preview of what a release changes against the last one that succeeded.
  Parameters: the object store (\<open>get\<close>, \<open>None\<close> for any error), the diff library, and \<open>ord\<close>, the order in
  which Go visits the keys of a map, which differs from loop to loop.
\<close>

section \<open>Text files and their diffs\<close>

record unified_diff =
  ud_a :: "string list"
  ud_b :: "string list"
  ud_from_file :: string
  ud_to_file :: string
  ud_context :: int

record diff_library =
  dl_SplitLines :: "string \<Rightarrow> string list"
  dl_GetUnifiedDiffString :: "unified_diff \<Rightarrow> string option"

definition diffLines :: "diff_library \<Rightarrow> string \<Rightarrow> string \<Rightarrow> string \<Rightarrow> string" where
  "diffLines lib oldText newText filename =
     (case dl_GetUnifiedDiffString lib \<lparr>ud_a = dl_SplitLines lib oldText, ud_b = dl_SplitLines lib newText,
        ud_from_file = filename @ '' (old)'', ud_to_file = filename @ '' (new)'', ud_context = 3\<rparr> of
       None \<Rightarrow> []
     | Some text \<Rightarrow> text)"

definition textExts :: "string list" where
  "textExts = [''.html'', ''.htm'', ''.css'', ''.js'', ''.json'', ''.txt'', ''.xml'', ''.conf'', ''.nginx'',
     ''.sh'', ''.yaml'', ''.yml'', ''.toml'', ''.md'', ''.ts'', ''.tsx'', ''.jsx'', ''.svg'']"

definition isTextFile :: "string \<Rightarrow> bool" where
  "isTextFile path = (let lower = ToLower path in list_ex (HasSuffix lower) textExts)"

section \<open>The comparison\<close>

record diff_summary =
  sm_added :: int
  sm_removed :: int
  sm_modified :: int
  sm_unchanged :: int

record file_diff =
  fd_path :: string
  fd_change :: string
  fd_diff :: string

record dry_run_result =
  dr_release_id :: string
  dr_new_artifact_id :: string
  dr_old_artifact_id :: "string option"
  dr_summary :: diff_summary
  dr_files :: "file_diff list"

type_synonym storage = "string \<Rightarrow> string option"

type_synonym map_order = "nat \<Rightarrow> string list \<Rightarrow> string list"

text \<open>A map from paths to files, filled in the order of the manifest: its keys, and its look-up.\<close>

definition paths_of :: "manifest_file list \<Rightarrow> string list" where
  "paths_of files = remdups (map mf_path files)"

definition by_path :: "manifest_file list \<Rightarrow> string \<Rightarrow> manifest_file option" where
  "by_path files = map_of (rev (map (\<lambda>mf. (mf_path mf, mf)) files))"

definition added_file :: "diff_library \<Rightarrow> storage \<Rightarrow> string \<Rightarrow> manifest_file \<Rightarrow> file_diff" where
  "added_file lib get prefix mf = \<lparr>fd_path = mf_path mf, fd_change = ''added'',
     fd_diff = (if isTextFile (mf_path mf) then
         (case get (prefix @ ''/'' @ mf_path mf) of
            Some text \<Rightarrow> diffLines lib [] text (mf_path mf) | None \<Rightarrow> [])
       else [])\<rparr>"

definition removed_file :: "diff_library \<Rightarrow> storage \<Rightarrow> string \<Rightarrow> manifest_file \<Rightarrow> file_diff" where
  "removed_file lib get prefix mf = \<lparr>fd_path = mf_path mf, fd_change = ''removed'',
     fd_diff = (if isTextFile (mf_path mf) then
         (case get (prefix @ ''/'' @ mf_path mf) of
            Some text \<Rightarrow> diffLines lib text [] (mf_path mf) | None \<Rightarrow> [])
       else [])\<rparr>"

definition common_file ::
    "diff_library \<Rightarrow> storage \<Rightarrow> string \<Rightarrow> string \<Rightarrow> manifest_file \<Rightarrow> manifest_file \<Rightarrow> file_diff" where
  "common_file lib get prefix prev old new =
     (if mf_checksum new = mf_checksum old
      then \<lparr>fd_path = mf_path new, fd_change = ''unchanged'', fd_diff = []\<rparr>
      else \<lparr>fd_path = mf_path new, fd_change = ''modified'',
        fd_diff = (if isTextFile (mf_path new) then
            (case (get (prev @ ''/'' @ mf_path old), get (prefix @ ''/'' @ mf_path new)) of
               (Some a, Some b) \<Rightarrow> diffLines lib a b (mf_path new) | _ \<Rightarrow> [])
          else [])\<rparr>)"

definition count_change :: "string \<Rightarrow> file_diff list \<Rightarrow> int" where
  "count_change c fs = int (length (filter (\<lambda>f. fd_change f = c) fs))"

text \<open>The three loops over the two maps.\<close>

definition compare_files ::
    "map_order \<Rightarrow> diff_library \<Rightarrow> storage \<Rightarrow> string \<Rightarrow> string \<Rightarrow> manifest_file list \<Rightarrow> manifest_file list \<Rightarrow>
       file_diff list" where
  "compare_files ord lib get prefix prev new old =
     concat (map (\<lambda>p. case by_path old p of Some f \<Rightarrow> []
         | None \<Rightarrow> [added_file lib get prefix (the (by_path new p))]) (ord 0 (paths_of new))) @
     concat (map (\<lambda>p. case by_path new p of Some f \<Rightarrow> []
         | None \<Rightarrow> [removed_file lib get prev (the (by_path old p))]) (ord 1 (paths_of old))) @
     concat (map (\<lambda>p. case by_path old p of None \<Rightarrow> []
         | Some f \<Rightarrow> [common_file lib get prefix prev f (the (by_path new p))]) (ord 2 (paths_of new)))"

definition summary_of :: "file_diff list \<Rightarrow> diff_summary" where
  "summary_of fs = \<lparr>sm_added = count_change ''added'' fs, sm_removed = count_change ''removed'' fs,
     sm_modified = count_change ''modified'' fs, sm_unchanged = count_change ''unchanged'' fs\<rparr>"

section \<open>The service\<close>

definition parse_manifest :: "artifact_row \<Rightarrow> manifest op" where
  "parse_manifest art = answer (case af_manifest art of
     None \<Rightarrow> Inl (ErrMsg ''parse manifest'') | Some m \<Rightarrow> Inr m)"

definition findPreviousArtifact :: "release_row \<Rightarrow> (artifact_row \<times> manifest) op" where
  "findPreviousArtifact rel =
     bnd (GetLastSucceeded (r_project_id rel) (r_id rel)) (\<lambda>prev.
     case r_artifact_id prev of
       None \<Rightarrow> throw ErrNoPreviousRelease
     | Some aid \<Rightarrow>
         bnd (ArtifactStore_GetByID aid) (\<lambda>art.
         bnd (parse_manifest art) (\<lambda>m. ret (art, m))))"

definition DryRun :: "map_order \<Rightarrow> diff_library \<Rightarrow> storage \<Rightarrow> int \<Rightarrow> dry_run_result op" where
  "DryRun ord lib get i =
     bnd (ReleaseStore_GetByID i) (\<lambda>rel.
     case r_artifact_id rel of
       None \<Rightarrow> throw (ErrMsg ''release has no artifact yet'')
     | Some aid \<Rightarrow>
         bnd (ArtifactStore_GetByID aid) (\<lambda>newArt.
         bnd (parse_manifest newArt) (\<lambda>new.
         bnd (attempt (findPreviousArtifact rel)) (\<lambda>r. case r of
           Inl e \<Rightarrow>
             (let files = map (\<lambda>mf. \<lparr>fd_path = mf_path mf, fd_change = ''added'', fd_diff = []\<rparr>) (m_files new)
              in ret \<lparr>dr_release_id = r_release_id rel, dr_new_artifact_id = af_artifact_id newArt,
                   dr_old_artifact_id = None, dr_summary = summary_of files, dr_files = files\<rparr>)
         | Inr (prevArt, old) \<Rightarrow>
             (let files = compare_files ord lib get (artifact_prefix new newArt) (artifact_prefix old prevArt)
                    (m_files new) (m_files old)
              in ret \<lparr>dr_release_id = r_release_id rel, dr_new_artifact_id = af_artifact_id newArt,
                   dr_old_artifact_id = Some (af_artifact_id prevArt), dr_summary = summary_of files,
                   dr_files = files\<rparr>)))))"

section \<open>What a preview says\<close>

definition change_of :: "manifest_file list \<Rightarrow> manifest_file list \<Rightarrow> string \<Rightarrow> string" where
  "change_of new old p = (case (by_path new p, by_path old p) of
       (Some n, None) \<Rightarrow> ''added''
     | (None, Some m) \<Rightarrow> ''removed''
     | (Some n, Some m) \<Rightarrow> if mf_checksum n = mf_checksum m then ''unchanged'' else ''modified''
     | (None, None) \<Rightarrow> [])"

lemma by_path_None: "by_path files p = None \<longleftrightarrow> p \<notin> set (paths_of files)"
  by (force simp: by_path_def paths_of_def map_of_eq_None_iff)

lemma by_path_Some: "by_path files p = Some f \<Longrightarrow> mf_path f = p"
  by (auto simp: by_path_def dest!: map_of_SomeD)

lemma by_path_in: "p \<in> set (paths_of files) \<Longrightarrow> \<exists>f. by_path files p = Some f \<and> mf_path f = p"
  by (metis by_path_None by_path_Some not_None_eq)

lemma distinct_paths [simp]: "distinct (paths_of files)"
  by (simp add: paths_of_def)

lemma concat_option: "concat (map (\<lambda>p. case g p of None \<Rightarrow> [h p] | Some f \<Rightarrow> []) ps) = map h (filter (\<lambda>p. g p = None) ps)"
  by (induction ps) (auto split: option.splits)

lemma concat_option': "concat (map (\<lambda>p. case g p of None \<Rightarrow> [] | Some f \<Rightarrow> [h f p]) ps) =
    map (\<lambda>p. h (the (g p)) p) (filter (\<lambda>p. g p \<noteq> None) ps)"
  by (induction ps) (auto split: option.splits)

text \<open>Every order of the maps.\<close>

definition map_orders :: "map_order \<Rightarrow> bool" where
  "map_orders ord \<longleftrightarrow> (\<forall>n ks. mset (ord n ks) = mset ks)"

lemma ord_set: "map_orders ord \<Longrightarrow> set (ord n ks) = set ks"
  unfolding map_orders_def by (metis mset_eq_setD)

lemma ord_distinct: "map_orders ord \<Longrightarrow> distinct (ord n ks) = distinct ks"
  unfolding map_orders_def by (metis mset_eq_imp_distinct_iff)

lemma map_cancel: "(\<And>x. x \<in> set xs \<Longrightarrow> f (h x) = x) \<Longrightarrow> map f (map h xs) = xs"
  by (simp add: map_idI)

lemma file_fields [simp]:
  "fd_path (added_file lib get a f) = mf_path f" "fd_change (added_file lib get a f) = ''added''"
  "fd_path (removed_file lib get a f) = mf_path f" "fd_change (removed_file lib get a f) = ''removed''"
  "fd_path (common_file lib get a b m f) = mf_path f"
  "fd_change (common_file lib get a b m f) = (if mf_checksum f = mf_checksum m then ''unchanged'' else ''modified'')"
  by (simp_all add: added_file_def removed_file_def common_file_def)

lemma path_of [simp]: "p \<in> set (paths_of files) \<Longrightarrow> mf_path (the (by_path files p)) = p"
  by (auto dest: by_path_in)

lemma compare_paths:
  assumes "map_orders ord"
  shows "map fd_path (compare_files ord lib get a b new old) =
    filter (\<lambda>p. p \<notin> set (paths_of old)) (ord 0 (paths_of new)) @
    filter (\<lambda>p. p \<notin> set (paths_of new)) (ord 1 (paths_of old)) @
    filter (\<lambda>p. p \<in> set (paths_of old)) (ord 2 (paths_of new))"
  unfolding compare_files_def concat_option concat_option' by_path_None map_append
  by (intro arg_cong2 [where f = append]; subst map_cancel) (auto simp: ord_set [OF assms])

lemma compare_change:
  assumes "map_orders ord" and "f \<in> set (compare_files ord lib get a b new old)"
  shows "fd_change f = change_of new old (fd_path f)"
proof -
  consider (added) p where "p \<in> set (paths_of new)" "by_path old p = None" "f = added_file lib get a (the (by_path new p))"
    | (removed) p where "p \<in> set (paths_of old)" "by_path new p = None" "f = removed_file lib get b (the (by_path old p))"
    | (common) p where "p \<in> set (paths_of new)" "by_path old p \<noteq> None"
        "f = common_file lib get a b (the (by_path old p)) (the (by_path new p))"
    using assms(2) ord_set [OF assms(1)] by (auto simp: compare_files_def concat_option concat_option')
  then show ?thesis
    by cases (auto simp: change_of_def dest: by_path_in)
qed

lemma counts_add:
  assumes "distinct [c1, c2, c3]"
  shows "count_change c1 fs + count_change c2 fs + count_change c3 fs =
    int (length (filter (\<lambda>f. fd_change f \<in> {c1, c2, c3}) fs))"
  using assms by (induction fs) (auto simp: count_change_def)

lemma count_paths:
  assumes "distinct (map fd_path fs)" and "fd_path ` set fs = A \<union> B"
    and "\<And>f. f \<in> set fs \<Longrightarrow> fd_change f \<in> cs \<longleftrightarrow> fd_path f \<in> A"
  shows "length (filter (\<lambda>f. fd_change f \<in> cs) fs) = card A"
proof -
  have eq: "filter (\<lambda>f. fd_change f \<in> cs) fs = filter (\<lambda>f. fd_path f \<in> A) fs"
    using assms(3) by (intro filter_cong) auto
  have "length (filter (\<lambda>f. fd_path f \<in> A) fs) = card (fd_path ` set (filter (\<lambda>f. fd_path f \<in> A) fs))"
    using assms(1) by (metis distinct_card distinct_map_filter length_map set_map)
  also have "fd_path ` set (filter (\<lambda>f. fd_path f \<in> A) fs) = A" using assms(2) by auto
  finally show ?thesis by (simp add: eq)
qed

definition paths :: "manifest \<Rightarrow> string set" where
  "paths m = mf_path ` set (m_files m)"

text \<open>What the result of a comparison has to be.\<close>

definition faithful :: "manifest \<Rightarrow> manifest \<Rightarrow> dry_run_result \<Rightarrow> bool" where
  "faithful new old r \<longleftrightarrow>
     distinct (map fd_path (dr_files r)) \<and> set (map fd_path (dr_files r)) = paths new \<union> paths old \<and>
     list_all (\<lambda>f. fd_change f = change_of (m_files new) (m_files old) (fd_path f)) (dr_files r) \<and>
     sm_added (dr_summary r) + sm_modified (dr_summary r) + sm_unchanged (dr_summary r) = int (card (paths new)) \<and>
     sm_removed (dr_summary r) + sm_modified (dr_summary r) + sm_unchanged (dr_summary r) = int (card (paths old))"

lemma compare_faithful:
  assumes "map_orders ord" and "dr_files r = compare_files ord lib get a b (m_files new) (m_files old)"
    and "dr_summary r = summary_of (dr_files r)"
  shows "faithful new old r"
proof -
  have ps: "set (paths_of (m_files new)) = paths new" "set (paths_of (m_files old)) = paths old"
    by (simp_all add: paths_of_def paths_def)
  note map = compare_paths [OF assms(1), of lib get a b "m_files new" "m_files old", folded assms(2), unfolded ps]
  have d: "distinct (map fd_path (dr_files r))" and set: "set (map fd_path (dr_files r)) = paths new \<union> paths old"
    unfolding map by (auto simp: ord_set [OF assms(1)] ord_distinct [OF assms(1)] ps)
  have change: "fd_change f = change_of (m_files new) (m_files old) (fd_path f)" if "f \<in> set (dr_files r)" for f
    using compare_change [OF assms(1)] that by (simp add: assms(2))
  have in_new: "fd_change f \<in> {''added'', ''modified'', ''unchanged''} \<longleftrightarrow> fd_path f \<in> paths new"
    and in_old: "fd_change f \<in> {''removed'', ''modified'', ''unchanged''} \<longleftrightarrow> fd_path f \<in> paths old"
    if "f \<in> set (dr_files r)" for f
    using change [OF that] ps by_path_None [of "m_files new" "fd_path f"] by_path_None [of "m_files old" "fd_path f"]
    by (auto simp: change_of_def split: option.splits)
  have "fd_path ` set (dr_files r) = paths new \<union> paths old" "fd_path ` set (dr_files r) = paths old \<union> paths new"
    using set by auto
  with count_paths [OF d _ in_new] count_paths [OF d _ in_old] d set change show ?thesis
    by (auto simp: faithful_def list_all_iff assms(3) summary_of_def counts_add)
qed

text \<open>What the statements of a preview return.\<close>

lemma snap_find:
  "hoare (snap w) (ReleaseStore_GetByID i) (\<lambda>r w'. True \<and> snap w w') (snap w)"
  "hoare (snap w) (GetLastSucceeded p i) (\<lambda>r w'. True \<and> snap w w') (snap w)"
  "hoare (snap w) (ArtifactStore_GetByID i) (\<lambda>a w'. a \<in> set (rows (artifacts w)) \<and> snap w w') (snap w)"
  "hoare (snap w) (parse_manifest a) (\<lambda>m w'. af_manifest a = Some m \<and> snap w w') (snap w)"
proof -
  show "hoare (snap w) (ReleaseStore_GetByID i) (\<lambda>r w'. True \<and> snap w w') (snap w)"
    "hoare (snap w) (GetLastSucceeded p i) (\<lambda>r w'. True \<and> snap w w') (snap w)"
    "hoare (snap w) (ArtifactStore_GetByID i) (\<lambda>a w'. a \<in> set (rows (artifacts w)) \<and> snap w w') (snap w)"
    unfolding ReleaseStore_GetByID_def GetLastSucceeded_def ArtifactStore_GetByID_def
    by (rule hoare_post [OF snap_query_one]; auto simp: tbl_find_def dest: find_SomeD)+
  show "hoare (snap w) (parse_manifest a) (\<lambda>m w'. af_manifest a = Some m \<and> snap w w') (snap w)"
    unfolding parse_manifest_def by (rule hoare_post [OF snap_answer]) (auto split: option.splits)
qed

definition stored :: "world \<Rightarrow> artifact_row \<times> manifest \<Rightarrow> bool" where
  "stored w am \<longleftrightarrow> fst am \<in> set (rows (artifacts w)) \<and> af_manifest (fst am) = Some (snd am)"

lemma snap_previous:
  "hoare (snap w) (findPreviousArtifact rel) (\<lambda>am w'. stored w am \<and> snap w w') (snap w)"
  unfolding findPreviousArtifact_def
proof (rule hoare_step [OF snap_find(2)])
  fix prev
  show "hoare (snap w) (case r_artifact_id prev of None \<Rightarrow> throw ErrNoPreviousRelease
      | Some aid \<Rightarrow> bnd (ArtifactStore_GetByID aid) (\<lambda>art. bnd (parse_manifest art) (\<lambda>m. ret (art, m))))
    (\<lambda>am w'. stored w am \<and> snap w w') (snap w)"
  proof (cases "r_artifact_id prev")
    case (Some aid)
    show ?thesis
      unfolding Some option.case
      by (rule hoare_step [OF snap_find(3)], rule hoare_step [OF snap_find(4)]) (simp add: hoare_def stored_def)
  qed (simp add: hoare_def)
qed

definition preview_ok :: "world \<Rightarrow> dry_run_result \<Rightarrow> bool" where
  "preview_ok w r \<longleftrightarrow> (\<exists>a new. stored w (a, new) \<and> af_artifact_id a = dr_new_artifact_id r \<and>
     (case dr_old_artifact_id r of
        None \<Rightarrow> map fd_path (dr_files r) = map mf_path (m_files new)
      | Some b_id \<Rightarrow> \<exists>b old. stored w (b, old) \<and> af_artifact_id b = b_id \<and> faithful new old r))"


text \<open>A release whose page differs from that of the last one, and which has no stylesheet any more.\<close>

definition preview_manifest :: "string \<Rightarrow> manifest_file list \<Rightarrow> manifest" where
  "preview_manifest i files = \<lparr>m_artifact_id = i, m_project_slug = ''shop'', m_template_version_id = 1,
     m_checksum = i, m_signature = [], m_domains = [''a.io''], m_files = files, m_domain_count = 1,
     m_file_count = 2, m_total_size_bytes = 2, m_built_at = 0\<rparr>"

definition preview_artifact :: "int \<Rightarrow> string \<Rightarrow> manifest_file list \<Rightarrow> artifact_row" where
  "preview_artifact i name files = \<lparr>af_id = i, af_project_id = 1, af_release_id = None,
     af_template_version_id = 1, af_artifact_id = name, af_storage_uri = [],
     af_manifest = Some (preview_manifest name files), af_checksum = name, af_signature = None,
     af_domain_count = 1, af_file_count = 2, af_total_size_bytes = 2, af_built_at = 0, af_built_by = None,
     af_signed_at = None\<rparr>"

definition preview_release :: "int \<Rightarrow> string \<Rightarrow> release_row" where
  "preview_release i status = \<lparr>r_id = i, r_release_id = ''r'', r_project_id = 1, r_template_version_id = 1,
     r_artifact_id = Some i, r_release_type = ''html'', r_trigger_source = ''ui'', r_status = status,
     r_total_domains = None, r_total_shards = None, r_success_count = 0, r_failure_count = 0,
     r_description = None, r_created_at = 0, r_created_by = None, r_started_at = None, r_ended_at = None\<rparr>"

definition preview_world :: world where
  "preview_world = empty_world\<lparr>
     releases := \<lparr>rows = [preview_release 1 ''succeeded'', preview_release 2 ''ready''], seq = 2\<rparr>,
     artifacts := \<lparr>rows = [
       preview_artifact 1 ''one'' [\<lparr>mf_path = ''a.html'', mf_checksum = ''x'', mf_size = 1\<rparr>,
         \<lparr>mf_path = ''a.css'', mf_checksum = ''y'', mf_size = 1\<rparr>],
       preview_artifact 2 ''two'' [\<lparr>mf_path = ''a.html'', mf_checksum = ''z'', mf_size = 1\<rparr>]], seq = 2\<rparr>\<rparr>"

definition no_diff :: diff_library where
  "no_diff = \<lparr>dl_SplitLines = (\<lambda>s. [s]), dl_GetUnifiedDiffString = (\<lambda>u. None)\<rparr>"


end
