(* ===== verification/Requests.thy ===== *)
theory Requests
  imports Access Asset_Services Dry_Run "HOL-Library.Monad_Syntax"
begin

text \<open>
  What the handlers of api/handler share: a request as gin hands it to them, JSON bodies decoded into Go structs
  as \<open>encoding/json\<close> and the \<open>binding\<close> tags do it, and answers. An error answer is the code of its JSON body, whose
  first three digits are the HTTP status; a success is the status with the member \<open>data\<close>. Columns that the rows of
  the model do not have (uuids, some timestamps) are missing from the answers as well.
\<close>

section \<open>JSON\<close>

text \<open>
  Numbers without fraction and exponent are apart, as only they decode into a Go integer. \<open>JTime\<close> is the text of a
  \<open>time.Time\<close>, \<open>JRaw\<close> JSON text that an answer embeds as it is.
\<close>

datatype jvalue =
    JNull | JTruth bool | JInt int | JReal rat | JText string | JTime int
  | JRaw string | JList "jvalue list" | JObject "(string \<times> jvalue) list"

definition nullable :: "('a \<Rightarrow> jvalue) \<Rightarrow> 'a option \<Rightarrow> jvalue" where
  "nullable f x = (case x of None \<Rightarrow> JNull | Some a \<Rightarrow> f a)"

text \<open>A slice that is nil when it has no element, and one made by \<open>make\<close>.\<close>

definition slice :: "('a \<Rightarrow> jvalue) \<Rightarrow> 'a list \<Rightarrow> jvalue" where
  "slice f xs = (if xs = [] then JNull else JList (map f xs))"

definition items :: "('a \<Rightarrow> jvalue) \<Rightarrow> 'a list \<Rightarrow> jvalue" where
  "items f xs = JList (map f xs)"

section \<open>Decoding\<close>

type_synonym 'a decoder = "jvalue \<Rightarrow> 'a option"

text \<open>The values given for a field; keys match without regard to case. A body \<open>null\<close> leaves the struct alone.\<close>

definition given :: "string \<Rightarrow> jvalue list decoder" where
  "given name b = (case b of
       JObject ms \<Rightarrow> Some (map snd (filter (\<lambda>m. EqualFold (fst m) name) ms))
     | JNull \<Rightarrow> Some []
     | _ \<Rightarrow> None)"

definition as_text :: "string decoder" where
  "as_text v = (case v of JText s \<Rightarrow> Some s | _ \<Rightarrow> None)"

definition as_truth :: "bool decoder" where
  "as_truth v = (case v of JTruth p \<Rightarrow> Some p | _ \<Rightarrow> None)"

definition as_int :: "int decoder" where
  "as_int v = (case v of JInt i \<Rightarrow> if - (2 ^ 63) \<le> i \<and> i < 2 ^ 63 then Some i else None | _ \<Rightarrow> None)"

definition as_number :: "rat decoder" where
  "as_number v = (case v of JInt i \<Rightarrow> Some (of_int i) | JReal r \<Rightarrow> Some r | _ \<Rightarrow> None)"

definition as_list :: "'a decoder \<Rightarrow> 'a \<Rightarrow> 'a list decoder" where
  "as_list dec zero v = (case v of
       JList vs \<Rightarrow> those (map (\<lambda>x. if x = JNull then Some zero else dec x) vs)
     | _ \<Rightarrow> None)"

text \<open>The last value wins; \<open>null\<close> leaves a plain field alone and resets a pointer, a slice or a map.\<close>

definition field :: "'a decoder \<Rightarrow> 'a \<Rightarrow> string \<Rightarrow> 'a decoder" where
  "field dec zero name b = do {
     vs \<leftarrow> given name b;
     foldl (\<lambda>acc v. if v = JNull then acc else do { _ \<leftarrow> acc; dec v }) (Some zero) vs }"

definition pointer :: "'a decoder \<Rightarrow> string \<Rightarrow> 'a option decoder" where
  "pointer dec name b = do {
     vs \<leftarrow> given name b;
     foldl (\<lambda>acc v. do { _ \<leftarrow> acc; if v = JNull then Some None else map_option Some (dec v) }) (Some None) vs }"

text \<open>The same when the error of the binding is dropped: what does not decode leaves the field alone.\<close>

definition loosely :: "'a decoder \<Rightarrow> 'a \<Rightarrow> string \<Rightarrow> jvalue \<Rightarrow> 'a" where
  "loosely dec zero name b = (case given name b of
       None \<Rightarrow> zero
     | Some vs \<Rightarrow> foldl (\<lambda>x v. if v = JNull then x else case dec v of None \<Rightarrow> x | Some y \<Rightarrow> y) zero vs)"

definition loose_pointer :: "'a decoder \<Rightarrow> string \<Rightarrow> jvalue \<Rightarrow> 'a option" where
  "loose_pointer dec name b = (case given name b of
       None \<Rightarrow> None
     | Some vs \<Rightarrow> foldl (\<lambda>x v. if v = JNull then None else case dec v of None \<Rightarrow> x | Some y \<Rightarrow> Some y) None vs)"

abbreviation text_field :: "string \<Rightarrow> string decoder" where
  "text_field \<equiv> field as_text []"

abbreviation truth_field :: "string \<Rightarrow> bool decoder" where
  "truth_field \<equiv> field as_truth False"

abbreviation int_field :: "string \<Rightarrow> int decoder" where
  "int_field \<equiv> field as_int 0"

abbreviation or_nil :: "'a list option \<Rightarrow> 'a list" where
  "or_nil x \<equiv> (case x of None \<Rightarrow> [] | Some xs \<Rightarrow> xs)"

definition slice_field :: "'a decoder \<Rightarrow> 'a \<Rightarrow> string \<Rightarrow> 'a list decoder" where
  "slice_field dec zero name b = map_option or_nil (pointer (as_list dec zero) name b)"

text \<open>A field of type \<open>map[string]any\<close>, its values as JSON text; a second object is merged into the first.\<close>

definition map_field :: "(jvalue \<Rightarrow> string) \<Rightarrow> string \<Rightarrow> variables option decoder" where
  "map_field encode name b = do {
     vs \<leftarrow> given name b;
     foldl (\<lambda>acc v. do {
       m \<leftarrow> acc;
       case v of
         JNull \<Rightarrow> Some None
       | JObject ms \<Rightarrow> Some (Some (foldl (\<lambda>vars kv. put (fst kv) (encode (snd kv)) vars) (or_nil m) ms))
       | _ \<Rightarrow> None }) (Some None) vs }"

text \<open>The tag \<open>binding:"required"\<close> refuses the zero value.\<close>

definition require :: "bool \<Rightarrow> unit option" where
  "require p = (if p then Some () else None)"

definition required_text :: "string \<Rightarrow> string decoder" where
  "required_text name b = do { s \<leftarrow> text_field name b; require (s \<noteq> []); Some s }"

definition required_int :: "string \<Rightarrow> int decoder" where
  "required_int name b = do { i \<leftarrow> int_field name b; require (i \<noteq> 0); Some i }"

section \<open>Requests and answers\<close>

text \<open>
  Path parameters, query parameters, the first JSON value of the body (\<open>None\<close>: there is none, or it is malformed),
  the fields and files of a form (\<open>Inl\<close>: the file cannot be read), headers, and the integers that the middlewares
  left in the context of the request.
\<close>

record http_request =
  rq_param :: "string \<Rightarrow> string"
  rq_query :: "string \<Rightarrow> string option"
  rq_body :: "jvalue option"
  rq_form :: "string \<Rightarrow> string"
  rq_file :: "string \<Rightarrow> (unit + string) option"
  rq_header :: "string \<Rightarrow> string"
  rq_context :: "string \<Rightarrow> int option"

definition GetUserID :: "http_request \<Rightarrow> int" where
  "GetUserID rq = (case rq_context rq ''user_id'' of None \<Rightarrow> 0 | Some i \<Rightarrow> i)"

type_synonym reply = "int \<times> jvalue"

definition ok :: "jvalue \<Rightarrow> reply handler" where
  "ok v = ret (200, v)"

definition created :: "jvalue \<Rightarrow> reply handler" where
  "created v = ret (201, v)"

definition accepted :: "jvalue \<Rightarrow> reply handler" where
  "accepted v = ret (202, v)"

definition no_content :: "reply handler" where
  "no_content = ret (204, JNull)"

text \<open>A call whose error decides the code, by a function or by a list of sentinels with a code for the rest.\<close>

definition coded_by :: "(go_err \<Rightarrow> int) \<Rightarrow> 'a op \<Rightarrow> 'a handler" where
  "coded_by code m = (\<lambda>w. case m w of (Inl e, w') \<Rightarrow> (Inl (code e), w') | (Inr x, w') \<Rightarrow> (Inr x, w'))"

definition code_in :: "int \<Rightarrow> (go_err \<times> int) list \<Rightarrow> go_err \<Rightarrow> int" where
  "code_in other table e = (case map_of table e of None \<Rightarrow> other | Some c \<Rightarrow> c)"

definition coded_or :: "int \<Rightarrow> (go_err \<times> int) list \<Rightarrow> 'a op \<Rightarrow> 'a handler" where
  "coded_or other table = coded_by (code_in other table)"

definition coded :: "(go_err \<times> int) list \<Rightarrow> 'a op \<Rightarrow> 'a handler" where
  "coded = coded_or 50000"

text \<open>The status of a panic that gin recovers from; its answer has no body.\<close>

definition panic :: "'a handler" where
  "panic = throw 500"

definition with_id_or :: "int \<Rightarrow> string \<Rightarrow> http_request \<Rightarrow> (int \<Rightarrow> 'a handler) \<Rightarrow> 'a handler" where
  "with_id_or code name rq k = (case ParseInt (rq_param rq name) of None \<Rightarrow> throw code | Some i \<Rightarrow> k i)"

definition with_id :: "string \<Rightarrow> http_request \<Rightarrow> (int \<Rightarrow> 'a handler) \<Rightarrow> 'a handler" where
  "with_id = with_id_or 40000"

definition with_body_or :: "int \<Rightarrow> 'r decoder \<Rightarrow> http_request \<Rightarrow> ('r \<Rightarrow> 'a handler) \<Rightarrow> 'a handler" where
  "with_body_or code dec rq k = (case Option.bind (rq_body rq) dec of None \<Rightarrow> throw code | Some r \<Rightarrow> k r)"

definition with_body :: "'r decoder \<Rightarrow> http_request \<Rightarrow> ('r \<Rightarrow> 'a handler) \<Rightarrow> 'a handler" where
  "with_body = with_body_or 40000"

text \<open>A body whose binding error is dropped: without a JSON value the struct stays as it is.\<close>

definition loose_body :: "http_request \<Rightarrow> jvalue" where
  "loose_body rq = (case rq_body rq of None \<Rightarrow> JNull | Some b \<Rightarrow> b)"

text \<open>The value \<open>strconv.ParseInt\<close> returns next to an error: 0, or the bound that was passed.\<close>

definition ParseInt_value :: "string \<Rightarrow> int" where
  "ParseInt_value s =
     (let neg = take 1 s = ''-''; body = (if take 1 s = ''-'' \<or> take 1 s = ''+'' then tl s else s);
          n = (if neg then - digits_value body else digits_value body)
      in if body = [] \<or> \<not> list_all is_digit body then 0 else max (- (2 ^ 63)) (min (2 ^ 63 - 1) n))"

definition DefaultQuery :: "http_request \<Rightarrow> string \<Rightarrow> string \<Rightarrow> string" where
  "DefaultQuery rq name other = (case rq_query rq name of None \<Rightarrow> other | Some s \<Rightarrow> s)"

definition Query :: "http_request \<Rightarrow> string \<Rightarrow> string" where
  "Query rq name = DefaultQuery rq name []"

definition query_int :: "http_request \<Rightarrow> string \<Rightarrow> string \<Rightarrow> int" where
  "query_int rq name other = ParseInt_value (DefaultQuery rq name other)"

text \<open>\<open>if v := c.Query(name); v != "" \{ if id, err := strconv.ParseInt(v, 10, 64); err == nil \{ ... \} \}\<close>\<close>

definition query_id :: "http_request \<Rightarrow> string \<Rightarrow> int option" where
  "query_id rq name = (if Query rq name = [] then None else ParseInt (Query rq name))"

definition query_text :: "http_request \<Rightarrow> string \<Rightarrow> string option" where
  "query_text rq name = (if Query rq name = [] then None else Some (Query rq name))"

definition page_of :: "('a \<Rightarrow> jvalue) \<Rightarrow> 'a list \<times> int \<times> int \<Rightarrow> jvalue" where
  "page_of f p = (case p of (xs, n, cursor) \<Rightarrow>
     JObject [(''items'', items f xs), (''total'', JInt n), (''cursor'', JInt cursor)])"

definition listing :: "('a \<Rightarrow> jvalue) \<Rightarrow> 'a list \<Rightarrow> jvalue" where
  "listing f xs = JObject [(''items'', items f xs), (''total'', JInt (int (length xs)))]"

section \<open>What handlers keep\<close>

lemma final_coded_by [simp]: "final (coded_by code m) w = final m w"
  by (simp add: coded_by_def final_def split: prod.split sum.split)

lemma result_coded_by:
  "result (coded_by code m) w = (case result m w of Inl e \<Rightarrow> Inl (code e) | Inr x \<Rightarrow> Inr x)"
  by (simp add: coded_by_def result_def split: prod.split sum.split)

lemma final_coded [simp]: "final (coded_or other table m) w = final m w" "final (coded table m) w = final m w"
  by (simp_all add: coded_def coded_or_def)

lemma result_coded:
  "result (coded_or other table m) w = (case result m w of Inl e \<Rightarrow> Inl (code_in other table e) | Inr x \<Rightarrow> Inr x)"
  "result (coded table m) w = (case result m w of Inl e \<Rightarrow> Inl (code_in 50000 table e) | Inr x \<Rightarrow> Inr x)"
  by (simp_all add: coded_def coded_or_def result_coded_by)

lemma keeps_coded [eff_intro]:
  "keeps R m \<Longrightarrow> keeps R (coded_by code m)" "keeps R m \<Longrightarrow> keeps R (coded_or other table m)"
  "keeps R m \<Longrightarrow> keeps R (coded table m)"
  by (simp_all add: keeps_def)

lemma final_fail_with [simp]: "final (fail_with code m) w = final m w"
  by (simp add: fail_with_def final_def split: prod.split sum.split)

lemma keeps_fail_with [eff_intro]: "keeps R m \<Longrightarrow> keeps R (fail_with code m)"
  by (simp add: keeps_def)

lemma keeps_with [eff_intro]:
  fixes k :: "int \<Rightarrow> 'a handler" and l :: "'r \<Rightarrow> 'a handler"
  shows "(\<And>i. keeps R (k i)) \<Longrightarrow> keeps R (throw code :: 'a handler) \<Longrightarrow> keeps R (with_id_or code name rq k)"
    "(\<And>r. keeps R (l r)) \<Longrightarrow> keeps R (throw code :: 'a handler) \<Longrightarrow> keeps R (with_body_or code dec rq l)"
    "(\<And>i. keeps R (k i)) \<Longrightarrow> keeps R (throw 40000 :: 'a handler) \<Longrightarrow> keeps R (with_id name rq k)"
    "(\<And>r. keeps R (l r)) \<Longrightarrow> keeps R (throw 40000 :: 'a handler) \<Longrightarrow> keeps R (with_body dec rq l)"
  by (simp_all add: with_id_or_def with_body_or_def with_id_def with_body_def split: option.split)

text \<open>\<open>looks\<close>: the handlers that only read. The answers themselves touch nothing.\<close>

named_theorems looks \<open>handlers that only read\<close>

lemma ro_replies [eff_intro]:
  "keeps read_only (ok v)" "keeps read_only (created v)" "keeps read_only (accepted v)" "keeps read_only no_content"
  "keeps read_only (panic :: 'a handler)"
  by (simp_all add: keeps_def read_only_def ok_def created_def accepted_def no_content_def panic_def)

text \<open>A parameter that is not a number, or a body that does not bind, ends the request.\<close>

lemma bad_id: "ParseInt (rq_param rq name) = None \<Longrightarrow> with_id_or code name rq k = throw code"
  by (simp add: with_id_or_def)

lemma result_with_body:
  "result (with_body_or code dec rq k) w =
     (case Option.bind (rq_body rq) dec of None \<Rightarrow> Inl code | Some r \<Rightarrow> result (k r) w)"
  by (simp add: with_body_or_def split: option.split)

end
