(* ===== verification/Web_Releases.thy ===== *)
theory Web_Releases
  imports Requests
begin

text \<open>
  api/handler: auth.go, project.go, template.go, artifact.go and release.go. The first argument of a handler, where
  it has one, is a party outside the repository.
\<close>

section \<open>Login\<close>

definition LoginRequest :: "(string \<times> string) decoder" where
  "LoginRequest b = do {
     name \<leftarrow> required_text ''username'' b;
     password \<leftarrow> required_text ''password'' b;
     Some (name, password) }"

definition AuthHandler_Login ::
    "jwt_library \<Rightarrow> int \<Rightarrow> (string \<Rightarrow> string \<Rightarrow> bool) \<Rightarrow> http_request \<Rightarrow> reply handler" where
  "AuthHandler_Login lib expiry bcrypt rq = with_body LoginRequest rq (\<lambda>(name, password).
     bnd (coded [(ErrInvalidCredentials, 40100), (ErrUserDisabled, 40300)] (Login lib expiry bcrypt name password)) (\<lambda>g.
     ok (JObject [(''token'', JText (lg_token g)), (''user_id'', JInt (lg_user_id g)),
       (''username'', JText (lg_username g)), (''roles'', slice JText (lg_roles g))])))"

definition AuthHandler_Me :: "http_request \<Rightarrow> reply handler" where
  "AuthHandler_Me rq =
     bnd (coded [] (UserStore_GetByID (GetUserID rq))) (\<lambda>u.
     bnd (coded [] (GetUserRoles (GetUserID rq))) (\<lambda>roles.
     ok (JObject [(''user_id'', JInt (us_id u)), (''username'', JText (us_username u)),
       (''display_name'', nullable JText (us_display_name u)), (''status'', JText (us_status u)),
       (''roles'', slice JText roles)])))"

section \<open>Projects\<close>

definition projectResponse :: "project_row \<Rightarrow> jvalue" where
  "projectResponse p = JObject [(''id'', JInt (pj_id p)), (''name'', JText (pj_name p)), (''slug'', JText (pj_slug p)),
     (''description'', nullable JText (pj_description p)), (''is_prod'', JTruth (pj_is_prod p)),
     (''owner_id'', nullable JInt (pj_owner_id p))]"

definition CreateProjectRequest :: "(string \<times> string \<times> string option \<times> bool) decoder" where
  "CreateProjectRequest b = do {
     name \<leftarrow> required_text ''name'' b;
     slug \<leftarrow> required_text ''slug'' b;
     description \<leftarrow> pointer as_text ''description'' b;
     prod \<leftarrow> truth_field ''is_prod'' b;
     Some (name, slug, description, prod) }"

definition ProjectHandler_Create :: "http_request \<Rightarrow> reply handler" where
  "ProjectHandler_Create rq = with_body CreateProjectRequest rq (\<lambda>(name, slug, description, prod).
     bnd (coded [(ErrDuplicateSlug, 40900), (ErrDuplicateProjectName, 40900), (ErrInvalidSlug, 40000)]
       (Project_Create \<lparr>pj_id = 0, pj_name = name, pj_slug = slug, pj_description = description,
          pj_is_prod = prod, pj_owner_id = Some (GetUserID rq), pj_deleted_at = None\<rparr>)) (\<lambda>p.
     created (projectResponse p)))"

definition ProjectHandler_Get :: "http_request \<Rightarrow> reply handler" where
  "ProjectHandler_Get rq = with_id ''id'' rq (\<lambda>i.
     bnd (coded [(ErrProjectNotFound, 40400)] (ProjectStore_GetByID i)) (\<lambda>p. ok (projectResponse p)))"

definition ProjectHandler_List :: "http_request \<Rightarrow> reply handler" where
  "ProjectHandler_List rq =
     bnd (coded [] (Project_List (query_int rq ''cursor'' ''0'') (query_int rq ''limit'' ''20''))) (\<lambda>r.
     ok (page_of projectResponse r))"

text \<open>\<open>UpdateProjectRequest\<close> has the same fields and tags.\<close>

definition ProjectHandler_Update :: "http_request \<Rightarrow> reply handler" where
  "ProjectHandler_Update rq = with_id ''id'' rq (\<lambda>i. with_body CreateProjectRequest rq (\<lambda>(name, slug, description, prod).
     bnd (coded [(ErrProjectNotFound, 40400), (ErrInvalidSlug, 40000)]
       (Project_Update i name slug description prod)) (\<lambda>p.
     ok (projectResponse p))))"

definition ProjectHandler_Delete :: "http_request \<Rightarrow> reply handler" where
  "ProjectHandler_Delete rq = with_id ''id'' rq (\<lambda>i.
     seq_eff (coded [(ErrProjectNotFound, 40400)] (Project_Delete i)) no_content)"

section \<open>Templates\<close>

definition templateResponse :: "template_row \<Rightarrow> jvalue" where
  "templateResponse t = JObject [(''id'', JInt (tp_id t)), (''project_id'', JInt (tp_project_id t)),
     (''name'', JText (tp_name t)), (''description'', nullable JText (tp_description t)), (''kind'', JText (tp_kind t))]"

definition versionResponse :: "template_version_row \<Rightarrow> jvalue" where
  "versionResponse v = JObject [(''id'', JInt (tv_id v)), (''template_id'', JInt (tv_template_id v)),
     (''version_label'', JText (tv_version_label v)), (''content_html'', nullable JText (tv_content_html v)),
     (''content_nginx'', nullable JText (tv_content_nginx v)),
     (''default_variables'', nullable (\<lambda>vars. JObject (map (\<lambda>(k, x). (k, JRaw x)) vars)) (tv_default_variables v)),
     (''checksum'', JText (tv_checksum v)), (''published_at'', nullable JTime (tv_published_at v)),
     (''published_by'', nullable JInt (tv_published_by v)), (''created_at'', JTime (tv_created_at v)),
     (''created_by'', nullable JInt (tv_created_by v))]"

definition CreateTemplateRequest :: "(string \<times> string option \<times> string) decoder" where
  "CreateTemplateRequest b = do {
     name \<leftarrow> required_text ''name'' b;
     description \<leftarrow> pointer as_text ''description'' b;
     kind \<leftarrow> text_field ''kind'' b;
     Some (name, description, kind) }"

definition UpdateTemplateRequest :: "(string \<times> string option) decoder" where
  "UpdateTemplateRequest b = do {
     name \<leftarrow> required_text ''name'' b;
     description \<leftarrow> pointer as_text ''description'' b;
     Some (name, description) }"

definition PublishVersionRequest ::
    "(jvalue \<Rightarrow> string) \<Rightarrow> (string option \<times> string option \<times> variables option) decoder" where
  "PublishVersionRequest encode b = do {
     html \<leftarrow> pointer as_text ''content_html'' b;
     nginx \<leftarrow> pointer as_text ''content_nginx'' b;
     vars \<leftarrow> map_field encode ''default_variables'' b;
     Some (html, nginx, vars) }"

definition TemplateHandler_Create :: "http_request \<Rightarrow> reply handler" where
  "TemplateHandler_Create rq = with_id ''id'' rq (\<lambda>p. with_body CreateTemplateRequest rq (\<lambda>(name, description, kind).
     bnd (coded [] (Template_Create p name description kind)) (\<lambda>t. created (templateResponse t))))"

definition TemplateHandler_Get :: "http_request \<Rightarrow> reply handler" where
  "TemplateHandler_Get rq = with_id ''id'' rq (\<lambda>i.
     bnd (coded [(ErrTemplateNotFound, 40400)] (TemplateStore_GetByID i)) (\<lambda>t. ok (templateResponse t)))"

definition TemplateHandler_List :: "http_request \<Rightarrow> reply handler" where
  "TemplateHandler_List rq = with_id ''id'' rq (\<lambda>p.
     bnd (coded [] (Template_List p (query_int rq ''cursor'' ''0'') (query_int rq ''limit'' ''20''))) (\<lambda>r.
     ok (page_of templateResponse r)))"

definition TemplateHandler_Update :: "http_request \<Rightarrow> reply handler" where
  "TemplateHandler_Update rq = with_id ''id'' rq (\<lambda>i. with_body UpdateTemplateRequest rq (\<lambda>(name, description).
     bnd (coded [(ErrTemplateNotFound, 40400)] (TemplateStore_Update i name description)) (\<lambda>t.
     ok (templateResponse t))))"

definition TemplateHandler_Delete :: "http_request \<Rightarrow> reply handler" where
  "TemplateHandler_Delete rq = with_id ''id'' rq (\<lambda>i.
     seq_eff (coded [(ErrTemplateNotFound, 40400)] (TemplateStore_SoftDelete i)) no_content)"

text \<open>Both parse the whole body before they call the service; the fraction \<open>ms\<close> of the clock labels the version.\<close>

definition TemplateHandler_PublishVersion ::
    "(jvalue \<Rightarrow> string) \<Rightarrow> (string \<Rightarrow> string) \<Rightarrow> int \<Rightarrow> http_request \<Rightarrow> reply handler" where
  "TemplateHandler_PublishVersion encode sha ms rq = with_id ''id'' rq (\<lambda>i.
     with_body (PublishVersionRequest encode) rq (\<lambda>(html, nginx, vars).
     bnd (coded [(ErrTemplateNotFound, 40400)] (PublishVersion sha ms \<lparr>pb_template_id = i, pb_content_html = html,
         pb_content_nginx = nginx, pb_default_variables = or_nil vars, pb_published_by = GetUserID rq\<rparr>)) (\<lambda>v.
     created (versionResponse v))))"

definition TemplateHandler_ListVersions :: "http_request \<Rightarrow> reply handler" where
  "TemplateHandler_ListVersions rq = with_id ''id'' rq (\<lambda>i.
     bnd (coded [] (ListVersions i)) (\<lambda>vs. ok (items versionResponse vs)))"

definition TemplateHandler_GetVersion :: "http_request \<Rightarrow> reply handler" where
  "TemplateHandler_GetVersion rq = with_id ''id'' rq (\<lambda>i.
     bnd (coded [(ErrTemplateVersionNotFound, 40400)] (GetVersion i)) (\<lambda>v. ok (versionResponse v)))"

definition TemplateHandler_UpdateVersion ::
    "(jvalue \<Rightarrow> string) \<Rightarrow> (string \<Rightarrow> string) \<Rightarrow> http_request \<Rightarrow> reply handler" where
  "TemplateHandler_UpdateVersion encode sha rq = with_id ''id'' rq (\<lambda>i.
     with_body (PublishVersionRequest encode) rq (\<lambda>(html, nginx, vars).
     bnd (coded [(ErrTemplateVersionNotFound, 40400), (ErrVersionImmutable, 40900)]
       (UpdateVersion sha i html nginx (or_nil vars))) (\<lambda>v.
     ok (versionResponse v))))"

section \<open>Artifacts\<close>

definition artifactResponse :: "artifact_row \<Rightarrow> jvalue" where
  "artifactResponse a = JObject [(''id'', JInt (af_id a)), (''project_id'', JInt (af_project_id a)),
     (''release_id'', nullable JInt (af_release_id a)), (''template_version_id'', JInt (af_template_version_id a)),
     (''artifact_id'', JText (af_artifact_id a)), (''storage_uri'', JText (af_storage_uri a)),
     (''checksum'', JText (af_checksum a)), (''signature'', nullable JText (af_signature a)),
     (''domain_count'', JInt (af_domain_count a)), (''file_count'', JInt (af_file_count a)),
     (''total_size_bytes'', JInt (af_total_size_bytes a)), (''built_at'', JTime (af_built_at a)),
     (''built_by'', nullable JInt (af_built_by a)), (''signed_at'', nullable JTime (af_signed_at a))]"

definition ArtifactHandler_Get :: "http_request \<Rightarrow> reply handler" where
  "ArtifactHandler_Get rq = with_id ''id'' rq (\<lambda>i.
     bnd (coded [(ErrArtifactNotFound, 40400)] (ArtifactStore_GetByID i)) (\<lambda>a. ok (artifactResponse a)))"

definition ArtifactHandler_ListByProject :: "http_request \<Rightarrow> reply handler" where
  "ArtifactHandler_ListByProject rq = with_id ''id'' rq (\<lambda>p.
     bnd (coded [] (ArtifactStore_ListByProject p (query_int rq ''cursor'' ''0'') (query_int rq ''limit'' ''20''))) (\<lambda>as.
     ok (page_of artifactResponse (as, int (length as), next_cursor af_id as))))"

section \<open>Releases\<close>

definition releaseResponse :: "release_row \<Rightarrow> jvalue" where
  "releaseResponse r = JObject [(''id'', JInt (r_id r)), (''release_id'', JText (r_release_id r)),
     (''project_id'', JInt (r_project_id r)), (''template_version_id'', JInt (r_template_version_id r)),
     (''artifact_id'', nullable JInt (r_artifact_id r)), (''release_type'', JText (r_release_type r)),
     (''trigger_source'', JText (r_trigger_source r)), (''status'', JText (r_status r)),
     (''total_domains'', nullable JInt (r_total_domains r)), (''total_shards'', nullable JInt (r_total_shards r)),
     (''success_count'', JInt (r_success_count r)), (''failure_count'', JInt (r_failure_count r)),
     (''description'', nullable JText (r_description r)), (''created_at'', JTime (r_created_at r)),
     (''created_by'', nullable JInt (r_created_by r)), (''started_at'', nullable JTime (r_started_at r)),
     (''ended_at'', nullable JTime (r_ended_at r))]"

definition CreateReleaseRequest :: "create_input decoder" where
  "CreateReleaseRequest b = do {
     project \<leftarrow> required_int ''project_id'' b;
     slug \<leftarrow> required_text ''project_slug'' b;
     version \<leftarrow> required_int ''template_version_id'' b;
     kind \<leftarrow> text_field ''release_type'' b;
     trigger \<leftarrow> text_field ''trigger_source'' b;
     strategy \<leftarrow> text_field ''shard_strategy'' b;
     description \<leftarrow> pointer as_text ''description'' b;
     ids \<leftarrow> slice_field as_int 0 ''domain_ids'' b;
     Some \<lparr>ci_project_id = project, ci_project_slug = slug, ci_template_version_id = version,
       ci_release_type = kind, ci_trigger_source = trigger, ci_shard_strategy = strategy,
       ci_description = description, ci_domain_ids = ids, ci_created_by = None\<rparr> }"

definition ReleaseHandler_Create :: "(string \<Rightarrow> string) \<Rightarrow> http_request \<Rightarrow> reply handler" where
  "ReleaseHandler_Create sha rq = with_body CreateReleaseRequest rq (\<lambda>inp.
     bnd (coded [(ErrDomainNotActive, 40001), (ErrNoDomainsInScope, 40002), (ErrTemplateNotPublished, 40003)]
       (Create sha (inp\<lparr>ci_created_by := Some (GetUserID rq)\<rparr>))) (\<lambda>rel.
     accepted (releaseResponse rel)))"

text \<open>
  The sentinel of internal/release/errors.go that the handlers look for. No function returns it: the methods hand
  through the one of store/postgres, which has the same text but is another value.
\<close>

abbreviation release_ErrReleaseNotFound :: go_err where
  "release_ErrReleaseNotFound \<equiv> ErrSentinel ''release not found''"

definition ReleaseHandler_Get :: "http_request \<Rightarrow> reply handler" where
  "ReleaseHandler_Get rq = with_id ''id'' rq (\<lambda>i.
     bnd (coded [(release_ErrReleaseNotFound, 40400)] (ReleaseStore_GetByID i)) (\<lambda>rel. ok (releaseResponse rel)))"

definition ReleaseHandler_ListByProject :: "http_request \<Rightarrow> reply handler" where
  "ReleaseHandler_ListByProject rq = with_id ''id'' rq (\<lambda>p.
     bnd (coded [] (Release_List p (query_int rq ''cursor'' ''0'') (query_int rq ''limit'' ''20''))) (\<lambda>r.
     ok (page_of releaseResponse r)))"

definition user_trigger :: "http_request \<Rightarrow> string" where
  "user_trigger rq = ''user:'' @ show_int (GetUserID rq)"

abbreviation state_conflict :: "(go_err \<times> int) list" where
  "state_conflict \<equiv> [(ErrInvalidReleaseState, 40900), (ErrReleaseRaceCondition, 40900)]"

definition ReleaseHandler_Pause :: "http_request \<Rightarrow> reply handler" where
  "ReleaseHandler_Pause rq = with_id ''id'' rq (\<lambda>i.
     seq_eff (coded state_conflict (Pause i (loosely as_text [] ''reason'' (loose_body rq)) (user_trigger rq))) (ok JNull))"

definition ReleaseHandler_Resume :: "http_request \<Rightarrow> reply handler" where
  "ReleaseHandler_Resume rq = with_id ''id'' rq (\<lambda>i.
     seq_eff (coded state_conflict (Resume i (user_trigger rq))) (ok JNull))"

definition ReleaseHandler_Cancel :: "http_request \<Rightarrow> reply handler" where
  "ReleaseHandler_Cancel rq = with_id ''id'' rq (\<lambda>i.
     seq_eff (coded state_conflict (Cancel i (loosely as_text [] ''reason'' (loose_body rq)) (user_trigger rq))) (ok JNull))"

definition ReleaseHandler_Rollback :: "http_request \<Rightarrow> reply handler" where
  "ReleaseHandler_Rollback rq = with_id ''id'' rq (\<lambda>i.
     seq_eff (coded [(ErrRollbackNotAllowed, 40900), (ErrNoPreviousRelease, 40004), (release_ErrReleaseNotFound, 40400)]
       (Rollback i (or_default (loosely as_text [] ''reason'' (loose_body rq)) ''operator rollback'') (user_trigger rq)))
     (accepted JNull))"

definition fileDiff :: "file_diff \<Rightarrow> jvalue" where
  "fileDiff f = JObject ([(''path'', JText (fd_path f)), (''change'', JText (fd_change f))] @
     (if fd_diff f = [] then [] else [(''diff'', JText (fd_diff f))]))"

definition dryRunResult :: "dry_run_result \<Rightarrow> jvalue" where
  "dryRunResult r = JObject ([(''release_id'', JText (dr_release_id r)), (''new_artifact_id'', JText (dr_new_artifact_id r))] @
     (case dr_old_artifact_id r of None \<Rightarrow> [] | Some a \<Rightarrow> [(''old_artifact_id'', JText a)]) @
     [(''summary'', JObject [(''added'', JInt (sm_added (dr_summary r))), (''removed'', JInt (sm_removed (dr_summary r))),
        (''modified'', JInt (sm_modified (dr_summary r))), (''unchanged'', JInt (sm_unchanged (dr_summary r)))]),
      (''files'', slice fileDiff (dr_files r))])"

definition ReleaseHandler_DryRun ::
    "map_order \<Rightarrow> diff_library \<Rightarrow> storage \<Rightarrow> http_request \<Rightarrow> reply handler" where
  "ReleaseHandler_DryRun ord lib get rq = with_id ''id'' rq (\<lambda>i.
     bnd (coded [(release_ErrReleaseNotFound, 40400)] (DryRun ord lib get i)) (\<lambda>r. ok (dryRunResult r)))"

definition historyResponse :: "history_row \<Rightarrow> jvalue" where
  "historyResponse h = JObject [(''id'', JInt (h_id h)), (''from_state'', nullable JText (h_from h)),
     (''to_state'', JText (h_to h)), (''reason'', nullable JText (h_reason h)),
     (''triggered_by'', JText (h_triggered_by h)), (''created_at'', JTime (h_created_at h))]"

definition ReleaseHandler_History :: "http_request \<Rightarrow> reply handler" where
  "ReleaseHandler_History rq = with_id ''id'' rq (\<lambda>i.
     bnd (coded [] (Release_GetHistory i)) (\<lambda>hs. ok (items historyResponse hs)))"

section \<open>Handlers that only read\<close>

lemma ro_Login [eff_intro]: "keeps read_only (Login lib expiry bcrypt name password)"
  using Login_outcome by (blast intro: keepsI)

lemma ro_DryRun [eff_intro]: "keeps read_only (DryRun ord lib get i)"
  unfolding DryRun_def findPreviousArtifact_def ReleaseStore_GetByID_def GetLastSucceeded_def ArtifactStore_GetByID_def
    parse_manifest_def Let_def
  by (intro eff_intro)

lemma releases_look [looks]:
  "keeps read_only (AuthHandler_Login lib expiry bcrypt rq)" "keeps read_only (AuthHandler_Me rq)"
  "keeps read_only (ProjectHandler_Get rq)" "keeps read_only (ProjectHandler_List rq)"
  "keeps read_only (TemplateHandler_Get rq)" "keeps read_only (TemplateHandler_List rq)"
  "keeps read_only (TemplateHandler_ListVersions rq)" "keeps read_only (TemplateHandler_GetVersion rq)"
  "keeps read_only (ArtifactHandler_Get rq)" "keeps read_only (ArtifactHandler_ListByProject rq)"
  "keeps read_only (ReleaseHandler_Get rq)" "keeps read_only (ReleaseHandler_ListByProject rq)"
  "keeps read_only (ReleaseHandler_DryRun ord df get rq)" "keeps read_only (ReleaseHandler_History rq)"
  unfolding AuthHandler_Login_def AuthHandler_Me_def ProjectHandler_Get_def ProjectHandler_List_def
    TemplateHandler_Get_def TemplateHandler_List_def TemplateHandler_ListVersions_def TemplateHandler_GetVersion_def
    ArtifactHandler_Get_def ArtifactHandler_ListByProject_def ReleaseHandler_Get_def ReleaseHandler_ListByProject_def
    ReleaseHandler_DryRun_def ReleaseHandler_History_def
    UserStore_GetByID_def GetUserRoles_def ProjectStore_GetByID_def Project_List_def ProjectStore_List_def
    ProjectStore_Count_def TemplateStore_GetByID_def Template_List_def TemplateStore_ListByProject_def
    CountByProject_def ListVersions_def GetVersion_def ArtifactStore_GetByID_def ArtifactStore_ListByProject_def
    ReleaseStore_GetByID_def Release_List_def ReleaseStore_ListByProject_def ReleaseStore_CountByProject_def
    Release_GetHistory_def ReleaseStore_GetHistory_def Let_def
  by (intro eff_intro)+

end
