(* ===== verification/Web_Domains.thy ===== *)
theory Web_Domains
  imports Requests
begin

text \<open>
  api/handler: domain.go, expiry.go, dnspermission.go, tag.go and import.go, with the listings and statistics of
  store/postgres/domain.go and domain\_permission.go that only they use.
\<close>

section \<open>Listings of domains\<close>

text \<open>\<open>ListFilter\<close> with the three filters that look into other tables.\<close>

record domain_filter =
  df_base :: list_filter
  df_registrar_id :: "int option"
  df_cdn_provider_id :: "int option"
  df_tag_id :: "int option"

definition related :: "assets \<Rightarrow> domain_filter \<Rightarrow> domain_row \<Rightarrow> bool" where
  "related a f d \<longleftrightarrow>
     (case df_registrar_id f of None \<Rightarrow> True | Some r \<Rightarrow> list_ex (\<lambda>acc. d_registrar_account_id d = Some (ra_id acc) \<and>
        ra_registrar_id acc = r \<and> ra_deleted_at acc = None) (rows (registrar_accounts a))) \<and>
     (case df_cdn_provider_id f of None \<Rightarrow> True | Some p \<Rightarrow> list_ex (\<lambda>acc. d_cdn_account_id d = Some (cn_id acc) \<and>
        cn_cdn_provider_id acc = p \<and> cn_deleted_at acc = None) (rows (cdn_accounts a))) \<and>
     (case df_tag_id f of None \<Rightarrow> True | Some g \<Rightarrow> (d_id d, g) \<in> set (domain_tags a))"

definition filter_in :: "assets \<Rightarrow> domain_filter \<Rightarrow> list_filter" where
  "filter_in a f = (df_base f)\<lparr>lf_related := related a f\<rparr>"

record domain_list_row =
  lr_domain :: domain_row
  lr_registrar_name :: "string option"
  lr_cdn_account_name :: "string option"
  lr_cdn_provider_type :: "string option"

text \<open>The \<open>LEFT JOIN\<close>s of \<open>enrichedDomainJoins\<close>, on primary keys.\<close>

definition enrich :: "assets \<Rightarrow> domain_row \<Rightarrow> domain_list_row" where
  "enrich a d =
     (let ra = Option.bind (d_registrar_account_id d) (\<lambda>i. tbl_find (live_account i) (registrar_accounts a));
          rg = Option.bind ra (\<lambda>x. tbl_find (live_registrar (ra_registrar_id x)) (registrars a));
          ca = Option.bind (d_cdn_account_id d) (\<lambda>i. tbl_find (live_cdn_account i) (cdn_accounts a));
          cp = Option.bind ca (\<lambda>x. tbl_find (live_cdn_provider (cn_cdn_provider_id x)) (cdn_providers a))
      in \<lparr>lr_domain = d, lr_registrar_name = map_option rg_name rg,
          lr_cdn_account_name = map_option cn_account_name ca,
          lr_cdn_provider_type = map_option cp_provider_type cp\<rparr>)"

definition ListEnriched :: "domain_filter \<Rightarrow> domain_list_row list op" where
  "ListEnriched f = query (\<lambda>w. map (enrich (assets w)) (take (nat (Expiry.clamp_limit (lf_limit (df_base f))))
     (sort_key d_id (tbl_select (filter_admits (filter_in (assets w) f)) (domains w)))))"

text \<open>The count ignores the cursor.\<close>

definition CountWithFilter :: "domain_filter \<Rightarrow> int op" where
  "CountWithFilter f = query (\<lambda>w. int (length (tbl_select
     (\<lambda>d. filter_admits ((filter_in (assets w) f)\<lparr>lf_cursor := d_id d - 1\<rparr>) d) (domains w))))"

definition Lifecycle_ListEnriched :: "domain_filter \<Rightarrow> (domain_list_row list \<times> int \<times> int) op" where
  "Lifecycle_ListEnriched f =
     bnd (ListEnriched f) (\<lambda>ds.
     bnd (CountWithFilter f) (\<lambda>n. ret (ds, n, next_cursor (\<lambda>r. d_id (lr_domain r)) ds)))"

definition expires_within :: "int \<Rightarrow> int \<Rightarrow> domain_row \<Rightarrow> bool" where
  "expires_within days t d \<longleftrightarrow> d_deleted_at d = None \<and> d_lifecycle_state d \<noteq> ''retired'' \<and>
     (case d_expiry_date d of None \<Rightarrow> False | Some e \<Rightarrow> e \<le> (t div 86400 + days) * 86400)"

definition ListExpiring :: "int \<Rightarrow> domain_row list op" where
  "ListExpiring days = query (\<lambda>w. sort_key (\<lambda>d. case d_expiry_date d of None \<Rightarrow> 0 | Some e \<Rightarrow> e)
     (tbl_select (expires_within days (now w)) (domains w)))"

section \<open>Statistics\<close>

record domain_stats =
  st_total :: int
  st_by_registrar :: "(string \<times> int) list"
  st_by_tld :: "(string \<times> int) list"
  st_by_lifecycle :: "(string \<times> int) list"
  st_expiring_30d :: int
  st_expiring_7d :: int

text \<open>\<open>GROUP BY\<close> a nullable column; groups of the same size, whose order is not fixed, stay in the order of their first row.\<close>

definition group_counts :: "string \<Rightarrow> string option list \<Rightarrow> (string \<times> int) list" where
  "group_counts other ks = take 50 (sort_key (\<lambda>g. - snd g)
     (map (\<lambda>k. (case k of None \<Rightarrow> other | Some s \<Rightarrow> s, int (count_list ks k))) (remdups ks)))"

definition registrar_name_of :: "assets \<Rightarrow> domain_row \<Rightarrow> string option" where
  "registrar_name_of a d = Option.bind (d_registrar_account_id d) (\<lambda>i.
     Option.bind (tbl_get ra_id (registrar_accounts a) i) (\<lambda>acc.
     map_option rg_name (tbl_get rg_id (registrars a) (ra_registrar_id acc))))"

definition in_scope :: "int option \<Rightarrow> domain_row \<Rightarrow> bool" where
  "in_scope p d \<longleftrightarrow> d_deleted_at d = None \<and> (p = None \<or> p = Some (d_project_id d))"

text \<open>
  With a project the last two statements name the parameter \<open>$2\<close>, as \<open>n\<close> was advanced when \<open>scope\<close> was built, but
  get the one argument of the scope: the database refuses them.
\<close>

definition GetStats :: "int option \<Rightarrow> domain_stats op" where
  "GetStats p =
     bnd (query (\<lambda>w. tbl_select (in_scope p) (domains w))) (\<lambda>all.
     bnd (query (\<lambda>w. group_counts ''unassigned'' (map (registrar_name_of (assets w)) (tbl_select (in_scope p) (domains w))))) (\<lambda>byRegistrar.
     bnd (query (\<lambda>w. group_counts ''unknown'' (map d_tld (tbl_select (in_scope p) (domains w))))) (\<lambda>byTLD.
     bnd (query (\<lambda>w. let states = map d_lifecycle_state (tbl_select (in_scope p) (domains w)) in
       map (\<lambda>s. (s, int (count_list states s))) (remdups (sort states)))) (\<lambda>byLifecycle.
     if p \<noteq> None then throw ErrDB
     else
       bnd (query (\<lambda>w. int (length (tbl_select (expires_within 30 (now w)) (domains w))))) (\<lambda>expiring30.
       bnd (query (\<lambda>w. int (length (tbl_select (expires_within 7 (now w)) (domains w))))) (\<lambda>expiring7.
       ret \<lparr>st_total = int (length all), st_by_registrar = byRegistrar, st_by_tld = byTLD,
         st_by_lifecycle = byLifecycle, st_expiring_30d = expiring30, st_expiring_7d = expiring7\<rparr>))))))"

section \<open>Domains\<close>

definition domain_fields :: "domain_row \<Rightarrow> (string \<times> jvalue) list" where
  "domain_fields d = [(''id'', JInt (d_id d)), (''project_id'', JInt (d_project_id d)), (''fqdn'', JText (d_fqdn d)),
     (''tld'', nullable JText (d_tld d)), (''lifecycle_state'', JText (d_lifecycle_state d)),
     (''owner_user_id'', nullable JInt (d_owner_user_id d)),
     (''registrar_account_id'', nullable JInt (d_registrar_account_id d)),
     (''dns_provider_id'', nullable JInt (d_dns_provider_id d)),
     (''cdn_account_id'', nullable JInt (d_cdn_account_id d)), (''origin_ips'', items JText (d_origin_ips d)),
     (''registration_date'', nullable JTime (d_registration_date d)),
     (''expiry_date'', nullable JTime (d_expiry_date d)), (''auto_renew'', JTruth (d_auto_renew d)),
     (''grace_end_date'', nullable JTime (d_grace_end_date d)),
     (''expiry_status'', nullable JText (d_expiry_status d)), (''transfer_lock'', JTruth (d_transfer_lock d)),
     (''hold'', JTruth (d_hold d)), (''transfer_status'', nullable JText (d_transfer_status d)),
     (''transfer_gaining_registrar'', nullable JText (d_transfer_gaining_registrar d)),
     (''transfer_requested_at'', nullable JTime (d_transfer_requested_at d)),
     (''transfer_completed_at'', nullable JTime (d_transfer_completed_at d)),
     (''last_transfer_at'', nullable JTime (d_last_transfer_at d)),
     (''last_renewed_at'', nullable JTime (d_last_renewed_at d)), (''nameservers'', JRaw (d_nameservers d)),
     (''dnssec_enabled'', JTruth (d_dnssec_enabled d)), (''whois_privacy'', JTruth (d_whois_privacy d)),
     (''registrant_contact'', JRaw (d_registrant_contact d)), (''admin_contact'', JRaw (d_admin_contact d)),
     (''tech_contact'', JRaw (d_tech_contact d)), (''annual_cost'', nullable JReal (d_annual_cost d)),
     (''currency'', nullable JText (d_currency d)), (''purchase_price'', nullable JReal (d_purchase_price d)),
     (''fee_fixed'', JTruth (d_fee_fixed d)), (''purpose'', nullable JText (d_purpose d)),
     (''notes'', nullable JText (d_notes d)), (''metadata'', JRaw (d_metadata d)),
     (''last_sync_at'', nullable JTime (d_last_sync_at d)), (''last_drift_at'', nullable JTime (d_last_drift_at d)),
     (''created_at'', JTime (d_created_at d)), (''updated_at'', JTime (d_updated_at d))]"

definition domainResponse :: "domain_row \<Rightarrow> jvalue" where
  "domainResponse d = JObject (domain_fields d)"

definition domainListItemResponse :: "domain_list_row \<Rightarrow> jvalue" where
  "domainListItemResponse r = JObject (domain_fields (lr_domain r) @
     [(''registrar_name'', nullable JText (lr_registrar_name r)),
      (''cdn_account_name'', nullable JText (lr_cdn_account_name r)),
      (''cdn_provider_type'', nullable JText (lr_cdn_provider_type r))])"

text \<open>A date that does not parse is dropped.\<close>

definition date_field :: "string \<Rightarrow> int option decoder" where
  "date_field name b = map_option (\<lambda>s. Option.bind s parse_date) (pointer as_text name b)"

definition RegisterDomainRequest :: "register_input decoder" where
  "RegisterDomainRequest b = do {
     project \<leftarrow> required_int ''project_id'' b;
     fqdn \<leftarrow> required_text ''fqdn'' b;
     provider \<leftarrow> pointer as_int ''dns_provider_id'' b;
     account \<leftarrow> pointer as_int ''registrar_account_id'' b;
     cdn \<leftarrow> pointer as_int ''cdn_account_id'' b;
     ips \<leftarrow> slice_field as_text [] ''origin_ips'' b;
     registered \<leftarrow> date_field ''registration_date'' b;
     expires \<leftarrow> date_field ''expiry_date'' b;
     renew \<leftarrow> truth_field ''auto_renew'' b;
     cost \<leftarrow> pointer as_number ''annual_cost'' b;
     currency \<leftarrow> pointer as_text ''currency'' b;
     purpose \<leftarrow> pointer as_text ''purpose'' b;
     notes \<leftarrow> pointer as_text ''notes'' b;
     Some \<lparr>ri_project_id = project, ri_fqdn = fqdn, ri_owner_user_id = None, ri_dns_provider_id = provider,
       ri_registrar_account_id = account, ri_cdn_account_id = cdn, ri_origin_ips = ips,
       ri_registration_date = registered, ri_expiry_date = expires, ri_auto_renew = renew, ri_annual_cost = cost,
       ri_currency = currency, ri_purpose = purpose, ri_notes = notes, ri_triggered_by = []\<rparr> }"

definition DomainHandler_Register :: "http_request \<Rightarrow> reply handler" where
  "DomainHandler_Register rq = with_body RegisterDomainRequest rq (\<lambda>inp.
     bnd (coded [(ErrDuplicateFQDN, 40900)] (Register (inp\<lparr>ri_owner_user_id := Some (GetUserID rq),
       ri_triggered_by := ''user:'' @ show_int (GetUserID rq)\<rparr>))) (\<lambda>d.
     created (domainResponse d)))"

definition UpdateDomainAssetRequest :: "update_asset_input decoder" where
  "UpdateDomainAssetRequest b = do {
     account \<leftarrow> pointer as_int ''registrar_account_id'' b;
     provider \<leftarrow> pointer as_int ''dns_provider_id'' b;
     cdn \<leftarrow> pointer as_int ''cdn_account_id'' b;
     ips \<leftarrow> slice_field as_text [] ''origin_ips'' b;
     registered \<leftarrow> date_field ''registration_date'' b;
     expires \<leftarrow> date_field ''expiry_date'' b;
     renew \<leftarrow> truth_field ''auto_renew'' b;
     locked \<leftarrow> truth_field ''transfer_lock'' b;
     hold \<leftarrow> truth_field ''hold'' b;
     dnssec \<leftarrow> truth_field ''dnssec_enabled'' b;
     privacy \<leftarrow> truth_field ''whois_privacy'' b;
     cost \<leftarrow> pointer as_number ''annual_cost'' b;
     currency \<leftarrow> pointer as_text ''currency'' b;
     price \<leftarrow> pointer as_number ''purchase_price'' b;
     fixed \<leftarrow> truth_field ''fee_fixed'' b;
     purpose \<leftarrow> pointer as_text ''purpose'' b;
     notes \<leftarrow> pointer as_text ''notes'' b;
     Some \<lparr>ui_id = 0, ui_registrar_account_id = account, ui_dns_provider_id = provider, ui_cdn_account_id = cdn,
       ui_origin_ips = ips, ui_registration_date = registered, ui_expiry_date = expires, ui_auto_renew = renew,
       ui_grace_end_date = None, ui_transfer_lock = locked, ui_hold = hold, ui_dnssec_enabled = dnssec,
       ui_whois_privacy = privacy, ui_annual_cost = cost, ui_currency = currency, ui_purchase_price = price,
       ui_fee_fixed = fixed, ui_purpose = purpose, ui_notes = notes\<rparr> }"

definition DomainHandler_UpdateAsset :: "http_request \<Rightarrow> reply handler" where
  "DomainHandler_UpdateAsset rq = with_id ''id'' rq (\<lambda>i. with_body UpdateDomainAssetRequest rq (\<lambda>inp.
     bnd (coded [(ErrDomainNotFound, 40400)] (UpdateAsset (inp\<lparr>ui_id := i\<rparr>))) (\<lambda>d. ok (domainResponse d))))"

definition TransitionRequest :: "(string \<times> string) decoder" where
  "TransitionRequest b = do {
     to \<leftarrow> required_text ''to'' b;
     reason \<leftarrow> text_field ''reason'' b;
     Some (to, reason) }"

text \<open>The state is read before the transition, and the domain again after it; that error is dropped.\<close>

definition DomainHandler_Transition :: "http_request \<Rightarrow> reply handler" where
  "DomainHandler_Transition rq = with_id ''id'' rq (\<lambda>i. with_body TransitionRequest rq (\<lambda>(to, reason).
     bnd (coded [(ErrDomainNotFound, 40400)] (DomainStore_GetByID i)) (\<lambda>d.
     seq_eff (coded [(ErrInvalidLifecycleState, 40900), (ErrLifecycleRaceCondition, 40901)]
       (Transition i (d_lifecycle_state d) to reason (''user:'' @ show_int (GetUserID rq))))
     (bnd (coded [] (attempt (DomainStore_GetByID i))) (\<lambda>r. case r of
       Inl e \<Rightarrow> panic
     | Inr updated \<Rightarrow> ok (domainResponse updated))))))"

definition DomainHandler_Get :: "http_request \<Rightarrow> reply handler" where
  "DomainHandler_Get rq = with_id ''id'' rq (\<lambda>i.
     bnd (coded [(ErrDomainNotFound, 40400)] (DomainStore_GetByID i)) (\<lambda>d. ok (domainResponse d)))"

definition list_input :: "http_request \<Rightarrow> domain_filter" where
  "list_input rq = \<lparr>df_base = \<lparr>lf_project_id = query_id rq ''project_id'',
       lf_dns_provider_id = query_id rq ''dns_provider_id'', lf_cdn_account_id = query_id rq ''cdn_account_id'',
       lf_tld = query_text rq ''tld'', lf_expiry_status = query_text rq ''expiry_status'',
       lf_lifecycle_state = query_text rq ''lifecycle_state'', lf_purpose = query_text rq ''purpose'',
       lf_related = (\<lambda>d. True), lf_cursor = query_int rq ''cursor'' ''0'', lf_limit = query_int rq ''limit'' ''20''\<rparr>,
     df_registrar_id = query_id rq ''registrar_id'', df_cdn_provider_id = query_id rq ''cdn_provider_id'',
     df_tag_id = query_id rq ''tag_id''\<rparr>"

definition DomainHandler_List :: "http_request \<Rightarrow> reply handler" where
  "DomainHandler_List rq =
     bnd (coded [] (Lifecycle_ListEnriched (list_input rq))) (\<lambda>r. ok (page_of domainListItemResponse r))"

definition DomainHandler_Expiring :: "http_request \<Rightarrow> reply handler" where
  "DomainHandler_Expiring rq =
     (let n = query_int rq ''days'' ''30''; days = (if n \<le> 0 then 30 else n) in
      bnd (coded [] (ListExpiring days)) (\<lambda>ds.
      ok (JObject [(''items'', items domainResponse ds), (''total'', JInt (int (length ds))), (''days'', JInt days)])))"

definition counts :: "string \<Rightarrow> (string \<times> int) list \<Rightarrow> jvalue" where
  "counts key gs = slice (\<lambda>(k, n). JObject [(key, JText k), (''Count'', JInt n)]) gs"

definition DomainHandler_Stats :: "http_request \<Rightarrow> reply handler" where
  "DomainHandler_Stats rq =
     bnd (coded [] (GetStats (query_id rq ''project_id''))) (\<lambda>s.
     ok (JObject [(''total'', JInt (st_total s)), (''by_registrar'', counts ''RegistrarName'' (st_by_registrar s)),
       (''by_tld'', counts ''TLD'' (st_by_tld s)), (''by_lifecycle'', counts ''State'' (st_by_lifecycle s)),
       (''expiring_30d'', JInt (st_expiring_30d s)), (''expiring_7d'', JInt (st_expiring_7d s))]))"

definition lifecycleRow :: "history_row \<Rightarrow> jvalue" where
  "lifecycleRow h = JObject [(''ID'', JInt (h_id h)), (''DomainID'', JInt (h_owner h)),
     (''FromState'', nullable JText (h_from h)), (''ToState'', JText (h_to h)), (''Reason'', nullable JText (h_reason h)),
     (''TriggeredBy'', JText (h_triggered_by h)), (''CreatedAt'', JTime (h_created_at h))]"

definition DomainHandler_History :: "http_request \<Rightarrow> reply handler" where
  "DomainHandler_History rq = with_id ''id'' rq (\<lambda>i.
     bnd (coded [] (Lifecycle_GetHistory i)) (\<lambda>hs. ok (slice lifecycleRow hs)))"

text \<open>The notes of an \<open>InitiateTransferRequest\<close> reach the service, which ignores them.\<close>

definition DomainHandler_InitiateTransfer :: "http_request \<Rightarrow> reply handler" where
  "DomainHandler_InitiateTransfer rq = with_id ''id'' rq (\<lambda>i.
     bnd (coded [(ErrDomainNotFound, 40400), (ErrTransferAlreadyPending, 40902)]
       (InitiateTransfer i (loose_pointer as_text ''gaining_registrar'' (loose_body rq)))) (\<lambda>d.
     ok (domainResponse d)))"

definition DomainHandler_CompleteTransfer :: "http_request \<Rightarrow> reply handler" where
  "DomainHandler_CompleteTransfer rq = with_id ''id'' rq (\<lambda>i.
     bnd (coded [(ErrDomainNotFound, 40400), (ErrNoActiveTransfer, 40903)] (CompleteTransfer i)) (\<lambda>d.
     ok (domainResponse d)))"

definition DomainHandler_CancelTransfer :: "http_request \<Rightarrow> reply handler" where
  "DomainHandler_CancelTransfer rq = with_id ''id'' rq (\<lambda>i.
     bnd (coded [(ErrDomainNotFound, 40400), (ErrNoActiveTransfer, 40903)] (CancelTransfer i)) (\<lambda>d.
     ok (domainResponse d)))"

section \<open>Expiry and permissions\<close>

text \<open>Dates as \<open>Format("2006-01-02")\<close> writes them, from a day counted from the epoch.\<close>

definition pad :: "nat \<Rightarrow> string \<Rightarrow> string" where
  "pad n s = replicate (n - length s) (CHR ''0'') @ s"

definition date_text :: "int \<Rightarrow> string" where
  "date_text day = (case civil day of (y, m, d) \<Rightarrow>
     pad 4 (show_int y) @ ''-'' @ pad 2 (show_int m) @ ''-'' @ pad 2 (show_int d))"

definition ExpiryHandler_Dashboard :: "http_request \<Rightarrow> reply handler" where
  "ExpiryHandler_Dashboard rq =
     bnd (coded_or 50001 [] GetDashboardData) (\<lambda>db.
     ok (JObject [
       (''domain_bands'', items (\<lambda>(s, n). JObject [(''status'', JText s), (''count'', JInt n)]) (db_bands db)),
       (''total_expiring'', JInt (db_total db)),
       (''calendar'', items (\<lambda>(day, n). JObject [(''date'', JText (date_text day)), (''count'', JInt n)]) (db_calendar db))]))"

text \<open>\<open>DomainPermissionStore.List\<close>: the grants of a domain with the name of the user, the latest first.\<close>

definition Permission_List :: "int \<Rightarrow> (permission_row \<times> user_row) list op" where
  "Permission_List i = query (\<lambda>w. List.map_filter (\<lambda>p. map_option (\<lambda>u. (p, u)) (tbl_get us_id (users (assets w)) (dp_user_id p)))
     (rev (sort_key dp_granted_at (tbl_select (\<lambda>p. dp_domain_id p = i) (domain_permissions w)))))"

definition present :: "string \<Rightarrow> ('a \<Rightarrow> jvalue) \<Rightarrow> 'a option \<Rightarrow> (string \<times> jvalue) list" where
  "present key f x = (case x of None \<Rightarrow> [] | Some a \<Rightarrow> [(key, f a)])"

definition toPermissionResponse :: "permission_row \<times> user_row \<Rightarrow> jvalue" where
  "toPermissionResponse pu = (case pu of (p, u) \<Rightarrow> JObject (
     [(''id'', JInt (dp_row_id p)), (''domain_id'', JInt (dp_domain_id p)), (''user_id'', JInt (dp_user_id p)),
      (''username'', JText (us_username u))] @ present ''display_name'' JText (us_display_name u) @
     [(''permission'', JText (dp_permission p))] @ present ''granted_by'' JInt (dp_granted_by p) @
     [(''granted_at'', JTime (dp_granted_at p))]))"

definition DomainPermissionHandler_List :: "http_request \<Rightarrow> reply handler" where
  "DomainPermissionHandler_List rq = with_id ''id'' rq (\<lambda>i.
     bnd (coded [] (Permission_List i)) (\<lambda>ps. ok (listing toPermissionResponse ps)))"

definition GrantPermissionRequest :: "(int \<times> string) decoder" where
  "GrantPermissionRequest b = do {
     user \<leftarrow> required_int ''user_id'' b;
     level \<leftarrow> required_text ''permission'' b;
     Some (user, level) }"

text \<open>Every error of the service, the database's included, is answered as a bad request.\<close>

definition DomainPermissionHandler_Grant :: "http_request \<Rightarrow> reply handler" where
  "DomainPermissionHandler_Grant rq = with_id ''id'' rq (\<lambda>i. with_body GrantPermissionRequest rq (\<lambda>(user, level).
     seq_eff (coded_or 40000 [] (GrantPermission i user level (GetUserID rq))) (ok JNull)))"

definition DomainPermissionHandler_Revoke :: "http_request \<Rightarrow> reply handler" where
  "DomainPermissionHandler_Revoke rq = with_id ''id'' rq (\<lambda>i. with_id ''user_id'' rq (\<lambda>user.
     seq_eff (coded [(ErrDomainPermissionNotFound, 40400)] (RevokePermission i user)) (ok JNull)))"

definition DomainPermissionHandler_MyPermission :: "http_request \<Rightarrow> reply handler" where
  "DomainPermissionHandler_MyPermission rq = with_id ''id'' rq (\<lambda>i.
     bnd (coded [] (EffectivePermission i (GetUserID rq))) (\<lambda>level. ok (JObject [(''permission'', JText level)])))"

section \<open>Tags\<close>

definition tagResponse :: "tag_row \<Rightarrow> jvalue" where
  "tagResponse t = JObject [(''id'', JInt (tg_id t)), (''name'', JText (tg_name t)), (''color'', nullable JText (tg_color t))]"

definition tagWithCountResponse :: "tag_row \<times> int \<Rightarrow> jvalue" where
  "tagWithCountResponse tn = (case tn of (t, n) \<Rightarrow> JObject [(''id'', JInt (tg_id t)), (''name'', JText (tg_name t)),
     (''color'', nullable JText (tg_color t)), (''domain_count'', JInt n)])"

definition CreateTagRequest :: "(string \<times> string option) decoder" where
  "CreateTagRequest b = do {
     name \<leftarrow> required_text ''name'' b;
     color \<leftarrow> pointer as_text ''color'' b;
     Some (name, color) }"

abbreviation tag_codes :: "(go_err \<times> int) list" where
  "tag_codes \<equiv> [(ErrEmptyName, 40002), (ErrInvalidColor, 40002), (ErrDuplicateName, 40901)]"

definition TagHandler_Create :: "http_request \<Rightarrow> reply handler" where
  "TagHandler_Create rq = with_body_or 40001 CreateTagRequest rq (\<lambda>(name, color).
     bnd (coded_or 50001 tag_codes (Tag_Create name color)) (\<lambda>t. created (tagResponse t)))"

definition TagHandler_List :: "http_request \<Rightarrow> reply handler" where
  "TagHandler_List rq = bnd (coded_or 50001 [] ListWithCounts) (\<lambda>ts. ok (listing tagWithCountResponse ts))"

definition TagHandler_Update :: "http_request \<Rightarrow> reply handler" where
  "TagHandler_Update rq = with_id_or 40001 ''id'' rq (\<lambda>i. with_body_or 40002 CreateTagRequest rq (\<lambda>(name, color).
     bnd (coded_or 50001 ((ErrTagNotFound, 40401) # tag_codes) (Tag_Update i name color)) (\<lambda>t. ok (tagResponse t))))"

definition TagHandler_Delete :: "http_request \<Rightarrow> reply handler" where
  "TagHandler_Delete rq = with_id_or 40001 ''id'' rq (\<lambda>i.
     seq_eff (coded_or 50001 [(ErrTagNotFound, 40401)] (Tag_Delete i)) (ok JNull))"

definition TagHandler_GetDomainTags :: "http_request \<Rightarrow> reply handler" where
  "TagHandler_GetDomainTags rq = with_id_or 40001 ''id'' rq (\<lambda>i.
     bnd (coded_or 50001 [] (GetDomainTags i)) (\<lambda>ts. ok (items tagResponse ts)))"

definition SetDomainTagsRequest :: "int list decoder" where
  "SetDomainTagsRequest = slice_field as_int 0 ''tag_ids''"

definition TagHandler_SetDomainTags :: "http_request \<Rightarrow> reply handler" where
  "TagHandler_SetDomainTags rq = with_id_or 40001 ''id'' rq (\<lambda>i. with_body_or 40002 SetDomainTagsRequest rq (\<lambda>ids.
     seq_eff (coded_or 50001 [] (SetDomainTags i ids)) (ok JNull)))"

record bulk_request =
  bk_domain_ids :: "int list"
  bk_action :: string
  bk_tag_ids :: "int list"
  bk_registrar_account_id :: "int option"
  bk_dns_provider_id :: "int option"
  bk_auto_renew :: "bool option"

definition BulkActionRequest :: "bulk_request decoder" where
  "BulkActionRequest b = do {
     ids \<leftarrow> pointer (as_list as_int 0) ''domain_ids'' b;
     require (ids \<noteq> None);
     action \<leftarrow> required_text ''action'' b;
     tag_ids \<leftarrow> slice_field as_int 0 ''tag_ids'' b;
     account \<leftarrow> pointer as_int ''registrar_account_id'' b;
     provider \<leftarrow> pointer as_int ''dns_provider_id'' b;
     renew \<leftarrow> pointer as_truth ''auto_renew'' b;
     Some \<lparr>bk_domain_ids = or_nil ids, bk_action = action, bk_tag_ids = tag_ids, bk_registrar_account_id = account,
       bk_dns_provider_id = provider, bk_auto_renew = renew\<rparr> }"

definition affected :: "int \<Rightarrow> reply handler" where
  "affected n = ok (JObject [(''affected'', JInt n)])"

definition TagHandler_BulkAction :: "http_request \<Rightarrow> reply handler" where
  "TagHandler_BulkAction rq = with_body_or 40001 BulkActionRequest rq (\<lambda>b.
     if bk_domain_ids b = [] then throw 40002
     else if length (bk_domain_ids b) > 500 then throw 40003
     else if bk_action b = ''update'' then
       bnd (coded_or 50001 [] (Tag_BulkUpdateFields (bk_domain_ids b) (bk_registrar_account_id b)
         (bk_dns_provider_id b) (bk_auto_renew b))) affected
     else if bk_action b = ''add_tags'' then
       (if bk_tag_ids b = [] then throw 40004
        else seq_eff (coded_or 50001 [] (BulkAddTags (bk_domain_ids b) (bk_tag_ids b)))
               (affected (int (length (bk_domain_ids b)))))
     else if bk_action b = ''remove_tags'' then
       (if bk_tag_ids b = [] then throw 40004
        else seq_eff (coded_or 50001 [] (BulkRemoveTags (bk_domain_ids b) (bk_tag_ids b)))
               (affected (int (length (bk_domain_ids b)))))
     else throw 40005)"

section \<open>The export\<close>

text \<open>\<open>encoding/csv\<close>: when the writer quotes a field, and a record. Its test for white space is that of ASCII here.\<close>

definition needs_quotes :: "string \<Rightarrow> bool" where
  "needs_quotes s \<longleftrightarrow> s \<noteq> [] \<and> (s = [char_of (92 :: nat), CHR ''.''] \<or> hd s = CHR '' '' \<or>
     hd s \<in> char_of ` {9 .. 13 :: nat} \<or>
     list_ex (\<lambda>c. c = CHR '','' \<or> c = quote_char \<or> c = char_of (10 :: nat) \<or> c = char_of (13 :: nat)) s)"

definition csv_field :: "string \<Rightarrow> string" where
  "csv_field s = (if needs_quotes s
     then [quote_char] @ concat (map (\<lambda>c. if c = quote_char then [quote_char, quote_char] else [c]) s) @ [quote_char]
     else s)"

fun joined :: "string \<Rightarrow> string list \<Rightarrow> string" where
  "joined sep [] = []"
| "joined sep [x] = x"
| "joined sep (x # y # xs) = x @ sep @ joined sep (y # xs)"

definition csv_record :: "string list \<Rightarrow> string" where
  "csv_record fs = joined '','' (map csv_field fs) @ newline"

text \<open>\<open>fmt.Sprintf("%.2f", x)\<close>.\<close>

definition fixed2 :: "rat \<Rightarrow> string" where
  "fixed2 x = (let n = round (100 * x); a = \<bar>n\<bar> in
     (if n < 0 then ''-'' else []) @ show_int (a div 100) @ ''.'' @ pad 2 (show_int (a mod 100)))"

abbreviation joinCSVTags :: "string list \<Rightarrow> string" where
  "joinCSVTags \<equiv> joined '';''"

abbreviation or_blank :: "string option \<Rightarrow> string" where
  "or_blank x \<equiv> (case x of None \<Rightarrow> [] | Some s \<Rightarrow> s)"

definition export_header :: "string list" where
  "export_header = [''id'', ''fqdn'', ''tld'', ''lifecycle_state'', ''project_id'', ''purpose'', ''registrar_name'',
     ''cdn_provider_type'', ''cdn_account_name'', ''origin_ips'', ''expiry_date'', ''auto_renew'', ''annual_cost'',
     ''currency'', ''tags'']"

definition export_fields :: "domain_list_row \<Rightarrow> tag_row list \<Rightarrow> string list" where
  "export_fields r ts = (let d = lr_domain r in
     [show_int (d_id d), d_fqdn d, or_blank (d_tld d), d_lifecycle_state d, show_int (d_project_id d),
      or_blank (d_purpose d), or_blank (lr_registrar_name r), or_blank (lr_cdn_provider_type r),
      or_blank (lr_cdn_account_name r), joinCSVTags (d_origin_ips d),
      or_blank (map_option (\<lambda>e. date_text (e div 86400)) (d_expiry_date d)),
      if d_auto_renew d then ''true'' else ''false'', or_blank (map_option fixed2 (d_annual_cost d)),
      or_blank (d_currency d), joinCSVTags (map tg_name ts)])"

definition export_filter :: "http_request \<Rightarrow> domain_filter" where
  "export_filter rq = \<lparr>df_base = (no_filter 10000)\<lparr>lf_project_id := query_id rq ''project_id'',
       lf_lifecycle_state := query_text rq ''lifecycle_state'', lf_purpose := query_text rq ''purpose''\<rparr>,
     df_registrar_id = None, df_cdn_provider_id = query_id rq ''cdn_provider_id'', df_tag_id = query_id rq ''tag_id''\<rparr>"

text \<open>
  \<open>ExportDomainsEnriched\<close> asks for 10000 rows; the store returns at most 200. A failing look-up of tags leaves them
  out. The answer is text.
\<close>

definition TagHandler_Export :: "http_request \<Rightarrow> reply handler" where
  "TagHandler_Export rq =
     bnd (coded_or 50001 [] (ListEnriched (export_filter rq))) (\<lambda>ds.
     bnd (coded [] (collect ds (\<lambda>r. bnd (attempt (GetDomainTags (d_id (lr_domain r)))) (\<lambda>ts.
       ret [csv_record (export_fields r (case ts of Inl e \<Rightarrow> [] | Inr ts \<Rightarrow> ts))])))) (\<lambda>lines.
     ok (JRaw (concat (csv_record export_header # lines)))))"

section \<open>Imports\<close>

text \<open>The text of the error details is left out.\<close>

definition importJobResponse :: "import_job_row \<Rightarrow> jvalue" where
  "importJobResponse j = JObject (
     [(''id'', JInt (ij_id j)), (''project_id'', JInt (ij_project_id j))] @
     present ''registrar_account_id'' JInt (ij_registrar_account_id j) @
     [(''source_type'', JText (ij_source_type j)), (''status'', JText (ij_status j)),
      (''total_count'', JInt (ij_total_count j)), (''imported_count'', JInt (ij_imported_count j)),
      (''skipped_count'', JInt (ij_skipped_count j)), (''failed_count'', JInt (ij_failed_count j))] @
     present ''created_by'' JInt (ij_created_by j) @ present ''started_at'' JTime (ij_started_at j) @
     present ''completed_at'' JTime (ij_completed_at j) @ [(''created_at'', JTime (ij_created_at j))])"

definition max_upload :: int where
  "max_upload = 10 * 2 ^ 20"

definition with_csv :: "http_request \<Rightarrow> (string \<Rightarrow> 'a handler) \<Rightarrow> 'a handler" where
  "with_csv rq k = (case rq_file rq ''csv_file'' of
       None \<Rightarrow> throw 40004
     | Some (Inl e) \<Rightarrow> throw 50001
     | Some (Inr raw) \<Rightarrow> if int (length raw) > max_upload then throw 41301 else k raw)"

definition positive_form :: "http_request \<Rightarrow> string \<Rightarrow> int option" where
  "positive_form rq name = (case ParseInt (rq_form rq name) of
       None \<Rightarrow> None | Some i \<Rightarrow> if i \<le> 0 then None else Some i)"

text \<open>
  The caller is looked for under \<open>userID\<close>, while JWTAuth stores it under \<open>user\_id\<close>. The answer repeats the job as
  it was inserted.
\<close>

definition upload_job ::
    "int \<Rightarrow> int option \<Rightarrow> string \<Rightarrow> int option \<Rightarrow> import_job_row handler" where
  "upload_job project account raw by =
     bnd (coded_or 50002 [(ErrEmptyCSV, 40005), (ErrTooManyRows, 40006), (ErrInvalidHeader, 40007)]
       (CreateJob \<lparr>cj_project_id = project, cj_registrar_account_id = account, cj_raw_csv = raw, cj_created_by = by\<rparr>)) (\<lambda>i.
     bnd (gets now) (\<lambda>t.
     ret \<lparr>ij_id = i, ij_project_id = project, ij_registrar_account_id = account, ij_source_type = ''csv_upload'',
       ij_status = ''pending'', ij_total_count = (case ParseCSV raw of Inl e \<Rightarrow> 0
         | Inr res \<Rightarrow> int (length (ps_rows res) + length (ps_errors res))),
       ij_imported_count = 0, ij_skipped_count = 0, ij_failed_count = 0, ij_error_details = None,
       ij_raw_csv = Some raw, ij_created_by = by, ij_started_at = None, ij_completed_at = None, ij_created_at = t\<rparr>))"

definition ImportHandler_Upload :: "http_request \<Rightarrow> reply handler" where
  "ImportHandler_Upload rq =
     (if rq_form rq ''project_id'' = [] then throw 40001
      else case positive_form rq ''project_id'' of
        None \<Rightarrow> throw 40002
      | Some project \<Rightarrow>
          (if rq_form rq ''registrar_account_id'' \<noteq> [] \<and> positive_form rq ''registrar_account_id'' = None
           then throw 40003
           else with_csv rq (\<lambda>raw.
             bnd (upload_job project (positive_form rq ''registrar_account_id'') raw (rq_context rq ''userID'')) (\<lambda>j.
             accepted (importJobResponse j)))))"

definition parsedRow :: "parsed_row \<Rightarrow> jvalue" where
  "parsedRow r = JObject [(''FQDN'', JText (pw_fqdn r)), (''ExpiryDate'', nullable JTime (pw_expiry_date r)),
     (''AutoRenew'', JTruth (pw_auto_renew r)), (''RegistrarAccountID'', nullable JInt (pw_registrar_account_id r)),
     (''DNSProviderID'', nullable JInt (pw_dns_provider_id r)), (''Tags'', slice JText (pw_tags r)),
     (''Notes'', JText (pw_notes r))]"

definition rowError :: "row_error \<Rightarrow> jvalue" where
  "rowError e = JObject ([(''line'', JInt (re_line e))] @
     (if re_fqdn e = [] then [] else [(''fqdn'', JText (re_fqdn e))]) @ [(''reason'', JText (re_reason e))])"

definition ImportHandler_Preview :: "http_request \<Rightarrow> reply handler" where
  "ImportHandler_Preview rq = with_csv rq (\<lambda>raw. case ParseCSV raw of
       Inl e \<Rightarrow> throw 40008
     | Inr res \<Rightarrow> ok (JObject [(''valid_count'', JInt (int (length (ps_rows res)))),
         (''error_count'', JInt (int (length (ps_errors res)))), (''rows'', slice parsedRow (ps_rows res)),
         (''errors'', slice rowError (ps_errors res))]))"

definition ImportHandler_GetJob :: "http_request \<Rightarrow> reply handler" where
  "ImportHandler_GetJob rq = with_id_or 40001 ''jobid'' rq (\<lambda>i.
     bnd (coded_or 40401 [] (ImportJobStore_Get i)) (\<lambda>j. ok (importJobResponse j)))"

text \<open>PostgreSQL refuses a negative \<open>OFFSET\<close>.\<close>

definition ImportHandler_ListJobs :: "http_request \<Rightarrow> reply handler" where
  "ImportHandler_ListJobs rq =
     (if Query rq ''project_id'' \<noteq> [] \<and> query_id rq ''project_id'' = None then throw 40001
      else
        let n = query_int rq ''limit'' ''50''; limit = (if n \<le> 0 \<or> n > 200 then 50 else n);
            offset = query_int rq ''offset'' ''0'';
            project = (case query_id rq ''project_id'' of None \<Rightarrow> 0 | Some p \<Rightarrow> p)
        in if offset < 0 then throw 50001
           else bnd (coded_or 50001 [] (ImportJobStore_List project limit (nat offset))) (\<lambda>js.
                ok (listing importJobResponse js)))"

section \<open>Handlers that only read\<close>

lemma domains_look [looks]:
  "keeps read_only (DomainHandler_Get rq)" "keeps read_only (DomainHandler_List rq)"
  "keeps read_only (DomainHandler_Expiring rq)" "keeps read_only (DomainHandler_Stats rq)"
  "keeps read_only (DomainHandler_History rq)" "keeps read_only (ExpiryHandler_Dashboard rq)"
  "keeps read_only (DomainPermissionHandler_List rq)" "keeps read_only (DomainPermissionHandler_MyPermission rq)"
  "keeps read_only (TagHandler_List rq)" "keeps read_only (TagHandler_GetDomainTags rq)"
  "keeps read_only (TagHandler_Export rq)" "keeps read_only (ImportHandler_GetJob rq)"
  "keeps read_only (ImportHandler_ListJobs rq)"
  unfolding DomainHandler_Get_def DomainHandler_List_def DomainHandler_Expiring_def DomainHandler_Stats_def
    DomainHandler_History_def ExpiryHandler_Dashboard_def DomainPermissionHandler_List_def
    DomainPermissionHandler_MyPermission_def TagHandler_List_def TagHandler_GetDomainTags_def TagHandler_Export_def
    ImportHandler_GetJob_def ImportHandler_ListJobs_def
    DomainStore_GetByID_def Lifecycle_ListEnriched_def ListEnriched_def CountWithFilter_def ListExpiring_def GetStats_def
    Lifecycle_GetHistory_def LifecycleStore_GetHistory_def GetDashboardData_def ListWithFilter_def Permission_List_def
    EffectivePermission_def GetUserRoles_def Permission_Get_def ListWithCounts_def GetDomainTags_def
    ImportJobStore_Get_def ImportJobStore_List_def Let_def
  by (intro eff_intro)+

section \<open>What goes wrong\<close>

text \<open>
  The statistics of one project are never returned: whatever the tables hold, a request with a project id
  ends with an internal error, because the last two statements name a parameter that is not supplied.
\<close>

theorem stats_of_a_project_fail:
  assumes "query_id rq ''project_id'' = Some p"
  shows "result (DomainHandler_Stats rq) w = Inl 50000 \<and> read_only w (final (DomainHandler_Stats rq) w)"
proof -
  have "\<exists>e. result (GetStats (Some p)) w = Inl e"
    by (auto simp: GetStats_def Let_def result_bnd split: sum.split)
  then have "result (DomainHandler_Stats rq) w = Inl 50000"
    by (auto simp: DomainHandler_Stats_def assms eff_run result_coded code_in_def)
  moreover have "read_only w (final (DomainHandler_Stats rq) w)"
    using looks by (blast intro: keepsD)
  ultimately show ?thesis by blast
qed

end
