(* ===== verification/Web_Assets.thy ===== *)
theory Web_Assets
  imports Web_Domains
begin

text \<open>
  api/handler: registrar.go, dnsprovider.go, cdn.go, cdnbinding.go, ssl.go and cost.go. \<open>encode\<close> is the text of a
  JSON value, for the fields that a request embeds as \<open>json.RawMessage\<close>.
\<close>

definition raw_field :: "(jvalue \<Rightarrow> string) \<Rightarrow> string \<Rightarrow> string decoder" where
  "raw_field encode name b = map_option (\<lambda>vs. if vs = [] then [] else encode (last vs)) (given name b)"

section \<open>Registrars\<close>

definition registrarResponse :: "registrar_row \<Rightarrow> jvalue" where
  "registrarResponse r = JObject [(''id'', JInt (rg_id r)), (''name'', JText (rg_name r)),
     (''url'', nullable JText (rg_url r)), (''api_type'', nullable JText (rg_api_type r)),
     (''capabilities'', JRaw (rg_capabilities r)), (''notes'', nullable JText (rg_notes r))]"

definition accountResponse :: "registrar_account_row \<Rightarrow> jvalue" where
  "accountResponse a = JObject [(''id'', JInt (ra_id a)), (''registrar_id'', JInt (ra_registrar_id a)),
     (''account_name'', JText (ra_account_name a)), (''owner_user_id'', nullable JInt (ra_owner_user_id a)),
     (''is_default'', JTruth (ra_is_default a)), (''notes'', nullable JText (ra_notes a))]"

definition CreateRegistrarRequest :: "(jvalue \<Rightarrow> string) \<Rightarrow> registrar_row decoder" where
  "CreateRegistrarRequest encode b = do {
     name \<leftarrow> required_text ''name'' b;
     url \<leftarrow> pointer as_text ''url'' b;
     api \<leftarrow> pointer as_text ''api_type'' b;
     capabilities \<leftarrow> raw_field encode ''capabilities'' b;
     notes \<leftarrow> pointer as_text ''notes'' b;
     Some \<lparr>rg_id = 0, rg_name = name, rg_url = url, rg_api_type = api, rg_capabilities = capabilities,
       rg_notes = notes, rg_deleted_at = None\<rparr> }"

definition CreateAccountRequest :: "(jvalue \<Rightarrow> string) \<Rightarrow> registrar_account_row decoder" where
  "CreateAccountRequest encode b = do {
     name \<leftarrow> required_text ''account_name'' b;
     owner \<leftarrow> pointer as_int ''owner_user_id'' b;
     credentials \<leftarrow> raw_field encode ''credentials'' b;
     default \<leftarrow> truth_field ''is_default'' b;
     notes \<leftarrow> pointer as_text ''notes'' b;
     Some \<lparr>ra_id = 0, ra_registrar_id = 0, ra_account_name = name, ra_owner_user_id = owner,
       ra_credentials = credentials, ra_is_default = default, ra_notes = notes, ra_deleted_at = None\<rparr> }"

definition RegistrarHandler_Create :: "(jvalue \<Rightarrow> string) \<Rightarrow> http_request \<Rightarrow> reply handler" where
  "RegistrarHandler_Create encode rq = with_body (CreateRegistrarRequest encode) rq (\<lambda>inp.
     bnd (coded [(ErrDuplicateName, 40900)] (Registrar_Create inp)) (\<lambda>r. created (registrarResponse r)))"

definition RegistrarHandler_List :: "http_request \<Rightarrow> reply handler" where
  "RegistrarHandler_List rq = bnd (coded [] RegistrarStore_List) (\<lambda>rs. ok (listing registrarResponse rs))"

definition RegistrarHandler_Get :: "http_request \<Rightarrow> reply handler" where
  "RegistrarHandler_Get rq = with_id ''id'' rq (\<lambda>i.
     bnd (coded [(ErrRegistrarNotFound, 40400)] (RegistrarStore_GetByID i)) (\<lambda>r. ok (registrarResponse r)))"

definition RegistrarHandler_Update :: "(jvalue \<Rightarrow> string) \<Rightarrow> http_request \<Rightarrow> reply handler" where
  "RegistrarHandler_Update encode rq = with_id ''id'' rq (\<lambda>i. with_body (CreateRegistrarRequest encode) rq (\<lambda>inp.
     bnd (coded [(ErrRegistrarNotFound, 40400), (ErrDuplicateName, 40900)] (Registrar_Update (inp\<lparr>rg_id := i\<rparr>))) (\<lambda>r.
     ok (registrarResponse r))))"

definition RegistrarHandler_Delete :: "http_request \<Rightarrow> reply handler" where
  "RegistrarHandler_Delete rq = with_id ''id'' rq (\<lambda>i.
     seq_eff (coded [(ErrRegistrarNotFound, 40400), (ErrRegistrarHasDependents, 40901)] (RegistrarStore_SoftDelete i))
       no_content)"

definition RegistrarHandler_CreateAccount :: "(jvalue \<Rightarrow> string) \<Rightarrow> http_request \<Rightarrow> reply handler" where
  "RegistrarHandler_CreateAccount encode rq = with_id ''id'' rq (\<lambda>i. with_body (CreateAccountRequest encode) rq (\<lambda>inp.
     bnd (coded [(ErrRegistrarNotFound, 40400)] (CreateAccount (inp\<lparr>ra_registrar_id := i\<rparr>))) (\<lambda>a.
     created (accountResponse a))))"

definition RegistrarHandler_ListAccounts :: "http_request \<Rightarrow> reply handler" where
  "RegistrarHandler_ListAccounts rq = with_id ''id'' rq (\<lambda>i.
     bnd (coded [(ErrRegistrarNotFound, 40400)] (ListAccounts i)) (\<lambda>as. ok (listing accountResponse as)))"

definition RegistrarHandler_GetAccount :: "http_request \<Rightarrow> reply handler" where
  "RegistrarHandler_GetAccount rq = with_id ''id'' rq (\<lambda>i.
     bnd (coded [(ErrRegistrarAccountNotFound, 40400)] (GetAccountByID i)) (\<lambda>a. ok (accountResponse a)))"

definition RegistrarHandler_UpdateAccount :: "(jvalue \<Rightarrow> string) \<Rightarrow> http_request \<Rightarrow> reply handler" where
  "RegistrarHandler_UpdateAccount encode rq = with_id ''id'' rq (\<lambda>i. with_body (CreateAccountRequest encode) rq (\<lambda>inp.
     bnd (coded [(ErrRegistrarAccountNotFound, 40400)] (UpdateAccount (inp\<lparr>ra_id := i\<rparr>))) (\<lambda>a.
     ok (accountResponse a))))"

text \<open>The sentinels that the service makes of the errors of a registrar's API.\<close>

definition sync_codes :: "(go_err \<times> int) list" where
  "sync_codes = [(ErrRegistrarAccountNotFound, 40400), (ErrRegistrarNotFound, 40400), (ErrNoAPIType, 42200),
     (ErrSentinel ''registrar API access denied'', 40300), (ErrSentinel ''registrar API credentials rejected'', 42201),
     (ErrSentinel ''registrar account credentials are missing or invalid'', 42202),
     (ErrSentinel ''registrar api_type is not supported'', 42203),
     (ErrSentinel ''registrar API rate limit exceeded'', 42900)]"

text \<open>The texts of the errors of single domains are left out.\<close>

definition syncResult :: "account_sync \<Rightarrow> jvalue" where
  "syncResult s = JObject ([(''total'', JInt (as_total s)), (''updated'', JInt (as_updated s)),
     (''not_found'', items JText (as_not_found s))] @
     (if as_errors s = [] then [] else [(''errors'', items (\<lambda>e. JObject [(''fqdn'', JText (fst e))]) (as_errors s))]))"

definition RegistrarHandler_SyncAccount :: "registrar_api \<Rightarrow> http_request \<Rightarrow> reply handler" where
  "RegistrarHandler_SyncAccount api rq = with_id ''id'' rq (\<lambda>i.
     bnd (coded sync_codes (SyncAccount api i)) (\<lambda>s. ok (syncResult s)))"

definition RegistrarHandler_DeleteAccount :: "http_request \<Rightarrow> reply handler" where
  "RegistrarHandler_DeleteAccount rq = with_id ''id'' rq (\<lambda>i.
     seq_eff (coded [(ErrRegistrarAccountNotFound, 40400), (ErrRegistrarHasDependents, 40901)] (SoftDeleteAccount i))
       no_content)"

section \<open>DNS providers\<close>

text \<open>What the methods decode of a configuration (\<open>extractZoneID\<close>, \<open>ParseSafetyConfig\<close>).\<close>

definition safety_of :: "safety_config decoder" where
  "safety_of v = do {
     up \<leftarrow> field as_number 0 ''update_threshold_pct'' v;
     del \<leftarrow> field as_number 0 ''delete_threshold_pct'' v;
     least \<leftarrow> int_field ''min_existing_records'' v;
     protect \<leftarrow> truth_field ''protect_root_ns'' v;
     Some \<lparr>sf_update_threshold_pct = up, sf_delete_threshold_pct = del, sf_min_existing_records = least,
       sf_protect_root_ns = protect\<rparr> }"

definition config_of :: "jvalue \<Rightarrow> provider_config" where
  "config_of v = \<lparr>pc_zone_id = loosely as_text [] ''zone_id'' v,
     pc_safety = (case pointer safety_of ''safety'' v of None \<Rightarrow> None | Some s \<Rightarrow> s)\<rparr>"

text \<open>The configuration, of which the rows keep what the methods decode, is left out of the answer.\<close>

definition dnsProviderResponse :: "dns_provider_row \<Rightarrow> jvalue" where
  "dnsProviderResponse p = JObject [(''id'', JInt (pv_id p)), (''name'', JText (pv_name p)),
     (''provider_type'', JText (pv_provider_type p)), (''notes'', nullable JText (pv_notes p))]"

definition CreateDNSProviderRequest ::
    "(jvalue \<Rightarrow> string) \<Rightarrow> (dns_provider_row \<times> provider_config option) decoder" where
  "CreateDNSProviderRequest encode b = do {
     name \<leftarrow> required_text ''name'' b;
     kind \<leftarrow> required_text ''provider_type'' b;
     config \<leftarrow> given ''config'' b;
     credentials \<leftarrow> raw_field encode ''credentials'' b;
     notes \<leftarrow> pointer as_text ''notes'' b;
     Some (\<lparr>pv_id = 0, pv_name = name, pv_provider_type = kind,
         pv_config = config_of (if config = [] then JNull else last config), pv_credentials = credentials,
         pv_notes = notes, pv_deleted_at = None\<rparr>,
       if config = [] then None else Some (config_of (last config))) }"

abbreviation provider_codes :: "(go_err \<times> int) list" where
  "provider_codes \<equiv> [(ErrDNSProviderNotFound, 40400), (ErrMsg ''unknown dns provider type'', 40001)]"

definition DNSProviderHandler_Create :: "(jvalue \<Rightarrow> string) \<Rightarrow> http_request \<Rightarrow> reply handler" where
  "DNSProviderHandler_Create encode rq = with_body (CreateDNSProviderRequest encode) rq (\<lambda>(inp, config).
     bnd (coded [(ErrMsg ''unknown dns provider type'', 40001)] (Provider_Create inp)) (\<lambda>p.
     created (dnsProviderResponse p)))"

definition DNSProviderHandler_List :: "http_request \<Rightarrow> reply handler" where
  "DNSProviderHandler_List rq = bnd (coded [] DNSProviderStore_List) (\<lambda>ps. ok (listing dnsProviderResponse ps))"

definition DNSProviderHandler_Get :: "http_request \<Rightarrow> reply handler" where
  "DNSProviderHandler_Get rq = with_id ''id'' rq (\<lambda>i.
     bnd (coded [(ErrDNSProviderNotFound, 40400)] (DNSProviderStore_GetByID i)) (\<lambda>p. ok (dnsProviderResponse p)))"

definition DNSProviderHandler_Update :: "(jvalue \<Rightarrow> string) \<Rightarrow> http_request \<Rightarrow> reply handler" where
  "DNSProviderHandler_Update encode rq = with_id ''id'' rq (\<lambda>i.
     with_body (CreateDNSProviderRequest encode) rq (\<lambda>(inp, config).
     bnd (coded provider_codes (Provider_Update (inp\<lparr>pv_id := i\<rparr>) config)) (\<lambda>p. ok (dnsProviderResponse p))))"

definition DNSProviderHandler_Delete :: "http_request \<Rightarrow> reply handler" where
  "DNSProviderHandler_Delete rq = with_id ''id'' rq (\<lambda>i.
     seq_eff (coded [(ErrDNSProviderNotFound, 40400), (ErrDNSProviderHasDependents, 40901)] (DNSProviderStore_SoftDelete i))
       no_content)"

definition DNSProviderHandler_SupportedTypes :: "http_request \<Rightarrow> reply handler" where
  "DNSProviderHandler_SupportedTypes rq = ok (items JText SupportedTypes)"

section \<open>CDN providers and accounts\<close>

text \<open>These handlers return the rows as they are, the types of which have no \<open>json\<close> tags.\<close>

definition cdnProvider :: "cdn_provider_row \<Rightarrow> jvalue" where
  "cdnProvider p = JObject [(''ID'', JInt (cp_id p)), (''Name'', JText (cp_name p)),
     (''ProviderType'', JText (cp_provider_type p)), (''Description'', nullable JText (cp_description p)),
     (''DeletedAt'', nullable JTime (cp_deleted_at p))]"

definition cdnAccount :: "cdn_account_row \<Rightarrow> jvalue" where
  "cdnAccount a = JObject [(''ID'', JInt (cn_id a)), (''CDNProviderID'', JInt (cn_cdn_provider_id a)),
     (''AccountName'', JText (cn_account_name a)), (''Credentials'', JRaw (cn_credentials a)),
     (''Notes'', nullable JText (cn_notes a)), (''Enabled'', JTruth (cn_enabled a)),
     (''CreatedBy'', nullable JInt (cn_created_by a)), (''DeletedAt'', nullable JTime (cn_deleted_at a))]"

definition raw_listing :: "('a \<Rightarrow> jvalue) \<Rightarrow> 'a list \<Rightarrow> jvalue" where
  "raw_listing f xs = JObject [(''items'', slice f xs), (''total'', JInt (int (length xs)))]"

definition cdnErrStatus :: "go_err \<Rightarrow> int" where
  "cdnErrStatus e =
     (if e = ErrCDNProviderNotFound \<or> e = ErrCDNAccountNotFound then 40400
      else if e = ErrCDNProviderDuplicate \<or> e = ErrCDNAccountDuplicate then 40900
      else if e = ErrCDNProviderHasDependents \<or> e = ErrCDNAccountHasDependents then 40901
      else 40000)"

definition CreateCDNProviderRequest :: "cdn_provider_row decoder" where
  "CreateCDNProviderRequest b = do {
     name \<leftarrow> required_text ''name'' b;
     kind \<leftarrow> required_text ''provider_type'' b;
     description \<leftarrow> pointer as_text ''description'' b;
     Some \<lparr>cp_id = 0, cp_name = name, cp_provider_type = kind, cp_description = description, cp_deleted_at = None\<rparr> }"

definition CreateCDNAccountRequest :: "(jvalue \<Rightarrow> string) \<Rightarrow> cdn_account_row decoder" where
  "CreateCDNAccountRequest encode b = do {
     name \<leftarrow> required_text ''account_name'' b;
     credentials \<leftarrow> raw_field encode ''credentials'' b;
     notes \<leftarrow> pointer as_text ''notes'' b;
     enabled \<leftarrow> pointer as_truth ''enabled'' b;
     Some \<lparr>cn_id = 0, cn_cdn_provider_id = 0, cn_account_name = name, cn_credentials = credentials, cn_notes = notes,
       cn_enabled = (case enabled of None \<Rightarrow> True | Some p \<Rightarrow> p), cn_created_by = None, cn_deleted_at = None\<rparr> }"

definition CDNHandler_ListProviders :: "http_request \<Rightarrow> reply handler" where
  "CDNHandler_ListProviders rq = bnd (coded [] CDNStore_ListProviders) (\<lambda>ps. ok (raw_listing cdnProvider ps))"

definition CDNHandler_CreateProvider :: "http_request \<Rightarrow> reply handler" where
  "CDNHandler_CreateProvider rq = with_body CreateCDNProviderRequest rq (\<lambda>inp.
     bnd (coded_by cdnErrStatus (CreateCDNProvider inp)) (\<lambda>p. created (cdnProvider p)))"

definition CDNHandler_GetProvider :: "http_request \<Rightarrow> reply handler" where
  "CDNHandler_GetProvider rq = with_id ''id'' rq (\<lambda>i.
     bnd (coded_by cdnErrStatus (CDNStore_GetProviderByID i)) (\<lambda>p. ok (cdnProvider p)))"

definition CDNHandler_UpdateProvider :: "http_request \<Rightarrow> reply handler" where
  "CDNHandler_UpdateProvider rq = with_id ''id'' rq (\<lambda>i. with_body CreateCDNProviderRequest rq (\<lambda>inp.
     seq_eff (coded_by cdnErrStatus (UpdateCDNProvider (inp\<lparr>cp_id := i\<rparr>))) (ok JNull)))"

definition CDNHandler_DeleteProvider :: "http_request \<Rightarrow> reply handler" where
  "CDNHandler_DeleteProvider rq = with_id ''id'' rq (\<lambda>i.
     seq_eff (coded_by cdnErrStatus (CDNStore_SoftDeleteProvider i)) no_content)"

definition CDNHandler_ListAccounts :: "http_request \<Rightarrow> reply handler" where
  "CDNHandler_ListAccounts rq = with_id ''id'' rq (\<lambda>i.
     bnd (coded_by cdnErrStatus (CDNStore_ListAccountsByProvider i)) (\<lambda>as. ok (raw_listing cdnAccount as)))"

definition CDNHandler_ListAllAccounts :: "http_request \<Rightarrow> reply handler" where
  "CDNHandler_ListAllAccounts rq = bnd (coded [] CDNStore_ListAllAccounts) (\<lambda>as. ok (raw_listing cdnAccount as))"

definition CDNHandler_CreateAccount :: "(jvalue \<Rightarrow> string) \<Rightarrow> http_request \<Rightarrow> reply handler" where
  "CDNHandler_CreateAccount encode rq = with_id ''id'' rq (\<lambda>i. with_body (CreateCDNAccountRequest encode) rq (\<lambda>inp.
     bnd (coded_by cdnErrStatus (CreateCDNAccount (inp\<lparr>cn_cdn_provider_id := i, cn_created_by := rq_context rq ''user_id''\<rparr>)))
     (\<lambda>a. created (cdnAccount a))))"

definition CDNHandler_GetAccount :: "http_request \<Rightarrow> reply handler" where
  "CDNHandler_GetAccount rq = with_id ''id'' rq (\<lambda>i.
     bnd (coded_by cdnErrStatus (CDNStore_GetAccountByID i)) (\<lambda>a. ok (cdnAccount a)))"

definition CDNHandler_UpdateAccount :: "(jvalue \<Rightarrow> string) \<Rightarrow> http_request \<Rightarrow> reply handler" where
  "CDNHandler_UpdateAccount encode rq = with_id ''id'' rq (\<lambda>i. with_body (CreateCDNAccountRequest encode) rq (\<lambda>inp.
     seq_eff (coded_by cdnErrStatus (UpdateCDNAccount (inp\<lparr>cn_id := i\<rparr>))) (ok JNull)))"

definition CDNHandler_DeleteAccount :: "http_request \<Rightarrow> reply handler" where
  "CDNHandler_DeleteAccount rq = with_id ''id'' rq (\<lambda>i.
     seq_eff (coded_by cdnErrStatus (CDNStore_SoftDeleteAccount i)) no_content)"

section \<open>Bindings to CDN accounts\<close>

definition bindingToResponse :: "cdn_binding_row \<Rightarrow> jvalue" where
  "bindingToResponse b = JObject [(''id'', JInt (cb_id b)), (''domain_id'', JInt (cb_domain_id b)),
     (''cdn_account_id'', JInt (cb_cdn_account_id b)), (''cdn_cname'', nullable JText (cb_cname b)),
     (''business_type'', JText (cb_business_type b)), (''status'', JText (cb_status b)),
     (''created_at'', JTime (cb_created_at b))]"

definition BindCDNRequest :: "(int \<times> string) decoder" where
  "BindCDNRequest b = do {
     account \<leftarrow> required_int ''cdn_account_id'' b;
     business \<leftarrow> text_field ''business_type'' b;
     Some (account, business) }"

definition with_cdn_domain :: "http_request \<Rightarrow> (domain_row \<Rightarrow> 'a handler) \<Rightarrow> 'a handler" where
  "with_cdn_domain rq k = with_id ''id'' rq (\<lambda>i. bnd (coded [(ErrDomainNotFound, 40401)] (DomainStore_GetByID i)) k)"

abbreviation ErrNoCDNProvider :: go_err where
  "ErrNoCDNProvider \<equiv> ErrSentinel ''cdn provider type not registered''"

abbreviation ErrCDNUnauthorized :: go_err where
  "ErrCDNUnauthorized \<equiv> ErrSentinel ''cdn provider API credentials rejected''"

definition CDNBindingHandler_Bind :: "cdn_clients \<Rightarrow> http_request \<Rightarrow> reply handler" where
  "CDNBindingHandler_Bind cl rq = with_cdn_domain rq (\<lambda>d. with_body BindCDNRequest rq (\<lambda>(account, business).
     bnd (coded [(ErrCDNBindingAlreadyExists, 40900), (ErrCDNAccountNotFound, 40402), (ErrNoCDNProvider, 40901),
         (ErrCDNUnauthorized, 40100)] (CDN_BindDomain cl d account business)) (\<lambda>b.
     created (bindingToResponse b))))"

definition CDNBindingHandler_ListBindings :: "http_request \<Rightarrow> reply handler" where
  "CDNBindingHandler_ListBindings rq = with_cdn_domain rq (\<lambda>d.
     bnd (coded [] (ListBindingsByDomain (d_id d))) (\<lambda>bs. ok (listing bindingToResponse bs)))"

text \<open>The domain of the path has to exist; that the binding belongs to it is not checked.\<close>

definition CDNBindingHandler_GetBinding :: "http_request \<Rightarrow> reply handler" where
  "CDNBindingHandler_GetBinding rq = with_cdn_domain rq (\<lambda>d. with_id ''bid'' rq (\<lambda>i.
     bnd (coded [(ErrCDNBindingNotFound, 40403)] (GetBindingByID i)) (\<lambda>b. ok (bindingToResponse b))))"

definition CDNBindingHandler_Unbind :: "cdn_clients \<Rightarrow> http_request \<Rightarrow> reply handler" where
  "CDNBindingHandler_Unbind cl rq = with_cdn_domain rq (\<lambda>d. with_id ''bid'' rq (\<lambda>i.
     seq_eff (coded [(ErrCDNBindingNotFound, 40403), (ErrNoCDNProvider, 40901)] (CDN_UnbindDomain cl d i)) no_content))"

definition CDNBindingHandler_RefreshStatus :: "cdn_clients \<Rightarrow> http_request \<Rightarrow> reply handler" where
  "CDNBindingHandler_RefreshStatus cl rq = with_cdn_domain rq (\<lambda>d. with_id ''bid'' rq (\<lambda>i.
     bnd (coded [(ErrCDNBindingNotFound, 40403), (ErrNoCDNProvider, 40901)] (RefreshStatus cl d i)) (\<lambda>b.
     ok (bindingToResponse b))))"

section \<open>Certificates\<close>

text \<open>\<open>int(time.Until(t).Hours() / 24)\<close> on whole seconds.\<close>

definition whole_days :: "int \<Rightarrow> int" where
  "whole_days secs = (if secs < 0 then - ((- secs) div 86400) else secs div 86400)"

definition certResponse :: "int \<Rightarrow> certificate_row \<Rightarrow> jvalue" where
  "certResponse t c = JObject [(''id'', JInt (ce_id c)), (''domain_id'', JInt (ce_domain_id c)),
     (''issuer'', nullable JText (ce_issuer c)), (''cert_type'', nullable JText (ce_cert_type c)),
     (''serial_number'', nullable JText (ce_serial_number c)),
     (''issued_at'', nullable (\<lambda>s. JText (date_text (s div 86400))) (ce_issued_at c)),
     (''expires_at'', JText (date_text (ce_expires_at c div 86400))),
     (''days_left'', JInt (whole_days (ce_expires_at c - t))), (''auto_renew'', JTruth (ce_auto_renew c)),
     (''status'', JText (ce_status c)), (''last_check_at'', nullable JTime (ce_last_check_at c)),
     (''notes'', nullable JText (ce_notes c))]"

record ssl_request =
  sq_cert :: certificate_row
  sq_issued_at :: "string option"
  sq_expires_at :: string

definition CreateSSLCertRequest :: "ssl_request decoder" where
  "CreateSSLCertRequest b = do {
     issuer \<leftarrow> pointer as_text ''issuer'' b;
     kind \<leftarrow> pointer as_text ''cert_type'' b;
     serial \<leftarrow> pointer as_text ''serial_number'' b;
     issued \<leftarrow> pointer as_text ''issued_at'' b;
     expires \<leftarrow> text_field ''expires_at'' b;
     renew \<leftarrow> truth_field ''auto_renew'' b;
     notes \<leftarrow> pointer as_text ''notes'' b;
     Some \<lparr>sq_cert = \<lparr>ce_id = 0, ce_domain_id = 0, ce_issuer = issuer, ce_cert_type = kind, ce_serial_number = serial,
         ce_issued_at = None, ce_expires_at = 0, ce_auto_renew = renew, ce_status = [], ce_last_check_at = None,
         ce_notes = notes, ce_deleted_at = None\<rparr>,
       sq_issued_at = issued, sq_expires_at = expires\<rparr> }"

definition SSLHandler_Create :: "http_request \<Rightarrow> reply handler" where
  "SSLHandler_Create rq = with_id_or 40001 ''id'' rq (\<lambda>i. with_body_or 40002 CreateSSLCertRequest rq (\<lambda>b.
     if sq_expires_at b = [] then throw 40003
     else case parse_date (sq_expires_at b) of
       None \<Rightarrow> throw 40004
     | Some expires \<Rightarrow>
         if (case sq_issued_at b of None \<Rightarrow> False | Some s \<Rightarrow> parse_date s = None) then throw 40005
         else
           bnd (coded_or 50001 [] (Certificate_Create ((sq_cert b)\<lparr>ce_domain_id := i, ce_expires_at := expires,
             ce_issued_at := Option.bind (sq_issued_at b) parse_date\<rparr>))) (\<lambda>c.
           bnd (gets now) (\<lambda>t. created (certResponse t c)))))"

definition SSLHandler_List :: "http_request \<Rightarrow> reply handler" where
  "SSLHandler_List rq = with_id_or 40001 ''id'' rq (\<lambda>i.
     bnd (coded_or 50001 [] (CertificateStore_ListByDomain i)) (\<lambda>cs.
     bnd (gets now) (\<lambda>t. ok (listing (certResponse t) cs))))"

definition SSLHandler_Check :: "tls_dial \<Rightarrow> http_request \<Rightarrow> reply handler" where
  "SSLHandler_Check dial rq = with_id_or 40001 ''id'' rq (\<lambda>i. with_body_or 40002 (required_text ''fqdn'') rq (\<lambda>fqdn.
     bnd (coded_or 50001 [(ErrCheckFailed, 50201)] (CheckExpiry dial i fqdn)) (\<lambda>c.
     bnd (gets now) (\<lambda>t. ok (certResponse t c)))))"

definition SSLHandler_ListExpiring :: "http_request \<Rightarrow> reply handler" where
  "SSLHandler_ListExpiring rq =
     (let days = (case query_id rq ''days'' of None \<Rightarrow> 30 | Some v \<Rightarrow> if v > 0 then v else 30) in
      bnd (coded_or 50001 [] (Certificate_ListExpiring days)) (\<lambda>cs.
      bnd (gets now) (\<lambda>t. ok (JObject [(''items'', items (certResponse t) cs), (''total'', JInt (int (length cs))),
        (''days'', JInt days)]))))"

definition SSLHandler_Delete :: "http_request \<Rightarrow> reply handler" where
  "SSLHandler_Delete rq = with_id_or 40001 ''id'' rq (\<lambda>i.
     seq_eff (coded_or 50001 [(ErrSSLCertNotFound, 40401)] (Certificate_Delete i)) (ok JNull))"

section \<open>Fees and costs\<close>

definition feeScheduleResponse :: "fee_schedule_row \<Rightarrow> jvalue" where
  "feeScheduleResponse f = JObject [(''id'', JInt (fs_id f)), (''registrar_id'', JInt (fs_registrar_id f)),
     (''tld'', JText (fs_tld f)), (''registration_fee'', JReal (fs_registration_fee f)),
     (''renewal_fee'', JReal (fs_renewal_fee f)), (''transfer_fee'', JReal (fs_transfer_fee f)),
     (''privacy_fee'', JReal (fs_privacy_fee f)), (''currency'', JText (fs_currency f))]"

definition UpdateFeeScheduleRequest :: "fee_schedule_row decoder" where
  "UpdateFeeScheduleRequest b = do {
     registration \<leftarrow> field as_number 0 ''registration_fee'' b;
     renewal \<leftarrow> field as_number 0 ''renewal_fee'' b;
     transfer \<leftarrow> field as_number 0 ''transfer_fee'' b;
     privacy \<leftarrow> field as_number 0 ''privacy_fee'' b;
     currency \<leftarrow> required_text ''currency'' b;
     Some \<lparr>fs_id = 0, fs_registrar_id = 0, fs_tld = [], fs_registration_fee = registration, fs_renewal_fee = renewal,
       fs_transfer_fee = transfer, fs_privacy_fee = privacy, fs_currency = currency\<rparr> }"

definition CreateFeeScheduleRequest :: "fee_schedule_row decoder" where
  "CreateFeeScheduleRequest b = do {
     registrar \<leftarrow> required_int ''registrar_id'' b;
     tld \<leftarrow> required_text ''tld'' b;
     fees \<leftarrow> UpdateFeeScheduleRequest b;
     Some (fees\<lparr>fs_registrar_id := registrar, fs_tld := tld\<rparr>) }"

definition CostHandler_CreateFeeSchedule :: "http_request \<Rightarrow> reply handler" where
  "CostHandler_CreateFeeSchedule rq = with_body_or 40001 CreateFeeScheduleRequest rq (\<lambda>inp.
     bnd (coded_or 50001 [(ErrInvalidCurrency, 40002)] (CreateFeeSchedule inp)) (\<lambda>f. created (feeScheduleResponse f)))"

definition CostHandler_ListFeeSchedules :: "http_request \<Rightarrow> reply handler" where
  "CostHandler_ListFeeSchedules rq =
     (if Query rq ''registrar_id'' \<noteq> [] \<and> query_id rq ''registrar_id'' = None then throw 40001
      else bnd (coded_or 50001 [] (CostStore_ListFeeSchedules (query_id rq ''registrar_id''))) (\<lambda>fs.
           ok (listing feeScheduleResponse fs)))"

definition CostHandler_UpdateFeeSchedule :: "http_request \<Rightarrow> reply handler" where
  "CostHandler_UpdateFeeSchedule rq = with_id_or 40001 ''id'' rq (\<lambda>i. with_body_or 40002 UpdateFeeScheduleRequest rq (\<lambda>inp.
     bnd (coded_or 50001 [(ErrFeeScheduleNotFound, 40401), (ErrInvalidCurrency, 40002)] (UpdateFeeSchedule i inp)) (\<lambda>f.
     ok (feeScheduleResponse f))))"

definition CostHandler_DeleteFeeSchedule :: "http_request \<Rightarrow> reply handler" where
  "CostHandler_DeleteFeeSchedule rq = with_id_or 40001 ''id'' rq (\<lambda>i.
     seq_eff (coded_or 50001 [(ErrFeeScheduleNotFound, 40401)] (DeleteFeeSchedule i)) (ok JNull))"

abbreviation day_text :: "int option \<Rightarrow> jvalue" where
  "day_text \<equiv> nullable (\<lambda>s. JText (date_text (s div 86400)))"

definition domainCostResponse :: "domain_cost_row \<Rightarrow> jvalue" where
  "domainCostResponse c = JObject [(''id'', JInt (dc_id c)), (''domain_id'', JInt (dc_domain_id c)),
     (''cost_type'', JText (dc_cost_type c)), (''amount'', JReal (dc_amount c)), (''currency'', JText (dc_currency c)),
     (''period_start'', day_text (dc_period_start c)), (''period_end'', day_text (dc_period_end c)),
     (''paid_at'', day_text (dc_paid_at c)), (''notes'', nullable JText (dc_notes c)),
     (''created_at'', JTime (dc_created_at c))]"

definition CreateCostRequest :: "domain_cost_row decoder" where
  "CreateCostRequest b = do {
     kind \<leftarrow> required_text ''cost_type'' b;
     amount \<leftarrow> field as_number 0 ''amount'' b;
     require (amount \<noteq> 0);
     currency \<leftarrow> required_text ''currency'' b;
     first \<leftarrow> date_field ''period_start'' b;
     last \<leftarrow> date_field ''period_end'' b;
     paid \<leftarrow> date_field ''paid_at'' b;
     notes \<leftarrow> pointer as_text ''notes'' b;
     Some \<lparr>dc_id = 0, dc_domain_id = 0, dc_cost_type = kind, dc_amount = amount, dc_currency = currency,
       dc_period_start = first, dc_period_end = last, dc_paid_at = paid, dc_notes = notes, dc_created_at = 0\<rparr> }"

definition CostHandler_CreateDomainCost :: "http_request \<Rightarrow> reply handler" where
  "CostHandler_CreateDomainCost rq = with_id_or 40001 ''id'' rq (\<lambda>i. with_body_or 40002 CreateCostRequest rq (\<lambda>inp.
     bnd (coded_or 50001 [(ErrInvalidCostType, 40003), (ErrInvalidCurrency, 40004)] (CreateCost (inp\<lparr>dc_domain_id := i\<rparr>)))
     (\<lambda>c. created (domainCostResponse c))))"

definition CostHandler_ListDomainCosts :: "http_request \<Rightarrow> reply handler" where
  "CostHandler_ListDomainCosts rq = with_id_or 40001 ''id'' rq (\<lambda>i.
     bnd (coded_or 50001 [] (ListCostsByDomain i)) (\<lambda>cs. ok (listing domainCostResponse cs)))"

text \<open>Every error has a text, so each of them is answered with 40001.\<close>

definition CostHandler_GetCostSummary :: "http_request \<Rightarrow> reply handler" where
  "CostHandler_GetCostSummary rq = (let groupBy = DefaultQuery rq ''group_by'' ''registrar'' in
     bnd (coded_or 40001 [] (GetCostSummary groupBy)) (\<lambda>ss.
     ok (JObject [(''items'', items (\<lambda>s. JObject [(''group_key'', JText (su_group_key s)),
         (''total_cost'', JReal (su_total_cost s)), (''currency'', JText (su_currency s)),
         (''count'', JInt (su_count s))]) ss),
       (''total'', JInt (int (length ss))), (''group_by'', JText groupBy)])))"

section \<open>Handlers that only read\<close>

lemma assets_look [looks]:
  "keeps read_only (RegistrarHandler_List rq)" "keeps read_only (RegistrarHandler_Get rq)"
  "keeps read_only (RegistrarHandler_ListAccounts rq)" "keeps read_only (RegistrarHandler_GetAccount rq)"
  "keeps read_only (DNSProviderHandler_List rq)" "keeps read_only (DNSProviderHandler_Get rq)"
  "keeps read_only (DNSProviderHandler_SupportedTypes rq)"
  "keeps read_only (CDNHandler_ListProviders rq)" "keeps read_only (CDNHandler_GetProvider rq)"
  "keeps read_only (CDNHandler_ListAccounts rq)" "keeps read_only (CDNHandler_ListAllAccounts rq)"
  "keeps read_only (CDNHandler_GetAccount rq)" "keeps read_only (CDNBindingHandler_ListBindings rq)"
  "keeps read_only (CDNBindingHandler_GetBinding rq)" "keeps read_only (SSLHandler_List rq)"
  "keeps read_only (SSLHandler_ListExpiring rq)" "keeps read_only (CostHandler_ListFeeSchedules rq)"
  "keeps read_only (CostHandler_ListDomainCosts rq)" "keeps read_only (CostHandler_GetCostSummary rq)"
  unfolding RegistrarHandler_List_def RegistrarHandler_Get_def RegistrarHandler_ListAccounts_def
    RegistrarHandler_GetAccount_def DNSProviderHandler_List_def DNSProviderHandler_Get_def
    DNSProviderHandler_SupportedTypes_def CDNHandler_ListProviders_def CDNHandler_GetProvider_def
    CDNHandler_ListAccounts_def CDNHandler_ListAllAccounts_def CDNHandler_GetAccount_def
    CDNBindingHandler_ListBindings_def CDNBindingHandler_GetBinding_def SSLHandler_List_def SSLHandler_ListExpiring_def
    CostHandler_ListFeeSchedules_def CostHandler_ListDomainCosts_def CostHandler_GetCostSummary_def with_cdn_domain_def
    RegistrarStore_List_def RegistrarStore_GetByID_def ListAccounts_def ListAccountsByRegistrar_def GetAccountByID_def
    DNSProviderStore_List_def DNSProviderStore_GetByID_def CDNStore_ListProviders_def CDNStore_GetProviderByID_def
    CDNStore_ListAccountsByProvider_def CDNStore_ListAllAccounts_def CDNStore_GetAccountByID_def DomainStore_GetByID_def
    ListBindingsByDomain_def GetBindingByID_def CertificateStore_ListByDomain_def Certificate_ListExpiring_def
    CertificateStore_ListExpiring_def CostStore_ListFeeSchedules_def ListCostsByDomain_def GetCostSummary_def
    GetCostSummaryByRegistrar_def GetCostSummaryByTLD_def Let_def
  by (intro eff_intro)+

end
