(* ===== verification/Web_Dns.thy ===== *)
theory Web_Dns
  imports Web_Assets
begin

text \<open>
  api/handler: dnsbinding.go, dnsrecord.go, dnsrecordsync.go, dnsquery.go and dnstemplate.go. The clients of the
  providers and the resolver are parameters, as in the services; how long a look-up took is not in the answers, and
  an empty slice of a client is answered as an empty list. \<open>message\<close> is the text of an error.
\<close>

definition unless_zero :: "string \<Rightarrow> int \<Rightarrow> (string \<times> jvalue) list" where
  "unless_zero name i = (if i = 0 then [] else [(name, JInt i)])"

definition unless_empty :: "string \<Rightarrow> string \<Rightarrow> (string \<times> jvalue) list" where
  "unless_empty name s = (if s = [] then [] else [(name, JText s)])"

definition text_object :: "variables \<Rightarrow> jvalue" where
  "text_object vars = JObject (map (\<lambda>(k, v). (k, JText v)) vars)"

text \<open>A field of type \<open>map[string]string\<close>; an entry \<open>null\<close> is the empty text.\<close>

definition text_entry :: "variables option \<Rightarrow> string \<times> jvalue \<Rightarrow> variables option" where
  "text_entry acc kv = do {
     vars \<leftarrow> acc;
     v \<leftarrow> (if snd kv = JNull then Some [] else as_text (snd kv));
     Some (put (fst kv) v vars) }"

definition text_map :: "string \<Rightarrow> variables option decoder" where
  "text_map name b = do {
     vs \<leftarrow> given name b;
     foldl (\<lambda>acc v. do {
       m \<leftarrow> acc;
       case v of
         JNull \<Rightarrow> Some None
       | JObject ms \<Rightarrow> map_option Some (foldl text_entry (Some (or_nil m)) ms)
       | _ \<Rightarrow> None }) (Some None) vs }"

section \<open>Binding a domain to a DNS provider\<close>

definition bindingStatus :: "binding_status \<Rightarrow> jvalue" where
  "bindingStatus s = JObject [(''dns_provider_id'', nullable JInt (bs_dns_provider_id s)),
     (''ns_delegation_status'', JText (bs_ns_delegation_status s)),
     (''expected_nameservers'', items JText (bs_expected_nameservers s)),
     (''actual_nameservers'', items JText (bs_actual_nameservers s)),
     (''ns_verified_at'', nullable JTime (bs_ns_verified_at s)),
     (''ns_last_checked_at'', nullable JTime (bs_ns_last_checked_at s))]"

definition BindDNSProviderRequest :: "int option decoder" where
  "BindDNSProviderRequest = pointer as_int ''dns_provider_id''"

definition DNSBindingHandler_Bind :: "clients \<Rightarrow> http_request \<Rightarrow> reply handler" where
  "DNSBindingHandler_Bind cl rq = with_id ''id'' rq (\<lambda>i. with_body BindDNSProviderRequest rq (\<lambda>pid.
     bnd (coded [(ErrDomainNotFound, 40401)] (DomainStore_GetByID i)) (\<lambda>d.
     case pid of
       None \<Rightarrow> seq_eff (coded [] (UnbindDNSProvider d))
         (ok (JObject [(''ns_delegation_status'', JText ''unset'')]))
     | Some p \<Rightarrow> bnd (coded [(ErrProviderNotFound, 40402)] (BindDNSProvider cl d p)) (\<lambda>s. ok (bindingStatus s)))))"

definition DNSBindingHandler_GetStatus :: "clients \<Rightarrow> http_request \<Rightarrow> reply handler" where
  "DNSBindingHandler_GetStatus cl rq = with_id ''id'' rq (\<lambda>i.
     bnd (coded [(ErrDomainNotFound, 40401)] (DomainStore_GetByID i)) (\<lambda>d.
     bnd (coded [] (GetBindingStatus cl d)) (\<lambda>s. ok (bindingStatus s))))"

definition DNSBindingHandler_TriggerVerify :: "clients \<Rightarrow> http_request \<Rightarrow> reply handler" where
  "DNSBindingHandler_TriggerVerify cl rq = with_id ''id'' rq (\<lambda>i.
     bnd (coded [(ErrDomainNotFound, 40401)] (DomainStore_GetByID i)) (\<lambda>d.
     case d_dns_provider_id d of
       None \<Rightarrow> throw 40901
     | Some p \<Rightarrow>
         bnd (coded [] (attempt (GetBindingStatus cl d))) (\<lambda>s.
         let expected = (case s of Inl e \<Rightarrow> [] | Inr st \<Rightarrow> bs_expected_nameservers st) in
         seq_eff (coded [] (enqueue (NSCheckJob (d_id d) (d_fqdn d) p expected) 1 30 ''default'' 0))
           (accepted (JObject [(''queued'', JTruth True)])))))"

section \<open>Records at the provider\<close>

definition providerRecord :: "zone_record \<Rightarrow> jvalue" where
  "providerRecord r = JObject ([(''id'', JText (zr_id r)), (''type'', JText (zr_type r)), (''name'', JText (zr_name r)),
     (''content'', JText (zr_content r)), (''ttl'', JInt (zr_ttl r))] @
     unless_zero ''priority'' (zr_priority r) @
     (if zr_proxied r then [(''proxied'', JTruth True)] else []) @
     (if zr_extra r = [] then [] else [(''extra'', text_object (zr_extra r))]))"

definition RecordInput :: "record_input decoder" where
  "RecordInput b = do {
     kind \<leftarrow> text_field ''type'' b;
     name \<leftarrow> text_field ''name'' b;
     content \<leftarrow> text_field ''content'' b;
     ttl \<leftarrow> int_field ''ttl'' b;
     priority \<leftarrow> int_field ''priority'' b;
     proxied \<leftarrow> truth_field ''proxied'' b;
     Some \<lparr>in_type = kind, in_name = name, in_content = content, in_ttl = ttl, in_priority = priority,
       in_proxied = proxied\<rparr> }"

text \<open>\<open>getDomain\<close>: any error of the store counts as a missing domain.\<close>

definition with_any_domain :: "http_request \<Rightarrow> (domain_row \<Rightarrow> 'a handler) \<Rightarrow> 'a handler" where
  "with_any_domain rq k = with_id_or 40001 ''id'' rq (\<lambda>i. bnd (coded_or 40401 [] (DomainStore_GetByID i)) k)"

definition handleError :: "go_err \<Rightarrow> int" where
  "handleError e = (case e of
       ErrInvalidInput m \<Rightarrow> 40012
     | _ \<Rightarrow> if e = ErrNoProvider then 40010 else if e = ErrProviderInit then 40011 else 50001)"

definition DNSRecordHandler_ListRecords :: "clients \<Rightarrow> http_request \<Rightarrow> reply handler" where
  "DNSRecordHandler_ListRecords cl rq = with_any_domain rq (\<lambda>d.
     bnd (coded_by handleError (Service_ListRecords cl d (Query rq ''type''))) (\<lambda>rs. ok (listing providerRecord rs)))"

definition DNSRecordHandler_CreateRecord :: "clients \<Rightarrow> http_request \<Rightarrow> reply handler" where
  "DNSRecordHandler_CreateRecord cl rq = with_any_domain rq (\<lambda>d. with_body_or 40001 RecordInput rq (\<lambda>inp.
     bnd (coded_by handleError (Service_CreateRecord cl d inp)) (\<lambda>r. created (providerRecord r))))"

definition DNSRecordHandler_UpdateRecord :: "clients \<Rightarrow> http_request \<Rightarrow> reply handler" where
  "DNSRecordHandler_UpdateRecord cl rq = with_any_domain rq (\<lambda>d.
     if rq_param rq ''rid'' = [] then throw 40002
     else with_body_or 40001 RecordInput rq (\<lambda>inp.
       bnd (coded_by handleError (Service_UpdateRecord cl d (rq_param rq ''rid'') inp)) (\<lambda>r. ok (providerRecord r))))"

definition DNSRecordHandler_DeleteRecord :: "clients \<Rightarrow> http_request \<Rightarrow> reply handler" where
  "DNSRecordHandler_DeleteRecord cl rq = with_any_domain rq (\<lambda>d.
     if rq_param rq ''rid'' = [] then throw 40002
     else seq_eff (coded_by handleError (Service_DeleteRecord cl d (rq_param rq ''rid''))) (ok JNull))"

section \<open>The local copy\<close>

text \<open>Rows as they are, the type of which has no \<open>json\<close> tags.\<close>

definition localRecord :: "dns_record_row \<Rightarrow> jvalue" where
  "localRecord r = JObject [(''ID'', JInt (dr_id r)), (''DomainID'', JInt (dr_domain_id r)),
     (''DNSProviderID'', nullable JInt (dr_dns_provider_id r)),
     (''ProviderRecordID'', nullable JText (dr_provider_record_id r)), (''RecordType'', JText (dr_record_type r)),
     (''Name'', JText (dr_name r)), (''Content'', JText (dr_content r)), (''TTL'', JInt (dr_ttl r)),
     (''Priority'', nullable JInt (dr_priority r)), (''Proxied'', JTruth (dr_proxied r)),
     (''SyncedAt'', nullable JTime (dr_synced_at r)), (''UpdatedAt'', JTime (dr_updated_at r)),
     (''DeletedAt'', nullable JTime (dr_deleted_at r))]"

definition with_domain :: "http_request \<Rightarrow> (domain_row \<Rightarrow> 'a handler) \<Rightarrow> 'a handler" where
  "with_domain rq k = with_id ''id'' rq (\<lambda>i. bnd (coded [(ErrDomainNotFound, 40401)] (DomainStore_GetByID i)) k)"

text \<open>The codes of the synchronising handlers: the table for sentinels, 40001 for input that is refused.\<close>

definition input_or :: "(go_err \<times> int) list \<Rightarrow> go_err \<Rightarrow> int" where
  "input_or table e = (case e of ErrInvalidInput m \<Rightarrow> 40001 | _ \<Rightarrow> code_in 50000 table e)"

definition DNSRecordSyncHandler_Sync :: "clients \<Rightarrow> http_request \<Rightarrow> reply handler" where
  "DNSRecordSyncHandler_Sync cl rq = with_domain rq (\<lambda>d.
     bnd (coded [(ErrNoProvider, 40900)] (Sync cl d)) (\<lambda>s.
     ok (JObject [(''Upserted'', JInt (sy_upserted s)), (''Deleted'', JInt (sy_deleted s))])))"

definition DNSRecordSyncHandler_ListLocal :: "http_request \<Rightarrow> reply handler" where
  "DNSRecordSyncHandler_ListLocal rq = with_domain rq (\<lambda>d.
     bnd (coded [] (SyncService_ListRecords d (ToUpper (Query rq ''type'')))) (\<lambda>rs. ok (raw_listing localRecord rs)))"

definition DNSRecordSyncHandler_CreateLocal :: "clients \<Rightarrow> http_request \<Rightarrow> reply handler" where
  "DNSRecordSyncHandler_CreateLocal cl rq = with_domain rq (\<lambda>d. with_body RecordInput rq (\<lambda>inp.
     bnd (coded_by (input_or [(ErrNoProvider, 40900)]) (SyncService_CreateRecord cl d inp)) (\<lambda>r.
     created (localRecord r))))"

definition DNSRecordSyncHandler_UpdateLocal :: "clients \<Rightarrow> http_request \<Rightarrow> reply handler" where
  "DNSRecordSyncHandler_UpdateLocal cl rq = with_domain rq (\<lambda>d. with_id ''rid'' rq (\<lambda>i. with_body RecordInput rq (\<lambda>inp.
     bnd (coded_by (input_or [(ErrDNSRecordNotFound, 40402)]) (SyncService_UpdateRecord cl d i inp)) (\<lambda>r.
     ok (localRecord r)))))"

definition DNSRecordSyncHandler_DeleteLocal :: "clients \<Rightarrow> http_request \<Rightarrow> reply handler" where
  "DNSRecordSyncHandler_DeleteLocal cl rq = with_domain rq (\<lambda>d. with_id ''rid'' rq (\<lambda>i.
     seq_eff (coded [(ErrDNSRecordNotFound, 40402), (ErrNoProvider, 40900)] (SyncService_DeleteRecord cl d i))
       no_content))"

definition BatchDeleteRecordsRequest :: "int list decoder" where
  "BatchDeleteRecordsRequest b = do {
     ids \<leftarrow> slice_field as_int 0 ''record_ids'' b;
     require (ids \<noteq> []);
     Some ids }"

definition DNSRecordSyncHandler_BatchDeleteLocal :: "clients \<Rightarrow> http_request \<Rightarrow> reply handler" where
  "DNSRecordSyncHandler_BatchDeleteLocal cl rq = with_domain rq (\<lambda>d. with_body BatchDeleteRecordsRequest rq (\<lambda>ids.
     bnd (coded [(ErrNoProvider, 40900)] (BatchDelete cl d ids)) (\<lambda>n.
     ok (JObject [(''deleted'', JInt n)]))))"

definition ApplyTemplateSyncRequest :: "(int \<times> variables \<times> bool) decoder" where
  "ApplyTemplateSyncRequest b = do {
     template \<leftarrow> required_int ''template_id'' b;
     vars \<leftarrow> text_map ''variables'' b;
     dry \<leftarrow> truth_field ''dry_run'' b;
     Some (template, or_nil vars, dry) }"

definition renderedRecord :: "rendered_record \<Rightarrow> jvalue" where
  "renderedRecord r = JObject ([(''name'', JText (rd_name r)), (''type'', JText (rd_type r)),
     (''content'', JText (rd_content r)), (''ttl'', JInt (rd_ttl r))] @ unless_zero ''priority'' (rd_priority r))"

definition input_of :: "rendered_record \<Rightarrow> record_input" where
  "input_of r = \<lparr>in_type = rd_type r, in_name = rd_name r, in_content = rd_content r, in_ttl = rd_ttl r,
     in_priority = rd_priority r, in_proxied = False\<rparr>"

definition ApplyTemplateResult ::
    "(go_err \<Rightarrow> string) \<Rightarrow> (go_err + dns_record_row) list \<Rightarrow> rendered_record list \<Rightarrow> jvalue" where
  "ApplyTemplateResult message outcomes preview =
     (let errors = List.map_filter (case_sum Some (\<lambda>_. None)) outcomes;
          saved = List.map_filter (case_sum (\<lambda>_. None) Some) outcomes
      in JObject ([(''created'', JInt (int (length saved)))] @
       (if errors = [] then [] else [(''errors'', items (\<lambda>e. JText (message e)) errors)]) @
       (if saved = [] then [] else [(''records'', items localRecord saved)]) @
       (if preview = [] then [] else [(''preview'', items renderedRecord preview)])))"

text \<open>The body of the loop; a record that fails does not stop it.\<close>

definition create_rendered :: "clients \<Rightarrow> domain_row \<Rightarrow> rendered_record \<Rightarrow> (go_err + dns_record_row) list op" where
  "create_rendered cl d r = bnd (attempt (SyncService_CreateRecord cl d (input_of r))) (\<lambda>x. ret [x])"

definition DNSRecordSyncHandler_ApplyTemplate ::
    "clients \<Rightarrow> (go_err \<Rightarrow> string) \<Rightarrow> http_request \<Rightarrow> reply handler" where
  "DNSRecordSyncHandler_ApplyTemplate cl message rq = with_domain rq (\<lambda>d.
     with_body ApplyTemplateSyncRequest rq (\<lambda>(template, vars, dry).
     bnd (coded [(ErrNoDNSTemplate, 40400), (ErrMissingVariable, 40001)] (ApplyTemplate template vars)) (\<lambda>rendered.
     if dry then ok (ApplyTemplateResult message [] rendered)
     else bnd (coded [] (collect rendered (create_rendered cl d))) (\<lambda>outcomes.
       ret (if outcomes \<noteq> [] \<and> list_all isl outcomes then 500 else 200,
            ApplyTemplateResult message outcomes [])))))"

section \<open>Look-ups\<close>

definition liveRecord :: "live_rec \<Rightarrow> jvalue" where
  "liveRecord r = JObject ([(''type'', JText (lr_type r)), (''name'', JText (lr_name r)), (''value'', JText (lr_value r)),
     (''ttl'', JInt (lr_ttl r))] @ unless_zero ''priority'' (lr_priority r))"

text \<open>The member \<open>error\<close>, which is there for an empty name only, is left out.\<close>

definition lookupResult :: "exchange \<Rightarrow> string \<Rightarrow> string \<Rightarrow> jvalue" where
  "lookupResult ex server fqdn0 = (let fqdn = undot (TrimSpace fqdn0) in
     JObject [(''fqdn'', JText fqdn), (''nameserver'', JText (if fqdn = [] then [] else server)),
       (''records'', slice liveRecord (Lookup ex server fqdn0))])"

definition parseQueryTypes :: "string \<Rightarrow> string list" where
  "parseQueryTypes raw = (if raw = [] then []
     else filter (\<lambda>p. p \<noteq> []) (map (\<lambda>p. TrimSpace (ToUpper p)) (Split (CHR '','') raw)))"

definition resolverResult :: "resolver_result \<Rightarrow> jvalue" where
  "resolverResult r = JObject [(''address'', JText (re_address (rs_entry r))), (''label'', JText (re_label (rs_entry r))),
     (''records'', slice liveRecord (rs_records r)), (''authoritative'', JTruth (re_authoritative (rs_entry r)))]"

definition propagationResult :: "exchange \<Rightarrow> (string \<Rightarrow> bool) \<Rightarrow> (string \<Rightarrow> string list) \<Rightarrow> string \<Rightarrow> string \<Rightarrow>
    string list \<Rightarrow> jvalue" where
  "propagationResult ex known hosts server fqdn0 types =
     (let fqdn = undot (TrimSpace fqdn0); p = CheckPropagation ex known hosts server fqdn0 types in
      JObject [(''fqdn'', JText fqdn),
        (''query_types'', slice JText (if fqdn = [] then [] else if types = [] then [''A'', ''AAAA''] else types)),
        (''resolvers'', slice resolverResult (fst p)), (''consistent'', JTruth (snd p))])"

definition DNSQueryHandler_LookupByDomain :: "exchange \<Rightarrow> string \<Rightarrow> http_request \<Rightarrow> reply handler" where
  "DNSQueryHandler_LookupByDomain ex server rq = with_any_domain rq (\<lambda>d. ok (lookupResult ex server (d_fqdn d)))"

definition DNSQueryHandler_LookupByFQDN :: "exchange \<Rightarrow> string \<Rightarrow> http_request \<Rightarrow> reply handler" where
  "DNSQueryHandler_LookupByFQDN ex server rq =
     (if Query rq ''fqdn'' = [] then throw 40001 else ok (lookupResult ex server (Query rq ''fqdn'')))"

definition DNSQueryHandler_PropagationByDomain :: "exchange \<Rightarrow> (string \<Rightarrow> bool) \<Rightarrow> (string \<Rightarrow> string list) \<Rightarrow> string \<Rightarrow>
    http_request \<Rightarrow> reply handler" where
  "DNSQueryHandler_PropagationByDomain ex known hosts server rq = with_any_domain rq (\<lambda>d.
     ok (propagationResult ex known hosts server (d_fqdn d) (parseQueryTypes (Query rq ''types''))))"

definition DNSQueryHandler_PropagationByFQDN :: "exchange \<Rightarrow> (string \<Rightarrow> bool) \<Rightarrow> (string \<Rightarrow> string list) \<Rightarrow> string \<Rightarrow>
    http_request \<Rightarrow> reply handler" where
  "DNSQueryHandler_PropagationByFQDN ex known hosts server rq =
     (if Query rq ''fqdn'' = [] then throw 40001
      else ok (propagationResult ex known hosts server (Query rq ''fqdn'') (parseQueryTypes (Query rq ''types''))))"

definition drift_text :: "drift_status \<Rightarrow> string" where
  "drift_text s = (case s of DriftOK \<Rightarrow> ''ok'' | DriftDetected \<Rightarrow> ''drift'' | DriftNoExpected \<Rightarrow> ''no_expected''
     | DriftError \<Rightarrow> ''error'')"

definition driftRecord :: "drift_record \<Rightarrow> jvalue" where
  "driftRecord r = JObject ([(''type'', JText (df_type r)), (''name'', JText (df_name r))] @
     unless_empty ''expected'' (df_expected r) @ unless_empty ''actual'' (df_actual r) @
     [(''match'', JTruth (df_match r))])"

definition driftResult :: "domain_row \<Rightarrow> dns_provider_row option \<Rightarrow> drift_result \<Rightarrow> jvalue" where
  "driftResult d p r = JObject [(''fqdn'', JText (d_fqdn d)),
     (''provider_name'', JText (case p of None \<Rightarrow> [] | Some pv \<Rightarrow> pv_provider_type pv)),
     (''provider_label'', JText (case p of None \<Rightarrow> [] | Some pv \<Rightarrow> pv_name pv)),
     (''status'', JText (drift_text (dr_status r))), (''records'', slice driftRecord (dr_records r)),
     (''expected_count'', JInt (int (dr_expected_count r))), (''actual_count'', JInt (int (dr_actual_count r))),
     (''match_count'', JInt (int (dr_match_count r))), (''drift_count'', JInt (int (dr_drift_count r))),
     (''missing_count'', JInt (int (dr_missing_count r))), (''extra_count'', JInt (int (dr_extra_count r)))]"

definition DNSQueryHandler_DriftCheck :: "clients \<Rightarrow> exchange \<Rightarrow> string \<Rightarrow> http_request \<Rightarrow> reply handler" where
  "DNSQueryHandler_DriftCheck cl ex server rq = with_any_domain rq (\<lambda>d.
     bnd (case d_dns_provider_id d of
            None \<Rightarrow> ret None
          | Some i \<Rightarrow> bnd (coded [] (attempt (DNSProviderStore_GetByID i))) (\<lambda>r.
              ret (case r of Inl e \<Rightarrow> None | Inr p \<Rightarrow> Some p))) (\<lambda>provider.
     ok (driftResult d provider (CheckDrift cl ex server d provider))))"

text \<open>The answer names the queue; the id that the broker gave the task is not in the model.\<close>

definition DNSQueryHandler_TriggerDriftCheckAll :: "http_request \<Rightarrow> reply handler" where
  "DNSQueryHandler_TriggerDriftCheckAll rq =
     seq_eff (coded_or 50001 [] (enqueue DriftCheckAllJob 1 300 ''default'' 0))
       (accepted (JObject [(''queue'', JText ''default'')]))"

section \<open>Templates of records\<close>

definition templateRecord :: "template_record \<Rightarrow> jvalue" where
  "templateRecord r = JObject ([(''name'', JText (tr_name r)), (''type'', JText (tr_type r)),
     (''content'', JText (tr_content r)), (''ttl'', JInt (tr_ttl r))] @ unless_zero ''priority'' (tr_priority r))"

definition toTemplateResponse :: "record_template_row \<Rightarrow> jvalue" where
  "toTemplateResponse t = JObject ([(''id'', JInt (rt_id t)), (''name'', JText (rt_name t))] @
     (case rt_description t of None \<Rightarrow> [] | Some s \<Rightarrow> [(''description'', JText s)]) @
     [(''records'', items templateRecord (rt_records t)), (''variables'', text_object (rt_variables t)),
      (''record_count'', JInt (int (length (rt_records t))))])"

text \<open>The tags \<open>required\<close> of the fields are not applied to the elements of a slice that has no tag \<open>dive\<close>.\<close>

definition TemplateRecordRequest :: "template_record decoder" where
  "TemplateRecordRequest b = do {
     name \<leftarrow> text_field ''name'' b;
     kind \<leftarrow> text_field ''type'' b;
     content \<leftarrow> text_field ''content'' b;
     ttl \<leftarrow> int_field ''ttl'' b;
     priority \<leftarrow> int_field ''priority'' b;
     Some \<lparr>tr_name = name, tr_type = kind, tr_content = content, tr_ttl = ttl, tr_priority = priority\<rparr> }"

record template_request =
  tq_name :: string
  tq_description :: "string option"
  tq_records :: "template_record list"
  tq_variables :: "variables option"

definition CreateDNSTemplateRequest :: "template_request decoder" where
  "CreateDNSTemplateRequest b = do {
     name \<leftarrow> required_text ''name'' b;
     description \<leftarrow> pointer as_text ''description'' b;
     records \<leftarrow> pointer (as_list TemplateRecordRequest
       \<lparr>tr_name = [], tr_type = [], tr_content = [], tr_ttl = 0, tr_priority = 0\<rparr>) ''records'' b;
     recs \<leftarrow> records;
     vars \<leftarrow> text_map ''variables'' b;
     Some \<lparr>tq_name = name, tq_description = description, tq_records = recs, tq_variables = vars\<rparr> }"

definition DNSTemplateHandler_List :: "http_request \<Rightarrow> reply handler" where
  "DNSTemplateHandler_List rq = bnd (coded [] DNSTemplateStore_List) (\<lambda>ts. ok (listing toTemplateResponse ts))"

definition DNSTemplateHandler_Get :: "http_request \<Rightarrow> reply handler" where
  "DNSTemplateHandler_Get rq = with_id ''id'' rq (\<lambda>i.
     bnd (coded [(ErrNoDNSTemplate, 40400)] (DNSTemplate_Get i)) (\<lambda>t. ok (toTemplateResponse t)))"

definition DNSTemplateHandler_Create :: "http_request \<Rightarrow> reply handler" where
  "DNSTemplateHandler_Create rq = with_body CreateDNSTemplateRequest rq (\<lambda>r.
     bnd (coded [(ErrInvalidTemplate, 40000)]
       (DNSTemplate_Create (tq_name r) (tq_description r) (tq_records r) (tq_variables r))) (\<lambda>t.
     created (toTemplateResponse t)))"

definition DNSTemplateHandler_Update :: "http_request \<Rightarrow> reply handler" where
  "DNSTemplateHandler_Update rq = with_id ''id'' rq (\<lambda>i. with_body CreateDNSTemplateRequest rq (\<lambda>r.
     bnd (coded [(ErrNoDNSTemplate, 40400), (ErrInvalidTemplate, 40000)]
       (DNSTemplate_Update i (tq_name r) (tq_description r) (tq_records r) (tq_variables r))) (\<lambda>t.
     ok (toTemplateResponse t))))"

definition DNSTemplateHandler_Delete :: "http_request \<Rightarrow> reply handler" where
  "DNSTemplateHandler_Delete rq = with_id ''id'' rq (\<lambda>i.
     seq_eff (coded [(ErrNoDNSTemplate, 40400)] (DNSTemplate_Delete i)) (ok JNull))"

definition ApplyTemplateRequest :: "(int \<times> variables) decoder" where
  "ApplyTemplateRequest b = do {
     template \<leftarrow> required_int ''template_id'' b;
     vars \<leftarrow> text_map ''variables'' b;
     Some (template, or_nil vars) }"

definition DNSTemplateHandler_ApplyTemplate :: "http_request \<Rightarrow> reply handler" where
  "DNSTemplateHandler_ApplyTemplate rq = with_id ''id'' rq (\<lambda>_. with_body ApplyTemplateRequest rq (\<lambda>(template, vars).
     bnd (coded [(ErrNoDNSTemplate, 40400), (ErrMissingVariable, 40000)] (ApplyTemplate template vars)) (\<lambda>rs.
     ok (JObject [(''records'', items renderedRecord rs), (''count'', JInt (int (length rs)))]))))"

section \<open>What only looks\<close>

lemma dns_look [looks]:
  "keeps read_only (DNSBindingHandler_GetStatus cl rq)" "keeps read_only (DNSRecordHandler_ListRecords cl rq)"
  "keeps read_only (DNSRecordSyncHandler_ListLocal rq)" "keeps read_only (DNSQueryHandler_LookupByDomain ex server rq)"
  "keeps read_only (DNSQueryHandler_LookupByFQDN ex server rq)"
  "keeps read_only (DNSQueryHandler_PropagationByDomain ex known hosts server rq)"
  "keeps read_only (DNSQueryHandler_PropagationByFQDN ex known hosts server rq)"
  "keeps read_only (DNSQueryHandler_DriftCheck cl ex server rq)" "keeps read_only (DNSTemplateHandler_List rq)"
  "keeps read_only (DNSTemplateHandler_Get rq)" "keeps read_only (DNSTemplateHandler_ApplyTemplate rq)"
  unfolding DNSBindingHandler_GetStatus_def DNSRecordHandler_ListRecords_def DNSRecordSyncHandler_ListLocal_def
    DNSQueryHandler_LookupByDomain_def DNSQueryHandler_LookupByFQDN_def DNSQueryHandler_PropagationByDomain_def
    DNSQueryHandler_PropagationByFQDN_def DNSQueryHandler_DriftCheck_def DNSTemplateHandler_List_def
    DNSTemplateHandler_Get_def DNSTemplateHandler_ApplyTemplate_def with_any_domain_def with_domain_def
    DomainStore_GetByID_def GetBindingStatus_def DNSProviderStore_GetByID_def client_of_def Service_ListRecords_def
    resolveProvider_def SyncService_ListRecords_def DNSRecordStore_ListByDomain_def DNSTemplateStore_List_def
    DNSTemplate_Get_def not_found_as_def DNSTemplateStore_GetByID_def ApplyTemplate_def Let_def
  by (intro eff_intro)+

end
