(* ===== verification/Spec2Isabelle.thy ===== *)
theory Spec2Isabelle
  imports Job_Chains Scenario Web_Releases Web_Dns
begin

text \<open>
  A verification development for the domain lifecycle and deployment platform: a control plane
  (API server and job worker over PostgreSQL, Redis and a job queue) that keeps domains,
  renders releases of them into signed artifacts and deploys these through pull agents, and
  that watches the domains with probes, expiry checks and alerts.

  \<^bold>\<open>How the program is modelled.\<close> An operation of the control plane is a function on \<open>world\<close>, a
  record of the database tables, the job queue, the Redis entries and the clock. Its type
  \<open>'a op\<close> is a state function with a result \<open>go_err + 'a\<close>, so every error return of the Go
  code is a branch. Each SQL statement consults the fault schedule \<open>faults\<close> of the world and
  may fail with a database error, so the theorems cover every pattern of outages, and a
  transaction that fails is rolled back. Rows are records with the columns the modelled
  code uses; \<open>NULL\<close> is \<open>None\<close>; constraints of migrations/ that a statement can violate are
  conditions of the insert. Integers of the database are \<open>int\<close>, times are seconds, \<open>float64\<close>
  confidences and load figures are rationals, IPv4 addresses and masks are words of 32 bits.
  The agent works on a \<open>host\<close> (files, directories and a log of reloads) with the same kind of
  operation. Nothing is bounded by fuel: every definition is total, by structural recursion or, for the
  CSV reader, by a measure; the search for the last firing time of a cron window is bounded by the code to
  the minutes of a week; and the polling of the finaliser is a chain of queue jobs whose counter the code
  bounds by 360 (Job\_Chains shows that these chains end).

  \<^bold>\<open>Theories and the code they model\<close> (paths under src/).
  \<^item> Prelude: errors as values, effects, loops over lists, invariants along effects, grouping, Go
    string functions. Tables: rows with a sequence, and what a keyed table promises.
  \<^item> Protocol (pkg/agentprotocol), Probe\_Protocol (pkg/probeprotocol): the messages on the wire,
    manifest validation and the directory checksum.
  \<^item> Store (store/postgres, internal/tasks/payloads.go): rows, tables, jobs, statements that fail.
  \<^item> Machines (internal/\{lifecycle,release,agent\}/statemachine.go): the transition graphs, and
    audit trails over a graph.
  \<^item> Lifecycle (internal/lifecycle/service.go, store/postgres/\{domain,lifecycle\}.go): registration,
    transitions, asset updates, transfers.
  \<^item> Agent\_Service (internal/agent, store/postgres/\{agent,host\_group\}.go): registration, heartbeat,
    task queue, reports, health check.
  \<^item> Planner (internal/release/\{planner,dispatcher\}.go): sharding and reload batching.
  \<^item> Release\_Store, Release\_Service (internal/release, store/postgres/\{release,domain\_task,rollback\}.go):
    the life of a release from creation to finalisation, and rollbacks.
  \<^item> Finalization: theorems about the finaliser of Release\_Service.
  \<^item> Artifact (internal/artifact, store/postgres/artifact.go): the reproducible build.
  \<^item> Agent\_Pipeline (cmd/agent): the nine phases of a deployment and the rollback on a host.
  \<^item> Alerting (internal/alert, store/postgres/\{alert,notification\}.go): deduplication, fan-out, dispatch.
  \<^item> Gfw\_Analyzer, Gfw\_Confidence, Gfw\_Service (internal/gfw, store/postgres/gfw\_*.go): classification
    of measurements, confidence, probe fleet, verdicts and blocking alerts.
  \<^item> Expiry (internal/domain/\{expiry,task\}.go), Permission (internal/domain/permission.go).
  \<^item> Asset\_Rows, Asset\_Store: the tables of the asset services, the marks in Redis, and the statements
    on both. Dns\_Safety (pkg/provider/dns/safety.go): plans of changes and their check.
  \<^item> Dns\_Records (internal/dnsrecord/\{service,sync\}.go), Dns\_Delegation (binding, ns\_checker,
    ns\_task.go), Dns\_Drift (internal/dnsquery): records at the provider and their local copy, the
    delegation check, propagation and drift.
  \<^item> Maintenance (internal/maintenance), Probe\_Checkers and Uptime (internal/probe), Status\_Page
    (internal/statuspage, internal/probe/analytics.go): windows and their recurrence, the checks of three
    tiers, the life of a probe task, the public pages.
  \<^item> Registrars (internal/\{registrar,dnsprovider\}), Tags (internal/tag), Costs (internal/cost),
    Certificates (internal/ssl), Importer (internal/importer, with the CSV reader of the standard library).
  \<^item> Templates (internal/template), Projects (internal/project), Record\_Templates (internal/dnstemplate): versions
    and their publication, slugs, placeholders. Cdn (internal/\{cdn,cdndomain\}): accounts and bindings.
  \<^item> Dry\_Run (internal/release/dryrun.go): the preview of a release.
  \<^item> Access (internal/auth, api/middleware, api/router): users, login, tokens, guards and the routes they guard.
  \<^item> Requests, Web\_Releases, Web\_Domains, Web\_Assets, Web\_Dns (api/handler): requests, the decoding of their JSON
    bodies, and the handlers: which operation they call, which code each error gets, what they answer. The lemmas
    \<open>looks\<close> say which of them only read.
  \<^item> Asset\_Services: the requests and jobs of all of these, and the locale \<open>asset_preorder\<close> of what they keep.
  \<^item> Platform (cmd/worker/main.go): every service call and job as a step of one transition system,
    interleaved with outages, time and at-least-once delivery; Scenario: concrete runs of it.
  \<^item> Job\_Chains: which jobs the release jobs queue, and why every chain of them ends.

  \<^bold>\<open>What the lemmas show.\<close> Each component has a preorder on worlds (\<open>lc_step\<close>, \<open>ag_step\<close>, \<open>rel_step\<close>,
  \<open>art_step\<close>, \<open>al_step\<close>, \<open>ver_step\<close>, \<open>asset_step\<close> for the invariants of the asset tables: its invariant is kept and its rows only move as the component promises), the
  lemmas \<open>keeps\<close> show that each operation stays within it under every fault schedule, and
  locales (\<open>store_preorder\<close>, \<open>domain_blind\<close>, \<open>agent_blind\<close>, \<open>release_blind\<close>, \<open>alert_blind\<close>, \<open>asset_blind\<close>, \<open>version_blind\<close>,
  \<open>monitor_preorder\<close>, \<open>asset_preorder\<close>, \<open>platform_preorder\<close>) state what one component needs of another's operations;
  Platform interprets them on the model and concludes what holds in every reachable world.
  Functional properties give the result of an operation when the database answers; equivalences
  relate an optimised routine to a reference (planner, reload batching, the classifier); the
  confidence trackers are two interpretations of one interface whose score refines a
  function of the whole history. Some theorems record what the code does where it
  differs from what it means to do (rollbacks, finalisation, probe registration, expiry).

  \<^bold>\<open>Parameters\<close>, for code outside the repository: the hash \<open>sha\<close>, the keyed hash \<open>mac\<close>, the
  template engine \<open>render\<close>, \<open>upload\<close> and \<open>presign\<close> of the object store, the answers of the object
  store and of nginx to the agent (\<open>outside\<close>), the notification senders \<open>send\<close>, an optional
  network database \<open>asn\<close>, the existing role names, and the parties in \<open>outside_services\<close>: the clients of DNS
  providers, the resolver (\<open>exchange\<close>), the offsets of time zones, the network the probes see, the password
  hash, the API of a registrar, the TLS connection, the clients of CDN providers; the token library and the password
  check in Access. File paths are taken as already cleaned, CSV files
  as ASCII text.

  \<^bold>\<open>Not modelled.\<close> The handlers of monitoring and agents, the mTLS middlewares and configuration; the clients of DNS, CDN, registrar, notification and storage
  services (their behaviour is that of remote systems); some read-only listings and statistics.
\<close>

end
